(* ===== verification/Prelude.thy ===== *)
theory Prelude
  imports Main "HOL-Library.List_Lexorder" "HOL-Library.Char_ord" "HOL-Library.Product_Lexorder"
begin

text \<open>
  Shared vocabulary of the development: the types every component uses (identifiers,
  instants, JSON values, text), results of operations that may fail, tables as lists of
  rows with the SQL statements the repositories send, and the lemmas on them that the
  component theories share.

  Conventions.  A Python \<open>str\<close> is a HOL \<open>string\<close>, a list of code points below
  256; a \<open>UUID\<close> is its 128-bit value as a natural number (Python and PostgreSQL both
  order UUIDs by that value); a \<open>datetime\<close> is a number of microseconds since the epoch
  (the resolution of Python's \<open>datetime\<close> and of \<open>timestamptz\<close>).  A transaction
  of the database is a function from the tables to a result; a raised exception is
  \<open>Inl\<close> and rolls the transaction back, so it carries no new tables.
\<close>

type_synonym uuid = nat
type_synonym instant = int

definition seconds :: "int \<Rightarrow> int" where
  "seconds n = n * 1000000"

lemma seconds_mono [simp]: "seconds a \<le> seconds b \<longleftrightarrow> a \<le> b"
  by (simp add: seconds_def)

lemma seconds_pos [simp]: "0 < seconds n \<longleftrightarrow> 0 < n"
  by (simp add: seconds_def)

lemma seconds_nonneg [simp]: "0 \<le> seconds n \<longleftrightarrow> 0 \<le> n"
  by (simp add: seconds_def)

datatype json =
    JNull
  | JBool bool
  | JInt int
  | JString string
  | JArray "json list"
  | JObject "(string \<times> json) list"

subsection \<open>Results\<close>

text \<open>
  \<open>attempt m f\<close> runs \<open>f\<close> on the value of \<open>m\<close> and passes an error of
  \<open>m\<close> through: the sequencing of two Python statements of which the first may raise.
\<close>

fun attempt :: "'e + 'a \<Rightarrow> ('a \<Rightarrow> 'e + 'b) \<Rightarrow> 'e + 'b" where
  "attempt (Inl e) f = Inl e"
| "attempt (Inr x) f = f x"

definition ensure :: "bool \<Rightarrow> 'e \<Rightarrow> 'e + unit" where
  "ensure b e = (if b then Inr () else Inl e)"

named_theorems result_simps "elimination of sequenced results"

lemma attempt_Inr [result_simps]:
  "attempt m f = Inr y \<longleftrightarrow> (\<exists>x. m = Inr x \<and> f x = Inr y)"
  by (cases m) auto

lemma attempt_Inl [result_simps]:
  "attempt m f = Inl e \<longleftrightarrow> m = Inl e \<or> (\<exists>x. m = Inr x \<and> f x = Inl e)"
  by (cases m) auto

lemma ensure_Inr [result_simps]: "ensure b e = Inr u \<longleftrightarrow> b"
  by (simp add: ensure_def)

lemma ensure_Inl [result_simps]: "ensure b e = Inl e' \<longleftrightarrow> \<not> b \<and> e' = e"
  by (auto simp: ensure_def)

lemma attempt_ensure [simp]: "attempt (ensure b e) f = (if b then f () else Inl e)"
  by (simp add: ensure_def)

lemma attempt_assoc: "attempt (attempt m f) g = attempt m (\<lambda>x. attempt (f x) g)"
  by (cases m) auto

text \<open>How a sequence of steps that returned a value ran, one construct at a time.\<close>

lemma attempt_InrE:
  assumes "attempt m f = Inr y" obtains x where "m = Inr x" and "f x = Inr y"
  using assms by (cases m) auto

lemma if_InrE:
  assumes "(if b then m else n) = Inr y" obtains "b" and "m = Inr y" | "\<not> b" and "n = Inr y"
  using assms by (auto split: if_splits)

lemma case_option_InrE:
  assumes "(case v of None \<Rightarrow> m | Some x \<Rightarrow> f x) = Inr y"
  obtains "v = None" and "m = Inr y" | x where "v = Some x" and "f x = Inr y"
  using assms by (cases v) auto

lemma case_prod_InrE:
  assumes "(case v of (a, b) \<Rightarrow> f a b) = Inr y" obtains a b where "v = (a, b)" and "f a b = Inr y"
  using assms by (cases v) auto

lemma case_prod_app_InrE:
  assumes "(case v of (a, b) \<Rightarrow> f a b) c = Inr y" obtains a b where "v = (a, b)" and "f a b c = Inr y"
  using assms by (cases v) auto

lemma Inl_InrE: "Inl e = Inr y \<Longrightarrow> P"
  by simp

lemma Let_InrE: assumes "Let v f = Inr y" obtains "f v = Inr y"
  using assms by simp

lemmas result_elims = attempt_InrE if_InrE case_option_InrE case_prod_InrE
  case_prod_app_InrE Inl_InrE Let_InrE

text \<open>
  A transaction that failed leaves the tables as they were: \<open>commit\<close> is what the
  \<open>async with database.transaction(...)\<close> block does with the result of its body.
\<close>

fun commit :: "'s \<Rightarrow> 'e + ('a \<times> 's) \<Rightarrow> ('e + 'a) \<times> 's" where
  "commit s (Inl e) = (Inl e, s)"
| "commit s (Inr (x, s')) = (Inr x, s')"

lemma commit_error_keeps_state: "commit s m = (Inl e, s') \<Longrightarrow> s' = s"
  by (cases "(s, m)" rule: commit.cases) auto

lemma commit_Inr: "commit s m = (Inr x, s') \<longleftrightarrow> m = Inr (x, s')"
  by (cases "(s, m)" rule: commit.cases) auto

subsection \<open>Tables\<close>

text \<open>
  A table is the list of its rows.  \<open>sql_update\<close> returns the changed rows
  (\<open>returning\<close>) and the new table; a row-level \<open>before update\<close> trigger is a guard on
  the old and the new row, which runs before the check constraints of the new row, and either
  aborts the statement.  \<open>sql_insert\<close> evaluates the check constraints and then the unique
  constraints, given as the relation that says when two rows conflict.
\<close>

datatype db_error = UniqueViolation | CheckViolation | TriggerViolation | ForeignKeyViolation

definition rows_matching :: "('r \<Rightarrow> bool) \<Rightarrow> 'r list \<Rightarrow> 'r list" where
  "rows_matching p rows = filter p rows"

definition put_where :: "('r \<Rightarrow> bool) \<Rightarrow> ('r \<Rightarrow> 'r) \<Rightarrow> 'r list \<Rightarrow> 'r list" where
  "put_where p f rows = map (\<lambda>r. if p r then f r else r) rows"

definition sql_update ::
    "('r \<Rightarrow> 'r \<Rightarrow> bool) \<Rightarrow> ('r \<Rightarrow> bool) \<Rightarrow> ('r \<Rightarrow> bool) \<Rightarrow> ('r \<Rightarrow> 'r) \<Rightarrow> 'r list
      \<Rightarrow> db_error + ('r list \<times> 'r list)" where
  "sql_update guard check p f rows =
     (if \<not> list_all (\<lambda>r. guard r (f r)) (filter p rows) then Inl TriggerViolation
      else if \<not> list_all (\<lambda>r. check (f r)) (filter p rows) then Inl CheckViolation
      else Inr (map f (filter p rows), put_where p f rows))"

definition sql_insert ::
    "('r \<Rightarrow> bool) \<Rightarrow> ('r \<Rightarrow> 'r \<Rightarrow> bool) \<Rightarrow> 'r \<Rightarrow> 'r list \<Rightarrow> db_error + 'r list" where
  "sql_insert check conflicts r rows =
     (if \<not> check r then Inl CheckViolation
      else if list_ex (\<lambda>x. conflicts x r) rows then Inl UniqueViolation
      else Inr (rows @ [r]))"

text \<open>
  \<open>insert ... on conflict (arbiter) do nothing\<close>: \<open>None\<close> is the skipped insertion, which a
  conflict on the arbiter's columns alone causes.
\<close>

definition sql_insert_or_skip ::
    "('r \<Rightarrow> bool) \<Rightarrow> ('r \<Rightarrow> 'r \<Rightarrow> bool) \<Rightarrow> ('r \<Rightarrow> 'r \<Rightarrow> bool) \<Rightarrow> 'r \<Rightarrow> 'r list
      \<Rightarrow> db_error + 'r list option" where
  "sql_insert_or_skip check arbiter conflicts r rows =
     (if \<not> check r then Inl CheckViolation
      else if list_ex (\<lambda>x. arbiter x r) rows then Inr None
      else if list_ex (\<lambda>x. conflicts x r) rows then Inl UniqueViolation
      else Inr (Some (rows @ [r])))"

definition first_row :: "('r \<Rightarrow> bool) \<Rightarrow> 'r list \<Rightarrow> 'r option" where
  "first_row p rows = (case filter p rows of [] \<Rightarrow> None | r # _ \<Rightarrow> Some r)"

named_theorems table_simps "facts about table statements"

lemma first_row_Some:
  "first_row p rows = Some r \<Longrightarrow> r \<in> set rows \<and> p r"
  by (auto simp: first_row_def filter_eq_Cons_iff split: list.splits)

lemma first_row_None [table_simps]:
  "first_row p rows = None \<longleftrightarrow> (\<forall>r \<in> set rows. \<not> p r)"
  by (auto simp: first_row_def filter_empty_conv filter_eq_Cons_iff split: list.splits)

lemma first_row_None' [table_simps]:
  "None = first_row p rows \<longleftrightarrow> (\<forall>r \<in> set rows. \<not> p r)"
  by (metis first_row_None)

lemma first_row_refine: "first_row p rows = Some r \<Longrightarrow> q r \<Longrightarrow> first_row (\<lambda>x. p x \<and> q x) rows = Some r"
  by (induction rows) (auto simp: first_row_def split: if_splits)

lemma first_row_key:
  assumes "distinct (map key rows)" and "r \<in> set rows"
  shows "first_row (\<lambda>x. key x = key r) rows = Some r"
  using assms by (induction rows) (auto simp: first_row_def image_iff)

lemma first_row_key_None: "first_row (\<lambda>x. key x = k) rows = None \<longleftrightarrow> k \<notin> key ` set rows"
  by (auto simp: first_row_None)

lemma filter_put_where_other:
  assumes "\<And>r. p r \<Longrightarrow> \<not> q r \<and> \<not> q (f r)"
  shows "filter q (put_where p f rows) = filter q rows"
  using assms by (induction rows) (auto simp: put_where_def)

lemma filter_put_where_same:
  assumes "\<And>r. p r \<Longrightarrow> q (f r) = q r"
  shows "filter q (put_where p f rows) = put_where p f (filter q rows)"
  using assms by (induction rows) (auto simp: put_where_def)

lemma map_put_where_key:
  assumes "\<And>r. p r \<Longrightarrow> key (f r) = key r"
  shows "map key (put_where p f rows) = map key rows"
  using assms by (induction rows) (auto simp: put_where_def)

lemma set_put_where:
  "set (put_where p f rows) = f ` {r \<in> set rows. p r} \<union> {r \<in> set rows. \<not> p r}"
  by (auto simp: put_where_def)

lemma put_where_Nil [simp]: "put_where p f [] = []"
  by (simp add: put_where_def)

lemma put_where_Cons [simp]:
  "put_where p f (r # rows) = (if p r then f r else r) # put_where p f rows"
  by (simp add: put_where_def)

lemma put_where_none: "(\<And>r. r \<in> set rows \<Longrightarrow> \<not> p r) \<Longrightarrow> put_where p f rows = rows"
  by (induction rows) auto

lemma length_put_where [simp]: "length (put_where p f rows) = length rows"
  by (simp add: put_where_def)

lemma put_where_map: "put_where p f rows = map (\<lambda>r. if p r then f r else r) rows"
  by (simp add: put_where_def)

lemma sql_update_Inr [table_simps]:
  "sql_update guard check p f rows = Inr (upd, rows') \<longleftrightarrow>
     (\<forall>r \<in> set rows. p r \<longrightarrow> guard r (f r) \<and> check (f r)) \<and> upd = map f (filter p rows)
     \<and> rows' = put_where p f rows"
  by (auto simp: sql_update_def list_all_iff)

lemma sql_update_ok:
  "(\<And>r. r \<in> set rows \<Longrightarrow> p r \<Longrightarrow> guard r (f r) \<and> check (f r)) \<Longrightarrow>
     sql_update guard check p f rows = Inr (map f (filter p rows), put_where p f rows)"
  by (simp add: sql_update_Inr)

lemma sql_insert_Inr [table_simps]:
  "sql_insert check conflicts r rows = Inr rows' \<longleftrightarrow>
     check r \<and> (\<forall>x \<in> set rows. \<not> conflicts x r) \<and> rows' = rows @ [r]"
  by (auto simp: sql_insert_def list_ex_iff)

text \<open>Selecting the row with a given primary key from a table with distinct keys.\<close>

lemma filter_key_unique:
  assumes "distinct (map key rows)" and "r \<in> set rows"
  shows "filter (\<lambda>x. key x = key r) rows = [r]"
  using assms by (induction rows) (auto simp: filter_empty_conv image_iff)

lemma filter_key_and_unique:
  assumes "distinct (map key rows)" and "r \<in> set rows"
  shows "filter (\<lambda>x. key x = key r \<and> p x) rows = (if p r then [r] else [])"
  using assms by (induction rows) (auto simp: filter_empty_conv image_iff)

lemma distinct_key_eq:
  "distinct (map key rows) \<Longrightarrow> x \<in> set rows \<Longrightarrow> y \<in> set rows \<Longrightarrow> key x = key y \<Longrightarrow> x = y"
  by (induction rows) (auto simp: image_iff)

subsection \<open>Text\<close>

text \<open>Python's \<open>str.strip\<close> on code points below 256.\<close>

definition is_space :: "char \<Rightarrow> bool" where
  "is_space c = (let n = (of_char c :: nat) in
     (9 \<le> n \<and> n \<le> 13) \<or> (28 \<le> n \<and> n \<le> 32) \<or> n = 133 \<or> n = 160)"

definition py_strip :: "string \<Rightarrow> string" where
  "py_strip s = rev (dropWhile is_space (rev (dropWhile is_space s)))"

definition is_digit :: "char \<Rightarrow> bool" where
  "is_digit c = (let n = (of_char c :: nat) in 48 \<le> n \<and> n \<le> 57)"

definition is_upper :: "char \<Rightarrow> bool" where
  "is_upper c = (let n = (of_char c :: nat) in 65 \<le> n \<and> n \<le> 90)"

definition is_lower :: "char \<Rightarrow> bool" where
  "is_lower c = (let n = (of_char c :: nat) in 97 \<le> n \<and> n \<le> 122)"

definition is_alnum :: "char \<Rightarrow> bool" where
  "is_alnum c = (is_digit c \<or> is_upper c \<or> is_lower c)"

text \<open>Decimal text of a natural number, of an integer, and the value of a digit string.\<close>

definition digit_char :: "nat \<Rightarrow> char" where
  "digit_char d = char_of (48 + d)"

fun dec_text :: "nat \<Rightarrow> string" where
  "dec_text n = (if n < 10 then [digit_char n] else dec_text (n div 10) @ [digit_char (n mod 10)])"

declare dec_text.simps [simp del]

definition int_text :: "int \<Rightarrow> string" where
  "int_text i = (if i < 0 then CHR ''-'' # dec_text (nat (- i)) else dec_text (nat i))"

definition digit_value :: "char \<Rightarrow> nat" where
  "digit_value c = of_char c - 48"

definition dec_value :: "string \<Rightarrow> nat" where
  "dec_value s = foldl (\<lambda>acc c. acc * 10 + digit_value c) 0 s"

lemma digit_char_0 [simp]: "digit_char 0 = CHR ''0''"
  by code_simp

lemma of_char_digit_char: "d < 10 \<Longrightarrow> of_char (digit_char d) = 48 + d"
  by (simp add: digit_char_def)

lemma digit_char_props [simp]:
  assumes "d < 10"
  shows "is_digit (digit_char d)" and "digit_value (digit_char d) = d"
    and "\<not> is_space (digit_char d)"
  using assms by (auto simp: is_digit_def digit_value_def is_space_def of_char_digit_char Let_def)

lemma digit_char_value:
  assumes "is_digit c"
  shows "digit_char (digit_value c) = c" and "digit_value c < 10"
proof -
  have "48 + (of_char c - 48) = (of_char c :: nat)"
    using assms by (simp add: is_digit_def Let_def)
  then show "digit_char (digit_value c) = c"
    by (simp add: digit_char_def digit_value_def)
  show "digit_value c < 10"
    using assms by (simp add: digit_value_def is_digit_def Let_def less_diff_conv2)
qed

lemma dec_value_snoc [simp]: "dec_value (s @ [c]) = dec_value s * 10 + digit_value c"
  by (simp add: dec_value_def)

lemma dec_value_Nil [simp]: "dec_value [] = 0"
  by (simp add: dec_value_def)

lemma dec_value_text [simp]: "dec_value (dec_text n) = n"
proof (induction n rule: dec_text.induct)
  case (1 n)
  show ?case
  proof (cases "n < 10")
    case True
    then show ?thesis
      by (subst dec_text.simps) (simp add: dec_value_def)
  next
    case False
    then have "dec_value (dec_text (n div 10)) = n div 10" by (rule "1.IH")
    with False show ?thesis
      by (subst dec_text.simps) simp
  qed
qed

lemma dec_text_digits: "list_all is_digit (dec_text n)"
proof (induction n rule: dec_text.induct)
  case (1 n)
  then show ?case by (subst dec_text.simps) simp
qed

lemma dec_text_nonempty [simp]: "dec_text n \<noteq> []"
  by (subst dec_text.simps) simp

lemma hd_dec_text: "0 < n \<Longrightarrow> hd (dec_text n) \<noteq> CHR ''0''"
proof (induction n rule: dec_text.induct)
  case (1 n)
  show ?case
  proof (cases "n < 10")
    case True
    have "digit_char n = CHR ''0'' \<Longrightarrow> n = 0"
      using of_char_digit_char [OF True] by simp
    with True \<open>0 < n\<close> show ?thesis
      by (subst dec_text.simps) auto
  next
    case False
    then have "hd (dec_text (n div 10)) \<noteq> CHR ''0''"
      using "1.IH" by simp
    with False show ?thesis
      by (subst dec_text.simps) simp
  qed
qed

text \<open>A digit string without a leading zero is the decimal text of its value.\<close>

lemma dec_text_value:
  "list_all is_digit s \<Longrightarrow> s \<noteq> [] \<Longrightarrow> hd s \<noteq> CHR ''0'' \<Longrightarrow> dec_text (dec_value s) = s"
proof (induction s rule: rev_induct)
  case Nil
  then show ?case by simp
next
  case (snoc c s)
  have c: "digit_char (digit_value c) = c" "digit_value c < 10"
    using snoc.prems digit_char_value by auto
  show ?case
  proof (cases "s = []")
    case True
    then have "dec_value (s @ [c]) = digit_value c" by (simp add: dec_value_def)
    with c True show ?thesis by (subst dec_text.simps) simp
  next
    case False
    with snoc.prems have hd: "hd s \<noteq> CHR ''0''" and ds: "list_all is_digit s" by auto
    have IH: "dec_text (dec_value s) = s"
      using snoc.IH ds False hd by simp
    have "dec_value s \<noteq> 0"
    proof
      assume "dec_value s = 0"
      with IH have "s = [digit_char 0]" by (simp add: dec_text.simps)
      with hd show False by simp
    qed
    then have "\<not> dec_value (s @ [c]) < 10" by simp
    then have "dec_text (dec_value (s @ [c]))
        = dec_text (dec_value (s @ [c]) div 10) @ [digit_char (dec_value (s @ [c]) mod 10)]"
      by (subst dec_text.simps) simp
    also have "\<dots> = s @ [c]"
      using c IH by simp
    finally show ?thesis .
  qed
qed

text \<open>\<open>str(uuid)\<close>: 32 lower-case hexadecimal digits in groups of 8, 4, 4, 4 and 12.\<close>

definition hex_char :: "nat \<Rightarrow> char" where
  "hex_char d = (if d < 10 then char_of (48 + d) else char_of (87 + d))"

fun hex_digits :: "nat \<Rightarrow> nat \<Rightarrow> string" where
  "hex_digits 0 n = []"
| "hex_digits (Suc k) n = hex_digits k (n div 16) @ [hex_char (n mod 16)]"

definition uuid_text :: "uuid \<Rightarrow> string" where
  "uuid_text u = (let h = hex_digits 32 u in
     take 8 h @ ''-'' @ take 4 (drop 8 h) @ ''-'' @ take 4 (drop 12 h) @ ''-''
     @ take 4 (drop 16 h) @ ''-'' @ drop 20 h)"

text \<open>The quotation mark of the f-strings.\<close>

definition quoted :: "string \<Rightarrow> string" where
  "quoted s = CHR 0x27 # s @ [CHR 0x27]"

text \<open>
  The anchored identifier patterns \<open>^F[R]{lo,hi}$\<close>: a first character of one class and
  between \<open>lo\<close> and \<open>hi\<close> more of another.
\<close>

definition matches_ident ::
    "(char \<Rightarrow> bool) \<Rightarrow> (char \<Rightarrow> bool) \<Rightarrow> nat \<Rightarrow> nat \<Rightarrow> string \<Rightarrow> bool" where
  "matches_ident first rest lo hi s = (case s of [] \<Rightarrow> False
     | c # cs \<Rightarrow> first c \<and> list_all rest cs \<and> lo \<le> length cs \<and> length cs \<le> hi)"

definition alnum_or :: "string \<Rightarrow> char \<Rightarrow> bool" where
  "alnum_or extra c = (is_alnum c \<or> List.member extra c)"

text \<open>The shapes of a content digest and of a client's mutation identifier.\<close>

definition is_hex :: "char \<Rightarrow> bool" where
  "is_hex c = (is_digit c \<or> (97 \<le> (of_char c :: nat) \<and> (of_char c :: nat) \<le> 102))"

definition digest_pattern :: "string \<Rightarrow> bool" where
  "digest_pattern s = (take 7 s = ''sha256:'' \<and> length s = 71 \<and> list_all is_hex (drop 7 s))"

definition mutation_pattern :: "string \<Rightarrow> bool" where
  "mutation_pattern s = matches_ident is_alnum (alnum_or ''._:-'') 7 199 s"

text \<open>
  \<open>str.casefold\<close> below 256.  The micro sign, whose folding lies outside this range, is kept;
  no character but an ASCII letter folds to one.
\<close>

definition casefold_char :: "char \<Rightarrow> string" where
  "casefold_char c = (let n = (of_char c :: nat) in
     if n = 223 then ''ss''
     else if is_upper c \<or> (192 \<le> n \<and> n \<le> 222 \<and> n \<noteq> 215) then [char_of (n + 32)] else [c])"

definition casefold :: "string \<Rightarrow> string" where
  "casefold s = concat (map casefold_char s)"

end
