(* ===== verification/Core.thy ===== *)
theory Core
  imports Prelude
begin

text \<open>
  The core package: the stable error codes an application error carries
  (\<^verbatim>\<open>core/errors.py\<close>) and the strong ETags of optimistic concurrency
  (\<^verbatim>\<open>core/concurrency.py\<close>).  Of an \<open>ApplicationError\<close> the model keeps the
  code and the HTTP status; the Chinese \<open>title\<close> and \<open>detail\<close> texts and the
  response headers are not modelled.
\<close>

datatype error_code =
    INVALID_REQUEST | VALIDATION_FAILED | AUTHENTICATION_REQUIRED | AUTHENTICATION_FAILED
  | FORBIDDEN | NOT_FOUND | CONFLICT | PRECONDITION_FAILED | POOL_EXHAUSTED
  | CONSTRAINT_UNSATISFIED | LEASE_EXPIRED | LEASE_FENCED | CREDENTIAL_EXPIRED
  | ORIGIN_NOT_ALLOWED | SECRET_GRANT_EXPIRED | SECRET_GRANT_REPLAYED | SECRET_GRANT_REVOKED
  | SESSION_CREATION_IN_PROGRESS | SESSION_UNAVAILABLE | SESSION_INTEGRITY_FAILED
  | PROVIDER_UNAVAILABLE | DEPENDENCY_UNAVAILABLE | ASSET_IMMUTABLE
  | PUBLICATION_EVIDENCE_REQUIRED | DRAFT_REVISION_CONFLICT | TRIAL_RUN_REQUIRED
  | DEBUG_RUN_OUTDATED | DEBUG_RUNTIME_UNAVAILABLE | EVIDENCE_NOT_READY
  | EVIDENCE_INTEGRITY_FAILED | LIVE_CURSOR_INVALID | LIVE_STREAM_CAPACITY_EXCEEDED
  | INTERNAL_ERROR

record application_error =
  error_code :: error_code
  status_code :: nat

definition app_error :: "error_code \<Rightarrow> nat \<Rightarrow> application_error" where
  "app_error c n = \<lparr>error_code = c, status_code = n\<rparr>"

text \<open>
  What a handler can raise: an error made for the caller, or one that means a broken
  internal assumption (\<open>RuntimeError\<close> or a failed \<open>assert\<close>, a rejected Pydantic
  model or \<open>ValueError\<close>, a constraint or trigger of the database), or the
  \<open>ResultProjectionError\<close> with which a result projection refuses inconsistent facts.
\<close>

datatype failure =
    Application application_error
  | RuntimeFailure
  | ModelInvalid
  | DatabaseFailure db_error
  | ProjectionError string

definition app_failure :: "error_code \<Rightarrow> nat \<Rightarrow> failure" where
  "app_failure c n = Application (app_error c n)"

fun is_application :: "failure \<Rightarrow> bool" where
  "is_application (Application _) = True"
| "is_application _ = False"

lemma is_application_app_failure [simp]: "is_application (app_failure c n)"
  by (simp add: app_failure_def)

lemma app_failure_inject [simp]:
  "app_failure c n = app_failure c' n' \<longleftrightarrow> c = c' \<and> n = n'"
  by (simp add: app_failure_def app_error_def)

lemma app_failure_distinct [simp]:
  "app_failure c n \<noteq> RuntimeFailure" "app_failure c n \<noteq> ModelInvalid"
  "app_failure c n \<noteq> DatabaseFailure e"
  "app_failure c n \<noteq> ProjectionError k" "ProjectionError k \<noteq> app_failure c n"
  "RuntimeFailure \<noteq> app_failure c n" "ModelInvalid \<noteq> app_failure c n"
  "DatabaseFailure e \<noteq> app_failure c n"
  by (simp_all add: app_failure_def)

text \<open>A statement sent to the database inside a handler.\<close>

fun db_call :: "db_error + 'a \<Rightarrow> failure + 'a" where
  "db_call (Inl e) = Inl (DatabaseFailure e)"
| "db_call (Inr x) = Inr x"

lemma db_call_Inr [result_simps]: "db_call m = Inr x \<longleftrightarrow> m = Inr x"
  by (cases m) auto

lemma db_call_Inl [result_simps]:
  "db_call m = Inl f \<longleftrightarrow> (\<exists>e. m = Inl e \<and> f = DatabaseFailure e)"
  by (cases m) auto

text \<open>
  \<open>model_validate\<close> on the row a cursor returned, if it returned one, and \<open>fetchone\<close> on the
  rows of a \<open>returning\<close> clause.
\<close>

fun model_row :: "('r \<Rightarrow> bool) \<Rightarrow> 'r option \<Rightarrow> failure + 'r option" where
  "model_row valid None = Inr None"
| "model_row valid (Some r) = (if valid r then Inr (Some r) else Inl ModelInvalid)"

definition fetch_one :: "('r \<Rightarrow> bool) \<Rightarrow> 'r list \<Rightarrow> failure + 'r option" where
  "fetch_one valid rows = model_row valid (case rows of [] \<Rightarrow> None | r # _ \<Rightarrow> Some r)"

lemma model_row_Inr [result_simps]:
  "model_row valid opt = Inr x \<longleftrightarrow> x = opt \<and> (case opt of None \<Rightarrow> True | Some r \<Rightarrow> valid r)"
  by (cases opt) auto

lemma model_row_all_valid:
  "(\<And>r. opt = Some r \<Longrightarrow> valid r) \<Longrightarrow> model_row valid opt = Inr opt"
  by (cases opt) auto

lemma fetch_one_Nil [simp]: "fetch_one valid [] = Inr None"
  by (simp add: fetch_one_def)

lemma fetch_one_Cons [simp]: "valid r \<Longrightarrow> fetch_one valid (r # rs) = Inr (Some r)"
  by (simp add: fetch_one_def)

text \<open>
  The outcomes an operation may have when nothing internal goes wrong: an error meant for the
  caller, or a value that satisfies \<open>Q\<close>.
\<close>

definition outcome :: "('a \<Rightarrow> bool) \<Rightarrow> failure + 'a \<Rightarrow> bool" where
  "outcome Q m = (case m of Inl f \<Rightarrow> is_application f | Inr x \<Rightarrow> Q x)"

named_theorems outcome_rules "outcomes of sequenced operations"

lemma outcome_Inr [simp]: "outcome Q (Inr x) = Q x"
  and outcome_app_failure [simp]: "outcome Q (Inl (app_failure c n))"
  by (simp_all add: outcome_def)

lemma outcome_attempt [outcome_rules]:
  "outcome (\<lambda>x. outcome Q (f x)) m \<Longrightarrow> outcome Q (attempt m f)"
  by (cases m) (auto simp: outcome_def)

lemma outcome_ensure [outcome_rules]:
  "is_application e \<Longrightarrow> (b \<Longrightarrow> outcome Q (f ())) \<Longrightarrow> outcome Q (attempt (ensure b e) f)"
  by (simp add: outcome_def)

lemma outcome_weaken: "outcome P m \<Longrightarrow> (\<And>x. P x \<Longrightarrow> Q x) \<Longrightarrow> outcome Q m"
  by (cases m) (auto simp: outcome_def)

lemma outcome_Inl: "outcome Q m \<Longrightarrow> m = Inl f \<Longrightarrow> is_application f"
  and outcome_InrD: "outcome Q m \<Longrightarrow> m = Inr x \<Longrightarrow> Q x"
  by (simp_all add: outcome_def)

subsection \<open>ETags\<close>

definition strong_etag :: "string \<Rightarrow> int \<Rightarrow> string" where
  "strong_etag name n = CHR 0x22 # name @ ''-'' @ int_text n @ [CHR 0x22]"

text \<open>\<open>fullmatch\<close> of \<open>"<name>-([1-9][0-9]*)"\<close>, giving the captured digits.\<close>

definition match_etag :: "string \<Rightarrow> string \<Rightarrow> string option" where
  "match_etag name s = (let prefix = CHR 0x22 # name @ ''-''; rest = drop (length prefix) s in
     if take (length prefix) s = prefix \<and> rest \<noteq> [] \<and> last rest = CHR 0x22 then
       (let ds = butlast rest in
        if ds \<noteq> [] \<and> list_all is_digit ds \<and> hd ds \<noteq> CHR ''0'' then Some ds else None)
     else None)"

definition parse_etag :: "string \<Rightarrow> string \<Rightarrow> application_error + int" where
  "parse_etag name v = (case match_etag name (py_strip v) of
     None \<Rightarrow> Inl (app_error INVALID_REQUEST 400)
   | Some ds \<Rightarrow> Inr (int (dec_value ds)))"

definition format_revision_etag :: "int \<Rightarrow> string" where
  "format_revision_etag revision = strong_etag ''revision'' revision"

definition parse_revision_etag :: "string \<Rightarrow> application_error + int" where
  "parse_revision_etag v = parse_etag ''revision'' v"

text \<open>\<open>format_control_epoch_etag\<close> raises \<open>ValueError\<close> below 1.\<close>

definition format_control_epoch_etag :: "int \<Rightarrow> failure + string" where
  "format_control_epoch_etag e =
     (if e < 1 then Inl ModelInvalid else Inr (strong_etag ''control-epoch'' e))"

definition parse_control_epoch_etag :: "string \<Rightarrow> application_error + int" where
  "parse_control_epoch_etag v = parse_etag ''control-epoch'' v"

lemma match_etag_Some:
  "match_etag name s = Some ds \<longleftrightarrow>
     s = CHR 0x22 # name @ ''-'' @ ds @ [CHR 0x22] \<and> ds \<noteq> [] \<and> list_all is_digit ds
     \<and> hd ds \<noteq> CHR ''0''"
proof
  let ?p = "CHR 0x22 # name @ ''-''"
  assume "match_etag name s = Some ds"
  then have p: "take (length ?p) s = ?p" and r: "drop (length ?p) s \<noteq> []"
      "last (drop (length ?p) s) = CHR 0x22" "ds = butlast (drop (length ?p) s)"
    and ds: "ds \<noteq> []" "list_all is_digit ds" "hd ds \<noteq> CHR ''0''"
    by (auto simp: match_etag_def Let_def split: if_splits)
  have "s = take (length ?p) s @ drop (length ?p) s" by simp
  also have "drop (length ?p) s = ds @ [CHR 0x22]"
    using r append_butlast_last_id by metis
  finally show "s = CHR 0x22 # name @ ''-'' @ ds @ [CHR 0x22] \<and> ds \<noteq> [] \<and> list_all is_digit ds
     \<and> hd ds \<noteq> CHR ''0''"
    using p ds by simp
qed (simp add: match_etag_def)

lemma parse_etag_iff:
  "parse_etag name v = Inr n \<longleftrightarrow> 1 \<le> n \<and> py_strip v = strong_etag name n"
proof
  assume "parse_etag name v = Inr n"
  then obtain ds where m: "match_etag name (py_strip v) = Some ds" and n: "n = int (dec_value ds)"
    by (auto simp: parse_etag_def split: option.splits)
  from m have ds: "ds \<noteq> []" "list_all is_digit ds" "hd ds \<noteq> CHR ''0''"
    and s: "py_strip v = CHR 0x22 # name @ ''-'' @ ds @ [CHR 0x22]"
    by (auto simp: match_etag_Some)
  have decimal: "dec_text (dec_value ds) = ds"
    using ds by (intro dec_text_value)
  have "dec_value ds \<noteq> 0"
  proof
    assume "dec_value ds = 0"
    with decimal ds(3) show False by (auto simp: dec_text.simps)
  qed
  with s n decimal show "1 \<le> n \<and> py_strip v = strong_etag name n"
    by (simp add: strong_etag_def int_text_def)
next
  assume a: "1 \<le> n \<and> py_strip v = strong_etag name n"
  then have "match_etag name (py_strip v) = Some (dec_text (nat n))"
    by (simp add: match_etag_Some strong_etag_def int_text_def dec_text_digits hd_dec_text)
  with a show "parse_etag name v = Inr n"
    by (simp add: parse_etag_def)
qed

text \<open>A formatted tag has no outer white space, so stripping it changes nothing.\<close>

lemma py_strip_strong_etag [simp]: "py_strip (strong_etag name n) = strong_etag name n"
  by (simp add: py_strip_def strong_etag_def is_space_def Let_def)

lemma strong_etag_inject: "1 \<le> m \<Longrightarrow> 1 \<le> n \<Longrightarrow> strong_etag name m = strong_etag name n \<Longrightarrow> m = n"
  using parse_etag_iff [of name "strong_etag name m" m] parse_etag_iff [of name "strong_etag name m" n]
  by simp

subsection \<open>Properties\<close>

text \<open>
  \<open>parse_revision_etag\<close> accepts exactly the strong tags \<open>format_revision_etag\<close> makes
  for positive revisions, up to outer white space, and returns the revision: weak tags,
  wildcards, leading zeros and other prefixes are all rejected.
\<close>

theorem parse_revision_etag_exact:
  "parse_revision_etag v = Inr n \<longleftrightarrow> 1 \<le> n \<and> py_strip v = format_revision_etag n"
  by (simp add: parse_revision_etag_def format_revision_etag_def parse_etag_iff)

text \<open>
  A control epoch parses out of a header exactly when formatting that epoch succeeds and
  gives the header back, up to outer white space.
\<close>

theorem parse_control_epoch_etag_exact:
  "parse_control_epoch_etag v = Inr n \<longleftrightarrow> format_control_epoch_etag n = Inr (py_strip v)"
  by (auto simp: parse_control_epoch_etag_def format_control_epoch_etag_def parse_etag_iff)

end
