(* ===== verification/Access.thy ===== *)
theory Access
  imports Core
begin

text \<open>
  Role based access (\<^verbatim>\<open>domain/auth/models.py\<close> \<open>PlatformRole\<close> and
  \<^verbatim>\<open>application/access.py\<close>): the grants of an authenticated actor and the
  permission every service asks it for.
\<close>

datatype platform_role =
    ORG_ADMIN | PROJECT_ADMIN | COMPONENT_MAINTAINER | CASE_AUTHOR | CASE_REVIEWER
  | RUN_OPERATOR | OBSERVER

record access_grant =
  grant_role :: platform_role
  grant_project :: "uuid option"

record actor_context =
  actor_tenant_id :: uuid
  actor_id :: "uuid option"
  request_id :: string
  session_id :: "uuid option"
  current_project_id :: "uuid option"
  grants :: "access_grant list"
  development_override :: bool

definition is_organization_admin :: "actor_context \<Rightarrow> bool" where
  "is_organization_admin a = (development_override a
     \<or> list_ex (\<lambda>g. grant_role g = ORG_ADMIN \<and> grant_project g = None) (grants a))"

definition can_create_project :: "actor_context \<Rightarrow> bool" where
  "can_create_project a = is_organization_admin a"

definition can_read_project :: "actor_context \<Rightarrow> uuid \<Rightarrow> bool" where
  "can_read_project a p = (is_organization_admin a
     \<or> list_ex (\<lambda>g. grant_project g = Some p) (grants a))"

text \<open>The clause every project permission but reading shares: a grant on the project in a role.\<close>

definition holds_role :: "actor_context \<Rightarrow> uuid \<Rightarrow> platform_role list \<Rightarrow> bool" where
  "holds_role a p roles =
     list_ex (\<lambda>g. grant_project g = Some p \<and> List.member roles (grant_role g)) (grants a)"

definition can_manage_project :: "actor_context \<Rightarrow> uuid \<Rightarrow> bool" where
  "can_manage_project a p = (is_organization_admin a \<or> holds_role a p [PROJECT_ADMIN])"

definition can_operate_project :: "actor_context \<Rightarrow> uuid \<Rightarrow> bool" where
  "can_operate_project a p =
     (is_organization_admin a \<or> holds_role a p [PROJECT_ADMIN, RUN_OPERATOR])"

definition can_maintain_components :: "actor_context \<Rightarrow> uuid \<Rightarrow> bool" where
  "can_maintain_components a p =
     (is_organization_admin a \<or> holds_role a p [PROJECT_ADMIN, COMPONENT_MAINTAINER])"

definition can_publish_components :: "actor_context \<Rightarrow> uuid \<Rightarrow> bool" where
  "can_publish_components a p =
     (is_organization_admin a \<or> holds_role a p [PROJECT_ADMIN, CASE_REVIEWER])"

definition can_author_cases :: "actor_context \<Rightarrow> uuid \<Rightarrow> bool" where
  "can_author_cases a p =
     (is_organization_admin a \<or> holds_role a p [PROJECT_ADMIN, CASE_AUTHOR])"

definition can_review_cases :: "actor_context \<Rightarrow> uuid \<Rightarrow> bool" where
  "can_review_cases a p =
     (is_organization_admin a \<or> holds_role a p [PROJECT_ADMIN, CASE_REVIEWER])"

definition can_review_results :: "actor_context \<Rightarrow> uuid \<Rightarrow> bool" where
  "can_review_results a p =
     (is_organization_admin a \<or> holds_role a p [PROJECT_ADMIN, CASE_REVIEWER])"

text \<open>\<open>None\<close> is all projects; the ids of the grants otherwise (a \<open>frozenset\<close>).\<close>

definition visible_project_ids :: "actor_context \<Rightarrow> uuid set option" where
  "visible_project_ids a =
     (if is_organization_admin a then None
      else Some (set (List.map_filter grant_project (grants a))))"

lemma holds_role_iff:
  "holds_role a p roles \<longleftrightarrow>
     (\<exists>g \<in> set (grants a). grant_project g = Some p \<and> grant_role g \<in> set roles)"
  by (simp add: holds_role_def list_ex_iff)

lemma holds_role_mono: "holds_role a p rs \<Longrightarrow> set rs \<subseteq> set rs' \<Longrightarrow> holds_role a p rs'"
  by (auto simp: holds_role_iff)

lemma holds_role_read: "holds_role a p rs \<Longrightarrow> can_read_project a p"
  by (auto simp: holds_role_iff can_read_project_def list_ex_iff)

named_theorems permission_defs "what the permissions of an actor mean"

declare can_manage_project_def [permission_defs] can_operate_project_def [permission_defs]
  can_maintain_components_def [permission_defs] can_publish_components_def [permission_defs]
  can_author_cases_def [permission_defs] can_review_cases_def [permission_defs]
  can_review_results_def [permission_defs]

lemma operate_read: "can_operate_project a p \<Longrightarrow> can_read_project a p"
  using holds_role_read by (auto simp: can_operate_project_def can_read_project_def)

lemma visible_projects:
  "(case visible_project_ids a of None \<Rightarrow> True | Some ps \<Rightarrow> p \<in> ps) \<longleftrightarrow> can_read_project a p"
  by (auto simp: visible_project_ids_def can_read_project_def list_ex_iff List.map_filter_def
      intro: rev_image_eqI split: option.splits if_splits)

text \<open>
  Filtering by the set \<open>visible_project_ids\<close> pushed down to the repositories admits
  exactly the projects \<open>can_read_project\<close> admits.
\<close>

theorem visible_projects_are_readable_projects:
  "(case visible_project_ids a of None \<Rightarrow> True | Some ps \<Rightarrow> p \<in> ps) = can_read_project a p"
  by (rule visible_projects)

end
