(* ===== verification/Live_Model.thy ===== *)
theory Live_Model
  imports Access
begin

text \<open>
  The data of the live browser control: the records of
  \<^verbatim>\<open>domain/runtime/control.py\<close> with the checks their construction makes, and the
  update triggers and check constraints of their tables in
  \<^verbatim>\<open>migrations/versions/20260718_0041_unit_attempt_live_control.py\<close>.

  The five identifiers every record repeats (tenant, project, task run, execution unit,
  attempt) are one record \<open>unit_scope\<close>, as in the tables' scope keys.  The constant
  \<open>schema_version\<close> and \<open>max_executions\<close> fields, each of a one-value \<open>Literal\<close> type,
  are left out.
\<close>

subsection \<open>Enumerations and patterns\<close>

datatype controller_type = AGENT | HUMAN

datatype session_state =
    AGENT_CONTROLLED | QUIESCING | PAUSED | RESUME_REQUESTED | HUMAN_CONTROLLED | RECONCILING
  | NO_CONTROLLER | CLOSED

datatype lease_state = LEASE_ACTIVE | LEASE_REVOKING | LEASE_EXPIRED | LEASE_RELEASED

datatype command_type = PAUSE | RESUME | TAKEOVER | RETURN

datatype command_status = COMMAND_PENDING | COMMAND_APPLIED | COMMAND_REJECTED

datatype grant_state = GRANT_ISSUED | GRANT_CONSUMED | GRANT_COMPLETED | GRANT_REVOKED

datatype action_execution_status = SUCCEEDED | FAILED | OUTCOME_UNKNOWN

fun controller_text :: "controller_type \<Rightarrow> string" where
  "controller_text AGENT = ''AGENT''"
| "controller_text HUMAN = ''HUMAN''"

text \<open>\<open>command_type.value.lower()\<close>.\<close>

fun command_text :: "command_type \<Rightarrow> string" where
  "command_text PAUSE = ''pause''"
| "command_text RESUME = ''resume''"
| "command_text TAKEOVER = ''takeover''"
| "command_text RETURN = ''return''"

fun execution_text :: "action_execution_status \<Rightarrow> string" where
  "execution_text SUCCEEDED = ''SUCCEEDED''"
| "execution_text FAILED = ''FAILED''"
| "execution_text OUTCOME_UNKNOWN = ''OUTCOME_UNKNOWN''"

definition safe_identifier :: "string \<Rightarrow> bool" where
  "safe_identifier = matches_ident is_alnum (alnum_or ''._:/-'') 1 199"

definition safe_owner :: "string \<Rightarrow> bool" where
  "safe_owner = matches_ident is_alnum (alnum_or ''._:@/-'') 1 199"

definition safe_text :: "string \<Rightarrow> bool" where
  "safe_text s = (1 \<le> length s \<and> length s \<le> 500
     \<and> list_all (\<lambda>c. 32 \<le> (of_char c :: nat) \<and> (of_char c :: nat) \<noteq> 127) s)"

definition ttl_within :: "int \<Rightarrow> int \<Rightarrow> int \<Rightarrow> bool" where
  "ttl_within lo hi n = (lo \<le> n \<and> n \<le> hi)"

subsection \<open>Records\<close>

record unit_scope =
  tenant_id :: uuid
  project_id :: uuid
  task_run_id :: uuid
  execution_unit_id :: uuid
  unit_attempt_id :: uuid

record live_session =
  ls_id :: uuid
  ls_scope :: unit_scope
  ls_execution_ticket_id :: uuid
  ls_execution_ticket_digest :: string
  ls_browser_session_id :: string
  ls_state :: session_state
  ls_control_epoch :: int
  ls_fencing_token :: int
  ls_browser_revision :: int
  ls_human_influenced :: bool
  ls_revision :: int
  ls_created_at :: instant
  ls_updated_at :: instant
  ls_closed_at :: "instant option"

record control_lease =
  cl_id :: uuid
  cl_scope :: unit_scope
  cl_session :: uuid
  cl_owner_type :: controller_type
  cl_owner_id :: string
  cl_control_epoch :: int
  cl_fencing_token :: int
  cl_state :: lease_state
  cl_expires_at :: instant
  cl_reason :: string
  cl_created_by :: "uuid option"
  cl_created_at :: instant
  cl_updated_at :: instant
  cl_released_at :: "instant option"

record live_command =
  lc_id :: uuid
  lc_scope :: unit_scope
  lc_session :: uuid
  lc_command_type :: command_type
  lc_client_mutation_id :: string
  lc_reason :: string
  lc_requested_ttl_sec :: "int option"
  lc_expected_control_epoch :: int
  lc_accepted_session_revision :: int
  lc_status :: command_status
  lc_requested_by :: "uuid option"
  lc_created_at :: instant
  lc_updated_at :: instant
  lc_applied_at :: "instant option"
  lc_resulting_control_epoch :: "int option"
  lc_resulting_fencing_token :: "int option"
  lc_checkpoint_digest :: "string option"

record action_grant =
  ag_id :: uuid
  ag_scope :: unit_scope
  ag_session :: uuid
  ag_control_lease_id :: uuid
  ag_action_id :: uuid
  ag_proposal_digest :: string
  ag_browser_session_id :: string
  ag_page_id :: string
  ag_page_revision :: int
  ag_control_epoch :: int
  ag_fencing_token :: int
  ag_owner_type :: controller_type
  ag_owner_id :: string
  ag_allowed_adapter :: string
  ag_expires_at :: instant
  ag_policy_digest :: string
  ag_state :: grant_state
  ag_created_at :: instant
  ag_consumed_at :: "instant option"
  ag_completed_at :: "instant option"
  ag_revoked_at :: "instant option"
  ag_receipt_id :: "uuid option"
  ag_execution_status :: "action_execution_status option"
  ag_resulting_page_revision :: "int option"

record live_event =
  le_id :: uuid
  le_scope :: unit_scope
  le_session :: uuid
  le_seq :: nat
  le_event_type :: string
  le_control_epoch :: int
  le_fencing_token :: int
  le_payload :: "(string \<times> json) list"
  le_occurred_at :: instant

text \<open>\<open>UnitAttemptLiveSnapshot\<close> and the projections of a task attempt and its ticket.\<close>

record live_snapshot =
  sn_session :: live_session
  sn_lease :: "control_lease option"
  sn_pending_command :: "live_command option"
  sn_observed_at :: instant

datatype execution_lifecycle =
    QUEUED | RUNNING | PAUSE_REQUESTED | ATTEMPT_PAUSED | CANCELING | FINALIZING | ATTEMPT_CLOSED

record unit_attempt =
  ua_scope :: unit_scope
  ua_manifest_hash :: string
  ua_unit_key :: string
  ua_lifecycle :: execution_lifecycle
  ua_execution_deadline :: instant

record execution_ticket =
  tk_id :: uuid
  tk_scope :: unit_scope
  tk_manifest_hash :: string
  tk_unit_key :: string
  tk_environment_id :: uuid
  tk_ticket_digest :: string

text \<open>The checks of the models (\<open>Field\<close> constraints and the \<open>after\<close> validators).\<close>

definition session_valid :: "live_session \<Rightarrow> bool" where
  "session_valid s = (digest_pattern (ls_execution_ticket_digest s)
     \<and> safe_identifier (ls_browser_session_id s) \<and> 1 \<le> ls_control_epoch s
     \<and> 1 \<le> ls_fencing_token s \<and> 1 \<le> ls_browser_revision s \<and> 1 \<le> ls_revision s
     \<and> (ls_state s = CLOSED) = (ls_closed_at s \<noteq> None))"

definition lease_valid :: "control_lease \<Rightarrow> bool" where
  "lease_valid l = (safe_owner (cl_owner_id l) \<and> safe_text (cl_reason l)
     \<and> 1 \<le> cl_control_epoch l \<and> 1 \<le> cl_fencing_token l
     \<and> cl_created_at l < cl_expires_at l
     \<and> (cl_state l \<in> {LEASE_EXPIRED, LEASE_RELEASED}) = (cl_released_at l \<noteq> None))"

definition command_valid :: "live_command \<Rightarrow> bool" where
  "command_valid c = (mutation_pattern (lc_client_mutation_id c) \<and> safe_text (lc_reason c)
     \<and> (case lc_requested_ttl_sec c of None \<Rightarrow> True | Some t \<Rightarrow> ttl_within 30 900 t)
     \<and> 1 \<le> lc_expected_control_epoch c \<and> 1 \<le> lc_accepted_session_revision c
     \<and> (if lc_status c = COMMAND_APPLIED
        then lc_applied_at c \<noteq> None \<and> lc_resulting_control_epoch c \<noteq> None
          \<and> lc_resulting_fencing_token c \<noteq> None \<and> lc_checkpoint_digest c \<noteq> None
        else lc_applied_at c = None \<and> lc_resulting_control_epoch c = None
          \<and> lc_resulting_fencing_token c = None \<and> lc_checkpoint_digest c = None))"

definition receipt_absent :: "action_grant \<Rightarrow> bool" where
  "receipt_absent g = (ag_completed_at g = None \<and> ag_receipt_id g = None
     \<and> ag_execution_status g = None \<and> ag_resulting_page_revision g = None)"

definition receipt_complete :: "action_grant \<Rightarrow> bool" where
  "receipt_complete g = (ag_consumed_at g \<noteq> None \<and> ag_completed_at g \<noteq> None
     \<and> ag_receipt_id g \<noteq> None \<and> ag_execution_status g \<noteq> None
     \<and> ag_resulting_page_revision g \<noteq> None)"

definition grant_valid :: "action_grant \<Rightarrow> bool" where
  "grant_valid g = (digest_pattern (ag_proposal_digest g) \<and> safe_identifier (ag_browser_session_id g)
     \<and> safe_identifier (ag_page_id g) \<and> 1 \<le> ag_page_revision g \<and> 1 \<le> ag_control_epoch g
     \<and> 1 \<le> ag_fencing_token g \<and> safe_owner (ag_owner_id g) \<and> safe_identifier (ag_allowed_adapter g)
     \<and> digest_pattern (ag_policy_digest g)
     \<and> (case ag_resulting_page_revision g of None \<Rightarrow> True | Some r \<Rightarrow> 1 \<le> r)
     \<and> ag_created_at g < ag_expires_at g
     \<and> (ag_state g = GRANT_ISSUED \<longrightarrow>
          ag_consumed_at g = None \<and> ag_revoked_at g = None \<and> receipt_absent g)
     \<and> (ag_state g = GRANT_CONSUMED \<longrightarrow>
          ag_consumed_at g \<noteq> None \<and> ag_revoked_at g = None \<and> receipt_absent g)
     \<and> (ag_state g = GRANT_REVOKED \<longrightarrow>
          ag_revoked_at g \<noteq> None \<and> ag_consumed_at g = None \<and> ag_completed_at g = None)
     \<and> (ag_state g = GRANT_COMPLETED \<longrightarrow> receipt_complete g))"

definition event_type_pattern :: "string \<Rightarrow> bool" where
  "event_type_pattern s = (3 \<le> length s \<and> length s \<le> 160 \<and> is_lower (hd s)
     \<and> list_all (\<lambda>c. is_lower c \<or> is_digit c \<or> c \<in> set ''_.-'') (tl s))"

definition event_valid :: "live_event \<Rightarrow> bool" where
  "event_valid e = (1 \<le> le_seq e \<and> event_type_pattern (le_event_type e)
     \<and> 1 \<le> le_control_epoch e \<and> 1 \<le> le_fencing_token e)"

definition ticket_valid :: "execution_ticket \<Rightarrow> bool" where
  "ticket_valid t = digest_pattern (tk_ticket_digest t)"

definition snapshot_valid :: "live_snapshot \<Rightarrow> bool" where
  "snapshot_valid v =
     ((case sn_lease v of None \<Rightarrow> True | Some l \<Rightarrow>
         cl_session l = ls_id (sn_session v) \<and> cl_control_epoch l = ls_control_epoch (sn_session v)
         \<and> cl_fencing_token l = ls_fencing_token (sn_session v))
      \<and> (case sn_pending_command v of None \<Rightarrow> True | Some c \<Rightarrow> lc_session c = ls_id (sn_session v)))"

subsection \<open>Requests\<close>

record live_request =
  lr_reason :: string
  lr_requested_ttl_sec :: "int option"

definition live_request_valid :: "live_request \<Rightarrow> bool" where
  "live_request_valid r = (safe_text (lr_reason r)
     \<and> (case lr_requested_ttl_sec r of None \<Rightarrow> True | Some t \<Rightarrow> ttl_within 30 900 t))"

record initialize_request =
  in_browser_session_id :: string
  in_owner_id :: string
  in_browser_revision :: int
  in_requested_ttl_sec :: int

definition initialize_valid :: "initialize_request \<Rightarrow> bool" where
  "initialize_valid r = (safe_identifier (in_browser_session_id r) \<and> safe_owner (in_owner_id r)
     \<and> 1 \<le> in_browser_revision r \<and> ttl_within 30 900 (in_requested_ttl_sec r))"

record heartbeat_request =
  hb_control_epoch :: int
  hb_fencing_token :: int
  hb_requested_ttl_sec :: int

definition heartbeat_valid :: "heartbeat_request \<Rightarrow> bool" where
  "heartbeat_valid r = (1 \<le> hb_control_epoch r \<and> 1 \<le> hb_fencing_token r
     \<and> ttl_within 30 900 (hb_requested_ttl_sec r))"

record acknowledge_request =
  ak_command_id :: uuid
  ak_expected_control_epoch :: int
  ak_expected_fencing_token :: int
  ak_browser_revision :: int
  ak_checkpoint_digest :: string
  ak_agent_owner_id :: string

definition acknowledge_valid :: "acknowledge_request \<Rightarrow> bool" where
  "acknowledge_valid r = (1 \<le> ak_expected_control_epoch r \<and> 1 \<le> ak_expected_fencing_token r
     \<and> 1 \<le> ak_browser_revision r \<and> digest_pattern (ak_checkpoint_digest r)
     \<and> safe_owner (ak_agent_owner_id r))"

record grant_request =
  gr_action_id :: uuid
  gr_proposal_digest :: string
  gr_page_id :: string
  gr_page_revision :: int
  gr_control_epoch :: int
  gr_fencing_token :: int
  gr_allowed_adapter :: string
  gr_policy_digest :: string
  gr_requested_ttl_sec :: int

definition grant_request_valid :: "grant_request \<Rightarrow> bool" where
  "grant_request_valid r = (digest_pattern (gr_proposal_digest r) \<and> safe_identifier (gr_page_id r)
     \<and> 1 \<le> gr_page_revision r \<and> 1 \<le> gr_control_epoch r \<and> 1 \<le> gr_fencing_token r
     \<and> safe_identifier (gr_allowed_adapter r) \<and> digest_pattern (gr_policy_digest r)
     \<and> ttl_within 1 60 (gr_requested_ttl_sec r))"

record consume_request =
  cn_control_epoch :: int
  cn_fencing_token :: int
  cn_proposal_digest :: string

definition consume_valid :: "consume_request \<Rightarrow> bool" where
  "consume_valid r = (1 \<le> cn_control_epoch r \<and> 1 \<le> cn_fencing_token r
     \<and> digest_pattern (cn_proposal_digest r))"

record complete_request =
  co_control_epoch :: int
  co_fencing_token :: int
  co_receipt_id :: uuid
  co_execution_status :: action_execution_status
  co_resulting_page_revision :: int

definition complete_valid :: "complete_request \<Rightarrow> bool" where
  "complete_valid r = (1 \<le> co_control_epoch r \<and> 1 \<le> co_fencing_token r
     \<and> 1 \<le> co_resulting_page_revision r)"

subsection \<open>Table constraints\<close>

definition session_check :: "live_session \<Rightarrow> bool" where
  "session_check s = (0 < ls_control_epoch s \<and> 0 < ls_fencing_token s \<and> 0 < ls_browser_revision s
     \<and> 0 < ls_revision s \<and> digest_pattern (ls_execution_ticket_digest s)
     \<and> safe_identifier (ls_browser_session_id s)
     \<and> (ls_state s = CLOSED) = (ls_closed_at s \<noteq> None)
     \<and> ls_created_at s \<le> ls_updated_at s
     \<and> (case ls_closed_at s of None \<Rightarrow> True | Some t \<Rightarrow> ls_created_at s \<le> t))"

definition lease_check :: "control_lease \<Rightarrow> bool" where
  "lease_check l = (safe_owner (cl_owner_id l) \<and> 0 < cl_control_epoch l \<and> 0 < cl_fencing_token l
     \<and> safe_text (cl_reason l)
     \<and> (cl_state l \<in> {LEASE_EXPIRED, LEASE_RELEASED}) = (cl_released_at l \<noteq> None)
     \<and> cl_created_at l < cl_expires_at l \<and> cl_created_at l \<le> cl_updated_at l
     \<and> (case cl_released_at l of None \<Rightarrow> True | Some t \<Rightarrow> cl_created_at l \<le> t))"

definition command_check :: "live_command \<Rightarrow> bool" where
  "command_check c = (mutation_pattern (lc_client_mutation_id c) \<and> safe_text (lc_reason c)
     \<and> 0 < lc_expected_control_epoch c \<and> 0 < lc_accepted_session_revision c
     \<and> (case lc_requested_ttl_sec c of None \<Rightarrow> True | Some t \<Rightarrow> ttl_within 30 900 t)
     \<and> (if lc_status c = COMMAND_APPLIED
        then lc_applied_at c \<noteq> None \<and> lc_resulting_control_epoch c \<noteq> None
          \<and> lc_resulting_fencing_token c \<noteq> None
          \<and> (case lc_checkpoint_digest c of None \<Rightarrow> False | Some d \<Rightarrow> digest_pattern d)
        else lc_applied_at c = None \<and> lc_resulting_control_epoch c = None
          \<and> lc_resulting_fencing_token c = None \<and> lc_checkpoint_digest c = None)
     \<and> lc_created_at c \<le> lc_updated_at c
     \<and> (case lc_applied_at c of None \<Rightarrow> True | Some t \<Rightarrow> lc_created_at c \<le> t))"

definition grant_lifecycle :: "action_grant \<Rightarrow> bool" where
  "grant_lifecycle g = (case ag_state g of
     GRANT_ISSUED \<Rightarrow> ag_consumed_at g = None \<and> ag_revoked_at g = None \<and> receipt_absent g
   | GRANT_CONSUMED \<Rightarrow> ag_consumed_at g \<noteq> None \<and> ag_revoked_at g = None \<and> receipt_absent g
   | GRANT_COMPLETED \<Rightarrow> receipt_complete g \<and> ag_revoked_at g = None
   | GRANT_REVOKED \<Rightarrow> ag_consumed_at g = None \<and> ag_revoked_at g \<noteq> None \<and> receipt_absent g)"

definition grant_check :: "action_grant \<Rightarrow> bool" where
  "grant_check g = (digest_pattern (ag_proposal_digest g) \<and> digest_pattern (ag_policy_digest g)
     \<and> safe_identifier (ag_browser_session_id g) \<and> safe_identifier (ag_page_id g)
     \<and> safe_identifier (ag_allowed_adapter g) \<and> safe_owner (ag_owner_id g)
     \<and> 0 < ag_page_revision g \<and> 0 < ag_control_epoch g \<and> 0 < ag_fencing_token g
     \<and> (case ag_resulting_page_revision g of None \<Rightarrow> True | Some r \<Rightarrow> 0 < r)
     \<and> grant_lifecycle g \<and> ag_created_at g < ag_expires_at g
     \<and> (case ag_consumed_at g of None \<Rightarrow> True | Some t \<Rightarrow> ag_created_at g \<le> t)
     \<and> (case (ag_completed_at g, ag_consumed_at g) of (Some t, Some c) \<Rightarrow> c \<le> t | _ \<Rightarrow> True)
     \<and> (case ag_revoked_at g of None \<Rightarrow> True | Some t \<Rightarrow> ag_created_at g \<le> t))"

definition event_check :: "live_event \<Rightarrow> bool" where
  "event_check e = (0 < le_seq e \<and> 0 < le_control_epoch e \<and> 0 < le_fencing_token e
     \<and> event_type_pattern (le_event_type e))"

text \<open>
  \<open>guard_live_session_update\<close>: the immutable columns, the revision step, the joint step of
  epoch and fence, and the allowed state transitions.  \<open>now\<close> is
  \<open>transaction_timestamp()\<close>.
\<close>

definition session_transition :: "session_state \<Rightarrow> session_state \<Rightarrow> bool" where
  "session_transition old new = (new = old \<or> (case old of
     AGENT_CONTROLLED \<Rightarrow> new \<in> {QUIESCING, NO_CONTROLLER, CLOSED}
   | QUIESCING \<Rightarrow> new \<in> {PAUSED, HUMAN_CONTROLLED, NO_CONTROLLER, CLOSED}
   | PAUSED \<Rightarrow> new \<in> {RESUME_REQUESTED, CLOSED}
   | NO_CONTROLLER \<Rightarrow> new \<in> {RESUME_REQUESTED, CLOSED}
   | RESUME_REQUESTED \<Rightarrow> new \<in> {AGENT_CONTROLLED, NO_CONTROLLER, CLOSED}
   | HUMAN_CONTROLLED \<Rightarrow> new \<in> {RECONCILING, NO_CONTROLLER, CLOSED}
   | RECONCILING \<Rightarrow> new \<in> {AGENT_CONTROLLED, NO_CONTROLLER, CLOSED}
   | CLOSED \<Rightarrow> False))"

definition guard_session :: "instant \<Rightarrow> live_session \<Rightarrow> live_session \<Rightarrow> bool" where
  "guard_session now old new =
     (ls_id new = ls_id old \<and> ls_scope new = ls_scope old
      \<and> ls_execution_ticket_id new = ls_execution_ticket_id old
      \<and> ls_execution_ticket_digest new = ls_execution_ticket_digest old
      \<and> ls_browser_session_id new = ls_browser_session_id old
      \<and> ls_created_at new = ls_created_at old
      \<and> ls_state old \<noteq> CLOSED
      \<and> ls_revision new = ls_revision old + 1 \<and> ls_updated_at new = now
      \<and> ls_browser_revision old \<le> ls_browser_revision new
      \<and> (ls_human_influenced old \<longrightarrow> ls_human_influenced new)
      \<and> ((ls_control_epoch new = ls_control_epoch old \<and> ls_fencing_token new = ls_fencing_token old)
         \<or> (ls_control_epoch new = ls_control_epoch old + 1
            \<and> ls_fencing_token new = ls_fencing_token old + 1))
      \<and> session_transition (ls_state old) (ls_state new))"

text \<open>\<open>guard_control_lease_update\<close>.\<close>

definition guard_lease :: "instant \<Rightarrow> control_lease \<Rightarrow> control_lease \<Rightarrow> bool" where
  "guard_lease now old new =
     (cl_id new = cl_id old \<and> cl_scope new = cl_scope old \<and> cl_session new = cl_session old
      \<and> cl_owner_type new = cl_owner_type old \<and> cl_owner_id new = cl_owner_id old
      \<and> cl_control_epoch new = cl_control_epoch old \<and> cl_fencing_token new = cl_fencing_token old
      \<and> cl_reason new = cl_reason old \<and> cl_created_by new = cl_created_by old
      \<and> cl_created_at new = cl_created_at old
      \<and> cl_updated_at new = now
      \<and> (if cl_state old = LEASE_ACTIVE \<and> cl_state new = LEASE_ACTIVE
         then cl_expires_at old < cl_expires_at new \<and> cl_released_at new = None
         else ((cl_state old = LEASE_ACTIVE
                  \<and> cl_state new \<in> {LEASE_REVOKING, LEASE_EXPIRED, LEASE_RELEASED})
               \<or> (cl_state old = LEASE_REVOKING \<and> cl_state new \<in> {LEASE_EXPIRED, LEASE_RELEASED}))
              \<and> cl_expires_at new = cl_expires_at old))"

text \<open>\<open>guard_live_control_command_update\<close>.\<close>

definition guard_command :: "instant \<Rightarrow> live_command \<Rightarrow> live_command \<Rightarrow> bool" where
  "guard_command now old new =
     (lc_id new = lc_id old \<and> lc_scope new = lc_scope old \<and> lc_session new = lc_session old
      \<and> lc_command_type new = lc_command_type old
      \<and> lc_client_mutation_id new = lc_client_mutation_id old \<and> lc_reason new = lc_reason old
      \<and> lc_requested_ttl_sec new = lc_requested_ttl_sec old
      \<and> lc_expected_control_epoch new = lc_expected_control_epoch old
      \<and> lc_accepted_session_revision new = lc_accepted_session_revision old
      \<and> lc_requested_by new = lc_requested_by old \<and> lc_created_at new = lc_created_at old
      \<and> lc_status old = COMMAND_PENDING \<and> lc_status new \<in> {COMMAND_APPLIED, COMMAND_REJECTED}
      \<and> lc_updated_at new = now)"

text \<open>\<open>guard_live_action_grant_update\<close>.\<close>

definition guard_grant :: "action_grant \<Rightarrow> action_grant \<Rightarrow> bool" where
  "guard_grant old new =
     (ag_id new = ag_id old \<and> ag_scope new = ag_scope old \<and> ag_session new = ag_session old
      \<and> ag_control_lease_id new = ag_control_lease_id old \<and> ag_action_id new = ag_action_id old
      \<and> ag_proposal_digest new = ag_proposal_digest old
      \<and> ag_browser_session_id new = ag_browser_session_id old \<and> ag_page_id new = ag_page_id old
      \<and> ag_page_revision new = ag_page_revision old
      \<and> ag_control_epoch new = ag_control_epoch old \<and> ag_fencing_token new = ag_fencing_token old
      \<and> ag_owner_type new = ag_owner_type old \<and> ag_owner_id new = ag_owner_id old
      \<and> ag_allowed_adapter new = ag_allowed_adapter old \<and> ag_expires_at new = ag_expires_at old
      \<and> ag_policy_digest new = ag_policy_digest old \<and> ag_created_at new = ag_created_at old
      \<and> ((ag_state old = GRANT_ISSUED \<and> ag_state new \<in> {GRANT_CONSUMED, GRANT_REVOKED})
         \<or> (ag_state old = GRANT_CONSUMED \<and> ag_state new = GRANT_COMPLETED)))"

text \<open>The owner id of a human controller, and the reason of a lease, are well formed.\<close>

lemma hex_char_alnum: "d < 16 \<Longrightarrow> is_alnum (hex_char d)"
  by (auto simp: hex_char_def is_alnum_def is_digit_def is_lower_def Let_def)

lemma hex_digits_alnum: "list_all is_alnum (hex_digits k n)"
  by (induction k n rule: hex_digits.induct) (auto simp: hex_char_alnum)

lemma length_hex_digits [simp]: "length (hex_digits k n) = k"
  by (induction k n rule: hex_digits.induct) auto

lemma list_all_take_drop:
  "list_all p xs \<Longrightarrow> list_all p (take n xs)" "list_all p xs \<Longrightarrow> list_all p (drop n xs)"
  by (auto simp: list_all_iff dest: in_set_takeD in_set_dropD)

lemma uuid_text_chars: "list_all (alnum_or ''._:@/-'') (uuid_text u)" and
  length_uuid_text: "length (uuid_text u) = 36"
proof -
  have "list_all (alnum_or ''._:@/-'') (hex_digits 32 u)"
    using hex_digits_alnum [of 32 u] by (auto simp: list_all_iff alnum_or_def)
  then show "list_all (alnum_or ''._:@/-'') (uuid_text u)"
    by (simp add: uuid_text_def Let_def list_all_take_drop alnum_or_def)
  show "length (uuid_text u) = 36" by (simp add: uuid_text_def Let_def)
qed

definition human_owner :: "uuid \<Rightarrow> string" where
  "human_owner u = ''user:'' @ uuid_text u"

lemma safe_owner_human [simp]: "safe_owner (human_owner u)"
  using uuid_text_chars [of u] length_uuid_text [of u]
  by (simp add: safe_owner_def human_owner_def matches_ident_def alnum_or_def is_alnum_def
      is_lower_def Let_def)

lemma safe_text_reason [simp]: "safe_text (command_text c @ '' applied'')"
  "safe_text ''initial agent control''"
  by (cases c) (simp_all add: safe_text_def)

end
