(* ===== verification/Live_Repository.thy ===== *)
theory Live_Repository
  imports Live_Model
begin

text \<open>
  The repository of the live control, \<^verbatim>\<open>infrastructure/repositories/live_control.py\<close>:
  one definition per method, each the SQL statements it sends, over a record of the tables one
  tenant sees.  Row locks (\<open>for update\<close>) have no counterpart: a transaction is one step, so
  every method sees the state its transaction locked.  The two reads of the task side
  (\<open>get_attempt\<close>, \<open>get_by_attempt\<close>) and the environment's kind are projections of the
  tables they select from.
\<close>

record live_db =
  sessions :: "live_session list"
  leases :: "control_lease list"
  commands :: "live_command list"
  action_grants :: "action_grant list"
  events :: "live_event list"
  attempts :: "unit_attempt list"
  tickets :: "execution_ticket list"
  environments :: "(uuid \<times> string) list"

definition is_current :: "control_lease \<Rightarrow> bool" where
  "is_current l = (cl_state l \<in> {LEASE_ACTIVE, LEASE_REVOKING})"

subsection \<open>Statements on one table\<close>

definition update_sessions where
  "update_sessions now p f db =
     attempt (db_call (sql_update (guard_session now) session_check p f (sessions db)))
       (\<lambda>(rows, table). Inr (rows, db\<lparr>sessions := table\<rparr>))"

definition update_leases where
  "update_leases now p f db =
     attempt (db_call (sql_update (guard_lease now) lease_check p f (leases db)))
       (\<lambda>(rows, table). Inr (rows, db\<lparr>leases := table\<rparr>))"

definition update_commands where
  "update_commands now p f db =
     attempt (db_call (sql_update (guard_command now) command_check p f (commands db)))
       (\<lambda>(rows, table). Inr (rows, db\<lparr>commands := table\<rparr>))"

definition update_grants where
  "update_grants p f db =
     attempt (db_call (sql_update guard_grant grant_check p f (action_grants db)))
       (\<lambda>(rows, table). Inr (rows, db\<lparr>action_grants := table\<rparr>))"

text \<open>The scope foreign key of the four tables that hang off a session.\<close>

definition session_exists :: "live_db \<Rightarrow> uuid \<Rightarrow> unit_scope \<Rightarrow> bool" where
  "session_exists db s scope = list_ex (\<lambda>x. ls_id x = s \<and> ls_scope x = scope) (sessions db)"

subsection \<open>Sessions\<close>

definition get_session_by_attempt :: "live_db \<Rightarrow> uuid \<Rightarrow> failure + live_session option" where
  "get_session_by_attempt db a =
     model_row session_valid (first_row (\<lambda>s. unit_attempt_id (ls_scope s) = a) (sessions db))"

definition get_session_by_id :: "live_db \<Rightarrow> uuid \<Rightarrow> failure + live_session option" where
  "get_session_by_id db i = model_row session_valid (first_row (\<lambda>s. ls_id s = i) (sessions db))"

definition session_references :: "live_db \<Rightarrow> live_session \<Rightarrow> bool" where
  "session_references db s = (list_ex (\<lambda>a. ua_scope a = ls_scope s) (attempts db)
     \<and> list_ex (\<lambda>t. tk_id t = ls_execution_ticket_id s
         \<and> tenant_id (tk_scope t) = tenant_id (ls_scope s)
         \<and> project_id (tk_scope t) = project_id (ls_scope s)
         \<and> unit_attempt_id (tk_scope t) = unit_attempt_id (ls_scope s)) (tickets db))"

definition create_session ::
    "live_session \<Rightarrow> live_db \<Rightarrow> failure + (live_session option \<times> live_db)" where
  "create_session s db =
     attempt (db_call (sql_insert_or_skip session_check
         (\<lambda>x y. unit_attempt_id (ls_scope x) = unit_attempt_id (ls_scope y))
         (\<lambda>x y. ls_id x = ls_id y) s (sessions db)))
       (\<lambda>inserted. case inserted of
          None \<Rightarrow> Inr (None, db)
        | Some table \<Rightarrow>
            attempt (db_call (ensure (session_references db s) ForeignKeyViolation)) (\<lambda>_.
            attempt (model_row session_valid (Some s)) (\<lambda>stored.
              Inr (stored, db\<lparr>sessions := table\<rparr>))))"

subsection \<open>Leases\<close>

definition get_current_lease :: "live_db \<Rightarrow> uuid \<Rightarrow> failure + control_lease option" where
  "get_current_lease db s =
     model_row lease_valid (first_row (\<lambda>_. True)
       (sort_key (\<lambda>l. - cl_control_epoch l)
         (rows_matching (\<lambda>l. cl_session l = s \<and> is_current l) (leases db))))"

definition lease_conflicts :: "control_lease \<Rightarrow> control_lease \<Rightarrow> bool" where
  "lease_conflicts x y = (cl_id x = cl_id y
     \<or> (cl_session x = cl_session y
        \<and> (cl_control_epoch x = cl_control_epoch y \<or> cl_fencing_token x = cl_fencing_token y
           \<or> (is_current x \<and> is_current y))))"

definition create_lease :: "control_lease \<Rightarrow> live_db \<Rightarrow> failure + (control_lease \<times> live_db)" where
  "create_lease l db =
     attempt (db_call (sql_insert lease_check lease_conflicts l (leases db))) (\<lambda>table.
     attempt (db_call (ensure (session_exists db (cl_session l) (cl_scope l)) ForeignKeyViolation)) (\<lambda>_.
     attempt (model_row lease_valid (Some l)) (\<lambda>_. Inr (l, db\<lparr>leases := table\<rparr>))))"

definition heartbeat_lease ::
    "live_session \<Rightarrow> control_lease \<Rightarrow> instant \<Rightarrow> instant \<Rightarrow> live_db
      \<Rightarrow> failure + (control_lease option \<times> live_db)" where
  "heartbeat_lease session lease expires_at now db =
     attempt (update_leases now
       (\<lambda>item. cl_id item = cl_id lease \<and> cl_state item = LEASE_ACTIVE \<and> now < cl_expires_at item
          \<and> cl_expires_at item < expires_at \<and> cl_control_epoch item = cl_control_epoch lease
          \<and> cl_fencing_token item = cl_fencing_token lease
          \<and> list_ex (\<lambda>s. ls_id s = cl_session item \<and> ls_id s = ls_id session
               \<and> ls_state s = AGENT_CONTROLLED \<and> ls_control_epoch s = cl_control_epoch item
               \<and> ls_fencing_token s = cl_fencing_token item) (sessions db))
       (\<lambda>item. item\<lparr>cl_expires_at := expires_at, cl_updated_at := now\<rparr>) db) (\<lambda>(rows, db').
     attempt (fetch_one lease_valid rows) (\<lambda>renewed. Inr (renewed, db')))"

definition claim_expired_session_ids :: "live_db \<Rightarrow> instant \<Rightarrow> nat \<Rightarrow> uuid list" where
  "claim_expired_session_ids db now limit =
     map (\<lambda>(s, l). ls_id s) (take limit (sort_key (\<lambda>(s, l). (cl_expires_at l, ls_id s))
       (concat (map (\<lambda>s. map (\<lambda>l. (s, l))
          (rows_matching (\<lambda>l. cl_session l = ls_id s \<and> is_current l \<and> cl_expires_at l \<le> now)
             (leases db)))
         (rows_matching (\<lambda>s. ls_state s \<in>
            {AGENT_CONTROLLED, QUIESCING, HUMAN_CONTROLLED, RECONCILING}) (sessions db))))))"

text \<open>The statements that revoke every issued grant and reject the pending command of a session.\<close>

definition revoke_issued_grants :: "instant \<Rightarrow> uuid \<Rightarrow> live_db \<Rightarrow> failure + live_db" where
  "revoke_issued_grants now s db =
     attempt (update_grants (\<lambda>g. ag_session g = s \<and> ag_state g = GRANT_ISSUED)
       (\<lambda>g. g\<lparr>ag_state := GRANT_REVOKED, ag_revoked_at := Some now\<rparr>) db)
       (\<lambda>(_, db'). Inr db')"

definition reject_pending_commands :: "instant \<Rightarrow> uuid \<Rightarrow> live_db \<Rightarrow> failure + live_db" where
  "reject_pending_commands now s db =
     attempt (update_commands now (\<lambda>c. lc_session c = s \<and> lc_status c = COMMAND_PENDING)
       (\<lambda>c. c\<lparr>lc_status := COMMAND_REJECTED, lc_updated_at := now\<rparr>) db)
       (\<lambda>(_, db'). Inr db')"

definition expire_current_control ::
    "live_session \<Rightarrow> control_lease \<Rightarrow> instant \<Rightarrow> live_db
      \<Rightarrow> failure + ((live_session \<times> control_lease) option \<times> live_db)" where
  "expire_current_control session lease now db =
     attempt (update_leases now
       (\<lambda>l. cl_id l = cl_id lease \<and> cl_session l = ls_id session \<and> is_current l
          \<and> cl_expires_at l \<le> now \<and> cl_control_epoch l = ls_control_epoch session
          \<and> cl_fencing_token l = ls_fencing_token session)
       (\<lambda>l. l\<lparr>cl_state := LEASE_EXPIRED, cl_released_at := Some now, cl_updated_at := now\<rparr>) db)
       (\<lambda>(lease_rows, db1).
     if lease_rows = [] then Inr (None, db1)
     else
       attempt (revoke_issued_grants now (ls_id session) db1) (\<lambda>db2.
       attempt (reject_pending_commands now (ls_id session) db2) (\<lambda>db3.
       attempt (update_sessions now
         (\<lambda>s. ls_id s = ls_id session \<and> ls_revision s = ls_revision session
            \<and> ls_control_epoch s = ls_control_epoch session
            \<and> ls_fencing_token s = ls_fencing_token session)
         (\<lambda>s. s\<lparr>ls_state := NO_CONTROLLER, ls_control_epoch := ls_control_epoch s + 1,
              ls_fencing_token := ls_fencing_token s + 1, ls_revision := ls_revision s + 1,
              ls_updated_at := now\<rparr>) db3) (\<lambda>(session_rows, db4).
       attempt (fetch_one session_valid session_rows) (\<lambda>session_row. case session_row of
          None \<Rightarrow> Inl RuntimeFailure
        | Some s \<Rightarrow>
            attempt (model_row lease_valid (Some (hd lease_rows))) (\<lambda>_.
              Inr (Some (s, hd lease_rows), db4)))))))"

subsection \<open>Commands and transitions\<close>

definition get_pending_command :: "live_db \<Rightarrow> uuid \<Rightarrow> failure + live_command option" where
  "get_pending_command db s = model_row command_valid
     (first_row (\<lambda>c. lc_session c = s \<and> lc_status c = COMMAND_PENDING) (commands db))"

definition find_command :: "live_db \<Rightarrow> uuid \<Rightarrow> failure + live_command option" where
  "find_command db i = model_row command_valid (first_row (\<lambda>c. lc_id c = i) (commands db))"

definition get_command_by_mutation ::
    "live_db \<Rightarrow> uuid \<Rightarrow> string \<Rightarrow> failure + live_command option" where
  "get_command_by_mutation db s k = model_row command_valid
     (first_row (\<lambda>c. lc_session c = s \<and> lc_client_mutation_id c = k) (commands db))"

definition command_conflicts :: "live_command \<Rightarrow> live_command \<Rightarrow> bool" where
  "command_conflicts x y = (lc_id x = lc_id y
     \<or> (tenant_id (lc_scope x) = tenant_id (lc_scope y) \<and> lc_session x = lc_session y
        \<and> lc_client_mutation_id x = lc_client_mutation_id y)
     \<or> (lc_session x = lc_session y \<and> lc_status x = COMMAND_PENDING \<and> lc_status y = COMMAND_PENDING))"

definition create_command :: "live_command \<Rightarrow> live_db \<Rightarrow> failure + (live_command \<times> live_db)" where
  "create_command c db =
     attempt (db_call (sql_insert command_check command_conflicts c (commands db))) (\<lambda>table.
     attempt (db_call (ensure (session_exists db (lc_session c) (lc_scope c)) ForeignKeyViolation)) (\<lambda>_.
     attempt (model_row command_valid (Some c)) (\<lambda>_. Inr (c, db\<lparr>commands := table\<rparr>))))"

definition request_transition ::
    "live_session \<Rightarrow> session_state \<Rightarrow> instant \<Rightarrow> bool \<Rightarrow> live_db
      \<Rightarrow> failure + (live_session \<times> live_db)" where
  "request_transition session state now revoke_current_lease db =
     attempt (if revoke_current_lease
       then attempt (update_leases now
              (\<lambda>l. cl_session l = ls_id session \<and> cl_state l = LEASE_ACTIVE)
              (\<lambda>l. l\<lparr>cl_state := LEASE_REVOKING, cl_updated_at := now\<rparr>) db) (\<lambda>(_, db1).
            revoke_issued_grants now (ls_id session) db1)
       else Inr db) (\<lambda>db2.
     attempt (update_sessions now
       (\<lambda>s. ls_id s = ls_id session \<and> ls_revision s = ls_revision session
          \<and> ls_control_epoch s = ls_control_epoch session)
       (\<lambda>s. s\<lparr>ls_state := state, ls_revision := ls_revision s + 1, ls_updated_at := now\<rparr>) db2)
       (\<lambda>(rows, db3).
     attempt (fetch_one session_valid rows) (\<lambda>row. case row of
        None \<Rightarrow> Inl RuntimeFailure
      | Some s \<Rightarrow> Inr (s, db3))))"

definition has_inflight_action :: "live_db \<Rightarrow> uuid \<Rightarrow> bool" where
  "has_inflight_action db s =
     list_ex (\<lambda>g. ag_session g = s \<and> ag_state g = GRANT_CONSUMED) (action_grants db)"

definition apply_transition ::
    "live_session \<Rightarrow> live_command \<Rightarrow> session_state \<Rightarrow> int \<Rightarrow> bool \<Rightarrow> string \<Rightarrow> instant \<Rightarrow> live_db
      \<Rightarrow> failure + ((live_session \<times> live_command) \<times> live_db)" where
  "apply_transition session command state browser_revision human_influenced checkpoint_digest now db =
     attempt (update_leases now (\<lambda>l. cl_session l = ls_id session \<and> is_current l)
       (\<lambda>l. l\<lparr>cl_state := LEASE_RELEASED, cl_released_at := Some now, cl_updated_at := now\<rparr>) db)
       (\<lambda>(_, db1).
     let next_epoch = ls_control_epoch session + 1; next_fence = ls_fencing_token session + 1 in
     attempt (update_sessions now
       (\<lambda>s. ls_id s = ls_id session \<and> ls_revision s = ls_revision session
          \<and> ls_control_epoch s = ls_control_epoch session
          \<and> ls_fencing_token s = ls_fencing_token session)
       (\<lambda>s. s\<lparr>ls_state := state, ls_control_epoch := next_epoch, ls_fencing_token := next_fence,
            ls_browser_revision := browser_revision, ls_human_influenced := human_influenced,
            ls_revision := ls_revision s + 1, ls_updated_at := now\<rparr>) db1) (\<lambda>(session_rows, db2).
     if session_rows = [] then Inl RuntimeFailure
     else attempt (update_commands now
       (\<lambda>c. lc_id c = lc_id command \<and> lc_status c = COMMAND_PENDING)
       (\<lambda>c. c\<lparr>lc_status := COMMAND_APPLIED, lc_updated_at := now, lc_applied_at := Some now,
            lc_resulting_control_epoch := Some next_epoch,
            lc_resulting_fencing_token := Some next_fence,
            lc_checkpoint_digest := Some checkpoint_digest\<rparr>) db2) (\<lambda>(command_rows, db3).
     if command_rows = [] then Inl RuntimeFailure
     else attempt (model_row session_valid (Some (hd session_rows))) (\<lambda>_.
       attempt (model_row command_valid (Some (hd command_rows))) (\<lambda>_.
         Inr ((hd session_rows, hd command_rows), db3))))))"

subsection \<open>Action grants\<close>

definition grant_references :: "live_db \<Rightarrow> action_grant \<Rightarrow> bool" where
  "grant_references db g = (session_exists db (ag_session g) (ag_scope g)
     \<and> list_ex (\<lambda>l. cl_id l = ag_control_lease_id g
         \<and> tenant_id (cl_scope l) = tenant_id (ag_scope g)
         \<and> project_id (cl_scope l) = project_id (ag_scope g)
         \<and> cl_session l = ag_session g) (leases db))"

definition create_action_grant ::
    "action_grant \<Rightarrow> live_db \<Rightarrow> failure + (action_grant option \<times> live_db)" where
  "create_action_grant g db =
     attempt (db_call (sql_insert_or_skip grant_check
         (\<lambda>x y. unit_attempt_id (ag_scope x) = unit_attempt_id (ag_scope y)
            \<and> ag_action_id x = ag_action_id y)
         (\<lambda>x y. ag_id x = ag_id y) g (action_grants db)))
       (\<lambda>inserted. case inserted of
          None \<Rightarrow> Inr (None, db)
        | Some table \<Rightarrow>
            attempt (db_call (ensure (grant_references db g) ForeignKeyViolation)) (\<lambda>_.
            attempt (model_row grant_valid (Some g)) (\<lambda>stored.
              Inr (stored, db\<lparr>action_grants := table\<rparr>))))"

definition find_action_grant :: "live_db \<Rightarrow> uuid \<Rightarrow> failure + action_grant option" where
  "find_action_grant db i = model_row grant_valid (first_row (\<lambda>g. ag_id g = i) (action_grants db))"

definition get_action_grant_by_action ::
    "live_db \<Rightarrow> uuid \<Rightarrow> uuid \<Rightarrow> failure + action_grant option" where
  "get_action_grant_by_action db a act = model_row grant_valid
     (first_row (\<lambda>g. unit_attempt_id (ag_scope g) = a \<and> ag_action_id g = act) (action_grants db))"

text \<open>The join conditions of \<open>consume_action_grant\<close> on the grant's session and lease.\<close>

definition grant_backed :: "live_db \<Rightarrow> instant \<Rightarrow> action_grant \<Rightarrow> bool" where
  "grant_backed db now g =
     (list_ex (\<lambda>s. ls_id s = ag_session g \<and> ls_state s \<in> {AGENT_CONTROLLED, HUMAN_CONTROLLED}
         \<and> ls_control_epoch s = ag_control_epoch g \<and> ls_fencing_token s = ag_fencing_token g)
        (sessions db)
      \<and> list_ex (\<lambda>l. cl_id l = ag_control_lease_id g \<and> cl_state l = LEASE_ACTIVE
         \<and> now < cl_expires_at l \<and> cl_control_epoch l = ag_control_epoch g
         \<and> cl_fencing_token l = ag_fencing_token g) (leases db))"

definition consume_grant_row ::
    "action_grant \<Rightarrow> instant \<Rightarrow> live_db \<Rightarrow> failure + (action_grant option \<times> live_db)" where
  "consume_grant_row grant now db =
     attempt (update_grants
       (\<lambda>g. ag_id g = ag_id grant \<and> ag_state g = GRANT_ISSUED \<and> now < ag_expires_at g
          \<and> grant_backed db now g)
       (\<lambda>g. g\<lparr>ag_state := GRANT_CONSUMED, ag_consumed_at := Some now\<rparr>) db) (\<lambda>(rows, db').
     attempt (fetch_one grant_valid rows) (\<lambda>row. Inr (row, db')))"

definition complete_grant_row ::
    "action_grant \<Rightarrow> uuid \<Rightarrow> action_execution_status \<Rightarrow> int \<Rightarrow> instant \<Rightarrow> live_db
      \<Rightarrow> failure + (action_grant option \<times> live_db)" where
  "complete_grant_row grant receipt_id execution_status resulting_page_revision now db =
     attempt (update_grants
       (\<lambda>g. ag_id g = ag_id grant \<and> ag_state g = GRANT_CONSUMED
          \<and> ag_control_epoch g = ag_control_epoch grant
          \<and> ag_fencing_token g = ag_fencing_token grant)
       (\<lambda>g. g\<lparr>ag_state := GRANT_COMPLETED, ag_completed_at := Some now,
            ag_receipt_id := Some receipt_id, ag_execution_status := Some execution_status,
            ag_resulting_page_revision := Some resulting_page_revision\<rparr>) db) (\<lambda>(rows, db').
     attempt (fetch_one grant_valid rows) (\<lambda>row. Inr (row, db')))"

definition advance_browser_revision ::
    "live_session \<Rightarrow> int \<Rightarrow> instant \<Rightarrow> live_db \<Rightarrow> failure + (live_session \<times> live_db)" where
  "advance_browser_revision session browser_revision now db =
     attempt (update_sessions now
       (\<lambda>s. ls_id s = ls_id session \<and> ls_revision s = ls_revision session
          \<and> ls_control_epoch s = ls_control_epoch session
          \<and> ls_fencing_token s = ls_fencing_token session)
       (\<lambda>s. s\<lparr>ls_browser_revision := browser_revision, ls_revision := ls_revision s + 1,
            ls_updated_at := now\<rparr>) db) (\<lambda>(rows, db').
     attempt (fetch_one session_valid rows) (\<lambda>row. case row of
        None \<Rightarrow> Inl RuntimeFailure
      | Some s \<Rightarrow> Inr (s, db')))"

subsection \<open>Events and the task side\<close>

definition insert_event :: "live_event \<Rightarrow> live_db \<Rightarrow> failure + live_db" where
  "insert_event e db =
     attempt (db_call (sql_insert event_check
       (\<lambda>x y. le_id x = le_id y \<or> (le_session x = le_session y \<and> le_seq x = le_seq y)) e (events db)))
       (\<lambda>table.
     attempt (db_call (ensure (session_exists db (le_session e) (le_scope e)) ForeignKeyViolation)) (\<lambda>_.
     attempt (model_row event_valid (Some e)) (\<lambda>_. Inr (db\<lparr>events := table\<rparr>))))"

definition next_event_seq :: "live_db \<Rightarrow> uuid \<Rightarrow> nat" where
  "next_event_seq db s =
     foldr max (map le_seq (rows_matching (\<lambda>e. le_session e = s) (events db))) 0 + 1"

definition get_environment_kind :: "live_db \<Rightarrow> uuid \<Rightarrow> string option" where
  "get_environment_kind db e = map_option snd (first_row (\<lambda>(i, _). i = e) (environments db))"

definition get_attempt :: "live_db \<Rightarrow> uuid \<Rightarrow> unit_attempt option" where
  "get_attempt db a = first_row (\<lambda>x. unit_attempt_id (ua_scope x) = a) (attempts db)"

definition get_ticket_by_attempt :: "live_db \<Rightarrow> uuid \<Rightarrow> failure + execution_ticket option" where
  "get_ticket_by_attempt db a = model_row ticket_valid
     (first_row (\<lambda>t. unit_attempt_id (tk_scope t) = a) (tickets db))"

end
