(* ===== verification/Live_Service.thy ===== *)
theory Live_Service
  imports Live_Repository
begin

text \<open>
  The handlers of the live control, \<^verbatim>\<open>application/live_control.py\<close>: one definition per
  method of \<open>LiveControlService\<close>, each the body of its transaction as a function from the
  tables to an error or a result with the new tables (\<open>commit\<close> closes the transaction).
  \<open>ids\<close> is the sequence of values \<open>new_entity_id\<close> returns inside the transaction and
  \<open>now\<close> is the database's transaction time.  The Chinese texts of the errors are left out.
\<close>

definition AGENT_LEASE_TTL :: int where
  "AGENT_LEASE_TTL = 120"

definition DEFAULT_HUMAN_LEASE_TTL :: int where
  "DEFAULT_HUMAN_LEASE_TTL = 300"

definition live_not_found :: failure where
  "live_not_found = app_failure NOT_FOUND 404"

definition live_invalid :: failure where
  "live_invalid = app_failure INVALID_REQUEST 400"

definition live_conflict :: failure where
  "live_conflict = app_failure CONFLICT 409"

definition live_fenced :: failure where
  "live_fenced = app_failure LEASE_FENCED 409"

definition live_epoch_changed :: failure where
  "live_epoch_changed = app_failure PRECONDITION_FAILED 409"

definition live_forbidden :: failure where
  "live_forbidden = app_failure FORBIDDEN 403"

lemmas live_errors = live_not_found_def live_invalid_def live_conflict_def live_fenced_def
  live_epoch_changed_def live_forbidden_def

text \<open>Constructing a model: the checks of its fields and validators.\<close>

definition construct :: "('r \<Rightarrow> bool) \<Rightarrow> 'r \<Rightarrow> failure + 'r" where
  "construct valid r = (if valid r then Inr r else Inl ModelInvalid)"

lemma construct_Inr [result_simps]: "construct valid r = Inr x \<longleftrightarrow> valid r \<and> x = r"
  by (auto simp: construct_def)

lemma construct_valid [simp]: "valid r \<Longrightarrow> construct valid r = Inr r"
  by (simp add: construct_def)

subsection \<open>Shared steps\<close>

definition require_visible :: "actor_context \<Rightarrow> live_session option \<Rightarrow> failure + live_session" where
  "require_visible actor s = (case s of
     None \<Rightarrow> Inl live_not_found
   | Some x \<Rightarrow> if can_read_project actor (project_id (ls_scope x)) then Inr x else Inl live_not_found)"

definition require_operable :: "actor_context \<Rightarrow> live_session option \<Rightarrow> failure + live_session" where
  "require_operable actor s =
     attempt (require_visible actor s) (\<lambda>x.
     if \<not> can_operate_project actor (project_id (ls_scope x)) then Inl live_forbidden
     else if actor_id actor = None then Inl live_forbidden
     else Inr x)"

definition require_runtime_session :: "live_db \<Rightarrow> uuid \<Rightarrow> failure + live_session" where
  "require_runtime_session db a =
     attempt (get_session_by_attempt db a) (\<lambda>s. case s of
       None \<Rightarrow> Inl live_not_found
     | Some x \<Rightarrow> Inr x)"

definition load_attempt_and_ticket ::
    "live_db \<Rightarrow> uuid \<Rightarrow> failure + (unit_attempt \<times> execution_ticket)" where
  "load_attempt_and_ticket db a =
     attempt (get_ticket_by_attempt db a) (\<lambda>t. case (get_attempt db a, t) of
       (Some attempt_row, Some ticket) \<Rightarrow>
         (let x = ua_scope attempt_row; y = tk_scope ticket in
          if tenant_id y \<noteq> tenant_id x \<or> project_id y \<noteq> project_id x
            \<or> task_run_id y \<noteq> task_run_id x \<or> execution_unit_id y \<noteq> execution_unit_id x
            \<or> tk_manifest_hash ticket \<noteq> ua_manifest_hash attempt_row
            \<or> tk_unit_key ticket \<noteq> ua_unit_key attempt_row
          then Inl live_conflict else Inr (attempt_row, ticket))
     | _ \<Rightarrow> Inl live_not_found)"

definition take_snapshot :: "live_db \<Rightarrow> live_session \<Rightarrow> instant \<Rightarrow> failure + live_snapshot" where
  "take_snapshot db s now =
     attempt (get_current_lease db (ls_id s)) (\<lambda>lease.
     attempt (get_pending_command db (ls_id s)) (\<lambda>command.
       construct snapshot_valid \<lparr>sn_session = s, sn_lease = lease, sn_pending_command = command,
         sn_observed_at = now\<rparr>))"

definition append_event ::
    "uuid \<Rightarrow> live_session \<Rightarrow> string \<Rightarrow> (string \<times> json) list \<Rightarrow> instant \<Rightarrow> live_db
      \<Rightarrow> failure + live_db" where
  "append_event event_id s event_type payload occurred_at db =
     attempt (construct event_valid \<lparr>le_id = event_id, le_scope = ls_scope s, le_session = ls_id s,
       le_seq = next_event_seq db (ls_id s), le_event_type = event_type,
       le_control_epoch = ls_control_epoch s, le_fencing_token = ls_fencing_token s,
       le_payload = payload, le_occurred_at = occurred_at\<rparr>) (\<lambda>e. insert_event e db)"

definition new_lease ::
    "uuid \<Rightarrow> live_session \<Rightarrow> controller_type \<Rightarrow> string \<Rightarrow> string \<Rightarrow> uuid option \<Rightarrow> instant \<Rightarrow> instant
      \<Rightarrow> control_lease" where
  "new_lease lease_id s owner_type owner_id reason created_by expires_at now =
     \<lparr>cl_id = lease_id, cl_scope = ls_scope s, cl_session = ls_id s, cl_owner_type = owner_type,
      cl_owner_id = owner_id, cl_control_epoch = ls_control_epoch s,
      cl_fencing_token = ls_fencing_token s, cl_state = LEASE_ACTIVE, cl_expires_at = expires_at,
      cl_reason = reason, cl_created_by = created_by, cl_created_at = now, cl_updated_at = now,
      cl_released_at = None\<rparr>"

text \<open>\<open>_expire_current_control\<close>: expire and record it; \<open>None\<close> is losing the race.\<close>

definition expire_control ::
    "uuid \<Rightarrow> live_session \<Rightarrow> control_lease \<Rightarrow> instant \<Rightarrow> live_db
      \<Rightarrow> failure + (live_session option \<times> live_db)" where
  "expire_control event_id session lease now db =
     attempt (expire_current_control session lease now db) (\<lambda>(expired, db1). case expired of
       None \<Rightarrow> Inr (None, db1)
     | Some (updated, expired_lease) \<Rightarrow>
         attempt (append_event event_id updated ''live_control.lease_expired''
           [(''leaseId'', JString (uuid_text (cl_id expired_lease))),
            (''ownerType'', JString (controller_text (cl_owner_type expired_lease))),
            (''ownerId'', JString (cl_owner_id expired_lease)),
            (''expiredControlEpoch'', JInt (cl_control_epoch expired_lease)),
            (''expiredFencingToken'', JInt (cl_fencing_token expired_lease))] now db1) (\<lambda>db2.
           Inr (Some updated, db2)))"

subsection \<open>Reading\<close>

definition get_snapshot :: "actor_context \<Rightarrow> uuid \<Rightarrow> instant \<Rightarrow> live_db \<Rightarrow> failure + (live_snapshot \<times> live_db)" where
  "get_snapshot actor a now db =
     attempt (get_session_by_attempt db a) (\<lambda>s.
     attempt (require_visible actor s) (\<lambda>session.
     attempt (take_snapshot db session now) (\<lambda>v. Inr (v, db))))"

definition get_command ::
    "actor_context \<Rightarrow> uuid \<Rightarrow> uuid \<Rightarrow> live_db \<Rightarrow> failure + (live_command \<times> live_db)" where
  "get_command actor a command_id db =
     attempt (get_session_by_attempt db a) (\<lambda>s.
     attempt (require_visible actor s) (\<lambda>session.
     attempt (find_command db command_id) (\<lambda>c. case c of
       None \<Rightarrow> Inl live_not_found
     | Some command \<Rightarrow> if lc_session command \<noteq> ls_id session then Inl live_not_found
                       else Inr (command, db))))"

subsection \<open>Initialisation\<close>

text \<open>The part after the attempt and its ticket are loaded.\<close>

definition establish_session ::
    "(nat \<Rightarrow> uuid) \<Rightarrow> instant \<Rightarrow> initialize_request \<Rightarrow> string \<Rightarrow> unit_attempt \<Rightarrow> execution_ticket
      \<Rightarrow> live_db \<Rightarrow> failure + (live_snapshot \<times> live_db)" where
  "establish_session ids now request worker_identity attempt_row ticket db =
     (if ua_lifecycle attempt_row \<noteq> RUNNING then Inl live_conflict
      else if ua_execution_deadline attempt_row \<le> now then Inl live_conflict
      else attempt (construct session_valid
          \<lparr>ls_id = ids 0, ls_scope = ua_scope attempt_row, ls_execution_ticket_id = tk_id ticket,
           ls_execution_ticket_digest = tk_ticket_digest ticket,
           ls_browser_session_id = in_browser_session_id request, ls_state = AGENT_CONTROLLED,
           ls_control_epoch = 1, ls_fencing_token = 1,
           ls_browser_revision = in_browser_revision request, ls_human_influenced = False,
           ls_revision = 1, ls_created_at = now, ls_updated_at = now, ls_closed_at = None\<rparr>) (\<lambda>session.
      attempt (create_session session db) (\<lambda>(stored, db1). case stored of
        None \<Rightarrow> Inl live_conflict
      | Some s \<Rightarrow>
          attempt (construct lease_valid (new_lease (ids 1) s AGENT worker_identity
            ''initial agent control'' None
            (min (now + seconds (in_requested_ttl_sec request)) (ua_execution_deadline attempt_row))
            now)) (\<lambda>lease.
          attempt (create_lease lease db1) (\<lambda>(_, db2).
          attempt (append_event (ids 2) s ''live_session.initialized''
            [(''ownerType'', JString (controller_text AGENT)),
             (''browserRevision'', JInt (ls_browser_revision s))] now db2) (\<lambda>db3.
          attempt (take_snapshot db3 s now) (\<lambda>v. Inr (v, db3))))))))"

definition initialize ::
    "(nat \<Rightarrow> uuid) \<Rightarrow> instant \<Rightarrow> uuid \<Rightarrow> initialize_request \<Rightarrow> string \<Rightarrow> live_db
      \<Rightarrow> failure + (live_snapshot \<times> live_db)" where
  "initialize ids now a request worker_identity db =
     (if in_owner_id request \<noteq> worker_identity then Inl live_fenced
      else attempt (get_session_by_attempt db a) (\<lambda>existing. case existing of
        Some session \<Rightarrow>
          attempt (get_current_lease db (ls_id session)) (\<lambda>lease.
          if ls_browser_session_id session \<noteq> in_browser_session_id request
             \<or> (case lease of None \<Rightarrow> True
                 | Some l \<Rightarrow> cl_owner_type l \<noteq> AGENT \<or> cl_owner_id l \<noteq> worker_identity)
          then Inl live_conflict
          else attempt (take_snapshot db session now) (\<lambda>v. Inr (v, db)))
      | None \<Rightarrow>
          attempt (load_attempt_and_ticket db a) (\<lambda>(attempt_row, ticket).
            establish_session ids now request worker_identity attempt_row ticket db)))"

subsection \<open>Heartbeat and expiry\<close>

definition renew_lease ::
    "instant \<Rightarrow> heartbeat_request \<Rightarrow> live_session \<Rightarrow> control_lease \<Rightarrow> unit_attempt \<Rightarrow> live_db
      \<Rightarrow> failure + (live_snapshot \<times> live_db)" where
  "renew_lease now request session lease attempt_row db =
     (let expires_at = min (now + seconds (hb_requested_ttl_sec request))
                           (ua_execution_deadline attempt_row) in
      if expires_at \<le> cl_expires_at lease
      then attempt (take_snapshot db session now) (\<lambda>v. Inr (v, db))
      else attempt (heartbeat_lease session lease expires_at now db) (\<lambda>(renewed, db1).
        case renewed of
          None \<Rightarrow> Inl live_fenced
        | Some l \<Rightarrow> attempt (construct snapshot_valid \<lparr>sn_session = session, sn_lease = Some l,
                      sn_pending_command = None, sn_observed_at = now\<rparr>) (\<lambda>v. Inr (v, db1))))"

definition heartbeat_session ::
    "(nat \<Rightarrow> uuid) \<Rightarrow> instant \<Rightarrow> uuid \<Rightarrow> heartbeat_request \<Rightarrow> string \<Rightarrow> live_db \<Rightarrow> live_session
      \<Rightarrow> failure + (live_snapshot \<times> live_db)" where
  "heartbeat_session ids now a request worker_identity db session =
     attempt (get_current_lease db (ls_id session)) (\<lambda>current. case current of
       None \<Rightarrow> Inl live_fenced
     | Some lease \<Rightarrow>
       if ls_state session \<noteq> AGENT_CONTROLLED \<or> cl_state lease \<noteq> LEASE_ACTIVE
          \<or> cl_owner_type lease \<noteq> AGENT \<or> cl_owner_id lease \<noteq> worker_identity
          \<or> hb_control_epoch request \<noteq> ls_control_epoch session
          \<or> hb_fencing_token request \<noteq> ls_fencing_token session
          \<or> hb_control_epoch request \<noteq> cl_control_epoch lease
          \<or> hb_fencing_token request \<noteq> cl_fencing_token lease
       then Inl live_fenced
       else if cl_expires_at lease \<le> now then
         attempt (expire_control (ids 0) session lease now db) (\<lambda>(expired, db1). case expired of
           None \<Rightarrow> Inl live_fenced
         | Some s \<Rightarrow> attempt (take_snapshot db1 s now) (\<lambda>v. Inr (v, db1)))
       else
         attempt (load_attempt_and_ticket db a) (\<lambda>(attempt_row, _).
           renew_lease now request session lease attempt_row db))"

definition heartbeat ::
    "(nat \<Rightarrow> uuid) \<Rightarrow> instant \<Rightarrow> uuid \<Rightarrow> heartbeat_request \<Rightarrow> string \<Rightarrow> live_db
      \<Rightarrow> failure + (live_snapshot \<times> live_db)" where
  "heartbeat ids now a request worker_identity db =
     attempt (require_runtime_session db a) (heartbeat_session ids now a request worker_identity db)"

text \<open>
  The loop of \<open>reap_expired\<close> over the claimed sessions; the event id of an iteration is the
  next unused one.
\<close>

fun reap_loop ::
    "(nat \<Rightarrow> uuid) \<Rightarrow> instant \<Rightarrow> nat \<Rightarrow> uuid list \<Rightarrow> live_db \<Rightarrow> failure + (nat \<times> live_db)" where
  "reap_loop ids now reaped [] db = Inr (reaped, db)"
| "reap_loop ids now reaped (i # is) db =
     attempt (get_session_by_id db i) (\<lambda>found. case found of
       None \<Rightarrow> reap_loop ids now reaped is db
     | Some session \<Rightarrow>
         attempt (get_current_lease db (ls_id session)) (\<lambda>current. case current of
           None \<Rightarrow> reap_loop ids now reaped is db
         | Some lease \<Rightarrow>
             attempt (expire_control (ids reaped) session lease now db) (\<lambda>(expired, db1).
               reap_loop ids now (if expired = None then reaped else reaped + 1) is db1)))"

definition reap_expired ::
    "(nat \<Rightarrow> uuid) \<Rightarrow> instant \<Rightarrow> actor_context \<Rightarrow> int \<Rightarrow> live_db
      \<Rightarrow> failure + ((nat \<times> instant) \<times> live_db)" where
  "reap_expired ids now actor limit db =
     (if \<not> is_organization_admin actor then Inl live_forbidden
      else if \<not> (1 \<le> limit \<and> limit \<le> 500) then Inl ModelInvalid
      else attempt (reap_loop ids now 0 (claim_expired_session_ids db now (nat limit)) db)
        (\<lambda>(reaped, db1). Inr ((reaped, now), db1)))"

subsection \<open>Acknowledgement\<close>

fun ack_target ::
    "live_command \<Rightarrow> acknowledge_request
      \<Rightarrow> failure + (session_state \<times> (controller_type \<times> string) option \<times> int)" where
  "ack_target command request = (case lc_command_type command of
     PAUSE \<Rightarrow> Inr (PAUSED, None, 0)
   | TAKEOVER \<Rightarrow> (case lc_requested_by command of
        None \<Rightarrow> Inl live_conflict
      | Some u \<Rightarrow> Inr (HUMAN_CONTROLLED, Some (HUMAN, human_owner u),
           (case lc_requested_ttl_sec command of
              None \<Rightarrow> DEFAULT_HUMAN_LEASE_TTL
            | Some t \<Rightarrow> if t = 0 then DEFAULT_HUMAN_LEASE_TTL else t)))
   | _ \<Rightarrow> Inr (AGENT_CONTROLLED, Some (AGENT, ak_agent_owner_id request), AGENT_LEASE_TTL))"

text \<open>The new controller's lease, when the target state has one.\<close>

definition grant_control ::
    "(nat \<Rightarrow> uuid) \<Rightarrow> instant \<Rightarrow> live_command \<Rightarrow> unit_attempt \<Rightarrow> (controller_type \<times> string) option \<Rightarrow> int
      \<Rightarrow> live_session \<Rightarrow> live_db \<Rightarrow> failure + live_db" where
  "grant_control ids now command attempt_row owner ttl updated db1 = (case owner of
     None \<Rightarrow> Inr db1
   | Some (owner_type, owner_id) \<Rightarrow>
       (let expires_at = min (now + seconds ttl) (ua_execution_deadline attempt_row) in
        if expires_at \<le> now then Inl live_conflict
        else attempt (construct lease_valid (new_lease (ids 0) updated owner_type owner_id
            (command_text (lc_command_type command) @ '' applied'')
            (lc_requested_by command) expires_at now)) (\<lambda>lease.
          attempt (create_lease lease db1) (\<lambda>(_, db2). Inr db2))))"

text \<open>The part after the attempt and its ticket are loaded.\<close>

definition apply_command ::
    "(nat \<Rightarrow> uuid) \<Rightarrow> instant \<Rightarrow> acknowledge_request \<Rightarrow> string \<Rightarrow> live_session \<Rightarrow> live_command
      \<Rightarrow> unit_attempt \<Rightarrow> live_db \<Rightarrow> failure + (live_snapshot \<times> live_db)" where
  "apply_command ids now request worker_identity session command attempt_row db =
     attempt (ack_target command request) (\<lambda>(target_state, owner, ttl).
     if (case owner of None \<Rightarrow> False
         | Some (owner_type, owner_id) \<Rightarrow> owner_type = AGENT \<and> owner_id \<noteq> worker_identity)
     then Inl live_fenced
     else attempt (apply_transition session command target_state (ak_browser_revision request)
         (ls_human_influenced session \<or> lc_command_type command = TAKEOVER)
         (ak_checkpoint_digest request) now db) (\<lambda>((updated, _), db1).
     attempt (grant_control ids now command attempt_row owner ttl updated db1) (\<lambda>db2.
     attempt (append_event (ids 1) updated
         (''live_control.'' @ command_text (lc_command_type command) @ ''.applied'')
         [(''commandId'', JString (uuid_text (lc_id command))),
          (''checkpointDigest'', JString (ak_checkpoint_digest request)),
          (''browserRevision'', JInt (ak_browser_revision request)),
          (''controllerType'', case owner of None \<Rightarrow> JNull
             | Some (owner_type, _) \<Rightarrow> JString (controller_text owner_type))] now db2) (\<lambda>db3.
     attempt (take_snapshot db3 updated now) (\<lambda>v. Inr (v, db3))))))"

definition acknowledge_session ::
    "(nat \<Rightarrow> uuid) \<Rightarrow> instant \<Rightarrow> uuid \<Rightarrow> acknowledge_request \<Rightarrow> string \<Rightarrow> live_db \<Rightarrow> live_session
      \<Rightarrow> failure + (live_snapshot \<times> live_db)" where
  "acknowledge_session ids now a request worker_identity db session =
     attempt (find_command db (ak_command_id request)) (\<lambda>found. case found of
       None \<Rightarrow> Inl live_not_found
     | Some command \<Rightarrow>
       if lc_session command \<noteq> ls_id session then Inl live_not_found
       else if lc_status command = COMMAND_APPLIED then
         (if lc_expected_control_epoch command \<noteq> ak_expected_control_epoch request
             \<or> lc_checkpoint_digest command \<noteq> Some (ak_checkpoint_digest request)
          then Inl live_conflict
          else attempt (take_snapshot db session now) (\<lambda>v. Inr (v, db)))
       else if lc_status command \<noteq> COMMAND_PENDING then Inl live_conflict
       else if lc_expected_control_epoch command \<noteq> ls_control_epoch session
          \<or> ak_expected_control_epoch request \<noteq> ls_control_epoch session
          \<or> ak_expected_fencing_token request \<noteq> ls_fencing_token session
       then Inl live_fenced
       else if ak_browser_revision request < ls_browser_revision session then Inl live_conflict
       else if has_inflight_action db (ls_id session) then Inl live_conflict
       else attempt (load_attempt_and_ticket db a) (\<lambda>(attempt_row, _).
         apply_command ids now request worker_identity session command attempt_row db))"

definition acknowledge ::
    "(nat \<Rightarrow> uuid) \<Rightarrow> instant \<Rightarrow> uuid \<Rightarrow> acknowledge_request \<Rightarrow> string \<Rightarrow> live_db
      \<Rightarrow> failure + (live_snapshot \<times> live_db)" where
  "acknowledge ids now a request worker_identity db =
     attempt (require_runtime_session db a) (acknowledge_session ids now a request worker_identity db)"

subsection \<open>Action grants\<close>

fun require_grant_authority ::
    "live_session \<Rightarrow> control_lease option \<Rightarrow> grant_request \<Rightarrow> string \<Rightarrow> instant
      \<Rightarrow> failure + control_lease" where
  "require_grant_authority session None request worker_identity now = Inl live_fenced"
| "require_grant_authority session (Some lease) request worker_identity now =
     (if ls_state session \<notin> {AGENT_CONTROLLED, HUMAN_CONTROLLED}
         \<or> cl_state lease \<noteq> LEASE_ACTIVE \<or> cl_expires_at lease \<le> now
         \<or> gr_control_epoch request \<noteq> ls_control_epoch session
         \<or> gr_fencing_token request \<noteq> ls_fencing_token session
         \<or> gr_control_epoch request \<noteq> cl_control_epoch lease
         \<or> gr_fencing_token request \<noteq> cl_fencing_token lease
      then Inl live_fenced
      else if gr_page_revision request \<noteq> ls_browser_revision session then Inl live_conflict
      else if cl_owner_type lease = AGENT \<and> cl_owner_id lease \<noteq> worker_identity then Inl live_fenced
      else Inr lease)"

definition grant_request_matches :: "action_grant \<Rightarrow> grant_request \<Rightarrow> bool" where
  "grant_request_matches g r = (ag_action_id g = gr_action_id r
     \<and> ag_proposal_digest g = gr_proposal_digest r \<and> ag_page_id g = gr_page_id r
     \<and> ag_page_revision g = gr_page_revision r \<and> ag_control_epoch g = gr_control_epoch r
     \<and> ag_fencing_token g = gr_fencing_token r \<and> ag_allowed_adapter g = gr_allowed_adapter r
     \<and> ag_policy_digest g = gr_policy_digest r)"

text \<open>The part after no grant is found for the action.\<close>

definition issue_new_grant ::
    "(nat \<Rightarrow> uuid) \<Rightarrow> instant \<Rightarrow> grant_request \<Rightarrow> live_session \<Rightarrow> control_lease \<Rightarrow> live_db
      \<Rightarrow> failure + (action_grant \<times> live_db)" where
  "issue_new_grant ids now request session lease db =
     (let expires_at = min (now + seconds (gr_requested_ttl_sec request)) (cl_expires_at lease) in
      if expires_at \<le> now then Inl live_fenced
      else attempt (construct grant_valid
          \<lparr>ag_id = ids 0, ag_scope = ls_scope session, ag_session = ls_id session,
           ag_control_lease_id = cl_id lease, ag_action_id = gr_action_id request,
           ag_proposal_digest = gr_proposal_digest request,
           ag_browser_session_id = ls_browser_session_id session,
           ag_page_id = gr_page_id request, ag_page_revision = gr_page_revision request,
           ag_control_epoch = gr_control_epoch request,
           ag_fencing_token = gr_fencing_token request, ag_owner_type = cl_owner_type lease,
           ag_owner_id = cl_owner_id lease, ag_allowed_adapter = gr_allowed_adapter request,
           ag_expires_at = expires_at, ag_policy_digest = gr_policy_digest request,
           ag_state = GRANT_ISSUED, ag_created_at = now, ag_consumed_at = None,
           ag_completed_at = None, ag_revoked_at = None, ag_receipt_id = None,
           ag_execution_status = None, ag_resulting_page_revision = None\<rparr>) (\<lambda>grant.
      attempt (create_action_grant grant db) (\<lambda>(stored, db1). case stored of
        None \<Rightarrow> Inl live_conflict
      | Some g \<Rightarrow>
          attempt (append_event (ids 1) session ''live_action.grant_issued''
            [(''grantId'', JString (uuid_text (ag_id g))),
             (''actionId'', JString (uuid_text (ag_action_id g))),
             (''ownerType'', JString (controller_text (ag_owner_type g))),
             (''pageRevision'', JInt (ag_page_revision g))] now db1) (\<lambda>db2.
          Inr (g, db2)))))"

definition issue_action_grant ::
    "(nat \<Rightarrow> uuid) \<Rightarrow> instant \<Rightarrow> uuid \<Rightarrow> grant_request \<Rightarrow> string \<Rightarrow> live_db
      \<Rightarrow> failure + (action_grant \<times> live_db)" where
  "issue_action_grant ids now a request worker_identity db =
     attempt (require_runtime_session db a) (\<lambda>session.
     attempt (get_action_grant_by_action db a (gr_action_id request)) (\<lambda>existing. case existing of
       Some g \<Rightarrow> if \<not> grant_request_matches g request then Inl live_conflict else Inr (g, db)
     | None \<Rightarrow>
         attempt (get_current_lease db (ls_id session)) (\<lambda>current.
         attempt (require_grant_authority session current request worker_identity now) (\<lambda>lease.
           issue_new_grant ids now request session lease db))))"

definition get_action_grant ::
    "uuid \<Rightarrow> uuid \<Rightarrow> live_db \<Rightarrow> failure + (action_grant \<times> live_db)" where
  "get_action_grant a grant_id db =
     attempt (require_runtime_session db a) (\<lambda>_.
     attempt (find_action_grant db grant_id) (\<lambda>found. case found of
       None \<Rightarrow> Inl live_not_found
     | Some g \<Rightarrow> if unit_attempt_id (ag_scope g) \<noteq> a then Inl live_not_found else Inr (g, db)))"

definition consume_action_grant ::
    "(nat \<Rightarrow> uuid) \<Rightarrow> instant \<Rightarrow> uuid \<Rightarrow> uuid \<Rightarrow> consume_request \<Rightarrow> live_db
      \<Rightarrow> failure + (action_grant \<times> live_db)" where
  "consume_action_grant ids now a grant_id request db =
     attempt (require_runtime_session db a) (\<lambda>session.
     attempt (find_action_grant db grant_id) (\<lambda>found. case found of
       None \<Rightarrow> Inl live_not_found
     | Some grant \<Rightarrow>
       if ag_session grant \<noteq> ls_id session then Inl live_not_found
       else if ag_control_epoch grant \<noteq> cn_control_epoch request
          \<or> ag_fencing_token grant \<noteq> cn_fencing_token request
          \<or> ag_proposal_digest grant \<noteq> cn_proposal_digest request
       then Inl live_fenced
       else if ag_state grant \<noteq> GRANT_ISSUED then Inl live_conflict
       else attempt (consume_grant_row grant now db) (\<lambda>(consumed, db1). case consumed of
         None \<Rightarrow> Inl live_fenced
       | Some g \<Rightarrow>
           attempt (append_event (ids 0) session ''live_action.grant_consumed''
             [(''grantId'', JString (uuid_text (ag_id g))),
              (''actionId'', JString (uuid_text (ag_action_id g)))] now db1) (\<lambda>db2.
           Inr (g, db2)))))"

definition complete_action_grant ::
    "(nat \<Rightarrow> uuid) \<Rightarrow> instant \<Rightarrow> uuid \<Rightarrow> uuid \<Rightarrow> complete_request \<Rightarrow> live_db
      \<Rightarrow> failure + (action_grant \<times> live_db)" where
  "complete_action_grant ids now a grant_id request db =
     attempt (require_runtime_session db a) (\<lambda>session.
     attempt (find_action_grant db grant_id) (\<lambda>found. case found of
       None \<Rightarrow> Inl live_not_found
     | Some grant \<Rightarrow>
       if ag_session grant \<noteq> ls_id session then Inl live_not_found
       else if ag_control_epoch grant \<noteq> co_control_epoch request
          \<or> ag_fencing_token grant \<noteq> co_fencing_token request
       then Inl live_fenced
       else if ag_state grant = GRANT_COMPLETED then
         (if ag_receipt_id grant \<noteq> Some (co_receipt_id request)
             \<or> ag_execution_status grant \<noteq> Some (co_execution_status request)
             \<or> ag_resulting_page_revision grant \<noteq> Some (co_resulting_page_revision request)
          then Inl live_conflict else Inr (grant, db))
       else if ag_state grant \<noteq> GRANT_CONSUMED then Inl live_conflict
       else if co_resulting_page_revision request < ls_browser_revision session
       then Inl live_conflict
       else attempt (complete_grant_row grant (co_receipt_id request) (co_execution_status request)
           (co_resulting_page_revision request) now db) (\<lambda>(completed, db1). case completed of
         None \<Rightarrow> Inl live_conflict
       | Some g \<Rightarrow>
           attempt (advance_browser_revision session (co_resulting_page_revision request) now db1)
             (\<lambda>(updated, db2).
           attempt (append_event (ids 0) updated ''live_action.execution_completed''
             [(''grantId'', JString (uuid_text (ag_id g))),
              (''actionId'', JString (uuid_text (ag_action_id g))),
              (''receiptId'', JString (uuid_text (co_receipt_id request))),
              (''status'', JString (execution_text (co_execution_status request))),
              (''resultingPageRevision'', JInt (co_resulting_page_revision request))] now db2)
             (\<lambda>db3. Inr (g, db3))))))"

subsection \<open>Control requests\<close>

fun requested_state :: "command_type \<Rightarrow> session_state \<times> bool" where
  "requested_state PAUSE = (QUIESCING, True)"
| "requested_state TAKEOVER = (QUIESCING, True)"
| "requested_state RESUME = (RESUME_REQUESTED, False)"
| "requested_state RETURN = (RECONCILING, True)"

fun expected_state :: "command_type \<Rightarrow> session_state" where
  "expected_state PAUSE = AGENT_CONTROLLED"
| "expected_state RESUME = PAUSED"
| "expected_state TAKEOVER = AGENT_CONTROLLED"
| "expected_state RETURN = HUMAN_CONTROLLED"

definition validate_transition ::
    "live_db \<Rightarrow> live_session \<Rightarrow> control_lease option \<Rightarrow> command_type \<Rightarrow> instant \<Rightarrow> failure + unit" where
  "validate_transition db session lease command_type now =
     (if ls_state session \<noteq> expected_state command_type then Inl live_conflict
      else if command_type \<noteq> RESUME \<and> (case lease of None \<Rightarrow> True
           | Some l \<Rightarrow> cl_state l \<noteq> LEASE_ACTIVE \<or> cl_expires_at l \<le> now
               \<or> cl_control_epoch l \<noteq> ls_control_epoch session
               \<or> cl_fencing_token l \<noteq> ls_fencing_token session)
      then Inl live_fenced
      else if command_type \<in> {PAUSE, TAKEOVER}
         \<and> (case lease of None \<Rightarrow> True | Some l \<Rightarrow> cl_owner_type l \<noteq> AGENT) then Inl live_conflict
      else if command_type = RETURN
         \<and> (case lease of None \<Rightarrow> True | Some l \<Rightarrow> cl_owner_type l \<noteq> HUMAN) then Inl live_conflict
      else if command_type = TAKEOVER then
        attempt (get_ticket_by_attempt db (unit_attempt_id (ls_scope session))) (\<lambda>ticket. case ticket of
          None \<Rightarrow> Inl live_conflict
        | Some t \<Rightarrow> if get_environment_kind db (tk_environment_id t) = Some ''PRODUCTION''
                   then Inl live_forbidden else Inr ())
      else Inr ())"

definition command_request_matches ::
    "live_command \<Rightarrow> command_type \<Rightarrow> live_request \<Rightarrow> int \<Rightarrow> bool" where
  "command_request_matches c command_type request expected_control_epoch =
     (lc_command_type c = command_type \<and> lc_reason c = lr_reason request
      \<and> lc_requested_ttl_sec c = lr_requested_ttl_sec request
      \<and> lc_expected_control_epoch c = expected_control_epoch)"

text \<open>
  The part after the replay and epoch checks.  The result is the command and whether it was
  replayed (\<open>CommandResult\<close>, always with status 202).
\<close>

definition accept_request ::
    "(nat \<Rightarrow> uuid) \<Rightarrow> instant \<Rightarrow> command_type \<Rightarrow> actor_context \<Rightarrow> live_request \<Rightarrow> int \<Rightarrow> string
      \<Rightarrow> live_db \<Rightarrow> live_session \<Rightarrow> failure + ((live_command \<times> bool) \<times> live_db)" where
  "accept_request ids now command_type actor request expected_control_epoch idempotency_key db
       session =
     attempt (get_pending_command db (ls_id session)) (\<lambda>pending.
     if pending \<noteq> None then Inl live_conflict
     else attempt (get_current_lease db (ls_id session)) (\<lambda>lease.
     attempt (validate_transition db session lease command_type now) (\<lambda>_.
     attempt (request_transition session (fst (requested_state command_type)) now
       (snd (requested_state command_type)) db) (\<lambda>(updated, db1).
     attempt (construct command_valid
         \<lparr>lc_id = ids 0, lc_scope = ls_scope session, lc_session = ls_id session,
          lc_command_type = command_type, lc_client_mutation_id = idempotency_key,
          lc_reason = lr_reason request, lc_requested_ttl_sec = lr_requested_ttl_sec request,
          lc_expected_control_epoch = expected_control_epoch,
          lc_accepted_session_revision = ls_revision updated, lc_status = COMMAND_PENDING,
          lc_requested_by = actor_id actor, lc_created_at = now, lc_updated_at = now,
          lc_applied_at = None, lc_resulting_control_epoch = None,
          lc_resulting_fencing_token = None, lc_checkpoint_digest = None\<rparr>) (\<lambda>command.
     attempt (create_command command db1) (\<lambda>(stored, db2).
     attempt (append_event (ids 1) updated
         (''live_control.'' @ command_text command_type @ ''.requested'')
         [(''commandId'', JString (uuid_text (lc_id stored))),
          (''requestedBy'', case actor_id actor of None \<Rightarrow> JNull | Some u \<Rightarrow> JString (uuid_text u)),
          (''reason'', JString (lr_reason request))] now db2) (\<lambda>db3.
     Inr ((stored, False), db3))))))))"

definition request_live_transition ::
    "(nat \<Rightarrow> uuid) \<Rightarrow> instant \<Rightarrow> command_type \<Rightarrow> actor_context \<Rightarrow> uuid \<Rightarrow> live_request \<Rightarrow> int \<Rightarrow> string
      \<Rightarrow> live_db \<Rightarrow> failure + ((live_command \<times> bool) \<times> live_db)" where
  "request_live_transition ids now command_type actor a request expected_control_epoch
       idempotency_key db =
     (if lr_requested_ttl_sec request \<noteq> None \<and> command_type \<noteq> TAKEOVER then Inl live_invalid
      else attempt (get_session_by_attempt db a) (\<lambda>found.
      attempt (require_operable actor found) (\<lambda>session.
      attempt (get_command_by_mutation db (ls_id session) idempotency_key) (\<lambda>existing.
      case existing of
        Some c \<Rightarrow> if \<not> command_request_matches c command_type request expected_control_epoch
                  then Inl live_conflict else Inr ((c, True), db)
      | None \<Rightarrow>
        if ls_control_epoch session \<noteq> expected_control_epoch then Inl live_epoch_changed
        else accept_request ids now command_type actor request expected_control_epoch
               idempotency_key db session))))"

definition pause_control where "pause_control ids now = request_live_transition ids now PAUSE"
definition resume_control where "resume_control ids now = request_live_transition ids now RESUME"
definition takeover_control where "takeover_control ids now = request_live_transition ids now TAKEOVER"
definition return_control where "return_control ids now = request_live_transition ids now RETURN"

end
