(* ===== verification/Live_Invariant.thy ===== *)
theory Live_Invariant
  imports Live_Service
begin

text \<open>
  The invariant of the live control tables.  \<open>base_inv\<close> is what every single statement keeps:
  rows that satisfy their model and their constraints, unique keys, references that exist, no
  epoch ahead of its session, event numbers without gaps.  \<open>controlled\<close> is what only a whole
  transaction keeps: the lease, the pending command and the issued grants that belong to each
  state of a session.  Each statement of the repository has one lemma that says it succeeds and
  what it does to the four views \<open>current\<close>, \<open>pending\<close>, \<open>issued\<close> and \<open>history\<close> of a session.
\<close>

subsection \<open>Views of a session\<close>

definition current :: "control_lease list \<Rightarrow> uuid \<Rightarrow> control_lease list" where
  "current L i = filter (\<lambda>l. cl_session l = i \<and> is_current l) L"

definition pending :: "live_command list \<Rightarrow> uuid \<Rightarrow> live_command list" where
  "pending C i = filter (\<lambda>c. lc_session c = i \<and> lc_status c = COMMAND_PENDING) C"

definition issued :: "action_grant list \<Rightarrow> uuid \<Rightarrow> action_grant list" where
  "issued G i = filter (\<lambda>g. ag_session g = i \<and> ag_state g = GRANT_ISSUED) G"

definition history :: "live_event list \<Rightarrow> uuid \<Rightarrow> live_event list" where
  "history E i = filter (\<lambda>e. le_session e = i) E"

definition covered :: "live_session list \<Rightarrow> uuid \<Rightarrow> unit_scope \<Rightarrow> int \<Rightarrow> bool" where
  "covered S i scope k \<longleftrightarrow>
     (\<exists>s \<in> set S. ls_id s = i \<and> ls_scope s = scope \<and> k \<le> ls_control_epoch s)"

subsection \<open>Rows\<close>

definition session_good :: "instant \<Rightarrow> live_session \<Rightarrow> bool" where
  "session_good t s \<longleftrightarrow> session_valid s \<and> session_check s \<and> ls_fencing_token s = ls_control_epoch s
     \<and> ls_created_at s \<le> t"

definition lease_good :: "instant \<Rightarrow> control_lease \<Rightarrow> bool" where
  "lease_good t l \<longleftrightarrow> lease_valid l \<and> lease_check l \<and> cl_fencing_token l = cl_control_epoch l
     \<and> cl_created_at l \<le> t"

definition command_good :: "instant \<Rightarrow> live_command \<Rightarrow> bool" where
  "command_good t c \<longleftrightarrow> command_valid c \<and> command_check c \<and> lc_requested_by c \<noteq> None
     \<and> lc_created_at c \<le> t"

definition grant_good :: "instant \<Rightarrow> action_grant \<Rightarrow> bool" where
  "grant_good t g \<longleftrightarrow> grant_valid g \<and> grant_check g \<and> ag_fencing_token g = ag_control_epoch g
     \<and> ag_created_at g \<le> t \<and> (case ag_consumed_at g of None \<Rightarrow> True | Some c \<Rightarrow> c \<le> t)"

lemmas good_defs = session_good_def lease_good_def command_good_def grant_good_def

lemma good_mono:
  "t \<le> u \<Longrightarrow> session_good t s \<Longrightarrow> session_good u s"
  "t \<le> u \<Longrightarrow> lease_good t l \<Longrightarrow> lease_good u l"
  "t \<le> u \<Longrightarrow> command_good t c \<Longrightarrow> command_good u c"
  "t \<le> u \<Longrightarrow> grant_good t g \<Longrightarrow> grant_good u g"
  by (auto simp: good_defs split: option.splits)

subsection \<open>Tables\<close>

definition sessions_inv :: "instant \<Rightarrow> live_session list \<Rightarrow> bool" where
  "sessions_inv t S \<longleftrightarrow> (\<forall>s \<in> set S. session_good t s) \<and> distinct (map ls_id S)
     \<and> distinct (map (\<lambda>s. unit_attempt_id (ls_scope s)) S)"

definition leases_inv :: "instant \<Rightarrow> live_session list \<Rightarrow> control_lease list \<Rightarrow> bool" where
  "leases_inv t S L \<longleftrightarrow>
     (\<forall>l \<in> set L. lease_good t l \<and> covered S (cl_session l) (cl_scope l) (cl_control_epoch l))
     \<and> distinct (map cl_id L)"

definition commands_inv :: "instant \<Rightarrow> live_session list \<Rightarrow> live_command list \<Rightarrow> bool" where
  "commands_inv t S C \<longleftrightarrow>
     (\<forall>c \<in> set C. command_good t c \<and> covered S (lc_session c) (lc_scope c) (lc_expected_control_epoch c))
     \<and> distinct (map lc_id C) \<and> distinct (map (\<lambda>c. (lc_session c, lc_client_mutation_id c)) C)"

definition grants_inv :: "instant \<Rightarrow> live_session list \<Rightarrow> action_grant list \<Rightarrow> bool" where
  "grants_inv t S G \<longleftrightarrow>
     (\<forall>g \<in> set G. grant_good t g \<and> covered S (ag_session g) (ag_scope g) (ag_control_epoch g))
     \<and> distinct (map ag_id G)
     \<and> distinct (map (\<lambda>g. (unit_attempt_id (ag_scope g), ag_action_id g)) G)"

definition events_inv :: "live_session list \<Rightarrow> live_event list \<Rightarrow> bool" where
  "events_inv S E \<longleftrightarrow>
     (\<forall>e \<in> set E. event_check e \<and> covered S (le_session e) (le_scope e) (le_control_epoch e))
     \<and> distinct (map le_id E)
     \<and> (\<forall>i. map le_seq (history E i) = [1..<Suc (length (history E i))])"

definition base_inv :: "instant \<Rightarrow> live_db \<Rightarrow> bool" where
  "base_inv t db \<longleftrightarrow> sessions_inv t (sessions db) \<and> leases_inv t (sessions db) (leases db)
     \<and> commands_inv t (sessions db) (commands db) \<and> grants_inv t (sessions db) (action_grants db)
     \<and> events_inv (sessions db) (events db)"

lemmas table_invs = sessions_inv_def leases_inv_def commands_inv_def grants_inv_def events_inv_def

lemma base_inv_mono: "base_inv t db \<Longrightarrow> t \<le> u \<Longrightarrow> base_inv u db"
  unfolding base_inv_def sessions_inv_def leases_inv_def commands_inv_def grants_inv_def
  using good_mono by blast

subsection \<open>States\<close>

fun state_shape :: "session_state \<Rightarrow> control_lease list \<Rightarrow> live_command list \<Rightarrow> bool" where
  "state_shape AGENT_CONTROLLED [l] [] = (cl_state l = LEASE_ACTIVE \<and> cl_owner_type l = AGENT)"
| "state_shape HUMAN_CONTROLLED [l] [] = (cl_state l = LEASE_ACTIVE \<and> cl_owner_type l = HUMAN)"
| "state_shape QUIESCING [l] [c] = (cl_state l = LEASE_REVOKING \<and> cl_owner_type l = AGENT
     \<and> lc_command_type c \<in> {PAUSE, TAKEOVER})"
| "state_shape RECONCILING [l] [c] = (cl_state l = LEASE_REVOKING \<and> cl_owner_type l = HUMAN
     \<and> lc_command_type c = RETURN)"
| "state_shape RESUME_REQUESTED [] [c] = (lc_command_type c = RESUME)"
| "state_shape PAUSED [] [] = True"
| "state_shape NO_CONTROLLER [] [] = True"
| "state_shape _ _ _ = False"

definition control_ok ::
    "live_session \<Rightarrow> control_lease list \<Rightarrow> live_command list \<Rightarrow> action_grant list \<Rightarrow> bool" where
  "control_ok s cur pend iss \<longleftrightarrow> state_shape (ls_state s) cur pend
     \<and> (\<forall>l \<in> set cur. cl_control_epoch l = ls_control_epoch s)
     \<and> (\<forall>c \<in> set pend. lc_expected_control_epoch c = ls_control_epoch s)
     \<and> (\<forall>g \<in> set iss. ag_control_epoch g = ls_control_epoch s
          \<and> (\<exists>l \<in> set cur. cl_id l = ag_control_lease_id g \<and> cl_state l = LEASE_ACTIVE))
     \<and> (ls_state s = HUMAN_CONTROLLED \<longrightarrow> ls_human_influenced s)"

definition controlled :: "live_db \<Rightarrow> bool" where
  "controlled db \<longleftrightarrow> (\<forall>s \<in> set (sessions db).
     control_ok s (current (leases db) (ls_id s)) (pending (commands db) (ls_id s))
       (issued (action_grants db) (ls_id s)))"

definition live_inv :: "instant \<Rightarrow> live_db \<Rightarrow> bool" where
  "live_inv t db \<longleftrightarrow> base_inv t db \<and> controlled db"

text \<open>\<open>new_entity_id\<close> never returns an identifier twice, nor one that is in use.\<close>

definition used_ids :: "live_db \<Rightarrow> uuid set" where
  "used_ids db = ls_id ` set (sessions db) \<union> cl_id ` set (leases db) \<union> lc_id ` set (commands db)
     \<union> ag_id ` set (action_grants db) \<union> le_id ` set (events db)"

definition fresh :: "(nat \<Rightarrow> uuid) \<Rightarrow> live_db \<Rightarrow> bool" where
  "fresh ids db \<longleftrightarrow> inj ids \<and> (\<forall>n. ids n \<notin> used_ids db)"

subsection \<open>Coverage and views under statements\<close>

lemma covered_mono: "covered S i sc k \<Longrightarrow> k' \<le> k \<Longrightarrow> covered S i sc k'"
  unfolding covered_def by force

lemma covered_append: "covered S i sc k \<Longrightarrow> covered (S @ xs) i sc k"
  unfolding covered_def by auto

lemma covered_put_where:
  assumes "covered S i sc k"
    and "\<And>s. s \<in> set S \<Longrightarrow> p s \<Longrightarrow> ls_id (f s) = ls_id s \<and> ls_scope (f s) = ls_scope s
           \<and> ls_control_epoch s \<le> ls_control_epoch (f s)"
  shows "covered (put_where p f S) i sc k"
proof -
  obtain s where s: "s \<in> set S" "ls_id s = i" "ls_scope s = sc" "k \<le> ls_control_epoch s"
    using assms(1) unfolding covered_def by auto
  show ?thesis
  proof (cases "p s")
    case True
    with s assms(2) [OF s(1) True] have "f s \<in> set (put_where p f S) \<and> ls_id (f s) = i
        \<and> ls_scope (f s) = sc \<and> k \<le> ls_control_epoch (f s)"
      by (auto simp: set_put_where)
    then show ?thesis unfolding covered_def by blast
  next
    case False
    with s have "s \<in> set (put_where p f S)" by (auto simp: set_put_where)
    with s show ?thesis unfolding covered_def by blast
  qed
qed

lemma covered_exists: "covered S i sc k \<Longrightarrow> i \<in> ls_id ` set S"
  unfolding covered_def by auto

lemma ball_put_where:
  "(\<And>r. r \<in> set rows \<Longrightarrow> P r) \<Longrightarrow> (\<And>r. r \<in> set rows \<Longrightarrow> p r \<Longrightarrow> P (f r)) \<Longrightarrow>
     \<forall>r \<in> set (put_where p f rows). P r"
  by (auto simp: set_put_where)

lemma map_put_where_on:
  assumes "\<And>r. r \<in> set rows \<Longrightarrow> p r \<Longrightarrow> key (f r) = key r"
  shows "map key (put_where p f rows) = map key rows"
  using assms by (induction rows) auto

lemma filter_put_where_other_on:
  assumes "\<And>r. r \<in> set rows \<Longrightarrow> p r \<Longrightarrow> q (f r) = q r" and "\<And>r. r \<in> set rows \<Longrightarrow> p r \<Longrightarrow> \<not> q r"
  shows "filter q (put_where p f rows) = filter q rows"
  using assms by (induction rows) auto

lemma filter_put_where_on:
  assumes "\<And>r. r \<in> set rows \<Longrightarrow> p r \<Longrightarrow> q (f r) = q r"
  shows "filter q (put_where p f rows) = put_where p f (filter q rows)"
  using assms by (induction rows) auto

lemma filter_put_where_drop:
  assumes "\<And>r. r \<in> set rows \<Longrightarrow> q r \<Longrightarrow> p r" and "\<And>r. r \<in> set rows \<Longrightarrow> p r \<Longrightarrow> \<not> q (f r)"
  shows "filter q (put_where p f rows) = []"
  using assms by (induction rows) auto

subsection \<open>Statements keep the base invariant\<close>

lemma update_leases_ok:
  assumes inv: "base_inv now db"
    and step: "\<And>l. l \<in> set (leases db) \<Longrightarrow> p l \<Longrightarrow> guard_lease now l (f l) \<and> lease_good now (f l)"
  shows "update_leases now p f db
      = Inr (map f (filter p (leases db)), db\<lparr>leases := put_where p f (leases db)\<rparr>)"
    and "base_inv now (db\<lparr>leases := put_where p f (leases db)\<rparr>)"
proof -
  have keep: "cl_id (f l) = cl_id l \<and> cl_session (f l) = cl_session l \<and> cl_scope (f l) = cl_scope l
      \<and> cl_control_epoch (f l) = cl_control_epoch l" if "l \<in> set (leases db)" "p l" for l
    using step [OF that] by (simp add: guard_lease_def)
  have "sql_update (guard_lease now) lease_check p f (leases db)
      = Inr (map f (filter p (leases db)), put_where p f (leases db))"
    using step by (intro sql_update_ok) (auto simp: lease_good_def)
  then show "update_leases now p f db
      = Inr (map f (filter p (leases db)), db\<lparr>leases := put_where p f (leases db)\<rparr>)"
    by (simp add: update_leases_def)
  have "\<forall>l \<in> set (put_where p f (leases db)).
      lease_good now l \<and> covered (sessions db) (cl_session l) (cl_scope l) (cl_control_epoch l)"
    using inv step keep by (intro ball_put_where) (auto simp: base_inv_def leases_inv_def)
  moreover have "map cl_id (put_where p f (leases db)) = map cl_id (leases db)"
    using keep by (intro map_put_where_on) auto
  ultimately show "base_inv now (db\<lparr>leases := put_where p f (leases db)\<rparr>)"
    using inv by (simp add: base_inv_def leases_inv_def)
qed

lemma update_commands_ok:
  assumes inv: "base_inv now db"
    and step: "\<And>c. c \<in> set (commands db) \<Longrightarrow> p c \<Longrightarrow> guard_command now c (f c) \<and> command_good now (f c)"
  shows "update_commands now p f db
      = Inr (map f (filter p (commands db)), db\<lparr>commands := put_where p f (commands db)\<rparr>)"
    and "base_inv now (db\<lparr>commands := put_where p f (commands db)\<rparr>)"
proof -
  have keep: "lc_id (f c) = lc_id c \<and> lc_session (f c) = lc_session c \<and> lc_scope (f c) = lc_scope c
      \<and> lc_client_mutation_id (f c) = lc_client_mutation_id c
      \<and> lc_expected_control_epoch (f c) = lc_expected_control_epoch c"
    if "c \<in> set (commands db)" "p c" for c
    using step [OF that] by (simp add: guard_command_def)
  have "sql_update (guard_command now) command_check p f (commands db)
      = Inr (map f (filter p (commands db)), put_where p f (commands db))"
    using step by (intro sql_update_ok) (auto simp: command_good_def)
  then show "update_commands now p f db
      = Inr (map f (filter p (commands db)), db\<lparr>commands := put_where p f (commands db)\<rparr>)"
    by (simp add: update_commands_def)
  have "\<forall>c \<in> set (put_where p f (commands db)). command_good now c
      \<and> covered (sessions db) (lc_session c) (lc_scope c) (lc_expected_control_epoch c)"
    using inv step keep by (intro ball_put_where) (auto simp: base_inv_def commands_inv_def)
  moreover have "map lc_id (put_where p f (commands db)) = map lc_id (commands db)"
    using keep by (intro map_put_where_on) auto
  moreover have "map (\<lambda>c. (lc_session c, lc_client_mutation_id c)) (put_where p f (commands db))
      = map (\<lambda>c. (lc_session c, lc_client_mutation_id c)) (commands db)"
    using keep by (intro map_put_where_on) auto
  ultimately show "base_inv now (db\<lparr>commands := put_where p f (commands db)\<rparr>)"
    using inv by (simp add: base_inv_def commands_inv_def)
qed

lemma update_grants_ok:
  assumes inv: "base_inv now db"
    and step: "\<And>g. g \<in> set (action_grants db) \<Longrightarrow> p g \<Longrightarrow> guard_grant g (f g) \<and> grant_good now (f g)"
  shows "update_grants p f db
      = Inr (map f (filter p (action_grants db)),
             db\<lparr>action_grants := put_where p f (action_grants db)\<rparr>)"
    and "base_inv now (db\<lparr>action_grants := put_where p f (action_grants db)\<rparr>)"
proof -
  have keep: "ag_id (f g) = ag_id g \<and> ag_session (f g) = ag_session g \<and> ag_scope (f g) = ag_scope g
      \<and> ag_action_id (f g) = ag_action_id g \<and> ag_control_epoch (f g) = ag_control_epoch g"
    if "g \<in> set (action_grants db)" "p g" for g
    using step [OF that] by (simp add: guard_grant_def)
  have "sql_update guard_grant grant_check p f (action_grants db)
      = Inr (map f (filter p (action_grants db)), put_where p f (action_grants db))"
    using step by (intro sql_update_ok) (auto simp: grant_good_def)
  then show "update_grants p f db
      = Inr (map f (filter p (action_grants db)),
             db\<lparr>action_grants := put_where p f (action_grants db)\<rparr>)"
    by (simp add: update_grants_def)
  have "\<forall>g \<in> set (put_where p f (action_grants db)). grant_good now g
      \<and> covered (sessions db) (ag_session g) (ag_scope g) (ag_control_epoch g)"
    using inv step keep by (intro ball_put_where) (auto simp: base_inv_def grants_inv_def)
  moreover have "map ag_id (put_where p f (action_grants db)) = map ag_id (action_grants db)"
    using keep by (intro map_put_where_on) auto
  moreover have "map (\<lambda>g. (unit_attempt_id (ag_scope g), ag_action_id g)) (put_where p f (action_grants db))
      = map (\<lambda>g. (unit_attempt_id (ag_scope g), ag_action_id g)) (action_grants db)"
    using keep by (intro map_put_where_on) auto
  ultimately show "base_inv now (db\<lparr>action_grants := put_where p f (action_grants db)\<rparr>)"
    using inv by (simp add: base_inv_def grants_inv_def)
qed

lemma update_sessions_ok:
  assumes inv: "base_inv now db"
    and step: "\<And>s. s \<in> set (sessions db) \<Longrightarrow> p s \<Longrightarrow> guard_session now s (f s) \<and> session_good now (f s)"
  shows "update_sessions now p f db
      = Inr (map f (filter p (sessions db)), db\<lparr>sessions := put_where p f (sessions db)\<rparr>)"
    and "base_inv now (db\<lparr>sessions := put_where p f (sessions db)\<rparr>)"
proof -
  have keep: "ls_id (f s) = ls_id s \<and> ls_scope (f s) = ls_scope s
      \<and> ls_control_epoch s \<le> ls_control_epoch (f s)" if "s \<in> set (sessions db)" "p s" for s
    using step [OF that] by (auto simp: guard_session_def)
  have "sql_update (guard_session now) session_check p f (sessions db)
      = Inr (map f (filter p (sessions db)), put_where p f (sessions db))"
    using step by (intro sql_update_ok) (auto simp: session_good_def)
  then show "update_sessions now p f db
      = Inr (map f (filter p (sessions db)), db\<lparr>sessions := put_where p f (sessions db)\<rparr>)"
    by (simp add: update_sessions_def)
  have cov: "covered (put_where p f (sessions db)) i sc k" if "covered (sessions db) i sc k" for i sc k
    using keep by (intro covered_put_where [OF that]) auto
  have "\<forall>s \<in> set (put_where p f (sessions db)). session_good now s"
    using inv step by (intro ball_put_where) (auto simp: base_inv_def sessions_inv_def)
  moreover have "map ls_id (put_where p f (sessions db)) = map ls_id (sessions db)"
    using keep by (intro map_put_where_on) auto
  moreover have "map (\<lambda>s. unit_attempt_id (ls_scope s)) (put_where p f (sessions db))
      = map (\<lambda>s. unit_attempt_id (ls_scope s)) (sessions db)"
    using keep by (intro map_put_where_on) auto
  ultimately show "base_inv now (db\<lparr>sessions := put_where p f (sessions db)\<rparr>)"
    using inv cov by (simp add: base_inv_def table_invs)
qed

text \<open>Selecting a session by its id and a version that is the current one finds just that row.\<close>

lemma session_unique:
  "base_inv t db \<Longrightarrow> s \<in> set (sessions db) \<Longrightarrow> x \<in> set (sessions db) \<Longrightarrow> ls_id x = ls_id s \<Longrightarrow> x = s"
  by (auto simp: base_inv_def sessions_inv_def dest: distinct_key_eq)

lemma filter_session:
  assumes "base_inv t db" and "s \<in> set (sessions db)" and "p s"
  shows "filter (\<lambda>x. ls_id x = ls_id s \<and> p x) (sessions db) = [s]"
    and "put_where (\<lambda>x. ls_id x = ls_id s \<and> p x) f (sessions db)
       = put_where (\<lambda>x. ls_id x = ls_id s) f (sessions db)"
proof -
  have d: "distinct (map ls_id (sessions db))"
    using assms(1) by (simp add: base_inv_def sessions_inv_def)
  show "filter (\<lambda>x. ls_id x = ls_id s \<and> p x) (sessions db) = [s]"
    using filter_key_and_unique [OF d assms(2)] assms(3) by simp
  show "put_where (\<lambda>x. ls_id x = ls_id s \<and> p x) f (sessions db)
       = put_where (\<lambda>x. ls_id x = ls_id s) f (sessions db)"
    unfolding put_where_def using session_unique [OF assms(1,2)] assms(3) by (intro map_cong) auto
qed

lemma put_where_const:
  assumes "base_inv t db" and "s \<in> set (sessions db)"
  shows "put_where (\<lambda>x. ls_id x = ls_id s) f (sessions db)
       = put_where (\<lambda>x. ls_id x = ls_id s) (\<lambda>_. f s) (sessions db)"
  unfolding put_where_def using session_unique [OF assms] by (intro map_cong) auto

lemma put_session_iff:
  assumes "base_inv t db" and "s \<in> set (sessions db)" and "ls_id s' = ls_id s"
  shows "x \<in> set (put_where (\<lambda>x. ls_id x = ls_id s) (\<lambda>_. s') (sessions db))
     \<longleftrightarrow> x = s' \<or> (x \<in> set (sessions db) \<and> ls_id x \<noteq> ls_id s)"
  using assms(2) by (auto simp: set_put_where)

end
