(* ===== verification/Live_Statements.thy ===== *)
theory Live_Statements
  imports Live_Invariant
begin

text \<open>
  What each statement of the live control repository does when the invariant holds: it succeeds,
  keeps \<open>base_inv\<close>, and changes the views of one session only.  The handlers' proofs are
  sequences of these facts.
\<close>

subsection \<open>One session row\<close>

definition put_session :: "live_session \<Rightarrow> live_session list \<Rightarrow> live_session list" where
  "put_session s' S = put_where (\<lambda>x. ls_id x = ls_id s') (\<lambda>_. s') S"

lemma set_put_session:
  "s \<in> set S \<Longrightarrow> ls_id s = ls_id s' \<Longrightarrow>
     x \<in> set (put_session s' S) \<longleftrightarrow> x = s' \<or> (x \<in> set S \<and> ls_id x \<noteq> ls_id s')"
  by (auto simp: put_session_def set_put_where)

lemma update_session_ok:
  assumes inv: "base_inv now db" and s: "s \<in> set (sessions db)" and p: "p s"
    and guard: "guard_session now s (f s)" and good: "session_good now (f s)"
  shows "update_sessions now (\<lambda>x. ls_id x = ls_id s \<and> p x) f db
      = Inr ([f s], db\<lparr>sessions := put_session (f s) (sessions db)\<rparr>)"
    and "base_inv now (db\<lparr>sessions := put_session (f s) (sessions db)\<rparr>)"
    and "f s \<in> set (put_session (f s) (sessions db))"
proof -
  have id: "ls_id (f s) = ls_id s" using guard by (simp add: guard_session_def)
  have step: "guard_session now x (f x) \<and> session_good now (f x)"
    if "x \<in> set (sessions db)" "ls_id x = ls_id s \<and> p x" for x
    using session_unique [OF inv s that(1)] that(2) guard good by simp
  have eq: "put_where (\<lambda>x. ls_id x = ls_id s \<and> p x) f (sessions db) = put_session (f s) (sessions db)"
    unfolding filter_session(2) [where p = p, OF inv s p] put_session_def id by (rule put_where_const [OF inv s])
  note upd = update_sessions_ok [where p = "\<lambda>x. ls_id x = ls_id s \<and> p x" and f = f, OF inv step]
  show "update_sessions now (\<lambda>x. ls_id x = ls_id s \<and> p x) f db
      = Inr ([f s], db\<lparr>sessions := put_session (f s) (sessions db)\<rparr>)"
    using upd(1) filter_session(1) [where p = p, OF inv s p] by (simp add: eq)
  show "base_inv now (db\<lparr>sessions := put_session (f s) (sessions db)\<rparr>)"
    using upd(2) by (simp add: eq)
  show "f s \<in> set (put_session (f s) (sessions db))"
    using s id by (simp add: set_put_session)
qed

lemma session_row_good: "base_inv t db \<Longrightarrow> s \<in> set (sessions db) \<Longrightarrow> session_good t s"
  and lease_row_good: "base_inv t db \<Longrightarrow> l \<in> set (leases db) \<Longrightarrow> lease_good t l"
  and command_row_good: "base_inv t db \<Longrightarrow> c \<in> set (commands db) \<Longrightarrow> command_good t c"
  and grant_row_good: "base_inv t db \<Longrightarrow> g \<in> set (action_grants db) \<Longrightarrow> grant_good t g"
  by (auto simp: base_inv_def table_invs)

subsection \<open>Leases\<close>

lemma in_current: "l \<in> set (current L i) \<longleftrightarrow> l \<in> set L \<and> cl_session l = i \<and> is_current l"
  by (auto simp: current_def)

lemma current_put_where:
  assumes "\<And>x. x \<in> set L \<Longrightarrow> p x \<Longrightarrow> cl_session x = i \<and> is_current x \<and> cl_session (f x) = i"
  shows "current (put_where p f L) = (current L)(i := filter is_current (put_where p f (current L i)))"
  using assms by (intro ext, induction L) (auto simp: current_def)

definition lease_epochs :: "control_lease list \<Rightarrow> uuid \<Rightarrow> int list" where
  "lease_epochs L i = map cl_control_epoch (filter (\<lambda>l. cl_session l = i) L)"

lemma update_current_leases:
  assumes inv: "base_inv now db"
    and sel: "\<And>x. x \<in> set (leases db) \<Longrightarrow> p x \<Longrightarrow> cl_session x = i \<and> is_current x"
    and step: "\<And>l. l \<in> set (leases db) \<Longrightarrow> p l \<Longrightarrow> guard_lease now l (f l) \<and> lease_good now (f l)"
  obtains L where "update_leases now p f db
      = Inr (map f (filter p (current (leases db) i)), db\<lparr>leases := L\<rparr>)"
    and "base_inv now (db\<lparr>leases := L\<rparr>)"
    and "current L = (current (leases db))(i := filter is_current (put_where p f (current (leases db) i)))"
    and "map cl_id L = map cl_id (leases db)" and "lease_epochs L = lease_epochs (leases db)"
proof -
  let ?L = "put_where p f (leases db)"
  have keep: "cl_id (f l) = cl_id l \<and> cl_session (f l) = cl_session l
      \<and> cl_control_epoch (f l) = cl_control_epoch l" if "l \<in> set (leases db)" "p l" for l
    using step [OF that] by (simp add: guard_lease_def)
  have rows: "filter p (leases db) = filter p (current (leases db) i)"
    unfolding current_def filter_filter using sel by (intro filter_cong) auto
  have cur: "current ?L = (current (leases db))(i := filter is_current (put_where p f (current (leases db) i)))"
    using sel keep by (intro current_put_where) auto
  have ids: "map cl_id ?L = map cl_id (leases db)"
    using keep by (intro map_put_where_on) auto
  have "filter (\<lambda>l. cl_session l = j) ?L = put_where p f (filter (\<lambda>l. cl_session l = j) (leases db))" for j
    using keep by (intro filter_put_where_on) auto
  then have epochs: "lease_epochs ?L = lease_epochs (leases db)"
    using keep by (auto simp: lease_epochs_def fun_eq_iff intro!: map_put_where_on)
  show thesis
    using that [OF _ update_leases_ok(2) [OF inv step] cur ids epochs]
      update_leases_ok(1) [OF inv step] rows by simp
qed

lemma is_current_state: "is_current l \<longleftrightarrow> cl_state l = LEASE_ACTIVE \<or> cl_state l = LEASE_REVOKING"
  by (simp add: is_current_def)

lemma lease_end_good:
  assumes "lease_good now l" and "is_current l" and "st \<in> {LEASE_EXPIRED, LEASE_RELEASED}"
  shows "lease_good now (l\<lparr>cl_state := st, cl_released_at := Some now, cl_updated_at := now\<rparr>)"
    and "guard_lease now l (l\<lparr>cl_state := st, cl_released_at := Some now, cl_updated_at := now\<rparr>)"
  using assms by (auto simp: lease_good_def lease_valid_def lease_check_def guard_lease_def is_current_def)

lemma lease_revoke_good:
  assumes "lease_good now l" and "cl_state l = LEASE_ACTIVE"
  shows "lease_good now (l\<lparr>cl_state := LEASE_REVOKING, cl_updated_at := now\<rparr>)"
    and "guard_lease now l (l\<lparr>cl_state := LEASE_REVOKING, cl_updated_at := now\<rparr>)"
  using assms by (auto simp: lease_good_def lease_valid_def lease_check_def guard_lease_def)

lemma lease_extend_good:
  assumes "lease_good now l" and "cl_state l = LEASE_ACTIVE" and "cl_expires_at l < e"
  shows "lease_good now (l\<lparr>cl_expires_at := e, cl_updated_at := now\<rparr>)"
    and "guard_lease now l (l\<lparr>cl_expires_at := e, cl_updated_at := now\<rparr>)"
  using assms by (auto simp: lease_good_def lease_valid_def lease_check_def guard_lease_def)

lemma create_lease_ok:
  assumes inv: "base_inv now db" and s: "s \<in> set (sessions db)" and good: "lease_good now l"
    and refs: "cl_session l = ls_id s" "cl_scope l = ls_scope s" "cl_control_epoch l = ls_control_epoch s"
    and cur: "is_current l" and none: "current (leases db) (ls_id s) = []"
    and newer: "\<And>k. k \<in> set (lease_epochs (leases db) (ls_id s)) \<Longrightarrow> k < ls_control_epoch s"
    and id: "cl_id l \<notin> cl_id ` set (leases db)"
  obtains L where "create_lease l db = Inr (l, db\<lparr>leases := L\<rparr>)"
    and "base_inv now (db\<lparr>leases := L\<rparr>)"
    and "current L = (current (leases db))(ls_id s := [l])"
proof -
  have conf: "\<not> lease_conflicts x l" if x: "x \<in> set (leases db)" for x
  proof
    assume c: "lease_conflicts x l"
    have other: "cl_id x \<noteq> cl_id l" using id x by (metis image_eqI)
    with c have same: "cl_session x = ls_id s" by (auto simp: lease_conflicts_def refs)
    then have e: "cl_control_epoch x < ls_control_epoch s"
      using x by (intro newer) (auto simp: lease_epochs_def)
    have "\<not> is_current x" using none x same by (auto simp: current_def filter_empty_conv)
    moreover have "cl_fencing_token x = cl_control_epoch x" "cl_fencing_token l = cl_control_epoch l"
      using lease_row_good [OF inv x] good by (simp_all add: lease_good_def)
    ultimately show False
      using c other e by (auto simp: lease_conflicts_def refs)
  qed
  have ref: "session_exists db (cl_session l) (cl_scope l)"
    using s refs by (auto simp: session_exists_def list_ex_iff)
  have ok: "lease_check l" "lease_valid l" using good by (simp_all add: lease_good_def)
  have "create_lease l db = Inr (l, db\<lparr>leases := leases db @ [l]\<rparr>)"
    using conf ref ok by (auto simp: create_lease_def result_simps table_simps)
  moreover have "base_inv now (db\<lparr>leases := leases db @ [l]\<rparr>)"
    using inv good s refs id by (auto simp: base_inv_def leases_inv_def covered_def)
  moreover have "current (leases db @ [l]) = (current (leases db))(ls_id s := [l])"
    using none refs cur by (auto simp: current_def fun_eq_iff)
  ultimately show thesis by (rule that)
qed

subsection \<open>Grants\<close>

lemma in_issued: "g \<in> set (issued G i) \<longleftrightarrow> g \<in> set G \<and> ag_session g = i \<and> ag_state g = GRANT_ISSUED"
  by (auto simp: issued_def)

lemma issued_put_where:
  assumes "\<And>x. x \<in> set G \<Longrightarrow> p x \<Longrightarrow> ag_session x = i \<and> ag_state x = GRANT_ISSUED
             \<and> ag_state (f x) \<noteq> GRANT_ISSUED"
  shows "issued (put_where p f G) = (issued G)(i := filter (\<lambda>g. \<not> p g) (issued G i))"
  using assms by (intro ext, induction G) (auto simp: issued_def)

lemma grant_revoke_good:
  assumes "grant_good now g" and "ag_state g = GRANT_ISSUED"
  shows "grant_good now (g\<lparr>ag_state := GRANT_REVOKED, ag_revoked_at := Some now\<rparr>)"
    and "guard_grant g (g\<lparr>ag_state := GRANT_REVOKED, ag_revoked_at := Some now\<rparr>)"
  using assms by (auto simp: grant_good_def grant_valid_def grant_check_def grant_lifecycle_def
      guard_grant_def receipt_absent_def)

lemma revoke_issued_grants_ok:
  assumes inv: "base_inv now db"
  obtains G where "revoke_issued_grants now i db = Inr (db\<lparr>action_grants := G\<rparr>)"
    and "base_inv now (db\<lparr>action_grants := G\<rparr>)"
    and "issued G = (issued (action_grants db))(i := [])"
proof -
  let ?p = "\<lambda>g. ag_session g = i \<and> ag_state g = GRANT_ISSUED"
  let ?f = "\<lambda>g. g\<lparr>ag_state := GRANT_REVOKED, ag_revoked_at := Some now\<rparr>"
  have step: "guard_grant g (?f g) \<and> grant_good now (?f g)" if "g \<in> set (action_grants db)" "?p g" for g
    using grant_revoke_good grant_row_good [OF inv that(1)] that(2) by blast
  have "issued (put_where ?p ?f (action_grants db)) = (issued (action_grants db))(i := [])"
    by (subst issued_put_where [where i = i]) (auto simp: in_issued filter_empty_conv)
  then show thesis
    using that [OF _ update_grants_ok(2) [OF inv step]] update_grants_ok(1) [OF inv step]
    by (simp add: revoke_issued_grants_def)
qed

lemma create_action_grant_ok:
  assumes inv: "base_inv now db" and s: "s \<in> set (sessions db)" and good: "grant_good now g"
    and refs: "ag_session g = ls_id s" "ag_scope g = ls_scope s" "ag_control_epoch g \<le> ls_control_epoch s"
    and lease: "l \<in> set (leases db)" "cl_id l = ag_control_lease_id g" "cl_session l = ls_id s"
    and st: "ag_state g = GRANT_ISSUED" and id: "ag_id g \<notin> ag_id ` set (action_grants db)"
    and new: "get_action_grant_by_action db (unit_attempt_id (ls_scope s)) (ag_action_id g) = Inr None"
  obtains G where "create_action_grant g db = Inr (Some g, db\<lparr>action_grants := G\<rparr>)"
    and "base_inv now (db\<lparr>action_grants := G\<rparr>)"
    and "issued G = (issued (action_grants db))(ls_id s := issued (action_grants db) (ls_id s) @ [g])"
proof -
  have absent: "\<not> (unit_attempt_id (ag_scope x) = unit_attempt_id (ag_scope g) \<and> ag_action_id x = ag_action_id g)"
    if "x \<in> set (action_grants db)" for x
    using new that by (auto simp: get_action_grant_by_action_def result_simps table_simps refs)
  have noid: "ag_id x \<noteq> ag_id g" if "x \<in> set (action_grants db)" for x
    using id that by (metis image_eqI)
  have scope: "cl_scope l = ls_scope s"
  proof -
    have "covered (sessions db) (cl_session l) (cl_scope l) (cl_control_epoch l)"
      using inv lease(1) by (auto simp: base_inv_def leases_inv_def)
    then obtain s' where "s' \<in> set (sessions db)" "ls_id s' = ls_id s" "ls_scope s' = cl_scope l"
      unfolding covered_def lease(3) by blast
    with session_unique [OF inv s] show ?thesis by metis
  qed
  have ref: "grant_references db g"
    using s lease scope by (auto simp: grant_references_def session_exists_def list_ex_iff refs)
  have ok: "grant_check g" "grant_valid g" using good by (simp_all add: grant_good_def)
  have "create_action_grant g db = Inr (Some g, db\<lparr>action_grants := action_grants db @ [g]\<rparr>)"
    using absent noid ref ok
    by (auto simp: create_action_grant_def sql_insert_or_skip_def list_ex_iff result_simps ensure_def)
  moreover have "(unit_attempt_id (ag_scope g), ag_action_id g)
      \<notin> (\<lambda>g. (unit_attempt_id (ag_scope g), ag_action_id g)) ` set (action_grants db)"
    using absent by fastforce
  then have "base_inv now (db\<lparr>action_grants := action_grants db @ [g]\<rparr>)"
    using inv good s refs id by (auto simp: base_inv_def grants_inv_def covered_def)
  moreover have "issued (action_grants db @ [g])
      = (issued (action_grants db))(ls_id s := issued (action_grants db) (ls_id s) @ [g])"
    using refs st by (auto simp: issued_def fun_eq_iff)
  ultimately show thesis by (rule that)
qed

text \<open>Updating the one grant with a given id: what it was, and what it becomes.\<close>

lemma update_grant_ok:
  assumes inv: "base_inv now db" and g: "g \<in> set (action_grants db)"
    and guard: "guard_grant g (f g)" and good: "grant_good now (f g)"
  obtains G where "\<And>p. update_grants (\<lambda>x. ag_id x = ag_id g \<and> p x) f db
      = (if p g then Inr ([f g], db\<lparr>action_grants := G\<rparr>) else Inr ([], db))"
    and "base_inv now (db\<lparr>action_grants := G\<rparr>)"
    and "\<And>x. x \<in> set G \<longleftrightarrow> x = f g \<or> (x \<in> set (action_grants db) \<and> ag_id x \<noteq> ag_id g)"
proof -
  have d: "distinct (map ag_id (action_grants db))"
    using inv by (simp add: base_inv_def grants_inv_def)
  have uniq: "x = g" if "x \<in> set (action_grants db)" "ag_id x = ag_id g" for x
    using distinct_key_eq [OF d that(1) g that(2)] .
  let ?G = "put_where (\<lambda>x. ag_id x = ag_id g) f (action_grants db)"
  have step: "guard_grant x (f x) \<and> grant_good now (f x)"
    if "x \<in> set (action_grants db)" "ag_id x = ag_id g" for x
    using uniq [OF that] guard good by simp
  have upd: "update_grants (\<lambda>x. ag_id x = ag_id g \<and> p x) f db
      = (if p g then Inr ([f g], db\<lparr>action_grants := ?G\<rparr>) else Inr ([], db))" for p
  proof -
    have rows: "filter (\<lambda>x. ag_id x = ag_id g \<and> p x) (action_grants db) = (if p g then [g] else [])"
      using filter_key_and_unique [OF d g] by simp
    have table: "put_where (\<lambda>x. ag_id x = ag_id g \<and> p x) f (action_grants db)
        = (if p g then ?G else action_grants db)"
    proof (cases "p g")
      case True
      then show ?thesis using uniq by (auto simp: put_where_def)
    next
      case False
      then show ?thesis using uniq by (auto intro!: put_where_none)
    qed
    have "update_grants (\<lambda>x. ag_id x = ag_id g \<and> p x) f db
        = Inr (map f (filter (\<lambda>x. ag_id x = ag_id g \<and> p x) (action_grants db)),
            db\<lparr>action_grants := put_where (\<lambda>x. ag_id x = ag_id g \<and> p x) f (action_grants db)\<rparr>)"
      using step by (intro update_grants_ok(1) [OF inv]) auto
    then show ?thesis by (simp add: rows table)
  qed
  have "x \<in> set ?G \<longleftrightarrow> x = f g \<or> (x \<in> set (action_grants db) \<and> ag_id x \<noteq> ag_id g)" for x
    using g uniq by (auto simp: set_put_where)
  with upd update_grants_ok(2) [where p = "\<lambda>x. ag_id x = ag_id g" and f = f, OF inv step]
  show thesis by (intro that) auto
qed

lemma grant_consume_good:
  assumes "grant_good now g" and "ag_state g = GRANT_ISSUED"
  shows "grant_good now (g\<lparr>ag_state := GRANT_CONSUMED, ag_consumed_at := Some now\<rparr>)"
    and "guard_grant g (g\<lparr>ag_state := GRANT_CONSUMED, ag_consumed_at := Some now\<rparr>)"
  using assms by (auto simp: grant_good_def grant_valid_def grant_check_def grant_lifecycle_def
      guard_grant_def receipt_absent_def)

lemma grant_complete_good:
  assumes "grant_good now g" and "ag_state g = GRANT_CONSUMED" and "1 \<le> r"
  shows "grant_good now (g\<lparr>ag_state := GRANT_COMPLETED, ag_completed_at := Some now,
            ag_receipt_id := Some i, ag_execution_status := Some e,
            ag_resulting_page_revision := Some r\<rparr>)"
    and "guard_grant g (g\<lparr>ag_state := GRANT_COMPLETED, ag_completed_at := Some now,
            ag_receipt_id := Some i, ag_execution_status := Some e,
            ag_resulting_page_revision := Some r\<rparr>)"
  using assms by (auto simp: grant_good_def grant_valid_def grant_check_def grant_lifecycle_def
      guard_grant_def receipt_absent_def receipt_complete_def split: option.splits)

subsection \<open>Commands\<close>

lemma in_pending: "c \<in> set (pending C i) \<longleftrightarrow> c \<in> set C \<and> lc_session c = i \<and> lc_status c = COMMAND_PENDING"
  by (auto simp: pending_def)

lemma command_reject_good:
  assumes "command_good now c" and "lc_status c = COMMAND_PENDING"
  shows "command_good now (c\<lparr>lc_status := COMMAND_REJECTED, lc_updated_at := now\<rparr>)"
    and "guard_command now c (c\<lparr>lc_status := COMMAND_REJECTED, lc_updated_at := now\<rparr>)"
  using assms by (auto simp: command_good_def command_valid_def command_check_def guard_command_def)

lemma command_apply_good:
  assumes "command_good now c" and "lc_status c = COMMAND_PENDING" and "digest_pattern d"
  shows "command_good now (c\<lparr>lc_status := COMMAND_APPLIED, lc_updated_at := now,
            lc_applied_at := Some now, lc_resulting_control_epoch := Some e,
            lc_resulting_fencing_token := Some f, lc_checkpoint_digest := Some d\<rparr>)"
    and "guard_command now c (c\<lparr>lc_status := COMMAND_APPLIED, lc_updated_at := now,
            lc_applied_at := Some now, lc_resulting_control_epoch := Some e,
            lc_resulting_fencing_token := Some f, lc_checkpoint_digest := Some d\<rparr>)"
  using assms by (auto simp: command_good_def command_valid_def command_check_def guard_command_def)

lemma pending_put_where:
  assumes "\<And>x. x \<in> set C \<Longrightarrow> p x \<Longrightarrow> lc_session x = i \<and> lc_status x = COMMAND_PENDING
             \<and> lc_status (f x) \<noteq> COMMAND_PENDING"
  shows "pending (put_where p f C) = (pending C)(i := filter (\<lambda>c. \<not> p c) (pending C i))"
  using assms by (intro ext, induction C) (auto simp: pending_def)

lemma reject_pending_commands_ok:
  assumes inv: "base_inv now db"
  obtains C where "reject_pending_commands now i db = Inr (db\<lparr>commands := C\<rparr>)"
    and "base_inv now (db\<lparr>commands := C\<rparr>)"
    and "pending C = (pending (commands db))(i := [])"
proof -
  let ?p = "\<lambda>c. lc_session c = i \<and> lc_status c = COMMAND_PENDING"
  let ?f = "\<lambda>c. c\<lparr>lc_status := COMMAND_REJECTED, lc_updated_at := now\<rparr>"
  have step: "guard_command now c (?f c) \<and> command_good now (?f c)" if "c \<in> set (commands db)" "?p c" for c
    using command_reject_good command_row_good [OF inv that(1)] that(2) by blast
  have "pending (put_where ?p ?f (commands db)) = (pending (commands db))(i := [])"
    by (subst pending_put_where [where i = i]) (auto simp: in_pending filter_empty_conv)
  then show thesis
    using that [OF _ update_commands_ok(2) [OF inv step]] update_commands_ok(1) [OF inv step]
    by (simp add: reject_pending_commands_def)
qed

lemma create_command_ok:
  assumes inv: "base_inv now db" and s: "s \<in> set (sessions db)" and good: "command_good now c"
    and refs: "lc_session c = ls_id s" "lc_scope c = ls_scope s"
      "lc_expected_control_epoch c = ls_control_epoch s"
    and st: "lc_status c = COMMAND_PENDING" and none: "pending (commands db) (ls_id s) = []"
    and id: "lc_id c \<notin> lc_id ` set (commands db)"
    and new: "get_command_by_mutation db (ls_id s) (lc_client_mutation_id c) = Inr None"
  obtains C where "create_command c db = Inr (c, db\<lparr>commands := C\<rparr>)"
    and "base_inv now (db\<lparr>commands := C\<rparr>)"
    and "pending C = (pending (commands db))(ls_id s := [c])"
proof -
  have absent: "\<not> (lc_session x = ls_id s \<and> lc_client_mutation_id x = lc_client_mutation_id c)"
    if "x \<in> set (commands db)" for x
    using new that by (auto simp: get_command_by_mutation_def result_simps table_simps)
  have conf: "\<not> command_conflicts x c" if x: "x \<in> set (commands db)" for x
  proof -
    have "lc_id x \<noteq> lc_id c" using id x by (metis image_eqI)
    moreover have "\<not> (lc_session x = ls_id s \<and> lc_status x = COMMAND_PENDING)"
      using none x by (auto simp: pending_def filter_empty_conv)
    ultimately show ?thesis using absent [OF x] by (auto simp: command_conflicts_def refs)
  qed
  have ref: "session_exists db (lc_session c) (lc_scope c)"
    using s refs by (auto simp: session_exists_def list_ex_iff)
  have ok: "command_check c" "command_valid c" using good by (simp_all add: command_good_def)
  have "create_command c db = Inr (c, db\<lparr>commands := commands db @ [c]\<rparr>)"
    using conf ref ok by (auto simp: create_command_def result_simps table_simps)
  moreover have "(lc_session c, lc_client_mutation_id c)
      \<notin> (\<lambda>c. (lc_session c, lc_client_mutation_id c)) ` set (commands db)"
    using absent refs(1) by fastforce
  then have "base_inv now (db\<lparr>commands := commands db @ [c]\<rparr>)"
    using inv good s refs id by (auto simp: base_inv_def commands_inv_def covered_def)
  moreover have "pending (commands db @ [c]) = (pending (commands db))(ls_id s := [c])"
    using none refs st by (auto simp: pending_def fun_eq_iff)
  ultimately show thesis by (rule that)
qed

subsection \<open>Events\<close>

lemma foldr_max_upt: "foldr max [1..<Suc n] 0 = n"
proof -
  have "foldr max [1..<Suc n] k = (max n k :: nat)" for k
    by (induction n arbitrary: k) auto
  then show ?thesis by simp
qed

lemma next_event_seq_ok:
  "base_inv t db \<Longrightarrow> next_event_seq db i = Suc (length (history (events db) i))"
  unfolding base_inv_def events_inv_def next_event_seq_def rows_matching_def history_def
  by (metis Suc_eq_plus1 foldr_max_upt)

lemma append_event_ok:
  assumes inv: "base_inv now db" and s: "s \<in> set (sessions db)" and ty: "event_type_pattern ty"
    and id: "event_id \<notin> le_id ` set (events db)"
  obtains e where "append_event event_id s ty payload at db = Inr (db\<lparr>events := events db @ [e]\<rparr>)"
    and "base_inv now (db\<lparr>events := events db @ [e]\<rparr>)"
    and "le_id e = event_id" and "le_session e = ls_id s"
proof -
  define e where "e = \<lparr>le_id = event_id, le_scope = ls_scope s, le_session = ls_id s,
       le_seq = next_event_seq db (ls_id s), le_event_type = ty,
       le_control_epoch = ls_control_epoch s, le_fencing_token = ls_fencing_token s,
       le_payload = payload, le_occurred_at = at\<rparr>"
  note seq = next_event_seq_ok [OF inv, of "ls_id s"]
  have num: "1 \<le> ls_control_epoch s" "1 \<le> ls_fencing_token s"
    using session_row_good [OF inv s] by (simp_all add: session_good_def session_valid_def)
  have ok: "event_valid e" "event_check e"
    using ty num by (simp_all add: event_valid_def event_check_def e_def next_event_seq_def)
  have hist: "map le_seq (history (events db) i) = [1..<Suc (length (history (events db) i))]" for i
    using inv by (simp add: base_inv_def events_inv_def)
  have last: "le_seq x \<le> length (history (events db) (ls_id s))"
    if "x \<in> set (events db)" "le_session x = ls_id s" for x
  proof -
    have "le_seq x \<in> set (map le_seq (history (events db) (ls_id s)))"
      using that by (auto simp: history_def)
    then show ?thesis unfolding hist by auto
  qed
  have ref: "session_exists db (le_session e) (le_scope e)"
    using s by (auto simp: session_exists_def list_ex_iff e_def)
  have conf: "\<not> (le_id x = le_id e \<or> (le_session x = le_session e \<and> le_seq x = le_seq e))"
    if x: "x \<in> set (events db)" for x
  proof -
    have "le_id x \<noteq> event_id" using id x by (metis image_eqI)
    then show ?thesis using last [OF x] seq by (auto simp: e_def)
  qed
  have "insert_event e db = Inr (db\<lparr>events := events db @ [e]\<rparr>)"
    using ok conf ref by (auto simp: insert_event_def result_simps table_simps)
  then have "append_event event_id s ty payload at db = Inr (db\<lparr>events := events db @ [e]\<rparr>)"
    using ok(1) by (simp add: append_event_def flip: e_def)
  moreover have "base_inv now (db\<lparr>events := events db @ [e]\<rparr>)"
  proof -
    have "map le_seq (history (events db @ [e]) i) = [1..<Suc (length (history (events db @ [e]) i))]" for i
      using hist [of i] seq by (simp add: history_def e_def)
    moreover have "covered (sessions db) (le_session e) (le_scope e) (le_control_epoch e)"
      using s by (auto simp: covered_def e_def)
    ultimately show ?thesis
      using inv ok id by (auto simp: base_inv_def events_inv_def e_def)
  qed
  ultimately show thesis by (rule that) (simp_all add: e_def)
qed

subsection \<open>New sessions\<close>

lemma create_session_ok:
  assumes inv: "base_inv now db" and good: "session_good now s"
    and id: "ls_id s \<notin> ls_id ` set (sessions db)" and ref: "session_references db s"
    and new: "\<And>x. x \<in> set (sessions db) \<Longrightarrow> unit_attempt_id (ls_scope x) \<noteq> unit_attempt_id (ls_scope s)"
  shows "create_session s db = Inr (Some s, db\<lparr>sessions := sessions db @ [s]\<rparr>)"
    and "base_inv now (db\<lparr>sessions := sessions db @ [s]\<rparr>)"
proof -
  have "ls_id x \<noteq> ls_id s" if "x \<in> set (sessions db)" for x
    using id that by (metis image_eqI)
  then show "create_session s db = Inr (Some s, db\<lparr>sessions := sessions db @ [s]\<rparr>)"
    using good new ref
    by (auto simp: create_session_def sql_insert_or_skip_def list_ex_iff session_good_def ensure_def)
  have "unit_attempt_id (ls_scope s) \<notin> (\<lambda>s. unit_attempt_id (ls_scope s)) ` set (sessions db)"
    using new by fastforce
  then show "base_inv now (db\<lparr>sessions := sessions db @ [s]\<rparr>)"
    using inv good id by (auto simp: base_inv_def table_invs intro: covered_append)
qed

lemma unknown_session:
  assumes inv: "base_inv t db" and id: "i \<notin> ls_id ` set (sessions db)"
  shows "current (leases db) i = []" and "pending (commands db) i = []"
    and "issued (action_grants db) i = []" and "lease_epochs (leases db) i = []"
proof -
  have known: "cl_session l \<noteq> i" if "l \<in> set (leases db)" for l
    using inv id that by (auto simp: base_inv_def leases_inv_def dest!: covered_exists)
  then show "current (leases db) i = []" "lease_epochs (leases db) i = []"
    by (auto simp: current_def lease_epochs_def filter_empty_conv)
  have "lc_session c \<noteq> i" if "c \<in> set (commands db)" for c
    using inv id that by (auto simp: base_inv_def commands_inv_def dest!: covered_exists)
  then show "pending (commands db) i = []" by (auto simp: pending_def filter_empty_conv)
  have "ag_session g \<noteq> i" if "g \<in> set (action_grants db)" for g
    using inv id that by (auto simp: base_inv_def grants_inv_def dest!: covered_exists)
  then show "issued (action_grants db) i = []" by (auto simp: issued_def filter_empty_conv)
qed

end
