(* ===== verification/Live_Transitions.thy ===== *)
theory Live_Transitions
  imports Live_Statements
begin

text \<open>
  The repository's multi-statement operations under the full invariant: expiry, the request of a
  transition, its application, and the reads a handler starts with.
\<close>

subsection \<open>Reads\<close>

lemma find_session_by_attempt:
  assumes "base_inv t db"
  obtains "get_session_by_attempt db a = Inr None"
      and "\<And>s. s \<in> set (sessions db) \<Longrightarrow> unit_attempt_id (ls_scope s) \<noteq> a"
  | s where "get_session_by_attempt db a = Inr (Some s)" and "s \<in> set (sessions db)"
      and "unit_attempt_id (ls_scope s) = a"
proof (cases "first_row (\<lambda>s. unit_attempt_id (ls_scope s) = a) (sessions db)")
  case None
  then have "\<forall>s \<in> set (sessions db). unit_attempt_id (ls_scope s) \<noteq> a" by (simp add: table_simps)
  with None show thesis by (intro that(1)) (auto simp: get_session_by_attempt_def)
next
  case (Some s)
  with first_row_Some [OF Some] session_row_good [OF assms] show thesis
    by (intro that(2)) (auto simp: get_session_by_attempt_def session_good_def)
qed

lemma find_session_by_id:
  assumes "base_inv t db" and "s \<in> set (sessions db)"
  shows "get_session_by_id db (ls_id s) = Inr (Some s)"
  using first_row_key [of ls_id "sessions db" s] session_row_good [OF assms] assms
  by (simp add: get_session_by_id_def session_good_def base_inv_def sessions_inv_def)

lemma find_command_cases:
  assumes "base_inv t db"
  obtains "find_command db i = Inr None"
  | c where "find_command db i = Inr (Some c)" and "c \<in> set (commands db)" and "lc_id c = i"
proof (cases "first_row (\<lambda>c. lc_id c = i) (commands db)")
  case None
  then show thesis by (intro that(1)) (simp add: find_command_def)
next
  case (Some c)
  with first_row_Some [OF Some] command_row_good [OF assms] show thesis
    by (intro that(2)) (auto simp: find_command_def command_good_def)
qed

lemma find_mutation_cases:
  assumes "base_inv t db"
  obtains "get_command_by_mutation db i k = Inr None"
  | c where "get_command_by_mutation db i k = Inr (Some c)" and "c \<in> set (commands db)"
      and "lc_session c = i" and "lc_client_mutation_id c = k"
proof (cases "first_row (\<lambda>c. lc_session c = i \<and> lc_client_mutation_id c = k) (commands db)")
  case None
  then show thesis by (intro that(1)) (simp add: get_command_by_mutation_def)
next
  case (Some c)
  with first_row_Some [OF Some] command_row_good [OF assms] show thesis
    by (intro that(2)) (auto simp: get_command_by_mutation_def command_good_def)
qed

lemma find_grant_cases:
  assumes "base_inv t db"
  obtains "find_action_grant db i = Inr None"
  | g where "find_action_grant db i = Inr (Some g)" and "g \<in> set (action_grants db)" and "ag_id g = i"
proof (cases "first_row (\<lambda>g. ag_id g = i) (action_grants db)")
  case None
  then show thesis by (intro that(1)) (simp add: find_action_grant_def)
next
  case (Some g)
  with first_row_Some [OF Some] grant_row_good [OF assms] show thesis
    by (intro that(2)) (auto simp: find_action_grant_def grant_good_def)
qed

lemma find_grant_by_action_cases:
  assumes "base_inv t db"
  obtains "get_action_grant_by_action db a i = Inr None"
  | g where "get_action_grant_by_action db a i = Inr (Some g)" and "g \<in> set (action_grants db)"
      and "unit_attempt_id (ag_scope g) = a" and "ag_action_id g = i"
proof (cases "first_row (\<lambda>g. unit_attempt_id (ag_scope g) = a \<and> ag_action_id g = i) (action_grants db)")
  case None
  then show thesis by (intro that(1)) (simp add: get_action_grant_by_action_def)
next
  case (Some g)
  with first_row_Some [OF Some] grant_row_good [OF assms] show thesis
    by (intro that(2)) (auto simp: get_action_grant_by_action_def grant_good_def)
qed

fun head_option :: "'a list \<Rightarrow> 'a option" where
  "head_option [] = None"
| "head_option (x # _) = Some x"

lemma get_current_lease_ok:
  assumes "base_inv t db" and "length (current (leases db) i) \<le> 1"
  shows "get_current_lease db i = Inr (head_option (current (leases db) i))"
proof (cases "current (leases db) i")
  case Nil
  then show ?thesis by (simp add: get_current_lease_def rows_matching_def current_def first_row_def)
next
  case (Cons l ls)
  with assms(2) have eq: "current (leases db) i = [l]" by simp
  then have "l \<in> set (leases db)" using in_current [of l "leases db" i] by simp
  then have "lease_valid l" using lease_row_good [OF assms(1)] by (simp add: lease_good_def)
  with eq show ?thesis
    by (simp add: get_current_lease_def rows_matching_def current_def first_row_def)
qed

lemma get_pending_command_ok:
  assumes "base_inv t db"
  shows "get_pending_command db i = Inr (head_option (pending (commands db) i))"
proof (cases "pending (commands db) i")
  case Nil
  then show ?thesis by (simp add: get_pending_command_def pending_def first_row_def)
next
  case (Cons c cs)
  then have "c \<in> set (commands db)" using in_pending [of c "commands db" i] by simp
  then have "command_valid c" using command_row_good [OF assms] by (simp add: command_good_def)
  with Cons show ?thesis
    by (simp add: get_pending_command_def pending_def first_row_def)
qed

subsection \<open>The controller of a session\<close>

lemma control_okD:
  "live_inv t db \<Longrightarrow> s \<in> set (sessions db) \<Longrightarrow>
     control_ok s (current (leases db) (ls_id s)) (pending (commands db) (ls_id s))
       (issued (action_grants db) (ls_id s))"
  by (simp add: live_inv_def controlled_def)

lemma state_shape_cases:
  assumes "state_shape st cur pend"
  obtains (agent) l where "st = AGENT_CONTROLLED" "cur = [l]" "pend = []" "cl_state l = LEASE_ACTIVE"
      "cl_owner_type l = AGENT"
  | (human) l where "st = HUMAN_CONTROLLED" "cur = [l]" "pend = []" "cl_state l = LEASE_ACTIVE"
      "cl_owner_type l = HUMAN"
  | (quiescing) l c where "st = QUIESCING" "cur = [l]" "pend = [c]" "cl_state l = LEASE_REVOKING"
      "cl_owner_type l = AGENT" "lc_command_type c = PAUSE \<or> lc_command_type c = TAKEOVER"
  | (reconciling) l c where "st = RECONCILING" "cur = [l]" "pend = [c]" "cl_state l = LEASE_REVOKING"
      "cl_owner_type l = HUMAN" "lc_command_type c = RETURN"
  | (resuming) c where "st = RESUME_REQUESTED" "cur = []" "pend = [c]" "lc_command_type c = RESUME"
  | (paused) "st = PAUSED" "cur = []" "pend = []"
  | (uncontrolled) "st = NO_CONTROLLER" "cur = []" "pend = []"
  using assms by (cases "(st, cur, pend)" rule: state_shape.cases) auto

lemma control_shape: "control_ok s cur pend iss \<Longrightarrow> state_shape (ls_state s) cur pend"
  by (simp add: control_ok_def)

lemma current_lease_read:
  assumes "live_inv t db" and "s \<in> set (sessions db)"
  shows "get_current_lease db (ls_id s) = Inr (head_option (current (leases db) (ls_id s)))"
proof -
  have "length (current (leases db) (ls_id s)) \<le> 1"
    using control_shape [OF control_okD [OF assms]] by (cases rule: state_shape_cases) auto
  then show ?thesis using assms(1) get_current_lease_ok live_inv_def by blast
qed

lemma put_session_same:
  assumes "base_inv t db" and "s \<in> set (sessions db)"
  shows "put_session s (sessions db) = sessions db"
  unfolding put_session_def put_where_def using session_unique [OF assms] by (intro map_idI) auto

lemma controlled_step:
  assumes inv: "live_inv t db" and s: "s \<in> set (sessions db)" and id: "ls_id s' = ls_id s"
    and "sessions db' = put_session s' (sessions db)"
    and "current (leases db') = (current (leases db))(ls_id s := cur)"
    and "pending (commands db') = (pending (commands db))(ls_id s := pend)"
    and "issued (action_grants db') = (issued (action_grants db))(ls_id s := iss)"
    and "control_ok s' cur pend iss"
  shows "controlled db'"
proof -
  have "\<forall>x \<in> set (sessions db). control_ok x (current (leases db) (ls_id x))
      (pending (commands db) (ls_id x)) (issued (action_grants db) (ls_id x))"
    using inv by (simp add: live_inv_def controlled_def)
  then show ?thesis
    using assms(4-8) set_put_session [OF s id [symmetric]] id by (auto simp: controlled_def)
qed

lemma session_good_step:
  assumes "session_good now s" and "ls_state s \<noteq> CLOSED" and "st \<noteq> CLOSED"
    and "ls_browser_revision s \<le> r" and "k = 0 \<or> k = 1"
  shows "session_good now (s\<lparr>ls_state := st, ls_control_epoch := ls_control_epoch s + k,
      ls_fencing_token := ls_fencing_token s + k, ls_browser_revision := r,
      ls_human_influenced := h, ls_revision := ls_revision s + 1, ls_updated_at := now\<rparr>)"
  using assms by (auto simp: session_good_def session_valid_def session_check_def)

text \<open>Expiry of the controller: the whole effect of \<open>expire_current_control\<close>.\<close>

definition expired_session :: "instant \<Rightarrow> live_session \<Rightarrow> live_session" where
  "expired_session now s = s\<lparr>ls_state := NO_CONTROLLER, ls_control_epoch := ls_control_epoch s + 1,
     ls_fencing_token := ls_fencing_token s + 1, ls_revision := ls_revision s + 1,
     ls_updated_at := now\<rparr>"

lemma expired_session_ok:
  assumes "session_good now s" and "ls_state s \<in> {AGENT_CONTROLLED, QUIESCING, HUMAN_CONTROLLED, RECONCILING}"
  shows "guard_session now s (expired_session now s)" and "session_good now (expired_session now s)"
  using assms by (auto simp: expired_session_def guard_session_def session_transition_def
      session_good_def session_valid_def session_check_def)

lemma expire_current_control_ok:
  assumes inv: "live_inv now db" and s: "s \<in> set (sessions db)"
    and cur: "current (leases db) (ls_id s) = [l]"
  obtains (expired) l' db' where "cl_expires_at l \<le> now"
      and "expire_current_control s l now db = Inr (Some (expired_session now s, l'), db')"
      and "live_inv now db'" and "sessions db' = put_session (expired_session now s) (sessions db)"
      and "events db' = events db" and "current (leases db') (ls_id s) = []"
      and "issued (action_grants db') (ls_id s) = []"
      and "expired_session now s \<in> set (sessions db')"
  | (kept) "now < cl_expires_at l" and "expire_current_control s l now db = Inr (None, db)"
proof (cases "cl_expires_at l \<le> now")
  case True
  have base: "base_inv now db" using inv by (simp add: live_inv_def)
  note ok = control_okD [OF inv s, unfolded cur]
  have l: "l \<in> set (leases db)" "cl_session l = ls_id s" "is_current l"
    using in_current [of l "leases db" "ls_id s"] cur by auto
  have goods: "session_good now s" "lease_good now l"
    using session_row_good [OF base s] lease_row_good [OF base l(1)] .
  have epoch: "cl_control_epoch l = ls_control_epoch s" using ok by (simp add: control_ok_def)
  have fence: "cl_fencing_token l = ls_fencing_token s"
    using epoch goods by (simp add: lease_good_def session_good_def)
  have st: "ls_state s \<in> {AGENT_CONTROLLED, QUIESCING, HUMAN_CONTROLLED, RECONCILING}"
    using control_shape [OF ok] by (cases rule: state_shape_cases) auto
  let ?p = "\<lambda>x. cl_id x = cl_id l \<and> cl_session x = ls_id s \<and> is_current x
          \<and> cl_expires_at x \<le> now \<and> cl_control_epoch x = ls_control_epoch s
          \<and> cl_fencing_token x = ls_fencing_token s"
  let ?f = "\<lambda>l. l\<lparr>cl_state := LEASE_EXPIRED, cl_released_at := Some now, cl_updated_at := now\<rparr>"
  have step: "guard_lease now x (?f x) \<and> lease_good now (?f x)" if "x \<in> set (leases db)" "?p x" for x
    using lease_end_good [OF lease_row_good [OF base that(1)], of LEASE_EXPIRED] that(2) by blast
  obtain L where L: "update_leases now ?p ?f db = Inr ([?f l], db\<lparr>leases := L\<rparr>)"
      "base_inv now (db\<lparr>leases := L\<rparr>)" "current L = (current (leases db))(ls_id s := [])"
    by (rule update_current_leases [where p = ?p and f = ?f and i = "ls_id s", OF base _ step])
      (use cur l True epoch fence in \<open>auto simp: is_current_def\<close>)
  obtain G where G: "revoke_issued_grants now (ls_id s) (db\<lparr>leases := L\<rparr>)
        = Inr (db\<lparr>leases := L, action_grants := G\<rparr>)"
      "base_inv now (db\<lparr>leases := L, action_grants := G\<rparr>)"
      "issued G = (issued (action_grants db))(ls_id s := [])"
    using revoke_issued_grants_ok [OF L(2), of "ls_id s"] by auto
  obtain C where C: "reject_pending_commands now (ls_id s) (db\<lparr>leases := L, action_grants := G\<rparr>)
        = Inr (db\<lparr>leases := L, action_grants := G, commands := C\<rparr>)"
      "base_inv now (db\<lparr>leases := L, action_grants := G, commands := C\<rparr>)"
      "pending C = (pending (commands db))(ls_id s := [])"
    using reject_pending_commands_ok [OF G(2), of "ls_id s"] by auto
  let ?db = "db\<lparr>leases := L, action_grants := G, commands := C\<rparr>"
  let ?s = "expired_session now s"
  let ?db' = "?db\<lparr>sessions := put_session ?s (sessions db)\<rparr>"
  have upd: "update_sessions now (\<lambda>x. ls_id x = ls_id s \<and> (ls_revision x = ls_revision s
            \<and> ls_control_epoch x = ls_control_epoch s \<and> ls_fencing_token x = ls_fencing_token s))
         (expired_session now) ?db = Inr ([?s], ?db')"
    and base': "base_inv now ?db'" and mem: "?s \<in> set (put_session ?s (sessions db))"
    using update_session_ok [OF C(2), of s "\<lambda>x. ls_revision x = ls_revision s
        \<and> ls_control_epoch x = ls_control_epoch s \<and> ls_fencing_token x = ls_fencing_token s"
        "expired_session now"] s expired_session_ok [OF goods(1) st] by auto
  have res: "expire_current_control s l now db = Inr (Some (?s, ?f l), ?db')"
  proof -
    have "session_valid ?s" "lease_valid (?f l)"
      using expired_session_ok(2) [OF goods(1) st] lease_end_good [OF goods(2) l(3)]
      by (auto simp: session_good_def lease_good_def)
    then show ?thesis
      using L(1) G(1) C(1) upd
      by (simp add: expire_current_control_def expired_session_def [abs_def] conj_assoc)
  qed
  have id: "ls_id ?s = ls_id s" by (simp add: expired_session_def)
  have "controlled ?db'"
    by (rule controlled_step [OF inv s id, where cur = "[]" and pend = "[]" and iss = "[]"])
      (simp_all add: L(3) C(3) G(3) control_ok_def expired_session_def)
  then have "live_inv now ?db'" using base' by (simp add: live_inv_def)
  from expired [OF True res this] show thesis using mem L(3) G(3) by simp
next
  case False
  have base: "base_inv now db" using inv by (simp add: live_inv_def)
  let ?p = "\<lambda>x. cl_id x = cl_id l \<and> cl_session x = ls_id s \<and> is_current x
          \<and> cl_expires_at x \<le> now \<and> cl_control_epoch x = ls_control_epoch s
          \<and> cl_fencing_token x = ls_fencing_token s"
  have none: "\<not> ?p x" if "x \<in> set (leases db)" for x
    using that False in_current [of x "leases db" "ls_id s"] cur by auto
  have "filter ?p (leases db) = []"
    using none by (simp add: filter_empty_conv)
  moreover have "put_where ?p f (leases db) = leases db" for f
    using none by (rule put_where_none)
  ultimately have "update_leases now ?p f db = Inr ([], db)" for f
    by (simp add: update_leases_def sql_update_def)
  then have "expire_current_control s l now db = Inr (None, db)"
    by (simp add: expire_current_control_def)
  with False show thesis by (intro kept) auto
qed

subsection \<open>Requesting a transition\<close>

definition requested_session :: "session_state \<Rightarrow> instant \<Rightarrow> live_session \<Rightarrow> live_session" where
  "requested_session st now s = s\<lparr>ls_state := st, ls_revision := ls_revision s + 1, ls_updated_at := now\<rparr>"

lemma requested_session_ok:
  assumes "session_good now s" and "session_transition (ls_state s) st" and "ls_state s \<noteq> CLOSED"
    and "st \<noteq> CLOSED"
  shows "guard_session now s (requested_session st now s)"
    and "session_good now (requested_session st now s)"
  using assms by (auto simp: requested_session_def guard_session_def session_good_def session_valid_def
      session_check_def)

lemma request_session_update:
  assumes inv: "base_inv now db" and s: "s \<in> set (sessions db)"
    and tr: "session_transition (ls_state s) st" and "ls_state s \<noteq> CLOSED" and "st \<noteq> CLOSED"
  shows "request_transition s st now False db = Inr (requested_session st now s,
      db\<lparr>sessions := put_session (requested_session st now s) (sessions db)\<rparr>)"
    and "base_inv now (db\<lparr>sessions := put_session (requested_session st now s) (sessions db)\<rparr>)"
    and "requested_session st now s \<in> set (put_session (requested_session st now s) (sessions db))"
proof -
  note ok = requested_session_ok [OF session_row_good [OF inv s] tr assms(4,5)]
  note upd = update_session_ok [OF inv s, where
      p = "\<lambda>x. ls_revision x = ls_revision s \<and> ls_control_epoch x = ls_control_epoch s"
      and f = "requested_session st now", OF _ ok, simplified]
  show "request_transition s st now False db = Inr (requested_session st now s,
      db\<lparr>sessions := put_session (requested_session st now s) (sessions db)\<rparr>)"
    using upd(1) ok(2)
    by (simp add: request_transition_def requested_session_def [abs_def] session_good_def)
  show "base_inv now (db\<lparr>sessions := put_session (requested_session st now s) (sessions db)\<rparr>)"
    and "requested_session st now s \<in> set (put_session (requested_session st now s) (sessions db))"
    by (fact upd(2,3))+
qed

lemma request_transition_revoking:
  assumes inv: "live_inv now db" and s: "s \<in> set (sessions db)"
    and cur: "current (leases db) (ls_id s) = [l]" and act: "cl_state l = LEASE_ACTIVE"
    and tr: "session_transition (ls_state s) st" and "ls_state s \<noteq> CLOSED" and "st \<noteq> CLOSED"
  obtains L G where "request_transition s st now True db = Inr (requested_session st now s,
        db\<lparr>leases := L, action_grants := G,
           sessions := put_session (requested_session st now s) (sessions db)\<rparr>)"
    and "base_inv now (db\<lparr>leases := L, action_grants := G,
           sessions := put_session (requested_session st now s) (sessions db)\<rparr>)"
    and "current L = (current (leases db))
          (ls_id s := [l\<lparr>cl_state := LEASE_REVOKING, cl_updated_at := now\<rparr>])"
    and "issued G = (issued (action_grants db))(ls_id s := [])"
proof -
  have base: "base_inv now db" using inv by (simp add: live_inv_def)
  let ?p = "\<lambda>l. cl_session l = ls_id s \<and> cl_state l = LEASE_ACTIVE"
  let ?f = "\<lambda>l. l\<lparr>cl_state := LEASE_REVOKING, cl_updated_at := now\<rparr>"
  have sel: "cl_session x = ls_id s \<and> is_current x" if "x \<in> set (leases db)" "?p x" for x
    using that by (simp add: is_current_def)
  have step: "guard_lease now x (?f x) \<and> lease_good now (?f x)" if "x \<in> set (leases db)" "?p x" for x
    using lease_revoke_good [OF lease_row_good [OF base that(1)]] that(2) by blast
  have l: "cl_session l = ls_id s"
    using in_current [of l "leases db" "ls_id s"] cur by simp
  obtain L where L: "update_leases now ?p ?f db = Inr ([?f l], db\<lparr>leases := L\<rparr>)"
      "base_inv now (db\<lparr>leases := L\<rparr>)" "current L = (current (leases db))(ls_id s := [?f l])"
    by (rule update_current_leases [where p = ?p and f = ?f and i = "ls_id s", OF base sel step])
      (use cur l act in \<open>auto simp: is_current_def\<close>)
  obtain G where G: "revoke_issued_grants now (ls_id s) (db\<lparr>leases := L\<rparr>)
        = Inr (db\<lparr>leases := L, action_grants := G\<rparr>)"
      "base_inv now (db\<lparr>leases := L, action_grants := G\<rparr>)"
      "issued G = (issued (action_grants db))(ls_id s := [])"
    using revoke_issued_grants_ok [OF L(2), of "ls_id s"] by auto
  have s': "s \<in> set (sessions (db\<lparr>leases := L, action_grants := G\<rparr>))" using s by simp
  note upd = request_session_update [OF G(2) s' tr assms(6,7)]
  have "request_transition s st now True db
      = request_transition s st now False (db\<lparr>leases := L, action_grants := G\<rparr>)"
    using L(1) G(1) by (simp add: request_transition_def)
  with upd L(3) G(3) show thesis by (intro that) simp_all
qed

subsection \<open>Applying a transition\<close>

definition applied_session ::
    "session_state \<Rightarrow> int \<Rightarrow> bool \<Rightarrow> instant \<Rightarrow> live_session \<Rightarrow> live_session" where
  "applied_session st brev infl now s = s\<lparr>ls_state := st, ls_control_epoch := ls_control_epoch s + 1,
     ls_fencing_token := ls_fencing_token s + 1, ls_browser_revision := brev,
     ls_human_influenced := infl, ls_revision := ls_revision s + 1, ls_updated_at := now\<rparr>"

lemma applied_session_ok:
  assumes "session_good now s" and "session_transition (ls_state s) st" and "ls_state s \<noteq> CLOSED"
    and "st \<noteq> CLOSED" and "ls_browser_revision s \<le> brev" and "ls_human_influenced s \<longrightarrow> infl"
  shows "guard_session now s (applied_session st brev infl now s)"
    and "session_good now (applied_session st brev infl now s)"
  using assms by (auto simp: applied_session_def guard_session_def session_good_def session_valid_def
      session_check_def)

lemma lease_epochs_bound:
  assumes inv: "base_inv t db" and s: "s \<in> set (sessions db)"
    and k: "k \<in> set (lease_epochs (leases db) (ls_id s))"
  shows "k \<le> ls_control_epoch s"
proof -
  obtain l where l: "l \<in> set (leases db)" "cl_session l = ls_id s" "k = cl_control_epoch l"
    using k by (auto simp: lease_epochs_def)
  then have "covered (sessions db) (ls_id s) (cl_scope l) k"
    using inv by (auto simp: base_inv_def leases_inv_def)
  then obtain s' where "s' \<in> set (sessions db)" "ls_id s' = ls_id s" "k \<le> ls_control_epoch s'"
    unfolding covered_def by blast
  with session_unique [OF inv s] show ?thesis by metis
qed

lemma apply_transition_ok:
  assumes inv: "live_inv now db" and s: "s \<in> set (sessions db)"
    and pend: "pending (commands db) (ls_id s) = [c]"
    and tr: "session_transition (ls_state s) st" and "ls_state s \<noteq> CLOSED" and "st \<noteq> CLOSED"
    and brev: "ls_browser_revision s \<le> brev" and infl: "ls_human_influenced s \<longrightarrow> infl"
    and dig: "digest_pattern d"
  obtains c' db' where "apply_transition s c st brev infl d now db
        = Inr ((applied_session st brev infl now s, c'), db')"
    and "base_inv now db'" and "sessions db' = put_session (applied_session st brev infl now s) (sessions db)"
    and "applied_session st brev infl now s \<in> set (sessions db')"
    and "current (leases db') = (current (leases db))(ls_id s := [])"
    and "pending (commands db') = (pending (commands db))(ls_id s := [])"
    and "action_grants db' = action_grants db" and "events db' = events db"
    and "cl_id ` set (leases db') = cl_id ` set (leases db)"
    and "lease_epochs (leases db') = lease_epochs (leases db)"
proof -
  have base: "base_inv now db" using inv by (simp add: live_inv_def)
  let ?s = "applied_session st brev infl now s"
  let ?e = "ls_control_epoch s + 1" and ?f = "ls_fencing_token s + 1"
  let ?q = "\<lambda>l. cl_session l = ls_id s \<and> is_current l"
  let ?r = "\<lambda>l. l\<lparr>cl_state := LEASE_RELEASED, cl_released_at := Some now, cl_updated_at := now\<rparr>"
  have sel: "cl_session x = ls_id s \<and> is_current x" if "x \<in> set (leases db)" "?q x" for x
    using that by simp
  have step: "guard_lease now x (?r x) \<and> lease_good now (?r x)" if "x \<in> set (leases db)" "?q x" for x
    using lease_end_good [OF lease_row_good [OF base that(1)], of LEASE_RELEASED] that(2) by blast
  have gone: "filter is_current (put_where ?q ?r (current (leases db) (ls_id s))) = []"
    by (rule filter_put_where_drop) (auto simp: in_current is_current_def)
  obtain rows L where L: "update_leases now ?q ?r db = Inr (rows, db\<lparr>leases := L\<rparr>)"
      "base_inv now (db\<lparr>leases := L\<rparr>)" "current L = (current (leases db))(ls_id s := [])"
      "map cl_id L = map cl_id (leases db)" "lease_epochs L = lease_epochs (leases db)"
    by (rule update_current_leases [where p = ?q and f = ?r and i = "ls_id s", OF base sel step])
      (use gone in auto)
  have s': "s \<in> set (sessions (db\<lparr>leases := L\<rparr>))" using s by simp
  note ok = applied_session_ok [OF session_row_good [OF base s] tr assms(5,6) brev infl]
  note upd = update_session_ok [OF L(2) s', where
      p = "\<lambda>x. ls_revision x = ls_revision s \<and> ls_control_epoch x = ls_control_epoch s
            \<and> ls_fencing_token x = ls_fencing_token s"
      and f = "\<lambda>x. x\<lparr>ls_state := st, ls_control_epoch := ?e, ls_fencing_token := ?f,
            ls_browser_revision := brev, ls_human_influenced := infl,
            ls_revision := ls_revision x + 1, ls_updated_at := now\<rparr>",
      OF _ ok [unfolded applied_session_def], folded applied_session_def, simplified]
  let ?db = "db\<lparr>leases := L, sessions := put_session ?s (sessions db)\<rparr>"
  have c: "c \<in> set (commands db)" "lc_status c = COMMAND_PENDING" "lc_session c = ls_id s"
    using in_pending [of c "commands db" "ls_id s"] pend by auto
  let ?p = "\<lambda>x. lc_id x = lc_id c \<and> lc_status x = COMMAND_PENDING"
  let ?a = "\<lambda>c. c\<lparr>lc_status := COMMAND_APPLIED, lc_updated_at := now, lc_applied_at := Some now,
            lc_resulting_control_epoch := Some ?e, lc_resulting_fencing_token := Some ?f,
            lc_checkpoint_digest := Some d\<rparr>"
  have dist: "distinct (map lc_id (commands db))"
    using base by (simp add: base_inv_def commands_inv_def)
  have uniq: "x = c" if "x \<in> set (commands db)" "lc_id x = lc_id c" for x
    using distinct_key_eq [OF dist that(1) c(1) that(2)] .
  have cstep: "guard_command now x (?a x) \<and> command_good now (?a x)"
    if "x \<in> set (commands ?db)" "?p x" for x
    using command_apply_good [OF command_row_good [OF base, of x] _ dig] that by auto
  have cupd: "update_commands now ?p ?a ?db
      = Inr ([?a c], ?db\<lparr>commands := put_where ?p ?a (commands db)\<rparr>)"
    using update_commands_ok(1) [OF upd(2), where p = ?p and f = ?a] cstep
      filter_key_and_unique [OF dist c(1)] c(2) by simp
  have cbase: "base_inv now (?db\<lparr>commands := put_where ?p ?a (commands db)\<rparr>)"
    using update_commands_ok(2) [OF upd(2), where p = ?p and f = ?a] cstep by simp
  have cpend: "pending (put_where ?p ?a (commands db)) = (pending (commands db))(ls_id s := [])"
    by (subst pending_put_where [where i = "ls_id s"]) (use uniq c pend in auto)
  let ?db' = "?db\<lparr>commands := put_where ?p ?a (commands db)\<rparr>"
  have valid: "session_valid ?s" "command_valid (?a c)"
    using ok(2) command_apply_good(1) [OF command_row_good [OF base c(1)] c(2) dig]
    by (simp_all add: session_good_def command_good_def)
  have res: "apply_transition s c st brev infl d now db = Inr ((?s, ?a c), ?db')"
    using L(1) upd(1) cupd valid by (simp add: apply_transition_def Let_def)
  have ids: "cl_id ` set L = cl_id ` set (leases db)"
    using L(4) by (metis list.set_map)
  from res show thesis
    by (rule that) (use cbase upd(3) L(3,5) cpend ids in simp_all)
qed

end
