(* ===== verification/Live_Handlers.thy ===== *)
theory Live_Handlers
  imports Live_Transitions
begin

text \<open>
  Every handler of the live control, started in a state that satisfies the invariant at the
  transaction's time, either raises an error meant for its caller or ends in a state that satisfies
  the invariant: no constraint, trigger, model check or internal assertion of the code can fail.
\<close>

subsection \<open>Event types and snapshots\<close>

lemma event_types [simp]:
  "event_type_pattern ''live_session.initialized''"
  "event_type_pattern ''live_control.lease_expired''"
  "event_type_pattern ''live_action.grant_issued''"
  "event_type_pattern ''live_action.grant_consumed''"
  "event_type_pattern ''live_action.execution_completed''"
  by code_simp+

lemma event_types_of_commands:
  "list_all (\<lambda>c. event_type_pattern (''live_control.'' @ command_text c @ ''.applied'')
     \<and> event_type_pattern (''live_control.'' @ command_text c @ ''.requested''))
     [PAUSE, RESUME, TAKEOVER, RETURN]"
  by code_simp

lemma event_types_of_command [simp]:
  "event_type_pattern (''live_control.'' @ command_text c @ ''.applied'')"
  "event_type_pattern (''live_control.'' @ command_text c @ ''.requested'')"
proof -
  have "c \<in> set [PAUSE, RESUME, TAKEOVER, RETURN]" by (cases c) simp_all
  then show "event_type_pattern (''live_control.'' @ command_text c @ ''.applied'')"
    and "event_type_pattern (''live_control.'' @ command_text c @ ''.requested'')"
    using event_types_of_commands unfolding list_all_iff by blast+
qed

lemma take_snapshot_ok:
  assumes inv: "live_inv now db" and s: "s \<in> set (sessions db)"
  obtains v where "take_snapshot db s now = Inr v" and "sn_session v = s"
    and "sn_lease v = head_option (current (leases db) (ls_id s))"
    and "sn_pending_command v = head_option (pending (commands db) (ls_id s))"
proof -
  have base: "base_inv now db" using inv by (simp add: live_inv_def)
  let ?v = "\<lparr>sn_session = s, sn_lease = head_option (current (leases db) (ls_id s)),
     sn_pending_command = head_option (pending (commands db) (ls_id s)), sn_observed_at = now\<rparr>"
  note ok = control_okD [OF inv s]
  have lease: "cl_session l = ls_id s \<and> cl_control_epoch l = ls_control_epoch s
      \<and> cl_fencing_token l = ls_fencing_token s" if "head_option (current (leases db) (ls_id s)) = Some l" for l
  proof -
    have "l \<in> set (current (leases db) (ls_id s))"
      using that by (cases "current (leases db) (ls_id s)") auto
    then show ?thesis
      using ok session_row_good [OF base s] lease_row_good [OF base, of l]
      by (auto simp: in_current control_ok_def session_good_def lease_good_def)
  qed
  have command: "lc_session c = ls_id s" if "head_option (pending (commands db) (ls_id s)) = Some c" for c
  proof -
    have "c \<in> set (pending (commands db) (ls_id s))"
      using that by (cases "pending (commands db) (ls_id s)") auto
    then show ?thesis by (simp add: in_pending)
  qed
  have "snapshot_valid ?v"
    using lease command by (auto simp: snapshot_valid_def split: option.splits)
  then have "take_snapshot db s now = Inr ?v"
    by (simp add: take_snapshot_def current_lease_read [OF inv s] get_pending_command_ok [OF base])
  then show thesis by (rule that) simp_all
qed

lemma fresh_ids:
  assumes "fresh ids db"
  shows "ids n \<notin> ls_id ` set (sessions db)" and "ids n \<notin> cl_id ` set (leases db)"
    and "ids n \<notin> lc_id ` set (commands db)" and "ids n \<notin> ag_id ` set (action_grants db)"
    and "ids n \<notin> le_id ` set (events db)"
  using assms by (auto simp: fresh_def used_ids_def)

lemma require_runtime_session_outcome:
  assumes "base_inv now db"
    and "\<And>s. s \<in> set (sessions db) \<Longrightarrow> unit_attempt_id (ls_scope s) = a \<Longrightarrow> outcome Q (f s)"
  shows "outcome Q (attempt (require_runtime_session db a) f)"
  using assms by (cases rule: find_session_by_attempt [OF assms(1), where a = a])
    (auto simp: require_runtime_session_def live_errors)

text \<open>The rows of the ticket table satisfy their model; it belongs to the task components.\<close>

definition tickets_ok :: "live_db \<Rightarrow> bool" where
  "tickets_ok db \<longleftrightarrow> (\<forall>t \<in> set (tickets db). ticket_valid t)"

lemma load_attempt_outcome:
  assumes "tickets_ok db"
    and "\<And>x t. x \<in> set (attempts db) \<Longrightarrow> t \<in> set (tickets db)
        \<Longrightarrow> unit_attempt_id (ua_scope x) = a \<Longrightarrow> unit_attempt_id (tk_scope t) = a
        \<Longrightarrow> tenant_id (tk_scope t) = tenant_id (ua_scope x)
        \<Longrightarrow> project_id (tk_scope t) = project_id (ua_scope x) \<Longrightarrow> ticket_valid t
        \<Longrightarrow> outcome Q (f (x, t))"
  shows "outcome Q (attempt (load_attempt_and_ticket db a) f)"
proof (cases "first_row (\<lambda>t. unit_attempt_id (tk_scope t) = a) (tickets db)")
  case None
  then show ?thesis
    by (auto simp: load_attempt_and_ticket_def get_ticket_by_attempt_def live_errors split: option.splits)
next
  case ticket: (Some t)
  then have t: "t \<in> set (tickets db)" "unit_attempt_id (tk_scope t) = a"
    using first_row_Some [OF ticket] by auto
  then have v: "ticket_valid t" using assms(1) by (simp add: tickets_ok_def)
  show ?thesis
  proof (cases "get_attempt db a")
    case None
    with ticket v show ?thesis
      by (simp add: load_attempt_and_ticket_def get_ticket_by_attempt_def live_errors)
  next
    case (Some x)
    then have x: "x \<in> set (attempts db)" "unit_attempt_id (ua_scope x) = a"
      unfolding get_attempt_def using first_row_Some by fastforce+
    show ?thesis
      using Some ticket v x t assms(2) [of x t]
      by (auto simp: load_attempt_and_ticket_def get_ticket_by_attempt_def live_errors Let_def)
  qed
qed

subsection \<open>Initialisation and reads\<close>

lemma new_session_outcome:
  assumes inv: "live_inv now db" and fr: "fresh ids db" and good: "session_good now s"
    and id: "ls_id s = ids 0" and st: "ls_state s = AGENT_CONTROLLED" and ref: "session_references db s"
    and new: "\<And>x. x \<in> set (sessions db) \<Longrightarrow> unit_attempt_id (ls_scope x) \<noteq> unit_attempt_id (ls_scope s)"
    and lgood: "lease_good now (new_lease (ids 1) s AGENT w reason None e now)"
  obtains L E v where "create_session s db = Inr (Some s, db\<lparr>sessions := sessions db @ [s]\<rparr>)"
    and "create_lease (new_lease (ids 1) s AGENT w reason None e now) (db\<lparr>sessions := sessions db @ [s]\<rparr>)
      = Inr (new_lease (ids 1) s AGENT w reason None e now,
          db\<lparr>sessions := sessions db @ [s], leases := L\<rparr>)"
    and "append_event (ids 2) s ''live_session.initialized'' payload now
        (db\<lparr>sessions := sessions db @ [s], leases := L\<rparr>)
      = Inr (db\<lparr>sessions := sessions db @ [s], leases := L, events := E\<rparr>)"
    and "take_snapshot (db\<lparr>sessions := sessions db @ [s], leases := L, events := E\<rparr>) s now = Inr v"
    and "live_inv now (db\<lparr>sessions := sessions db @ [s], leases := L, events := E\<rparr>)"
proof -
  have base: "base_inv now db" using inv by (simp add: live_inv_def)
  have unknown: "ls_id s \<notin> ls_id ` set (sessions db)" using fresh_ids(1) [OF fr, of 0] id by simp
  note cs = create_session_ok [OF base good unknown ref new]
  let ?l = "new_lease (ids 1) s AGENT w reason None e now"
  let ?db1 = "db\<lparr>sessions := sessions db @ [s]\<rparr>"
  obtain L where L: "create_lease ?l ?db1 = Inr (?l, ?db1\<lparr>leases := L\<rparr>)"
      "base_inv now (?db1\<lparr>leases := L\<rparr>)" "current L = (current (leases db))(ls_id s := [?l])"
    by (rule create_lease_ok [OF cs(2), of s ?l])
      (use lgood unknown_session [OF base unknown] fresh_ids(2) [OF fr, of 1] in
        \<open>auto simp: new_lease_def is_current_def\<close>)
  let ?db2 = "?db1\<lparr>leases := L\<rparr>"
  obtain ev where E: "append_event (ids 2) s ''live_session.initialized'' payload now ?db2
        = Inr (?db2\<lparr>events := events db @ [ev]\<rparr>)"
      "base_inv now (?db2\<lparr>events := events db @ [ev]\<rparr>)"
    by (rule append_event_ok [OF L(2), of s "''live_session.initialized''" "ids 2" payload now])
      (use fresh_ids(5) [OF fr, of 2] in auto)
  let ?db3 = "?db2\<lparr>events := events db @ [ev]\<rparr>"
  have "control_ok x (current L (ls_id x)) (pending (commands db) (ls_id x))
      (issued (action_grants db) (ls_id x))" if "x \<in> set (sessions db @ [s])" for x
  proof (cases "x = s")
    case True
    then show ?thesis
      using L(3) unknown_session [OF base unknown] st
      by (simp add: control_ok_def new_lease_def)
  next
    case False
    with that have x: "x \<in> set (sessions db)" by simp
    then have "ls_id x \<noteq> ls_id s" using unknown by (metis image_eqI)
    then show ?thesis using control_okD [OF inv x] L(3) by simp
  qed
  then have "live_inv now ?db3"
    using E(2) by (simp add: live_inv_def controlled_def)
  moreover obtain v where "take_snapshot ?db3 s now = Inr v"
    by (rule take_snapshot_ok [OF calculation, of s]) simp_all
  ultimately show thesis using that cs(1) L(1) E(1) by simp
qed

lemma initialize_outcome:
  assumes inv: "live_inv now db" and fr: "fresh ids db" and tk: "tickets_ok db"
    and ok: "initialize_valid request"
  shows "outcome (\<lambda>(v, db'). live_inv now db') (initialize ids now a request w db)"
proof (cases "in_owner_id request = w")
  case False
  then show ?thesis by (simp add: initialize_def live_errors)
next
  case owner: True
  have base: "base_inv now db" using inv by (simp add: live_inv_def)
  show ?thesis
  proof (cases rule: find_session_by_attempt [OF base, where a = a])
    case (2 s)
    obtain v where "take_snapshot db s now = Inr v" by (rule take_snapshot_ok [OF inv 2(2)])
    with 2 owner inv show ?thesis
      by (simp add: initialize_def current_lease_read [OF inv] live_errors)
  next
    case 1
    have "outcome (\<lambda>(v, db'). live_inv now db')
      (attempt (load_attempt_and_ticket db a) (\<lambda>(attempt_row, ticket).
         establish_session ids now request w attempt_row ticket db))"
    proof (rule load_attempt_outcome [OF tk], goal_cases)
      case (1 x t)
      let ?s = "\<lparr>ls_id = ids 0, ls_scope = ua_scope x, ls_execution_ticket_id = tk_id t,
               ls_execution_ticket_digest = tk_ticket_digest t,
               ls_browser_session_id = in_browser_session_id request, ls_state = AGENT_CONTROLLED,
               ls_control_epoch = 1, ls_fencing_token = 1,
               ls_browser_revision = in_browser_revision request, ls_human_influenced = False,
               ls_revision = 1, ls_created_at = now, ls_updated_at = now, ls_closed_at = None\<rparr>"
      let ?e = "min (now + seconds (in_requested_ttl_sec request)) (ua_execution_deadline x)"
      show ?case
      proof (cases "ua_lifecycle x = RUNNING \<and> now < ua_execution_deadline x")
        case False
        then show ?thesis by (auto simp: live_errors establish_session_def)
      next
        case True
        have ttl: "0 < in_requested_ttl_sec request"
          using ok by (simp add: initialize_valid_def ttl_within_def)
        have good: "session_good now ?s"
          using ok 1(7) by (simp add: session_good_def session_valid_def session_check_def
              initialize_valid_def ticket_valid_def)
        have ref: "session_references db ?s"
          using 1 by (auto simp: session_references_def list_ex_iff)
        have lgood: "lease_good now (new_lease (ids 1) ?s AGENT w ''initial agent control'' None ?e now)"
          using ok owner ttl True
          by (simp add: lease_good_def lease_valid_def lease_check_def new_lease_def initialize_valid_def)
        have new: "unit_attempt_id (ls_scope y) \<noteq> unit_attempt_id (ls_scope ?s)"
          if "y \<in> set (sessions db)" for y
          using \<open>\<And>s. s \<in> set (sessions db) \<Longrightarrow> unit_attempt_id (ls_scope s) \<noteq> a\<close> [OF that] 1(3) by simp
        show ?thesis
          by (rule new_session_outcome [OF inv fr good _ _ ref new lgood, where
                payload = "[(''ownerType'', JString (controller_text AGENT)),
                 (''browserRevision'', JInt (ls_browser_revision ?s))]"])
            (use True good lgood in \<open>simp_all add: establish_session_def session_good_def lease_good_def not_le\<close>)
      qed
    qed
    with 1 owner show ?thesis by (simp add: initialize_def)
  qed
qed

lemma get_snapshot_outcome:
  assumes inv: "live_inv now db"
  shows "outcome (\<lambda>(v, db'). live_inv now db') (get_snapshot actor a now db)"
proof -
  have base: "base_inv now db" using inv by (simp add: live_inv_def)
  show ?thesis
  proof (cases rule: find_session_by_attempt [OF base, where a = a])
    case 1
    then show ?thesis by (simp add: get_snapshot_def require_visible_def live_errors)
  next
    case (2 s)
    obtain v where "take_snapshot db s now = Inr v" by (rule take_snapshot_ok [OF inv 2(2)])
    with 2 inv show ?thesis by (simp add: get_snapshot_def require_visible_def live_errors)
  qed
qed

lemma get_command_outcome:
  assumes inv: "live_inv now db"
  shows "outcome (\<lambda>(v, db'). live_inv now db') (get_command actor a i db)"
proof -
  have base: "base_inv now db" using inv by (simp add: live_inv_def)
  show ?thesis
    by (cases rule: find_session_by_attempt [OF base, where a = a];
        cases rule: find_command_cases [OF base, where i = i])
      (auto simp: get_command_def require_visible_def live_errors inv)
qed

lemma get_action_grant_outcome:
  assumes inv: "live_inv now db"
  shows "outcome (\<lambda>(v, db'). live_inv now db') (get_action_grant a i db)"
proof -
  have base: "base_inv now db" using inv by (simp add: live_inv_def)
  show ?thesis
    unfolding get_action_grant_def
    by (rule require_runtime_session_outcome [OF base],
        cases rule: find_grant_cases [OF base, where i = i]) (auto simp: live_errors inv)
qed

subsection \<open>Expiry and heartbeat\<close>

lemma append_event_live:
  assumes inv: "live_inv now db" and s: "s \<in> set (sessions db)" and ty: "event_type_pattern ty"
    and id: "event_id \<notin> le_id ` set (events db)"
  obtains e where "append_event event_id s ty payload at db = Inr (db\<lparr>events := events db @ [e]\<rparr>)"
    and "live_inv now (db\<lparr>events := events db @ [e]\<rparr>)" and "le_id e = event_id"
proof -
  have base: "base_inv now db" using inv by (simp add: live_inv_def)
  obtain e where "append_event event_id s ty payload at db = Inr (db\<lparr>events := events db @ [e]\<rparr>)"
    "base_inv now (db\<lparr>events := events db @ [e]\<rparr>)" "le_id e = event_id"
    using append_event_ok [OF base s ty id] by metis
  moreover have "controlled (db\<lparr>events := events db @ [e]\<rparr>)"
    using inv by (simp add: live_inv_def controlled_def)
  ultimately show thesis by (intro that) (simp_all add: live_inv_def)
qed

lemma expire_control_ok:
  assumes inv: "live_inv now db" and s: "s \<in> set (sessions db)"
    and cur: "current (leases db) (ls_id s) = [l]" and id: "event_id \<notin> le_id ` set (events db)"
  obtains (expired) db' where "cl_expires_at l \<le> now"
      and "expire_control event_id s l now db = Inr (Some (expired_session now s), db')"
      and "live_inv now db'" and "sessions db' = put_session (expired_session now s) (sessions db)"
      and "expired_session now s \<in> set (sessions db')"
      and "current (leases db') (ls_id s) = []" and "issued (action_grants db') (ls_id s) = []"
      and "le_id ` set (events db') = insert event_id (le_id ` set (events db))"
  | (kept) "now < cl_expires_at l" and "expire_control event_id s l now db = Inr (None, db)"
proof (cases rule: expire_current_control_ok [OF inv s cur])
  case (1 l' db')
  let ?payload = "[(''leaseId'', JString (uuid_text (cl_id l'))),
            (''ownerType'', JString (controller_text (cl_owner_type l'))),
            (''ownerId'', JString (cl_owner_id l')),
            (''expiredControlEpoch'', JInt (cl_control_epoch l')),
            (''expiredFencingToken'', JInt (cl_fencing_token l'))]"
  obtain e where e: "append_event event_id (expired_session now s) ''live_control.lease_expired'' ?payload
        now db' = Inr (db'\<lparr>events := events db' @ [e]\<rparr>)"
      "live_inv now (db'\<lparr>events := events db' @ [e]\<rparr>)" "le_id e = event_id"
    by (rule append_event_live [OF 1(3) 1(8), where ty = "''live_control.lease_expired''"
          and event_id = event_id]) (use id 1(5) in auto)
  have "expire_control event_id s l now db
      = Inr (Some (expired_session now s), db'\<lparr>events := events db' @ [e]\<rparr>)"
    using 1(2) e(1) by (simp add: expire_control_def)
  from expired [OF 1(1) this e(2)] show thesis using 1 e(3) by auto
next
  case 2
  then show thesis by (intro kept) (simp_all add: expire_control_def)
qed

lemma agent_controlled_current:
  assumes "live_inv t db" and "s \<in> set (sessions db)" and "get_current_lease db (ls_id s) = Inr (Some l)"
  shows "current (leases db) (ls_id s) = [l]" and "l \<in> set (leases db)" and "cl_session l = ls_id s"
    and "cl_control_epoch l = ls_control_epoch s" and "cl_fencing_token l = ls_fencing_token s"
proof -
  note ok = control_okD [OF assms(1,2)]
  have "head_option (current (leases db) (ls_id s)) = Some l"
    using assms(3) current_lease_read [OF assms(1,2)] by simp
  with control_shape [OF ok] show cur: "current (leases db) (ls_id s) = [l]"
    by (cases rule: state_shape_cases) auto
  then show l: "l \<in> set (leases db)" "cl_session l = ls_id s"
    using in_current [of l "leases db" "ls_id s"] by auto
  show e: "cl_control_epoch l = ls_control_epoch s" using ok cur by (simp add: control_ok_def)
  show "cl_fencing_token l = ls_fencing_token s"
    using e lease_row_good [of t db l] session_row_good [of t db s] assms(1,2) l
    by (simp add: live_inv_def lease_good_def session_good_def)
qed

lemma current_lease_cases:
  assumes "live_inv t db" and "s \<in> set (sessions db)"
  obtains "get_current_lease db (ls_id s) = Inr None"
  | l where "get_current_lease db (ls_id s) = Inr (Some l)"
  using current_lease_read [OF assms] by (cases "head_option (current (leases db) (ls_id s))") auto

text \<open>Renewal of an agent's lease.\<close>

lemma heartbeat_lease_ok:
  assumes inv: "live_inv now db" and s: "s \<in> set (sessions db)"
    and l: "get_current_lease db (ls_id s) = Inr (Some l)"
    and st: "ls_state s = AGENT_CONTROLLED" and act: "cl_state l = LEASE_ACTIVE"
    and live: "now < cl_expires_at l" and later: "cl_expires_at l < e"
  obtains db' where "heartbeat_lease s l e now db
      = Inr (Some (l\<lparr>cl_expires_at := e, cl_updated_at := now\<rparr>), db')"
    and "live_inv now db'" and "sessions db' = sessions db"
proof -
  have base: "base_inv now db" using inv by (simp add: live_inv_def)
  note cur = agent_controlled_current [OF inv s l]
  let ?p = "\<lambda>item. cl_id item = cl_id l \<and> cl_state item = LEASE_ACTIVE \<and> now < cl_expires_at item
          \<and> cl_expires_at item < e \<and> cl_control_epoch item = cl_control_epoch l
          \<and> cl_fencing_token item = cl_fencing_token l
          \<and> list_ex (\<lambda>x. ls_id x = cl_session item \<and> ls_id x = ls_id s
               \<and> ls_state x = AGENT_CONTROLLED \<and> ls_control_epoch x = cl_control_epoch item
               \<and> ls_fencing_token x = cl_fencing_token item) (sessions db)"
  let ?f = "\<lambda>l. l\<lparr>cl_expires_at := e, cl_updated_at := now\<rparr>"
  have sel: "cl_session x = ls_id s \<and> is_current x" if "x \<in> set (leases db)" "?p x" for x
    using that by (auto simp: is_current_def list_ex_iff)
  have step: "guard_lease now x (?f x) \<and> lease_good now (?f x)" if "x \<in> set (leases db)" "?p x" for x
    using lease_extend_good [OF lease_row_good [OF base that(1)], of e] that(2) by blast
  have p: "?p l"
    using cur(3-5) act live later s st by (auto simp: list_ex_iff)
  have upd: "filter ?p [l] = [l]" "filter is_current (put_where ?p ?f [l]) = [?f l]"
    using p act by (simp_all add: is_current_def)
  obtain L where L: "update_leases now ?p ?f db = Inr ([?f l], db\<lparr>leases := L\<rparr>)"
      "base_inv now (db\<lparr>leases := L\<rparr>)" "current L = (current (leases db))(ls_id s := [?f l])"
    by (rule update_current_leases [where p = ?p and f = ?f and i = "ls_id s", OF base sel step])
      (use cur(1) upd in auto)
  have "lease_valid (?f l)"
    using step [OF cur(2) p] by (simp add: lease_good_def)
  then have res: "heartbeat_lease s l e now db = Inr (Some (?f l), db\<lparr>leases := L\<rparr>)"
    using L(1) by (simp add: heartbeat_lease_def)
  have "controlled (db\<lparr>leases := L\<rparr>)"
  proof (rule controlled_step [OF inv s refl, where cur = "[?f l]"])
    show "sessions (db\<lparr>leases := L\<rparr>) = put_session s (sessions db)"
      using put_session_same [OF base s] by simp
    show "pending (commands (db\<lparr>leases := L\<rparr>))
        = (pending (commands db))(ls_id s := pending (commands db) (ls_id s))"
      "issued (action_grants (db\<lparr>leases := L\<rparr>))
        = (issued (action_grants db))(ls_id s := issued (action_grants db) (ls_id s))"
      by simp_all
    show "control_ok s [?f l] (pending (commands db) (ls_id s)) (issued (action_grants db) (ls_id s))"
      using control_okD [OF inv s] cur(1) st
      by (cases "pending (commands db) (ls_id s)") (auto simp: control_ok_def)
  qed (simp add: L(3))
  with L(2) show thesis by (intro that [OF res]) (simp_all add: live_inv_def)
qed

lemma renew_lease_outcome:
  assumes inv: "live_inv now db" and s: "s \<in> set (sessions db)"
    and l: "get_current_lease db (ls_id s) = Inr (Some l)"
    and st: "ls_state s = AGENT_CONTROLLED" "cl_state l = LEASE_ACTIVE" "now < cl_expires_at l"
  shows "outcome (\<lambda>(v, db'). live_inv now db') (renew_lease now request s l x db)"
proof -
  note cur = agent_controlled_current [OF inv s l]
  let ?e = "min (now + seconds (hb_requested_ttl_sec request)) (ua_execution_deadline x)"
  show ?thesis
  proof (cases "?e \<le> cl_expires_at l")
    case True
    obtain v where "take_snapshot db s now = Inr v" by (rule take_snapshot_ok [OF inv s])
    with True inv show ?thesis by (simp add: renew_lease_def)
  next
    case False
    obtain db' where db': "heartbeat_lease s l ?e now db
        = Inr (Some (l\<lparr>cl_expires_at := ?e, cl_updated_at := now\<rparr>), db')" "live_inv now db'"
      by (rule heartbeat_lease_ok [OF inv s l st, of ?e]) (use False in \<open>auto simp: not_le\<close>)
    have "snapshot_valid \<lparr>sn_session = s, sn_lease = Some (l\<lparr>cl_expires_at := ?e, cl_updated_at := now\<rparr>),
        sn_pending_command = None, sn_observed_at = now\<rparr>"
      using cur by (simp add: snapshot_valid_def)
    with False db' show ?thesis by (simp add: renew_lease_def)
  qed
qed

lemma heartbeat_session_outcome:
  assumes inv: "live_inv now db" and fr: "fresh ids db" and tk: "tickets_ok db"
    and s: "s \<in> set (sessions db)"
  shows "outcome (\<lambda>(v, db'). live_inv now db') (heartbeat_session ids now a request w db s)"
proof (cases rule: current_lease_cases [OF inv s])
  case 1
  then show ?thesis by (simp add: heartbeat_session_def live_errors)
next
  case (2 l)
  note cur = agent_controlled_current [OF inv s 2]
  show ?thesis
  proof (cases "cl_expires_at l \<le> now")
    case True
    show ?thesis
    proof (cases rule: expire_control_ok [OF inv s cur(1) fresh_ids(5) [OF fr, of 0]])
      case (1 db')
      obtain v where "take_snapshot db' (expired_session now s) now = Inr v"
        by (rule take_snapshot_ok [OF 1(3,5)])
      with 1 2 show ?thesis by (simp add: heartbeat_session_def live_errors)
    qed (use True in simp)
  next
    case False
    then have "outcome (\<lambda>(v, db'). live_inv now db')
        (attempt (load_attempt_and_ticket db a) (\<lambda>(attempt_row, _).
           renew_lease now request s l attempt_row db))"
      if "ls_state s = AGENT_CONTROLLED" "cl_state l = LEASE_ACTIVE"
      by (intro load_attempt_outcome [OF tk]) (use renew_lease_outcome [OF inv s 2 that] in simp)
    with False 2 show ?thesis by (simp add: heartbeat_session_def live_errors)
  qed
qed

lemma heartbeat_outcome:
  assumes inv: "live_inv now db" and fr: "fresh ids db" and tk: "tickets_ok db"
  shows "outcome (\<lambda>(v, db'). live_inv now db') (heartbeat ids now a request w db)"
  unfolding heartbeat_def using inv heartbeat_session_outcome [OF inv fr tk]
  by (intro require_runtime_session_outcome) (auto simp: live_inv_def)

lemma reap_loop_outcome:
  assumes "live_inv now db" and "inj ids" and "\<forall>n \<ge> k. ids n \<notin> le_id ` set (events db)"
  shows "outcome (\<lambda>(n, db'). live_inv now db') (reap_loop ids now k is db)"
  using assms
proof (induction "is" arbitrary: k db)
  case Nil
  then show ?case by simp
next
  case (Cons i "is")
  note inv = Cons.prems(1)
  have base: "base_inv now db" using inv by (simp add: live_inv_def)
  show ?case
  proof (cases "\<exists>s \<in> set (sessions db). ls_id s = i")
    case False
    then have "first_row (\<lambda>s. ls_id s = i) (sessions db) = None" by (simp add: table_simps)
    then have "get_session_by_id db i = Inr None" by (simp add: get_session_by_id_def)
    then show ?thesis using Cons.IH [OF Cons.prems] by simp
  next
    case True
    then obtain s where s: "s \<in> set (sessions db)" "i = ls_id s" by auto
    note found = find_session_by_id [OF base s(1)]
    show ?thesis
    proof (cases rule: current_lease_cases [OF inv s(1)])
      case 1
      with found s show ?thesis using Cons.IH [OF Cons.prems] by simp
    next
      case (2 l)
      have id: "ids k \<notin> le_id ` set (events db)" using Cons.prems(3) by auto
      show ?thesis
      proof (cases rule: expire_control_ok [OF inv s(1) agent_controlled_current(1) [OF inv s(1) 2] id])
        case (1 db')
        have "ids n \<notin> le_id ` set (events db')" if "Suc k \<le> n" for n
          using 1(8) Cons.prems(2,3) that by (auto dest: injD)
        with 1 2 found s show ?thesis
          using Cons.IH [OF 1(3) Cons.prems(2), of "Suc k"] by simp
      next
        case 2
        with \<open>get_current_lease db (ls_id s) = Inr (Some l)\<close> found s show ?thesis
          using Cons.IH [OF Cons.prems] by simp
      qed
    qed
  qed
qed

lemma reap_expired_outcome:
  assumes inv: "live_inv now db" and fr: "fresh ids db" and lim: "1 \<le> limit" "limit \<le> 500"
  shows "outcome (\<lambda>(r, db'). live_inv now db') (reap_expired ids now actor limit db)"
proof (cases "is_organization_admin actor")
  case True
  have "inj ids" using fr by (simp add: fresh_def)
  moreover have "\<forall>n \<ge> 0. ids n \<notin> le_id ` set (events db)" using fresh_ids(5) [OF fr] by blast
  ultimately have "outcome (\<lambda>(n, db'). live_inv now db')
      (reap_loop ids now 0 (claim_expired_session_ids db now (nat limit)) db)"
    by (rule reap_loop_outcome [OF inv])
  then have "outcome (\<lambda>x. outcome (\<lambda>(r, db'). live_inv now db') (case x of (n, db1) \<Rightarrow> Inr ((n, now), db1)))
      (reap_loop ids now 0 (claim_expired_session_ids db now (nat limit)) db)"
    by (rule outcome_weaken) auto
  with True lim show ?thesis by (simp add: reap_expired_def outcome_attempt)
qed (simp add: reap_expired_def live_errors)

end
