(* ===== verification/Live_Commands.thy ===== *)
theory Live_Commands
  imports Live_Handlers
begin

text \<open>
  The two halves of a control command: the request a person sends (\<open>pause\<close>, \<open>resume\<close>,
  \<open>takeover\<close>, \<open>return_control\<close>) and the worker's acknowledgement at a safe point.
\<close>

subsection \<open>Requests\<close>

lemma validate_transition_cases:
  assumes "tickets_ok db"
  obtains c n where "validate_transition db s lease ct now = Inl (app_failure c n)"
  | "validate_transition db s lease ct now = Inr ()" and "ls_state s = expected_state ct"
    and "ct \<noteq> RESUME \<Longrightarrow> \<exists>l. lease = Some l \<and> cl_state l = LEASE_ACTIVE \<and> now < cl_expires_at l"
proof (cases "validate_transition db s lease ct now")
  case (Inl f)
  have "\<exists>c n. f = app_failure c n"
    using Inl assms
    by (fastforce simp: validate_transition_def live_errors get_ticket_by_attempt_def tickets_ok_def
        attempt_Inl ensure_def split: if_splits option.splits dest: first_row_Some
        elim!: model_row.elims)
  with Inl that(1) show thesis by blast
next
  case (Inr u)
  with that(2) show thesis
    by (auto simp: validate_transition_def live_errors not_le split: if_splits option.splits)
qed

lemma request_transition_any:
  assumes inv: "live_inv now db" and s: "s \<in> set (sessions db)" and st: "ls_state s = expected_state ct"
  obtains db' cur where "request_transition s (fst (requested_state ct)) now (snd (requested_state ct)) db
        = Inr (requested_session (fst (requested_state ct)) now s, db')"
    and "base_inv now db'"
    and "sessions db' = put_session (requested_session (fst (requested_state ct)) now s) (sessions db)"
    and "commands db' = commands db" and "events db' = events db"
    and "current (leases db') = (current (leases db))(ls_id s := cur)"
    and "issued (action_grants db') = (issued (action_grants db))(ls_id s := [])"
    and "\<And>c. lc_command_type c = ct \<Longrightarrow> state_shape (fst (requested_state ct)) cur [c]"
    and "\<And>l. l \<in> set cur \<Longrightarrow> cl_control_epoch l = ls_control_epoch s"
proof -
  note ok = control_okD [OF inv s]
  have base: "base_inv now db" using inv by (simp add: live_inv_def)
  show thesis
  proof (cases "ct = RESUME")
    case True
    with st have paused: "ls_state s = PAUSED" by simp
    have empty: "current (leases db) (ls_id s) = []" "issued (action_grants db) (ls_id s) = []"
      using control_shape [OF ok] ok paused
      by (auto simp: control_ok_def filter_empty_conv elim!: state_shape_cases)
    have tr: "session_transition (ls_state s) RESUME_REQUESTED"
      using paused by (simp add: session_transition_def)
    note upd = request_session_update [OF base s tr]
    have r: "request_transition s (fst (requested_state ct)) now (snd (requested_state ct)) db
        = Inr (requested_session (fst (requested_state ct)) now s,
            db\<lparr>sessions := put_session (requested_session (fst (requested_state ct)) now s) (sessions db)\<rparr>)"
      using True upd(1) paused by simp
    show thesis
      by (rule that [OF r, where cur = "[]"])
        (use True upd paused empty in \<open>auto simp: fun_upd_idem\<close>)
  next
    case False
    obtain l where l: "current (leases db) (ls_id s) = [l]" "cl_state l = LEASE_ACTIVE"
      and owner: "cl_owner_type l = (if ct = RETURN then HUMAN else AGENT)"
      using control_shape [OF ok] st False by (cases rule: state_shape_cases) (cases ct; auto)+
    have tr: "session_transition (ls_state s) (fst (requested_state ct))"
      "ls_state s \<noteq> CLOSED" "fst (requested_state ct) \<noteq> CLOSED"
      using st False by (cases ct; simp add: session_transition_def)+
    have epoch: "cl_control_epoch l = ls_control_epoch s" using ok l by (simp add: control_ok_def)
    have flag: "snd (requested_state ct) = True" using False by (cases ct) auto
    have shape: "state_shape (fst (requested_state ct))
        [l\<lparr>cl_state := LEASE_REVOKING, cl_updated_at := now\<rparr>] [c]" if "lc_command_type c = ct" for c
      using that owner False by (cases ct) simp_all
    obtain L G where r: "request_transition s (fst (requested_state ct)) now True db
        = Inr (requested_session (fst (requested_state ct)) now s, db\<lparr>leases := L, action_grants := G,
           sessions := put_session (requested_session (fst (requested_state ct)) now s) (sessions db)\<rparr>)"
      and "base_inv now (db\<lparr>leases := L, action_grants := G,
           sessions := put_session (requested_session (fst (requested_state ct)) now s) (sessions db)\<rparr>)"
      and "current L = (current (leases db))
          (ls_id s := [l\<lparr>cl_state := LEASE_REVOKING, cl_updated_at := now\<rparr>])"
      and "issued G = (issued (action_grants db))(ls_id s := [])"
      by (rule request_transition_revoking [OF inv s l tr])
    with flag shape epoch show thesis
      by (intro that [OF r [folded flag], where cur = "[l\<lparr>cl_state := LEASE_REVOKING, cl_updated_at := now\<rparr>]"])
        simp_all
  qed
qed

lemma accept_request_outcome:
  assumes inv: "live_inv now db" and fr: "fresh ids db" and tk: "tickets_ok db"
    and s: "s \<in> set (sessions db)" and req: "live_request_valid request" and key: "mutation_pattern k"
    and actor: "actor_id actor \<noteq> None" and epoch: "ls_control_epoch s = e"
    and new: "get_command_by_mutation db (ls_id s) k = Inr None"
  shows "outcome (\<lambda>(r, db'). live_inv now db') (accept_request ids now ct actor request e k db s)"
proof (cases "pending (commands db) (ls_id s)")
  case (Cons c cs)
  then show ?thesis
    using get_pending_command_ok [of now db] inv by (simp add: accept_request_def live_inv_def live_errors)
next
  case nopend: Nil
  have base: "base_inv now db" using inv by (simp add: live_inv_def)
  note pend = get_pending_command_ok [OF base, of "ls_id s", unfolded nopend, simplified]
  note lease = current_lease_read [OF inv s]
  show ?thesis
  proof (cases rule: validate_transition_cases [OF tk, of s "head_option (current (leases db) (ls_id s))" ct now])
    case 1
    then show ?thesis by (simp add: accept_request_def pend lease)
  next
    case 2
    let ?st = "fst (requested_state ct)"
    let ?s = "requested_session ?st now s"
    obtain db1 cur where r: "request_transition s ?st now (snd (requested_state ct)) db = Inr (?s, db1)"
      and b1: "base_inv now db1" and s1: "sessions db1 = put_session ?s (sessions db)"
      and c1: "commands db1 = commands db" and e1: "events db1 = events db"
      and cur: "current (leases db1) = (current (leases db))(ls_id s := cur)"
      and iss: "issued (action_grants db1) = (issued (action_grants db))(ls_id s := [])"
      and shape: "\<And>c. lc_command_type c = ct \<Longrightarrow> state_shape ?st cur [c]"
      and epochs: "\<And>l. l \<in> set cur \<Longrightarrow> cl_control_epoch l = ls_control_epoch s"
      using request_transition_any [OF inv s 2(2)] by metis
    have id: "ls_id ?s = ls_id s" "ls_scope ?s = ls_scope s" "ls_control_epoch ?s = e"
      using epoch by (simp_all add: requested_session_def)
    have mem: "?s \<in> set (sessions db1)" using s id by (simp add: s1 set_put_session)
    let ?c = "\<lparr>lc_id = ids 0, lc_scope = ls_scope s, lc_session = ls_id s,
          lc_command_type = ct, lc_client_mutation_id = k,
          lc_reason = lr_reason request, lc_requested_ttl_sec = lr_requested_ttl_sec request,
          lc_expected_control_epoch = e,
          lc_accepted_session_revision = ls_revision ?s, lc_status = COMMAND_PENDING,
          lc_requested_by = actor_id actor, lc_created_at = now, lc_updated_at = now,
          lc_applied_at = None, lc_resulting_control_epoch = None,
          lc_resulting_fencing_token = None, lc_checkpoint_digest = None\<rparr>"
    have good: "command_good now ?c"
      using req key actor session_row_good [OF b1 mem] id
      by (simp add: command_good_def command_valid_def command_check_def live_request_valid_def
          session_good_def session_valid_def split: option.splits)
    obtain C where C: "create_command ?c db1 = Inr (?c, db1\<lparr>commands := C\<rparr>)"
        "base_inv now (db1\<lparr>commands := C\<rparr>)" "pending C = (pending (commands db1))(ls_id s := [?c])"
      by (rule create_command_ok [OF b1 mem good])
        (use id nopend c1 fresh_ids(3) [OF fr, of 0] new in
          \<open>simp_all add: get_command_by_mutation_def\<close>)
    have ctl: "controlled (db1\<lparr>commands := C\<rparr>)"
    proof (rule controlled_step [OF inv s id(1), where cur = cur and pend = "[?c]" and iss = "[]"])
      show "control_ok ?s cur [?c] []"
        using shape [of ?c] epochs id epoch
        by (cases ct) (simp_all add: control_ok_def requested_session_def)
    qed (simp_all add: s1 cur iss C(3) c1)
    have inv2: "live_inv now (db1\<lparr>commands := C\<rparr>)" using C(2) ctl by (simp add: live_inv_def)
    obtain ev where E: "append_event (ids 1) ?s
         (''live_control.'' @ command_text ct @ ''.requested'')
         [(''commandId'', JString (uuid_text (lc_id ?c))),
          (''requestedBy'', case actor_id actor of None \<Rightarrow> JNull | Some u \<Rightarrow> JString (uuid_text u)),
          (''reason'', JString (lr_reason request))] now (db1\<lparr>commands := C\<rparr>)
        = Inr (db1\<lparr>commands := C, events := events (db1\<lparr>commands := C\<rparr>) @ [ev]\<rparr>)"
      "live_inv now (db1\<lparr>commands := C, events := events (db1\<lparr>commands := C\<rparr>) @ [ev]\<rparr>)"
    proof -
      have "?s \<in> set (sessions (db1\<lparr>commands := C\<rparr>))"
        "ids 1 \<notin> le_id ` set (events (db1\<lparr>commands := C\<rparr>))"
        using mem e1 fresh_ids(5) [OF fr, of 1] by simp_all
      from append_event_live [OF inv2 this(1) event_types_of_command(2) this(2)] that
      show thesis by blast
    qed
    have cv: "command_valid ?c" using good by (simp add: command_good_def)
    show ?thesis
      using pend lease 2(1) r cv C(1) E by (simp add: accept_request_def)
  qed
qed

lemma request_live_transition_outcome:
  assumes inv: "live_inv now db" and fr: "fresh ids db" and tk: "tickets_ok db"
    and req: "live_request_valid request" and key: "mutation_pattern k"
  shows "outcome (\<lambda>(r, db'). live_inv now db')
    (request_live_transition ids now ct actor a request e k db)"
proof -
  have base: "base_inv now db" using inv by (simp add: live_inv_def)
  show ?thesis
  proof (cases rule: find_session_by_attempt [OF base, where a = a])
    case 1
    then show ?thesis
      by (simp add: request_live_transition_def require_operable_def require_visible_def live_errors)
  next
    case (2 s)
    show ?thesis
    proof (cases rule: find_mutation_cases [OF base, where i = "ls_id s" and k = k])
      case 1
      with 2 show ?thesis
        using accept_request_outcome [OF inv fr tk 2(2) req key _ _ 1, of actor e ct]
        by (auto simp: request_live_transition_def require_operable_def require_visible_def live_errors)
    next
      case (2 c)
      with \<open>get_session_by_attempt db a = Inr (Some s)\<close> inv show ?thesis
        by (simp add: request_live_transition_def require_operable_def require_visible_def live_errors)
    qed
  qed
qed

subsection \<open>Acknowledgements\<close>

lemma ack_target_cases:
  assumes "command_good now c" and "state_shape (ls_state s) cur [c]"
  obtains (paused) "ack_target c request = Inr (PAUSED, None, 0)" and "lc_command_type c = PAUSE"
      and "session_transition (ls_state s) PAUSED"
  | (human) u ttl where "ack_target c request = Inr (HUMAN_CONTROLLED, Some (HUMAN, human_owner u), ttl)"
      and "lc_command_type c = TAKEOVER" and "lc_requested_by c = Some u"
      and "session_transition (ls_state s) HUMAN_CONTROLLED"
  | (agent) "ack_target c request
        = Inr (AGENT_CONTROLLED, Some (AGENT, ak_agent_owner_id request), AGENT_LEASE_TTL)"
      and "lc_command_type c = RESUME \<or> lc_command_type c = RETURN"
      and "session_transition (ls_state s) AGENT_CONTROLLED"
proof (cases "lc_command_type c")
  case PAUSE
  with assms(2) show thesis
    by (intro paused) (auto simp: session_transition_def elim!: state_shape_cases)
next
  case RESUME
  with assms(2) show thesis
    by (intro agent) (auto simp: session_transition_def elim!: state_shape_cases)
next
  case TAKEOVER
  obtain u where "lc_requested_by c = Some u" using assms(1) by (auto simp: command_good_def)
  with TAKEOVER assms(2) show thesis
    by (intro human) (auto simp: session_transition_def elim!: state_shape_cases)
next
  case RETURN
  with assms(2) show thesis
    by (intro agent) (auto simp: session_transition_def elim!: state_shape_cases)
qed

lemma grant_control_cases:
  assumes inv: "base_inv now db" and s: "s \<in> set (sessions db)"
    and none: "current (leases db) (ls_id s) = []"
    and newer: "\<forall>k \<in> set (lease_epochs (leases db) (ls_id s)). k < ls_control_epoch s"
    and id: "ids 0 \<notin> cl_id ` set (leases db)" and owner: "safe_owner oid"
  obtains "grant_control ids now c x (Some (ot, oid)) ttl s db = Inl live_conflict"
  | l L where "grant_control ids now c x (Some (ot, oid)) ttl s db = Inr (db\<lparr>leases := L\<rparr>)"
    and "base_inv now (db\<lparr>leases := L\<rparr>)" and "current L = (current (leases db))(ls_id s := [l])"
    and "cl_state l = LEASE_ACTIVE" and "cl_owner_type l = ot" and "cl_owner_id l = oid"
    and "cl_control_epoch l = ls_control_epoch s"
proof (cases "min (now + seconds ttl) (ua_execution_deadline x) \<le> now")
  case True
  then show thesis by (intro that(1)) (simp add: grant_control_def Let_def)
next
  case False
  let ?l = "new_lease (ids 0) s ot oid (command_text (lc_command_type c) @ '' applied'')
     (lc_requested_by c) (min (now + seconds ttl) (ua_execution_deadline x)) now"
  from False have "0 < ttl \<and> now < ua_execution_deadline x" by (auto simp: min_le_iff_disj not_le)
  then have good: "lease_good now ?l"
    using owner session_row_good [OF inv s] safe_text_reason(1) [of "lc_command_type c"]
    by (simp add: lease_good_def lease_valid_def lease_check_def new_lease_def session_good_def
        session_valid_def)
  obtain L where "create_lease ?l db = Inr (?l, db\<lparr>leases := L\<rparr>)"
      "base_inv now (db\<lparr>leases := L\<rparr>)" "current L = (current (leases db))(ls_id s := [?l])"
    by (rule create_lease_ok [OF inv s good _ _ _ _ none])
      (use id newer in \<open>auto simp: new_lease_def is_current_def\<close>)
  moreover have "lease_valid ?l" using good by (simp add: lease_good_def)
  ultimately show thesis
    using False by (intro that(2) [of L ?l]) (simp_all add: grant_control_def Let_def new_lease_def)
qed

text \<open>From the applied session row to the end of the transaction.\<close>

lemma finish_acknowledgement:
  assumes inv: "live_inv now db" and fr: "fresh ids db" and s: "s \<in> set (sessions db)"
    and noissued: "issued (action_grants db) (ls_id s) = []"
    and owner: "case owner of None \<Rightarrow> st = PAUSED
        | Some (ot, oid) \<Rightarrow> safe_owner oid
            \<and> st = (case ot of AGENT \<Rightarrow> AGENT_CONTROLLED | HUMAN \<Rightarrow> HUMAN_CONTROLLED)"
    and infl: "st = HUMAN_CONTROLLED \<longrightarrow> infl" and ty: "event_type_pattern ty"
    and eq: "s' = applied_session st brev infl now s"
    and b1: "base_inv now db1" and s1: "sessions db1 = put_session s' (sessions db)"
    and mem: "s' \<in> set (sessions db1)"
    and cur: "current (leases db1) = (current (leases db))(ls_id s := [])"
    and pend: "pending (commands db1) = (pending (commands db))(ls_id s := [])"
    and g1: "action_grants db1 = action_grants db" and e1: "events db1 = events db"
    and ids1: "cl_id ` set (leases db1) = cl_id ` set (leases db)"
    and ep: "lease_epochs (leases db1) = lease_epochs (leases db)"
  shows "outcome (\<lambda>(v, db'). live_inv now db')
      (attempt (grant_control ids now c x owner ttl s' db1) (\<lambda>db2.
       attempt (append_event (ids 1) s' ty payload now db2) (\<lambda>db3.
       attempt (take_snapshot db3 s' now) (\<lambda>v. Inr (v, db3)))))"
proof -
  have base: "base_inv now db" using inv by (simp add: live_inv_def)
  have id: "ls_id s' = ls_id s" and e: "ls_control_epoch s' = ls_control_epoch s + 1"
    and st': "ls_state s' = st" and infl': "ls_human_influenced s' = infl"
    using eq by (simp_all add: applied_session_def)
  have tail: "outcome (\<lambda>(v, db'). live_inv now db')
      (attempt (append_event (ids 1) s' ty payload now (db1\<lparr>leases := L\<rparr>)) (\<lambda>db3.
       attempt (take_snapshot db3 s' now) (\<lambda>v. Inr (v, db3))))"
    if b2: "base_inv now (db1\<lparr>leases := L\<rparr>)" and c2: "current L = (current (leases db))(ls_id s := ls)"
      and shape: "state_shape st ls []" and ep2: "\<forall>l \<in> set ls. cl_control_epoch l = ls_control_epoch s'"
    for L ls
  proof -
    have "controlled (db1\<lparr>leases := L\<rparr>)"
    proof (rule controlled_step [OF inv s id, where cur = ls and pend = "[]" and iss = "[]"])
      show "issued (action_grants (db1\<lparr>leases := L\<rparr>)) = (issued (action_grants db))(ls_id s := [])"
        using noissued g1 by (simp add: fun_upd_idem)
      show "control_ok s' ls [] []"
        using shape ep2 infl by (simp add: control_ok_def st' infl')
    qed (simp_all add: s1 c2 pend)
    with b2 have inv2: "live_inv now (db1\<lparr>leases := L\<rparr>)" by (simp add: live_inv_def)
    have mem2: "s' \<in> set (sessions (db1\<lparr>leases := L\<rparr>))" using mem by simp
    have id2: "ids 1 \<notin> le_id ` set (events (db1\<lparr>leases := L\<rparr>))"
      using e1 fresh_ids(5) [OF fr, of 1] by simp
    obtain ev where ev: "append_event (ids 1) s' ty payload now (db1\<lparr>leases := L\<rparr>)
          = Inr (db1\<lparr>leases := L, events := events (db1\<lparr>leases := L\<rparr>) @ [ev]\<rparr>)"
        "live_inv now (db1\<lparr>leases := L, events := events (db1\<lparr>leases := L\<rparr>) @ [ev]\<rparr>)"
      using append_event_live [OF inv2 mem2 ty id2] by blast
    obtain v where "take_snapshot (db1\<lparr>leases := L, events := events (db1\<lparr>leases := L\<rparr>) @ [ev]\<rparr>) s' now = Inr v"
      by (rule take_snapshot_ok [OF ev(2), of s']) (use mem in simp)
    with ev show ?thesis by simp
  qed
  show ?thesis
  proof (cases owner)
    case None
    have "outcome (\<lambda>(v, db'). live_inv now db')
      (attempt (append_event (ids 1) s' ty payload now (db1\<lparr>leases := leases db1\<rparr>)) (\<lambda>db3.
       attempt (take_snapshot db3 s' now) (\<lambda>v. Inr (v, db3))))"
      by (rule tail [of _ "[]"]) (use b1 cur None owner in simp_all)
    with None show ?thesis by (simp add: grant_control_def)
  next
    case (Some p)
    obtain ot oid where p: "p = (ot, oid)" by (cases p)
    have own: "safe_owner oid" and st: "st = (case ot of AGENT \<Rightarrow> AGENT_CONTROLLED | HUMAN \<Rightarrow> HUMAN_CONTROLLED)"
      using owner Some p by simp_all
    have empty: "current (leases db1) (ls_id s') = []" using cur id by simp
    have newer: "\<forall>k \<in> set (lease_epochs (leases db1) (ls_id s')). k < ls_control_epoch s'"
      using lease_epochs_bound [OF base s] ep id e by fastforce
    have lid: "ids 0 \<notin> cl_id ` set (leases db1)" using ids1 fresh_ids(2) [OF fr, of 0] by simp
    show ?thesis
    proof (cases rule: grant_control_cases [where ids = ids and c = c and x = x and ot = ot and ttl = ttl,
          OF b1 mem empty newer lid own])
      case 1
      with Some p show ?thesis by (simp add: live_errors)
    next
      case (2 l L)
      have "outcome (\<lambda>(v, db'). live_inv now db')
        (attempt (append_event (ids 1) s' ty payload now (db1\<lparr>leases := L\<rparr>)) (\<lambda>db3.
         attempt (take_snapshot db3 s' now) (\<lambda>v. Inr (v, db3))))"
        by (rule tail [of _ "[l]"]) (use 2 cur id st in \<open>cases ot; simp\<close>)+
      with 2 Some p show ?thesis by simp
    qed
  qed
qed

lemma apply_command_outcome:
  assumes inv: "live_inv now db" and fr: "fresh ids db" and s: "s \<in> set (sessions db)"
    and c: "pending (commands db) (ls_id s) = [c]" and req: "acknowledge_valid request"
    and brev: "ls_browser_revision s \<le> ak_browser_revision request"
  shows "outcome (\<lambda>(v, db'). live_inv now db') (apply_command ids now request w s c x db)"
proof -
  have base: "base_inv now db" using inv by (simp add: live_inv_def)
  note ok = control_okD [OF inv s, unfolded c]
  have cin: "c \<in> set (commands db)" using in_pending [of c "commands db" "ls_id s"] c by simp
  have dig: "digest_pattern (ak_checkpoint_digest request)" and own: "safe_owner (ak_agent_owner_id request)"
    using req by (simp_all add: acknowledge_valid_def)
  let ?infl = "ls_human_influenced s \<or> lc_command_type c = TAKEOVER"
  have "\<not> (\<exists>l \<in> set (current (leases db) (ls_id s)). cl_state l = LEASE_ACTIVE)"
    using control_shape [OF ok] by (cases rule: state_shape_cases) auto
  then have noissued: "issued (action_grants db) (ls_id s) = []"
    using ok by (auto simp: control_ok_def simp flip: ex_in_conv set_empty)
  have notclosed: "ls_state s \<noteq> CLOSED"
    using control_shape [OF ok] by (cases rule: state_shape_cases) auto
  have main: "outcome (\<lambda>(v, db'). live_inv now db')
      (attempt (apply_transition s c st (ak_browser_revision request) ?infl
         (ak_checkpoint_digest request) now db) (\<lambda>((updated, _), db1).
       attempt (grant_control ids now c x owner ttl updated db1) (\<lambda>db2.
       attempt (append_event (ids 1) updated
         (''live_control.'' @ command_text (lc_command_type c) @ ''.applied'') payload now db2) (\<lambda>db3.
       attempt (take_snapshot db3 updated now) (\<lambda>v. Inr (v, db3))))))"
    if tr: "session_transition (ls_state s) st" and cl: "st \<noteq> CLOSED"
      and owner: "case owner of None \<Rightarrow> st = PAUSED
        | Some (ot, oid) \<Rightarrow> safe_owner oid
            \<and> st = (case ot of AGENT \<Rightarrow> AGENT_CONTROLLED | HUMAN \<Rightarrow> HUMAN_CONTROLLED)"
      and infl: "st = HUMAN_CONTROLLED \<longrightarrow> ?infl"
    for st owner ttl payload
  proof -
    have keep: "ls_human_influenced s \<longrightarrow> ?infl" by simp
    let ?s = "applied_session st (ak_browser_revision request) ?infl now s"
    obtain c' db1 where r: "apply_transition s c st (ak_browser_revision request) ?infl
         (ak_checkpoint_digest request) now db = Inr ((?s, c'), db1)"
      and rest: "base_inv now db1" "sessions db1 = put_session ?s (sessions db)" "?s \<in> set (sessions db1)"
        "current (leases db1) = (current (leases db))(ls_id s := [])"
        "pending (commands db1) = (pending (commands db))(ls_id s := [])"
        "action_grants db1 = action_grants db" "events db1 = events db"
        "cl_id ` set (leases db1) = cl_id ` set (leases db)"
        "lease_epochs (leases db1) = lease_epochs (leases db)"
      by (rule apply_transition_ok [OF inv s c tr notclosed cl brev keep dig])
    show ?thesis
      unfolding r attempt.simps prod.case
      by (rule finish_acknowledgement [OF inv fr s noissued owner infl event_types_of_command(1) refl rest])
  qed
  show ?thesis
  proof (cases rule: ack_target_cases [OF command_row_good [OF base cin] control_shape [OF ok], of request])
    case 1
    show ?thesis
      unfolding apply_command_def 1(1) using main [OF 1(3), of None]
      by simp
  next
    case (2 u ttl)
    show ?thesis
      unfolding apply_command_def 2(1)
      using main [OF 2(4), of "Some (HUMAN, human_owner u)"] 2(2) by simp
  next
    case 3
    show ?thesis
      unfolding apply_command_def 3(1)
      using main [OF 3(3), of "Some (AGENT, ak_agent_owner_id request)"] own
      by (cases "ak_agent_owner_id request = w") (simp_all add: live_errors)
  qed
qed

lemma acknowledge_outcome:
  assumes inv: "live_inv now db" and fr: "fresh ids db" and tk: "tickets_ok db"
    and req: "acknowledge_valid request"
  shows "outcome (\<lambda>(v, db'). live_inv now db') (acknowledge ids now a request w db)"
proof -
  have base: "base_inv now db" using inv by (simp add: live_inv_def)
  have "outcome (\<lambda>(v, db'). live_inv now db') (acknowledge_session ids now a request w db s)"
    if s: "s \<in> set (sessions db)" for s
  proof (cases rule: find_command_cases [OF base, where i = "ak_command_id request"])
    case 1
    then show ?thesis by (simp add: acknowledge_session_def live_errors)
  next
    case (2 c)
    show ?thesis
    proof (cases "lc_session c = ls_id s \<and> lc_status c = COMMAND_PENDING
        \<and> ls_browser_revision s \<le> ak_browser_revision request")
      case True
      then have "c \<in> set (pending (commands db) (ls_id s))" using 2(2) by (simp add: in_pending)
      with control_shape [OF control_okD [OF inv s]] have pend: "pending (commands db) (ls_id s) = [c]"
        by (cases rule: state_shape_cases) auto
      have "outcome (\<lambda>(v, db'). live_inv now db')
        (attempt (load_attempt_and_ticket db a) (\<lambda>(attempt_row, _).
           apply_command ids now request w s c attempt_row db))"
        by (intro load_attempt_outcome [OF tk]) (use apply_command_outcome [OF inv fr s pend req] True in simp)
      with 2 True show ?thesis by (simp add: acknowledge_session_def live_errors)
    next
      case False
      obtain v where "take_snapshot db s now = Inr v" by (rule take_snapshot_ok [OF inv s])
      with 2 False inv show ?thesis by (auto simp: acknowledge_session_def live_errors)
    qed
  qed
  then show ?thesis
    unfolding acknowledge_def by (intro require_runtime_session_outcome [OF base])
qed

end
