(* ===== verification/Live_Grants.thy ===== *)
theory Live_Grants
  imports Live_Commands
begin

text \<open>The life of an action grant: issued, consumed once, completed with its receipt.\<close>

subsection \<open>Issue\<close>

lemma issue_new_grant_outcome:
  assumes inv: "live_inv now db" and fr: "fresh ids db" and s: "s \<in> set (sessions db)"
    and req: "grant_request_valid request"
    and lease: "get_current_lease db (ls_id s) = Inr (Some l)"
    and auth: "require_grant_authority s (Some l) request w now = Inr l"
    and new: "get_action_grant_by_action db (unit_attempt_id (ls_scope s)) (gr_action_id request) = Inr None"
  shows "outcome (\<lambda>(g, db'). live_inv now db') (issue_new_grant ids now request s l db)"
proof -
  have base: "base_inv now db" using inv by (simp add: live_inv_def)
  note cur = agent_controlled_current [OF inv s lease]
  note ok = control_okD [OF inv s, unfolded cur(1)]
  have auths: "cl_state l = LEASE_ACTIVE" "now < cl_expires_at l"
    "gr_control_epoch request = ls_control_epoch s" "gr_fencing_token request = ls_fencing_token s"
    using auth by (auto simp: live_errors split: if_splits)
  let ?e = "min (now + seconds (gr_requested_ttl_sec request)) (cl_expires_at l)"
  let ?g = "\<lparr>ag_id = ids 0, ag_scope = ls_scope s, ag_session = ls_id s,
           ag_control_lease_id = cl_id l, ag_action_id = gr_action_id request,
           ag_proposal_digest = gr_proposal_digest request,
           ag_browser_session_id = ls_browser_session_id s,
           ag_page_id = gr_page_id request, ag_page_revision = gr_page_revision request,
           ag_control_epoch = gr_control_epoch request,
           ag_fencing_token = gr_fencing_token request, ag_owner_type = cl_owner_type l,
           ag_owner_id = cl_owner_id l, ag_allowed_adapter = gr_allowed_adapter request,
           ag_expires_at = ?e, ag_policy_digest = gr_policy_digest request,
           ag_state = GRANT_ISSUED, ag_created_at = now, ag_consumed_at = None,
           ag_completed_at = None, ag_revoked_at = None, ag_receipt_id = None,
           ag_execution_status = None, ag_resulting_page_revision = None\<rparr>"
  have ttl: "0 < gr_requested_ttl_sec request"
    using req by (simp add: grant_request_valid_def ttl_within_def)
  then have later: "now < ?e" using auths by simp
  have good: "grant_good now ?g"
    using req later auths session_row_good [OF base s] lease_row_good [OF base cur(2)]
    by (simp add: grant_good_def grant_valid_def grant_check_def grant_lifecycle_def receipt_absent_def
        grant_request_valid_def session_good_def session_valid_def lease_good_def lease_valid_def)
  obtain G where G: "create_action_grant ?g db = Inr (Some ?g, db\<lparr>action_grants := G\<rparr>)"
      "base_inv now (db\<lparr>action_grants := G\<rparr>)"
      "issued G = (issued (action_grants db))(ls_id s := issued (action_grants db) (ls_id s) @ [?g])"
    by (rule create_action_grant_ok [OF base s good, of l])
      (use cur auths fresh_ids(4) [OF fr, of 0] new in simp_all)
  have "controlled (db\<lparr>action_grants := G\<rparr>)"
  proof (rule controlled_step [OF inv s refl])
    show "sessions (db\<lparr>action_grants := G\<rparr>) = put_session s (sessions db)"
      using put_session_same [OF base s] by simp
    show "current (leases (db\<lparr>action_grants := G\<rparr>)) = (current (leases db))(ls_id s := [l])"
      "pending (commands (db\<lparr>action_grants := G\<rparr>))
        = (pending (commands db))(ls_id s := pending (commands db) (ls_id s))"
      using cur(1) by (simp_all add: fun_upd_idem)
    show "issued (action_grants (db\<lparr>action_grants := G\<rparr>))
        = (issued (action_grants db))(ls_id s := issued (action_grants db) (ls_id s) @ [?g])"
      by (simp add: G(3))
    show "control_ok s [l] (pending (commands db) (ls_id s)) (issued (action_grants db) (ls_id s) @ [?g])"
      using ok auths by (simp add: control_ok_def ball_Un)
  qed
  with G(2) have inv1: "live_inv now (db\<lparr>action_grants := G\<rparr>)" by (simp add: live_inv_def)
  have s1: "s \<in> set (sessions (db\<lparr>action_grants := G\<rparr>))"
    and id1: "ids 1 \<notin> le_id ` set (events (db\<lparr>action_grants := G\<rparr>))"
    using s fresh_ids(5) [OF fr, of 1] by simp_all
  obtain ev where ev: "append_event (ids 1) s ''live_action.grant_issued''
            [(''grantId'', JString (uuid_text (ag_id ?g))),
             (''actionId'', JString (uuid_text (ag_action_id ?g))),
             (''ownerType'', JString (controller_text (ag_owner_type ?g))),
             (''pageRevision'', JInt (ag_page_revision ?g))] now (db\<lparr>action_grants := G\<rparr>)
        = Inr (db\<lparr>action_grants := G, events := events (db\<lparr>action_grants := G\<rparr>) @ [ev]\<rparr>)"
      "live_inv now (db\<lparr>action_grants := G, events := events (db\<lparr>action_grants := G\<rparr>) @ [ev]\<rparr>)"
    using append_event_live [OF inv1 s1 event_types(3) id1] by blast
  have valid: "grant_valid ?g" using good unfolding grant_good_def by blast
  show ?thesis
    unfolding issue_new_grant_def Let_def
    using valid G(1) ev by (simp add: live_errors)
qed

lemma require_grant_authority_cases:
  obtains c n where "require_grant_authority s lease request w now = Inl (app_failure c n)"
  | l where "lease = Some l" and "require_grant_authority s lease request w now = Inr l"
proof (cases lease)
  case None
  then show thesis by (intro that(1)) (simp add: live_errors)
next
  case (Some l)
  show thesis
  proof (cases "require_grant_authority s lease request w now")
    case (Inl f)
    with Some have "f = live_fenced \<or> f = live_conflict" by (auto split: if_splits)
    with Inl show thesis using that(1) by (auto simp: live_errors)
  next
    case (Inr m)
    with Some have "m = l" by (auto split: if_splits)
    with Some Inr show thesis by (intro that(2)) auto
  qed
qed

lemma issue_action_grant_outcome:
  assumes inv: "live_inv now db" and fr: "fresh ids db" and req: "grant_request_valid request"
  shows "outcome (\<lambda>(g, db'). live_inv now db') (issue_action_grant ids now a request w db)"
  unfolding issue_action_grant_def
proof (rule require_runtime_session_outcome [where now = now], goal_cases)
  case 1
  then show ?case using inv by (simp add: live_inv_def)
next
  case (2 s)
  have base: "base_inv now db" using inv by (simp add: live_inv_def)
  show ?case
  proof (cases rule: find_grant_by_action_cases [OF base, where a = a and i = "gr_action_id request"])
    case none: 1
    note lease = current_lease_read [OF inv 2(1)]
    show ?thesis
    proof (cases rule: require_grant_authority_cases
        [of s "head_option (current (leases db) (ls_id s))" request w now])
      case 1
      then show ?thesis by (simp add: none lease)
    next
      case (2 l)
      then have "outcome (\<lambda>(g, db'). live_inv now db') (issue_new_grant ids now request s l db)"
        using lease none \<open>unit_attempt_id (ls_scope s) = a\<close>
        by (intro issue_new_grant_outcome [OF inv fr \<open>s \<in> set (sessions db)\<close> req]) auto
      with 2 show ?thesis by (simp add: none lease)
    qed
  next
    case (2 g)
    then show ?thesis by (simp add: live_errors inv)
  qed
qed

subsection \<open>Consumption and completion\<close>

lemma controlled_grants:
  assumes "live_inv t db"
    and "\<And>x. x \<in> set G \<Longrightarrow> ag_state x = GRANT_ISSUED \<Longrightarrow> x \<in> set (action_grants db)"
  shows "controlled (db\<lparr>action_grants := G\<rparr>)"
proof -
  have "set (issued G i) \<subseteq> set (issued (action_grants db) i)" for i
    using assms(2) by (auto simp: in_issued)
  with control_okD [OF assms(1)] show ?thesis
    by (fastforce simp: controlled_def control_ok_def)
qed

lemma consume_grant_row_ok:
  assumes inv: "live_inv now db" and g: "g \<in> set (action_grants db)" and st: "ag_state g = GRANT_ISSUED"
  obtains (consumed) G where "now < ag_expires_at g" and "grant_backed db now g"
      and "consume_grant_row g now db
        = Inr (Some (g\<lparr>ag_state := GRANT_CONSUMED, ag_consumed_at := Some now\<rparr>), db\<lparr>action_grants := G\<rparr>)"
      and "live_inv now (db\<lparr>action_grants := G\<rparr>)"
  | (refused) "consume_grant_row g now db = Inr (None, db)"
      and "\<not> (now < ag_expires_at g \<and> grant_backed db now g)"
proof -
  have base: "base_inv now db" using inv by (simp add: live_inv_def)
  let ?f = "\<lambda>g. g\<lparr>ag_state := GRANT_CONSUMED, ag_consumed_at := Some now\<rparr>"
  note good = grant_consume_good [OF grant_row_good [OF base g] st]
  obtain G where G: "\<And>p. update_grants (\<lambda>x. ag_id x = ag_id g \<and> p x) ?f db
      = (if p g then Inr ([?f g], db\<lparr>action_grants := G\<rparr>) else Inr ([], db))"
    and b: "base_inv now (db\<lparr>action_grants := G\<rparr>)"
    and mem: "\<And>x. x \<in> set G \<longleftrightarrow> x = ?f g \<or> (x \<in> set (action_grants db) \<and> ag_id x \<noteq> ag_id g)"
    by (rule update_grant_ok [where f = ?f, OF base g good(2,1)]) (rule that)
  show thesis
  proof (cases "now < ag_expires_at g \<and> grant_backed db now g")
    case True
    have "grant_valid (?f g)" using good(1) by (simp add: grant_good_def)
    then have "consume_grant_row g now db = Inr (Some (?f g), db\<lparr>action_grants := G\<rparr>)"
      using True st by (simp add: consume_grant_row_def G)
    moreover have "controlled (db\<lparr>action_grants := G\<rparr>)"
      by (rule controlled_grants [OF inv]) (auto simp: mem)
    ultimately show thesis using True b by (intro consumed) (auto simp: live_inv_def)
  next
    case False
    then have "consume_grant_row g now db = Inr (None, db)"
      by (auto simp: consume_grant_row_def G)
    then show thesis using False by (rule refused)
  qed
qed

lemma consume_action_grant_outcome:
  assumes inv: "live_inv now db" and fr: "fresh ids db"
  shows "outcome (\<lambda>(g, db'). live_inv now db') (consume_action_grant ids now a i request db)"
  unfolding consume_action_grant_def
proof (rule require_runtime_session_outcome [where now = now], goal_cases)
  case 1
  then show ?case using inv by (simp add: live_inv_def)
next
  case (2 s)
  have base: "base_inv now db" using inv by (simp add: live_inv_def)
  show ?case
  proof (cases rule: find_grant_cases [OF base, where i = i])
    case 1
    then show ?thesis by (simp add: live_errors)
  next
    case found: (2 g)
    show ?thesis
    proof (cases "ag_state g = GRANT_ISSUED")
      case False
      with found show ?thesis by (simp add: live_errors)
    next
      case st: True
      show ?thesis
      proof (cases rule: consume_grant_row_ok [OF inv found(2) st])
        case (1 G)
        let ?g = "g\<lparr>ag_state := GRANT_CONSUMED, ag_consumed_at := Some now\<rparr>"
        have s1: "s \<in> set (sessions (db\<lparr>action_grants := G\<rparr>))"
          and id1: "ids 0 \<notin> le_id ` set (events (db\<lparr>action_grants := G\<rparr>))"
          using 2(1) fresh_ids(5) [OF fr, of 0] by simp_all
        obtain ev where ev: "append_event (ids 0) s ''live_action.grant_consumed''
             [(''grantId'', JString (uuid_text (ag_id ?g))),
              (''actionId'', JString (uuid_text (ag_action_id ?g)))] now (db\<lparr>action_grants := G\<rparr>)
            = Inr (db\<lparr>action_grants := G, events := events (db\<lparr>action_grants := G\<rparr>) @ [ev]\<rparr>)"
          "live_inv now (db\<lparr>action_grants := G, events := events (db\<lparr>action_grants := G\<rparr>) @ [ev]\<rparr>)"
          using append_event_live [OF 1(4) s1 event_types(4) id1] by blast
        with found 1 st show ?thesis by (simp add: live_errors)
      next
        case 2
        with found st show ?thesis by (simp add: live_errors)
      qed
    qed
  qed
qed

definition revised_session :: "int \<Rightarrow> instant \<Rightarrow> live_session \<Rightarrow> live_session" where
  "revised_session r now s = s\<lparr>ls_browser_revision := r, ls_revision := ls_revision s + 1,
     ls_updated_at := now\<rparr>"

lemma advance_browser_revision_ok:
  assumes inv: "live_inv now db" and s: "s \<in> set (sessions db)" and r: "ls_browser_revision s \<le> r"
  obtains db' where "advance_browser_revision s r now db = Inr (revised_session r now s, db')"
    and "live_inv now db'" and "revised_session r now s \<in> set (sessions db')"
    and "events db' = events db"
proof -
  have base: "base_inv now db" using inv by (simp add: live_inv_def)
  note ok = control_okD [OF inv s]
  have opened: "ls_state s \<noteq> CLOSED" using control_shape [OF ok] by (cases rule: state_shape_cases) auto
  let ?s = "revised_session r now s"
  have good: "guard_session now s ?s" "session_good now ?s"
    using session_row_good [OF base s] opened r
    by (auto simp: revised_session_def guard_session_def session_transition_def session_good_def
        session_valid_def session_check_def)
  note upd = update_session_ok [OF base s, where
      p = "\<lambda>x. ls_revision x = ls_revision s \<and> ls_control_epoch x = ls_control_epoch s
            \<and> ls_fencing_token x = ls_fencing_token s" and f = "revised_session r now",
      OF _ good, simplified]
  let ?db = "db\<lparr>sessions := put_session ?s (sessions db)\<rparr>"
  have res: "advance_browser_revision s r now db = Inr (?s, ?db)"
    using upd(1) good(2)
    by (simp add: advance_browser_revision_def revised_session_def [abs_def] session_good_def)
  have "controlled ?db"
    by (rule controlled_step [OF inv s, where s' = ?s and cur = "current (leases db) (ls_id s)"
          and pend = "pending (commands db) (ls_id s)" and iss = "issued (action_grants db) (ls_id s)"])
      (use ok in \<open>auto simp: revised_session_def control_ok_def\<close>)
  with upd(2,3) show thesis by (intro that [OF res]) (simp_all add: live_inv_def)
qed

lemma complete_grant_row_ok:
  assumes inv: "live_inv now db" and g: "g \<in> set (action_grants db)" and st: "ag_state g = GRANT_CONSUMED"
    and r: "1 \<le> r"
  obtains G g' where "complete_grant_row g i e r now db = Inr (Some g', db\<lparr>action_grants := G\<rparr>)"
    and "live_inv now (db\<lparr>action_grants := G\<rparr>)"
proof -
  have base: "base_inv now db" using inv by (simp add: live_inv_def)
  let ?f = "\<lambda>g. g\<lparr>ag_state := GRANT_COMPLETED, ag_completed_at := Some now,
            ag_receipt_id := Some i, ag_execution_status := Some e,
            ag_resulting_page_revision := Some r\<rparr>"
  note good = grant_complete_good [OF grant_row_good [OF base g] st r, where i = i and e = e]
  obtain G where G: "\<And>p. update_grants (\<lambda>x. ag_id x = ag_id g \<and> p x) ?f db
      = (if p g then Inr ([?f g], db\<lparr>action_grants := G\<rparr>) else Inr ([], db))"
    and b: "base_inv now (db\<lparr>action_grants := G\<rparr>)"
    and mem: "\<And>x. x \<in> set G \<longleftrightarrow> x = ?f g \<or> (x \<in> set (action_grants db) \<and> ag_id x \<noteq> ag_id g)"
    by (rule update_grant_ok [where f = ?f, OF base g good(2,1)]) (rule that)
  have "grant_valid (?f g)" using good(1) by (simp add: grant_good_def)
  then have "complete_grant_row g i e r now db = Inr (Some (?f g), db\<lparr>action_grants := G\<rparr>)"
    using st by (simp add: complete_grant_row_def G)
  moreover have "controlled (db\<lparr>action_grants := G\<rparr>)"
    by (rule controlled_grants [OF inv]) (auto simp: mem)
  ultimately show thesis using b by (intro that) (auto simp: live_inv_def)
qed

lemma complete_action_grant_outcome:
  assumes inv: "live_inv now db" and fr: "fresh ids db" and req: "complete_valid request"
  shows "outcome (\<lambda>(g, db'). live_inv now db') (complete_action_grant ids now a i request db)"
  unfolding complete_action_grant_def
proof (rule require_runtime_session_outcome [where now = now], goal_cases)
  case 1
  then show ?case using inv by (simp add: live_inv_def)
next
  case (2 s)
  have base: "base_inv now db" using inv by (simp add: live_inv_def)
  let ?r = "co_resulting_page_revision request"
  have r: "1 \<le> ?r" using req by (simp add: complete_valid_def)
  show ?case
  proof (cases rule: find_grant_cases [OF base, where i = i])
    case 1
    then show ?thesis by (simp add: live_errors)
  next
    case found: (2 g)
    show ?thesis
    proof (cases "ag_state g = GRANT_CONSUMED \<and> ls_browser_revision s \<le> ?r")
      case False
      with found inv show ?thesis by (auto simp: live_errors not_le)
    next
      case True
      then have st: "ag_state g = GRANT_CONSUMED" and le: "ls_browser_revision s \<le> ?r" by auto
      obtain G g' where G: "complete_grant_row g (co_receipt_id request) (co_execution_status request) ?r now db
          = Inr (Some g', db\<lparr>action_grants := G\<rparr>)" "live_inv now (db\<lparr>action_grants := G\<rparr>)"
        by (rule complete_grant_row_ok [OF inv found(2) st r])
      have s1: "s \<in> set (sessions (db\<lparr>action_grants := G\<rparr>))" using 2(1) by simp
      let ?s = "revised_session ?r now s"
      obtain db2 where db2: "advance_browser_revision s ?r now (db\<lparr>action_grants := G\<rparr>) = Inr (?s, db2)"
          "live_inv now db2" "?s \<in> set (sessions db2)" "events db2 = events (db\<lparr>action_grants := G\<rparr>)"
        by (rule advance_browser_revision_ok [OF G(2) s1 le])
      have id1: "ids 0 \<notin> le_id ` set (events db2)" using db2(4) fresh_ids(5) [OF fr, of 0] by simp
      obtain ev where "append_event (ids 0) ?s ''live_action.execution_completed''
             [(''grantId'', JString (uuid_text (ag_id g'))),
              (''actionId'', JString (uuid_text (ag_action_id g'))),
              (''receiptId'', JString (uuid_text (co_receipt_id request))),
              (''status'', JString (execution_text (co_execution_status request))),
              (''resultingPageRevision'', JInt ?r)] now db2
            = Inr (db2\<lparr>events := events db2 @ [ev]\<rparr>)"
          "live_inv now (db2\<lparr>events := events db2 @ [ev]\<rparr>)"
        using append_event_live [OF db2(2,3) event_types(5) id1] by blast
      with found st le G(1) db2(1) show ?thesis by (simp add: live_errors not_le)
    qed
  qed
qed

end
