(* ===== verification/Live_History.thy ===== *)
theory Live_History
  imports Live_Grants
begin

text \<open>
  What a transaction may do to the tables, whatever they hold: rows are never deleted, events are
  only appended, and a row only moves forward in the order of its table.  Nothing here needs the
  invariant; the update triggers of the tables are what makes it hold.
\<close>

subsection \<open>Append-only tables\<close>

definition extends :: "('r \<Rightarrow> 'r \<Rightarrow> bool) \<Rightarrow> 'r list \<Rightarrow> 'r list \<Rightarrow> bool" where
  "extends le R R' \<longleftrightarrow> (\<exists>R1 new. R' = R1 @ new \<and> list_all2 le R R1)"

lemma extends_refl: "(\<And>r. le r r) \<Longrightarrow> extends le R R"
  unfolding extends_def by (metis append_Nil2 list_all2_refl)

lemma extends_append: "(\<And>r. le r r) \<Longrightarrow> extends le R (R @ xs)"
  unfolding extends_def by (metis list_all2_refl)

lemma extends_trans:
  assumes "extends le R R'" and "extends le R' R''" and trans: "\<And>x y z. le x y \<Longrightarrow> le y z \<Longrightarrow> le x z"
  shows "extends le R R''"
proof -
  obtain R1 n1 where 1: "R' = R1 @ n1" "list_all2 le R R1" using assms(1) unfolding extends_def by blast
  obtain R2 n2 where 2: "R'' = R2 @ n2" "list_all2 le R' R2" using assms(2) unfolding extends_def by blast
  obtain R3 R4 where 3: "R2 = R3 @ R4" "list_all2 le R1 R3"
    using 2(2) unfolding 1(1) list_all2_append1 by blast
  have "list_all2 le R R3" using list_all2_trans [OF trans 1(2) 3(2)] .
  with 2(1) 3(1) show ?thesis unfolding extends_def by auto
qed

lemma extends_put_where:
  assumes "\<And>r. le r r" and "\<And>r. r \<in> set R \<Longrightarrow> p r \<Longrightarrow> le r (f r)"
  shows "extends le R (put_where p f R)"
proof -
  have "list_all2 le R (put_where p f R)"
    using assms(2) by (induction R) (simp_all add: assms(1))
  then show ?thesis unfolding extends_def by (metis append_Nil2)
qed

lemma extends_row: "extends le R R' \<Longrightarrow> r \<in> set R \<Longrightarrow> \<exists>r' \<in> set R'. le r r'"
  unfolding extends_def list_all2_conv_all_nth by (metis Un_iff in_set_conv_nth set_append)

subsection \<open>The orders\<close>

definition session_identity where
  "session_identity s = (ls_id s, ls_scope s, ls_execution_ticket_id s, ls_execution_ticket_digest s,
     ls_browser_session_id s, ls_created_at s)"

definition session_le :: "live_session \<Rightarrow> live_session \<Rightarrow> bool" where
  "session_le s s' \<longleftrightarrow> session_identity s' = session_identity s
     \<and> ls_control_epoch s \<le> ls_control_epoch s'
     \<and> ls_control_epoch s' - ls_control_epoch s = ls_fencing_token s' - ls_fencing_token s
     \<and> ls_browser_revision s \<le> ls_browser_revision s' \<and> ls_revision s \<le> ls_revision s'
     \<and> (ls_human_influenced s \<longrightarrow> ls_human_influenced s') \<and> (ls_state s = CLOSED \<longrightarrow> s' = s)"

definition lease_identity where
  "lease_identity l = (cl_id l, cl_scope l, cl_session l, cl_owner_type l, cl_owner_id l,
     cl_control_epoch l, cl_fencing_token l, cl_reason l, cl_created_by l, cl_created_at l)"

definition lease_le :: "control_lease \<Rightarrow> control_lease \<Rightarrow> bool" where
  "lease_le l l' \<longleftrightarrow> lease_identity l' = lease_identity l \<and> cl_expires_at l \<le> cl_expires_at l'
     \<and> (cl_state l' = LEASE_ACTIVE \<longrightarrow> cl_state l = LEASE_ACTIVE)
     \<and> (cl_state l = LEASE_EXPIRED \<or> cl_state l = LEASE_RELEASED \<longrightarrow> l' = l)"

definition command_identity where
  "command_identity c = (lc_id c, lc_scope c, lc_session c, lc_command_type c, lc_client_mutation_id c,
     lc_reason c, lc_requested_ttl_sec c, lc_expected_control_epoch c, lc_requested_by c)"

definition command_le :: "live_command \<Rightarrow> live_command \<Rightarrow> bool" where
  "command_le c c' \<longleftrightarrow> command_identity c' = command_identity c
     \<and> (lc_status c \<noteq> COMMAND_PENDING \<longrightarrow> c' = c)"

definition grant_identity where
  "grant_identity g = (ag_id g, ag_scope g, ag_session g, ag_control_lease_id g, ag_action_id g,
     ag_proposal_digest g, ag_page_id g, ag_page_revision g, ag_control_epoch g, ag_fencing_token g,
     ag_allowed_adapter g, ag_policy_digest g, ag_expires_at g)"

definition grant_le :: "action_grant \<Rightarrow> action_grant \<Rightarrow> bool" where
  "grant_le g g' \<longleftrightarrow> grant_identity g' = grant_identity g
     \<and> (ag_state g' = GRANT_ISSUED \<longrightarrow> ag_state g = GRANT_ISSUED)
     \<and> (ag_state g = GRANT_CONSUMED \<longrightarrow> ag_state g' = GRANT_CONSUMED \<or> ag_state g' = GRANT_COMPLETED)
     \<and> (ag_state g = GRANT_COMPLETED \<or> ag_state g = GRANT_REVOKED \<longrightarrow> g' = g)"

lemmas row_orders = session_le_def lease_le_def command_le_def grant_le_def

lemma row_orders_refl: "session_le s s" "lease_le l l" "command_le c c" "grant_le g g"
  by (simp_all add: row_orders)

lemma session_le_trans: "session_le x y \<Longrightarrow> session_le y z \<Longrightarrow> session_le x z"
  unfolding session_le_def by simp

lemma lease_le_trans: "lease_le x y \<Longrightarrow> lease_le y z \<Longrightarrow> lease_le x z"
  unfolding lease_le_def by (metis order_trans)

lemma command_le_trans: "command_le x y \<Longrightarrow> command_le y z \<Longrightarrow> command_le x z"
  unfolding command_le_def by (elim conjE, intro conjI) simp_all

lemma grant_le_trans: "grant_le x y \<Longrightarrow> grant_le y z \<Longrightarrow> grant_le x z"
  unfolding grant_le_def by metis

lemma guard_session_ordered: "guard_session now s s' \<Longrightarrow> session_le s s'"
  unfolding guard_session_def session_le_def session_identity_def
  by (elim conjE disjE, intro conjI) simp_all

lemma guard_lease_ordered: "guard_lease now l l' \<Longrightarrow> lease_le l l'"
  unfolding guard_lease_def lease_le_def lease_identity_def by (auto split: if_splits)

lemma guard_command_ordered: "guard_command now c c' \<Longrightarrow> command_le c c'"
  unfolding guard_command_def command_le_def command_identity_def by simp

lemma guard_grant_ordered: "guard_grant g g' \<Longrightarrow> grant_le g g'"
  unfolding guard_grant_def grant_le_def grant_identity_def by auto

lemmas guards_ordered = guard_session_ordered guard_lease_ordered guard_command_ordered guard_grant_ordered

text \<open>
  \<open>forward\<close> is the order of the live control's own tables; \<open>evolve\<close> is what one of its
  transactions does, which leaves the tables of the task components alone.
\<close>

definition forward :: "live_db \<Rightarrow> live_db \<Rightarrow> bool" where
  "forward db db' \<longleftrightarrow> extends session_le (sessions db) (sessions db')
     \<and> extends lease_le (leases db) (leases db') \<and> extends command_le (commands db) (commands db')
     \<and> extends grant_le (action_grants db) (action_grants db')
     \<and> (\<exists>new. events db' = events db @ new)"

definition evolve :: "live_db \<Rightarrow> live_db \<Rightarrow> bool" where
  "evolve db db' \<longleftrightarrow> forward db db' \<and> attempts db' = attempts db \<and> tickets db' = tickets db
     \<and> environments db' = environments db"

lemma forward_refl: "forward db db"
  by (simp add: forward_def extends_refl row_orders_refl)

lemma evolve_refl [simp]: "evolve db db"
  by (simp add: evolve_def forward_refl)

lemma forward_trans:
  assumes "forward a b" and "forward b c"
  shows "forward a c"
proof -
  have "\<exists>new. events c = events a @ new"
    using assms by (auto simp: forward_def)
  moreover have "extends session_le (sessions a) (sessions c)" "extends lease_le (leases a) (leases c)"
    "extends command_le (commands a) (commands c)" "extends grant_le (action_grants a) (action_grants c)"
    using assms unfolding forward_def
    by (blast intro: extends_trans session_le_trans lease_le_trans command_le_trans grant_le_trans)+
  ultimately show ?thesis by (simp add: forward_def)
qed

lemma evolve_trans: "evolve a b \<Longrightarrow> evolve b c \<Longrightarrow> evolve a c"
  unfolding evolve_def using forward_trans by auto

subsection \<open>Transactions that evolve the tables\<close>

named_theorems evolve_dests "what a statement that returned did to the tables"

lemma update_sessions_evolve [evolve_dests]:
  "update_sessions now p f db = Inr (rows, db') \<Longrightarrow> evolve db db'"
  by (auto simp: update_sessions_def result_simps table_simps evolve_def forward_def
      intro!: extends_put_where extends_refl row_orders_refl guards_ordered)

lemma update_leases_evolve [evolve_dests]:
  "update_leases now p f db = Inr (rows, db') \<Longrightarrow> evolve db db'"
  by (auto simp: update_leases_def result_simps table_simps evolve_def forward_def
      intro!: extends_put_where extends_refl row_orders_refl guards_ordered)

lemma update_commands_evolve [evolve_dests]:
  "update_commands now p f db = Inr (rows, db') \<Longrightarrow> evolve db db'"
  by (auto simp: update_commands_def result_simps table_simps evolve_def forward_def
      intro!: extends_put_where extends_refl row_orders_refl guards_ordered)

lemma update_grants_evolve [evolve_dests]:
  "update_grants p f db = Inr (rows, db') \<Longrightarrow> evolve db db'"
  by (auto simp: update_grants_def result_simps table_simps evolve_def forward_def
      intro!: extends_put_where extends_refl row_orders_refl guards_ordered)

lemma create_session_evolve [evolve_dests]:
  "create_session s db = Inr (r, db') \<Longrightarrow> evolve db db'"
  by (auto simp: create_session_def sql_insert_or_skip_def result_simps evolve_def forward_def
      intro!: extends_append extends_refl row_orders_refl split: if_split_asm option.split_asm)

lemma create_lease_evolve [evolve_dests]: "create_lease l db = Inr (r, db') \<Longrightarrow> evolve db db'"
  by (auto simp: create_lease_def result_simps table_simps evolve_def forward_def
      intro!: extends_append extends_refl row_orders_refl)

lemma create_command_evolve [evolve_dests]: "create_command c db = Inr (r, db') \<Longrightarrow> evolve db db'"
  by (auto simp: create_command_def result_simps table_simps evolve_def forward_def
      intro!: extends_append extends_refl row_orders_refl)

lemma create_action_grant_evolve [evolve_dests]:
  "create_action_grant g db = Inr (r, db') \<Longrightarrow> evolve db db'"
  by (auto simp: create_action_grant_def sql_insert_or_skip_def result_simps evolve_def forward_def
      intro!: extends_append extends_refl row_orders_refl split: if_split_asm option.split_asm)

lemma append_event_evolve [evolve_dests]:
  "append_event i s ty payload at db = Inr db' \<Longrightarrow> evolve db db'"
  by (auto simp: append_event_def insert_event_def result_simps table_simps evolve_def forward_def
      intro!: extends_refl row_orders_refl)

lemma revoke_issued_grants_evolve [evolve_dests]:
  "revoke_issued_grants now i db = Inr db' \<Longrightarrow> evolve db db'"
  by (auto simp: revoke_issued_grants_def result_simps dest!: evolve_dests)

lemma reject_pending_commands_evolve [evolve_dests]:
  "reject_pending_commands now i db = Inr db' \<Longrightarrow> evolve db db'"
  by (auto simp: reject_pending_commands_def result_simps dest!: evolve_dests)

lemma heartbeat_lease_evolve [evolve_dests]:
  "heartbeat_lease s l e now db = Inr (r, db') \<Longrightarrow> evolve db db'"
  by (auto simp: heartbeat_lease_def result_simps dest!: evolve_dests)

lemma expire_current_control_evolve [evolve_dests]:
  "expire_current_control s l now db = Inr (r, db') \<Longrightarrow> evolve db db'"
  unfolding expire_current_control_def
  by (elim result_elims; auto dest!: evolve_dests)
    (meson evolve_trans)+

lemma request_transition_evolve [evolve_dests]:
  "request_transition s st now b db = Inr (r, db') \<Longrightarrow> evolve db db'"
  unfolding request_transition_def
  by (elim result_elims; auto dest!: evolve_dests)
    (meson evolve_trans)+

lemma apply_transition_evolve [evolve_dests]:
  "apply_transition s c st r h d now db = Inr (x, db') \<Longrightarrow> evolve db db'"
  unfolding apply_transition_def
  by (elim result_elims; auto dest!: evolve_dests)
    (meson evolve_trans)+

lemma consume_grant_row_evolve [evolve_dests]:
  "consume_grant_row g now db = Inr (r, db') \<Longrightarrow> evolve db db'"
  unfolding consume_grant_row_def by (elim result_elims; auto dest!: evolve_dests)

lemma complete_grant_row_evolve [evolve_dests]:
  "complete_grant_row g i e r now db = Inr (x, db') \<Longrightarrow> evolve db db'"
  unfolding complete_grant_row_def by (elim result_elims; auto dest!: evolve_dests)

lemma advance_browser_revision_evolve [evolve_dests]:
  "advance_browser_revision s r now db = Inr (x, db') \<Longrightarrow> evolve db db'"
  unfolding advance_browser_revision_def by (elim result_elims; auto dest!: evolve_dests)

lemma expire_control_evolve [evolve_dests]:
  "expire_control i s l now db = Inr (r, db') \<Longrightarrow> evolve db db'"
  unfolding expire_control_def
  by (elim result_elims; auto dest!: evolve_dests) (meson evolve_trans)+

subsection \<open>Handlers\<close>

lemma establish_session_evolve [evolve_dests]:
  "establish_session ids now r w x t db = Inr (v, db') \<Longrightarrow> evolve db db'"
  unfolding establish_session_def
  by (elim result_elims; auto dest!: evolve_dests) (meson evolve_trans)+

lemma initialize_evolve:
  "initialize ids now a r w db = Inr (v, db') \<Longrightarrow> evolve db db'"
  unfolding initialize_def
  by (elim result_elims; auto dest!: evolve_dests)

lemma renew_lease_evolve [evolve_dests]:
  "renew_lease now r s l x db = Inr (v, db') \<Longrightarrow> evolve db db'"
  unfolding renew_lease_def
  by (elim result_elims; auto dest!: evolve_dests)

lemma heartbeat_evolve: "heartbeat ids now a r w db = Inr (v, db') \<Longrightarrow> evolve db db'"
  unfolding heartbeat_def heartbeat_session_def
  by (elim result_elims; auto dest!: evolve_dests)

lemma reap_loop_evolve [evolve_dests]: "reap_loop ids now k is db = Inr (n, db') \<Longrightarrow> evolve db db'"
proof (induction "is" arbitrary: k db)
  case Nil
  then show ?case by simp
next
  case (Cons i "is")
  then show ?case
    unfolding reap_loop.simps by (elim result_elims; auto dest!: evolve_dests) (meson evolve_trans)+
qed

lemma reap_expired_evolve: "reap_expired ids now actor n db = Inr (v, db') \<Longrightarrow> evolve db db'"
  unfolding reap_expired_def
  by (elim result_elims; auto dest!: evolve_dests)

lemma grant_control_evolve [evolve_dests]:
  "grant_control ids now c x owner ttl s db = Inr db' \<Longrightarrow> evolve db db'"
  unfolding grant_control_def
  by (elim result_elims; auto dest!: evolve_dests)

lemma apply_command_evolve [evolve_dests]:
  "apply_command ids now r w s c x db = Inr (v, db') \<Longrightarrow> evolve db db'"
  unfolding apply_command_def
  by (elim result_elims; auto dest!: evolve_dests) (meson evolve_trans)+

lemma acknowledge_evolve: "acknowledge ids now a r w db = Inr (v, db') \<Longrightarrow> evolve db db'"
  unfolding acknowledge_def acknowledge_session_def
  by (elim result_elims; auto dest!: evolve_dests)

lemma issue_new_grant_evolve [evolve_dests]:
  "issue_new_grant ids now r s l db = Inr (v, db') \<Longrightarrow> evolve db db'"
  unfolding issue_new_grant_def
  by (elim result_elims; auto dest!: evolve_dests)
    (meson evolve_trans)+

lemma issue_action_grant_evolve: "issue_action_grant ids now a r w db = Inr (v, db') \<Longrightarrow> evolve db db'"
  unfolding issue_action_grant_def
  by (elim result_elims; auto dest!: evolve_dests)

lemma consume_action_grant_evolve:
  "consume_action_grant ids now a i r db = Inr (v, db') \<Longrightarrow> evolve db db'"
  unfolding consume_action_grant_def
  by (elim result_elims; auto dest!: evolve_dests) (meson evolve_trans)+

lemma complete_action_grant_evolve:
  "complete_action_grant ids now a i r db = Inr (v, db') \<Longrightarrow> evolve db db'"
  unfolding complete_action_grant_def
  by (elim result_elims; auto dest!: evolve_dests) (meson evolve_trans)+

lemma accept_request_evolve [evolve_dests]:
  "accept_request ids now ct actor r e k db s = Inr (v, db') \<Longrightarrow> evolve db db'"
  unfolding accept_request_def
  by (elim result_elims; auto dest!: evolve_dests) (meson evolve_trans)+

lemma request_live_transition_evolve:
  "request_live_transition ids now ct actor a r e k db = Inr (v, db') \<Longrightarrow> evolve db db'"
  unfolding request_live_transition_def
  by (elim result_elims; auto dest!: evolve_dests)

end
