(* ===== verification/Protocol.thy ===== *)
theory Protocol
  imports Core
begin

text \<open>
  Services that run one transaction per request against shared tables.  \<open>reaches\<close> is the states
  a service gets to from a state, request after request, the clock never going back; a failed
  request changes nothing (\<open>commit\<close>).  The interface \<open>transactional_service\<close> states what a
  service promises of one request: the invariant is kept, a failure is one meant for the caller,
  and the tables only move forward.  What follows for whole executions is proved once.
\<close>

inductive reaches ::
    "('env \<Rightarrow> instant \<Rightarrow> 'op \<Rightarrow> 's \<Rightarrow> failure + ('r \<times> 's)) \<Rightarrow> ('env \<Rightarrow> 'op \<Rightarrow> 's \<Rightarrow> bool)
      \<Rightarrow> instant \<Rightarrow> 's \<Rightarrow> instant \<Rightarrow> 's \<Rightarrow> bool"
  for run admissible where
  reaches_start: "reaches run admissible t s t s"
| reaches_step: "reaches run admissible t s u s1 \<Longrightarrow> u \<le> now \<Longrightarrow> admissible env op s1 \<Longrightarrow>
    reaches run admissible t s now (snd (commit s1 (run env now op s1)))"

lemma reaches_one:
  "t \<le> now \<Longrightarrow> admissible env op s \<Longrightarrow> run env now op s = Inr (r, s') \<Longrightarrow>
     reaches run admissible t s now s'"
  using reaches_step [OF reaches_start, of t now admissible env op s run] by simp

lemma reaches_next:
  "reaches run admissible t s u s1 \<Longrightarrow> u \<le> now \<Longrightarrow> admissible env op s1 \<Longrightarrow>
     run env now op s1 = Inr (r, s') \<Longrightarrow> reaches run admissible t s now s'"
  using reaches_step [of run admissible t s u s1 now env op] by simp

lemma reaches_trans:
  assumes "reaches run admissible t s u s1" and "reaches run admissible u s1 v s2"
  shows "reaches run admissible t s v s2"
  using assms(2,1) by (induction) (auto intro: reaches.intros)

lemma reaches_time: "reaches run admissible t s u s1 \<Longrightarrow> t \<le> u"
  by (induction rule: reaches.induct) auto

locale transactional_service =
  fixes run :: "'env \<Rightarrow> instant \<Rightarrow> 'op \<Rightarrow> 's \<Rightarrow> failure + ('r \<times> 's)"
    and admissible :: "'env \<Rightarrow> 'op \<Rightarrow> 's \<Rightarrow> bool"
    and inv :: "instant \<Rightarrow> 's \<Rightarrow> bool"
    and before :: "'s \<Rightarrow> 's \<Rightarrow> bool"
  assumes inv_later: "inv t s \<Longrightarrow> t \<le> u \<Longrightarrow> inv u s"
    and run_sound: "inv now s \<Longrightarrow> admissible env op s \<Longrightarrow>
          outcome (\<lambda>(r, s'). inv now s') (run env now op s)"
    and before_refl: "before s s"
    and before_trans: "before s s1 \<Longrightarrow> before s1 s2 \<Longrightarrow> before s s2"
    and run_before: "run env now op s = Inr (r, s') \<Longrightarrow> before s s'"
begin

lemma commit_inv:
  assumes "inv t s" and "t \<le> now" and "admissible env op s"
  shows "inv now (snd (commit s (run env now op s)))"
proof -
  have now: "inv now s" using inv_later assms(1,2) .
  show ?thesis
  proof (cases "run env now op s")
    case (Inl f)
    then show ?thesis using now by simp
  next
    case (Inr x)
    with run_sound [OF now assms(3)] show ?thesis by (cases x) simp
  qed
qed

lemma reaches_inv:
  "reaches run admissible t s u s' \<Longrightarrow> inv t s \<Longrightarrow> inv u s'"
  by (induction rule: reaches.induct) (auto intro: commit_inv)

lemma reaches_before: "reaches run admissible t s u s' \<Longrightarrow> before s s'"
proof (induction rule: reaches.induct)
  case (reaches_start t s)
  show ?case by (rule before_refl)
next
  case (reaches_step t s u s1 now env op)
  have "before s1 (snd (commit s1 (run env now op s1)))"
  proof (cases "run env now op s1")
    case (Inl f)
    then show ?thesis by (simp add: before_refl)
  next
    case (Inr x)
    then show ?thesis using run_before [of env now op s1] by (cases x) simp
  qed
  with reaches_step.IH show ?case by (rule before_trans)
qed

lemma failures_are_for_callers:
  assumes "reaches run admissible t s u s'" and "inv t s" and "u \<le> now" and "admissible env op s'"
    and "run env now op s' = Inl f"
  shows "is_application f"
proof -
  have "inv now s'" using reaches_inv [OF assms(1,2)] inv_later assms(3) by blast
  from outcome_Inl [OF run_sound [OF this assms(4)] assms(5)] show ?thesis .
qed

end

end
