(* ===== verification/Live_Protocol.thy ===== *)
theory Live_Protocol
  imports Live_History Protocol
begin

text \<open>
  The live control as a service: its requests, the transaction of each, the states reachable from
  empty tables, and its properties.  \<open>TaskSide\<close> stands for any transaction of the task
  components, which own the attempts, tickets and environments the live control reads.
\<close>

datatype live_op =
    ReadSnapshot actor_context uuid
  | ReadCommand actor_context uuid uuid
  | ReadGrant uuid uuid
  | Initialize uuid initialize_request string
  | Heartbeat uuid heartbeat_request string
  | ReapExpired actor_context int
  | Acknowledge uuid acknowledge_request string
  | IssueGrant uuid grant_request string
  | ConsumeGrant uuid uuid consume_request
  | CompleteGrant uuid uuid complete_request
  | RequestControl command_type actor_context uuid live_request int string
  | TaskSide "unit_attempt list" "execution_ticket list" "(uuid \<times> string) list"

datatype live_response =
    SnapshotResponse live_snapshot
  | CommandResponse live_command bool
  | GrantResponse action_grant
  | ReapResponse nat instant
  | NoResponse

definition respond :: "('a \<Rightarrow> live_response) \<Rightarrow> failure + ('a \<times> live_db) \<Rightarrow> failure + (live_response \<times> live_db)" where
  "respond f m = attempt m (\<lambda>(v, db). Inr (f v, db))"

fun run_live :: "(nat \<Rightarrow> uuid) \<Rightarrow> instant \<Rightarrow> live_op \<Rightarrow> live_db \<Rightarrow> failure + (live_response \<times> live_db)" where
  "run_live ids now (ReadSnapshot actor a) db = respond SnapshotResponse (get_snapshot actor a now db)"
| "run_live ids now (ReadCommand actor a c) db =
     respond (\<lambda>c. CommandResponse c False) (get_command actor a c db)"
| "run_live ids now (ReadGrant a g) db = respond GrantResponse (get_action_grant a g db)"
| "run_live ids now (Initialize a r w) db = respond SnapshotResponse (initialize ids now a r w db)"
| "run_live ids now (Heartbeat a r w) db = respond SnapshotResponse (heartbeat ids now a r w db)"
| "run_live ids now (ReapExpired actor n) db =
     respond (\<lambda>(k, t). ReapResponse k t) (reap_expired ids now actor n db)"
| "run_live ids now (Acknowledge a r w) db = respond SnapshotResponse (acknowledge ids now a r w db)"
| "run_live ids now (IssueGrant a r w) db = respond GrantResponse (issue_action_grant ids now a r w db)"
| "run_live ids now (ConsumeGrant a g r) db =
     respond GrantResponse (consume_action_grant ids now a g r db)"
| "run_live ids now (CompleteGrant a g r) db =
     respond GrantResponse (complete_action_grant ids now a g r db)"
| "run_live ids now (RequestControl ct actor a r e k) db =
     respond (\<lambda>(c, replayed). CommandResponse c replayed)
       (request_live_transition ids now ct actor a r e k db)"
| "run_live ids now (TaskSide A T E) db =
     Inr (NoResponse, db\<lparr>attempts := A, tickets := T, environments := E\<rparr>)"

text \<open>What the API's request models and the other components guarantee of a request.\<close>

fun op_valid :: "live_op \<Rightarrow> bool" where
  "op_valid (Initialize a r w) = initialize_valid r"
| "op_valid (ReapExpired actor n) = (1 \<le> n \<and> n \<le> 500)"
| "op_valid (Heartbeat a r w) = heartbeat_valid r"
| "op_valid (Acknowledge a r w) = acknowledge_valid r"
| "op_valid (IssueGrant a r w) = grant_request_valid r"
| "op_valid (ConsumeGrant a g r) = consume_valid r"
| "op_valid (CompleteGrant a g r) = complete_valid r"
| "op_valid (RequestControl ct actor a r e k) = (live_request_valid r \<and> mutation_pattern k)"
| "op_valid (TaskSide A T E) = (\<forall>t \<in> set T. ticket_valid t)"
| "op_valid _ = True"

definition live_admissible :: "(nat \<Rightarrow> uuid) \<Rightarrow> live_op \<Rightarrow> live_db \<Rightarrow> bool" where
  "live_admissible ids op db \<longleftrightarrow> op_valid op \<and> fresh ids db"

definition empty_live_db :: live_db where
  "empty_live_db = \<lparr>sessions = [], leases = [], commands = [], action_grants = [], events = [],
     attempts = [], tickets = [], environments = []\<rparr>"

definition live_reaches :: "instant \<Rightarrow> live_db \<Rightarrow> instant \<Rightarrow> live_db \<Rightarrow> bool" where
  "live_reaches = reaches run_live live_admissible"

definition live_reachable :: "instant \<Rightarrow> live_db \<Rightarrow> bool" where
  "live_reachable t db = live_reaches 0 empty_live_db t db"

subsection \<open>The service keeps its promises\<close>

definition service_inv :: "instant \<Rightarrow> live_db \<Rightarrow> bool" where
  "service_inv t db \<longleftrightarrow> live_inv t db \<and> tickets_ok db"

lemma live_inv_later: "live_inv t db \<Longrightarrow> t \<le> u \<Longrightarrow> live_inv u db"
  using base_inv_mono by (auto simp: live_inv_def)

lemma live_inv_task_side:
  "live_inv t (db\<lparr>attempts := A, tickets := T, environments := E\<rparr>) = live_inv t db"
  by (simp add: live_inv_def base_inv_def controlled_def)

lemma respond_outcome:
  "outcome (\<lambda>(v, db'). Q db') m \<Longrightarrow> outcome (\<lambda>(r, db'). Q db') (respond f m)"
  by (cases m) (auto simp: respond_def outcome_def)

lemma respond_Inr: "respond f m = Inr (r, db') \<Longrightarrow> \<exists>v. m = Inr (v, db') \<and> r = f v"
  by (cases m) (auto simp: respond_def)

lemmas read_defs = get_snapshot_def get_command_def get_action_grant_def

lemma reads_change_nothing:
  "get_snapshot actor a now db = Inr (v, db') \<Longrightarrow> db' = db"
  "get_command actor a c db = Inr (k, db') \<Longrightarrow> db' = db"
  "get_action_grant a i db = Inr (g, db') \<Longrightarrow> db' = db"
  unfolding read_defs by (elim result_elims; simp)+

lemmas handlers_evolve = initialize_evolve heartbeat_evolve reap_expired_evolve acknowledge_evolve
  issue_action_grant_evolve consume_action_grant_evolve complete_action_grant_evolve
  request_live_transition_evolve

lemma run_live_evolve:
  assumes "run_live ids now op db = Inr (r, db')"
  shows "evolve db db' \<or> (\<exists>A T E. op = TaskSide A T E \<and> db' = db\<lparr>attempts := A, tickets := T, environments := E\<rparr>)"
  using assms
  by (cases op) (auto dest!: respond_Inr intro: handlers_evolve dest: reads_change_nothing)

lemma run_live_forward: "run_live ids now op db = Inr (r, db') \<Longrightarrow> forward db db'"
  using run_live_evolve [of ids now op db r db']
  by (auto simp: evolve_def forward_def extends_refl row_orders_refl)

lemma run_live_sound:
  assumes inv: "service_inv now db" and adm: "live_admissible ids op db"
  shows "outcome (\<lambda>(r, db'). service_inv now db') (run_live ids now op db)"
proof -
  have live: "live_inv now db" and tk: "tickets_ok db" using inv by (simp_all add: service_inv_def)
  have fr: "fresh ids db" and ok: "op_valid op" using adm by (simp_all add: live_admissible_def)
  have "outcome (\<lambda>(r, db'). live_inv now db') (run_live ids now op db)"
    using ok live by (cases op)
      (auto intro!: respond_outcome get_snapshot_outcome get_command_outcome get_action_grant_outcome
        initialize_outcome heartbeat_outcome reap_expired_outcome acknowledge_outcome
        issue_action_grant_outcome consume_action_grant_outcome complete_action_grant_outcome
        request_live_transition_outcome fr tk simp: live_inv_task_side)
  moreover have "tickets_ok db'" if "run_live ids now op db = Inr (r, db')" for r db'
    using run_live_evolve [OF that] tk ok by (auto simp: evolve_def tickets_ok_def)
  ultimately show ?thesis
    by (cases "run_live ids now op db") (auto simp: outcome_def service_inv_def)
qed

interpretation live: transactional_service run_live live_admissible service_inv forward
proof unfold_locales
  show "service_inv u s" if "service_inv t s" and "t \<le> u" for t s u
    using that live_inv_later by (auto simp: service_inv_def)
  show "outcome (\<lambda>(r, s'). service_inv now s') (run_live env now op s)"
    if "service_inv now s" and "live_admissible env op s" for now s env op
    using that by (rule run_live_sound)
  show "forward s s" for s by (rule forward_refl)
  show "forward s s2" if "forward s s1" and "forward s1 s2" for s s1 s2
    using that by (rule forward_trans)
  show "forward s s'" if "run_live env now op s = Inr (r, s')" for env now op s r s'
    using that by (rule run_live_forward)
qed

lemma empty_service_inv: "service_inv t empty_live_db"
  by (simp add: service_inv_def live_inv_def base_inv_def table_invs controlled_def tickets_ok_def
      empty_live_db_def history_def)

lemma reachable_inv: "live_reachable t db \<Longrightarrow> live_inv t db"
  using live.reaches_inv [OF _ empty_service_inv]
  by (auto simp: live_reachable_def live_reaches_def service_inv_def)

lemma live_reaches_one:
  "t \<le> now \<Longrightarrow> live_admissible ids op db \<Longrightarrow> run_live ids now op db = Inr (r, db') \<Longrightarrow>
     live_reaches t db now db'"
  unfolding live_reaches_def by (rule reaches_one)

lemma live_reachable_later: "live_reachable t db \<Longrightarrow> live_reaches t db u db' \<Longrightarrow> live_reachable u db'"
  unfolding live_reachable_def live_reaches_def by (rule reaches_trans)

lemma live_reaches_forward: "live_reaches t db u db' \<Longrightarrow> forward db db'"
  unfolding live_reaches_def by (rule live.reaches_before)

lemma reachable_inv_at: "live_reachable t db \<Longrightarrow> t \<le> now \<Longrightarrow> live_inv now db"
  using reachable_inv live_inv_later by blast

end
