(* ===== verification/Live_Facts.thy ===== *)
theory Live_Facts
  imports Live_Protocol
begin

text \<open>
  What a successful request found and did, read off the handlers' definitions, and how the rows it
  found reappear in every later state.
\<close>

subsection \<open>Rows of a state\<close>

lemma current_lease_unique:
  assumes inv: "live_inv t db" and s: "s \<in> set (sessions db)"
    and l: "l \<in> set (leases db)" "cl_session l = ls_id s" "is_current l"
  shows "current (leases db) (ls_id s) = [l] \<and> cl_control_epoch l = ls_control_epoch s
    \<and> cl_fencing_token l = ls_fencing_token s
    \<and> cl_owner_type l = (if ls_state s \<in> {HUMAN_CONTROLLED, RECONCILING} then HUMAN else AGENT)"
proof -
  have base: "base_inv t db" using inv by (simp add: live_inv_def)
  note ok = control_okD [OF inv s]
  have mem: "l \<in> set (current (leases db) (ls_id s))" using l by (simp add: in_current)
  have epoch: "cl_control_epoch l = ls_control_epoch s" using ok mem by (simp add: control_ok_def)
  have fence: "cl_fencing_token l = cl_control_epoch l" "ls_fencing_token s = ls_control_epoch s"
    using lease_row_good [OF base l(1)] session_row_good [OF base s]
    by (simp_all add: lease_good_def session_good_def)
  show ?thesis
    using control_shape [OF ok] mem epoch fence by (cases rule: state_shape_cases) auto
qed

lemma session_by_attempt:
  assumes "base_inv t db" and "s \<in> set (sessions db)" and "unit_attempt_id (ls_scope s) = a"
  shows "get_session_by_attempt db a = Inr (Some s)"
  using first_row_key [of "\<lambda>s. unit_attempt_id (ls_scope s)" "sessions db" s] assms
    session_row_good [OF assms(1,2)]
  by (simp add: get_session_by_attempt_def session_good_def base_inv_def sessions_inv_def)

lemma grant_by_id:
  assumes "base_inv t db" and "g \<in> set (action_grants db)"
  shows "find_action_grant db (ag_id g) = Inr (Some g)"
  using first_row_key [of ag_id "action_grants db" g] assms grant_row_good [OF assms]
  by (simp add: find_action_grant_def grant_good_def base_inv_def grants_inv_def)

lemma grant_by_action:
  assumes "base_inv t db" and "g \<in> set (action_grants db)"
  shows "get_action_grant_by_action db (unit_attempt_id (ag_scope g)) (ag_action_id g) = Inr (Some g)"
  using first_row_key [of "\<lambda>g. (unit_attempt_id (ag_scope g), ag_action_id g)" "action_grants db" g]
    assms grant_row_good [OF assms]
  by (simp add: get_action_grant_by_action_def grant_good_def base_inv_def grants_inv_def)

lemma command_by_mutation:
  assumes "base_inv t db" and "c \<in> set (commands db)"
  shows "get_command_by_mutation db (lc_session c) (lc_client_mutation_id c) = Inr (Some c)"
  using first_row_key [of "\<lambda>c. (lc_session c, lc_client_mutation_id c)" "commands db" c]
    assms command_row_good [OF assms]
  by (simp add: get_command_by_mutation_def command_good_def base_inv_def commands_inv_def)

lemma model_first_row:
  "model_row valid (first_row p rows) = Inr (Some r) \<Longrightarrow> r \<in> set rows \<and> p r"
  using first_row_Some [of p rows r] by (auto simp: result_simps)

lemma read_session_Inr:
  "get_session_by_attempt db a = Inr (Some s) \<Longrightarrow>
     s \<in> set (sessions db) \<and> unit_attempt_id (ls_scope s) = a"
  unfolding get_session_by_attempt_def by (drule model_first_row) simp

lemma runtime_session_Inr:
  "require_runtime_session db a = Inr s \<Longrightarrow> get_session_by_attempt db a = Inr (Some s)"
  unfolding require_runtime_session_def by (elim result_elims) auto

lemma operable_Inr:
  "require_operable actor found = Inr s \<Longrightarrow> found = Some s
     \<and> can_operate_project actor (project_id (ls_scope s)) \<and> actor_id actor \<noteq> None
     \<and> can_read_project actor (project_id (ls_scope s))"
  unfolding require_operable_def require_visible_def by (elim result_elims) auto

lemma find_grant_Inr:
  "find_action_grant db i = Inr (Some g) \<Longrightarrow> g \<in> set (action_grants db) \<and> ag_id g = i"
  unfolding find_action_grant_def by (drule model_first_row) simp

lemma grant_by_action_Inr:
  "get_action_grant_by_action db a i = Inr (Some g) \<Longrightarrow>
     g \<in> set (action_grants db) \<and> unit_attempt_id (ag_scope g) = a \<and> ag_action_id g = i"
  unfolding get_action_grant_by_action_def by (drule model_first_row) simp

lemma command_by_mutation_Inr:
  "get_command_by_mutation db i k = Inr (Some c) \<Longrightarrow>
     c \<in> set (commands db) \<and> lc_session c = i \<and> lc_client_mutation_id c = k"
  unfolding get_command_by_mutation_def by (drule model_first_row) simp

subsection \<open>Rows of later states\<close>

lemma later_session:
  assumes "forward db db'" and "s \<in> set (sessions db)"
  obtains s' where "s' \<in> set (sessions db')" and "session_le s s'"
  using extends_row assms unfolding forward_def by metis

lemma later_grant:
  assumes "forward db db'" and "g \<in> set (action_grants db)"
  obtains g' where "g' \<in> set (action_grants db')" and "grant_le g g'"
  using extends_row assms unfolding forward_def by metis

lemma later_command:
  assumes "forward db db'" and "c \<in> set (commands db)"
  obtains c' where "c' \<in> set (commands db')" and "command_le c c'"
  using extends_row assms unfolding forward_def by metis

subsection \<open>Consumption\<close>

lemma update_grants_Inr:
  "update_grants p f db = Inr (rows, db') \<Longrightarrow> rows = map f (filter p (action_grants db))
     \<and> db' = db\<lparr>action_grants := put_where p f (action_grants db)\<rparr>"
  by (auto simp: update_grants_def result_simps table_simps)

lemma fetch_one_map_filter:
  "fetch_one valid (map f (filter p R)) = Inr (Some r) \<Longrightarrow> \<exists>x \<in> set R. p x \<and> r = f x"
  by (cases "filter p R") (auto simp: fetch_one_def result_simps filter_eq_Cons_iff
      split: list.splits if_splits)

lemma append_event_Inr:
  "append_event i s ty payload at db = Inr db' \<Longrightarrow> sessions db' = sessions db \<and> leases db' = leases db
     \<and> commands db' = commands db \<and> action_grants db' = action_grants db"
  by (auto simp: append_event_def insert_event_def result_simps table_simps)

lemma consume_grant_row_Inr:
  "consume_grant_row g now db = Inr (Some g', db') \<Longrightarrow> \<exists>x \<in> set (action_grants db).
     ag_id x = ag_id g \<and> now < ag_expires_at x \<and> grant_backed db now x
     \<and> g' = x\<lparr>ag_state := GRANT_CONSUMED, ag_consumed_at := Some now\<rparr> \<and> g' \<in> set (action_grants db')"
  unfolding consume_grant_row_def
  by (elim result_elims, simp_all) (frule update_grants_Inr, auto simp: set_put_where dest!: fetch_one_map_filter)

lemma consume_action_grant_Inr:
  "consume_action_grant ids now a i r db = Inr (g', db') \<Longrightarrow> \<exists>s g db1.
     require_runtime_session db a = Inr s \<and> find_action_grant db i = Inr (Some g)
     \<and> ag_session g = ls_id s \<and> ag_control_epoch g = cn_control_epoch r
     \<and> ag_fencing_token g = cn_fencing_token r \<and> ag_proposal_digest g = cn_proposal_digest r
     \<and> ag_state g = GRANT_ISSUED \<and> consume_grant_row g now db = Inr (Some g', db1)
     \<and> action_grants db' = action_grants db1"
  unfolding consume_action_grant_def
  by (elim result_elims, simp_all) (blast dest: append_event_Inr)

lemma consume_success:
  assumes "consume_action_grant ids now a i r db = Inr (g', db')"
  obtains s g x where "get_session_by_attempt db a = Inr (Some s)"
    and "find_action_grant db i = Inr (Some g)" and "ag_session g = ls_id s"
    and "ag_control_epoch g = cn_control_epoch r" and "ag_fencing_token g = cn_fencing_token r"
    and "ag_proposal_digest g = cn_proposal_digest r" and "ag_state g = GRANT_ISSUED"
    and "x \<in> set (action_grants db)" and "ag_id x = ag_id g" and "now < ag_expires_at x"
    and "grant_backed db now x"
    and "g' = x\<lparr>ag_state := GRANT_CONSUMED, ag_consumed_at := Some now\<rparr>"
    and "g' \<in> set (action_grants db')"
proof -
  let ?f = "\<lambda>g. g\<lparr>ag_state := GRANT_CONSUMED, ag_consumed_at := Some now\<rparr>"
  obtain s g db1 where s: "require_runtime_session db a = Inr s"
    and g: "find_action_grant db i = Inr (Some g)" "ag_session g = ls_id s"
      "ag_control_epoch g = cn_control_epoch r" "ag_fencing_token g = cn_fencing_token r"
      "ag_proposal_digest g = cn_proposal_digest r" "ag_state g = GRANT_ISSUED"
    and row: "consume_grant_row g now db = Inr (Some g', db1)"
    and ev: "action_grants db' = action_grants db1"
    using consume_action_grant_Inr [OF assms] by blast
  obtain x where x: "x \<in> set (action_grants db)" "ag_id x = ag_id g" "now < ag_expires_at x"
      "grant_backed db now x" "g' = ?f x" "g' \<in> set (action_grants db1)"
    using consume_grant_row_Inr [OF row] by blast
  then show thesis
    using that [of s g x, unfolded ev] g runtime_session_Inr [OF s] by blast
qed

lemma consume_request_run:
  "consume_action_grant ids now a i r db = Inr (g, db') \<Longrightarrow>
     run_live ids now (ConsumeGrant a i r) db = Inr (GrantResponse g, db')"
  by (simp add: respond_def)

text \<open>A grant that has left \<open>GRANT_ISSUED\<close> is never consumed again.\<close>

lemma spent_grant_refused:
  assumes "base_inv t db" and "g \<in> set (action_grants db)" and "ag_state g \<noteq> GRANT_ISSUED"
  shows "consume_action_grant ids now a (ag_id g) r db \<noteq> Inr x"
proof
  assume "consume_action_grant ids now a (ag_id g) r db = Inr x"
  then obtain g' db' where "consume_action_grant ids now a (ag_id g) r db = Inr (g', db')"
    by (cases x) auto
  then show False
    using grant_by_id [OF assms(1,2)] assms(3) by (elim consume_success) simp
qed

text \<open>An issued grant carries its session's epoch, so an older epoch consumes nothing.\<close>

lemma issued_grant_epoch:
  assumes "live_inv t db" and "s \<in> set (sessions db)" and "g \<in> set (action_grants db)"
    and "ag_session g = ls_id s" and "ag_state g = GRANT_ISSUED"
  shows "ag_control_epoch g = ls_control_epoch s"
    and "\<exists>l \<in> set (leases db). cl_session l = ls_id s \<and> cl_id l = ag_control_lease_id g"
proof -
  have "g \<in> set (issued (action_grants db) (ls_id s))" using assms by (simp add: in_issued)
  with control_okD [OF assms(1,2)] obtain l where "ag_control_epoch g = ls_control_epoch s"
    and "l \<in> set (current (leases db) (ls_id s))" and "cl_id l = ag_control_lease_id g"
    unfolding control_ok_def by blast
  then show "ag_control_epoch g = ls_control_epoch s"
    and "\<exists>l \<in> set (leases db). cl_session l = ls_id s \<and> cl_id l = ag_control_lease_id g"
    by (auto simp: in_current)
qed

lemma stale_consumption_refused:
  assumes inv: "live_inv t db" and s: "s \<in> set (sessions db)" "unit_attempt_id (ls_scope s) = a"
    and stale: "cn_control_epoch r < ls_control_epoch s"
  shows "consume_action_grant ids now a i r db \<noteq> Inr x"
proof
  assume "consume_action_grant ids now a i r db = Inr x"
  then obtain g' db' where "consume_action_grant ids now a i r db = Inr (g', db')"
    by (cases x) auto
  moreover have base: "base_inv t db" using inv by (simp add: live_inv_def)
  ultimately obtain g where "g \<in> set (action_grants db)" "ag_session g = ls_id s"
    "ag_control_epoch g = cn_control_epoch r" "ag_state g = GRANT_ISSUED"
    using session_by_attempt [OF base s] by (elim consume_success) (auto dest: find_grant_Inr)
  with issued_grant_epoch(1) [OF inv s(1)] stale show False by simp
qed

lemma unheld_epoch_fenced:
  "require_runtime_session db a = Inr s \<Longrightarrow> hb_control_epoch r \<noteq> ls_control_epoch s \<Longrightarrow>
     get_current_lease db (ls_id s) = Inr lease \<Longrightarrow> heartbeat ids now a r w db = Inl live_fenced"
  by (cases lease) (simp_all add: heartbeat_def heartbeat_session_def)

lemma stale_heartbeat_fenced:
  assumes inv: "live_inv t db" and s: "s \<in> set (sessions db)" "unit_attempt_id (ls_scope s) = a"
    and stale: "hb_control_epoch r < ls_control_epoch s"
  shows "heartbeat ids now a r w db = Inl live_fenced"
proof -
  have base: "base_inv t db" using inv by (simp add: live_inv_def)
  have "require_runtime_session db a = Inr s"
    using session_by_attempt [OF base s] by (simp add: require_runtime_session_def)
  moreover have "hb_control_epoch r \<noteq> ls_control_epoch s" using stale by simp
  ultimately show ?thesis using current_lease_read [OF inv s(1)] by (rule unheld_epoch_fenced)
qed

lemma session_le_epoch: "session_le s s' \<Longrightarrow> ls_control_epoch s \<le> ls_control_epoch s'"
  and session_le_keys: "session_le s s' \<Longrightarrow> ls_id s' = ls_id s \<and> ls_scope s' = ls_scope s"
  by (simp_all add: session_le_def session_identity_def)

text \<open>The order of the grants, one consequence at a time (as rewrite rules they would loop).\<close>

lemma grant_leD:
  assumes "grant_le g g'"
  shows "grant_identity g' = grant_identity g"
    and "ag_state g = GRANT_CONSUMED \<Longrightarrow> ag_state g' = GRANT_CONSUMED \<or> ag_state g' = GRANT_COMPLETED"
    and "ag_state g = GRANT_COMPLETED \<Longrightarrow> g' = g"
  using assms unfolding grant_le_def by blast+

lemma grant_identity_keys: "grant_identity g' = grant_identity g \<Longrightarrow> ag_id g' = ag_id g
    \<and> ag_scope g' = ag_scope g \<and> ag_action_id g' = ag_action_id g \<and> ag_session g' = ag_session g"
  by (simp add: grant_identity_def)

lemmas grant_le_keys = grant_identity_keys [OF grant_leD(1)]

lemma grant_le_spent: "grant_le g g' \<Longrightarrow> ag_state g = GRANT_CONSUMED \<Longrightarrow>
    ag_id g' = ag_id g \<and> ag_state g' \<noteq> GRANT_ISSUED"
  using grant_le_keys [of g g'] grant_leD(2) [of g g'] by auto

subsection \<open>Control requests\<close>

lemma create_command_Inr:
  "create_command c db = Inr (c', db') \<Longrightarrow> c' = c \<and> c \<in> set (commands db')"
  by (auto simp: create_command_def result_simps table_simps)

lemma accept_request_Inr:
  "accept_request ids now ct actor r e k db s = Inr ((c, b), db') \<Longrightarrow>
     c \<in> set (commands db') \<and> lc_session c = ls_id s \<and> lc_client_mutation_id c = k
     \<and> command_request_matches c ct r e
     \<and> (\<exists>lease. get_current_lease db (ls_id s) = Inr lease \<and> validate_transition db s lease ct now = Inr ())"
  unfolding accept_request_def
  by (elim result_elims, simp_all) (auto simp: construct_Inr command_request_matches_def
      dest!: append_event_Inr create_command_Inr)

lemma accepted_command_pending:
  "accept_request ids now ct actor r e k db s = Inr ((c, b), db') \<Longrightarrow> lc_status c = COMMAND_PENDING"
  unfolding accept_request_def
  by (elim result_elims, simp_all) (auto simp: construct_Inr dest!: create_command_Inr)

lemma request_transition_Inr:
  assumes "request_live_transition ids now ct actor a r e k db = Inr ((c, b), db')"
  obtains s where "get_session_by_attempt db a = Inr (Some s)"
    and "require_operable actor (Some s) = Inr s" and "lr_requested_ttl_sec r = None \<or> ct = TAKEOVER"
    and "c \<in> set (commands db')" and "lc_session c = ls_id s" and "lc_client_mutation_id c = k"
    and "command_request_matches c ct r e"
    and "b \<or> (ls_control_epoch s = e
      \<and> accept_request ids now ct actor r e k db s = Inr ((c, b), db'))"
proof -
  have "\<exists>s. get_session_by_attempt db a = Inr (Some s) \<and> require_operable actor (Some s) = Inr s
     \<and> (lr_requested_ttl_sec r = None \<or> ct = TAKEOVER) \<and> c \<in> set (commands db')
     \<and> lc_session c = ls_id s \<and> lc_client_mutation_id c = k \<and> command_request_matches c ct r e
     \<and> (b \<or> (ls_control_epoch s = e \<and> accept_request ids now ct actor r e k db s = Inr ((c, b), db')))"
    using assms unfolding request_live_transition_def
    by (elim result_elims, simp_all)
      (frule operable_Inr, auto dest: command_by_mutation_Inr accept_request_Inr)+
  then show thesis using that by blast
qed

text \<open>The answer to a request whose key is on record.\<close>

lemma recorded_request_replays:
  assumes inv: "base_inv t db" and s: "s \<in> set (sessions db)" "unit_attempt_id (ls_scope s) = a"
    and op: "require_operable actor (Some s) = Inr s"
    and ttl: "lr_requested_ttl_sec r = None \<or> ct = TAKEOVER"
    and c: "c \<in> set (commands db)" "lc_session c = ls_id s" "lc_client_mutation_id c = k"
    and matches: "command_request_matches c ct r e"
  shows "request_live_transition ids now ct actor a r e k db = Inr ((c, True), db)"
  using session_by_attempt [OF inv s] command_by_mutation [OF inv c(1)] c op ttl matches
  by (auto simp: request_live_transition_def)

lemma require_operable_scope:
  "require_operable actor (Some s) = Inr s \<Longrightarrow> ls_scope s' = ls_scope s \<Longrightarrow>
     require_operable actor (Some s') = Inr s'"
  by (auto simp: require_operable_def require_visible_def split: if_splits)

lemma command_le_matches:
  assumes "command_le c c'"
  shows "command_request_matches c' ct r e = command_request_matches c ct r e
    \<and> lc_session c' = lc_session c \<and> lc_client_mutation_id c' = lc_client_mutation_id c \<and> lc_id c' = lc_id c"
proof -
  have "command_identity c' = command_identity c" using assms by (simp add: command_le_def)
  then show ?thesis by (simp add: command_identity_def command_request_matches_def)
qed

lemma request_control_run:
  "request_live_transition ids now ct actor a r e k db = Inr ((c, b), db') \<Longrightarrow>
     run_live ids now (RequestControl ct actor a r e k) db = Inr (CommandResponse c b, db')"
  by (simp add: respond_def)

subsection \<open>Issue and completion\<close>

lemma create_action_grant_Inr:
  "create_action_grant g db = Inr (Some g', db') \<Longrightarrow> g' = g \<and> g \<in> set (action_grants db')"
  by (auto simp: create_action_grant_def sql_insert_or_skip_def result_simps
      split: if_split_asm option.split_asm)

lemma issue_new_grant_Inr:
  "issue_new_grant ids now r s l db = Inr (g, db') \<Longrightarrow>
     g \<in> set (action_grants db') \<and> ag_scope g = ls_scope s \<and> grant_request_matches g r"
  unfolding issue_new_grant_def
  by (elim result_elims, simp_all)
    (auto simp: construct_Inr grant_request_matches_def dest!: append_event_Inr create_action_grant_Inr)

lemma issue_success:
  assumes "issue_action_grant ids now a r w db = Inr (g, db')"
  obtains s where "get_session_by_attempt db a = Inr (Some s)" and "g \<in> set (action_grants db')"
    and "unit_attempt_id (ag_scope g) = a" and "ag_action_id g = gr_action_id r"
    and "grant_request_matches g r"
proof -
  have "\<exists>s. require_runtime_session db a = Inr s \<and> g \<in> set (action_grants db')
      \<and> (ag_scope g = ls_scope s \<or> unit_attempt_id (ag_scope g) = a) \<and> grant_request_matches g r"
    using assms unfolding issue_action_grant_def
    by (elim result_elims, simp_all) (auto dest: grant_by_action_Inr issue_new_grant_Inr)
  then obtain s where s: "require_runtime_session db a = Inr s" "g \<in> set (action_grants db')"
      "ag_scope g = ls_scope s \<or> unit_attempt_id (ag_scope g) = a" "grant_request_matches g r"
    by blast
  have read: "get_session_by_attempt db a = Inr (Some s)" using runtime_session_Inr [OF s(1)] .
  then have "unit_attempt_id (ag_scope g) = a" using s(3) read_session_Inr by auto
  with s read show thesis using that by (simp add: grant_request_matches_def)
qed

lemma recorded_issue_replays:
  assumes "base_inv t db" and "s \<in> set (sessions db)" and "unit_attempt_id (ls_scope s) = a"
    and "g \<in> set (action_grants db)" and "unit_attempt_id (ag_scope g) = a"
    and "grant_request_matches g r"
  shows "issue_action_grant ids now a r w db = Inr (g, db)"
  using session_by_attempt [OF assms(1-3)] grant_by_action [OF assms(1,4)] assms(5,6)
  by (simp add: issue_action_grant_def require_runtime_session_def grant_request_matches_def)

lemma grant_le_matches: "grant_le g g' \<Longrightarrow> grant_request_matches g' r = grant_request_matches g r"
  by (drule grant_leD(1)) (simp add: grant_identity_def grant_request_matches_def)

lemma complete_grant_row_Inr:
  "complete_grant_row g i e v now db = Inr (Some g', db') \<Longrightarrow> \<exists>x \<in> set (action_grants db).
     ag_id x = ag_id g \<and> ag_state x = GRANT_CONSUMED \<and> g' = x\<lparr>ag_state := GRANT_COMPLETED,
       ag_completed_at := Some now, ag_receipt_id := Some i, ag_execution_status := Some e,
       ag_resulting_page_revision := Some v\<rparr> \<and> g' \<in> set (action_grants db')"
  unfolding complete_grant_row_def
  by (elim result_elims, simp_all) (frule update_grants_Inr, auto simp: set_put_where dest!: fetch_one_map_filter)

lemma advance_browser_revision_Inr:
  "advance_browser_revision s v now db = Inr (s', db') \<Longrightarrow> action_grants db' = action_grants db"
  unfolding advance_browser_revision_def update_sessions_def
  by (elim result_elims, simp_all) auto

definition receipt_recorded :: "action_grant \<Rightarrow> complete_request \<Rightarrow> bool" where
  "receipt_recorded g r \<longleftrightarrow> ag_state g = GRANT_COMPLETED \<and> ag_receipt_id g = Some (co_receipt_id r)
     \<and> ag_execution_status g = Some (co_execution_status r)
     \<and> ag_resulting_page_revision g = Some (co_resulting_page_revision r)"

lemma complete_success:
  assumes inv: "base_inv t db" and "complete_action_grant ids now a i r db = Inr (g, db')"
  obtains s where "get_session_by_attempt db a = Inr (Some s)" and "g \<in> set (action_grants db')"
    and "ag_id g = i" and "ag_session g = ls_id s" and "ag_control_epoch g = co_control_epoch r"
    and "ag_fencing_token g = co_fencing_token r" and "receipt_recorded g r"
proof -
  have "\<exists>s y db1. require_runtime_session db a = Inr s \<and> find_action_grant db i = Inr (Some y)
      \<and> ag_session y = ls_id s \<and> ag_control_epoch y = co_control_epoch r
      \<and> ag_fencing_token y = co_fencing_token r
      \<and> (y = g \<and> db' = db \<and> receipt_recorded g r
        \<or> complete_grant_row y (co_receipt_id r) (co_execution_status r) (co_resulting_page_revision r) now db
            = Inr (Some g, db1) \<and> action_grants db' = action_grants db1)"
    using assms(2) unfolding complete_action_grant_def
    by (elim result_elims, simp_all)
      (auto simp: receipt_recorded_def dest!: append_event_Inr advance_browser_revision_Inr)
  then obtain s y db1 where s: "require_runtime_session db a = Inr s"
    and y: "find_action_grant db i = Inr (Some y)" "ag_session y = ls_id s"
      "ag_control_epoch y = co_control_epoch r" "ag_fencing_token y = co_fencing_token r"
    and ways: "y = g \<and> db' = db \<and> receipt_recorded g r
        \<or> complete_grant_row y (co_receipt_id r) (co_execution_status r) (co_resulting_page_revision r) now db
            = Inr (Some g, db1) \<and> action_grants db' = action_grants db1"
    by blast
  have row: "y \<in> set (action_grants db)" "ag_id y = i" using find_grant_Inr [OF y(1)] by auto
  have read: "get_session_by_attempt db a = Inr (Some s)" using runtime_session_Inr [OF s] .
  from ways show thesis
  proof
    assume "y = g \<and> db' = db \<and> receipt_recorded g r"
    then show thesis using that [OF read] y row by simp
  next
    assume new: "complete_grant_row y (co_receipt_id r) (co_execution_status r) (co_resulting_page_revision r) now db
            = Inr (Some g, db1) \<and> action_grants db' = action_grants db1"
    then obtain x where x: "x \<in> set (action_grants db)" "ag_id x = ag_id y"
        "g = x\<lparr>ag_state := GRANT_COMPLETED, ag_completed_at := Some now,
          ag_receipt_id := Some (co_receipt_id r), ag_execution_status := Some (co_execution_status r),
          ag_resulting_page_revision := Some (co_resulting_page_revision r)\<rparr>"
        "g \<in> set (action_grants db')"
      using complete_grant_row_Inr by fastforce
    then have "x = y" using inv row by (auto simp: base_inv_def grants_inv_def dest: distinct_key_eq)
    then show thesis using that [OF read x(4)] x(3) y row(2) by (simp add: receipt_recorded_def)
  qed
qed

lemma recorded_completion_replays:
  assumes "base_inv t db" and "s \<in> set (sessions db)" and "unit_attempt_id (ls_scope s) = a"
    and "g \<in> set (action_grants db)" and "ag_session g = ls_id s"
    and "ag_control_epoch g = co_control_epoch r" and "ag_fencing_token g = co_fencing_token r"
    and "receipt_recorded g r"
  shows "complete_action_grant ids now a (ag_id g) r db = Inr (g, db)"
  using session_by_attempt [OF assms(1-3)] grant_by_id [OF assms(1,4)] assms(5-8)
  by (simp add: complete_action_grant_def require_runtime_session_def receipt_recorded_def)

lemma grant_request_run:
  "issue_action_grant ids now a r w db = Inr (g, db') \<Longrightarrow>
     run_live ids now (IssueGrant a r w) db = Inr (GrantResponse g, db')"
  "complete_action_grant ids now a i q db = Inr (g, db') \<Longrightarrow>
     run_live ids now (CompleteGrant a i q) db = Inr (GrantResponse g, db')"
  by (simp_all add: respond_def)

subsection \<open>Acknowledgement\<close>

lemma update_sessions_hd:
  "update_sessions now p f db = Inr (rows, db') \<Longrightarrow> rows \<noteq> [] \<Longrightarrow>
     \<exists>x \<in> set (sessions db). p x \<and> hd rows = f x"
  by (cases "filter p (sessions db)")
    (auto simp: update_sessions_def result_simps table_simps filter_eq_Cons_iff)

lemma apply_transition_Inr:
  assumes "base_inv t db" and "s \<in> set (sessions db)"
    and "apply_transition s c st r h d now db = Inr ((s', c'), db')"
  shows "s' = applied_session st r h now s"
proof -
  have frame: "sessions db1 = sessions db" if "update_leases now p f db = Inr (rows, db1)" for p f rows db1
    using that by (auto simp: update_leases_def result_simps)
  have "\<exists>x \<in> set (sessions db). ls_id x = ls_id s \<and> s' = x\<lparr>ls_state := st,
      ls_control_epoch := ls_control_epoch s + 1, ls_fencing_token := ls_fencing_token s + 1,
      ls_browser_revision := r, ls_human_influenced := h, ls_revision := ls_revision s + 1,
      ls_updated_at := now\<rparr>"
    using assms(3) unfolding apply_transition_def Let_def
    by (elim result_elims, simp_all) (drule (1) update_sessions_hd, drule frame, auto)
  then show ?thesis
    using session_unique [OF assms(1,2)] by (auto simp: applied_session_def)
qed

text \<open>What a successful acknowledgement of a pending command found and what it answered with.\<close>

definition ack_state :: "command_type \<Rightarrow> session_state" where
  "ack_state ct = (case ct of PAUSE \<Rightarrow> PAUSED | TAKEOVER \<Rightarrow> HUMAN_CONTROLLED | _ \<Rightarrow> AGENT_CONTROLLED)"

lemma ack_target_state: "ack_target c r = Inr (st, owner, ttl) \<Longrightarrow> st = ack_state (lc_command_type c)"
  by (auto simp: ack_state_def split: command_type.splits option.splits)

lemma take_snapshot_session: "take_snapshot db s now = Inr v \<Longrightarrow> sn_session v = s"
  unfolding take_snapshot_def by (elim result_elims) (auto simp: construct_Inr)

lemma apply_command_Inr:
  assumes "base_inv t db" and "s \<in> set (sessions db)"
    and "apply_command ids now r w s c x db = Inr (v, db')"
  shows "sn_session v = applied_session (ack_state (lc_command_type c)) (ak_browser_revision r)
      (ls_human_influenced s \<or> lc_command_type c = TAKEOVER) now s"
    and "take_snapshot db' (sn_session v) now = Inr v"
proof -
  obtain st owner ttl u y db1 where "ack_target c r = Inr (st, owner, ttl)"
    and "apply_transition s c st (ak_browser_revision r)
         (ls_human_influenced s \<or> lc_command_type c = TAKEOVER) (ak_checkpoint_digest r) now db
           = Inr ((u, y), db1)"
    and snap: "take_snapshot db' u now = Inr v"
    using assms(3) unfolding apply_command_def
    by (elim result_elims, simp_all del: ack_target.simps)
  then show "sn_session v = applied_session (ack_state (lc_command_type c)) (ak_browser_revision r)
      (ls_human_influenced s \<or> lc_command_type c = TAKEOVER) now s"
    using apply_transition_Inr [OF assms(1,2)] ack_target_state take_snapshot_session by blast
  show "take_snapshot db' (sn_session v) now = Inr v"
    using snap take_snapshot_session by blast
qed

lemma acknowledge_success:
  assumes "base_inv t db" and "acknowledge ids now a r w db = Inr (v, db')"
    and "find_command db (ak_command_id r) = Inr (Some c)" and "lc_status c = COMMAND_PENDING"
  obtains s where "get_session_by_attempt db a = Inr (Some s)" and "lc_session c = ls_id s"
    and "ls_control_epoch s = ak_expected_control_epoch r"
    and "ls_fencing_token s = ak_expected_fencing_token r"
    and "ls_browser_revision s \<le> ak_browser_revision r" and "\<not> has_inflight_action db (ls_id s)"
    and "sn_session v = applied_session (ack_state (lc_command_type c)) (ak_browser_revision r)
      (ls_human_influenced s \<or> lc_command_type c = TAKEOVER) now s"
    and "take_snapshot db' (sn_session v) now = Inr v"
proof -
  obtain s x where s: "require_runtime_session db a = Inr s" "lc_session c = ls_id s"
      "ls_control_epoch s = ak_expected_control_epoch r" "ls_fencing_token s = ak_expected_fencing_token r"
      "ls_browser_revision s \<le> ak_browser_revision r" "\<not> has_inflight_action db (ls_id s)"
    and app: "apply_command ids now r w s c x db = Inr (v, db')"
    using assms(2-4) unfolding acknowledge_def acknowledge_session_def
    by (elim result_elims, simp_all)
  have read: "get_session_by_attempt db a = Inr (Some s)" using runtime_session_Inr [OF s(1)] .
  then have "s \<in> set (sessions db)" using read_session_Inr by auto
  with apply_command_Inr [OF assms(1) _ app] show thesis using that [OF read] s by blast
qed

lemma acknowledge_run:
  "acknowledge ids now a r w db = Inr (v, db') \<Longrightarrow>
     run_live ids now (Acknowledge a r w) db = Inr (SnapshotResponse v, db')"
  by (simp add: respond_def)

lemma take_snapshot_views:
  assumes "live_inv now db" and "s \<in> set (sessions db)" and "take_snapshot db s now = Inr v"
  shows "sn_lease v = head_option (current (leases db) (ls_id s))"
proof -
  obtain v' where "take_snapshot db s now = Inr v'"
    and "sn_lease v' = head_option (current (leases db) (ls_id s))"
    by (rule take_snapshot_ok [OF assms(1,2)])
  with assms(3) show ?thesis by simp
qed

text \<open>A session that no lease holds actively has no issued grant.\<close>

lemma no_active_lease_no_grant:
  assumes "live_inv t db" and "s \<in> set (sessions db)"
    and "ls_state s \<notin> {AGENT_CONTROLLED, HUMAN_CONTROLLED}"
  shows "\<forall>l \<in> set (leases db). cl_session l = ls_id s \<longrightarrow> cl_state l \<noteq> LEASE_ACTIVE"
    and "\<forall>g \<in> set (action_grants db). ag_session g = ls_id s \<longrightarrow> ag_state g \<noteq> GRANT_ISSUED"
proof -
  note ok = control_okD [OF assms(1,2)]
  have "\<forall>l \<in> set (current (leases db) (ls_id s)). cl_state l \<noteq> LEASE_ACTIVE"
    using control_shape [OF ok] assms(3) by (cases rule: state_shape_cases) auto
  then show "\<forall>l \<in> set (leases db). cl_session l = ls_id s \<longrightarrow> cl_state l \<noteq> LEASE_ACTIVE"
    and "\<forall>g \<in> set (action_grants db). ag_session g = ls_id s \<longrightarrow> ag_state g \<noteq> GRANT_ISSUED"
    using ok by (auto simp: in_current is_current_state control_ok_def in_issued)
qed

lemma validate_takeover:
  assumes "validate_transition db s lease TAKEOVER now = Inr ()"
  obtains l tk where "ls_state s = AGENT_CONTROLLED" and "lease = Some l" and "cl_owner_type l = AGENT"
    and "cl_state l = LEASE_ACTIVE" and "now < cl_expires_at l"
    and "get_ticket_by_attempt db (unit_attempt_id (ls_scope s)) = Inr (Some tk)"
    and "get_environment_kind db (tk_environment_id tk) \<noteq> Some ''PRODUCTION''"
  using assms by (auto simp: validate_transition_def result_simps split: if_splits option.splits)

end
