(* ===== verification/Live_Refinement.thy ===== *)
theory Live_Refinement
  imports Live_Facts
begin

text \<open>
  What the live control promises about who controls a browser, as an abstract machine on the state,
  the epoch and the human influence of one session, and the proof that every transaction takes every
  session along steps of that machine: the tables, leases, commands and grants refine it.
\<close>

subsection \<open>The machine\<close>

record control =
  controlled_by :: session_state
  epoch :: int
  influenced :: bool

definition initial_control :: control where
  "initial_control = \<lparr>controlled_by = AGENT_CONTROLLED, epoch = 1, influenced = False\<rparr>"

inductive control_step :: "control \<Rightarrow> control \<Rightarrow> bool" where
  ask_quiesce: "controlled_by c = AGENT_CONTROLLED \<Longrightarrow> control_step c (c\<lparr>controlled_by := QUIESCING\<rparr>)"
| ask_resume: "controlled_by c = PAUSED \<Longrightarrow> control_step c (c\<lparr>controlled_by := RESUME_REQUESTED\<rparr>)"
| ask_return: "controlled_by c = HUMAN_CONTROLLED \<Longrightarrow> control_step c (c\<lparr>controlled_by := RECONCILING\<rparr>)"
| pause_applied: "controlled_by c = QUIESCING \<Longrightarrow>
    control_step c (c\<lparr>controlled_by := PAUSED, epoch := epoch c + 1\<rparr>)"
| takeover_applied: "controlled_by c = QUIESCING \<Longrightarrow>
    control_step c \<lparr>controlled_by = HUMAN_CONTROLLED, epoch = epoch c + 1, influenced = True\<rparr>"
| agent_restored: "controlled_by c \<in> {RESUME_REQUESTED, RECONCILING} \<Longrightarrow>
    control_step c (c\<lparr>controlled_by := AGENT_CONTROLLED, epoch := epoch c + 1\<rparr>)"
| lease_expired: "controlled_by c \<in> {AGENT_CONTROLLED, QUIESCING, HUMAN_CONTROLLED, RECONCILING} \<Longrightarrow>
    control_step c (c\<lparr>controlled_by := NO_CONTROLLER, epoch := epoch c + 1\<rparr>)"

inductive_cases control_step_cases: "control_step c d"

inductive_simps control_step_lost: "control_step \<lparr>controlled_by = NO_CONTROLLER, epoch = k, influenced = b\<rparr> d"

text \<open>A session without a controller never gets one again.\<close>

lemma no_controller_stays: "control_step c d \<Longrightarrow> controlled_by c \<noteq> NO_CONTROLLER"
  by (cases rule: control_step_cases) auto

lemma lost_control_is_final:
  "control_step\<^sup>*\<^sup>* c d \<Longrightarrow> controlled_by c = NO_CONTROLLER \<Longrightarrow> d = c"
  by (induction rule: converse_rtranclp_induct) (auto dest: no_controller_stays)

lemma control_steps_grow:
  "control_step\<^sup>*\<^sup>* c d \<Longrightarrow> epoch c \<le> epoch d \<and> (influenced c \<longrightarrow> influenced d)
     \<and> (epoch c = epoch d \<longrightarrow> influenced c = influenced d)"
  by (induction rule: rtranclp_induct) (auto elim!: control_step_cases)

definition control_of :: "live_session \<Rightarrow> control" where
  "control_of s = \<lparr>controlled_by = ls_state s, epoch = ls_control_epoch s, influenced = ls_human_influenced s\<rparr>"

lemma control_of_simps [simp]: "controlled_by (control_of s) = ls_state s"
  "epoch (control_of s) = ls_control_epoch s" "influenced (control_of s) = ls_human_influenced s"
  by (simp_all add: control_of_def)

subsection \<open>Transactions move sessions\<close>

definition moved :: "live_session list \<Rightarrow> live_session \<Rightarrow> bool" where
  "moved S s' \<longleftrightarrow> (\<exists>s \<in> set S. ls_id s = ls_id s' \<and> control_step\<^sup>*\<^sup>* (control_of s) (control_of s'))
     \<or> (ls_id s' \<notin> ls_id ` set S \<and> control_step\<^sup>*\<^sup>* initial_control (control_of s'))"

definition moves :: "live_db \<Rightarrow> live_db \<Rightarrow> bool" where
  "moves db db' \<longleftrightarrow> (\<forall>s' \<in> set (sessions db'). moved (sessions db) s')
     \<and> ls_id ` set (sessions db) \<subseteq> ls_id ` set (sessions db')"

lemma moves_same: "sessions db' = sessions db \<Longrightarrow> moves db db'"
  by (auto simp: moves_def moved_def)

lemma moved_trans:
  assumes "moves a b" and "s2 \<in> set (sessions b)" and "ls_id s2 = ls_id s3"
    and "control_step\<^sup>*\<^sup>* (control_of s2) (control_of s3)"
  shows "moved (sessions a) s3"
proof -
  have "moved (sessions a) s2" using assms(1,2) by (simp add: moves_def)
  with assms(3,4) show ?thesis unfolding moved_def by (metis rtranclp_trans)
qed

lemma moves_trans:
  assumes "moves a b" and "moves b c"
  shows "moves a c"
proof -
  have "moved (sessions a) s3" if "s3 \<in> set (sessions c)" for s3
  proof -
    have "moved (sessions b) s3" using assms(2) that by (simp add: moves_def)
    then consider s2 where "s2 \<in> set (sessions b)" "ls_id s2 = ls_id s3"
        "control_step\<^sup>*\<^sup>* (control_of s2) (control_of s3)"
      | "ls_id s3 \<notin> ls_id ` set (sessions b)" "control_step\<^sup>*\<^sup>* initial_control (control_of s3)"
      unfolding moved_def by blast
    then show ?thesis
    proof cases
      case 1
      then show ?thesis by (rule moved_trans [OF assms(1)])
    next
      case 2
      then show ?thesis using assms(1) unfolding moves_def moved_def by blast
    qed
  qed
  moreover have "ls_id ` set (sessions a) \<subseteq> ls_id ` set (sessions c)"
    using assms unfolding moves_def by (meson subset_trans)
  ultimately show ?thesis by (simp add: moves_def)
qed

lemma moves_put_where:
  assumes "sessions db' = put_where p f (sessions db)"
    and "\<And>x. x \<in> set (sessions db) \<Longrightarrow> p x \<Longrightarrow>
      ls_id (f x) = ls_id x \<and> control_step\<^sup>*\<^sup>* (control_of x) (control_of (f x))"
  shows "moves db db'"
proof -
  have "moved (sessions db) s'" if "s' \<in> set (sessions db')" for s'
  proof (cases "\<exists>x \<in> set (sessions db). p x \<and> s' = f x")
    case True
    then show ?thesis using assms(2) unfolding moved_def by metis
  next
    case False
    then have "s' \<in> set (sessions db)" using that unfolding assms(1) set_put_where by blast
    then show ?thesis unfolding moved_def by blast
  qed
  moreover have "ls_id x \<in> ls_id ` set (put_where p f (sessions db))" if "x \<in> set (sessions db)" for x
  proof (cases "p x")
    case True
    then have "ls_id x = ls_id (f x)" "f x \<in> set (put_where p f (sessions db))"
      using assms(2) that by (auto simp: set_put_where)
    then show ?thesis by (rule image_eqI)
  next
    case False
    with that show ?thesis by (auto simp: set_put_where)
  qed
  ultimately show ?thesis unfolding moves_def assms(1) by blast
qed

lemma moves_step:
  assumes "base_inv t db" and "s \<in> set (sessions db)"
    and "sessions db' = put_where (\<lambda>x. ls_id x = ls_id s \<and> q x) f (sessions db)"
    and "ls_id (f s) = ls_id s" and "control_step\<^sup>*\<^sup>* (control_of s) (control_of (f s))"
  shows "moves db db'"
  using session_unique [OF assms(1,2)] assms(4,5) by (intro moves_put_where [OF assms(3)]) auto

subsection \<open>Statements\<close>

named_theorems frames "tables a statement leaves alone"

lemma update_sessions_Inr [frames]:
  "update_sessions now p f db = Inr (rows, db') \<Longrightarrow> sessions db' = put_where p f (sessions db)"
  by (auto simp: update_sessions_def result_simps table_simps)

lemma update_leases_frame [frames]: "update_leases now p f db = Inr (rows, db') \<Longrightarrow> sessions db' = sessions db"
  by (auto simp: update_leases_def result_simps)

lemma update_commands_frame [frames]: "update_commands now p f db = Inr (rows, db') \<Longrightarrow> sessions db' = sessions db"
  by (auto simp: update_commands_def result_simps)

lemma update_grants_frame [frames]: "update_grants p f db = Inr (rows, db') \<Longrightarrow> sessions db' = sessions db"
  by (auto simp: update_grants_def result_simps)

lemma revoke_issued_grants_frame [frames]: "revoke_issued_grants now i db = Inr db' \<Longrightarrow> sessions db' = sessions db"
  unfolding revoke_issued_grants_def by (elim result_elims) (auto dest: frames)

lemma reject_pending_commands_frame [frames]:
  "reject_pending_commands now i db = Inr db' \<Longrightarrow> sessions db' = sessions db"
  unfolding reject_pending_commands_def by (elim result_elims) (auto dest: frames)

lemma append_event_frame [frames]: "append_event i s ty payload at db = Inr db' \<Longrightarrow> sessions db' = sessions db"
  using append_event_Inr by blast

lemma create_frames [frames]:
  "create_lease l db = Inr (l', db') \<Longrightarrow> sessions db' = sessions db"
  "create_command c db = Inr (c', db') \<Longrightarrow> sessions db' = sessions db"
  "create_action_grant g db = Inr (g', db') \<Longrightarrow> sessions db' = sessions db"
  by (auto simp: create_lease_def create_command_def create_action_grant_def result_simps
      split: option.split_asm)

lemma heartbeat_lease_frame [frames]: "heartbeat_lease s l e now db = Inr (r, db') \<Longrightarrow> sessions db' = sessions db"
  unfolding heartbeat_lease_def by (elim result_elims) (auto dest: frames)

lemma consume_grant_row_frame [frames]: "consume_grant_row g now db = Inr (r, db') \<Longrightarrow> sessions db' = sessions db"
  unfolding consume_grant_row_def by (elim result_elims) (auto dest: frames)

lemma complete_grant_row_frame [frames]:
  "complete_grant_row g i e v now db = Inr (r, db') \<Longrightarrow> sessions db' = sessions db"
  unfolding complete_grant_row_def by (elim result_elims) (auto dest: frames)

lemma grant_control_frame [frames]:
  "grant_control ids now c x owner ttl s db = Inr db' \<Longrightarrow> sessions db' = sessions db"
  unfolding grant_control_def by (elim result_elims, simp_all) (auto dest: frames)

lemma create_session_Inr:
  "create_session s db = Inr (Some s', db') \<Longrightarrow> s' = s \<and> sessions db' = sessions db @ [s]
     \<and> ls_id s \<notin> ls_id ` set (sessions db)"
  by (auto simp: create_session_def sql_insert_or_skip_def result_simps list_ex_iff
      split: if_split_asm option.split_asm)

subsection \<open>Operations of the repository\<close>

lemma expire_current_control_moves:
  assumes "base_inv t db" and "s \<in> set (sessions db)"
    and "ls_state s \<in> {AGENT_CONTROLLED, QUIESCING, HUMAN_CONTROLLED, RECONCILING}"
    and "expire_current_control s l now db = Inr (r, db')"
  shows "moves db db'"
  using assms(4) unfolding expire_current_control_def
proof (elim result_elims, goal_cases)
  case (1 x a b)
  then show ?case by (intro moves_same) (auto dest: frames)
next
  case (2 x a b c d e f g h i j)
  have "control_step (control_of s) (control_of (expired_session now s))"
    using lease_expired [of "control_of s"] assms(3)
    by (simp add: control_of_def expired_session_def)
  with 2 show ?case
    by (intro moves_step [OF assms(1,2), where f = "expired_session now"])
      (auto dest!: frames simp: expired_session_def [abs_def])
qed

lemma request_transition_moves:
  assumes "base_inv t db" and "s \<in> set (sessions db)"
    and step: "control_step (control_of s) (control_of (requested_session st now s))"
    and "request_transition s st now b db = Inr (r, db')"
  shows "moves db db'"
proof (rule moves_step [OF assms(1,2), where f = "requested_session st now"
      and q = "\<lambda>x. ls_revision x = ls_revision s \<and> ls_control_epoch x = ls_control_epoch s"])
  show "sessions db' = put_where (\<lambda>x. ls_id x = ls_id s \<and> ls_revision x = ls_revision s
      \<and> ls_control_epoch x = ls_control_epoch s) (requested_session st now) (sessions db)"
    using assms(4) unfolding request_transition_def requested_session_def [abs_def]
    by (elim result_elims) (auto dest!: frames)
qed (use step in \<open>auto simp: requested_session_def\<close>)

lemma apply_transition_sessions:
  "apply_transition s c st r h d now db = Inr (x, db') \<Longrightarrow> sessions db' = put_where
     (\<lambda>x. ls_id x = ls_id s \<and> ls_revision x = ls_revision s
        \<and> ls_control_epoch x = ls_control_epoch s \<and> ls_fencing_token x = ls_fencing_token s)
     (\<lambda>x. x\<lparr>ls_state := st, ls_control_epoch := ls_control_epoch s + 1,
        ls_fencing_token := ls_fencing_token s + 1, ls_browser_revision := r, ls_human_influenced := h,
        ls_revision := ls_revision x + 1, ls_updated_at := now\<rparr>) (sessions db)"
  unfolding apply_transition_def Let_def by (elim result_elims) (auto dest!: frames)

lemma apply_transition_member:
  "apply_transition s c st r h d now db = Inr (x, db') \<Longrightarrow> s \<in> set (sessions db) \<Longrightarrow>
     applied_session st r h now s \<in> set (sessions db')"
  by (drule apply_transition_sessions) (auto simp: set_put_where applied_session_def)

lemma apply_transition_moves:
  assumes "base_inv t db" and "s \<in> set (sessions db)"
    and step: "control_step (control_of s) (control_of (applied_session st r h now s))"
    and "apply_transition s c st r h d now db = Inr (x, db')"
  shows "moves db db'"
  by (rule moves_step [OF assms(1,2) apply_transition_sessions [OF assms(4)]])
    (use step in \<open>auto simp: applied_session_def control_of_def\<close>)

lemma advance_browser_revision_moves:
  "advance_browser_revision s v now db = Inr (r, db') \<Longrightarrow> moves db db'"
  unfolding advance_browser_revision_def
  by (elim result_elims, simp_all) (auto simp: control_of_def dest!: frames intro!: moves_put_where)

subsection \<open>Handlers\<close>

lemma held_states:
  assumes "live_inv t db" and "s \<in> set (sessions db)" and "get_current_lease db (ls_id s) = Inr (Some l)"
  shows "ls_state s \<in> {AGENT_CONTROLLED, QUIESCING, HUMAN_CONTROLLED, RECONCILING}"
  using control_shape [OF control_okD [OF assms(1,2)]] agent_controlled_current(1) [OF assms]
  by (cases rule: state_shape_cases) auto

lemma expire_control_moves:
  assumes "live_inv now db" and "s \<in> set (sessions db)"
    and "get_current_lease db (ls_id s) = Inr (Some l)"
    and "expire_control i s l now db = Inr (r, db')"
  shows "moves db db'"
proof -
  have base: "base_inv now db" using assms(1) by (simp add: live_inv_def)
  obtain x db1 where "expire_current_control s l now db = Inr (x, db1)" "sessions db' = sessions db1"
    using assms(4) unfolding expire_control_def
    by (elim result_elims, simp_all) (auto dest: frames)
  with expire_current_control_moves [OF base assms(2) held_states [OF assms(1-3)]] show ?thesis
    by (auto simp: moves_def)
qed

lemma renew_lease_frame [frames]: "renew_lease now r s l x db = Inr (v, db') \<Longrightarrow> sessions db' = sessions db"
  unfolding renew_lease_def by (elim result_elims, simp_all) (auto dest: frames)

lemma runtime_session_row: "require_runtime_session db a = Inr s \<Longrightarrow> s \<in> set (sessions db)"
  using runtime_session_Inr read_session_Inr by blast

lemma heartbeat_moves:
  assumes inv: "live_inv now db" and "heartbeat ids now a r w db = Inr (v, db')"
  shows "moves db db'"
  using assms(2) unfolding heartbeat_def heartbeat_session_def
  by (elim result_elims, simp_all)
    (auto dest: expire_control_moves [OF inv runtime_session_row] frames intro: moves_same)

lemma reap_loop_moves:
  assumes "live_inv now db" and "inj ids" and "\<forall>n \<ge> k. ids n \<notin> le_id ` set (events db)"
    and "reap_loop ids now k is db = Inr (n, db')"
  shows "moves db db'"
  using assms
proof (induction "is" arbitrary: k db)
  case Nil
  then show ?case by (simp add: moves_same)
next
  case (Cons i "is")
  note inv = Cons.prems(1)
  have base: "base_inv now db" using inv by (simp add: live_inv_def)
  show ?case
  proof (cases "get_session_by_id db i")
    case (Inl f)
    with Cons.prems(4) show ?thesis by simp
  next
    case found: (Inr x)
    show ?thesis
    proof (cases x)
      case None
      with found Cons show ?thesis by simp
    next
      case (Some s)
      with found have s: "s \<in> set (sessions db)"
        unfolding get_session_by_id_def by (auto dest: model_first_row)
      show ?thesis
      proof (cases rule: current_lease_cases [OF inv s])
        case 1
        with found Some Cons show ?thesis by simp
      next
        case (2 l)
        have id: "ids k \<notin> le_id ` set (events db)" using Cons.prems(3) by auto
        show ?thesis
        proof (cases rule: expire_control_ok [OF inv s agent_controlled_current(1) [OF inv s 2] id])
          case (1 db1)
          have later: "ids n \<notin> le_id ` set (events db1)" if "Suc k \<le> n" for n
            using 1(8) Cons.prems(2,3) that by (auto dest: injD)
          have "reap_loop ids now (Suc k) is db1 = Inr (n, db')"
            using Cons.prems(4) found Some 1(2) 2 by simp
          from moves_trans [OF expire_control_moves [OF inv s 2 1(2)]
              Cons.IH [OF 1(3) Cons.prems(2) _ this]] later show ?thesis by blast
        next
          case 2
          with \<open>get_current_lease db (ls_id s) = Inr (Some l)\<close> found Some Cons show ?thesis by simp
        qed
      qed
    qed
  qed
qed

lemma reap_expired_moves:
  assumes "live_inv now db" and "fresh ids db" and "reap_expired ids now actor n db = Inr (v, db')"
  shows "moves db db'"
proof -
  obtain k db1 where "reap_loop ids now 0 (claim_expired_session_ids db now (nat n)) db = Inr (k, db1)"
    and "db' = db1"
    using assms(3) unfolding reap_expired_def by (elim result_elims) auto
  then show ?thesis
    using reap_loop_moves [OF assms(1), of ids 0] fresh_ids(5) [OF assms(2)] assms(2)
    by (auto simp: fresh_def)
qed

lemma validate_transition_state: "validate_transition db s l ct now = Inr u \<Longrightarrow> ls_state s = expected_state ct"
  by (simp add: validate_transition_def split: if_splits)

lemma request_step:
  "ls_state s = expected_state ct \<Longrightarrow>
     control_step (control_of s) (control_of (requested_session (fst (requested_state ct)) now s))"
  using control_step.intros(1-3) [of "control_of s"]
  by (cases ct) (simp_all add: control_of_def requested_session_def)

lemma accept_request_moves:
  assumes "base_inv t db" and "s \<in> set (sessions db)"
    and "accept_request ids now ct actor r e k db s = Inr (v, db')"
  shows "moves db db'"
proof -
  obtain db1 x lease where "request_transition s (fst (requested_state ct)) now (snd (requested_state ct)) db
        = Inr (x, db1)" and "sessions db' = sessions db1"
      and "validate_transition db s lease ct now = Inr ()"
    using assms(3) unfolding accept_request_def
    by (elim result_elims, simp_all) (auto dest!: frames)
  with request_transition_moves [OF assms(1,2) request_step [OF validate_transition_state]] show ?thesis
    by (auto simp: moves_def)
qed

lemma request_live_transition_moves:
  assumes "live_inv now db" and "request_live_transition ids now ct actor a r e k db = Inr (v, db')"
  shows "moves db db'"
proof -
  have base: "base_inv now db" using assms(1) by (simp add: live_inv_def)
  obtain s where "s \<in> set (sessions db)"
    and "db' = db \<or> accept_request ids now ct actor r e k db s = Inr (v, db')"
    using assms(2) unfolding request_live_transition_def
    by (elim result_elims, simp_all) (blast dest: operable_Inr read_session_Inr)+
  then show ?thesis by (elim disjE) (auto intro: moves_same accept_request_moves [OF base])
qed

lemma pending_states:
  assumes "live_inv t db" and "s \<in> set (sessions db)" and "c \<in> set (commands db)"
    and "lc_session c = ls_id s" and "lc_status c = COMMAND_PENDING"
  shows "ls_state s = (case lc_command_type c of
     RESUME \<Rightarrow> RESUME_REQUESTED | RETURN \<Rightarrow> RECONCILING | _ \<Rightarrow> QUIESCING)"
proof -
  have "c \<in> set (pending (commands db) (ls_id s))" using assms by (simp add: in_pending)
  with control_shape [OF control_okD [OF assms(1,2)]] show ?thesis
    by (cases rule: state_shape_cases) auto
qed

lemma apply_step:
  assumes "ls_state s = (case lc_command_type c of
      RESUME \<Rightarrow> RESUME_REQUESTED | RETURN \<Rightarrow> RECONCILING | _ \<Rightarrow> QUIESCING)"
    and "ack_target c r = Inr (st, owner, ttl)"
  shows "control_step (control_of s)
    (control_of (applied_session st v (ls_human_influenced s \<or> lc_command_type c = TAKEOVER) now s))"
  using assms control_step.intros(4-6) [of "control_of s"]
  by (cases "lc_command_type c") (auto simp: control_of_def applied_session_def split: option.splits)

lemma apply_command_moves:
  assumes "base_inv t db" and "s \<in> set (sessions db)"
    and "ls_state s = (case lc_command_type c of
      RESUME \<Rightarrow> RESUME_REQUESTED | RETURN \<Rightarrow> RECONCILING | _ \<Rightarrow> QUIESCING)"
    and "apply_command ids now r w s c x db = Inr (v, db')"
  shows "moves db db'"
proof -
  obtain st owner ttl db1 y where "ack_target c r = Inr (st, owner, ttl)"
    and "apply_transition s c st (ak_browser_revision r)
         (ls_human_influenced s \<or> lc_command_type c = TAKEOVER) (ak_checkpoint_digest r) now db = Inr (y, db1)"
    and "sessions db' = sessions db1"
    using assms(4) unfolding apply_command_def
    by (elim result_elims, simp_all del: ack_target.simps) (auto simp del: ack_target.simps dest!: frames)
  with apply_transition_moves [OF assms(1,2) apply_step [OF assms(3)]] show ?thesis
    by (auto simp: moves_def)
qed

lemma find_command_Inr:
  "find_command db i = Inr (Some c) \<Longrightarrow> c \<in> set (commands db) \<and> lc_id c = i"
  unfolding find_command_def by (drule model_first_row) simp

lemma acknowledge_moves:
  assumes inv: "live_inv now db" and "acknowledge ids now a r w db = Inr (v, db')"
  shows "moves db db'"
proof -
  have base: "base_inv now db" using inv by (simp add: live_inv_def)
  obtain s c x where s: "require_runtime_session db a = Inr s"
    and c: "find_command db (ak_command_id r) = Inr (Some c)" "lc_session c = ls_id s"
    and ways: "db' = db \<or> lc_status c = COMMAND_PENDING \<and> apply_command ids now r w s c x db = Inr (v, db')"
    using assms(2) unfolding acknowledge_def acknowledge_session_def
    by (elim result_elims, simp_all) blast+
  note row = runtime_session_row [OF s]
  from ways show ?thesis
    using apply_command_moves [OF base row pending_states [OF inv row]] find_command_Inr [OF c(1)] c(2)
    by (auto intro: moves_same)
qed

lemma apply_command_member:
  assumes "base_inv t db" and "s \<in> set (sessions db)"
    and "apply_command ids now r w s c x db = Inr (v, db')"
  shows "sn_session v \<in> set (sessions db')"
proof -
  obtain st h u y db1 where "apply_transition s c st (ak_browser_revision r) h (ak_checkpoint_digest r) now db
           = Inr ((u, y), db1)"
    and "take_snapshot db' u now = Inr v" and "sessions db' = sessions db1"
    using assms(3) unfolding apply_command_def
    by (elim result_elims, simp_all del: ack_target.simps) (auto simp del: ack_target.simps dest!: frames)
  then show ?thesis
    using apply_transition_member [of s c st _ h _ now db] apply_transition_Inr [OF assms(1,2)] assms(2)
      take_snapshot_session by metis
qed

lemma acknowledge_member:
  assumes "base_inv t db" and "acknowledge ids now a r w db = Inr (v, db')"
    and "find_command db (ak_command_id r) = Inr (Some c)" and "lc_status c = COMMAND_PENDING"
  shows "sn_session v \<in> set (sessions db')"
proof -
  obtain s x where "require_runtime_session db a = Inr s" "apply_command ids now r w s c x db = Inr (v, db')"
    using assms(2-4) unfolding acknowledge_def acknowledge_session_def
    by (elim result_elims, simp_all)
  with apply_command_member [OF assms(1) runtime_session_row] show ?thesis by blast
qed

lemma moves_after: "moves a b \<Longrightarrow> sessions b' = sessions b \<Longrightarrow> moves a b'"
  and moves_before: "moves b c \<Longrightarrow> sessions a = sessions b \<Longrightarrow> moves a c"
  by (simp_all add: moves_def moved_def)

lemma complete_action_grant_moves:
  "complete_action_grant ids now a i r db = Inr (v, db') \<Longrightarrow> moves db db'"
  unfolding complete_action_grant_def
  by (elim result_elims, simp_all)
    (auto dest!: append_event_frame complete_grant_row_frame advance_browser_revision_moves
      intro: moves_same moves_after moves_before)

lemma grant_frames:
  "issue_new_grant ids now q s l db = Inr (v, db') \<Longrightarrow> sessions db' = sessions db"
  "consume_action_grant ids now a i r db = Inr (v, db') \<Longrightarrow> sessions db' = sessions db"
  unfolding issue_new_grant_def consume_action_grant_def
  by (elim result_elims, simp_all, auto dest!: frames)+

lemma issue_action_grant_frame:
  "issue_action_grant ids now a r w db = Inr (v, db') \<Longrightarrow> sessions db' = sessions db"
  unfolding issue_action_grant_def by (elim result_elims, simp_all) (auto dest: grant_frames)

lemma initialize_moves: "initialize ids now a r w db = Inr (v, db') \<Longrightarrow> moves db db'"
proof -
  have new: "moves db db2" if est: "establish_session ids now r w x t db = Inr (v, db2)" for x t db2
  proof -
    have "\<exists>s. sessions db2 = sessions db @ [s] \<and> control_of s = initial_control
        \<and> ls_id s \<notin> ls_id ` set (sessions db)"
      using est unfolding establish_session_def initial_control_def
      by (elim result_elims, simp_all)
        (auto dest!: frames create_session_Inr simp: construct_Inr control_of_def)
    then show ?thesis by (auto simp: moves_def moved_def)
  qed
  assume "initialize ids now a r w db = Inr (v, db')"
  then show ?thesis unfolding initialize_def
    by (elim result_elims, simp_all) (auto intro: new moves_same)
qed

subsection \<open>Executions\<close>

lemma run_live_moves:
  assumes inv: "live_inv now db" and adm: "live_admissible ids op db"
    and run: "run_live ids now op db = Inr (r, db')"
  shows "moves db db'"
  using run adm
  by (cases op)
    (auto dest!: respond_Inr intro: moves_same initialize_moves heartbeat_moves [OF inv]
      reap_expired_moves [OF inv] acknowledge_moves [OF inv] complete_action_grant_moves
      request_live_transition_moves [OF inv] simp: live_admissible_def
      dest: reads_change_nothing issue_action_grant_frame grant_frames(2))

lemma reaches_moves:
  assumes "reaches run_live live_admissible t db u db'" and "service_inv t db"
  shows "moves db db'"
  using assms
proof (induction rule: reaches.induct)
  case (reaches_start t s)
  show ?case by (simp add: moves_same)
next
  case (reaches_step t s u s1 now ids op)
  have inv: "live_inv now s1"
    using live.reaches_inv [OF reaches_step.hyps(1) reaches_step.prems] live_inv_later reaches_step.hyps(2)
    by (auto simp: service_inv_def)
  have "moves s1 (snd (commit s1 (run_live ids now op s1)))"
    using run_live_moves [OF inv reaches_step.hyps(3)]
    by (cases "run_live ids now op s1") (auto intro: moves_same)
  with reaches_step show ?case by (blast intro: moves_trans)
qed

lemma live_reaches_moves:
  "live_reachable t db \<Longrightarrow> live_reaches t db u db' \<Longrightarrow> moves db db'"
  unfolding live_reaches_def
  using reaches_moves live.reaches_inv [OF _ empty_service_inv]
  by (auto simp: live_reachable_def live_reaches_def)

lemma moves_session:
  assumes "moves db db'" and "base_inv t db" and "s \<in> set (sessions db)"
  obtains s' where "s' \<in> set (sessions db')" and "ls_id s' = ls_id s"
    and "control_step\<^sup>*\<^sup>* (control_of s) (control_of s')"
proof -
  have "ls_id s \<in> ls_id ` set (sessions db')" using assms(1,3) unfolding moves_def by blast
  then obtain s' where s': "s' \<in> set (sessions db')" "ls_id s' = ls_id s" by auto
  then have "moved (sessions db) s'" using assms(1) by (simp add: moves_def)
  then obtain z where "z \<in> set (sessions db)" "ls_id z = ls_id s'"
      "control_step\<^sup>*\<^sup>* (control_of z) (control_of s')"
    using assms(3) s'(2) unfolding moved_def by (metis imageI)
  with session_unique [OF assms(2,3)] s' show thesis by (intro that [of s']) auto
qed

lemma reachable_controls:
  assumes "live_reachable t db" and "s \<in> set (sessions db)"
  shows "control_step\<^sup>*\<^sup>* initial_control (control_of s)"
proof -
  have "moves empty_live_db db"
    using reaches_moves [OF _ empty_service_inv] assms(1)
    by (simp add: live_reachable_def live_reaches_def)
  then show ?thesis using assms(2) by (auto simp: moves_def moved_def empty_live_db_def)
qed

end
