(* ===== verification/Live_Demo.thy ===== *)
theory Live_Demo
  imports Live_Protocol
begin

text \<open>
  One run of the live control on concrete data, which the witnesses of its properties evaluate:
  an attempt and its ticket appear, the worker initialises the session, has an action granted,
  consumes and completes it, a person asks for a takeover, the worker acknowledges it, and the
  person's lease expires.
\<close>

definition demo_digest :: string where
  "demo_digest = ''sha256:'' @ replicate 64 (CHR ''0'')"

definition demo_scope :: unit_scope where
  "demo_scope = \<lparr>tenant_id = 1, project_id = 2, task_run_id = 3, execution_unit_id = 4,
     unit_attempt_id = 5\<rparr>"

definition demo_attempt :: unit_attempt where
  "demo_attempt = \<lparr>ua_scope = demo_scope, ua_manifest_hash = demo_digest, ua_unit_key = ''unit-1'',
     ua_lifecycle = RUNNING, ua_execution_deadline = seconds 3600\<rparr>"

definition demo_ticket :: execution_ticket where
  "demo_ticket = \<lparr>tk_id = 6, tk_scope = demo_scope, tk_manifest_hash = demo_digest,
     tk_unit_key = ''unit-1'', tk_environment_id = 7, tk_ticket_digest = demo_digest\<rparr>"

definition demo_person :: actor_context where
  "demo_person = \<lparr>actor_tenant_id = 1, actor_id = Some 9, request_id = ''request-1'', session_id = None,
     current_project_id = Some 2, grants = [\<lparr>grant_role = RUN_OPERATOR, grant_project = Some 2\<rparr>],
     development_override = False\<rparr>"

definition demo_admin :: actor_context where
  "demo_admin = demo_person\<lparr>grants := [\<lparr>grant_role = ORG_ADMIN, grant_project = None\<rparr>]\<rparr>"

definition demo_initialize :: live_op where
  "demo_initialize = Initialize 5 \<lparr>in_browser_session_id = ''browser-1'', in_owner_id = ''worker-1'',
     in_browser_revision = 1, in_requested_ttl_sec = 120\<rparr> ''worker-1''"

definition demo_grant_request :: grant_request where
  "demo_grant_request = \<lparr>gr_action_id = 50, gr_proposal_digest = demo_digest, gr_page_id = ''page-1'',
     gr_page_revision = 1, gr_control_epoch = 1, gr_fencing_token = 1, gr_allowed_adapter = ''playwright'',
     gr_policy_digest = demo_digest, gr_requested_ttl_sec = 30\<rparr>"

definition demo_consume_request :: consume_request where
  "demo_consume_request = \<lparr>cn_control_epoch = 1, cn_fencing_token = 1, cn_proposal_digest = demo_digest\<rparr>"

definition demo_complete_request :: complete_request where
  "demo_complete_request = \<lparr>co_control_epoch = 1, co_fencing_token = 1, co_receipt_id = 60,
     co_execution_status = SUCCEEDED, co_resulting_page_revision = 2\<rparr>"

definition demo_live_request :: live_request where
  "demo_live_request = \<lparr>lr_reason = ''check'', lr_requested_ttl_sec = None\<rparr>"

definition demo_acknowledge_request :: acknowledge_request where
  "demo_acknowledge_request = \<lparr>ak_command_id = 140, ak_expected_control_epoch = 1,
     ak_expected_fencing_token = 1, ak_browser_revision = 2, ak_checkpoint_digest = demo_digest,
     ak_agent_owner_id = ''worker-1''\<rparr>"

definition demo_heartbeat_request :: heartbeat_request where
  "demo_heartbeat_request = \<lparr>hb_control_epoch = 1, hb_fencing_token = 1, hb_requested_ttl_sec = 120\<rparr>"

lemma demo_valid [simp]:
  "digest_pattern demo_digest" "safe_identifier ''browser-1''" "safe_identifier ''page-1''"
  "safe_identifier ''playwright''" "safe_owner ''worker-1''" "safe_text ''check''"
  "mutation_pattern ''takeover-1''" "safe_text ''takeover applied''"
  "event_type_pattern ''live_control.takeover.requested''"
  "event_type_pattern ''live_control.takeover.applied''"
  by code_simp+

lemmas demo_requests = demo_initialize_def demo_grant_request_def demo_consume_request_def
  demo_complete_request_def demo_live_request_def demo_acknowledge_request_def
  demo_heartbeat_request_def demo_attempt_def demo_ticket_def demo_scope_def

subsection \<open>The states\<close>

definition demo0 :: live_db where
  "demo0 = empty_live_db\<lparr>attempts := [demo_attempt], tickets := [demo_ticket],
     environments := [(7, ''STAGING'')]\<rparr>"

definition demo_session :: live_session where
  "demo_session = \<lparr>ls_id = 100, ls_scope = demo_scope, ls_execution_ticket_id = 6,
     ls_execution_ticket_digest = demo_digest, ls_browser_session_id = ''browser-1'',
     ls_state = AGENT_CONTROLLED, ls_control_epoch = 1, ls_fencing_token = 1,
     ls_browser_revision = 1, ls_human_influenced = False, ls_revision = 1,
     ls_created_at = seconds 1, ls_updated_at = seconds 1, ls_closed_at = None\<rparr>"

definition demo_lease :: control_lease where
  "demo_lease = \<lparr>cl_id = 101, cl_scope = demo_scope, cl_session = 100, cl_owner_type = AGENT,
     cl_owner_id = ''worker-1'', cl_control_epoch = 1, cl_fencing_token = 1, cl_state = LEASE_ACTIVE,
     cl_expires_at = seconds 121, cl_reason = ''initial agent control'', cl_created_by = None,
     cl_created_at = seconds 1, cl_updated_at = seconds 1, cl_released_at = None\<rparr>"

definition demo_event :: "uuid \<Rightarrow> nat \<Rightarrow> string \<Rightarrow> (string \<times> json) list \<Rightarrow> instant \<Rightarrow> live_event" where
  "demo_event i n ty payload t = \<lparr>le_id = i, le_scope = demo_scope, le_session = 100, le_seq = n,
     le_event_type = ty, le_control_epoch = 1, le_fencing_token = 1, le_payload = payload,
     le_occurred_at = t\<rparr>"

definition demo1 :: live_db where
  "demo1 = demo0\<lparr>sessions := [demo_session], leases := [demo_lease],
     events := [demo_event 102 1 ''live_session.initialized''
       [(''ownerType'', JString ''AGENT''), (''browserRevision'', JInt 1)] (seconds 1)]\<rparr>"

lemmas service_defs = Let_def attempt.simps model_row.simps fetch_one_def db_call.simps ensure_def construct_def
  take_snapshot_def append_event_def insert_event_def new_lease_def session_exists_def
  session_references_def grant_references_def get_session_by_attempt_def require_runtime_session_def
  load_attempt_and_ticket_def get_attempt_def get_ticket_by_attempt_def get_current_lease_def
  get_pending_command_def first_row_def rows_matching_def is_current_def sql_insert_def
  sql_insert_or_skip_def sql_update_def next_event_seq_def lease_conflicts_def command_conflicts_def
  session_valid_def session_check_def lease_valid_def lease_check_def event_valid_def event_check_def
  ticket_valid_def snapshot_valid_def ttl_within_def

lemma demo1_reached:
  "run_live (\<lambda>n. 100 + n) (seconds 1) demo_initialize demo0
     = Inr (SnapshotResponse \<lparr>sn_session = demo_session, sn_lease = Some demo_lease,
         sn_pending_command = None, sn_observed_at = seconds 1\<rparr>, demo1)"
  by (simp add: service_defs respond_def initialize_def establish_session_def create_session_def
      create_lease_def demo1_def demo0_def empty_live_db_def demo_session_def demo_lease_def
      demo_event_def demo_requests seconds_def)

definition demo_grant :: action_grant where
  "demo_grant = \<lparr>ag_id = 110, ag_scope = demo_scope, ag_session = 100, ag_control_lease_id = 101,
     ag_action_id = 50, ag_proposal_digest = demo_digest, ag_browser_session_id = ''browser-1'',
     ag_page_id = ''page-1'', ag_page_revision = 1, ag_control_epoch = 1, ag_fencing_token = 1,
     ag_owner_type = AGENT, ag_owner_id = ''worker-1'', ag_allowed_adapter = ''playwright'',
     ag_expires_at = seconds 32, ag_policy_digest = demo_digest, ag_state = GRANT_ISSUED,
     ag_created_at = seconds 2, ag_consumed_at = None, ag_completed_at = None, ag_revoked_at = None,
     ag_receipt_id = None, ag_execution_status = None, ag_resulting_page_revision = None\<rparr>"

definition demo2 :: live_db where
  "demo2 = demo1\<lparr>action_grants := [demo_grant],
     events := events demo1 @ [demo_event 111 2 ''live_action.grant_issued''
       [(''grantId'', JString (uuid_text 110)), (''actionId'', JString (uuid_text 50)),
        (''ownerType'', JString ''AGENT''), (''pageRevision'', JInt 1)] (seconds 2)]\<rparr>"

definition demo_consumed :: action_grant where
  "demo_consumed = demo_grant\<lparr>ag_state := GRANT_CONSUMED, ag_consumed_at := Some (seconds 3)\<rparr>"

definition demo3 :: live_db where
  "demo3 = demo2\<lparr>action_grants := [demo_consumed],
     events := events demo2 @ [demo_event 120 3 ''live_action.grant_consumed''
       [(''grantId'', JString (uuid_text 110)), (''actionId'', JString (uuid_text 50))] (seconds 3)]\<rparr>"

definition demo_completed :: action_grant where
  "demo_completed = demo_consumed\<lparr>ag_state := GRANT_COMPLETED, ag_completed_at := Some (seconds 4),
     ag_receipt_id := Some 60, ag_execution_status := Some SUCCEEDED,
     ag_resulting_page_revision := Some 2\<rparr>"

definition demo4 :: live_db where
  "demo4 = demo3\<lparr>action_grants := [demo_completed],
     sessions := [demo_session\<lparr>ls_browser_revision := 2, ls_revision := 2, ls_updated_at := seconds 4\<rparr>],
     events := events demo3 @ [demo_event 130 4 ''live_action.execution_completed''
       [(''grantId'', JString (uuid_text 110)), (''actionId'', JString (uuid_text 50)),
        (''receiptId'', JString (uuid_text 60)), (''status'', JString ''SUCCEEDED''),
        (''resultingPageRevision'', JInt 2)] (seconds 4)]\<rparr>"

definition demo_command :: live_command where
  "demo_command = \<lparr>lc_id = 140, lc_scope = demo_scope, lc_session = 100, lc_command_type = TAKEOVER,
     lc_client_mutation_id = ''takeover-1'', lc_reason = ''check'', lc_requested_ttl_sec = None,
     lc_expected_control_epoch = 1, lc_accepted_session_revision = 3, lc_status = COMMAND_PENDING,
     lc_requested_by = Some 9, lc_created_at = seconds 5, lc_updated_at = seconds 5,
     lc_applied_at = None, lc_resulting_control_epoch = None, lc_resulting_fencing_token = None,
     lc_checkpoint_digest = None\<rparr>"

definition demo5 :: live_db where
  "demo5 = demo4\<lparr>commands := [demo_command],
     sessions := [demo_session\<lparr>ls_state := QUIESCING, ls_browser_revision := 2, ls_revision := 3,
       ls_updated_at := seconds 5\<rparr>],
     leases := [demo_lease\<lparr>cl_state := LEASE_REVOKING, cl_updated_at := seconds 5\<rparr>],
     events := events demo4 @ [demo_event 141 5 ''live_control.takeover.requested''
       [(''commandId'', JString (uuid_text 140)), (''requestedBy'', JString (uuid_text 9)),
        (''reason'', JString ''check'')] (seconds 5)]\<rparr>"

definition demo_human_session :: live_session where
  "demo_human_session = demo_session\<lparr>ls_state := HUMAN_CONTROLLED, ls_control_epoch := 2,
     ls_fencing_token := 2, ls_browser_revision := 2, ls_human_influenced := True, ls_revision := 4,
     ls_updated_at := seconds 6\<rparr>"

definition demo_human_lease :: control_lease where
  "demo_human_lease = \<lparr>cl_id = 150, cl_scope = demo_scope, cl_session = 100, cl_owner_type = HUMAN,
     cl_owner_id = human_owner 9, cl_control_epoch = 2, cl_fencing_token = 2, cl_state = LEASE_ACTIVE,
     cl_expires_at = seconds 306, cl_reason = ''takeover applied'', cl_created_by = Some 9,
     cl_created_at = seconds 6, cl_updated_at = seconds 6, cl_released_at = None\<rparr>"

definition demo6 :: live_db where
  "demo6 = demo5\<lparr>sessions := [demo_human_session],
     commands := [demo_command\<lparr>lc_status := COMMAND_APPLIED, lc_updated_at := seconds 6,
       lc_applied_at := Some (seconds 6), lc_resulting_control_epoch := Some 2,
       lc_resulting_fencing_token := Some 2, lc_checkpoint_digest := Some demo_digest\<rparr>],
     leases := [demo_lease\<lparr>cl_state := LEASE_RELEASED, cl_updated_at := seconds 6,
       cl_released_at := Some (seconds 6)\<rparr>, demo_human_lease],
     events := events demo5 @ [(demo_event 151 6 ''live_control.takeover.applied''
       [(''commandId'', JString (uuid_text 140)), (''checkpointDigest'', JString demo_digest),
        (''browserRevision'', JInt 2), (''controllerType'', JString ''HUMAN'')] (seconds 6))
        \<lparr>le_control_epoch := 2, le_fencing_token := 2\<rparr>]\<rparr>"

definition demo_lost_session :: live_session where
  "demo_lost_session = demo_human_session\<lparr>ls_state := NO_CONTROLLER, ls_control_epoch := 3,
     ls_fencing_token := 3, ls_revision := 5, ls_updated_at := seconds 400\<rparr>"

definition demo7 :: live_db where
  "demo7 = demo6\<lparr>sessions := [demo_lost_session],
     leases := [demo_lease\<lparr>cl_state := LEASE_RELEASED, cl_updated_at := seconds 6,
       cl_released_at := Some (seconds 6)\<rparr>, demo_human_lease\<lparr>cl_state := LEASE_EXPIRED,
       cl_updated_at := seconds 400, cl_released_at := Some (seconds 400)\<rparr>],
     events := events demo6 @ [(demo_event 160 7 ''live_control.lease_expired''
       [(''leaseId'', JString (uuid_text 150)), (''ownerType'', JString ''HUMAN''),
        (''ownerId'', JString (human_owner 9)), (''expiredControlEpoch'', JInt 2),
        (''expiredFencingToken'', JInt 2)] (seconds 400))\<lparr>le_control_epoch := 3, le_fencing_token := 3\<rparr>]\<rparr>"

lemmas demo_dbs = empty_live_db_def demo0_def demo1_def demo2_def demo3_def demo4_def demo5_def
  demo6_def demo_session_def demo_lease_def demo_event_def demo_grant_def demo_consumed_def
  demo_completed_def demo_command_def demo_human_session_def demo_human_lease_def seconds_def

lemmas grant_defs = find_action_grant_def get_action_grant_by_action_def create_action_grant_def
  grant_valid_def grant_check_def grant_lifecycle_def receipt_absent_def receipt_complete_def
  update_grants_def update_sessions_def update_leases_def update_commands_def guard_grant_def
  guard_session_def guard_lease_def guard_command_def session_transition_def put_where_def

lemma demo2_reached:
  "run_live (\<lambda>n. 110 + n) (seconds 2) (IssueGrant 5 demo_grant_request ''worker-1'') demo1
     = Inr (GrantResponse demo_grant, demo2)"
  by (simp add: service_defs grant_defs respond_def issue_action_grant_def issue_new_grant_def
      demo_dbs demo_requests)

lemma demo3_reached:
  "run_live (\<lambda>n. 120 + n) (seconds 3) (ConsumeGrant 5 110 demo_consume_request) demo2
     = Inr (GrantResponse demo_consumed, demo3)"
  by (simp add: service_defs grant_defs respond_def consume_action_grant_def consume_grant_row_def
      grant_backed_def demo_dbs demo_requests)

lemma demo4_reached:
  "run_live (\<lambda>n. 130 + n) (seconds 4) (CompleteGrant 5 110 demo_complete_request) demo3
     = Inr (GrantResponse demo_completed, demo4)"
  by (simp add: service_defs grant_defs respond_def complete_action_grant_def complete_grant_row_def
      advance_browser_revision_def demo_dbs demo_requests)

lemmas command_defs = require_operable_def require_visible_def can_read_project_def can_operate_project_def
  holds_role_def is_organization_admin_def get_command_by_mutation_def accept_request_def
  validate_transition_def get_environment_kind_def request_transition_def revoke_issued_grants_def
  create_command_def command_valid_def command_check_def

lemma demo5_reached:
  "run_live (\<lambda>n. 140 + n) (seconds 5)
      (RequestControl TAKEOVER demo_person 5 demo_live_request 1 ''takeover-1'') demo4
     = Inr (CommandResponse demo_command False, demo5)"
  by (simp add: service_defs grant_defs command_defs respond_def request_live_transition_def
      demo_dbs demo_requests demo_person_def)

lemma demo6_reached:
  "run_live (\<lambda>n. 150 + n) (seconds 6) (Acknowledge 5 demo_acknowledge_request ''worker-1'') demo5
     = Inr (SnapshotResponse \<lparr>sn_session = demo_human_session, sn_lease = Some demo_human_lease,
         sn_pending_command = None, sn_observed_at = seconds 6\<rparr>, demo6)"
  by (simp add: service_defs grant_defs command_defs respond_def acknowledge_def acknowledge_session_def
      find_command_def has_inflight_action_def apply_command_def apply_transition_def grant_control_def
      create_lease_def DEFAULT_HUMAN_LEASE_TTL_def demo_dbs demo_requests)

subsection \<open>They are reached\<close>

lemma fresh_from: "\<forall>i \<in> used_ids db. i < k \<Longrightarrow> fresh (\<lambda>n. k + n) db"
  by (auto simp: fresh_def inj_on_def)

lemmas admissible_defs = live_admissible_def used_ids_def initialize_valid_def grant_request_valid_def
  consume_valid_def complete_valid_def live_request_valid_def acknowledge_valid_def heartbeat_valid_def

lemma demo_admissible:
  "live_admissible (\<lambda>n. 100 + n) (TaskSide [demo_attempt] [demo_ticket] [(7, ''STAGING'')]) empty_live_db"
  "live_admissible (\<lambda>n. 100 + n) demo_initialize demo0"
  "live_admissible (\<lambda>n. 110 + n) (IssueGrant 5 demo_grant_request ''worker-1'') demo1"
  "live_admissible (\<lambda>n. 120 + n) (ConsumeGrant 5 110 demo_consume_request) demo2"
  "live_admissible (\<lambda>n. 130 + n) (CompleteGrant 5 110 demo_complete_request) demo3"
  "live_admissible (\<lambda>n. 140 + n)
      (RequestControl TAKEOVER demo_person 5 demo_live_request 1 ''takeover-1'') demo4"
  "live_admissible (\<lambda>n. 150 + n) (Acknowledge 5 demo_acknowledge_request ''worker-1'') demo5"
  unfolding live_admissible_def
  by (intro conjI fresh_from; simp add: admissible_defs service_defs demo_dbs demo_requests)+

lemma demo0_reachable: "live_reachable 0 demo0"
  unfolding live_reachable_def
  by (rule live_reaches_one [OF _ demo_admissible(1), where r = NoResponse]) (simp_all add: demo0_def)

lemma demo_steps:
  "live_reaches 0 demo0 (seconds 1) demo1" "live_reaches (seconds 1) demo1 (seconds 2) demo2"
  "live_reaches (seconds 2) demo2 (seconds 3) demo3" "live_reaches (seconds 3) demo3 (seconds 4) demo4"
  "live_reaches (seconds 4) demo4 (seconds 5) demo5" "live_reaches (seconds 5) demo5 (seconds 6) demo6"
  by (rule live_reaches_one [OF _ demo_admissible(2) demo1_reached]
      live_reaches_one [OF _ demo_admissible(3) demo2_reached]
      live_reaches_one [OF _ demo_admissible(4) demo3_reached]
      live_reaches_one [OF _ demo_admissible(5) demo4_reached]
      live_reaches_one [OF _ demo_admissible(6) demo5_reached]
      live_reaches_one [OF _ demo_admissible(7) demo6_reached]; simp add: seconds_def)+

lemma demo1_reachable: "live_reachable (seconds 1) demo1"
  by (rule live_reachable_later [OF demo0_reachable demo_steps(1)])

lemma demo2_reachable: "live_reachable (seconds 2) demo2"
  by (rule live_reachable_later [OF demo1_reachable demo_steps(2)])

lemma demo3_reachable: "live_reachable (seconds 3) demo3"
  by (rule live_reachable_later [OF demo2_reachable demo_steps(3)])

lemma demo4_reachable: "live_reachable (seconds 4) demo4"
  by (rule live_reachable_later [OF demo3_reachable demo_steps(4)])

lemma demo5_reachable: "live_reachable (seconds 5) demo5"
  by (rule live_reachable_later [OF demo4_reachable demo_steps(5)])

lemma demo6_reachable: "live_reachable (seconds 6) demo6"
  by (rule live_reachable_later [OF demo5_reachable demo_steps(6)])

end
