(* ===== verification/Live_Properties.thy ===== *)
theory Live_Properties
  imports Live_Refinement Live_Demo
begin

text \<open>
  The properties of the live control, over whole executions: what a reachable state looks like,
  that nothing internal ever fails, that history only moves forward, who may act, that an action
  runs at most once, that a superseded controller stays fenced, and that retries are answered from
  the record.
\<close>

subsection \<open>Soundness\<close>

text \<open>
  C35: every state the live control reaches from empty tables satisfies its invariant: the rows pass
  their models and constraints, keys are unique, every reference exists, event numbers have no gaps,
  and the current lease, the pending command and the issued grants of a session are those of its state.
\<close>

theorem reachable_states_are_consistent:
  assumes "live_reachable t db"
  shows "base_inv t db \<and> controlled db"
  using reachable_inv [OF assms] by (simp add: live_inv_def)

theorem reachable_states_are_consistent_witness:
  "live_reachable (seconds 6) demo6 \<and> base_inv (seconds 6) demo6 \<and> controlled demo6"
  using reachable_states_are_consistent [OF demo6_reachable] demo6_reachable by blast



text \<open>
  History only moves forward.  Between two states of an execution no row of the live control's
  tables disappears, identities never change, epochs, fences, revisions and lease expiries never
  decrease, human influence is never forgotten, finished leases, commands and grants are frozen,
  and events are only appended.
\<close>

theorem history_only_moves_forward:
  assumes "live_reaches t db u db'"
  shows "(\<forall>s \<in> set (sessions db). \<exists>s' \<in> set (sessions db'). session_le s s')
    \<and> (\<forall>l \<in> set (leases db). \<exists>l' \<in> set (leases db'). lease_le l l')
    \<and> (\<forall>c \<in> set (commands db). \<exists>c' \<in> set (commands db'). command_le c c')
    \<and> (\<forall>g \<in> set (action_grants db). \<exists>g' \<in> set (action_grants db'). grant_le g g')
    \<and> (\<exists>new. events db' = events db @ new)"
  using live_reaches_forward [OF assms] unfolding forward_def by (auto dest: extends_row)

theorem history_only_moves_forward_witness:
  "\<exists>g \<in> set (action_grants demo4). grant_le demo_consumed g"
  using history_only_moves_forward [OF demo_steps(4)] by (auto simp: demo3_def)

text \<open>
  C36: a session has at most one controller.  In a reachable state two leases of one session that are
  both active or being revoked are the same lease, it carries the session's epoch and fence, and its
  owner is an agent or a person exactly as the session's state says.
\<close>

theorem one_controller_per_session:
  assumes "live_reachable t db" and "s \<in> set (sessions db)"
    and "l \<in> set (leases db)" and "cl_session l = ls_id s" and "is_current l"
    and "k \<in> set (leases db)" and "cl_session k = ls_id s" and "is_current k"
  shows "l = k \<and> cl_control_epoch l = ls_control_epoch s \<and> cl_fencing_token l = ls_fencing_token s
    \<and> cl_owner_type l = (if ls_state s \<in> {HUMAN_CONTROLLED, RECONCILING} then HUMAN else AGENT)"
  using current_lease_unique [OF reachable_inv [OF assms(1)] assms(2-5)]
    current_lease_unique [OF reachable_inv [OF assms(1)] assms(2,6-8)] by simp

theorem one_controller_per_session_witness:
  "cl_owner_type demo_human_lease = HUMAN \<and> cl_control_epoch demo_human_lease = 2"
  using one_controller_per_session [OF demo6_reachable, of demo_human_session demo_human_lease demo_human_lease]
  by (simp add: demo6_def demo_human_session_def demo_human_lease_def demo_session_def is_current_def)

subsection \<open>Actions\<close>

text \<open>
  C32: an action runs only under valid authority.  If the consumption of a grant succeeds, the grant
  was issued and not expired, the request quoted its proposal and the session's current epoch and
  fence, the session was under the control of an agent or a person, the lease the grant was issued
  under was active, unexpired and the session's own, and the grant is now recorded as consumed.
\<close>

theorem consumed_grant_was_authorised:
  assumes "live_reachable t db" and "t \<le> now"
    and "consume_action_grant ids now a i r db = Inr (g', db')"
  shows "\<exists>g \<in> set (action_grants db). \<exists>s \<in> set (sessions db). \<exists>l \<in> set (leases db).
      ag_id g = i \<and> ag_state g = GRANT_ISSUED \<and> now < ag_expires_at g
    \<and> ag_proposal_digest g = cn_proposal_digest r
    \<and> unit_attempt_id (ls_scope s) = a \<and> ag_session g = ls_id s
    \<and> ls_state s \<in> {AGENT_CONTROLLED, HUMAN_CONTROLLED}
    \<and> ls_control_epoch s = cn_control_epoch r \<and> ls_fencing_token s = cn_fencing_token r
    \<and> cl_id l = ag_control_lease_id g \<and> cl_session l = ls_id s \<and> cl_state l = LEASE_ACTIVE
    \<and> now < cl_expires_at l \<and> cl_control_epoch l = ls_control_epoch s
    \<and> g' = g\<lparr>ag_state := GRANT_CONSUMED, ag_consumed_at := Some now\<rparr>
    \<and> g' \<in> set (action_grants db')"
  using assms(3)
proof (cases rule: consume_success)
  case (1 s g x)
  have inv: "live_inv now db" using reachable_inv_at [OF assms(1,2)] .
  then have base: "base_inv now db" by (simp add: live_inv_def)
  have g: "g \<in> set (action_grants db)" "ag_id g = i" using find_grant_Inr [OF 1(2)] by auto
  then have x: "x = g" using 1(8,9) base
    by (auto simp: base_inv_def grants_inv_def dest: distinct_key_eq)
  have s: "s \<in> set (sessions db)" "unit_attempt_id (ls_scope s) = a"
    using read_session_Inr [OF 1(1)] by auto
  obtain z where z: "z \<in> set (sessions db)" "ls_id z = ls_id s"
      "ls_state z \<in> {AGENT_CONTROLLED, HUMAN_CONTROLLED}" "ls_control_epoch z = ag_control_epoch g"
      "ls_fencing_token z = ag_fencing_token g"
    using 1(3,11) x by (auto simp: grant_backed_def list_ex_iff)
  then have z_s: "z = s" using session_unique [OF base s(1)] by auto
  obtain l where l: "l \<in> set (leases db)" "cl_id l = ag_control_lease_id g" "cl_state l = LEASE_ACTIVE"
      "now < cl_expires_at l" "cl_control_epoch l = ag_control_epoch g"
    using 1(11) x by (auto simp: grant_backed_def list_ex_iff)
  have "cl_session l = ls_id s"
    using issued_grant_epoch(2) [OF inv s(1) g(1) 1(3,7)] l(1,2) base
    by (auto simp: base_inv_def leases_inv_def dest: distinct_key_eq)
  then show ?thesis
    using g s l z z_s x 1 by (intro bexI [of _ g] bexI [of _ s] bexI [of _ l] conjI) simp_all
qed

theorem consumed_grant_was_authorised_witness:
  "\<exists>l \<in> set (leases demo2). cl_state l = LEASE_ACTIVE \<and> seconds 3 < cl_expires_at l"
proof -
  have "consume_action_grant (\<lambda>n. 120 + n) (seconds 3) 5 110 demo_consume_request demo2
      = Inr (demo_consumed, demo3)"
    by (simp add: service_defs grant_defs consume_action_grant_def consume_grant_row_def
        grant_backed_def demo_dbs demo_requests)
  from consumed_grant_was_authorised [OF demo2_reachable _ this] show ?thesis
    by (auto simp: seconds_def)
qed

text \<open>
  C31: an action runs at most once.  After a grant has been consumed, no later consumption of it
  succeeds, in any state of any continuation, for any caller, attempt, quoted epoch and time.
\<close>

theorem consumption_is_single_use:
  assumes "live_reachable t db" and "t \<le> now" and "live_admissible ids (ConsumeGrant a i r) db"
    and "consume_action_grant ids now a i r db = Inr (g, db')"
    and "live_reaches now db' u db''"
  shows "consume_action_grant ids' now' a' i r' db'' \<noteq> Inr x"
proof -
  have reach: "live_reaches t db now db'"
    by (rule live_reaches_one [OF assms(2,3) consume_request_run [OF assms(4)]])
  have inv: "base_inv u db''"
    using reachable_inv [OF live_reachable_later [OF live_reachable_later [OF assms(1) reach] assms(5)]]
    by (simp add: live_inv_def)
  have g: "ag_id g = i" "ag_state g = GRANT_CONSUMED" "g \<in> set (action_grants db')"
    using assms(4) by (elim consume_success; auto dest: find_grant_Inr)+
  obtain g' where "g' \<in> set (action_grants db'')" "grant_le g g'"
    by (rule later_grant [OF live_reaches_forward [OF assms(5)] g(3)])
  moreover from grant_le_spent [OF this(2) g(2)] have "ag_id g' = i" "ag_state g' \<noteq> GRANT_ISSUED"
    using g(1) by auto
  ultimately show ?thesis using spent_grant_refused [OF inv, of g'] by blast
qed

theorem consumption_is_single_use_witness:
  "consume_action_grant (\<lambda>n. 160 + n) (seconds 9) 5 110 demo_consume_request demo6 \<noteq> Inr (demo_grant, demo6)"
proof -
  have "consume_action_grant (\<lambda>n. 120 + n) (seconds 3) 5 110 demo_consume_request demo2
      = Inr (demo_consumed, demo3)"
    by (simp add: service_defs grant_defs consume_action_grant_def consume_grant_row_def
        grant_backed_def demo_dbs demo_requests)
  moreover have "live_reaches (seconds 3) demo3 (seconds 6) demo6"
    using demo_steps(4-6) unfolding live_reaches_def by (blast intro: reaches_trans)
  ultimately show ?thesis
    by (intro consumption_is_single_use [OF demo2_reachable _ demo_admissible(4)]) (simp_all add: seconds_def)
qed

text \<open>
  C34: a superseded controller stays fenced.  Once a session's epoch has passed the one a worker holds,
  then in every later state each of its heartbeats is answered with the fencing error and none of its
  consumptions succeeds.
\<close>

theorem superseded_controller_is_fenced:
  assumes "live_reachable t db" and "s \<in> set (sessions db)" and "unit_attempt_id (ls_scope s) = a"
    and "live_reaches t db u db'"
    and "hb_control_epoch h < ls_control_epoch s" and "cn_control_epoch r < ls_control_epoch s"
  shows "heartbeat ids now a h w db' = Inl live_fenced
    \<and> consume_action_grant ids' now' a i r db' \<noteq> Inr x"
proof -
  have inv: "live_inv u db'" using reachable_inv [OF live_reachable_later [OF assms(1,4)]] .
  obtain s' where "s' \<in> set (sessions db')" "session_le s s'"
    by (rule later_session [OF live_reaches_forward [OF assms(4)] assms(2)])
  then show ?thesis
    using stale_heartbeat_fenced [OF inv, of s' a h] stale_consumption_refused [OF inv, of s' a r] assms(3,5,6)
      session_le_epoch [of s s'] session_le_keys [of s s'] by auto
qed

theorem superseded_controller_is_fenced_witness:
  "heartbeat (\<lambda>n. 160 + n) (seconds 7) 5 demo_heartbeat_request ''worker-1'' demo6 = Inl live_fenced"
proof -
  have "live_reaches (seconds 6) demo6 (seconds 6) demo6" by (simp add: live_reaches_def reaches_start)
  from superseded_controller_is_fenced [OF demo6_reachable _ _ this, of demo_human_session 5
      demo_heartbeat_request demo_consume_request "\<lambda>n. 160 + n" "seconds 7" "''worker-1''"]
  show ?thesis
    by (simp add: demo6_def demo_human_session_def demo_session_def demo_scope_def demo_requests
        demo_consume_request_def)
qed

subsection \<open>Retries\<close>

text \<open>
  Control requests are idempotent.  If a request was accepted, then sending it again in any later
  state of the execution, whatever happened to the command and the session since, succeeds, changes
  nothing and answers with the same command, marked as replayed and at its current status.
\<close>

theorem control_request_replays:
  assumes "live_reachable t db" and "t \<le> now"
    and "live_admissible ids (RequestControl ct actor a r e k) db"
    and "request_live_transition ids now ct actor a r e k db = Inr ((c, b), db')"
    and "live_reaches now db' u db''"
  shows "\<exists>c'. command_le c c'
    \<and> request_live_transition ids' now' ct actor a r e k db'' = Inr ((c', True), db'')"
  using assms(4)
proof (cases rule: request_transition_Inr)
  case (1 s)
  have reach: "live_reaches t db now db'"
    by (rule live_reaches_one [OF assms(2,3) request_control_run [OF assms(4)]])
  have inv: "base_inv u db''"
    using reachable_inv [OF live_reachable_later [OF live_reachable_later [OF assms(1) reach] assms(5)]]
    by (simp add: live_inv_def)
  have s: "s \<in> set (sessions db)" "unit_attempt_id (ls_scope s) = a"
    using read_session_Inr [OF 1(1)] by auto
  obtain s' where s': "s' \<in> set (sessions db'')" "session_le s s'"
    by (rule later_session [OF forward_trans [OF live_reaches_forward [OF reach]
          live_reaches_forward [OF assms(5)]] s(1)])
  obtain c' where c': "c' \<in> set (commands db'')" "command_le c c'"
    by (rule later_command [OF live_reaches_forward [OF assms(5)] 1(4)])
  have "require_operable actor (Some s') = Inr s'"
    using require_operable_scope [OF 1(2)] session_le_keys [OF s'(2)] by simp
  then have "request_live_transition ids' now' ct actor a r e k db'' = Inr ((c', True), db'')"
    using recorded_request_replays [OF inv s'(1) _ _ 1(3) c'(1)] s(2) 1(5-7)
      session_le_keys [OF s'(2)] command_le_matches [OF c'(2)] by simp
  with c'(2) show ?thesis by blast
qed

lemma demo_takeover: "request_live_transition (\<lambda>n. 140 + n) (seconds 5) TAKEOVER demo_person 5
    demo_live_request 1 ''takeover-1'' demo4 = Inr ((demo_command, False), demo5)"
  by (simp add: service_defs grant_defs command_defs request_live_transition_def
      demo_dbs demo_requests demo_person_def)

theorem control_request_replays_witness:
  "\<exists>c. command_le demo_command c \<and> request_live_transition (\<lambda>n. 170 + n) (seconds 8) TAKEOVER demo_person 5
     demo_live_request 1 ''takeover-1'' demo6 = Inr ((c, True), demo6)"
  by (rule control_request_replays [OF demo4_reachable _ demo_admissible(6) demo_takeover demo_steps(6)])
    (simp add: seconds_def)

lemma later_views:
  assumes "live_reachable t db" and "live_reaches t db now db'" and "live_reaches now db' u db''"
    and "get_session_by_attempt db a = Inr (Some s)" and "g \<in> set (action_grants db')"
  obtains s' g' where "base_inv u db''" and "s' \<in> set (sessions db'')" and "session_le s s'"
    and "unit_attempt_id (ls_scope s') = a" and "ls_id s' = ls_id s"
    and "g' \<in> set (action_grants db'')" and "grant_le g g'"
proof -
  have inv: "base_inv u db''"
    using reachable_inv [OF live_reachable_later [OF live_reachable_later [OF assms(1,2)] assms(3)]]
    by (simp add: live_inv_def)
  have s: "s \<in> set (sessions db)" "unit_attempt_id (ls_scope s) = a"
    using read_session_Inr [OF assms(4)] by auto
  obtain s' where s': "s' \<in> set (sessions db'')" "session_le s s'"
    by (rule later_session [OF forward_trans [OF live_reaches_forward [OF assms(2)]
          live_reaches_forward [OF assms(3)]] s(1)])
  obtain g' where "g' \<in> set (action_grants db'')" "grant_le g g'"
    by (rule later_grant [OF live_reaches_forward [OF assms(3)] assms(5)])
  then show thesis using that inv s' s(2) session_le_keys [OF s'(2)] by simp
qed

text \<open>
  Issuing a grant is idempotent.  Asking again, in any later state, for the grant of an action
  that was granted returns that grant in its current state and changes nothing.
\<close>

theorem issued_grant_replays:
  assumes "live_reachable t db" and "t \<le> now" and "live_admissible ids (IssueGrant a r w) db"
    and ok: "issue_action_grant ids now a r w db = Inr (g, db')" and "live_reaches now db' u db''"
  shows "\<exists>g'. grant_le g g' \<and> issue_action_grant ids' now' a r w' db'' = Inr (g', db'')"
proof -
  note reach = live_reaches_one [OF assms(2,3) grant_request_run(1) [OF ok]]
  from ok show ?thesis
  proof (cases rule: issue_success)
    case (1 s)
    obtain s' g' where later: "base_inv u db''" "s' \<in> set (sessions db'')" "session_le s s'"
        "unit_attempt_id (ls_scope s') = a" "ls_id s' = ls_id s"
        "g' \<in> set (action_grants db'')" "grant_le g g'"
      by (rule later_views [OF assms(1) reach assms(5) 1(1,2)])
    have "issue_action_grant ids' now' a r w' db'' = Inr (g', db'')"
      using recorded_issue_replays [OF later(1,2,4,6)] 1(3,5) grant_le_keys [OF later(7)]
        grant_le_matches [OF later(7)] by simp
    with later(7) show ?thesis by blast
  qed
qed

theorem issued_grant_replays_witness:
  "\<exists>g. grant_le demo_grant g
     \<and> issue_action_grant (\<lambda>n. 170 + n) (seconds 8) 5 demo_grant_request ''worker-1'' demo6 = Inr (g, demo6)"
proof -
  have issued: "issue_action_grant (\<lambda>n. 110 + n) (seconds 2) 5 demo_grant_request ''worker-1'' demo1
      = Inr (demo_grant, demo2)"
    by (simp add: service_defs grant_defs issue_action_grant_def issue_new_grant_def demo_dbs demo_requests)
  have "live_reaches (seconds 2) demo2 (seconds 6) demo6"
    using demo_steps(3-6) unfolding live_reaches_def by (blast intro: reaches_trans)
  from issued_grant_replays [OF demo1_reachable _ demo_admissible(3) issued this]
  show ?thesis by (simp add: seconds_def)
qed

text \<open>
  Reporting a receipt is idempotent.  Sending the receipt of a completed action again, in any later
  state, returns the completed grant, unchanged, and changes nothing.
\<close>

theorem completed_grant_replays:
  assumes "live_reachable t db" and "t \<le> now" and "live_admissible ids (CompleteGrant a i q) db"
    and ok: "complete_action_grant ids now a i q db = Inr (g, db')" and "live_reaches now db' u db''"
  shows "complete_action_grant ids' now' a i q db'' = Inr (g, db'')"
proof -
  note reach = live_reaches_one [OF assms(2,3) grant_request_run(2) [OF ok]]
  have "base_inv t db" using reachable_inv [OF assms(1)] by (simp add: live_inv_def)
  from this ok show ?thesis
  proof (cases rule: complete_success)
    case (1 s)
    obtain s' g' where later: "base_inv u db''" "s' \<in> set (sessions db'')" "session_le s s'"
        "unit_attempt_id (ls_scope s') = a" "ls_id s' = ls_id s"
        "g' \<in> set (action_grants db'')" "grant_le g g'"
      by (rule later_views [OF assms(1) reach assms(5) 1(1,2)])
    have same: "g' = g" using grant_leD(3) [OF later(7)] 1(7) by (simp add: receipt_recorded_def)
    show ?thesis
      using recorded_completion_replays [OF later(1,2,4) later(6) [unfolded same]] 1(3-7) later(5) by simp
  qed
qed

theorem completed_grant_replays_witness:
  "complete_action_grant (\<lambda>n. 170 + n) (seconds 8) 5 110 demo_complete_request demo6 = Inr (demo_completed, demo6)"
proof -
  have receipt: "complete_action_grant (\<lambda>n. 130 + n) (seconds 4) 5 110 demo_complete_request demo3
      = Inr (demo_completed, demo4)"
    by (simp add: service_defs grant_defs complete_action_grant_def complete_grant_row_def
        advance_browser_revision_def demo_dbs demo_requests)
  have "live_reaches (seconds 4) demo4 (seconds 6) demo6"
    using demo_steps(5,6) unfolding live_reaches_def by (blast intro: reaches_trans)
  from completed_grant_replays [OF demo3_reachable _ demo_admissible(5) receipt this]
  show ?thesis by (simp add: seconds_def)
qed

subsection \<open>Control\<close>

text \<open>
  C30: the live control refines the control machine.  Every session of a reachable state got there
  from \<open>initial_control\<close> by steps of the machine, and between any two states of an execution each
  session moves by steps of the machine, whatever the requests, retries, expiries and interleavings.
\<close>

theorem live_control_refines_machine:
  assumes "live_reachable t db" and "live_reaches t db u db'"
  shows "(\<forall>s \<in> set (sessions db'). control_step\<^sup>*\<^sup>* initial_control (control_of s))
    \<and> (\<forall>s \<in> set (sessions db). \<exists>s' \<in> set (sessions db'). ls_id s' = ls_id s
        \<and> control_step\<^sup>*\<^sup>* (control_of s) (control_of s'))"
proof (intro conjI ballI)
  show "control_step\<^sup>*\<^sup>* initial_control (control_of s)" if "s \<in> set (sessions db')" for s
    using reachable_controls [OF live_reachable_later [OF assms] that] .
  show "\<exists>s' \<in> set (sessions db'). ls_id s' = ls_id s \<and> control_step\<^sup>*\<^sup>* (control_of s) (control_of s')"
    if "s \<in> set (sessions db)" for s
    using moves_session [OF live_reaches_moves [OF assms] _ that] reachable_inv [OF assms(1)]
    by (metis live_inv_def)
qed

theorem live_control_refines_machine_witness:
  "control_step\<^sup>*\<^sup>* initial_control (control_of demo_human_session)"
  using live_control_refines_machine [OF demo5_reachable demo_steps(6)] by (simp add: demo6_def)

text \<open>
  C38: a session that has lost its controller never gets one again.  Once a lease expiry has put a
  session into \<open>NO_CONTROLLER\<close>, in every later state it is still there with the same epoch, and no
  pause, resume, takeover or return is accepted for it: the service asks for \<open>PAUSED\<close> before
  a resumption, although the table's trigger would allow one from \<open>NO_CONTROLLER\<close>.
\<close>

theorem lost_control_stays_lost:
  assumes "live_reachable t db" and "live_reaches t db u db'" and "s \<in> set (sessions db)"
    and "ls_state s = NO_CONTROLLER" and "unit_attempt_id (ls_scope s) = a"
  shows "(\<exists>s' \<in> set (sessions db'). ls_id s' = ls_id s \<and> ls_state s' = NO_CONTROLLER
      \<and> ls_control_epoch s' = ls_control_epoch s)
    \<and> request_live_transition ids now ct actor a r e k db' \<noteq> Inr ((c, False), x)"
proof -
  have inv: "base_inv t db" "base_inv u db'"
    using reachable_inv [OF assms(1)] reachable_inv [OF live_reachable_later [OF assms(1,2)]]
    by (simp_all add: live_inv_def)
  obtain s' where s': "s' \<in> set (sessions db')" "ls_id s' = ls_id s"
      "control_step\<^sup>*\<^sup>* (control_of s) (control_of s')"
    by (rule moves_session [OF live_reaches_moves [OF assms(1,2)] inv(1) assms(3)])
  have same: "control_of s' = control_of s" using lost_control_is_final [OF s'(3)] assms(4) by simp
  then have final: "\<exists>s' \<in> set (sessions db'). ls_id s' = ls_id s \<and> ls_state s' = NO_CONTROLLER
      \<and> ls_control_epoch s' = ls_control_epoch s"
    using s'(1,2) assms(4) by (auto simp: control_of_def)
  obtain z where z: "z \<in> set (sessions db')" "session_le s z"
    by (rule later_session [OF live_reaches_forward [OF assms(2)] assms(3)])
  have "z = s'" using session_unique [OF inv(2) s'(1) z(1)] session_le_keys [OF z(2)] s'(2) by simp
  then have read: "get_session_by_attempt db' a = Inr (Some s')"
    using session_by_attempt [OF inv(2) z(1)] session_le_keys [OF z(2)] assms(5) by simp
  have "request_live_transition ids now ct actor a r e k db' \<noteq> Inr ((c, False), x)"
  proof
    assume "request_live_transition ids now ct actor a r e k db' = Inr ((c, False), x)"
    then have "accept_request ids now ct actor r e k db' s' = Inr ((c, False), x)"
      by (cases rule: request_transition_Inr) (use read in auto)
    then have "ls_state s' = expected_state ct"
      by (auto dest!: accept_request_Inr validate_transition_state)
    moreover have "ls_state s' = NO_CONTROLLER" using same assms(4) by (simp add: control_of_def)
    ultimately show False by (cases ct) simp_all
  qed
  with final show ?thesis by blast
qed

lemma demo_expiry: "run_live (\<lambda>n. 160 + n) (seconds 400) (ReapExpired demo_admin 10) demo6
    = Inr (ReapResponse 1 (seconds 400), demo7)"
  by (simp add: service_defs grant_defs command_defs respond_def reap_expired_def
      claim_expired_session_ids_def get_session_by_id_def expire_control_def expire_current_control_def
      reject_pending_commands_def demo7_def demo_lost_session_def demo_admin_def demo_dbs)

theorem lost_control_stays_lost_witness:
  "request_live_transition (\<lambda>n. 170 + n) (seconds 401) RESUME demo_person 5 demo_live_request 3
     ''resume-01'' demo7 \<noteq> Inr ((demo_command, False), demo7)
   \<and> (\<exists>s \<in> set (sessions demo7). ls_id s = 100 \<and> ls_state s = NO_CONTROLLER)"
proof -
  have adm: "live_admissible (\<lambda>n. 160 + n) (ReapExpired demo_admin 10) demo6"
    unfolding live_admissible_def
    by (intro conjI fresh_from; simp add: admissible_defs service_defs demo_dbs demo_requests)
  have "live_reachable (seconds 400) demo7"
    by (rule live_reachable_later [OF demo6_reachable live_reaches_one [OF _ adm demo_expiry]])
      (simp add: seconds_def)
  moreover have "live_reaches (seconds 400) demo7 (seconds 400) demo7"
    by (simp add: live_reaches_def reaches_start)
  moreover have "demo_lost_session \<in> set (sessions demo7)" "ls_state demo_lost_session = NO_CONTROLLER"
    "unit_attempt_id (ls_scope demo_lost_session) = 5" "ls_id demo_lost_session = 100"
    by (simp_all add: demo7_def demo_lost_session_def demo_human_session_def demo_session_def demo_scope_def)
  ultimately show ?thesis
    using lost_control_stays_lost [of "seconds 400" demo7 "seconds 400" demo7 demo_lost_session 5] by metis
qed

text \<open>
  C37: a takeover is accepted only where it may be, and takes effect at once.  If a takeover request is
  accepted, the caller may operate the project, the session was under an agent with an active unexpired
  lease at the quoted epoch, and the attempt does not run in a production environment; afterwards no
  lease of the session is active and no grant of it can be consumed any more.
\<close>

theorem accepted_takeover_is_safe:
  assumes "live_reachable t db" and "t \<le> now"
    and "live_admissible ids (RequestControl TAKEOVER actor a r e k) db"
    and "request_live_transition ids now TAKEOVER actor a r e k db = Inr ((c, False), db')"
  shows "\<exists>s \<in> set (sessions db). \<exists>l \<in> set (leases db). \<exists>tk.
      unit_attempt_id (ls_scope s) = a \<and> can_operate_project actor (project_id (ls_scope s))
    \<and> ls_state s = AGENT_CONTROLLED \<and> ls_control_epoch s = e
    \<and> cl_session l = ls_id s \<and> cl_owner_type l = AGENT \<and> cl_state l = LEASE_ACTIVE \<and> now < cl_expires_at l
    \<and> get_ticket_by_attempt db a = Inr (Some tk)
    \<and> get_environment_kind db (tk_environment_id tk) \<noteq> Some ''PRODUCTION''
    \<and> (\<forall>l \<in> set (leases db'). cl_session l = ls_id s \<longrightarrow> cl_state l \<noteq> LEASE_ACTIVE)
    \<and> (\<forall>g \<in> set (action_grants db'). ag_session g = ls_id s \<longrightarrow> ag_state g \<noteq> GRANT_ISSUED)"
  using assms(4)
proof (cases rule: request_transition_Inr)
  case (1 s)
  have inv: "live_inv now db" using reachable_inv_at [OF assms(1,2)] .
  have reach: "live_reaches t db now db'"
    by (rule live_reaches_one [OF assms(2,3) request_control_run [OF assms(4)]])
  have inv': "live_inv now db'" using reachable_inv [OF live_reachable_later [OF assms(1) reach]] .
  have s: "s \<in> set (sessions db)" "unit_attempt_id (ls_scope s) = a"
    using read_session_Inr [OF 1(1)] by auto
  have acc: "accept_request ids now TAKEOVER actor r e k db s = Inr ((c, False), db')"
    and epoch: "ls_control_epoch s = e" using 1(8) by auto
  obtain lease where lease: "get_current_lease db (ls_id s) = Inr lease"
    and "validate_transition db s lease TAKEOVER now = Inr ()"
    using accept_request_Inr [OF acc] by blast
  from this(2) obtain l tk where l: "ls_state s = AGENT_CONTROLLED" "lease = Some l"
      "cl_owner_type l = AGENT" "cl_state l = LEASE_ACTIVE" "now < cl_expires_at l"
      "get_ticket_by_attempt db (unit_attempt_id (ls_scope s)) = Inr (Some tk)"
      "get_environment_kind db (tk_environment_id tk) \<noteq> Some ''PRODUCTION''"
    by (rule validate_takeover)
  have row: "l \<in> set (leases db)" "cl_session l = ls_id s"
    using agent_controlled_current(2,3) [OF inv s(1)] lease l(2) by auto
  obtain s' where s': "s' \<in> set (sessions db')" "session_le s s'"
    by (rule later_session [OF live_reaches_forward [OF reach] s(1)])
  have "lc_status c = COMMAND_PENDING" "lc_command_type c = TAKEOVER"
    using acc 1(7) accepted_command_pending by (auto simp: command_request_matches_def)
  then have "ls_state s' = QUIESCING"
    using pending_states [OF inv' s'(1) 1(4)] 1(5) session_le_keys [OF s'(2)] by simp
  then have none: "\<forall>l \<in> set (leases db'). cl_session l = ls_id s \<longrightarrow> cl_state l \<noteq> LEASE_ACTIVE"
      "\<forall>g \<in> set (action_grants db'). ag_session g = ls_id s \<longrightarrow> ag_state g \<noteq> GRANT_ISSUED"
    using no_active_lease_no_grant [OF inv' s'(1)] session_le_keys [OF s'(2)] by simp_all
  have "can_operate_project actor (project_id (ls_scope s))" using operable_Inr [OF 1(2)] by simp
  with s row l epoch none show ?thesis
    by (intro bexI [of _ s] bexI [of _ l] exI [of _ tk] conjI) simp_all
qed

theorem accepted_takeover_is_safe_witness:
  "\<exists>s \<in> set (sessions demo4). ls_state s = AGENT_CONTROLLED
     \<and> (\<forall>l \<in> set (leases demo5). cl_session l = ls_id s \<longrightarrow> cl_state l \<noteq> LEASE_ACTIVE)"
  using accepted_takeover_is_safe [OF demo4_reachable _ demo_admissible(6) demo_takeover]
  by (simp add: seconds_def) blast

text \<open>
  C33: control changes hands only at a safe point.  If the acknowledgement of a pending command
  succeeds, it quoted the session's current epoch and fence, no consumed action was still without its
  receipt, and afterwards the session has the next epoch and fence and the state the command asked for,
  a takeover is on record as human influence, no grant issued under the old epoch is left, and the
  current lease, unless the session is paused, is an active one of the new controller.
\<close>

theorem acknowledged_handover:
  assumes "live_reachable t db" and "t \<le> now" and "live_admissible ids (Acknowledge a r w) db"
    and "acknowledge ids now a r w db = Inr (v, db')"
    and "find_command db (ak_command_id r) = Inr (Some c)" and "lc_status c = COMMAND_PENDING"
  shows "\<exists>s \<in> set (sessions db). unit_attempt_id (ls_scope s) = a
    \<and> ls_control_epoch s = ak_expected_control_epoch r \<and> ls_fencing_token s = ak_expected_fencing_token r
    \<and> (\<forall>g \<in> set (action_grants db). ag_session g = ls_id s \<longrightarrow> ag_state g \<noteq> GRANT_CONSUMED)
    \<and> ls_id (sn_session v) = ls_id s \<and> sn_session v \<in> set (sessions db')
    \<and> ls_control_epoch (sn_session v) = ls_control_epoch s + 1
    \<and> ls_fencing_token (sn_session v) = ls_fencing_token s + 1
    \<and> ls_state (sn_session v) = ack_state (lc_command_type c)
    \<and> ls_human_influenced (sn_session v) = (ls_human_influenced s \<or> lc_command_type c = TAKEOVER)
    \<and> (\<forall>g \<in> set (action_grants db'). ag_session g = ls_id s \<and> ag_state g = GRANT_ISSUED \<longrightarrow>
          ag_control_epoch g = ls_control_epoch s + 1)
    \<and> (case sn_lease v of None \<Rightarrow> lc_command_type c = PAUSE
       | Some l \<Rightarrow> lc_command_type c \<noteq> PAUSE \<and> cl_state l = LEASE_ACTIVE
          \<and> cl_control_epoch l = ls_control_epoch s + 1
          \<and> cl_owner_type l = (if lc_command_type c = TAKEOVER then HUMAN else AGENT))"
proof -
  have base: "base_inv t db" using reachable_inv [OF assms(1)] by (simp add: live_inv_def)
  have reach: "live_reaches t db now db'"
    by (rule live_reaches_one [OF assms(2,3) acknowledge_run [OF assms(4)]])
  have inv': "live_inv now db'" using reachable_inv [OF live_reachable_later [OF assms(1) reach]] .
  obtain s where read: "get_session_by_attempt db a = Inr (Some s)"
    and s: "ls_control_epoch s = ak_expected_control_epoch r" "ls_fencing_token s = ak_expected_fencing_token r"
      "\<not> has_inflight_action db (ls_id s)"
    and v: "sn_session v = applied_session (ack_state (lc_command_type c)) (ak_browser_revision r)
        (ls_human_influenced s \<or> lc_command_type c = TAKEOVER) now s"
      "take_snapshot db' (sn_session v) now = Inr v"
    by (rule acknowledge_success [OF base assms(4-6)])
  have mem: "sn_session v \<in> set (sessions db')" by (rule acknowledge_member [OF base assms(4-6)])
  note ok = control_okD [OF inv' mem]
  note lease = take_snapshot_views [OF inv' mem v(2)]
  have "\<forall>g \<in> set (action_grants db'). ag_session g = ls_id s \<and> ag_state g = GRANT_ISSUED \<longrightarrow>
      ag_control_epoch g = ls_control_epoch s + 1"
    using issued_grant_epoch(1) [OF inv' mem] v(1) by (simp add: applied_session_def)
  moreover have "case sn_lease v of None \<Rightarrow> lc_command_type c = PAUSE
       | Some l \<Rightarrow> lc_command_type c \<noteq> PAUSE \<and> cl_state l = LEASE_ACTIVE
          \<and> cl_control_epoch l = ls_control_epoch s + 1
          \<and> cl_owner_type l = (if lc_command_type c = TAKEOVER then HUMAN else AGENT)"
    using control_shape [OF ok] ok v(1) lease
    by (cases rule: state_shape_cases)
      (auto simp: applied_session_def ack_state_def control_ok_def split: command_type.splits)
  ultimately show ?thesis
    using read_session_Inr [OF read] s v(1) mem
    by (intro bexI [of _ s]) (auto simp: applied_session_def has_inflight_action_def list_ex_iff)
qed

theorem acknowledged_handover_witness:
  "\<exists>s \<in> set (sessions demo5). ls_control_epoch demo_human_session = ls_control_epoch s + 1
     \<and> ls_state demo_human_session = ack_state TAKEOVER"
proof -
  have ack: "acknowledge (\<lambda>n. 150 + n) (seconds 6) 5 demo_acknowledge_request ''worker-1'' demo5
     = Inr (\<lparr>sn_session = demo_human_session, sn_lease = Some demo_human_lease,
         sn_pending_command = None, sn_observed_at = seconds 6\<rparr>, demo6)"
    by (simp add: service_defs grant_defs command_defs acknowledge_def acknowledge_session_def
        find_command_def has_inflight_action_def apply_command_def apply_transition_def grant_control_def
        create_lease_def DEFAULT_HUMAN_LEASE_TTL_def demo_dbs demo_requests)
  have found: "find_command demo5 (ak_command_id demo_acknowledge_request) = Inr (Some demo_command)"
    "lc_status demo_command = COMMAND_PENDING" "lc_command_type demo_command = TAKEOVER"
    by (simp_all add: find_command_def service_defs command_defs demo_dbs demo_requests)
  show ?thesis
    using acknowledged_handover [OF demo5_reachable _ demo_admissible(7) ack found(1,2)] found(3)
    by (simp add: seconds_def) blast
qed

end
