(* ===== verification/Topology.thy ===== *)
theory Topology
  imports Prelude
begin

text \<open>
  Layering of a dependency graph, which the workflow validator and the fixture compiler
  both do, each with its own algorithm.  The interface \<open>level_algorithm\<close> is what their
  callers rely on: the levels partition the nodes, an edge always leads to a later level, and
  there is no result exactly when the graph has a cycle.  A graph is the list of its nodes
  and a successor list for each.
\<close>

lemma in_concat_nth: "v \<in> set (concat ls) \<longleftrightarrow> (\<exists>i < length ls. v \<in> set (ls ! i))"
proof
  assume "v \<in> set (concat ls)"
  then obtain l where "l \<in> set ls" "v \<in> set l" by auto
  then show "\<exists>i < length ls. v \<in> set (ls ! i)" by (metis in_set_conv_nth)
next
  assume "\<exists>i < length ls. v \<in> set (ls ! i)"
  then show "v \<in> set (concat ls)" by (metis UN_I nth_mem set_concat)
qed

definition graph_ok :: "'a list \<Rightarrow> ('a \<Rightarrow> 'a list) \<Rightarrow> bool" where
  "graph_ok V adj \<longleftrightarrow> distinct V \<and> (\<forall>v \<in> set V. distinct (adj v) \<and> set (adj v) \<subseteq> set V)"

definition arcs :: "'a list \<Rightarrow> ('a \<Rightarrow> 'a list) \<Rightarrow> ('a \<times> 'a) set" where
  "arcs V adj = {(u, v). u \<in> set V \<and> v \<in> set (adj u)}"

definition layered :: "'a list \<Rightarrow> ('a \<Rightarrow> 'a list) \<Rightarrow> 'a list list \<Rightarrow> bool" where
  "layered V adj ls \<longleftrightarrow> distinct (concat ls) \<and> set (concat ls) = set V
     \<and> (\<forall>j < length ls. \<forall>v \<in> set (ls ! j). \<forall>u. (u, v) \<in> arcs V adj \<longrightarrow>
          (\<exists>i < j. u \<in> set (ls ! i)))"

locale level_algorithm =
  fixes levels :: "'a list \<Rightarrow> ('a \<Rightarrow> 'a list) \<Rightarrow> 'a list list option"
  assumes levels_layered: "graph_ok V adj \<Longrightarrow> levels V adj = Some ls \<Longrightarrow> layered V adj ls"
    and levels_None: "graph_ok V adj \<Longrightarrow> levels V adj = None \<Longrightarrow> \<not> acyclic (arcs V adj)"
begin

lemma level_unique:
  assumes "graph_ok V adj" and "levels V adj = Some ls"
    and "i < length ls" and "j < length ls" and "v \<in> set (ls ! i)" and "v \<in> set (ls ! j)"
  shows "i = j"
proof (rule ccontr)
  assume ne: "i \<noteq> j"
  have "distinct (concat ls)"
    using levels_layered [OF assms(1,2)] by (simp add: layered_def)
  then have "set (ls ! i) \<inter> set (ls ! j) = {}"
  proof -
    have "\<And>a b. a < b \<Longrightarrow> b < length ls \<Longrightarrow> distinct (concat ls)
        \<Longrightarrow> set (ls ! a) \<inter> set (ls ! b) = {}"
    proof -
      fix a b assume ab: "a < b" "b < length ls" and d: "distinct (concat ls)"
      have "ls = take b ls @ ls ! b # drop (Suc b) ls" using ab by (simp add: id_take_nth_drop)
      then have "concat ls = concat (take b ls) @ ls ! b @ concat (drop (Suc b) ls)"
        by (metis concat.simps(2) concat_append)
      with d have "set (concat (take b ls)) \<inter> set (ls ! b) = {}" by auto
      moreover have "ls ! a \<in> set (take b ls)"
        using ab by (metis in_set_conv_nth length_take min.absorb2 nth_take order.strict_implies_order)
      ultimately show "set (ls ! a) \<inter> set (ls ! b) = {}" by auto
    qed
    with \<open>distinct (concat ls)\<close> ne assms(3,4) show ?thesis
      by (metis inf_commute linorder_neqE_nat)
  qed
  with assms(5,6) show False by blast
qed

lemma edge_forward:
  assumes "graph_ok V adj" and "levels V adj = Some ls" and "(u, v) \<in> arcs V adj"
    and "i < length ls" and "u \<in> set (ls ! i)" and "j < length ls" and "v \<in> set (ls ! j)"
  shows "i < j"
proof -
  obtain k where "k < j" and "u \<in> set (ls ! k)"
    using levels_layered [OF assms(1,2)] assms(3,6,7) unfolding layered_def by blast
  moreover from this have "k = i"
    using level_unique [OF assms(1,2)] assms(4,5,6) by auto
  ultimately show ?thesis by simp
qed

lemma acyclic_of_levels:
  assumes ok: "graph_ok V adj" and ls: "levels V adj = Some ls"
  shows "acyclic (arcs V adj)"
proof -
  define rank where "rank v = (LEAST i. i < length ls \<and> v \<in> set (ls ! i))" for v
  have known: "\<exists>i. i < length ls \<and> v \<in> set (ls ! i)" if "v \<in> set V" for v
    using levels_layered [OF ok ls] that
    by (simp add: layered_def flip: in_concat_nth)
  have rank: "rank v < length ls \<and> v \<in> set (ls ! rank v)" if "v \<in> set V" for v
    unfolding rank_def using known [OF that] by (rule LeastI_ex)
  have "(u, v) \<in> measure rank" if a: "(u, v) \<in> arcs V adj" for u v
  proof -
    have "u \<in> set V" "v \<in> set V"
      using a ok by (auto simp: arcs_def graph_ok_def)
    with rank edge_forward [OF ok ls a] show ?thesis by simp
  qed
  then have "arcs V adj \<subseteq> measure rank" by auto
  then show ?thesis
    by (meson acyclic_subset wf_acyclic wf_measure)
qed

lemma levels_None_iff:
  "graph_ok V adj \<Longrightarrow> levels V adj = None \<longleftrightarrow> \<not> acyclic (arcs V adj)"
  using levels_None acyclic_of_levels by (cases "levels V adj") auto

lemma levels_length:
  assumes "graph_ok V adj" and "levels V adj = Some ls"
  shows "length (concat ls) = length V"
  using levels_layered [OF assms] assms(1)
  by (metis distinct_card graph_ok_def layered_def)

end

text \<open>
  A non-empty finite set of nodes each of which has a predecessor in the set contains a
  cycle: what both algorithms meet when no node is ready.
\<close>

lemma stuck_cyclic:
  assumes "R \<noteq> {}" and "finite R" and pred: "\<And>v. v \<in> R \<Longrightarrow> \<exists>u \<in> R. (u, v) \<in> E"
  shows "\<not> acyclic E"
proof
  assume "acyclic E"
  then have "acyclic (E \<inter> R \<times> R)" by (rule acyclic_subset) auto
  then have "wf (E \<inter> R \<times> R)"
    using assms(2) by (intro finite_acyclic_wf) auto
  then obtain m where "m \<in> R" and "\<And>u. (u, m) \<in> E \<inter> R \<times> R \<Longrightarrow> u \<notin> R"
    using assms(1) by (metis all_not_in_conv wfE_min)
  with pred show False by blast
qed

text \<open>A new level appended to a partial layering.\<close>

definition layered_prefix :: "'a list \<Rightarrow> ('a \<Rightarrow> 'a list) \<Rightarrow> 'a list list \<Rightarrow> bool" where
  "layered_prefix V adj ls \<longleftrightarrow> distinct (concat ls) \<and> set (concat ls) \<subseteq> set V
     \<and> (\<forall>j < length ls. \<forall>v \<in> set (ls ! j). \<forall>u. (u, v) \<in> arcs V adj \<longrightarrow>
          (\<exists>i < j. u \<in> set (ls ! i)))"

lemma layered_prefix_Nil [simp]: "layered_prefix V adj []"
  by (simp add: layered_prefix_def)

lemma layered_prefix_snoc:
  assumes "layered_prefix V adj ls" and "distinct l" and "set l \<subseteq> set V - set (concat ls)"
    and preds: "\<And>u v. v \<in> set l \<Longrightarrow> (u, v) \<in> arcs V adj \<Longrightarrow> u \<in> set (concat ls)"
  shows "layered_prefix V adj (ls @ [l])"
proof -
  have new: "\<exists>i < length ls. u \<in> set (ls ! i)" if "v \<in> set l" "(u, v) \<in> arcs V adj" for u v
    using preds [OF that] by (simp only: in_concat_nth)
  have forward: "\<exists>i < j. u \<in> set ((ls @ [l]) ! i)"
    if j: "j < Suc (length ls)" and v: "v \<in> set ((ls @ [l]) ! j)" and e: "(u, v) \<in> arcs V adj"
    for j v u
  proof (cases "j = length ls")
    case True
    with v e new obtain i where "i < length ls" "u \<in> set (ls ! i)" by auto
    with True have "i < j \<and> u \<in> set ((ls @ [l]) ! i)" by (simp add: nth_append)
    then show ?thesis ..
  next
    case False
    with j have "j < length ls" by simp
    with v have "v \<in> set (ls ! j)" by (simp add: nth_append)
    with e \<open>j < length ls\<close> assms(1) obtain i where "i < j" "u \<in> set (ls ! i)"
      unfolding layered_prefix_def by blast
    with \<open>j < length ls\<close> have "i < j \<and> u \<in> set ((ls @ [l]) ! i)" by (simp add: nth_append)
    then show ?thesis ..
  qed
  show ?thesis
    unfolding layered_prefix_def
  proof (intro conjI)
    show "distinct (concat (ls @ [l]))" "set (concat (ls @ [l])) \<subseteq> set V"
      using assms(1-3) by (auto simp: layered_prefix_def)
  qed (use forward in auto)
qed

lemma layered_of_prefix:
  "layered_prefix V adj ls \<Longrightarrow> set V \<subseteq> set (concat ls) \<Longrightarrow> layered V adj ls"
  by (auto simp: layered_prefix_def layered_def)

end
