(* ===== verification/Workflow_Levels.thy ===== *)
theory Workflow_Levels
  imports Topology
begin

text \<open>
  The topological levels and the reachability search of the workflow validator
  (\<^verbatim>\<open>domain/workflow/validator.py\<close>, \<open>_topological_levels\<close> and
  \<open>_reachable_nodes\<close>).  The dictionaries \<open>adjacency\<close> and \<open>indegree\<close> are functions
  from node ids, with the dictionary's keys \<open>ids\<close> beside them; a Python set of targets is
  a list without duplicates.
\<close>

text \<open>
  The inner loops of one level: every outgoing edge takes one off the target's remaining
  in-degree, and a target that reaches zero is ready for the next level.
\<close>

fun relax :: "'a list \<Rightarrow> ('a \<Rightarrow> int) \<Rightarrow> ('a \<Rightarrow> int) \<times> 'a list" where
  "relax [] remaining = (remaining, [])"
| "relax (t # ts) remaining =
     (let remaining' = remaining(t := remaining t - 1); (r, next_ready) = relax ts remaining' in
      (r, if remaining' t = 0 then t # next_ready else next_ready))"

text \<open>
  The \<open>while ready\<close> loop.  \<open>fuel\<close> bounds the number of levels; \<open>None\<close> is running out of
  it, which \<open>topological_levels_total\<close> excludes for the fuel the caller gives.
\<close>

fun level_loop ::
    "nat \<Rightarrow> ('a::linorder \<Rightarrow> 'a list) \<Rightarrow> ('a \<Rightarrow> int) \<Rightarrow> 'a list \<Rightarrow> 'a list list option" where
  "level_loop 0 adjacency remaining ready = None"
| "level_loop (Suc fuel) adjacency remaining ready =
     (if ready = [] then Some []
      else (let (remaining', next_ready) =
                  relax (concat (map (\<lambda>n. sort (adjacency n)) ready)) remaining
            in map_option ((#) ready) (level_loop fuel adjacency remaining' (sort next_ready))))"

definition topological_levels ::
    "'a::linorder list \<Rightarrow> ('a \<Rightarrow> 'a list) \<Rightarrow> ('a \<Rightarrow> int) \<Rightarrow> 'a list list option" where
  "topological_levels ids adjacency indegree =
     level_loop (Suc (length ids)) adjacency indegree (sort (filter (\<lambda>n. indegree n = 0) ids))"

text \<open>
  The depth-first search: \<open>pending.pop()\<close> takes the last element; the fuel counts the
  iterations, of which there is at most one for every edge out of the nodes met.
\<close>

fun reach_loop ::
    "nat \<Rightarrow> ('a \<Rightarrow> 'a list) \<Rightarrow> 'a list \<Rightarrow> 'a list \<Rightarrow> 'a list option" where
  "reach_loop 0 adjacency visited pending = None"
| "reach_loop (Suc fuel) adjacency visited pending =
     (if pending = [] then Some visited
      else (let n = last pending; rest = butlast pending in
        if n \<in> set visited then reach_loop fuel adjacency visited rest
        else (let visited' = visited @ [n] in
          reach_loop fuel adjacency visited'
            (rest @ filter (\<lambda>m. m \<notin> set visited') (adjacency n)))))"

definition edge_total :: "'a list \<Rightarrow> ('a \<Rightarrow> 'a list) \<Rightarrow> nat" where
  "edge_total ids adjacency = sum_list (map (\<lambda>n. length (adjacency n)) ids)"

definition reachable_nodes :: "'a list \<Rightarrow> ('a \<Rightarrow> 'a list) \<Rightarrow> 'a \<Rightarrow> 'a list option" where
  "reachable_nodes ids adjacency source =
     reach_loop (Suc (length (adjacency source) + edge_total ids adjacency)) adjacency []
       (adjacency source)"

subsection \<open>One round of the level loop\<close>

lemma relax_Cons:
  assumes "remaining' = remaining(t := remaining t - 1)"
  shows "fst (relax (t # ts) remaining) = fst (relax ts remaining')"
    and "snd (relax (t # ts) remaining) = (if remaining' t = 0 then t # snd (relax ts remaining')
         else snd (relax ts remaining'))"
  unfolding assms by (simp_all add: Let_def case_prod_beta)

declare relax.simps(2) [simp del]

lemma relax_remaining: "fst (relax ts r) t = r t - int (count_list ts t)"
proof (induction ts arbitrary: r)
  case Nil
  then show ?case by simp
next
  case (Cons u ts)
  show ?case
    using Cons [of "r(u := r u - 1)"] by (simp only: relax_Cons(1) [OF refl]) auto
qed

lemma relax_next:
  assumes "\<And>t. t \<in> set ts \<Longrightarrow> 0 < r t" and "\<And>t. t \<in> set ts \<Longrightarrow> int (count_list ts t) \<le> r t"
  shows "set (snd (relax ts r)) = {t \<in> set ts. r t = int (count_list ts t)}
    \<and> distinct (snd (relax ts r))"
  using assms
proof (induction ts arbitrary: r)
  case Nil
  then show ?case by simp
next
  case (Cons t ts)
  obtain r' where r': "r' = r(t := r t - 1)" by simp
  then have t: "r' t = r t - 1" and u: "\<And>u. u \<noteq> t \<Longrightarrow> r' u = r u" by auto
  have le: "int (count_list ts v) \<le> r' v" if "v \<in> set ts" for v
    using Cons.prems(2) [of v] that t u by (cases "v = t") auto
  have pos: "0 < r' v" if "v \<in> set ts" for v
  proof -
    have "0 < count_list ts v" using that count_list_0_iff [of ts v] by auto
    with le [OF that] show ?thesis by simp
  qed
  have IH: "set (snd (relax ts r')) = {v \<in> set ts. r' v = int (count_list ts v)}
      \<and> distinct (snd (relax ts r'))"
    by (rule Cons.IH) (simp_all add: pos le)
  have zero: "r' t = 0 \<longleftrightarrow> t \<notin> set ts \<and> r t = 1"
  proof (cases "t \<in> set ts")
    case True
    with pos [of t] show ?thesis by simp
  next
    case False
    with t show ?thesis by simp
  qed
  have "v \<in> set (snd (relax (t # ts) r))
      \<longleftrightarrow> v \<in> set (t # ts) \<and> r v = int (count_list (t # ts) v)" for v
  proof (cases "v = t")
    case True
    have "t \<in> set (snd (relax (t # ts) r)) \<longleftrightarrow> r' t = 0 \<or> t \<in> set (snd (relax ts r'))"
      by (simp add: relax_Cons(2) [OF r'])
    also have "\<dots> \<longleftrightarrow> (t \<notin> set ts \<and> r t = 1) \<or> (t \<in> set ts \<and> r t = 1 + int (count_list ts t))"
      using IH zero t by auto
    also have "\<dots> \<longleftrightarrow> r t = 1 + int (count_list ts t)"
      using count_list_0_iff [of ts t] by (cases "t \<in> set ts") auto
    finally show ?thesis using True by simp
  next
    case False
    with IH u [of v] show ?thesis by (simp add: relax_Cons(2) [OF r'])
  qed
  moreover have "distinct (snd (relax (t # ts) r))"
    using IH zero by (simp add: relax_Cons(2) [OF r'])
  ultimately show ?case by blast
qed

text \<open>In-degrees and how often a node is the target of a level.\<close>

lemma count_list_distinct: "distinct xs \<Longrightarrow> count_list xs x = (if x \<in> set xs then 1 else 0)"
  by (induction xs) auto

lemma count_level:
  assumes "\<And>n. n \<in> set l \<Longrightarrow> distinct (adj n)"
  shows "count_list (concat (map (\<lambda>n. sort (adj n)) l)) t
       = length (filter (\<lambda>n. t \<in> set (adj n)) l)"
  using assms by (induction l) (auto simp: count_list_distinct)

subsection \<open>Correctness of the level loop\<close>

definition indegree_in :: "'a list \<Rightarrow> ('a \<Rightarrow> 'a list) \<Rightarrow> 'a \<Rightarrow> nat" where
  "indegree_in S adj t = length (filter (\<lambda>n. t \<in> set (adj n)) S)"

lemma indegree_in_zero: "indegree_in S adj t = 0 \<longleftrightarrow> (\<forall>n \<in> set S. t \<notin> set (adj n))"
  by (auto simp: indegree_in_def filter_empty_conv)

lemma indegree_in_Cons:
  "indegree_in (n # S) adj t = (if t \<in> set (adj n) then 1 else 0) + indegree_in S adj t"
  by (simp add: indegree_in_def)

text \<open>The nodes of \<open>S\<close> that are not in \<open>l\<close>, in order.\<close>

abbreviation without :: "'a list \<Rightarrow> 'a list \<Rightarrow> 'a list" where
  "without S l \<equiv> filter (\<lambda>n. n \<notin> set l) S"

lemma indegree_split:
  "distinct S \<Longrightarrow> distinct l \<Longrightarrow> set l \<subseteq> set S \<Longrightarrow>
     indegree_in S adj t = indegree_in l adj t + indegree_in (without S l) adj t"
proof -
  assume S: "distinct S" and l: "distinct l" and sub: "set l \<subseteq> set S"
  have card: "length (filter P xs) = card {x \<in> set xs. P x}" if "distinct xs" for P and xs :: "'a list"
    using that by (metis distinct_card distinct_filter set_filter)
  have "{n \<in> set S. t \<in> set (adj n)}
      = {n \<in> set l. t \<in> set (adj n)} \<union> {n \<in> set (without S l). t \<in> set (adj n)}"
    using sub by auto
  then have "card {n \<in> set S. t \<in> set (adj n)}
      = card {n \<in> set l. t \<in> set (adj n)} + card {n \<in> set (without S l). t \<in> set (adj n)}"
    by (simp only:) (rule card_Un_disjoint, auto)
  then show ?thesis
    by (simp only: indegree_in_def card [OF S] card [OF l] card [OF distinct_filter [OF S]])
qed

text \<open>
  The invariant of the loop, for the nodes \<open>S\<close> not yet in a level: the remaining in-degree
  counts the predecessors in \<open>S\<close>, and the ready list is the nodes of \<open>S\<close> with none.
\<close>

definition loop_inv ::
    "'a::linorder list \<Rightarrow> ('a \<Rightarrow> 'a list) \<Rightarrow> 'a list \<Rightarrow> ('a \<Rightarrow> int) \<Rightarrow> 'a list \<Rightarrow> bool" where
  "loop_inv V adj S remaining ready \<longleftrightarrow>
     distinct S \<and> set S \<subseteq> set V \<and> (\<forall>t \<in> set V. remaining t = int (indegree_in S adj t))
     \<and> (\<forall>t \<in> set V - set S. remaining t = 0)
     \<and> distinct ready \<and> set ready = {t \<in> set S. remaining t = 0}"

lemma loop_inv_step:
  assumes ok: "graph_ok V adj" and inv: "loop_inv V adj S remaining ready"
    and r: "relax (concat (map (\<lambda>n. sort (adj n)) ready)) remaining = (remaining', next_ready)"
  shows "loop_inv V adj (without S ready) remaining' (sort next_ready)"
proof -
  let ?ts = "concat (map (\<lambda>n. sort (adj n)) ready)"
  have dS: "distinct S" and SV: "set S \<subseteq> set V"
    and rem: "\<And>t. t \<in> set V \<Longrightarrow> remaining t = int (indegree_in S adj t)"
    and fin: "\<And>t. t \<in> set V \<Longrightarrow> t \<notin> set S \<Longrightarrow> remaining t = 0"
    and dr: "distinct ready" and rS: "set ready = {t \<in> set S. remaining t = 0}"
    using inv by (auto simp: loop_inv_def)
  have cnt: "count_list ?ts t = indegree_in ready adj t" for t
    using ok SV rS by (simp only: indegree_in_def) (rule count_level, auto simp: graph_ok_def)
  have sub: "set ready \<subseteq> set S" using rS by auto
  have tsV: "set ?ts \<subseteq> set V" using ok SV rS by (auto simp: graph_ok_def)
  have split: "indegree_in S adj t = indegree_in ready adj t + indegree_in (without S ready) adj t" for t
    by (rule indegree_split [OF dS dr sub])
  have le: "int (count_list ?ts t) \<le> remaining t" if "t \<in> set V" for t
    using rem [OF that] split [of t] cnt [of t] by simp
  have pos: "0 < remaining t" if "t \<in> set ?ts" for t
  proof -
    have "0 < count_list ?ts t" using that count_list_0_iff [of ?ts t] by auto
    with le [of t] that tsV show ?thesis by auto
  qed
  have rem': "remaining' t = remaining t - int (indegree_in ready adj t)" for t
    using relax_remaining [of ?ts remaining t] r cnt [of t] by simp
  have nxt: "set next_ready = {t \<in> set ?ts. remaining t = int (count_list ?ts t)}"
    "distinct next_ready"
    using relax_next [of ?ts remaining] pos le tsV r by (auto simp del: set_concat)
  have new: "remaining' t = int (indegree_in (without S ready) adj t)" if "t \<in> set V" for t
    using rem [OF that] split [of t] rem' [of t] by simp
  have zero: "remaining' t = 0" if "t \<in> set V" "remaining t = 0" for t
    using rem [OF that(1)] that(2) split [of t] rem' [of t] by simp
  have "set next_ready = {t \<in> set (without S ready). remaining' t = 0}"
  proof (intro set_eqI iffI)
    fix t assume t: "t \<in> set next_ready"
    then have ts: "t \<in> set ?ts" and eq: "remaining t = int (count_list ?ts t)" by (simp_all only: nxt) auto
    have "t \<in> set V" using ts tsV by auto
    moreover have "remaining t \<noteq> 0" using pos [OF ts] by simp
    ultimately have "t \<in> set S" "t \<notin> set ready" using fin rS by auto
    with eq cnt [of t] rem' [of t] show "t \<in> {t \<in> set (without S ready). remaining' t = 0}" by simp
  next
    fix t assume t: "t \<in> {t \<in> set (without S ready). remaining' t = 0}"
    then have S: "t \<in> set S" and "t \<notin> set ready" and z: "remaining' t = 0" by auto
    then have "remaining t \<noteq> 0" using rS by auto
    then have "indegree_in ready adj t \<noteq> 0" using rem' [of t] z by simp
    then have "count_list ?ts t \<noteq> 0" unfolding cnt .
    then have "t \<in> set ?ts" by (metis count_list_0_iff)
    moreover have "remaining t = int (count_list ?ts t)" using rem' [of t] z cnt [of t] by simp
    ultimately show "t \<in> set next_ready" by (simp only: nxt) auto
  qed
  moreover have "remaining' t = 0" if "t \<in> set V - set (without S ready)" for t
    using that zero fin rS by auto
  ultimately show ?thesis
    using dS SV new nxt(2) by (auto simp: loop_inv_def)
qed

text \<open>
  What the loop leaves: a partial layering, and behind it a set of nodes each of which has a
  predecessor among them.  One unit of fuel more than there are nodes left is enough.
\<close>

lemma level_loop_correct:
  assumes ok: "graph_ok V adj"
  shows "loop_inv V adj S remaining ready \<Longrightarrow> layered_prefix V adj before \<Longrightarrow>
    set (concat before) = set V - set S \<Longrightarrow> length S < fuel \<Longrightarrow>
    \<exists>ls S'. level_loop fuel adj remaining ready = Some ls \<and> layered_prefix V adj (before @ ls)
      \<and> set (concat (before @ ls)) = set V - set S' \<and> set S' \<subseteq> set V
      \<and> (\<forall>v \<in> set S'. \<exists>u \<in> set S'. v \<in> set (adj u))"
proof (induction fuel arbitrary: S remaining ready before)
  case 0
  then show ?case by simp
next
  case (Suc fuel)
  note inv = Suc.prems(1)
  have SV: "set S \<subseteq> set V" and rS: "set ready = {t \<in> set S. remaining t = 0}"
    and rem: "\<And>t. t \<in> set V \<Longrightarrow> remaining t = int (indegree_in S adj t)" and dr: "distinct ready"
    using inv by (auto simp: loop_inv_def)
  show ?case
  proof (cases "ready = []")
    case True
    have "\<exists>u \<in> set S. v \<in> set (adj u)" if "v \<in> set S" for v
    proof -
      have "indegree_in S adj v \<noteq> 0" using that True rS rem SV by force
      then show ?thesis by (simp add: indegree_in_zero)
    qed
    with True Suc.prems SV show ?thesis by (auto intro!: exI [of _ S])
  next
    case False
    obtain remaining' next_ready where
      r: "relax (concat (map (\<lambda>n. sort (adj n)) ready)) remaining = (remaining', next_ready)"
      by (cases "relax (concat (map (\<lambda>n. sort (adj n)) ready)) remaining")
    have inv': "loop_inv V adj (without S ready) remaining' (sort next_ready)"
      using ok inv r by (rule loop_inv_step)
    have preds: "u \<in> set (concat before)" if "v \<in> set ready" "(u, v) \<in> arcs V adj" for u v
    proof -
      have "remaining v = 0" and "v \<in> set V" using that rS SV by auto
      then have "indegree_in S adj v = 0" using rem [of v] by simp
      then have "u \<notin> set S" using that(2) by (auto simp: indegree_in_zero arcs_def)
      then show ?thesis using that(2) Suc.prems(3) by (simp add: arcs_def)
    qed
    have pre': "layered_prefix V adj (before @ [ready])"
      using Suc.prems(2,3) dr rS SV preds by (intro layered_prefix_snoc) auto
    have set': "set (concat (before @ [ready])) = set V - set (without S ready)"
      using Suc.prems(3) rS SV by auto
    obtain x where "x \<in> set ready" "x \<in> set S" using False rS by (cases ready) auto
    then have "length (without S ready) < length S"
      by (intro length_filter_less [of x]) auto
    with Suc.prems(4) have "length (without S ready) < fuel" by simp
    from Suc.IH [OF inv' pre' set' this] obtain ls S' where
      ls: "level_loop fuel adj remaining' (sort next_ready) = Some ls"
      and rest: "layered_prefix V adj ((before @ [ready]) @ ls)"
        "set (concat ((before @ [ready]) @ ls)) = set V - set S'" "set S' \<subseteq> set V"
        "\<forall>v \<in> set S'. \<exists>u \<in> set S'. v \<in> set (adj u)"
      by blast
    have "level_loop (Suc fuel) adj remaining ready = Some (ready # ls)"
      using False ls by (simp add: r)
    with rest show ?thesis by (intro exI [of _ "ready # ls"] exI [of _ S']) simp
  qed
qed

text \<open>The in-degree the validator counts: one for every node with an edge to the target.\<close>

definition node_indegree :: "'a list \<Rightarrow> ('a \<Rightarrow> 'a list) \<Rightarrow> 'a \<Rightarrow> int" where
  "node_indegree V adj t = int (indegree_in V adj t)"

lemma topological_levels_result:
  assumes ok: "graph_ok V adj" and deg: "\<And>t. t \<in> set V \<Longrightarrow> degree t = node_indegree V adj t"
  obtains ls S where "topological_levels V adj degree = Some ls" and "layered_prefix V adj ls"
    and "set (concat ls) = set V - set S" and "set S \<subseteq> set V"
    and "\<forall>v \<in> set S. \<exists>u \<in> set S. v \<in> set (adj u)"
proof -
  have "loop_inv V adj V degree (sort (filter (\<lambda>n. degree n = 0) V))"
    using ok deg by (auto simp: loop_inv_def graph_ok_def node_indegree_def)
  from level_loop_correct [OF ok this, of "[]" "Suc (length V)"] that show thesis
    by (auto simp: topological_levels_def)
qed

text \<open>
  The validator compares the number of layered nodes with the number of nodes; as a level
  algorithm it has a result when they agree.
\<close>

definition kahn_levels :: "'a::linorder list \<Rightarrow> ('a \<Rightarrow> 'a list) \<Rightarrow> 'a list list option" where
  "kahn_levels V adj = (case topological_levels V adj (node_indegree V adj) of
     None \<Rightarrow> None | Some ls \<Rightarrow> if length (concat ls) = length V then Some ls else None)"

lemma complete_levels:
  assumes "graph_ok V adj" and "layered_prefix V adj ls" and "set (concat ls) = set V - set S"
    and "set S \<subseteq> set V"
  shows "length (concat ls) = length V \<longleftrightarrow> S = []"
proof -
  have "length (concat ls) = card (set V - set S)"
    using assms(2,3) by (metis distinct_card layered_prefix_def)
  also have "\<dots> = card (set V) - card (set S)"
    using assms(4) by (simp add: card_Diff_subset)
  finally have "length (concat ls) = length V - card (set S)"
    using assms(1) by (simp add: graph_ok_def distinct_card)
  moreover have "card (set S) \<le> length V"
    using assms(1,4) by (metis card_mono distinct_card graph_ok_def List.finite_set)
  ultimately have "length (concat ls) = length V \<longleftrightarrow> card (set S) = 0" by linarith
  then show ?thesis by simp
qed

interpretation kahn: level_algorithm kahn_levels
proof
  fix V :: "'a list" and adj ls
  assume ok: "graph_ok V adj"
  obtain ls' S where res: "topological_levels V adj (node_indegree V adj) = Some ls'"
    and pre: "layered_prefix V adj ls'" "set (concat ls') = set V - set S" "set S \<subseteq> set V"
    and S: "\<forall>v \<in> set S. \<exists>u \<in> set S. v \<in> set (adj u)"
    using topological_levels_result [OF ok refl] .
  have eq: "kahn_levels V adj = (if S = [] then Some ls' else None)"
    using complete_levels [OF ok pre] by (simp add: kahn_levels_def res)
  { assume "kahn_levels V adj = Some ls"
    with eq have "ls = ls'" "S = []" by (auto split: if_splits)
    with pre show "layered V adj ls" by (intro layered_of_prefix) auto }
  { assume "kahn_levels V adj = None"
    with eq have "S \<noteq> []" by (auto split: if_splits)
    with S pre(3) show "\<not> acyclic (arcs V adj)"
      by (intro stuck_cyclic [of "set S"]) (fastforce simp: arcs_def)+ }
qed

subsection \<open>Correctness of the reachability search\<close>

definition unvisited_edges :: "'a list \<Rightarrow> ('a \<Rightarrow> 'a list) \<Rightarrow> 'a list \<Rightarrow> nat" where
  "unvisited_edges V adj visited = edge_total (without V visited) adj"

lemma unvisited_edges_visit:
  "distinct V \<Longrightarrow> n \<in> set V \<Longrightarrow> n \<notin> set visited \<Longrightarrow>
     unvisited_edges V adj visited = length (adj n) + unvisited_edges V adj (visited @ [n])"
proof (induction V)
  case Nil
  then show ?case by simp
next
  case (Cons v V)
  show ?case
  proof (cases "v = n")
    case True
    with Cons.prems(1) have "n \<notin> set V" by simp
    then have "without V visited = without V (visited @ [n])"
      by (intro filter_cong) auto
    with True Cons.prems show ?thesis by (simp add: unvisited_edges_def edge_total_def)
  next
    case False
    with Cons show ?thesis by (simp add: unvisited_edges_def edge_total_def)
  qed
qed

definition reach_inv ::
    "'a list \<Rightarrow> ('a \<Rightarrow> 'a list) \<Rightarrow> 'a \<Rightarrow> 'a list \<Rightarrow> 'a list \<Rightarrow> bool" where
  "reach_inv V adj source visited pending \<longleftrightarrow>
     set visited \<union> set pending \<subseteq> {m. (source, m) \<in> (arcs V adj)\<^sup>+}
     \<and> set (adj source) \<subseteq> set visited \<union> set pending
     \<and> (\<forall>v \<in> set visited. set (adj v) \<subseteq> set visited \<union> set pending)"

lemma reach_inv_skip:
  "reach_inv V adj s visited (rest @ [n]) \<Longrightarrow> n \<in> set visited \<Longrightarrow> reach_inv V adj s visited rest"
  unfolding reach_inv_def by auto

lemma reach_inv_visit:
  assumes "graph_ok V adj" and inv: "reach_inv V adj s visited (rest @ [n])"
  shows "reach_inv V adj s (visited @ [n])
           (rest @ filter (\<lambda>m. m \<notin> set (visited @ [n])) (adj n))"
proof -
  have n: "(s, n) \<in> (arcs V adj)\<^sup>+" using inv by (simp add: reach_inv_def)
  then have "n \<in> set V"
    using assms(1) by (auto simp: arcs_def graph_ok_def elim: trancl.cases)
  then have "(s, m) \<in> (arcs V adj)\<^sup>+" if "m \<in> set (adj n)" for m
    using n that by (auto simp: arcs_def intro: trancl_into_trancl)
  with inv show ?thesis unfolding reach_inv_def by auto
qed

lemma reach_inv_final:
  assumes inv: "reach_inv V adj s visited []"
  shows "set visited = {m. (s, m) \<in> (arcs V adj)\<^sup>+}"
proof
  show "set visited \<subseteq> {m. (s, m) \<in> (arcs V adj)\<^sup>+}" using inv by (simp add: reach_inv_def)
  have "m \<in> set visited" if "(s, m) \<in> (arcs V adj)\<^sup>+" for m
    using that
  proof (induction rule: trancl_induct)
    case (base b)
    then have "b \<in> set (adj s)" by (simp add: arcs_def)
    then show ?case using inv by (auto simp: reach_inv_def)
  next
    case (step b c)
    then have "c \<in> set (adj b)" by (simp add: arcs_def)
    with step.IH show ?case using inv by (auto simp: reach_inv_def)
  qed
  then show "{m. (s, m) \<in> (arcs V adj)\<^sup>+} \<subseteq> set visited" by auto
qed

lemma reach_loop_correct:
  assumes ok: "graph_ok V adj"
  shows "reach_inv V adj s visited pending \<Longrightarrow> length pending + unvisited_edges V adj visited < fuel
    \<Longrightarrow> \<exists>r. reach_loop fuel adj visited pending = Some r \<and> set r = {m. (s, m) \<in> (arcs V adj)\<^sup>+}"
proof (induction fuel arbitrary: visited pending)
  case 0
  then show ?case by simp
next
  case (Suc fuel)
  show ?case
  proof (cases pending rule: rev_cases)
    case Nil
    have "set visited = {m. (s, m) \<in> (arcs V adj)\<^sup>+}"
      using Suc.prems(1) unfolding Nil by (rule reach_inv_final)
    with Nil show ?thesis by simp
  next
    case (snoc rest n)
    note inv = Suc.prems(1) [unfolded snoc]
    show ?thesis
    proof (cases "n \<in> set visited")
      case True
      have "reach_inv V adj s visited rest" using inv True by (rule reach_inv_skip)
      from Suc.IH [OF this] Suc.prems(2) True snoc show ?thesis by simp
    next
      case False
      let ?v = "visited @ [n]" and ?new = "filter (\<lambda>m. m \<notin> set (visited @ [n])) (adj n)"
      have "(s, n) \<in> (arcs V adj)\<^sup>+" using inv by (simp add: reach_inv_def)
      then have "n \<in> set V" using ok by (auto simp: arcs_def graph_ok_def elim: trancl.cases)
      then have e: "unvisited_edges V adj visited = length (adj n) + unvisited_edges V adj ?v"
        using ok False by (intro unvisited_edges_visit) (simp_all add: graph_ok_def)
      have "length ?new \<le> length (adj n)" by (rule length_filter_le)
      moreover have "Suc (length rest) + unvisited_edges V adj visited < Suc fuel"
        using Suc.prems(2) snoc by simp
      ultimately have "length (rest @ ?new) + unvisited_edges V adj ?v < fuel"
        using e unfolding length_append by linarith
      from Suc.IH [OF reach_inv_visit [OF ok inv] this] False snoc show ?thesis
        by (simp add: Let_def)
    qed
  qed
qed

lemma reachable_nodes_correct:
  assumes "graph_ok V adj" and "source \<in> set V"
  obtains r where "reachable_nodes V adj source = Some r"
    and "set r = {m. (source, m) \<in> (arcs V adj)\<^sup>+}"
proof -
  have "reach_inv V adj source [] (adj source)"
    using assms(2) by (auto simp: reach_inv_def arcs_def)
  moreover have "length (adj source) + unvisited_edges V adj []
      < Suc (length (adj source) + edge_total V adj)"
    by (simp add: unvisited_edges_def)
  ultimately obtain r where
    "reach_loop (Suc (length (adj source) + edge_total V adj)) adj [] (adj source) = Some r"
    "set r = {m. (source, m) \<in> (arcs V adj)\<^sup>+}"
    using reach_loop_correct [OF assms(1)] by blast
  with that show thesis by (simp only: reachable_nodes_def)
qed

end
