(* ===== verification/Workflow.thy ===== *)
theory Workflow
  imports Core Workflow_Levels
begin

text \<open>
  The workflow graph and its validator: \<^verbatim>\<open>domain/workflow/models.py\<close> (the protocol
  records with the checks their construction makes) and
  \<^verbatim>\<open>domain/workflow/validator.py\<close> (\<open>validate_workflow_graph\<close>).  The last section
  says what a valid graph is and proves the validator decides it.
\<close>

subsection \<open>Protocol models\<close>

definition id_pattern :: "string \<Rightarrow> bool" where
  "id_pattern = matches_ident is_alnum (alnum_or ''._:@/-'') 0 127"

definition port_key_pattern :: "string \<Rightarrow> bool" where
  "port_key_pattern = matches_ident (\<lambda>c. is_upper c \<or> is_lower c \<or> c = CHR ''_'') (alnum_or ''_.-'') 0 127"

text \<open>
  \<open>EXACT_VERSION_REF_PATTERN\<close>: a name, \<open>@\<close>, three dotted numbers, and optional
  pre-release and build parts.  The name has no \<open>@\<close> and the numbers no sign, so the parts
  are found by splitting at the first \<open>@\<close>, at the end of the numbers and at \<open>+\<close>.
\<close>

definition span_digits :: "string \<Rightarrow> (string \<times> string) option" where
  "span_digits s = (if takeWhile is_digit s = [] then None
     else Some (takeWhile is_digit s, dropWhile is_digit s))"

definition skip_char :: "char \<Rightarrow> string \<Rightarrow> string option" where
  "skip_char c s = (case s of [] \<Rightarrow> None | d # ds \<Rightarrow> if d = c then Some ds else None)"

definition version_suffix :: "string \<Rightarrow> bool" where
  "version_suffix s = (let ident = (\<lambda>t. t \<noteq> [] \<and> list_all (alnum_or ''.-'') t) in
     s = [] \<or> (hd s = CHR ''+'' \<and> ident (tl s))
     \<or> (hd s = CHR ''-'' \<and> (let pre = takeWhile (\<lambda>c. c \<noteq> CHR ''+'') (tl s);
                               build = dropWhile (\<lambda>c. c \<noteq> CHR ''+'') (tl s)
                           in ident pre \<and> (build = [] \<or> ident (tl build)))))"

definition version_number :: "string \<Rightarrow> bool" where
  "version_number s = (case Option.bind (span_digits s) (\<lambda>(_, r1).
       Option.bind (skip_char (CHR ''.'') r1) (\<lambda>r2.
       Option.bind (span_digits r2) (\<lambda>(_, r3).
       Option.bind (skip_char (CHR ''.'') r3) (\<lambda>r4.
       Option.bind (span_digits r4) (\<lambda>(_, r5). Some r5))))) of
     None \<Rightarrow> False | Some rest \<Rightarrow> version_suffix rest)"

definition exact_version_ref :: "string \<Rightarrow> bool" where
  "exact_version_ref s = (let name = takeWhile (\<lambda>c. c \<noteq> CHR ''@'') s;
       version = dropWhile (\<lambda>c. c \<noteq> CHR ''@'') s in
     length s \<le> 256 \<and> matches_ident is_alnum (alnum_or ''._:/-'') 0 127 name
     \<and> version \<noteq> [] \<and> version_number (tl version))"

datatype workflow_phase = SETUP | IDENTITY | EXECUTE | ASSERT | CLEANUP
datatype port_kind = DATA | CONTROL
datatype oracle_strength = HARD | SOFT | DIAGNOSTIC
datatype edge_mapping = DIRECT

record port_spec =
  key :: string
  semantic_type :: string
  port_kind :: port_kind
  required :: bool
  sensitive :: bool

record workflow_node =
  node_id :: string
  node_kind :: string
  version_ref :: string
  phase :: workflow_phase
  input_ports :: "port_spec list"
  output_ports :: "port_spec list"
  params :: "(string \<times> json) list"
  terminal :: bool
  oracle_strength :: "oracle_strength option"

record workflow_edge =
  edge_id :: string
  source_node_id :: string
  source_port :: string
  target_node_id :: string
  target_port :: string
  edge_semantic_type :: string
  edge_kind :: port_kind
  mapping :: edge_mapping

record workflow_graph =
  nodes :: "workflow_node list"
  edges :: "workflow_edge list"

text \<open>Construction of a record: strip the fields named by the \<open>before\<close> validators, then check.\<close>

definition within :: "nat \<Rightarrow> string \<Rightarrow> bool" where
  "within hi s = (1 \<le> length s \<and> length s \<le> hi)"

definition init_port :: "port_spec \<Rightarrow> failure + port_spec" where
  "init_port p = (let p' = p\<lparr>key := py_strip (key p), semantic_type := py_strip (semantic_type p)\<rparr> in
     if port_key_pattern (key p') \<and> within 128 (semantic_type p') then Inr p' else Inl ModelInvalid)"

definition init_node :: "workflow_node \<Rightarrow> failure + workflow_node" where
  "init_node n = (let n' = n\<lparr>node_kind := py_strip (node_kind n),
       version_ref := py_strip (version_ref n)\<rparr> in
     if id_pattern (node_id n') \<and> within 64 (node_kind n') \<and> exact_version_ref (version_ref n')
     then Inr n' else Inl ModelInvalid)"

definition init_edge :: "workflow_edge \<Rightarrow> failure + workflow_edge" where
  "init_edge e = (let e' = e\<lparr>edge_semantic_type := py_strip (edge_semantic_type e)\<rparr> in
     if id_pattern (edge_id e') \<and> id_pattern (source_node_id e')
       \<and> port_key_pattern (source_port e') \<and> id_pattern (target_node_id e')
       \<and> port_key_pattern (target_port e') \<and> within 128 (edge_semantic_type e')
     then Inr e' else Inl ModelInvalid)"

datatype graph_issue_code =
    EMPTY_GRAPH | DUPLICATE_NODE_ID | DUPLICATE_EDGE_ID | DUPLICATE_PORT | DANGLING_EDGE
  | SOURCE_PORT_MISSING | TARGET_PORT_MISSING | PORT_KIND_MISMATCH | PORT_TYPE_MISMATCH
  | EDGE_TYPE_DECLARATION_MISMATCH | REQUIRED_INPUT_MISSING | INPUT_MULTIPLE_WRITERS
  | GRAPH_CYCLE | ORPHAN_NODE | MISSING_SUCCESSOR | INVALID_TERMINAL
  | ASSERTION_COVERAGE_MISSING

record graph_issue =
  code :: graph_issue_code
  message :: string
  issue_node_id :: "string option"
  issue_edge_id :: "string option"

record graph_validation_result =
  valid :: bool
  issues :: "graph_issue list"
  execution_levels :: "string list list"
  matched_required_inputs :: nat
  total_required_inputs :: nat

definition node_issue :: "graph_issue_code \<Rightarrow> string \<Rightarrow> string \<Rightarrow> graph_issue" where
  "node_issue c m n = \<lparr>code = c, message = m, issue_node_id = Some n, issue_edge_id = None\<rparr>"

definition edge_issue :: "graph_issue_code \<Rightarrow> string \<Rightarrow> string \<Rightarrow> graph_issue" where
  "edge_issue c m e = \<lparr>code = c, message = m, issue_node_id = None, issue_edge_id = Some e\<rparr>"

definition graph_issue_of :: "graph_issue_code \<Rightarrow> string \<Rightarrow> graph_issue" where
  "graph_issue_of c m = \<lparr>code = c, message = m, issue_node_id = None, issue_edge_id = None\<rparr>"

definition port_issue :: "graph_issue_code \<Rightarrow> string \<Rightarrow> string \<Rightarrow> string \<Rightarrow> graph_issue" where
  "port_issue c m n e = \<lparr>code = c, message = m, issue_node_id = Some n, issue_edge_id = Some e\<rparr>"

subsection \<open>The validator\<close>

definition find_port :: "port_spec list \<Rightarrow> string \<Rightarrow> port_spec option" where
  "find_port ports k = first_row (\<lambda>p. key p = k) ports"

text \<open>\<open>_validate_port_keys\<close>: the loop over one list of ports, and both lists of a node.\<close>

fun duplicate_port_issues :: "string \<Rightarrow> string list \<Rightarrow> port_spec list \<Rightarrow> graph_issue list" where
  "duplicate_port_issues n seen [] = []"
| "duplicate_port_issues n seen (p # ps) =
     (if key p \<in> set seen
      then [node_issue DUPLICATE_PORT
             (''Node '' @ quoted n @ '' declares port '' @ quoted (key p) @ '' more than once.'') n]
      else []) @ duplicate_port_issues n (key p # seen) ps"

definition validate_port_keys :: "workflow_node \<Rightarrow> graph_issue list" where
  "validate_port_keys n = duplicate_port_issues (node_id n) [] (input_ports n)
     @ duplicate_port_issues (node_id n) [] (output_ports n)"

text \<open>
  The first loop: \<open>node_by_id\<close> in insertion order, which has the first node of every id.
\<close>

definition node_by_id :: "workflow_node list \<Rightarrow> string \<Rightarrow> workflow_node option" where
  "node_by_id reg i = first_row (\<lambda>n. node_id n = i) reg"

fun register_nodes ::
    "workflow_node list \<Rightarrow> workflow_node list \<Rightarrow> workflow_node list \<times> graph_issue list" where
  "register_nodes reg [] = (reg, [])"
| "register_nodes reg (n # ns) =
     (if node_by_id reg (node_id n) \<noteq> None then
        (let (reg', is) = register_nodes reg ns in
         (reg', node_issue DUPLICATE_NODE_ID
                  (''Node ID '' @ quoted (node_id n) @ '' is duplicated.'') (node_id n) # is))
      else (let (reg', is) = register_nodes (reg @ [n]) ns in (reg', validate_port_keys n @ is)))"

text \<open>The state of the loop over the edges.\<close>

record edge_state =
  edge_ids :: "string list"
  incoming_edges :: "string \<Rightarrow> workflow_edge list"
  outgoing_edges :: "string \<Rightarrow> workflow_edge list"
  writers :: "string \<times> string \<Rightarrow> workflow_edge list"
  adjacency :: "string \<Rightarrow> string list"
  indegree :: "string \<Rightarrow> int"
  edge_issues :: "graph_issue list"

definition initial_edge_state :: edge_state where
  "initial_edge_state = \<lparr>edge_ids = [], incoming_edges = (\<lambda>_. []), outgoing_edges = (\<lambda>_. []),
     writers = (\<lambda>_. []), adjacency = (\<lambda>_. []), indegree = (\<lambda>_. 0), edge_issues = []\<rparr>"

text \<open>The typed checks on the two ports of an edge between nodes that exist.\<close>

definition port_mapping_issues ::
    "workflow_edge \<Rightarrow> port_spec option \<Rightarrow> port_spec option \<Rightarrow> graph_issue list" where
  "port_mapping_issues e src tgt =
     (if src = None
      then [port_issue SOURCE_PORT_MISSING (''Node '' @ quoted (source_node_id e)
              @ '' does not publish output port '' @ quoted (source_port e) @ ''.'')
              (source_node_id e) (edge_id e)] else [])
     @ (if tgt = None
        then [port_issue TARGET_PORT_MISSING (''Node '' @ quoted (target_node_id e)
                @ '' does not declare input port '' @ quoted (target_port e) @ ''.'')
                (target_node_id e) (edge_id e)] else [])
     @ (case (src, tgt) of
          (Some sp, Some tp) \<Rightarrow>
            (if port_kind sp \<noteq> port_kind tp \<or> edge_kind e \<noteq> port_kind sp
             then [edge_issue PORT_KIND_MISMATCH
                    (''Edge '' @ quoted (edge_id e) @ '' mixes data and control ports.'') (edge_id e)]
             else [])
            @ (if semantic_type sp \<noteq> semantic_type tp
               then [edge_issue PORT_TYPE_MISMATCH
                      (''Edge '' @ quoted (edge_id e) @ '' maps '' @ quoted (semantic_type sp)
                       @ '' to '' @ quoted (semantic_type tp) @ ''.'') (edge_id e)]
               else [])
            @ (if edge_semantic_type e \<notin> {semantic_type sp, semantic_type tp}
                  \<or> semantic_type sp \<noteq> semantic_type tp
               then [edge_issue EDGE_TYPE_DECLARATION_MISMATCH
                      (''Edge '' @ quoted (edge_id e) @ '' declares '' @ quoted (edge_semantic_type e)
                       @ '' but connects '' @ quoted (semantic_type sp) @ '' to ''
                       @ quoted (semantic_type tp) @ ''.'') (edge_id e)]
               else [])
        | _ \<Rightarrow> [])"

definition process_edge :: "workflow_node list \<Rightarrow> edge_state \<Rightarrow> workflow_edge \<Rightarrow> edge_state" where
  "process_edge reg st e =
     (let dup = (if edge_id e \<in> set (edge_ids st)
          then [edge_issue DUPLICATE_EDGE_ID
                 (''Edge ID '' @ quoted (edge_id e) @ '' is duplicated.'') (edge_id e)] else []);
        st = st\<lparr>edge_ids := edge_id e # edge_ids st, edge_issues := edge_issues st @ dup\<rparr>
      in case (node_by_id reg (source_node_id e), node_by_id reg (target_node_id e)) of
        (Some source, Some target) \<Rightarrow>
          (let s = node_id source; t = node_id target;
             st = st\<lparr>incoming_edges := (incoming_edges st)(t := incoming_edges st t @ [e]),
                outgoing_edges := (outgoing_edges st)(s := outgoing_edges st s @ [e]),
                writers := (writers st)((t, target_port e) := writers st (t, target_port e) @ [e])\<rparr>;
             st = (if t \<notin> set (adjacency st s)
               then st\<lparr>adjacency := (adjacency st)(s := adjacency st s @ [t]),
                       indegree := (indegree st)(t := indegree st t + 1)\<rparr>
               else st)
           in st\<lparr>edge_issues := edge_issues st @ port_mapping_issues e
                  (find_port (output_ports source) (source_port e))
                  (find_port (input_ports target) (target_port e))\<rparr>)
      | _ \<Rightarrow> st\<lparr>edge_issues := edge_issues st @ [edge_issue DANGLING_EDGE
               (''Edge '' @ quoted (edge_id e) @ '' references a missing source or target node.'')
               (edge_id e)]\<rparr>)"

definition process_edges :: "workflow_node list \<Rightarrow> workflow_edge list \<Rightarrow> edge_state" where
  "process_edges reg es = foldl (process_edge reg) initial_edge_state es"

text \<open>The loop over the registered nodes: writers of each input, isolation, terminals.\<close>

definition input_issues :: "edge_state \<Rightarrow> workflow_node \<Rightarrow> port_spec \<Rightarrow> graph_issue list" where
  "input_issues st n p = (let ws = writers st (node_id n, key p) in
     (if required p \<and> length ws \<noteq> 1 \<and> ws = []
      then [node_issue REQUIRED_INPUT_MISSING (''Node '' @ quoted (node_id n)
              @ '' is missing required input '' @ quoted (key p) @ ''.'') (node_id n)] else [])
     @ (if length ws > 1
        then [node_issue INPUT_MULTIPLE_WRITERS (''Node '' @ quoted (node_id n) @ '' input ''
                @ quoted (key p) @ '' has multiple writers.'') (node_id n)] else []))"

definition structure_issues :: "nat \<Rightarrow> edge_state \<Rightarrow> workflow_node \<Rightarrow> graph_issue list" where
  "structure_issues count st n =
     (let has_incoming = incoming_edges st (node_id n) \<noteq> [];
          has_outgoing = outgoing_edges st (node_id n) \<noteq> [] in
      (if count > 1 \<and> \<not> has_incoming \<and> \<not> has_outgoing
       then [node_issue ORPHAN_NODE
              (''Node '' @ quoted (node_id n) @ '' is isolated from the graph.'') (node_id n)] else [])
      @ (if phase n = CLEANUP \<and> \<not> terminal n
         then [node_issue INVALID_TERMINAL
                (''Cleanup node '' @ quoted (node_id n) @ '' must be terminal.'') (node_id n)] else [])
      @ (if terminal n \<and> has_outgoing
         then [node_issue INVALID_TERMINAL
                (''Terminal node '' @ quoted (node_id n) @ '' must not have successors.'')
                (node_id n)] else [])
      @ (if \<not> terminal n \<and> \<not> has_outgoing
         then [node_issue MISSING_SUCCESSOR
                (''Non-terminal node '' @ quoted (node_id n) @ '' has no successor.'') (node_id n)]
         else []))"

definition node_issues :: "nat \<Rightarrow> edge_state \<Rightarrow> workflow_node \<Rightarrow> graph_issue list" where
  "node_issues count st n =
     concat (map (input_issues st n) (input_ports n)) @ structure_issues count st n"

definition required_inputs :: "workflow_node list \<Rightarrow> (string \<times> port_spec) list" where
  "required_inputs reg =
     concat (map (\<lambda>n. map (\<lambda>p. (node_id n, p)) (filter required (input_ports n))) reg)"

definition matched_inputs :: "edge_state \<Rightarrow> workflow_node list \<Rightarrow> nat" where
  "matched_inputs st reg =
     length (filter (\<lambda>(i, p). length (writers st (i, key p)) = 1) (required_inputs reg))"

text \<open>The last loop: every agent must reach a HARD oracle.\<close>

fun coverage_issues ::
    "workflow_node list \<Rightarrow> (string \<Rightarrow> string list) \<Rightarrow> workflow_node list \<Rightarrow> graph_issue list option" where
  "coverage_issues reg adj [] = Some []"
| "coverage_issues reg adj (n # ns) =
     (let hard_oracles = map node_id (filter (\<lambda>m. oracle_strength m = Some HARD) reg) in
      if casefold (node_kind n) \<noteq> ''agent'' then coverage_issues reg adj ns
      else Option.bind (reachable_nodes (map node_id reg) adj (node_id n)) (\<lambda>reachable.
        map_option (\<lambda>is.
          (if list_ex (\<lambda>r. r \<in> set hard_oracles) reachable then []
           else [node_issue ASSERTION_COVERAGE_MISSING
                  (''Agent node '' @ quoted (node_id n) @ '' does not reach a HARD Oracle.'')
                  (node_id n)]) @ is)
          (coverage_issues reg adj ns)))"

text \<open>\<open>_deduplicate_issues\<close>: the first of every group of equal issues.\<close>

fun deduplicate_issues :: "graph_issue list \<Rightarrow> graph_issue list \<Rightarrow> graph_issue list" where
  "deduplicate_issues seen [] = []"
| "deduplicate_issues seen (i # is) =
     (if i \<in> set seen then deduplicate_issues seen is else i # deduplicate_issues (i # seen) is)"

definition validate_workflow_graph :: "workflow_graph \<Rightarrow> graph_validation_result option" where
  "validate_workflow_graph g =
     (let empty = (if nodes g = []
          then [graph_issue_of EMPTY_GRAPH ''Workflow Graph must contain at least one node.''] else []);
        (reg, registration) = register_nodes [] (nodes g);
        st = process_edges reg (edges g);
        per_node = concat (map (node_issues (length reg) st) reg)
      in Option.bind (topological_levels (map node_id reg) (adjacency st) (indegree st)) (\<lambda>levels.
        let cycle = (if length (concat levels) \<noteq> length reg
            then [graph_issue_of GRAPH_CYCLE ''Workflow Graph contains a cycle.''] else [])
        in map_option (\<lambda>coverage.
          let unique = deduplicate_issues []
                (empty @ registration @ edge_issues st @ per_node @ cycle @ coverage)
          in \<lparr>valid = (unique = []), issues = unique, execution_levels = levels,
              matched_required_inputs = matched_inputs st reg,
              total_required_inputs = length (required_inputs reg)\<rparr>)
          (coverage_issues reg (adjacency st) reg)))"

end
