(* ===== verification/Workflow_Correct.thy ===== *)
theory Workflow_Correct
  imports Workflow
begin

text \<open>
  What a valid workflow graph is, without the loops and dictionaries of the validator, and
  the proof that \<open>validate_workflow_graph\<close> always returns and decides it.
\<close>

subsection \<open>Specification\<close>

definition flow :: "workflow_graph \<Rightarrow> (string \<times> string) set" where
  "flow g = {(source_node_id e, target_node_id e) | e. e \<in> set (edges g)}"

definition writers_of :: "workflow_graph \<Rightarrow> workflow_node \<Rightarrow> port_spec \<Rightarrow> workflow_edge list" where
  "writers_of g n p = filter (\<lambda>e. target_node_id e = node_id n \<and> target_port e = key p) (edges g)"

definition well_typed_edge :: "workflow_graph \<Rightarrow> workflow_edge \<Rightarrow> bool" where
  "well_typed_edge g e \<longleftrightarrow> (\<exists>s \<in> set (nodes g). \<exists>t \<in> set (nodes g).
     \<exists>sp \<in> set (output_ports s). \<exists>tp \<in> set (input_ports t).
       node_id s = source_node_id e \<and> key sp = source_port e
     \<and> node_id t = target_node_id e \<and> key tp = target_port e
     \<and> port_kind sp = edge_kind e \<and> port_kind tp = edge_kind e
     \<and> semantic_type sp = edge_semantic_type e \<and> semantic_type tp = edge_semantic_type e)"

definition well_formed_node :: "workflow_graph \<Rightarrow> workflow_node \<Rightarrow> bool" where
  "well_formed_node g n \<longleftrightarrow>
     distinct (map key (input_ports n)) \<and> distinct (map key (output_ports n))
     \<and> (\<forall>p \<in> set (input_ports n). length (writers_of g n p) \<le> 1
          \<and> (required p \<longrightarrow> length (writers_of g n p) = 1))
     \<and> (length (nodes g) > 1 \<longrightarrow>
          (\<exists>e \<in> set (edges g). source_node_id e = node_id n \<or> target_node_id e = node_id n))
     \<and> (phase n = CLEANUP \<longrightarrow> terminal n)
     \<and> (terminal n \<longleftrightarrow> (\<forall>e \<in> set (edges g). source_node_id e \<noteq> node_id n))
     \<and> (casefold (node_kind n) = ''agent'' \<longrightarrow>
          (\<exists>m \<in> set (nodes g). oracle_strength m = Some HARD \<and> (node_id n, node_id m) \<in> (flow g)\<^sup>+))"

definition well_formed_graph :: "workflow_graph \<Rightarrow> bool" where
  "well_formed_graph g \<longleftrightarrow> nodes g \<noteq> [] \<and> distinct (map node_id (nodes g))
     \<and> distinct (map edge_id (edges g)) \<and> (\<forall>e \<in> set (edges g). well_typed_edge g e)
     \<and> (\<forall>n \<in> set (nodes g). well_formed_node g n) \<and> acyclic (flow g)"

subsection \<open>Ports and nodes\<close>

lemma node_by_id_None: "node_by_id reg i = None \<longleftrightarrow> i \<notin> node_id ` set reg"
  unfolding node_by_id_def by (rule first_row_key_None)

lemma duplicate_port_issues_Nil:
  "duplicate_port_issues n seen ps = [] \<longleftrightarrow>
     distinct (map key ps) \<and> set (map key ps) \<inter> set seen = {}"
  by (induction n seen ps rule: duplicate_port_issues.induct) auto

lemma validate_port_keys_Nil:
  "validate_port_keys n = [] \<longleftrightarrow>
     distinct (map key (input_ports n)) \<and> distinct (map key (output_ports n))"
  by (simp add: validate_port_keys_def duplicate_port_issues_Nil)

lemma find_port_Some:
  "distinct (map key ps) \<Longrightarrow> find_port ps k = Some p \<longleftrightarrow> p \<in> set ps \<and> key p = k"
  unfolding find_port_def using first_row_key [of key ps p] first_row_Some [of _ ps p] by auto

lemma register_distinct: "distinct (map node_id reg) \<Longrightarrow> distinct (map node_id (fst (register_nodes reg ns)))"
proof (induction reg ns rule: register_nodes.induct)
  case (1 reg)
  then show ?case by simp
next
  case (2 reg n ns)
  show ?case
  proof (cases "node_by_id reg (node_id n) = None")
    case True
    then have "distinct (map node_id (reg @ [n]))"
      using "2.prems" by (auto simp: node_by_id_None)
    with "2.IH"(2) True show ?thesis by (simp add: case_prod_beta)
  next
    case False
    with 2 show ?thesis by (simp add: case_prod_beta)
  qed
qed

lemma register_clean:
  "distinct (map node_id reg) \<Longrightarrow>
   snd (register_nodes reg ns) = [] \<longleftrightarrow>
     distinct (map node_id (reg @ ns)) \<and> (\<forall>n \<in> set ns. validate_port_keys n = [])"
proof (induction reg ns rule: register_nodes.induct)
  case (1 reg)
  then show ?case by simp
next
  case (2 reg n ns)
  show ?case
  proof (cases "node_by_id reg (node_id n) = None")
    case True
    then have "distinct (map node_id (reg @ [n]))"
      using "2.prems" by (auto simp: node_by_id_None)
    with "2.IH"(2) True show ?thesis by (auto simp: case_prod_beta)
  next
    case False
    then have "node_id n \<in> node_id ` set reg"
      unfolding node_by_id_None by simp
    with False show ?thesis by (auto simp: case_prod_beta)
  qed
qed

lemma register_all:
  "distinct (map node_id (reg @ ns)) \<Longrightarrow> fst (register_nodes reg ns) = reg @ ns"
proof (induction reg ns rule: register_nodes.induct)
  case (1 reg)
  then show ?case by simp
next
  case (2 reg n ns)
  then have "node_by_id reg (node_id n) = None"
    by (auto simp: node_by_id_None)
  with 2 show ?case by (simp add: case_prod_beta)
qed

lemma node_by_id_Some:
  "distinct (map node_id reg) \<Longrightarrow> node_by_id reg i = Some n \<longleftrightarrow> n \<in> set reg \<and> node_id n = i"
  unfolding node_by_id_def using first_row_key [of node_id reg n] first_row_Some [of _ reg n] by auto

subsection \<open>The loop over the edges\<close>

text \<open>An edge is resolved when both of its nodes are registered.\<close>

definition resolved :: "workflow_node list \<Rightarrow> workflow_edge \<Rightarrow> bool" where
  "resolved reg e \<longleftrightarrow> source_node_id e \<in> node_id ` set reg \<and> target_node_id e \<in> node_id ` set reg"

lemma resolved_iff: "resolved reg e \<longleftrightarrow>
    node_by_id reg (source_node_id e) \<noteq> None \<and> node_by_id reg (target_node_id e) \<noteq> None"
  by (simp add: resolved_def node_by_id_None)

definition edge_inv :: "workflow_node list \<Rightarrow> workflow_edge list \<Rightarrow> edge_state \<Rightarrow> bool" where
  "edge_inv reg es st \<longleftrightarrow>
     set (edge_ids st) = edge_id ` set es
     \<and> (\<forall>i. incoming_edges st i = filter (\<lambda>e. resolved reg e \<and> target_node_id e = i) es)
     \<and> (\<forall>i. outgoing_edges st i = filter (\<lambda>e. resolved reg e \<and> source_node_id e = i) es)
     \<and> (\<forall>i k. writers st (i, k) = filter (\<lambda>e. resolved reg e \<and> target_node_id e = i \<and> target_port e = k) es)
     \<and> (\<forall>i. distinct (adjacency st i)
          \<and> set (adjacency st i) = target_node_id ` {e \<in> set es. resolved reg e \<and> source_node_id e = i})
     \<and> (\<forall>t. indegree st t = node_indegree (map node_id reg) (adjacency st) t)"

definition edge_report :: "workflow_node list \<Rightarrow> workflow_edge list \<Rightarrow> workflow_edge \<Rightarrow> graph_issue list" where
  "edge_report reg es e =
     (if edge_id e \<in> edge_id ` set es then [edge_issue DUPLICATE_EDGE_ID
        (''Edge ID '' @ quoted (edge_id e) @ '' is duplicated.'') (edge_id e)] else [])
     @ (case (node_by_id reg (source_node_id e), node_by_id reg (target_node_id e)) of
        (Some source, Some target) \<Rightarrow> port_mapping_issues e
           (find_port (output_ports source) (source_port e))
           (find_port (input_ports target) (target_port e))
      | _ \<Rightarrow> [edge_issue DANGLING_EDGE
           (''Edge '' @ quoted (edge_id e) @ '' references a missing source or target node.'')
           (edge_id e)])"

lemma process_edge_issues:
  assumes "edge_inv reg es st"
  shows "edge_issues (process_edge reg st e) = edge_issues st @ edge_report reg es e"
  using assms
  by (auto simp: process_edge_def edge_report_def edge_inv_def Let_def split: option.splits)

text \<open>One more edge adds at most one arc to the adjacency, and counts it where it leads.\<close>

lemma indegree_in_add:
  assumes "distinct V" and "s \<in> set V" and "t \<notin> set (adj s)"
    and adj': "adj' s = adj s @ [t]" "\<And>n. n \<noteq> s \<Longrightarrow> adj' n = adj n"
  shows "indegree_in V adj' u = indegree_in V adj u + (if u = t then 1 else 0)"
  using assms(1-3)
proof (induction V)
  case Nil
  then show ?case by simp
next
  case (Cons v V)
  show ?case
  proof (cases "v = s")
    case True
    have "adj' n = adj n" if "n \<in> set V" for n
      using that True Cons.prems(1) adj'(2) [of n] by auto
    then have "indegree_in V adj' u = indegree_in V adj u"
      unfolding indegree_in_def by (intro arg_cong [of _ _ length] filter_cong) simp_all
    with True Cons.prems show ?thesis by (auto simp: indegree_in_Cons adj')
  next
    case False
    with Cons show ?thesis by (auto simp: indegree_in_Cons adj')
  qed
qed

lemma process_edge_unresolved:
  assumes inv: "edge_inv reg es st" and un: "\<not> resolved reg e"
  shows "edge_inv reg (es @ [e]) (process_edge reg st e)"
proof -
  let ?st = "process_edge reg st e"
  have "edge_ids ?st = edge_id e # edge_ids st" "incoming_edges ?st = incoming_edges st"
    "outgoing_edges ?st = outgoing_edges st" "writers ?st = writers st"
    "adjacency ?st = adjacency st" "indegree ?st = indegree st"
    using un by (auto simp: process_edge_def Let_def resolved_iff split: option.split)
  moreover have "{x \<in> set (es @ [e]). resolved reg x \<and> source_node_id x = i}
      = {x \<in> set es. resolved reg x \<and> source_node_id x = i}" for i
    using un by auto
  ultimately show ?thesis
    using inv un unfolding edge_inv_def by simp
qed

lemma process_edge_resolved:
  assumes inv: "edge_inv reg es st" and dist: "distinct (map node_id reg)"
    and s: "node_by_id reg (source_node_id e) = Some s" and t: "node_by_id reg (target_node_id e) = Some t"
  shows "edge_inv reg (es @ [e]) (process_edge reg st e)"
proof -
  have ids: "node_id s = source_node_id e" "node_id t = target_node_id e" "s \<in> set reg" "t \<in> set reg"
    using node_by_id_Some [OF dist] s t by blast+
  have res: "resolved reg e" using s t by (simp add: resolved_iff)
  define known where "known = (target_node_id e \<in> set (adjacency st (source_node_id e)))"
  let ?st = "process_edge reg st e"
  have adj: "adjacency ?st = (if known then adjacency st
      else (adjacency st)(source_node_id e := adjacency st (source_node_id e) @ [target_node_id e]))"
    and deg: "indegree ?st = (if known then indegree st
      else (indegree st)(target_node_id e := indegree st (target_node_id e) + 1))"
    by (simp_all add: process_edge_def s t ids Let_def known_def)
  have others: "edge_ids ?st = edge_id e # edge_ids st"
    "incoming_edges ?st = (incoming_edges st)(target_node_id e := incoming_edges st (target_node_id e) @ [e])"
    "outgoing_edges ?st = (outgoing_edges st)(source_node_id e := outgoing_edges st (source_node_id e) @ [e])"
    "writers ?st = (writers st)((target_node_id e, target_port e)
        := writers st (target_node_id e, target_port e) @ [e])"
    by (simp_all add: process_edge_def s t ids Let_def)
  have "indegree ?st u = node_indegree (map node_id reg) (adjacency ?st) u" for u
  proof (cases known)
    case True
    with adj deg inv show ?thesis by (simp add: edge_inv_def)
  next
    case False
    have "source_node_id e \<in> set (map node_id reg)" using ids by force
    with False dist have "indegree_in (map node_id reg) (adjacency ?st) u
        = indegree_in (map node_id reg) (adjacency st) u + (if u = target_node_id e then 1 else 0)"
      using indegree_in_add [of "map node_id reg" "source_node_id e" "target_node_id e"
          "adjacency st" "adjacency ?st" u] by (simp add: adj known_def)
    with False inv show ?thesis
      by (simp add: deg edge_inv_def node_indegree_def)
  qed
  moreover have "distinct (adjacency ?st i) \<and> set (adjacency ?st i)
      = target_node_id ` {x \<in> set (es @ [e]). resolved reg x \<and> source_node_id x = i}" for i
  proof (cases "i = source_node_id e")
    case True
    have "{x \<in> set (es @ [e]). resolved reg x \<and> source_node_id x = i}
        = insert e {x \<in> set es. resolved reg x \<and> source_node_id x = i}"
      using True res by auto
    with True inv show ?thesis
      by (auto simp: adj edge_inv_def known_def)
  next
    case False
    then have "{x \<in> set (es @ [e]). resolved reg x \<and> source_node_id x = i}
        = {x \<in> set es. resolved reg x \<and> source_node_id x = i}" by auto
    with False inv show ?thesis by (simp add: adj edge_inv_def)
  qed
  ultimately show ?thesis
    using inv res unfolding edge_inv_def others by auto
qed

lemma process_edge_inv:
  "edge_inv reg es st \<Longrightarrow> distinct (map node_id reg) \<Longrightarrow> edge_inv reg (es @ [e]) (process_edge reg st e)"
  by (cases "resolved reg e") (auto simp: resolved_iff intro: process_edge_resolved process_edge_unresolved)

lemma process_edges_inv:
  "distinct (map node_id reg) \<Longrightarrow> edge_inv reg es (process_edges reg es)"
proof (induction es rule: rev_induct)
  case Nil
  show ?case
    by (simp add: process_edges_def edge_inv_def initial_edge_state_def node_indegree_def indegree_in_def)
next
  case (snoc e es)
  then show ?case by (simp add: process_edges_def process_edge_inv)
qed

text \<open>The edge issues, edge by edge, each with the edges before it.\<close>

lemma edge_issues_Nil:
  assumes dist: "distinct (map node_id reg)"
  shows "edge_issues (process_edges reg es) = [] \<longleftrightarrow>
    distinct (map edge_id es) \<and> (\<forall>e \<in> set es. edge_report reg [] e = [])"
proof (induction es rule: rev_induct)
  case Nil
  show ?case by (simp add: process_edges_def initial_edge_state_def)
next
  case (snoc e es)
  have "edge_report reg es e = [] \<longleftrightarrow> edge_id e \<notin> edge_id ` set es \<and> edge_report reg [] e = []"
    by (auto simp: edge_report_def)
  moreover have "edge_issues (process_edges reg (es @ [e]))
      = edge_issues (process_edges reg es) @ edge_report reg es e"
    using process_edge_issues [OF process_edges_inv [OF dist, of es], of e] by (simp add: process_edges_def)
  ultimately show ?case using snoc by auto
qed

lemma edge_report_well_typed:
  assumes dist: "distinct (map node_id (nodes g))"
    and ports: "\<And>n. n \<in> set (nodes g) \<Longrightarrow>
        distinct (map key (input_ports n)) \<and> distinct (map key (output_ports n))"
  shows "edge_report (nodes g) [] e = [] \<longleftrightarrow> well_typed_edge g e"
proof -
  have "edge_report (nodes g) [] e = [] \<longleftrightarrow> (\<exists>s t sp tp.
      node_by_id (nodes g) (source_node_id e) = Some s \<and> node_by_id (nodes g) (target_node_id e) = Some t
      \<and> find_port (output_ports s) (source_port e) = Some sp
      \<and> find_port (input_ports t) (target_port e) = Some tp
      \<and> port_kind sp = edge_kind e \<and> port_kind tp = edge_kind e
      \<and> semantic_type sp = edge_semantic_type e \<and> semantic_type tp = edge_semantic_type e)"
  proof (cases "node_by_id (nodes g) (source_node_id e)")
    case s: (Some s)
    show ?thesis
    proof (cases "node_by_id (nodes g) (target_node_id e)")
      case t: (Some t)
      have "port_mapping_issues e src tgt = [] \<longleftrightarrow> (\<exists>sp tp. src = Some sp \<and> tgt = Some tp
          \<and> port_kind sp = edge_kind e \<and> port_kind tp = edge_kind e
          \<and> semantic_type sp = edge_semantic_type e \<and> semantic_type tp = edge_semantic_type e)" for src tgt
        by (cases src; cases tgt) (simp_all add: port_mapping_issues_def, (metis insert_iff)?)
      with s t show ?thesis by (simp add: edge_report_def)
    qed (simp add: edge_report_def s)
  qed (simp add: edge_report_def)
  also have "\<dots> \<longleftrightarrow> well_typed_edge g e" (is "?L \<longleftrightarrow> _")
  proof
    assume ?L
    then obtain s t sp tp where "s \<in> set (nodes g)" "node_id s = source_node_id e"
      "t \<in> set (nodes g)" "node_id t = target_node_id e"
      and f: "find_port (output_ports s) (source_port e) = Some sp"
        "find_port (input_ports t) (target_port e) = Some tp"
      and k: "port_kind sp = edge_kind e" "port_kind tp = edge_kind e"
        "semantic_type sp = edge_semantic_type e" "semantic_type tp = edge_semantic_type e"
      by (auto simp: node_by_id_Some [OF dist])
    moreover from this f have "sp \<in> set (output_ports s)" "key sp = source_port e"
        "tp \<in> set (input_ports t)" "key tp = target_port e"
      using ports find_port_Some by blast+
    ultimately show "well_typed_edge g e" unfolding well_typed_edge_def by blast
  next
    assume "well_typed_edge g e"
    then obtain s t sp tp where st: "s \<in> set (nodes g)" "node_id s = source_node_id e"
      "t \<in> set (nodes g)" "node_id t = target_node_id e"
      and f: "sp \<in> set (output_ports s)" "key sp = source_port e"
        "tp \<in> set (input_ports t)" "key tp = target_port e"
      and k: "port_kind sp = edge_kind e" "port_kind tp = edge_kind e"
        "semantic_type sp = edge_semantic_type e" "semantic_type tp = edge_semantic_type e"
      unfolding well_typed_edge_def by blast
    have "find_port (output_ports s) (source_port e) = Some sp"
      "find_port (input_ports t) (target_port e) = Some tp"
      using ports st(1,3) f find_port_Some by blast+
    with st k show ?L using node_by_id_Some [OF dist] by blast
  qed
  finally show ?thesis .
qed

subsection \<open>The whole validator\<close>

lemma adjacency_graph_ok:
  assumes "edge_inv reg es st" and "distinct (map node_id reg)"
  shows "graph_ok (map node_id reg) (adjacency st)"
  using assms by (auto simp: graph_ok_def edge_inv_def resolved_def)

lemma adjacency_arcs:
  assumes "edge_inv reg es st"
  shows "arcs (map node_id reg) (adjacency st)
    = {(source_node_id e, target_node_id e) | e. e \<in> set es \<and> resolved reg e}"
proof -
  have "set (adjacency st u) = target_node_id ` {e \<in> set es. resolved reg e \<and> source_node_id e = u}" for u
    using assms unfolding edge_inv_def by blast
  moreover have "source_node_id e \<in> set (map node_id reg)" if "resolved reg e" for e
    using that by (simp add: resolved_def)
  ultimately have "(u, v) \<in> arcs (map node_id reg) (adjacency st)
      \<longleftrightarrow> (\<exists>e \<in> set es. resolved reg e \<and> source_node_id e = u \<and> target_node_id e = v)" for u v
    unfolding arcs_def by auto
  then show ?thesis by auto
qed

lemma coverage_issues_result:
  assumes ok: "graph_ok (map node_id reg) adj" and "set ns \<subseteq> set reg"
  shows "\<exists>is. coverage_issues reg adj ns = Some is \<and> (is = [] \<longleftrightarrow>
    (\<forall>n \<in> set ns. casefold (node_kind n) = ''agent'' \<longrightarrow> (\<exists>m \<in> set reg.
       oracle_strength m = Some HARD \<and> (node_id n, node_id m) \<in> (arcs (map node_id reg) adj)\<^sup>+)))"
  using assms(2)
proof (induction ns)
  case Nil
  then show ?case by simp
next
  case (Cons n ns)
  then obtain rest where rest: "coverage_issues reg adj ns = Some rest" and
    iff: "rest = [] \<longleftrightarrow> (\<forall>n \<in> set ns. casefold (node_kind n) = ''agent'' \<longrightarrow> (\<exists>m \<in> set reg.
       oracle_strength m = Some HARD \<and> (node_id n, node_id m) \<in> (arcs (map node_id reg) adj)\<^sup>+))"
    by auto
  have "node_id n \<in> set (map node_id reg)" using Cons.prems by auto
  then obtain r where r: "reachable_nodes (map node_id reg) adj (node_id n) = Some r"
      "set r = {m. (node_id n, m) \<in> (arcs (map node_id reg) adj)\<^sup>+}"
    by (rule reachable_nodes_correct [OF ok])
  show ?case
    using rest iff r by (auto simp: Let_def list_ex_iff)
qed

lemma deduplicate_issues_Nil: "deduplicate_issues [] is = [] \<longleftrightarrow> is = []"
  by (cases "is") auto

lemma validate_result:
  fixes g :: workflow_graph
  defines "reg \<equiv> fst (register_nodes [] (nodes g))"
  defines "st \<equiv> process_edges reg (edges g)"
  obtains r where "validate_workflow_graph g = Some r"
    and "valid r \<longleftrightarrow> nodes g \<noteq> [] \<and> snd (register_nodes [] (nodes g)) = [] \<and> edge_issues st = []
      \<and> (\<forall>n \<in> set reg. node_issues (length reg) st n = [])
      \<and> acyclic (arcs (map node_id reg) (adjacency st))
      \<and> (\<forall>n \<in> set reg. casefold (node_kind n) = ''agent'' \<longrightarrow> (\<exists>m \<in> set reg.
           oracle_strength m = Some HARD
           \<and> (node_id n, node_id m) \<in> (arcs (map node_id reg) (adjacency st))\<^sup>+))"
    and "valid r \<Longrightarrow> layered (map node_id reg) (adjacency st) (execution_levels r)"
    and "matched_required_inputs r = matched_inputs st reg"
    and "total_required_inputs r = length (required_inputs reg)"
proof -
  have dist: "distinct (map node_id reg)"
    unfolding reg_def by (rule register_distinct) simp
  have inv: "edge_inv reg (edges g) st" unfolding st_def by (rule process_edges_inv [OF dist])
  have ok: "graph_ok (map node_id reg) (adjacency st)" by (rule adjacency_graph_ok [OF inv dist])
  have deg: "\<And>t. indegree st t = node_indegree (map node_id reg) (adjacency st) t"
    using inv by (simp add: edge_inv_def)
  obtain ls S where ls: "topological_levels (map node_id reg) (adjacency st) (indegree st) = Some ls"
    and pre: "layered_prefix (map node_id reg) (adjacency st) ls"
      "set (concat ls) = set (map node_id reg) - set S" "set S \<subseteq> set (map node_id reg)"
    and S: "\<forall>v \<in> set S. \<exists>u \<in> set S. v \<in> set (adjacency st u)"
    using topological_levels_result [OF ok deg] .
  have len: "length (concat ls) = length reg \<longleftrightarrow> S = []"
    using complete_levels [OF ok pre] by simp
  have kahn: "kahn_levels (map node_id reg) (adjacency st) = (if S = [] then Some ls else None)"
    using ls len by (simp add: kahn_levels_def deg [abs_def])
  have acyc: "S = [] \<longleftrightarrow> acyclic (arcs (map node_id reg) (adjacency st))"
    using kahn.levels_None_iff [OF ok] kahn by (auto split: if_splits)
  obtain cov where cov: "coverage_issues reg (adjacency st) reg = Some cov" "cov = [] \<longleftrightarrow>
      (\<forall>n \<in> set reg. casefold (node_kind n) = ''agent'' \<longrightarrow> (\<exists>m \<in> set reg.
        oracle_strength m = Some HARD
        \<and> (node_id n, node_id m) \<in> (arcs (map node_id reg) (adjacency st))\<^sup>+))"
    using coverage_issues_result [OF ok, of reg] by auto
  obtain r where r: "validate_workflow_graph g = Some r"
    and valid: "valid r \<longleftrightarrow> nodes g \<noteq> [] \<and> snd (register_nodes [] (nodes g)) = [] \<and> edge_issues st = []
      \<and> (\<forall>n \<in> set reg. node_issues (length reg) st n = []) \<and> S = [] \<and> cov = []"
    and levels: "execution_levels r = ls"
    and counts: "matched_required_inputs r = matched_inputs st reg"
      "total_required_inputs r = length (required_inputs reg)"
    using ls cov(1) len
    by (simp add: validate_workflow_graph_def case_prod_beta deduplicate_issues_Nil Let_def
        flip: reg_def st_def)
  show thesis
  proof (rule that [OF r _ _ counts])
    show "valid r \<Longrightarrow> layered (map node_id reg) (adjacency st) (execution_levels r)"
      using valid pre levels by (auto intro: layered_of_prefix)
  qed (simp add: valid acyc cov(2))
qed

lemma clean_edges_resolved:
  assumes "\<forall>e \<in> set (edges g). well_typed_edge g e" and "e \<in> set (edges g)"
  shows "resolved (nodes g) e"
  using assms by (force simp: well_typed_edge_def resolved_def)

lemma node_issues_Nil:
  assumes inv: "edge_inv (nodes g) (edges g) st" and res: "\<forall>e \<in> set (edges g). resolved (nodes g) e"
  shows "node_issues (length (nodes g)) st n = [] \<longleftrightarrow>
     (\<forall>p \<in> set (input_ports n). length (writers_of g n p) \<le> 1
          \<and> (required p \<longrightarrow> length (writers_of g n p) = 1))
     \<and> (length (nodes g) > 1 \<longrightarrow>
          (\<exists>e \<in> set (edges g). source_node_id e = node_id n \<or> target_node_id e = node_id n))
     \<and> (phase n = CLEANUP \<longrightarrow> terminal n)
     \<and> (terminal n \<longleftrightarrow> (\<forall>e \<in> set (edges g). source_node_id e \<noteq> node_id n))"
proof -
  have w: "writers st (node_id n, key p) = writers_of g n p" for p
    using inv res unfolding edge_inv_def writers_of_def by (auto intro!: filter_cong)
  have i: "incoming_edges st (node_id n) \<noteq> [] \<longleftrightarrow> (\<exists>e \<in> set (edges g). target_node_id e = node_id n)"
    using inv res unfolding edge_inv_def by (auto simp: filter_empty_conv)
  have o: "outgoing_edges st (node_id n) \<noteq> [] \<longleftrightarrow> (\<exists>e \<in> set (edges g). source_node_id e = node_id n)"
    using inv res unfolding edge_inv_def by (auto simp: filter_empty_conv)
  have p: "input_issues st n p = [] \<longleftrightarrow> length (writers_of g n p) \<le> 1
          \<and> (required p \<longrightarrow> length (writers_of g n p) = 1)" for p
    by (cases "writers_of g n p") (auto simp: input_issues_def w Let_def)
  have "structure_issues (length (nodes g)) st n = [] \<longleftrightarrow>
     (length (nodes g) > 1 \<longrightarrow>
          (\<exists>e \<in> set (edges g). source_node_id e = node_id n \<or> target_node_id e = node_id n))
     \<and> (phase n = CLEANUP \<longrightarrow> terminal n)
     \<and> (terminal n \<longleftrightarrow> (\<forall>e \<in> set (edges g). source_node_id e \<noteq> node_id n))"
    unfolding structure_issues_def Let_def i o by auto
  with p show ?thesis by (auto simp: node_issues_def)
qed

lemma validator_decides:
  obtains r where "validate_workflow_graph g = Some r" and "valid r \<longleftrightarrow> well_formed_graph g"
    and "well_formed_graph g \<Longrightarrow> layered (map node_id (nodes g))
           (adjacency (process_edges (nodes g) (edges g))) (execution_levels r)"
proof -
  let ?reg = "fst (register_nodes [] (nodes g))"
  let ?st = "process_edges ?reg (edges g)"
  obtain r where r: "validate_workflow_graph g = Some r"
    and valid: "valid r \<longleftrightarrow> nodes g \<noteq> [] \<and> snd (register_nodes [] (nodes g)) = [] \<and> edge_issues ?st = []
      \<and> (\<forall>n \<in> set ?reg. node_issues (length ?reg) ?st n = [])
      \<and> acyclic (arcs (map node_id ?reg) (adjacency ?st))
      \<and> (\<forall>n \<in> set ?reg. casefold (node_kind n) = ''agent'' \<longrightarrow> (\<exists>m \<in> set ?reg.
           oracle_strength m = Some HARD
           \<and> (node_id n, node_id m) \<in> (arcs (map node_id ?reg) (adjacency ?st))\<^sup>+))"
    and lay: "valid r \<Longrightarrow> layered (map node_id ?reg) (adjacency ?st) (execution_levels r)"
    by (rule validate_result [of g]) (rule that)
  have clean: "snd (register_nodes [] (nodes g)) = [] \<longleftrightarrow> distinct (map node_id (nodes g))
      \<and> (\<forall>n \<in> set (nodes g). distinct (map key (input_ports n)) \<and> distinct (map key (output_ports n)))"
    using register_clean [of "[]" "nodes g"] by (simp add: validate_port_keys_Nil)
  have wf: "valid r \<longleftrightarrow> well_formed_graph g"
  proof (cases "snd (register_nodes [] (nodes g)) = []")
    case False
    with clean valid show ?thesis by (auto simp: well_formed_graph_def well_formed_node_def)
  next
    case True
    with clean have dist: "distinct (map node_id (nodes g))"
      and ports: "\<And>n. n \<in> set (nodes g) \<Longrightarrow>
        distinct (map key (input_ports n)) \<and> distinct (map key (output_ports n))" by auto
    have reg: "?reg = nodes g" using register_all [of "[]" "nodes g"] dist by simp
    have edge: "edge_issues ?st = [] \<longleftrightarrow>
        distinct (map edge_id (edges g)) \<and> (\<forall>e \<in> set (edges g). well_typed_edge g e)"
      unfolding reg edge_issues_Nil [OF dist] using edge_report_well_typed [OF dist ports] by simp
    show ?thesis
    proof (cases "\<forall>e \<in> set (edges g). well_typed_edge g e")
      case False
      with edge valid show ?thesis by (auto simp: well_formed_graph_def)
    next
      case typed: True
      have res: "\<forall>e \<in> set (edges g). resolved (nodes g) e"
        using clean_edges_resolved [OF typed] by blast
      have inv: "edge_inv (nodes g) (edges g) ?st" unfolding reg by (rule process_edges_inv [OF dist])
      have flow: "arcs (map node_id ?reg) (adjacency ?st) = flow g"
        unfolding reg adjacency_arcs [OF inv [unfolded reg]] using res by (auto simp: flow_def)
      note clean_node = node_issues_Nil [OF inv res]
      show ?thesis
        unfolding valid flow edge
        unfolding clean_node [unfolded reg] reg
        using True typed dist ports by (auto simp: well_formed_graph_def well_formed_node_def)
    qed
  qed
  show thesis
  proof (rule that [OF r wf])
    assume w: "well_formed_graph g"
    then have "?reg = nodes g" using register_all [of "[]" "nodes g"] by (simp add: well_formed_graph_def)
    with lay wf w show "layered (map node_id (nodes g))
           (adjacency (process_edges (nodes g) (edges g))) (execution_levels r)" by simp
  qed
qed

subsection \<open>Properties\<close>

text \<open>
  C39: the validator always returns, and reports a graph as valid exactly when it is
  well formed in the declarative sense of \<open>well_formed_graph\<close>.
\<close>

theorem validate_workflow_graph_decides:
  "map_option valid (validate_workflow_graph g) = Some (well_formed_graph g)"
proof -
  obtain r where "validate_workflow_graph g = Some r" "valid r = well_formed_graph g"
    by (rule validator_decides)
  then show ?thesis by simp
qed

lemma flow_arc:
  assumes "well_formed_graph g" and "e \<in> set (edges g)"
  shows "(source_node_id e, target_node_id e)
      \<in> arcs (map node_id (nodes g)) (adjacency (process_edges (nodes g) (edges g)))"
proof -
  have dist: "distinct (map node_id (nodes g))" and typed: "\<forall>e \<in> set (edges g). well_typed_edge g e"
    using assms(1) by (simp_all add: well_formed_graph_def)
  have inv: "edge_inv (nodes g) (edges g) (process_edges (nodes g) (edges g))"
    by (rule process_edges_inv [OF dist])
  have "resolved (nodes g) e"
    using clean_edges_resolved [OF typed] assms(2) by blast
  then show ?thesis
    unfolding adjacency_arcs [OF inv] using assms(2) by auto
qed

text \<open>
  C40: the execution levels of a valid graph hold every node once and run the source of an
  edge in an earlier level than its target.
\<close>

theorem valid_levels_schedule_edges:
  assumes "validate_workflow_graph g = Some r" and "valid r"
  shows "distinct (concat (execution_levels r))
    \<and> set (concat (execution_levels r)) = node_id ` set (nodes g)
    \<and> (\<forall>e \<in> set (edges g). \<forall>j < length (execution_levels r).
           target_node_id e \<in> set (execution_levels r ! j) \<longrightarrow>
           (\<exists>i < j. source_node_id e \<in> set (execution_levels r ! i)))"
proof (intro conjI)
  obtain r' where r': "validate_workflow_graph g = Some r'" "valid r' = well_formed_graph g"
    and lay: "well_formed_graph g \<Longrightarrow> layered (map node_id (nodes g))
           (adjacency (process_edges (nodes g) (edges g))) (execution_levels r')"
    by (rule validator_decides [of g]) (rule that)
  with assms have wf: "well_formed_graph g" and eq: "r' = r" by auto
  note l = lay [OF wf, unfolded eq]
  show "distinct (concat (execution_levels r))"
    and "set (concat (execution_levels r)) = node_id ` set (nodes g)"
    using l by (simp_all add: layered_def)
  show "\<forall>e \<in> set (edges g). \<forall>j < length (execution_levels r).
           target_node_id e \<in> set (execution_levels r ! j) \<longrightarrow>
           (\<exists>i < j. source_node_id e \<in> set (execution_levels r ! i))"
    using l flow_arc [OF wf] unfolding layered_def by blast
qed

text \<open>A graph of an agent and the hard oracle it feeds.\<close>

definition sample_port :: "string \<Rightarrow> bool \<Rightarrow> port_spec" where
  "sample_port k r = \<lparr>key = k, semantic_type = ''page'', port_kind = DATA, required = r,
     sensitive = False\<rparr>"

definition sample_graph :: workflow_graph where
  "sample_graph = \<lparr>nodes =
      [\<lparr>node_id = ''act'', node_kind = ''Agent'', version_ref = ''act@1.0.0'', phase = EXECUTE,
        input_ports = [], output_ports = [sample_port ''out'' False], params = [], terminal = False,
        oracle_strength = None\<rparr>,
       \<lparr>node_id = ''check'', node_kind = ''oracle'', version_ref = ''check@1.0.0'', phase = ASSERT,
        input_ports = [sample_port ''in'' True], output_ports = [], params = [], terminal = True,
        oracle_strength = Some HARD\<rparr>],
     edges =
      [\<lparr>edge_id = ''e1'', source_node_id = ''act'', source_port = ''out'', target_node_id = ''check'',
        target_port = ''in'', edge_semantic_type = ''page'', edge_kind = DATA, mapping = DIRECT\<rparr>]\<rparr>"

lemma sample_graph_validates:
  "validate_workflow_graph sample_graph = Some \<lparr>valid = True, issues = [],
     execution_levels = [[''act''], [''check'']], matched_required_inputs = 1,
     total_required_inputs = 1\<rparr>"
  by code_simp

theorem valid_levels_schedule_edges_witness:
  "distinct (concat [[''act''], [''check'']])
   \<and> set (concat [[''act''], [''check'']]) = node_id ` set (nodes sample_graph)"
  using valid_levels_schedule_edges [OF sample_graph_validates] by simp

end
