(* ===== verification/Task_Model.thy ===== *)
theory Task_Model
  imports Core
begin

text \<open>
  The execution aggregate the Result Center reads, from \<^verbatim>\<open>domain/task/models.py\<close>: a run with
  its sealed manifest, the units it was materialised into and the physical attempts of a unit.  The
  records keep the fields the result projections read; the scheduling, Temporal and timing fields
  of the four models are left out.
\<close>

datatype lifecycle =
    LIFE_QUEUED | LIFE_RUNNING | LIFE_PAUSE_REQUESTED | LIFE_PAUSED | LIFE_CANCELING
  | LIFE_FINALIZING | LIFE_CLOSED

datatype execution_quality =
    QUALITY_PENDING | QUALITY_PASSED | QUALITY_FAILED | QUALITY_BLOCKED | QUALITY_INCONCLUSIVE
  | QUALITY_INFRA_ERROR | QUALITY_CANCELED

datatype execution_hygiene =
    CLEANUP_NOT_REQUIRED | CLEANUP_PENDING | CLEANUP_RUNNING | CLEANUP_CLEANED
  | CLEANUP_CLEANUP_FAILED | CLEANUP_LEAKED

fun execution_hygiene_text :: "execution_hygiene \<Rightarrow> string" where
  "execution_hygiene_text CLEANUP_NOT_REQUIRED = ''NOT_REQUIRED''"
| "execution_hygiene_text CLEANUP_PENDING = ''PENDING''"
| "execution_hygiene_text CLEANUP_RUNNING = ''RUNNING''"
| "execution_hygiene_text CLEANUP_CLEANED = ''CLEANED''"
| "execution_hygiene_text CLEANUP_CLEANUP_FAILED = ''CLEANUP_FAILED''"
| "execution_hygiene_text CLEANUP_LEAKED = ''LEAKED''"

datatype materialization_state = MATERIALIZING | SEALED

text \<open>Tenant, project and run: the scope key every result table repeats.\<close>

record task_scope =
  sc_tenant :: uuid
  sc_project :: uuid
  sc_run :: uuid

text \<open>\<open>ExecutionUnitManifest\<close>: one cell frozen into a manifest and copied to its unit.\<close>

record unit_binding =
  ub_ordinal :: int
  ub_unit_key :: string
  ub_case_version_id :: uuid
  ub_execution_profile_version_id :: uuid
  ub_fixture_blueprint_version_id :: uuid
  ub_identity_profile_version_id :: uuid
  ub_environment_id :: uuid
  ub_browser_profile_version_id :: uuid
  ub_data_profile_version_id :: uuid
  ub_parameter_digest :: string
  ub_dependency_digest :: string

record run_manifest =
  mf_scope :: task_scope
  mf_units :: "unit_binding list"
  mf_hash :: string

record task_run =
  tr_scope :: task_scope
  tr_manifest_hash :: string
  tr_materialization :: materialization_state
  tr_unit_count :: "int option"
  tr_first_attempt_count :: "int option"
  tr_lifecycle :: lifecycle
  tr_closed_at :: "instant option"

record execution_unit =
  eu_id :: uuid
  eu_scope :: task_scope
  eu_manifest_hash :: string
  eu_binding :: unit_binding
  eu_lifecycle :: lifecycle

record task_attempt =
  at_id :: uuid
  at_scope :: task_scope
  at_unit :: uuid
  at_manifest_hash :: string
  at_unit_key :: string
  at_number :: int
  at_lifecycle :: lifecycle
  at_quality :: execution_quality
  at_hygiene :: execution_hygiene
  at_started_at :: "instant option"
  at_cleanup_resolved_at :: "instant option"
  at_closed_at :: "instant option"
  at_updated_at :: instant

definition eu_unit_key :: "execution_unit \<Rightarrow> string" where
  "eu_unit_key u = ub_unit_key (eu_binding u)"

end
