(* ===== verification/Wire_Time.thy ===== *)
theory Wire_Time
  imports Prelude
begin

text \<open>
  The texts of an instant that digests are taken over.  An instant is a number of microseconds
  since the epoch; the session's time zone is UTC.  Python's \<open>datetime.isoformat\<close> writes six
  digits of a fraction that is not zero and the offset \<open>+00:00\<close>; Pydantic's JSON rendering
  writes the same digits and the suffix \<open>Z\<close>; PostgreSQL's \<open>to_jsonb\<close> of a \<open>timestamptz\<close>
  leaves out the trailing zeros of the fraction and writes \<open>+00:00\<close>.
\<close>

text \<open>The proleptic Gregorian date of a number of days since 1970-01-01.\<close>

definition civil_date :: "int \<Rightarrow> int \<times> int \<times> int" where
  "civil_date days =
     (let z = days + 719468; era = z div 146097; doe = z mod 146097;
          yoe = (doe - doe div 1460 + doe div 36524 - doe div 146096) div 365;
          doy = doe - (365 * yoe + yoe div 4 - yoe div 100);
          mp = (5 * doy + 2) div 153; d = doy - (153 * mp + 2) div 5 + 1;
          m = (if mp < 10 then mp + 3 else mp - 9) in
      (yoe + era * 400 + (if m \<le> 2 then 1 else 0), m, d))"

definition padded :: "nat \<Rightarrow> int \<Rightarrow> string" where
  "padded width n = (let t = int_text n in replicate (width - length t) (CHR ''0'') @ t)"

definition whole_seconds_text :: "instant \<Rightarrow> string" where
  "whole_seconds_text t =
     (let s = t div 1000000; r = s mod 86400; (y, m, d) = civil_date (s div 86400) in
      padded 4 y @ ''-'' @ padded 2 m @ ''-'' @ padded 2 d @ ''T'' @ padded 2 (r div 3600) @ '':''
      @ padded 2 (r div 60 mod 60) @ '':'' @ padded 2 (r mod 60))"

definition microseconds :: "instant \<Rightarrow> int" where
  "microseconds t = t mod 1000000"

fun trim_zeros :: "int \<Rightarrow> nat \<Rightarrow> int \<times> nat" where
  "trim_zeros n 0 = (n, 0)"
| "trim_zeros n (Suc w) = (if n mod 10 = 0 then trim_zeros (n div 10) w else (n, Suc w))"

definition python_fraction :: "instant \<Rightarrow> string" where
  "python_fraction t = (if microseconds t = 0 then [] else CHR ''.'' # padded 6 (microseconds t))"

definition postgres_fraction :: "instant \<Rightarrow> string" where
  "postgres_fraction t = (if microseconds t = 0 then []
     else case trim_zeros (microseconds t) 6 of (n, w) \<Rightarrow> CHR ''.'' # padded w n)"

definition isoformat :: "instant \<Rightarrow> string" where
  "isoformat t = whole_seconds_text t @ python_fraction t @ ''+00:00''"

definition pydantic_time :: "instant \<Rightarrow> string" where
  "pydantic_time t = whole_seconds_text t @ python_fraction t @ ''Z''"

definition postgres_time :: "instant \<Rightarrow> string" where
  "postgres_time t = whole_seconds_text t @ postgres_fraction t @ ''+00:00''"

text \<open>An instant whose fraction of a second ends in a zero: the two sides write it differently.\<close>

definition trailing_zero :: "instant \<Rightarrow> bool" where
  "trailing_zero t = (microseconds t \<noteq> 0 \<and> microseconds t mod 10 = 0)"

lemma pydantic_differs: "pydantic_time t \<noteq> postgres_time t"
proof
  assume "pydantic_time t = postgres_time t"
  then have "last (pydantic_time t) = last (postgres_time t)" by simp
  then show False by (simp add: pydantic_time_def postgres_time_def)
qed

lemma length_dec_text: "0 < w \<Longrightarrow> n < 10 ^ w \<Longrightarrow> length (dec_text n) \<le> w"
proof (induction w arbitrary: n)
  case (Suc w)
  show ?case
  proof (cases "n < 10")
    case True
    then show ?thesis by (subst dec_text.simps) simp
  next
    case False
    then have w: "0 < w" using Suc.prems by (cases w) auto
    have "n div 10 < 10 ^ w" using Suc.prems(2) by (simp add: less_mult_imp_div_less mult.commute)
    with Suc.IH [OF w] False show ?thesis by (subst dec_text.simps) simp
  qed
qed simp

lemma length_padded: "0 \<le> n \<Longrightarrow> n < 10 ^ w \<Longrightarrow> 0 < w \<Longrightarrow> length (padded w n) = w"
  using length_dec_text [of w "nat n"]
  by (simp add: padded_def int_text_def Let_def nat_less_iff)

lemma trim_zeros_bound:
  "0 < n \<Longrightarrow> n < 10 ^ w \<Longrightarrow> trim_zeros n w = (m, v) \<Longrightarrow> 0 < m \<and> m < 10 ^ v \<and> 0 < v \<and> v \<le> w"
proof (induction w arbitrary: n)
  case (Suc w)
  show ?case
  proof (cases "n mod 10 = 0")
    case True
    then have "0 < n div 10" "n div 10 < 10 ^ w" using Suc.prems(1,2) by auto
    with Suc.IH [of "n div 10"] Suc.prems(3) True show ?thesis by auto
  qed (use Suc.prems in auto)
qed simp

lemma microseconds_range: "0 \<le> microseconds t" "microseconds t < 1000000"
  by (simp_all add: microseconds_def)

lemma trim_six: "trim_zeros n 6 = (if n mod 10 = 0 then trim_zeros (n div 10) 5 else (n, 6))"
  using trim_zeros.simps(2) [of n 5] by simp

lemma isoformat_agrees: "\<not> trailing_zero t \<Longrightarrow> isoformat t = postgres_time t"
  by (auto simp: isoformat_def postgres_time_def python_fraction_def postgres_fraction_def
      trailing_zero_def trim_six)

lemma isoformat_differs:
  assumes "trailing_zero t"
  shows "isoformat t \<noteq> postgres_time t"
proof -
  obtain n w where tz: "trim_zeros (microseconds t div 10) 5 = (n, w)" by fastforce
  have m: "0 < microseconds t" "microseconds t mod 10 = 0" "microseconds t < 10 ^ 6"
    using assms microseconds_range [of t] by (auto simp: trailing_zero_def)
  then have b: "0 < n \<and> n < 10 ^ w \<and> 0 < w \<and> w \<le> 5"
    by (intro trim_zeros_bound [OF _ _ tz]) auto
  have "length (postgres_fraction t) = Suc w"
    using m tz b by (simp add: postgres_fraction_def trim_six length_padded)
  moreover have "length (python_fraction t) = 7"
    using m by (simp add: python_fraction_def length_padded)
  ultimately have "length (postgres_fraction t) \<noteq> length (python_fraction t)" using b by simp
  then show ?thesis
    by (simp add: isoformat_def postgres_time_def) metis
qed

end
