(* ===== verification/Fixture_Run.thy ===== *)
theory Fixture_Run
  imports Task_Model Wire_Time
begin

text \<open>
  The fixture runs the hygiene projection observes, from \<^verbatim>\<open>domain/fixture/runtime.py\<close>: the run
  with its resource ledger, its cleanup attempts and its nodes, and the JSON document of a cleanup
  observation, in which the service and the database write instants differently.
\<close>

datatype fixture_kind = FIXTURE_VALIDATION | FIXTURE_EXECUTION

datatype fixture_status =
    FIXTURE_REQUESTED | FIXTURE_RUNNING | FIXTURE_READY | FIXTURE_FAILED | FIXTURE_CANCELED
  | FIXTURE_CLEANING | FIXTURE_RELEASED | FIXTURE_CLEANUP_FAILED

datatype cleanup_state =
    STATE_NOT_REQUIRED | STATE_PENDING | STATE_RUNNING | STATE_CLEANED | STATE_LEAKED

datatype node_status =
    NODE_PENDING | NODE_READY | NODE_RUNNING | NODE_VERIFYING | NODE_SUCCEEDED | NODE_FAILED
  | NODE_OUTCOME_UNCERTAIN

datatype reconcile_state =
    RECONCILE_NOT_REQUIRED | RECONCILE_PENDING | RECONCILE_RUNNING | RECONCILE_FOUND
  | RECONCILE_ABSENT | RECONCILE_INCONCLUSIVE | RECONCILE_EXHAUSTED

datatype ownership = CREATED | ADOPTED | LEASED | SHARED

datatype resource_status =
    RESOURCE_ACTIVE | RESOURCE_CLEANUP_PENDING | RESOURCE_CLEANING | RESOURCE_CLEANED
  | RESOURCE_LEAKED | RESOURCE_BLOCKED_BY_CHILD | RESOURCE_ORPHAN_SUSPECTED

text \<open>The values of the enumerations, which are their texts.\<close>

fun fixture_status_text :: "fixture_status \<Rightarrow> string" where
  "fixture_status_text FIXTURE_REQUESTED = ''REQUESTED''"
| "fixture_status_text FIXTURE_RUNNING = ''RUNNING''"
| "fixture_status_text FIXTURE_READY = ''READY''"
| "fixture_status_text FIXTURE_FAILED = ''FAILED''"
| "fixture_status_text FIXTURE_CANCELED = ''CANCELED''"
| "fixture_status_text FIXTURE_CLEANING = ''CLEANING''"
| "fixture_status_text FIXTURE_RELEASED = ''RELEASED''"
| "fixture_status_text FIXTURE_CLEANUP_FAILED = ''CLEANUP_FAILED''"

fun cleanup_state_text :: "cleanup_state \<Rightarrow> string" where
  "cleanup_state_text STATE_NOT_REQUIRED = ''NOT_REQUIRED''"
| "cleanup_state_text STATE_PENDING = ''PENDING''"
| "cleanup_state_text STATE_RUNNING = ''RUNNING''"
| "cleanup_state_text STATE_CLEANED = ''CLEANED''"
| "cleanup_state_text STATE_LEAKED = ''LEAKED''"

fun node_status_text :: "node_status \<Rightarrow> string" where
  "node_status_text NODE_PENDING = ''PENDING''"
| "node_status_text NODE_READY = ''READY''"
| "node_status_text NODE_RUNNING = ''RUNNING''"
| "node_status_text NODE_VERIFYING = ''VERIFYING''"
| "node_status_text NODE_SUCCEEDED = ''SUCCEEDED''"
| "node_status_text NODE_FAILED = ''FAILED''"
| "node_status_text NODE_OUTCOME_UNCERTAIN = ''OUTCOME_UNCERTAIN''"

fun reconcile_text :: "reconcile_state \<Rightarrow> string" where
  "reconcile_text RECONCILE_NOT_REQUIRED = ''NOT_REQUIRED''"
| "reconcile_text RECONCILE_PENDING = ''PENDING''"
| "reconcile_text RECONCILE_RUNNING = ''RUNNING''"
| "reconcile_text RECONCILE_FOUND = ''FOUND''"
| "reconcile_text RECONCILE_ABSENT = ''ABSENT''"
| "reconcile_text RECONCILE_INCONCLUSIVE = ''INCONCLUSIVE''"
| "reconcile_text RECONCILE_EXHAUSTED = ''EXHAUSTED''"

fun ownership_text :: "ownership \<Rightarrow> string" where
  "ownership_text CREATED = ''CREATED''"
| "ownership_text ADOPTED = ''ADOPTED''"
| "ownership_text LEASED = ''LEASED''"
| "ownership_text SHARED = ''SHARED''"

fun resource_status_text :: "resource_status \<Rightarrow> string" where
  "resource_status_text RESOURCE_ACTIVE = ''ACTIVE''"
| "resource_status_text RESOURCE_CLEANUP_PENDING = ''CLEANUP_PENDING''"
| "resource_status_text RESOURCE_CLEANING = ''CLEANING''"
| "resource_status_text RESOURCE_CLEANED = ''CLEANED''"
| "resource_status_text RESOURCE_LEAKED = ''LEAKED''"
| "resource_status_text RESOURCE_BLOCKED_BY_CHILD = ''BLOCKED_BY_CHILD''"
| "resource_status_text RESOURCE_ORPHAN_SUSPECTED = ''ORPHAN_SUSPECTED''"

record fixture_resource =
  fo_id :: uuid
  fo_run :: uuid
  fo_node_run :: uuid
  fo_connector :: uuid
  fo_handle :: string
  fo_type :: string
  fo_ownership :: ownership
  fo_status :: resource_status
  fo_expires_at :: instant
  fo_generation :: int
  fo_next_cleanup_at :: "instant option"
  fo_created_at :: instant
  fo_cleaned_at :: "instant option"
  fo_revision :: int
  fo_updated_at :: instant

record cleanup_attempt =
  ca_id :: uuid
  ca_run :: uuid
  ca_resource :: uuid
  ca_generation :: int
  ca_status :: string
  ca_worker :: string
  ca_failure_category :: "string option"
  ca_failure_code :: "string option"
  ca_failure_detail :: "string option"
  ca_provider_request :: "string option"
  ca_started_at :: instant
  ca_finished_at :: "instant option"
  ca_updated_at :: instant

record fixture_node =
  fn_id :: uuid
  fn_node_id :: string
  fn_status :: node_status
  fn_reconcile_state :: reconcile_state
  fn_reconcile_attempts :: int
  fn_revision :: int
  fn_updated_at :: instant

text \<open>A run with the rows of its resource, cleanup attempt, node and manifest tables.\<close>

record fixture_run =
  fr_id :: uuid
  fr_tenant :: uuid
  fr_project :: uuid
  fr_environment :: uuid
  fr_blueprint :: uuid
  fr_kind :: fixture_kind
  fr_execution_id :: string
  fr_plan_digest :: string
  fr_status :: fixture_status
  fr_cleanup_state :: cleanup_state
  fr_cleanup_generation :: int
  fr_requested_at :: instant
  fr_revision :: int
  fr_updated_at :: instant
  fr_resources :: "fixture_resource list"
  fr_cleanup_attempts :: "cleanup_attempt list"
  fr_nodes :: "fixture_node list"
  fr_manifest_digest :: "string option"

definition uncertain_nodes :: "fixture_run \<Rightarrow> fixture_node list" where
  "uncertain_nodes f = filter (\<lambda>n. fn_status n = NODE_OUTCOME_UNCERTAIN) (fr_nodes f)"

subsection \<open>The cleanup observation\<close>

definition optional_json :: "('a \<Rightarrow> json) \<Rightarrow> 'a option \<Rightarrow> json" where
  "optional_json f x = (case x of None \<Rightarrow> JNull | Some y \<Rightarrow> f y)"

definition uuid_json :: "uuid \<Rightarrow> json" where
  "uuid_json u = JString (uuid_text u)"

text \<open>Rows as JSON objects, with the rendering of an instant as an argument.\<close>

definition resource_json :: "(instant \<Rightarrow> string) \<Rightarrow> fixture_resource \<Rightarrow> json" where
  "resource_json time r = JObject
     [(''id'', uuid_json (fo_id r)), (''fixtureRunId'', uuid_json (fo_run r)),
      (''dataNodeRunId'', uuid_json (fo_node_run r)),
      (''connectorInstallationId'', uuid_json (fo_connector r)),
      (''resourceHandle'', JString (fo_handle r)), (''resourceType'', JString (fo_type r)),
      (''ownership'', JString (ownership_text (fo_ownership r))),
      (''status'', JString (resource_status_text (fo_status r))),
      (''expiresAt'', JString (time (fo_expires_at r))), (''cleanupGeneration'', JInt (fo_generation r)),
      (''nextCleanupAt'', optional_json (\<lambda>t. JString (time t)) (fo_next_cleanup_at r)),
      (''createdAt'', JString (time (fo_created_at r))),
      (''cleanedAt'', optional_json (\<lambda>t. JString (time t)) (fo_cleaned_at r)),
      (''revision'', JInt (fo_revision r)), (''updatedAt'', JString (time (fo_updated_at r)))]"

definition cleanup_attempt_json :: "(instant \<Rightarrow> string) \<Rightarrow> cleanup_attempt \<Rightarrow> json" where
  "cleanup_attempt_json time c = JObject
     [(''id'', uuid_json (ca_id c)), (''fixtureRunId'', uuid_json (ca_run c)),
      (''resourceRecordId'', uuid_json (ca_resource c)), (''cleanupGeneration'', JInt (ca_generation c)),
      (''status'', JString (ca_status c)), (''workerIdentity'', JString (ca_worker c)),
      (''failureCategory'', optional_json JString (ca_failure_category c)),
      (''failureCode'', optional_json JString (ca_failure_code c)),
      (''failureDetail'', optional_json JString (ca_failure_detail c)),
      (''providerRequestId'', optional_json JString (ca_provider_request c)),
      (''startedAt'', JString (time (ca_started_at c))),
      (''finishedAt'', optional_json (\<lambda>t. JString (time t)) (ca_finished_at c)),
      (''updatedAt'', JString (time (ca_updated_at c)))]"

definition node_json :: "(instant \<Rightarrow> string) \<Rightarrow> fixture_node \<Rightarrow> json" where
  "node_json time n = JObject
     [(''id'', uuid_json (fn_id n)), (''nodeId'', JString (fn_node_id n)),
      (''status'', JString (node_status_text (fn_status n))),
      (''reconcileState'', JString (reconcile_text (fn_reconcile_state n))),
      (''reconcileAttemptCount'', JInt (fn_reconcile_attempts n)), (''revision'', JInt (fn_revision n)),
      (''updatedAt'', JString (time (fn_updated_at n)))]"

definition observation_json :: "(instant \<Rightarrow> string) \<Rightarrow> (instant \<Rightarrow> string) \<Rightarrow> fixture_run \<Rightarrow> json" where
  "observation_json row_time node_time f = JObject
     [(''schemaVersion'', JString ''atlas.fixture-cleanup-observation/0.1''),
      (''fixtureRunId'', uuid_json (fr_id f)), (''fixtureRunRevision'', JInt (fr_revision f)),
      (''cleanupGeneration'', JInt (fr_cleanup_generation f)),
      (''cleanupState'', JString (cleanup_state_text (fr_cleanup_state f))),
      (''resources'', JArray (map (resource_json row_time) (fr_resources f))),
      (''cleanupAttempts'', JArray (map (cleanup_attempt_json row_time) (fr_cleanup_attempts f))),
      (''uncertainNodes'', JArray (map (node_json node_time) (uncertain_nodes f)))]"

text \<open>
  The service dumps resources and cleanup attempts with Pydantic and writes the instants of nodes
  with \<open>isoformat\<close>; the trigger of the database renders every column with \<open>to_jsonb\<close>.
\<close>

definition service_observation :: "fixture_run \<Rightarrow> json" where
  "service_observation f = observation_json pydantic_time isoformat f"

definition database_observation :: "fixture_run \<Rightarrow> json" where
  "database_observation f = observation_json postgres_time postgres_time f"

definition no_cleanup_json :: "(instant \<Rightarrow> string) \<Rightarrow> task_attempt \<Rightarrow> json" where
  "no_cleanup_json time a = JObject
     [(''schemaVersion'', JString ''atlas.explicit-no-cleanup/0.1''),
      (''unitAttemptId'', uuid_json (at_id a)), (''attemptNumber'', JInt (at_number a)),
      (''hygiene'', JString (execution_hygiene_text (at_hygiene a))),
      (''updatedAt'', JString (time (at_updated_at a)))]"

lemma observations_agree_iff:
  "service_observation f = database_observation f \<longleftrightarrow> fr_resources f = [] \<and> fr_cleanup_attempts f = []
     \<and> list_all (\<lambda>n. \<not> trailing_zero (fn_updated_at n)) (uncertain_nodes f)"
proof -
  have r: "resource_json pydantic_time r \<noteq> resource_json postgres_time r" for r
    by (simp add: resource_json_def pydantic_differs)
  have c: "cleanup_attempt_json pydantic_time c \<noteq> cleanup_attempt_json postgres_time c" for c
    by (simp add: cleanup_attempt_json_def pydantic_differs)
  have n: "node_json isoformat n = node_json postgres_time n \<longleftrightarrow> \<not> trailing_zero (fn_updated_at n)" for n
    using isoformat_agrees isoformat_differs by (auto simp: node_json_def)
  have "map (resource_json pydantic_time) rs = map (resource_json postgres_time) rs \<longleftrightarrow> rs = []" for rs
    using r by (cases rs) auto
  moreover have "map (cleanup_attempt_json pydantic_time) cs = map (cleanup_attempt_json postgres_time) cs
      \<longleftrightarrow> cs = []" for cs
    using c by (cases cs) auto
  moreover have "map (node_json isoformat) ns = map (node_json postgres_time) ns
      \<longleftrightarrow> list_all (\<lambda>n. \<not> trailing_zero (fn_updated_at n)) ns" for ns
    by (induction ns) (auto simp: n)
  ultimately show ?thesis
    by (simp add: service_observation_def database_observation_def observation_json_def)
qed

lemma no_cleanup_agree_iff:
  "no_cleanup_json isoformat a = no_cleanup_json postgres_time a \<longleftrightarrow> \<not> trailing_zero (at_updated_at a)"
  using isoformat_agrees isoformat_differs by (auto simp: no_cleanup_json_def)

end
