(* ===== verification/Result_Model.thy ===== *)
theory Result_Model
  imports Fixture_Run
begin

text \<open>
  The facts of the Result Center, from \<^verbatim>\<open>domain/result/models.py\<close>,
  \<^verbatim>\<open>domain/result/projections.py\<close> and \<^verbatim>\<open>domain/result/hygiene.py\<close>: signed attempt
  seals, closure notices of attempts without one, the resolution of a unit over its attempts, the
  hygiene resolution over their cleanups, and the snapshot of a run over its units; each with the
  checks of its Pydantic model.

  The seven judgment axes the facts share are one record \<open>axes\<close>.  Fields whose type is a
  one-value \<open>Literal\<close> are left out.  A model that extends another (\<open>AttemptSeal\<close> extends
  \<open>AttemptSealContent\<close> by its digest) is a record extension.  Digests are taken by an argument
  \<open>H\<close> of the definitions, which stands for \<open>result_projection_digest\<close> after
  \<open>model_dump\<close>: SHA-256 of Pydantic's canonical rendering.  What a digest covers is a value
  of type \<open>result_document\<close>.
\<close>

subsection \<open>The axes\<close>

datatype verdict =
    VERDICT_PENDING | VERDICT_PASSED | VERDICT_FAILED | VERDICT_INCONCLUSIVE | VERDICT_NOT_EVALUATED

datatype outcome_class =
    OUTCOME_BUSINESS | OUTCOME_DEPENDENCY | OUTCOME_PLATFORM | OUTCOME_USER | OUTCOME_AUTOMATION
  | OUTCOME_POLICY | OUTCOME_UNKNOWN

datatype data_hygiene =
    HYGIENE_PENDING | HYGIENE_CLEANED | HYGIENE_CLEANUP_FAILED | HYGIENE_LEAKED
  | HYGIENE_NOT_APPLICABLE

datatype completeness =
    EVIDENCE_PENDING | EVIDENCE_COMPLETE | EVIDENCE_PARTIAL | EVIDENCE_MISSING
  | EVIDENCE_NOT_APPLICABLE

datatype integrity = UNVERIFIED | VERIFIED | INVALID

datatype influence = AUTONOMOUS | MANUAL_ASSISTED | MANUAL_ONLY

datatype stability = STABILITY_UNKNOWN | STABLE | INFRA_RECOVERED | FLAKY_SUSPECT | FLAKY_CONFIRMED

record axes =
  ax_verdict :: verdict
  ax_outcome_class :: outcome_class
  ax_closure_reason :: string
  ax_data_hygiene :: data_hygiene
  ax_completeness :: completeness
  ax_integrity :: integrity
  ax_influence :: influence

text \<open>\<open>SAFE_REASON_PATTERN\<close> and \<open>KEY_ID_PATTERN\<close>.\<close>

definition safe_reason :: "string \<Rightarrow> bool" where
  "safe_reason = matches_ident is_upper (\<lambda>c. is_upper c \<or> is_digit c \<or> c = CHR ''_'') 1 95"

definition key_id_pattern :: "string \<Rightarrow> bool" where
  "key_id_pattern = matches_ident is_alnum (alnum_or ''._:-'') 2 127"

text \<open>The verdict of a sealed or resolved fact may be PASSED only over complete verified evidence.\<close>

definition pass_is_backed :: "axes \<Rightarrow> bool" where
  "pass_is_backed a = (ax_verdict a = VERDICT_PASSED
     \<longrightarrow> ax_completeness a = EVIDENCE_COMPLETE \<and> ax_integrity a = VERIFIED)"

subsection \<open>Seals and closure notices\<close>

record seal_content =
  se_id :: uuid
  se_scope :: task_scope
  se_unit :: uuid
  se_attempt :: uuid
  se_manifest_id :: uuid
  se_manifest_hash :: string
  se_unit_key :: string
  se_ticket_id :: uuid
  se_ticket_digest :: string
  se_axes :: axes
  se_stability :: stability
  se_oracle_results_hash :: string
  se_artifact_manifest_hash :: string
  se_event_head :: string
  se_event_count :: int
  se_evidence_policy_digest :: string
  se_runtime_digest :: string
  se_sealed_at :: instant
  se_kid :: string

record attempt_seal = seal_content +
  se_signature_value :: string
  se_content_hash :: string

definition signature_value_pattern :: "string \<Rightarrow> bool" where
  "signature_value_pattern s = (take 10 s = ''base64url:'' \<and> length s = 96
     \<and> list_all (alnum_or ''_-'') (drop 10 s))"

definition seal_content_valid :: "'a seal_content_scheme \<Rightarrow> bool" where
  "seal_content_valid s = (list_all digest_pattern
       [se_manifest_hash s, se_unit_key s, se_ticket_digest s, se_oracle_results_hash s,
        se_artifact_manifest_hash s, se_event_head s, se_evidence_policy_digest s, se_runtime_digest s]
     \<and> safe_reason (ax_closure_reason (se_axes s))
     \<and> 1 \<le> se_event_count s \<and> se_event_count s \<le> 10000000 \<and> key_id_pattern (se_kid s)
     \<and> se_manifest_id s = sc_run (se_scope s)
     \<and> ax_verdict (se_axes s) \<noteq> VERDICT_PENDING \<and> pass_is_backed (se_axes s)
     \<and> \<not> (ax_verdict (se_axes s) = VERDICT_NOT_EVALUATED
           \<and> ax_completeness (se_axes s) = EVIDENCE_COMPLETE))"

datatype closure_source =
    FINISHED_UNSEALED | SOURCE_FAILED | SOURCE_INFRA_ERROR | SOURCE_INCONCLUSIVE | SOURCE_CANCELED

record closure_content =
  cn_id :: uuid
  cn_scope :: task_scope
  cn_unit :: uuid
  cn_attempt :: uuid
  cn_manifest_hash :: string
  cn_unit_key :: string
  cn_number :: int
  cn_source :: closure_source
  cn_axes :: axes
  cn_closed_at :: instant
  cn_created_at :: instant

record closure_notice = closure_content +
  cn_hash :: string

fun closure_outcome :: "closure_source \<Rightarrow> outcome_class" where
  "closure_outcome SOURCE_CANCELED = OUTCOME_USER"
| "closure_outcome SOURCE_INFRA_ERROR = OUTCOME_PLATFORM"
| "closure_outcome FINISHED_UNSEALED = OUTCOME_AUTOMATION"
| "closure_outcome SOURCE_FAILED = OUTCOME_AUTOMATION"
| "closure_outcome SOURCE_INCONCLUSIVE = OUTCOME_UNKNOWN"

definition closure_content_valid :: "'a closure_content_scheme \<Rightarrow> bool" where
  "closure_content_valid n = (let a = cn_axes n in
     digest_pattern (cn_manifest_hash n) \<and> digest_pattern (cn_unit_key n) \<and> 1 \<le> cn_number n
     \<and> safe_reason (ax_closure_reason a)
     \<and> ax_verdict a \<in> {VERDICT_INCONCLUSIVE, VERDICT_NOT_EVALUATED}
     \<and> ax_integrity a = UNVERIFIED
     \<and> ax_completeness a = (if ax_verdict a = VERDICT_NOT_EVALUATED then EVIDENCE_NOT_APPLICABLE
                            else EVIDENCE_MISSING)
     \<and> ax_influence a = AUTONOMOUS
     \<and> ax_outcome_class a = closure_outcome (cn_source n)
     \<and> \<not> (cn_source n = SOURCE_INFRA_ERROR \<and> ax_verdict a \<noteq> VERDICT_INCONCLUSIVE)
     \<and> \<not> (cn_source n \<noteq> SOURCE_CANCELED \<and> ax_verdict a \<noteq> VERDICT_INCONCLUSIVE)
     \<and> cn_closed_at n \<le> cn_created_at n)"

subsection \<open>Resolutions\<close>

record unit_resolution =
  ur_id :: uuid
  ur_resolution_id :: uuid
  ur_scope :: task_scope
  ur_unit :: uuid
  ur_manifest_hash :: string
  ur_unit_key :: string
  ur_revision :: int
  ur_seal_ids :: "uuid list"
  ur_closure_ids :: "uuid list"
  ur_input_set_hash :: string
  ur_axes :: axes
  ur_stability :: stability
  ur_decisive_attempt :: uuid
  ur_decisive_number :: int
  ur_policy_digest :: string
  ur_supersedes :: "uuid option"
  ur_created_at :: instant

definition UNIT_RESOLUTION_POLICY_DIGEST :: string where
  "UNIT_RESOLUTION_POLICY_DIGEST =
     ''sha256:54bd8eb8d8dd0d24c925a36b4800f5fa69977b4b3153b46e55573e3e1286be26''"

text \<open>An append-only chain: the first revision supersedes nothing, a later one its predecessor.\<close>

definition lineage_ok :: "int \<Rightarrow> uuid option \<Rightarrow> bool" where
  "lineage_ok revision supersedes = (1 \<le> revision
     \<and> \<not> (revision = 1 \<and> supersedes \<noteq> None) \<and> \<not> (1 < revision \<and> supersedes = None))"

definition unit_resolution_valid :: "unit_resolution \<Rightarrow> bool" where
  "unit_resolution_valid r = (list_all digest_pattern
       [ur_manifest_hash r, ur_unit_key r, ur_input_set_hash r, ur_policy_digest r]
     \<and> length (ur_seal_ids r) \<le> 100 \<and> length (ur_closure_ids r) \<le> 100
     \<and> safe_reason (ax_closure_reason (ur_axes r)) \<and> 1 \<le> ur_decisive_number r
     \<and> ax_verdict (ur_axes r) \<noteq> VERDICT_PENDING
     \<and> \<not> (ur_seal_ids r = [] \<and> ur_closure_ids r = [])
     \<and> distinct (ur_seal_ids r) \<and> distinct (ur_closure_ids r)
     \<and> lineage_ok (ur_revision r) (ur_supersedes r)
     \<and> ur_policy_digest r = UNIT_RESOLUTION_POLICY_DIGEST \<and> pass_is_backed (ur_axes r))"

record binding_content =
  fb_id :: uuid
  fb_scope :: task_scope
  fb_unit :: uuid
  fb_attempt :: uuid
  fb_fixture_run :: uuid
  fb_blueprint :: uuid
  fb_environment :: uuid
  fb_plan_digest :: string
  fb_created_at :: instant

record fixture_binding = binding_content +
  fb_hash :: string

datatype hygiene_source = FIXTURE_RUN | EXPLICIT_NOT_REQUIRED

record hygiene_input =
  hi_attempt :: uuid
  hi_number :: int
  hi_source :: hygiene_source
  hi_data_hygiene :: data_hygiene
  hi_binding_id :: "uuid option"
  hi_fixture_run_id :: "uuid option"
  hi_fixture_revision :: "int option"
  hi_fixture_status :: "string option"
  hi_cleanup_generation :: "int option"
  hi_plan_digest :: "string option"
  hi_manifest_digest :: "string option"
  hi_state_hash :: string
  hi_resources :: nat
  hi_cleaned :: nat
  hi_leaked :: nat
  hi_unresolved :: nat
  hi_exhausted_reconciles :: nat
  hi_unresolved_reconciles :: nat
  hi_observed_at :: instant

definition fixture_status_pattern :: "string \<Rightarrow> bool" where
  "fixture_status_pattern = matches_ident is_upper (\<lambda>c. is_upper c \<or> is_digit c \<or> c = CHR ''_'') 2 63"

definition opt_all :: "('a \<Rightarrow> bool) \<Rightarrow> 'a option \<Rightarrow> bool" where
  "opt_all p x = (case x of None \<Rightarrow> True | Some y \<Rightarrow> p y)"

definition hygiene_input_valid :: "hygiene_input \<Rightarrow> bool" where
  "hygiene_input_valid i = (1 \<le> hi_number i \<and> hi_number i \<le> 100
     \<and> opt_all (\<lambda>r. 1 \<le> r) (hi_fixture_revision i) \<and> opt_all fixture_status_pattern (hi_fixture_status i)
     \<and> opt_all (\<lambda>g. 0 \<le> g) (hi_cleanup_generation i) \<and> opt_all digest_pattern (hi_plan_digest i)
     \<and> opt_all digest_pattern (hi_manifest_digest i) \<and> digest_pattern (hi_state_hash i)
     \<and> hi_cleaned i + hi_leaked i + hi_unresolved i = hi_resources i
     \<and> (if hi_source i = FIXTURE_RUN
        then hi_binding_id i \<noteq> None \<and> hi_fixture_run_id i \<noteq> None \<and> hi_fixture_revision i \<noteq> None
          \<and> hi_fixture_status i \<noteq> None \<and> hi_cleanup_generation i \<noteq> None \<and> hi_plan_digest i \<noteq> None
        else hi_binding_id i = None \<and> hi_fixture_run_id i = None \<and> hi_fixture_revision i = None
          \<and> hi_fixture_status i = None \<and> hi_cleanup_generation i = None \<and> hi_plan_digest i = None
          \<and> hi_manifest_digest i = None \<and> hi_data_hygiene i = HYGIENE_NOT_APPLICABLE
          \<and> hi_resources i = 0 \<and> hi_exhausted_reconciles i = 0 \<and> hi_unresolved_reconciles i = 0)
     \<and> (hi_data_hygiene i = HYGIENE_CLEANED \<longrightarrow> hi_leaked i = 0 \<and> hi_unresolved i = 0
          \<and> hi_exhausted_reconciles i = 0 \<and> hi_unresolved_reconciles i = 0)
     \<and> (hi_data_hygiene i = HYGIENE_LEAKED \<longrightarrow> 0 < hi_leaked i \<or> 0 < hi_exhausted_reconciles i))"

record hygiene_content =
  hr_id :: uuid
  hr_resolution_id :: uuid
  hr_scope :: task_scope
  hr_unit :: uuid
  hr_manifest_hash :: string
  hr_unit_key :: string
  hr_revision :: int
  hr_inputs :: "hygiene_input list"
  hr_input_set_hash :: string
  hr_data_hygiene :: data_hygiene
  hr_policy_digest :: string
  hr_supersedes :: "uuid option"
  hr_watermark :: instant
  hr_created_at :: instant

record hygiene_resolution = hygiene_content +
  hr_hash :: string

subsection \<open>Snapshots\<close>

datatype finality = PROVISIONAL | QUALITY_FINAL | FULLY_RESOLVED | REEVALUATED

record pass_rate =
  numerator :: nat
  denominator :: nat

definition pass_rate_valid :: "pass_rate \<Rightarrow> bool" where
  "pass_rate_valid r = (numerator r \<le> denominator r)"

record verdict_counts =
  vc_passed :: nat
  vc_failed :: nat
  vc_inconclusive :: nat
  vc_not_evaluated :: nat

record hygiene_counts =
  hc_pending :: nat
  hc_cleaned :: nat
  hc_cleanup_failed :: nat
  hc_leaked :: nat
  hc_not_applicable :: nat

record completeness_counts =
  cc_pending :: nat
  cc_complete :: nat
  cc_partial :: nat
  cc_missing :: nat
  cc_not_applicable :: nat

record integrity_counts =
  ic_unverified :: nat
  ic_verified :: nat
  ic_invalid :: nat

record influence_counts =
  fc_autonomous :: nat
  fc_manual_assisted :: nat
  fc_manual_only :: nat

record stability_counts =
  sc_unknown :: nat
  sc_stable :: nat
  sc_infra_recovered :: nat
  sc_flaky_suspect :: nat
  sc_flaky_confirmed :: nat

record outcome_counts =
  oc_business :: nat
  oc_dependency :: nat
  oc_platform :: nat
  oc_user :: nat
  oc_automation :: nat
  oc_policy :: nat
  oc_unknown :: nat

record axis_distributions =
  ad_data_hygiene :: hygiene_counts
  ad_completeness :: completeness_counts
  ad_integrity :: integrity_counts
  ad_influence :: influence_counts
  ad_stability :: stability_counts
  ad_outcome_class :: outcome_counts

definition verdict_total :: "verdict_counts \<Rightarrow> nat" where
  "verdict_total c = vc_passed c + vc_failed c + vc_inconclusive c + vc_not_evaluated c"

text \<open>\<open>TaskResultAxisDistributions.totals\<close>.\<close>

definition axis_totals :: "axis_distributions \<Rightarrow> nat list" where
  "axis_totals d =
     (let h = ad_data_hygiene d; c = ad_completeness d; i = ad_integrity d; f = ad_influence d;
          s = ad_stability d; x = ad_outcome_class d in
      [hc_pending h + hc_cleaned h + hc_cleanup_failed h + hc_leaked h + hc_not_applicable h,
       cc_pending c + cc_complete c + cc_partial c + cc_missing c + cc_not_applicable c,
       ic_unverified i + ic_verified i + ic_invalid i,
       fc_autonomous f + fc_manual_assisted f + fc_manual_only f,
       sc_unknown s + sc_stable s + sc_infra_recovered s + sc_flaky_suspect s + sc_flaky_confirmed s,
       oc_business x + oc_dependency x + oc_platform x + oc_user x + oc_automation x + oc_policy x
         + oc_unknown x])"

record snapshot_content =
  ss_schema_version :: string
  ss_id :: uuid
  ss_scope :: task_scope
  ss_manifest_hash :: string
  ss_revision :: int
  ss_finality :: finality
  ss_resolution_ids :: "uuid list"
  ss_resolution_set_hash :: string
  ss_hygiene_ids :: "uuid list option"
  ss_hygiene_set_hash :: "string option"
  ss_source_snapshot :: "uuid option"
  ss_command :: "uuid option"
  ss_policy_version :: string
  ss_policy_digest :: string
  ss_watermark :: instant
  ss_manifest_count :: nat
  ss_verdicts :: verdict_counts
  ss_distributions :: axis_distributions
  ss_raw :: pass_rate
  ss_trusted :: pass_rate
  ss_autonomous :: pass_rate
  ss_decisive :: pass_rate
  ss_supersedes :: "uuid option"
  ss_created_at :: instant

record task_snapshot = snapshot_content +
  ss_hash :: string

definition SNAPSHOT_POLICY_DIGEST :: string where
  "SNAPSHOT_POLICY_DIGEST =
     ''sha256:f047f7c9925cce522ccf743a0dcaf69d89f9a5d60a6856ab7654de971be8951e''"

definition SNAPSHOT_FULLY_RESOLVED_POLICY_DIGEST :: string where
  "SNAPSHOT_FULLY_RESOLVED_POLICY_DIGEST =
     ''sha256:e4a7985c6a76073cc78179e57330f373d7baa6eb25246c8932ee3fac71dcf759''"

definition SNAPSHOT_REEVALUATED_POLICY_DIGEST :: string where
  "SNAPSHOT_REEVALUATED_POLICY_DIGEST =
     ''sha256:45fb0eabd4c8bfe01b76871e4803b08dab7eda8924ea98912dd9907270fcb219''"

definition HYGIENE_POLICY_DIGEST :: string where
  "HYGIENE_POLICY_DIGEST =
     ''sha256:e8ad3538745d89b0a9516846a4d42a4cb9703ca5d964b894d29679a14f952e37''"

text \<open>The shape each finality prescribes: schema, policy version and digest, optional inputs.\<close>

definition policy_digest_of :: "finality \<Rightarrow> string option" where
  "policy_digest_of f = (case f of
     QUALITY_FINAL \<Rightarrow> Some SNAPSHOT_POLICY_DIGEST
   | FULLY_RESOLVED \<Rightarrow> Some SNAPSHOT_FULLY_RESOLVED_POLICY_DIGEST
   | REEVALUATED \<Rightarrow> Some SNAPSHOT_REEVALUATED_POLICY_DIGEST
   | PROVISIONAL \<Rightarrow> None)"

definition finality_shape :: "'a snapshot_content_scheme \<Rightarrow> bool" where
  "finality_shape s = (case ss_finality s of
     QUALITY_FINAL \<Rightarrow> ss_schema_version s = ''atlas.task-result-snapshot/0.1''
       \<and> ss_policy_version s = ''0.1.0'' \<and> ss_hygiene_ids s = None \<and> ss_hygiene_set_hash s = None
       \<and> ss_source_snapshot s = None \<and> ss_command s = None
   | FULLY_RESOLVED \<Rightarrow> ss_schema_version s = ''atlas.task-result-snapshot/0.2''
       \<and> ss_policy_version s = ''0.2.0'' \<and> ss_hygiene_ids s \<noteq> None \<and> ss_hygiene_set_hash s \<noteq> None
       \<and> ss_source_snapshot s = None \<and> ss_command s = None
   | REEVALUATED \<Rightarrow> ss_schema_version s = ''atlas.task-result-snapshot/0.3''
       \<and> ss_policy_version s = ''0.3.0'' \<and> ss_hygiene_ids s \<noteq> None \<and> ss_hygiene_set_hash s \<noteq> None
       \<and> ss_source_snapshot s \<noteq> None \<and> ss_command s \<noteq> None
   | PROVISIONAL \<Rightarrow> False)"

definition snapshot_content_valid :: "'a snapshot_content_scheme \<Rightarrow> bool" where
  "snapshot_content_valid s =
     (digest_pattern (ss_manifest_hash s) \<and> digest_pattern (ss_resolution_set_hash s)
     \<and> opt_all digest_pattern (ss_hygiene_set_hash s) \<and> digest_pattern (ss_policy_digest s)
     \<and> 1 \<le> ss_manifest_count s \<and> ss_manifest_count s \<le> 100000
     \<and> list_all pass_rate_valid [ss_raw s, ss_trusted s, ss_autonomous s, ss_decisive s]
     \<and> length (ss_resolution_ids s) = ss_manifest_count s \<and> distinct (ss_resolution_ids s)
     \<and> verdict_total (ss_verdicts s) = ss_manifest_count s
     \<and> list_all (\<lambda>total. total = ss_manifest_count s) (axis_totals (ss_distributions s))
     \<and> lineage_ok (ss_revision s) (ss_supersedes s)
     \<and> Some (ss_policy_digest s) = policy_digest_of (ss_finality s)
     \<and> finality_shape s
     \<and> (ss_finality s \<noteq> QUALITY_FINAL \<longrightarrow>
          (case ss_hygiene_ids s of None \<Rightarrow> False
           | Some ids \<Rightarrow> length ids = ss_manifest_count s \<and> distinct ids)
          \<and> hc_pending (ad_data_hygiene (ss_distributions s)) = 0
          \<and> hc_cleanup_failed (ad_data_hygiene (ss_distributions s)) = 0)
     \<and> ss_raw s = \<lparr>numerator = vc_passed (ss_verdicts s), denominator = ss_manifest_count s\<rparr>
     \<and> denominator (ss_trusted s) = ss_manifest_count s
     \<and> denominator (ss_autonomous s) = ss_manifest_count s
     \<and> ss_decisive s = \<lparr>numerator = vc_passed (ss_verdicts s),
          denominator = vc_passed (ss_verdicts s) + vc_failed (ss_verdicts s)\<rparr>
     \<and> numerator (ss_trusted s) \<le> vc_passed (ss_verdicts s)
     \<and> numerator (ss_autonomous s) \<le> vc_passed (ss_verdicts s)
     \<and> ss_watermark s \<le> ss_created_at s)"

record reevaluation_content =
  rc_id :: uuid
  rc_scope :: task_scope
  rc_source_snapshot :: uuid
  rc_policy_digest :: string
  rc_client_mutation_id :: string
  rc_requested_by :: "uuid option"
  rc_requested_at :: instant

record reevaluation_command = reevaluation_content +
  rc_hash :: string

definition reevaluation_content_valid :: "'a reevaluation_content_scheme \<Rightarrow> bool" where
  "reevaluation_content_valid c = (mutation_pattern (rc_client_mutation_id c)
     \<and> rc_policy_digest c = SNAPSHOT_REEVALUATED_POLICY_DIGEST)"

subsection \<open>What the digests cover\<close>

datatype fact_kind = SEAL | CLOSURE_NOTICE

datatype result_document =
    SealBody seal_content
  | NoticeBody closure_content
  | InputSet uuid string string "(int \<times> uuid \<times> fact_kind \<times> uuid \<times> string) list"
  | ResolutionSet uuid string "(nat \<times> uuid \<times> uuid \<times> int \<times> string) list"
  | HygieneInputSet uuid string "hygiene_input list"
  | HygieneBody hygiene_content
  | HygieneSet uuid string "(nat \<times> uuid \<times> uuid \<times> int \<times> string \<times> data_hygiene \<times> string \<times> string) list"
  | SnapshotBody snapshot_content
  | CommandBody reevaluation_content
  | BindingBody binding_content
  | JsonBody json

type_synonym hashing = "result_document \<Rightarrow> string"

text \<open>\<open>hexdigest\<close> always has the form of \<open>DIGEST_PATTERN\<close>.\<close>

definition digests :: "hashing \<Rightarrow> bool" where
  "digests H \<longleftrightarrow> (\<forall>d. digest_pattern (H d))"

definition attempt_seal_content_hash :: "hashing \<Rightarrow> 'a seal_content_scheme \<Rightarrow> string" where
  "attempt_seal_content_hash H s = H (SealBody (seal_content.truncate s))"

definition attempt_closure_notice_hash :: "hashing \<Rightarrow> 'a closure_content_scheme \<Rightarrow> string" where
  "attempt_closure_notice_hash H n = H (NoticeBody (closure_content.truncate n))"

text \<open>
  A snapshot's digest leaves out its identity, its place in the chain and the command; a hygiene
  resolution's its identity and place in the chain.  The popped fields are blanked.
\<close>

definition task_result_snapshot_hash :: "hashing \<Rightarrow> 'a snapshot_content_scheme \<Rightarrow> string" where
  "task_result_snapshot_hash H s = H (SnapshotBody ((snapshot_content.truncate s)
     \<lparr>ss_id := 0, ss_revision := 0, ss_supersedes := None, ss_command := None, ss_created_at := 0\<rparr>))"

definition unit_hygiene_resolution_hash :: "hashing \<Rightarrow> 'a hygiene_content_scheme \<Rightarrow> string" where
  "unit_hygiene_resolution_hash H r = H (HygieneBody ((hygiene_content.truncate r)
     \<lparr>hr_id := 0, hr_resolution_id := 0, hr_revision := 0, hr_supersedes := None, hr_created_at := 0\<rparr>))"

definition attempt_fixture_binding_hash :: "hashing \<Rightarrow> 'a binding_content_scheme \<Rightarrow> string" where
  "attempt_fixture_binding_hash H b = H (BindingBody (binding_content.truncate b))"

definition reevaluation_command_hash :: "hashing \<Rightarrow> 'a reevaluation_content_scheme \<Rightarrow> string" where
  "reevaluation_command_hash H c = H (CommandBody (reevaluation_content.truncate c))"

definition unit_hygiene_input_set_hash :: "hashing \<Rightarrow> uuid \<Rightarrow> string \<Rightarrow> hygiene_input list \<Rightarrow> string" where
  "unit_hygiene_input_set_hash H u m inputs = H (HygieneInputSet u m inputs)"

definition task_result_resolution_set_hash ::
    "hashing \<Rightarrow> uuid \<Rightarrow> string \<Rightarrow> unit_resolution list \<Rightarrow> string" where
  "task_result_resolution_set_hash H run m rs = H (ResolutionSet run m
     (map (\<lambda>(n, r). (n, ur_unit r, ur_id r, ur_revision r, ur_input_set_hash r)) (enumerate 1 rs)))"

definition task_result_hygiene_resolution_set_hash ::
    "hashing \<Rightarrow> uuid \<Rightarrow> string \<Rightarrow> hygiene_resolution list \<Rightarrow> string" where
  "task_result_hygiene_resolution_set_hash H run m rs = H (HygieneSet run m
     (map (\<lambda>(n, r). (n, hr_unit r, hr_id r, hr_revision r, hr_input_set_hash r, hr_data_hygiene r,
        hr_policy_digest r, hr_hash r)) (enumerate 1 rs)))"

text \<open>The hashed models: their content's checks and their digest.\<close>

definition attempt_seal_valid :: "hashing \<Rightarrow> attempt_seal \<Rightarrow> bool" where
  "attempt_seal_valid H s = (seal_content_valid s \<and> signature_value_pattern (se_signature_value s)
     \<and> digest_pattern (se_content_hash s) \<and> se_content_hash s = attempt_seal_content_hash H s)"

definition closure_notice_valid :: "hashing \<Rightarrow> closure_notice \<Rightarrow> bool" where
  "closure_notice_valid H n = (closure_content_valid n \<and> digest_pattern (cn_hash n)
     \<and> cn_hash n = attempt_closure_notice_hash H n)"

definition fixture_binding_valid :: "hashing \<Rightarrow> fixture_binding \<Rightarrow> bool" where
  "fixture_binding_valid H b = (digest_pattern (fb_plan_digest b) \<and> digest_pattern (fb_hash b)
     \<and> fb_hash b = attempt_fixture_binding_hash H b)"

definition task_snapshot_valid :: "hashing \<Rightarrow> task_snapshot \<Rightarrow> bool" where
  "task_snapshot_valid H s = (snapshot_content_valid s \<and> digest_pattern (ss_hash s)
     \<and> ss_hash s = task_result_snapshot_hash H s)"

definition reevaluation_command_valid :: "hashing \<Rightarrow> reevaluation_command \<Rightarrow> bool" where
  "reevaluation_command_valid H c = (reevaluation_content_valid c \<and> digest_pattern (rc_hash c)
     \<and> rc_hash c = reevaluation_command_hash H c)"

end
