(* ===== verification/Result_Hygiene.thy ===== *)
theory Result_Hygiene
  imports Result_Model
begin

text \<open>
  The hygiene policy of \<^verbatim>\<open>domain/result/hygiene.py\<close>: how the cleanup observations of a
  unit's attempts become one state, and the model of a hygiene resolution, which recomputes it.
  The policy document names a precedence of the states; here it is a linear order on them, and
  the aggregation is its maximum.
\<close>

definition hygiene_of_states :: "data_hygiene set \<Rightarrow> data_hygiene" where
  "hygiene_of_states states =
     (if HYGIENE_LEAKED \<in> states then HYGIENE_LEAKED
      else if HYGIENE_CLEANUP_FAILED \<in> states then HYGIENE_CLEANUP_FAILED
      else if HYGIENE_PENDING \<in> states then HYGIENE_PENDING
      else if states = {HYGIENE_NOT_APPLICABLE} then HYGIENE_NOT_APPLICABLE
      else HYGIENE_CLEANED)"

definition resolve_unit_data_hygiene :: "hygiene_input list \<Rightarrow> data_hygiene" where
  "resolve_unit_data_hygiene inputs = hygiene_of_states (set (map hi_data_hygiene inputs))"

definition hygiene_content_valid :: "hashing \<Rightarrow> 'a hygiene_content_scheme \<Rightarrow> bool" where
  "hygiene_content_valid H r = (list_all digest_pattern
       [hr_manifest_hash r, hr_unit_key r, hr_input_set_hash r, hr_policy_digest r]
     \<and> hr_inputs r \<noteq> [] \<and> length (hr_inputs r) \<le> 100 \<and> list_all hygiene_input_valid (hr_inputs r)
     \<and> map hi_number (hr_inputs r) = map int [1..<Suc (length (hr_inputs r))]
     \<and> distinct (map hi_attempt (hr_inputs r))
     \<and> hr_input_set_hash r = unit_hygiene_input_set_hash H (hr_unit r) (hr_manifest_hash r) (hr_inputs r)
     \<and> hr_data_hygiene r = resolve_unit_data_hygiene (hr_inputs r)
     \<and> hr_policy_digest r = HYGIENE_POLICY_DIGEST
     \<and> lineage_ok (hr_revision r) (hr_supersedes r)
     \<and> hr_watermark r = foldr max (map hi_observed_at (hr_inputs r)) (hi_observed_at (hd (hr_inputs r)))
     \<and> hr_watermark r \<le> hr_created_at r)"

definition hygiene_resolution_valid :: "hashing \<Rightarrow> hygiene_resolution \<Rightarrow> bool" where
  "hygiene_resolution_valid H r = (hygiene_content_valid H r \<and> digest_pattern (hr_hash r)
     \<and> hr_hash r = unit_hygiene_resolution_hash H r)"

subsection \<open>The precedence of the states\<close>

fun precedence :: "data_hygiene \<Rightarrow> nat" where
  "precedence HYGIENE_NOT_APPLICABLE = 0"
| "precedence HYGIENE_CLEANED = 1"
| "precedence HYGIENE_PENDING = 2"
| "precedence HYGIENE_CLEANUP_FAILED = 3"
| "precedence HYGIENE_LEAKED = 4"

lemma precedence_inject: "precedence x = precedence y \<longleftrightarrow> x = y"
  by (cases x; cases y) simp_all

instantiation data_hygiene :: linorder
begin

definition less_eq_data_hygiene where "x \<le> y \<longleftrightarrow> precedence x \<le> precedence y"
definition less_data_hygiene where "x < y \<longleftrightarrow> precedence x < precedence y"

instance
  by standard (auto simp: less_eq_data_hygiene_def less_data_hygiene_def precedence_inject)

end

lemmas hygiene_order = less_eq_data_hygiene_def less_data_hygiene_def

lemma hygiene_of_states_upper: "x \<in> S \<Longrightarrow> x \<le> hygiene_of_states S"
  by (cases x) (auto simp: hygiene_of_states_def hygiene_order)

lemma hygiene_of_states_attained:
  assumes "S \<noteq> {}"
  shows "hygiene_of_states S \<in> S"
proof (cases "S = {HYGIENE_NOT_APPLICABLE}")
  case False
  with assms obtain x where "x \<in> S" "x \<noteq> HYGIENE_NOT_APPLICABLE" by blast
  then show ?thesis by (cases x) (auto simp: hygiene_of_states_def)
qed (simp add: hygiene_of_states_def)

lemma resolve_is_maximum:
  "inputs \<noteq> [] \<Longrightarrow> resolve_unit_data_hygiene inputs = Max (hi_data_hygiene ` set inputs)"
  unfolding resolve_unit_data_hygiene_def
  by (rule Max_eqI [symmetric]) (auto intro: hygiene_of_states_upper hygiene_of_states_attained [of "hi_data_hygiene ` set inputs"])

end
