(* ===== verification/Triage_Model.thy ===== *)
theory Triage_Model
  imports Result_Hygiene
begin

text \<open>
  The judgments over a snapshot: failure clusters and classifications
  (\<^verbatim>\<open>domain/result/classification.py\<close>) and gate decisions
  (\<^verbatim>\<open>domain/result/gate.py\<close>), with the checks of their models.  The arguments \<open>C\<close> and
  \<open>G\<close> of the definitions stand for \<open>result_classification_digest\<close> and
  \<open>task_gate_digest\<close> after \<open>model_dump\<close>.
\<close>

datatype failure_domain =
    DOMAIN_PRODUCT | DOMAIN_TEST_SPEC | DOMAIN_TEST_DATA | DOMAIN_IDENTITY | DOMAIN_ENVIRONMENT
  | DOMAIN_INFRASTRUCTURE | DOMAIN_EXTERNAL_DEPENDENCY | DOMAIN_AGENT_AUTOMATION
  | DOMAIN_POLICY_SECURITY | DOMAIN_EVIDENCE | DOMAIN_CLEANUP | DOMAIN_UNKNOWN

datatype judgment_state =
    RULE_PROPOSED | AI_PROPOSED | HUMAN_CONFIRMED | HUMAN_REJECTED | HUMAN_REVISED

datatype author_kind = SYSTEM_RULE | AI_MODEL | HUMAN_AUTHOR

datatype evidence_kind =
    UNIT_RESOLUTION | UNIT_HYGIENE_RESOLUTION | ATTEMPT_SEAL | ATTEMPT_CLOSURE_NOTICE

fun evidence_kind_text :: "evidence_kind \<Rightarrow> string" where
  "evidence_kind_text UNIT_RESOLUTION = ''UNIT_RESOLUTION''"
| "evidence_kind_text UNIT_HYGIENE_RESOLUTION = ''UNIT_HYGIENE_RESOLUTION''"
| "evidence_kind_text ATTEMPT_SEAL = ''ATTEMPT_SEAL''"
| "evidence_kind_text ATTEMPT_CLOSURE_NOTICE = ''ATTEMPT_CLOSURE_NOTICE''"

record evidence_ref =
  er_kind :: evidence_kind
  er_ref_id :: uuid
  er_content_digest :: string

definition evidence_sort_key :: "evidence_ref \<Rightarrow> string \<times> string \<times> string" where
  "evidence_sort_key e = (evidence_kind_text (er_kind e), uuid_text (er_ref_id e), er_content_digest e)"

record failure_signal =
  fs_domain :: failure_domain
  fs_signal_code :: string
  fs_verdict :: verdict
  fs_outcome_class :: outcome_class
  fs_closure_reason :: string
  fs_data_hygiene :: data_hygiene
  fs_completeness :: completeness
  fs_integrity :: integrity
  fs_stability :: stability

definition failure_signal_valid :: "failure_signal \<Rightarrow> bool" where
  "failure_signal_valid s = (safe_reason (fs_signal_code s) \<and> safe_reason (fs_closure_reason s))"

subsection \<open>Clusters\<close>

record cluster_content =
  fc_id :: uuid
  fc_cluster_id :: uuid
  fc_scope :: task_scope
  fc_snapshot :: uuid
  fc_revision :: int
  fc_policy_digest :: string
  fc_fingerprint :: string
  fc_signal :: failure_signal
  fc_affected :: "uuid list"
  fc_affected_count :: int
  fc_representative :: uuid
  fc_supersedes :: "uuid option"
  fc_watermark :: instant
  fc_created_at :: instant

record failure_cluster = cluster_content +
  fc_hash :: string

definition CLUSTER_POLICY_DIGEST :: string where
  "CLUSTER_POLICY_DIGEST =
     ''sha256:f9f6251050af03121ea114ee124b9cf70cb29dbec8768703ef6615ac7a6048a4''"

definition CLASSIFICATION_POLICY_DIGEST :: string where
  "CLASSIFICATION_POLICY_DIGEST =
     ''sha256:7f9d3eff8dfe688cf771a5d232302ee3492b892947eb8e39d1cd016dedc0193b''"

subsection \<open>Classifications\<close>

text \<open>\<open>str.upper\<close> and \<open>str.isalnum\<close> on code points below 256.\<close>

definition upper_changes :: "char \<Rightarrow> bool" where
  "upper_changes c = (let n = (of_char c :: nat) in
     is_lower c \<or> n = 181 \<or> (223 \<le> n \<and> n \<le> 246) \<or> 248 \<le> n)"

definition latin_alnum :: "char \<Rightarrow> bool" where
  "latin_alnum c = (let n = (of_char c :: nat) in
     is_alnum c \<or> List.member [170, 178, 179, 181, 185, 186, 188, 189, 190] n
     \<or> (192 \<le> n \<and> n \<le> 214) \<or> (216 \<le> n \<and> n \<le> 246) \<or> 248 \<le> n)"

definition gap_code_ok :: "string \<Rightarrow> bool" where
  "gap_code_ok s = (2 \<le> length s \<and> length s \<le> 96 \<and> \<not> list_ex upper_changes s
     \<and> (let rest = filter (\<lambda>c. c \<noteq> CHR ''_'') s in rest \<noteq> [] \<and> list_all latin_alnum rest))"

definition gap_codes_ok :: "string list \<Rightarrow> bool" where
  "gap_codes_ok gaps = (length gaps \<le> 32 \<and> list_all gap_code_ok gaps \<and> distinct gaps \<and> sorted gaps)"

definition safe_hypothesis :: "string \<Rightarrow> bool" where
  "safe_hypothesis s = (1 \<le> length s \<and> length s \<le> 500
     \<and> list_all (\<lambda>c. 32 \<le> (of_char c :: nat) \<and> (of_char c :: nat) \<noteq> 127) s)"

definition model_version_pattern :: "string \<Rightarrow> bool" where
  "model_version_pattern = matches_ident is_alnum (alnum_or ''._:@/-'') 2 199"

definition canonical_evidence :: "evidence_ref list \<Rightarrow> bool" where
  "canonical_evidence refs = (length refs \<le> 256 \<and> list_all (\<lambda>e. digest_pattern (er_content_digest e)) refs
     \<and> distinct (map evidence_sort_key refs) \<and> sorted (map evidence_sort_key refs))"

text \<open>The judgment a classification records, which a review request also carries.\<close>

record failure_judgment =
  ju_domain :: failure_domain
  ju_hypothesis_code :: string
  ju_hypothesis :: string
  ju_confidence :: int
  ju_supporting :: "evidence_ref list"
  ju_contradicting :: "evidence_ref list"
  ju_gaps :: "string list"
  ju_state :: judgment_state

definition judgment_valid :: "failure_judgment \<Rightarrow> bool" where
  "judgment_valid j = (safe_reason (ju_hypothesis_code j) \<and> safe_hypothesis (ju_hypothesis j)
     \<and> 0 \<le> ju_confidence j \<and> ju_confidence j \<le> 10000
     \<and> ju_supporting j \<noteq> [] \<and> canonical_evidence (ju_supporting j)
     \<and> canonical_evidence (ju_contradicting j) \<and> gap_codes_ok (ju_gaps j)
     \<and> set (map evidence_sort_key (ju_supporting j))
         \<inter> set (map evidence_sort_key (ju_contradicting j)) = {}
     \<and> \<not> (ju_state j = HUMAN_REJECTED
           \<and> (ju_domain j \<noteq> DOMAIN_UNKNOWN \<or> ju_confidence j \<noteq> 0 \<or> ju_contradicting j = [])))"

record classification_content =
  cf_id :: uuid
  cf_classification_id :: uuid
  cf_scope :: task_scope
  cf_snapshot :: uuid
  cf_cluster_revision :: uuid
  cf_revision :: int
  cf_judgment :: failure_judgment
  cf_author_kind :: author_kind
  cf_authored_by :: "uuid option"
  cf_model_version :: "string option"
  cf_policy_digest :: string
  cf_client_mutation_id :: string
  cf_supersedes :: "uuid option"
  cf_created_at :: instant

record failure_classification = classification_content +
  cf_hash :: string

definition author_ok :: "'a classification_content_scheme \<Rightarrow> bool" where
  "author_ok c = (case cf_author_kind c of
     SYSTEM_RULE \<Rightarrow> ju_state (cf_judgment c) = RULE_PROPOSED \<and> cf_authored_by c = None
       \<and> cf_model_version c = None
   | AI_MODEL \<Rightarrow> ju_state (cf_judgment c) = AI_PROPOSED \<and> cf_authored_by c = None
       \<and> cf_model_version c \<noteq> None
   | HUMAN_AUTHOR \<Rightarrow> ju_state (cf_judgment c) \<in> {HUMAN_CONFIRMED, HUMAN_REJECTED, HUMAN_REVISED}
       \<and> cf_authored_by c \<noteq> None \<and> cf_model_version c = None)"

definition classification_content_valid :: "'a classification_content_scheme \<Rightarrow> bool" where
  "classification_content_valid c = (judgment_valid (cf_judgment c)
     \<and> opt_all model_version_pattern (cf_model_version c)
     \<and> mutation_pattern (cf_client_mutation_id c)
     \<and> cf_policy_digest c = CLASSIFICATION_POLICY_DIGEST
     \<and> lineage_ok (cf_revision c) (cf_supersedes c) \<and> author_ok c)"

subsection \<open>Gate decisions\<close>

datatype gate_verdict = ACCEPTED | REJECTED | GATE_INCONCLUSIVE

datatype gate_reason_code =
    CLASSIFICATION_NOT_GATE_READY | DATA_HYGIENE_UNRESOLVED | DATA_LEAK | EVIDENCE_INCOMPLETE
  | EVIDENCE_INVALID_OR_UNVERIFIED | FAILED_UNITS | INCONCLUSIVE_UNITS | MANUAL_INFLUENCE
  | NOT_EVALUATED_UNITS | SNAPSHOT_NOT_FULLY_RESOLVED | UNSTABLE_EXECUTION

fun reason_text :: "gate_reason_code \<Rightarrow> string" where
  "reason_text CLASSIFICATION_NOT_GATE_READY = ''CLASSIFICATION_NOT_GATE_READY''"
| "reason_text DATA_HYGIENE_UNRESOLVED = ''DATA_HYGIENE_UNRESOLVED''"
| "reason_text DATA_LEAK = ''DATA_LEAK''"
| "reason_text EVIDENCE_INCOMPLETE = ''EVIDENCE_INCOMPLETE''"
| "reason_text EVIDENCE_INVALID_OR_UNVERIFIED = ''EVIDENCE_INVALID_OR_UNVERIFIED''"
| "reason_text FAILED_UNITS = ''FAILED_UNITS''"
| "reason_text INCONCLUSIVE_UNITS = ''INCONCLUSIVE_UNITS''"
| "reason_text MANUAL_INFLUENCE = ''MANUAL_INFLUENCE''"
| "reason_text NOT_EVALUATED_UNITS = ''NOT_EVALUATED_UNITS''"
| "reason_text SNAPSHOT_NOT_FULLY_RESOLVED = ''SNAPSHOT_NOT_FULLY_RESOLVED''"
| "reason_text UNSTABLE_EXECUTION = ''UNSTABLE_EXECUTION''"

text \<open>Reasons are ordered by their text.\<close>

lemma reason_text_inject: "reason_text x = reason_text y \<longleftrightarrow> x = y"
  by (cases x; cases y) simp_all

instantiation gate_reason_code :: linorder
begin

definition less_eq_gate_reason_code where "x \<le> y \<longleftrightarrow> reason_text x \<le> reason_text y"
definition less_gate_reason_code where "x < y \<longleftrightarrow> reason_text x < reason_text y"

instance
  by standard (auto simp: less_eq_gate_reason_code_def less_gate_reason_code_def less_le_not_le
      reason_text_inject [symmetric])

end

record gate_reason =
  gr_code :: gate_reason_code
  gr_count :: int

record decision_content =
  gd_id :: uuid
  gd_gate_id :: uuid
  gd_scope :: task_scope
  gd_snapshot :: uuid
  gd_snapshot_hash :: string
  gd_revision :: int
  gd_classification_ids :: "uuid list"
  gd_classification_set_hash :: string
  gd_policy_digest :: string
  gd_decision :: gate_verdict
  gd_reasons :: "gate_reason list"
  gd_evaluated_by :: uuid
  gd_client_mutation_id :: string
  gd_supersedes :: "uuid option"
  gd_evaluated_at :: instant

record gate_decision = decision_content +
  gd_hash :: string

text \<open>
  What is handed to the delivery of a decision to the outside, without secrets, and the state of its
  delivery: who holds it until when, how often it was claimed, and how it ended.
\<close>

datatype callback_status = CALLBACK_PENDING | CALLBACK_CLAIMED | CALLBACK_RETRY_WAIT | CALLBACK_DELIVERED
  | CALLBACK_FAILED

record callback_intent =
  ci_event :: uuid
  ci_decision_id :: uuid
  ci_gate :: uuid
  ci_scope :: task_scope
  ci_manifest_hash :: string
  ci_decision :: gate_verdict
  ci_status :: callback_status
  ci_available_at :: instant
  ci_claim_token :: "uuid option"
  ci_claimed_by :: "string option"
  ci_claimed_at :: "instant option"
  ci_claim_expires_at :: "instant option"
  ci_attempts :: int
  ci_revision :: int
  ci_error_code :: "string option"
  ci_error_at :: "instant option"
  ci_response :: "int option"
  ci_delivered_at :: "instant option"
  ci_failed_at :: "instant option"
  ci_created_at :: instant

definition TASK_GATE_POLICY_DIGEST :: string where
  "TASK_GATE_POLICY_DIGEST =
     ''sha256:a430540f5b5cd41f82e1b46751f6f3b91ef44c76468badae98800fe366e6b2df''"

definition decision_content_valid :: "'a decision_content_scheme \<Rightarrow> bool" where
  "decision_content_valid d = (digest_pattern (gd_snapshot_hash d)
     \<and> digest_pattern (gd_classification_set_hash d)
     \<and> length (gd_classification_ids d) \<le> 10000 \<and> distinct (gd_classification_ids d)
     \<and> length (gd_reasons d) \<le> 11 \<and> list_all (\<lambda>r. 1 \<le> gr_count r) (gd_reasons d)
     \<and> distinct (map gr_code (gd_reasons d))
     \<and> sorted (map (\<lambda>r. reason_text (gr_code r)) (gd_reasons d))
     \<and> mutation_pattern (gd_client_mutation_id d)
     \<and> gd_policy_digest d = TASK_GATE_POLICY_DIGEST
     \<and> lineage_ok (gd_revision d) (gd_supersedes d)
     \<and> \<not> (gd_decision d = ACCEPTED \<and> gd_reasons d \<noteq> [])
     \<and> \<not> (gd_decision d \<noteq> ACCEPTED \<and> gd_reasons d = []))"

subsection \<open>What the digests cover\<close>

record classification_input =
  gi_cluster_revision :: uuid
  gi_cluster_hash :: string
  gi_classification_revision :: uuid
  gi_revision :: int
  gi_classification_hash :: string

datatype triage_document =
    SignalBody failure_signal
  | ClusterBody cluster_content
  | ClassificationBody classification_content
  | ClassificationSet uuid "(nat \<times> classification_input) list"
  | DecisionBody decision_content

type_synonym triage_hashing = "triage_document \<Rightarrow> string"

definition failure_cluster_fingerprint :: "triage_hashing \<Rightarrow> failure_signal \<Rightarrow> string" where
  "failure_cluster_fingerprint C s = C (SignalBody s)"

definition failure_cluster_revision_hash :: "triage_hashing \<Rightarrow> 'a cluster_content_scheme \<Rightarrow> string" where
  "failure_cluster_revision_hash C c = C (ClusterBody ((cluster_content.truncate c)
     \<lparr>fc_id := 0, fc_cluster_id := 0, fc_revision := 0, fc_supersedes := None, fc_created_at := 0\<rparr>))"

definition failure_classification_revision_hash ::
    "triage_hashing \<Rightarrow> 'a classification_content_scheme \<Rightarrow> string" where
  "failure_classification_revision_hash C c = C (ClassificationBody ((classification_content.truncate c)
     \<lparr>cf_id := 0, cf_classification_id := 0, cf_revision := 0, cf_supersedes := None, cf_created_at := 0\<rparr>))"

definition task_gate_classification_set_hash ::
    "triage_hashing \<Rightarrow> uuid \<Rightarrow> classification_input list \<Rightarrow> string" where
  "task_gate_classification_set_hash G s inputs = G (ClassificationSet s (enumerate 1 inputs))"

definition task_gate_decision_hash :: "triage_hashing \<Rightarrow> 'a decision_content_scheme \<Rightarrow> string" where
  "task_gate_decision_hash G d = G (DecisionBody ((decision_content.truncate d)
     \<lparr>gd_id := 0, gd_gate_id := 0, gd_revision := 0, gd_supersedes := None, gd_evaluated_at := 0\<rparr>))"

definition cluster_content_valid :: "triage_hashing \<Rightarrow> 'a cluster_content_scheme \<Rightarrow> bool" where
  "cluster_content_valid C c = (failure_signal_valid (fc_signal c)
     \<and> fc_affected c \<noteq> [] \<and> length (fc_affected c) \<le> 10000
     \<and> 1 \<le> fc_affected_count c \<and> fc_affected_count c \<le> 10000
     \<and> distinct (fc_affected c) \<and> fc_affected_count c = int (length (fc_affected c))
     \<and> fc_representative c \<in> set (fc_affected c)
     \<and> fc_policy_digest c = CLUSTER_POLICY_DIGEST
     \<and> digest_pattern (fc_fingerprint c) \<and> fc_fingerprint c = failure_cluster_fingerprint C (fc_signal c)
     \<and> lineage_ok (fc_revision c) (fc_supersedes c) \<and> fc_watermark c \<le> fc_created_at c)"

definition failure_cluster_valid :: "triage_hashing \<Rightarrow> failure_cluster \<Rightarrow> bool" where
  "failure_cluster_valid C c = (cluster_content_valid C c \<and> digest_pattern (fc_hash c)
     \<and> fc_hash c = failure_cluster_revision_hash C c)"

definition failure_classification_valid :: "triage_hashing \<Rightarrow> failure_classification \<Rightarrow> bool" where
  "failure_classification_valid C c = (classification_content_valid c \<and> digest_pattern (cf_hash c)
     \<and> cf_hash c = failure_classification_revision_hash C c)"

definition gate_decision_valid :: "triage_hashing \<Rightarrow> gate_decision \<Rightarrow> bool" where
  "gate_decision_valid G d = (decision_content_valid d \<and> digest_pattern (gd_hash d)
     \<and> gd_hash d = task_gate_decision_hash G d)"

end
