(* ===== verification/Revision_Chain.thy ===== *)
theory Revision_Chain
  imports Prelude
begin

text \<open>
  Append-only chains of revisions.  The Result Center keeps unit resolutions, hygiene resolutions
  and task snapshots in tables a row is only ever added to: the rows of one subject (a unit, a run)
  are numbered from 1 without a gap and each supersedes the one before.  The locale states what a
  table's insertion guard has to admit; what follows of it is proved once here and used through
  one interpretation per table.
\<close>

definition latest_by :: "('r \<Rightarrow> int) \<Rightarrow> ('r \<Rightarrow> bool) \<Rightarrow> 'r list \<Rightarrow> 'r option" where
  "latest_by revision p rows = first_row (\<lambda>_. True) (sort_key (\<lambda>r. - revision r) (rows_matching p rows))"

definition linked :: "('r \<Rightarrow> int) \<Rightarrow> ('r \<Rightarrow> uuid) \<Rightarrow> ('r \<Rightarrow> uuid option) \<Rightarrow> 'r list \<Rightarrow> bool" where
  "linked revision ident supersedes rs =
     (map revision rs = map int [1..<Suc (length rs)]
     \<and> map supersedes rs = take (length rs) (None # map (\<lambda>r. Some (ident r)) rs))"

definition chained ::
    "('r \<Rightarrow> 'g) \<Rightarrow> ('r \<Rightarrow> int) \<Rightarrow> ('r \<Rightarrow> uuid) \<Rightarrow> ('r \<Rightarrow> uuid option) \<Rightarrow> 'r list \<Rightarrow> bool" where
  "chained subject revision ident supersedes rows =
     list_all (\<lambda>r. linked revision ident supersedes (rows_matching (\<lambda>x. subject x = subject r) rows)) rows"

text \<open>Sorting by a key that is injective on the rows gives the one sorted arrangement.\<close>

lemma sort_key_eqI:
  assumes "inj_on f (set xs)" and "distinct xs" and "distinct ys" and "set ys = set xs"
    and "sorted (map f ys)"
  shows "sort_key f xs = ys"
proof (rule map_sorted_distinct_set_unique)
  show "inj_on f (set (sort_key f xs) \<union> set ys)" using assms by simp
  show "distinct (map f (sort_key f xs))" "distinct (map f ys)"
    using assms by (simp_all add: distinct_map)
qed (use assms in simp_all)

lemma linked_Nil [simp]: "linked revision ident supersedes []"
  by (simp add: linked_def)

lemma linked_snoc [simp]:
  "linked revision ident supersedes (rs @ [r]) \<longleftrightarrow>
     linked revision ident supersedes rs \<and> revision r = int (length rs) + 1
     \<and> supersedes r = (if rs = [] then None else Some (ident (last rs)))"
  by (cases rs rule: rev_cases) (auto simp: linked_def add.commute)

lemma linked_revisions:
  "linked revision ident supersedes rs \<Longrightarrow> map revision rs = map int [1..<Suc (length rs)]"
  by (simp add: linked_def)

lemma linked_last:
  "linked revision ident supersedes rs \<Longrightarrow> rs \<noteq> [] \<Longrightarrow> revision (last rs) = int (length rs)"
  by (cases rs rule: rev_cases) auto

lemma linked_distinct:
  assumes "linked revision ident supersedes rs"
  shows "distinct (map revision rs)"
  using linked_revisions [OF assms] by (simp add: distinct_map)

lemma linked_sort:
  assumes "linked revision ident supersedes rs"
  shows "sort_key (\<lambda>r. - revision r) rs = rev rs"
proof (rule sort_key_eqI)
  have d: "distinct (map revision rs)" using assms by (rule linked_distinct)
  then show "distinct rs" "distinct (rev rs)" by (simp_all add: distinct_map)
  show "inj_on (\<lambda>r. - revision r) (set rs)" using d by (simp add: distinct_map inj_on_def)
  have "map (\<lambda>r. - revision r) (rev rs) = rev (map uminus (map revision rs))"
    by (simp add: rev_map comp_def)
  also have "\<dots> = rev (map uminus (map int [1..<Suc (length rs)]))"
    by (simp only: linked_revisions [OF assms])
  also have "sorted \<dots>"
    by (simp add: sorted_wrt_iff_nth_less rev_nth del: upt_Suc)
  finally show "sorted (map (\<lambda>r. - revision r) (rev rs))" .
qed simp

lemma chained_group:
  assumes "chained subject revision ident supersedes rows"
  shows "linked revision ident supersedes (rows_matching (\<lambda>x. subject x = g) rows)"
proof (cases "\<exists>r \<in> set rows. subject r = g")
  case True
  with assms show ?thesis by (auto simp: chained_def list_all_iff)
next
  case False
  then have "rows_matching (\<lambda>x. subject x = g) rows = []"
    by (simp add: rows_matching_def filter_empty_conv)
  then show ?thesis by simp
qed

lemma chainedI:
  "(\<And>g. linked revision ident supersedes (rows_matching (\<lambda>x. subject x = g) rows))
     \<Longrightarrow> chained subject revision ident supersedes rows"
  by (simp add: chained_def list_all_iff)

lemma linked_length: "linked revision ident supersedes rs \<Longrightarrow> x \<in> set rs \<Longrightarrow> 1 \<le> revision x"
proof -
  assume "linked revision ident supersedes rs" "x \<in> set rs"
  then have "revision x \<in> set (map int [1..<Suc (length rs)])"
    by (metis linked_revisions image_eqI list.set_map)
  then show "1 \<le> revision x" by auto
qed

lemma chained_positive:
  "chained subject revision ident supersedes rows \<Longrightarrow> x \<in> set rows \<Longrightarrow> 1 \<le> revision x"
  using chained_group [of subject revision ident supersedes rows "subject x"]
  by (rule linked_length) (simp_all add: rows_matching_def)

text \<open>The guard of a table: the first row of a subject is revision 1, the next one follows the last.\<close>

locale revision_chain =
  fixes subject :: "'r \<Rightarrow> 'g" and revision :: "'r \<Rightarrow> int" and ident :: "'r \<Rightarrow> uuid"
    and supersedes :: "'r \<Rightarrow> uuid option" and admits :: "'r list \<Rightarrow> 'r \<Rightarrow> bool"
  assumes admits_first:
      "admits rows r \<Longrightarrow> latest_by revision (\<lambda>x. subject x = subject r) rows = None
         \<Longrightarrow> revision r = 1 \<and> supersedes r = None"
    and admits_next:
      "admits rows r \<Longrightarrow> latest_by revision (\<lambda>x. subject x = subject r) rows = Some p
         \<Longrightarrow> 1 \<le> revision p \<Longrightarrow> revision r = revision p + 1 \<and> supersedes r = Some (ident p)"
begin

lemma latest_is_last:
  assumes "chained subject revision ident supersedes rows"
  shows "latest_by revision (\<lambda>x. subject x = g) rows
    = (let rs = rows_matching (\<lambda>x. subject x = g) rows in if rs = [] then None else Some (last rs))"
  using linked_sort [OF chained_group [OF assms, of g]]
  by (cases "rows_matching (\<lambda>x. subject x = g) rows" rule: rev_cases)
    (simp_all add: latest_by_def first_row_def Let_def)

lemma admits_links:
  assumes c: "chained subject revision ident supersedes rows" and a: "admits rows r"
  shows "linked revision ident supersedes (rows_matching (\<lambda>x. subject x = subject r) (rows @ [r]))"
proof -
  let ?rs = "rows_matching (\<lambda>x. subject x = subject r) rows"
  have l: "linked revision ident supersedes ?rs" using c by (rule chained_group)
  have "linked revision ident supersedes (?rs @ [r])"
  proof (cases "?rs = []")
    case True
    with latest_is_last [OF c, of "subject r"] admits_first [OF a]
      linked_snoc [of revision ident supersedes "[]" r] show ?thesis by simp
  next
    case False
    with latest_is_last [OF c, of "subject r"]
    have "latest_by revision (\<lambda>x. subject x = subject r) rows = Some (last ?rs)" by simp
    moreover have "1 \<le> revision (last ?rs)" using linked_last [OF l False] False by (simp add: Suc_leI)
    ultimately show ?thesis using admits_next [OF a] linked_last [OF l False] l False by simp
  qed
  then show ?thesis by (simp add: rows_matching_def)
qed

theorem chain_extends:
  assumes c: "chained subject revision ident supersedes rows" and a: "admits rows r"
  shows "chained subject revision ident supersedes (rows @ [r])"
proof (rule chainedI)
  fix g
  show "linked revision ident supersedes (rows_matching (\<lambda>x. subject x = g) (rows @ [r]))"
  proof (cases "subject r = g")
    case True
    with admits_links [OF c a] show ?thesis by simp
  next
    case False
    with chained_group [OF c, of g] show ?thesis by (simp add: rows_matching_def)
  qed
qed

lemma new_revision_is_fresh:
  assumes c: "chained subject revision ident supersedes rows" and a: "admits rows r"
    and x: "x \<in> set rows" "subject x = subject r"
  shows "revision x < revision r"
proof -
  let ?rs = "rows_matching (\<lambda>x. subject x = subject r) rows"
  have "revision x \<in> set (map revision ?rs)" using x by (simp add: rows_matching_def)
  then have "revision x \<le> int (length ?rs)"
    by (auto simp: linked_revisions [OF chained_group [OF c]])
  moreover have "revision r = int (length ?rs) + 1"
    using admits_links [OF c a] by (simp add: rows_matching_def)
  ultimately show ?thesis by simp
qed

end

end
