(* ===== verification/Idempotency.thy ===== *)
theory Idempotency
  imports Core
begin

text \<open>
  The records behind an Idempotency-Key (\<^verbatim>\<open>infrastructure/idempotency.py\<close>, table of
  migration 0001): a command reserves its key inside its own transaction and completes the record
  with the response it returns.  \<open>'b\<close> is the type of response bodies.
\<close>

datatype request_state = PROCESSING | COMPLETED

record 'b idempotency_record =
  ir_tenant :: uuid
  ir_scope :: string
  ir_key :: string
  ir_hash :: string
  ir_state :: request_state
  ir_status :: "nat option"
  ir_body :: "'b option"
  ir_created_at :: instant
  ir_expires_at :: instant

datatype 'b reservation = Acquired | Cached nat 'b

definition request_key :: "'b idempotency_record \<Rightarrow> uuid \<times> string \<times> string" where
  "request_key r = (ir_tenant r, ir_scope r, ir_key r)"

definition request_hash_pattern :: "string \<Rightarrow> bool" where
  "request_hash_pattern s = (length s = 64 \<and> list_all is_hex s)"

definition not_blank :: "string \<Rightarrow> bool" where
  "not_blank s = list_ex (\<lambda>c. c \<noteq> CHR '' '') s"

definition request_check :: "'b idempotency_record \<Rightarrow> bool" where
  "request_check r = (not_blank (ir_scope r) \<and> not_blank (ir_key r) \<and> request_hash_pattern (ir_hash r)
     \<and> (case ir_status r of None \<Rightarrow> True | Some n \<Rightarrow> 100 \<le> n \<and> n \<le> 599)
     \<and> ir_created_at r < ir_expires_at r
     \<and> (case ir_state r of PROCESSING \<Rightarrow> ir_status r = None \<and> ir_body r = None
        | COMPLETED \<Rightarrow> ir_status r \<noteq> None \<and> ir_body r \<noteq> None))"

definition new_request :: "uuid \<Rightarrow> string \<Rightarrow> string \<Rightarrow> string \<Rightarrow> instant \<Rightarrow> int \<Rightarrow> 'b idempotency_record" where
  "new_request tenant scope key h now ttl = \<lparr>ir_tenant = tenant, ir_scope = scope, ir_key = key, ir_hash = h,
     ir_state = PROCESSING, ir_status = None, ir_body = None, ir_created_at = now, ir_expires_at = now + ttl\<rparr>"

text \<open>
  \<open>reserve\<close>: an expired record of the key is deleted; the key is inserted, or what is recorded under
  it decides.
\<close>

definition reserve ::
    "uuid \<Rightarrow> string \<Rightarrow> string \<Rightarrow> string \<Rightarrow> instant \<Rightarrow> int \<Rightarrow> 'b idempotency_record list
      \<Rightarrow> failure + 'b reservation \<times> 'b idempotency_record list" where
  "reserve tenant scope key h now ttl rows =
     (let live = filter (\<lambda>r. \<not> (request_key r = (tenant, scope, key) \<and> ir_expires_at r \<le> now)) rows in
      attempt (db_call (sql_insert_or_skip request_check (\<lambda>x y. request_key x = request_key y) (\<lambda>_ _. False)
        (new_request tenant scope key h now ttl) live)) (\<lambda>inserted.
      case inserted of Some table \<Rightarrow> Inr (Acquired, table)
      | None \<Rightarrow> (case first_row (\<lambda>r. request_key r = (tenant, scope, key)) live of
          None \<Rightarrow> Inl RuntimeFailure
        | Some r \<Rightarrow>
            if ir_hash r \<noteq> h then Inl (app_failure CONFLICT 409)
            else if ir_state r = COMPLETED then
              (case (ir_status r, ir_body r) of
                 (Some n, Some b) \<Rightarrow> Inr (Cached n b, live) | _ \<Rightarrow> Inl ModelInvalid)
            else Inl (app_failure CONFLICT 409))))"

definition is_reserved :: "uuid \<Rightarrow> string \<Rightarrow> string \<Rightarrow> string \<Rightarrow> 'b idempotency_record \<Rightarrow> bool" where
  "is_reserved tenant scope key h r =
     (request_key r = (tenant, scope, key) \<and> ir_hash r = h \<and> ir_state r = PROCESSING)"

definition complete_reservation ::
    "uuid \<Rightarrow> string \<Rightarrow> string \<Rightarrow> string \<Rightarrow> nat \<Rightarrow> 'b \<Rightarrow> 'b idempotency_record list
      \<Rightarrow> failure + 'b idempotency_record list" where
  "complete_reservation tenant scope key h n b rows =
     attempt (db_call (sql_update (\<lambda>_ _. True) request_check (is_reserved tenant scope key h)
       (\<lambda>r. r\<lparr>ir_state := COMPLETED, ir_status := Some n, ir_body := Some b\<rparr>) rows)) (\<lambda>(updated, table).
     if updated = [] then Inl (app_failure PRECONDITION_FAILED 412) else Inr table)"

definition cancel_reservation ::
    "uuid \<Rightarrow> string \<Rightarrow> string \<Rightarrow> string \<Rightarrow> 'b idempotency_record list \<Rightarrow> bool \<times> 'b idempotency_record list" where
  "cancel_reservation tenant scope key h rows =
     (list_ex (is_reserved tenant scope key h) rows, filter (\<lambda>r. \<not> is_reserved tenant scope key h r) rows)"

definition requests_keyed :: "'b idempotency_record list \<Rightarrow> bool" where
  "requests_keyed rows = (distinct (map request_key rows) \<and> list_all request_check rows)"

subsection \<open>Replays\<close>

lemma sql_insert_or_skip_Inr [result_simps]:
  "sql_insert_or_skip check arbiter conflicts r rows = Inr x \<longleftrightarrow> check r
     \<and> (if list_ex (\<lambda>x. arbiter x r) rows then x = None
        else \<not> list_ex (\<lambda>x. conflicts x r) rows \<and> x = Some (rows @ [r]))"
  by (auto simp: sql_insert_or_skip_def)

lemma new_request_key [simp]: "request_key (new_request t s k h now ttl) = (t, s, k)"
  by (simp add: new_request_def request_key_def)

lemma distinct_map_filter_key: "distinct (map f rows) \<Longrightarrow> distinct (map f (filter p rows))"
  by (simp add: distinct_map inj_on_def)

lemma reserve_Acquired:
  fixes rows :: "'b idempotency_record list"
  assumes "reserve t s k h now ttl rows = Inr (Acquired, rows')"
  shows "rows' = filter (\<lambda>r. request_key r \<noteq> (t, s, k)) rows @ [new_request t s k h now ttl]"
    and "request_check (new_request t s k h now ttl :: 'b idempotency_record)"
proof -
  let ?live = "filter (\<lambda>r. \<not> (request_key r = (t, s, k) \<and> ir_expires_at r \<le> now)) rows"
  have free: "\<not> list_ex (\<lambda>x. request_key x = (t, s, k)) ?live"
    and r: "rows' = ?live @ [new_request t s k h now ttl]"
    and c: "request_check (new_request t s k h now ttl :: 'b idempotency_record)"
    using assms by (auto simp: reserve_def Let_def attempt_Inr db_call_Inr sql_insert_or_skip_Inr
        split: if_splits option.splits)
  have "?live = filter (\<lambda>r. request_key r \<noteq> (t, s, k)) rows"
    using free by (intro filter_cong) (auto simp: list_ex_iff)
  with r c show "rows' = filter (\<lambda>r. request_key r \<noteq> (t, s, k)) rows @ [new_request t s k h now ttl]"
    "request_check (new_request t s k h now ttl :: 'b idempotency_record)" by simp_all
qed

text \<open>The record of a completed command and what a later reservation of its key finds.\<close>

definition completed_request ::
    "uuid \<Rightarrow> string \<Rightarrow> string \<Rightarrow> string \<Rightarrow> instant \<Rightarrow> int \<Rightarrow> nat \<Rightarrow> 'b \<Rightarrow> 'b idempotency_record" where
  "completed_request t s k h now ttl n b = (new_request t s k h now ttl)
     \<lparr>ir_state := COMPLETED, ir_status := Some n, ir_body := Some b\<rparr>"

lemma reserve_complete:
  assumes a: "reserve t s k h now ttl rows = Inr (Acquired, rows1)"
    and c: "complete_reservation t s k h n b rows1 = Inr rows2"
  shows "rows2 = filter (\<lambda>r. request_key r \<noteq> (t, s, k)) rows @ [completed_request t s k h now ttl n b]"
proof -
  have p: "is_reserved t s k h (new_request t s k h now ttl)"
    by (simp add: is_reserved_def) (simp add: new_request_def)
  have q: "\<not> is_reserved t s k h r" if "r \<in> set (filter (\<lambda>r. request_key r \<noteq> (t, s, k)) rows)" for r
    using that by (simp add: is_reserved_def)
  have append: "put_where p f (xs @ ys) = put_where p f xs @ put_where p f ys" for p f and xs ys :: "'a idempotency_record list"
    by (simp add: put_where_def)
  from c show ?thesis
    using p q put_where_none [of "filter (\<lambda>r. request_key r \<noteq> (t, s, k)) rows" "is_reserved t s k h"]
    by (auto simp: complete_reservation_def attempt_Inr db_call_Inr sql_update_Inr reserve_Acquired(1) [OF a]
        append completed_request_def split: if_splits)
qed

lemma reserve_completed:
  fixes rows :: "'b idempotency_record list"
  assumes rows: "rows2 = rows @ [completed_request t s k h now ttl n b]"
    and free: "\<And>r. r \<in> set rows \<Longrightarrow> request_key r \<noteq> (t, s, k)"
    and c: "request_check (new_request t s k h' later ttl :: 'b idempotency_record)"
  shows "reserve t s k h' later ttl rows2 =
    (if now + ttl \<le> later then Inr (Acquired, rows @ [new_request t s k h' later ttl])
     else if h' = h then Inr (Cached n b, rows2) else Inl (app_failure CONFLICT 409))"
proof -
  let ?c = "completed_request t s k h now ttl n b"
  have key: "request_key ?c = (t, s, k)" "ir_expires_at ?c = now + ttl" "ir_hash ?c = h" "ir_state ?c = COMPLETED"
    "ir_status ?c = Some n" "ir_body ?c = Some b"
    by (simp_all add: completed_request_def new_request_def request_key_def)
  have live: "filter (\<lambda>r. \<not> (request_key r = (t, s, k) \<and> ir_expires_at r \<le> later)) rows2
      = (if now + ttl \<le> later then rows else rows2)"
    using free key by (auto simp: rows intro!: filter_True)
  have found: "first_row (\<lambda>r. request_key r = (t, s, k)) rows2 = Some ?c"
    using free key by (simp add: rows first_row_def filter_empty_conv filter_False)
  have taken: "list_ex (\<lambda>x. request_key x = (t, s, k)) rows2" "\<not> list_ex (\<lambda>x. request_key x = (t, s, k)) rows"
    using free key by (auto simp: rows list_ex_iff)
  show ?thesis
    unfolding reserve_def live Let_def
    using c taken found key by (simp add: sql_insert_or_skip_def rows list_ex_iff)
qed

text \<open>A transaction that acquired its key completes it.\<close>

lemma complete_acquired:
  fixes rows :: "'b idempotency_record list"
  assumes a: "reserve t s k h now ttl rows = Inr (Acquired, rows1)" and n: "100 \<le> n" "n \<le> 599"
  shows "\<exists>rows2. complete_reservation t s k h n b rows1 = Inr rows2"
proof -
  let ?f = "\<lambda>r. r\<lparr>ir_state := COMPLETED, ir_status := Some n, ir_body := Some b\<rparr>"
  let ?new = "new_request t s k h now ttl :: 'b idempotency_record"
  have p: "is_reserved t s k h ?new" by (simp add: is_reserved_def) (simp add: new_request_def)
  have "filter (is_reserved t s k h) (filter (\<lambda>r. request_key r \<noteq> (t, s, k)) rows) = []"
    by (auto simp: filter_empty_conv is_reserved_def)
  then have "filter (is_reserved t s k h) rows1 = [?new]"
    unfolding reserve_Acquired(1) [OF a] filter_append using p by (simp only: filter.simps if_True append_Nil)
  moreover have "request_check (?f ?new)"
    using reserve_Acquired(2) [OF a] n by (simp add: request_check_def new_request_def)
  ultimately show ?thesis
    by (simp add: complete_reservation_def sql_update_def)
qed

end
