(* ===== verification/Result_Store.thy ===== *)
theory Result_Store
  imports Triage_Model Revision_Chain Idempotency
begin

text \<open>
  The tables of the Result Center and the task side they refer to, the reads of
  \<^verbatim>\<open>infrastructure/repositories/results.py\<close>, and the insertion of closure notices and unit
  resolutions with what migration 0033 makes the database check: constraints, foreign keys and the
  triggers \<open>guard_result_terminal_exclusivity\<close>, \<open>guard_attempt_closure_notice_insert\<close> and
  \<open>guard_unit_resolution_revision_insert\<close>, which recompute the projection in SQL.  The comparison
  of a row with the JSON document stored beside it is not modelled: the model has one copy.
\<close>

record domain_event =
  ev_type :: string
  ev_aggregate :: uuid
  ev_payload :: "(string \<times> json) list"
  ev_occurred_at :: instant

record audit_event =
  ae_tenant :: uuid
  ae_project :: "uuid option"
  ae_actor :: "uuid option"
  ae_type :: string
  ae_entity_type :: string
  ae_entity :: "uuid option"
  ae_occurred_at :: instant
  ae_payload :: "(string \<times> json) list"
  ae_request_id :: string

text \<open>What a completed command of the Result Center may answer again.\<close>

datatype command_response =
    SnapshotResponse task_snapshot
  | ClassificationResponse failure_classification
  | DecisionResponse gate_decision

record result_db =
  rd_runs :: "task_run list"
  rd_manifests :: "run_manifest list"
  rd_units :: "execution_unit list"
  rd_attempts :: "task_attempt list"
  rd_seals :: "attempt_seal list"
  rd_notices :: "closure_notice list"
  rd_resolutions :: "unit_resolution list"
  rd_fixtures :: "fixture_run list"
  rd_bindings :: "fixture_binding list"
  rd_hygiene :: "hygiene_resolution list"
  rd_snapshots :: "task_snapshot list"
  rd_commands :: "reevaluation_command list"
  rd_clusters :: "failure_cluster list"
  rd_classifications :: "failure_classification list"
  rd_decisions :: "gate_decision list"
  rd_callbacks :: "callback_intent list"
  rd_outbox :: "domain_event list"
  rd_audit :: "audit_event list"
  rd_requests :: "command_response idempotency_record list"

definition append_outbox :: "domain_event \<Rightarrow> result_db \<Rightarrow> result_db" where
  "append_outbox e db = db\<lparr>rd_outbox := rd_outbox db @ [e]\<rparr>"

definition audit_check :: "audit_event \<Rightarrow> bool" where
  "audit_check e = (not_blank (ae_type e) \<and> not_blank (ae_entity_type e) \<and> not_blank (ae_request_id e))"

definition append_audit :: "audit_event \<Rightarrow> result_db \<Rightarrow> failure + result_db" where
  "append_audit e db = attempt (db_call (ensure (audit_check e) CheckViolation))
     (\<lambda>_. Inr (db\<lparr>rd_audit := rd_audit db @ [e]\<rparr>))"

text \<open>\<open>model_validate\<close> on every row of a result set.\<close>

definition model_rows :: "('r \<Rightarrow> bool) \<Rightarrow> 'r list \<Rightarrow> failure + 'r list" where
  "model_rows valid rows = (if list_all valid rows then Inr rows else Inl ModelInvalid)"

lemma model_rows_Inr [result_simps]: "model_rows valid rows = Inr x \<longleftrightarrow> x = rows \<and> list_all valid rows"
  by (auto simp: model_rows_def)

subsection \<open>Reads\<close>

definition list_attempts :: "result_db \<Rightarrow> uuid \<Rightarrow> task_attempt list" where
  "list_attempts db u =
     sort_key (\<lambda>a. (at_number a, at_id a)) (rows_matching (\<lambda>a. at_unit a = u) (rd_attempts db))"

definition list_units :: "result_db \<Rightarrow> uuid \<Rightarrow> execution_unit list" where
  "list_units db run = sort_key (\<lambda>u. (ub_ordinal (eu_binding u), eu_id u))
     (rows_matching (\<lambda>u. sc_run (eu_scope u) = run) (rd_units db))"

definition get_run :: "result_db \<Rightarrow> uuid \<Rightarrow> task_run option" where
  "get_run db run = first_row (\<lambda>r. sc_run (tr_scope r) = run) (rd_runs db)"

definition get_manifest :: "result_db \<Rightarrow> uuid \<Rightarrow> run_manifest option" where
  "get_manifest db run = first_row (\<lambda>m. sc_run (mf_scope m) = run) (rd_manifests db)"

definition get_seal_by_attempt :: "hashing \<Rightarrow> result_db \<Rightarrow> uuid \<Rightarrow> failure + attempt_seal option" where
  "get_seal_by_attempt H db a =
     model_row (attempt_seal_valid H) (first_row (\<lambda>s. se_attempt s = a) (rd_seals db))"

definition get_closure_by_attempt :: "hashing \<Rightarrow> result_db \<Rightarrow> uuid \<Rightarrow> failure + closure_notice option" where
  "get_closure_by_attempt H db a =
     model_row (closure_notice_valid H) (first_row (\<lambda>n. cn_attempt n = a) (rd_notices db))"

definition list_seals_for_unit :: "hashing \<Rightarrow> result_db \<Rightarrow> uuid \<Rightarrow> failure + attempt_seal list" where
  "list_seals_for_unit H db u = model_rows (attempt_seal_valid H)
     (map fst (sort_key (\<lambda>(s, a). at_number a)
       (concat (map (\<lambda>s. map (\<lambda>a. (s, a)) (rows_matching (\<lambda>a. at_id a = se_attempt s) (rd_attempts db)))
         (rows_matching (\<lambda>s. se_unit s = u) (rd_seals db))))))"

definition list_closures_for_unit :: "hashing \<Rightarrow> result_db \<Rightarrow> uuid \<Rightarrow> failure + closure_notice list" where
  "list_closures_for_unit H db u = model_rows (closure_notice_valid H)
     (sort_key cn_number (rows_matching (\<lambda>n. cn_unit n = u) (rd_notices db)))"

definition get_latest_resolution :: "result_db \<Rightarrow> uuid \<Rightarrow> failure + unit_resolution option" where
  "get_latest_resolution db u =
     model_row unit_resolution_valid (latest_by ur_revision (\<lambda>r. ur_unit r = u) (rd_resolutions db))"

text \<open>The latest row per unit, joined to the unit on its whole scope, in ordinal order.\<close>

definition list_latest_resolutions_for_task :: "result_db \<Rightarrow> uuid \<Rightarrow> failure + unit_resolution list" where
  "list_latest_resolutions_for_task db run = model_rows unit_resolution_valid
     (List.map_filter (\<lambda>u. case latest_by ur_revision
           (\<lambda>r. sc_run (ur_scope r) = run \<and> ur_unit r = eu_id u) (rd_resolutions db) of
         None \<Rightarrow> None | Some r \<Rightarrow> if ur_scope r = eu_scope u then Some r else None)
       (list_units db run))"

definition list_latest_hygiene_resolutions_for_task ::
    "hashing \<Rightarrow> result_db \<Rightarrow> uuid \<Rightarrow> failure + hygiene_resolution list" where
  "list_latest_hygiene_resolutions_for_task H db run = model_rows (hygiene_resolution_valid H)
     (List.map_filter (\<lambda>u. case latest_by hr_revision
           (\<lambda>r. sc_run (hr_scope r) = run \<and> hr_unit r = eu_id u) (rd_hygiene db) of
         None \<Rightarrow> None | Some r \<Rightarrow> if hr_scope r = eu_scope u then Some r else None)
       (list_units db run))"

definition get_latest_snapshot :: "hashing \<Rightarrow> result_db \<Rightarrow> uuid \<Rightarrow> failure + task_snapshot option" where
  "get_latest_snapshot H db run = model_row (task_snapshot_valid H)
     (latest_by ss_revision (\<lambda>s. sc_run (ss_scope s) = run) (rd_snapshots db))"

definition get_latest_snapshot_for_finality ::
    "hashing \<Rightarrow> result_db \<Rightarrow> uuid \<Rightarrow> finality \<Rightarrow> failure + task_snapshot option" where
  "get_latest_snapshot_for_finality H db run f = model_row (task_snapshot_valid H)
     (latest_by ss_revision (\<lambda>s. sc_run (ss_scope s) = run \<and> ss_finality s = f) (rd_snapshots db))"

definition get_snapshot_by_id :: "hashing \<Rightarrow> result_db \<Rightarrow> uuid \<Rightarrow> failure + task_snapshot option" where
  "get_snapshot_by_id H db i =
     model_row (task_snapshot_valid H) (first_row (\<lambda>s. ss_id s = i) (rd_snapshots db))"

definition get_reevaluated_snapshot ::
    "hashing \<Rightarrow> result_db \<Rightarrow> uuid \<Rightarrow> uuid \<Rightarrow> string \<Rightarrow> failure + task_snapshot option" where
  "get_reevaluated_snapshot H db run src policy = model_row (task_snapshot_valid H)
     (latest_by ss_revision (\<lambda>s. sc_run (ss_scope s) = run \<and> ss_finality s = REEVALUATED
        \<and> ss_source_snapshot s = Some src \<and> ss_policy_digest s = policy) (rd_snapshots db))"

subsection \<open>Foreign keys\<close>

definition attempt_exists :: "result_db \<Rightarrow> uuid \<Rightarrow> uuid \<Rightarrow> task_scope \<Rightarrow> bool" where
  "attempt_exists db a u scope =
     list_ex (\<lambda>x. at_id x = a \<and> at_unit x = u \<and> at_scope x = scope) (rd_attempts db)"

definition unit_exists :: "result_db \<Rightarrow> uuid \<Rightarrow> task_scope \<Rightarrow> bool" where
  "unit_exists db u scope = list_ex (\<lambda>x. eu_id x = u \<and> eu_scope x = scope) (rd_units db)"

subsection \<open>Closure notices in the database\<close>

fun expected_hygiene :: "execution_hygiene \<Rightarrow> data_hygiene" where
  "expected_hygiene CLEANUP_NOT_REQUIRED = HYGIENE_NOT_APPLICABLE"
| "expected_hygiene CLEANUP_PENDING = HYGIENE_PENDING"
| "expected_hygiene CLEANUP_RUNNING = HYGIENE_PENDING"
| "expected_hygiene CLEANUP_CLEANED = HYGIENE_CLEANED"
| "expected_hygiene CLEANUP_CLEANUP_FAILED = HYGIENE_CLEANUP_FAILED"
| "expected_hygiene CLEANUP_LEAKED = HYGIENE_LEAKED"

definition notice_matches_attempt :: "instant \<Rightarrow> closure_notice \<Rightarrow> task_attempt \<Rightarrow> bool" where
  "notice_matches_attempt now n a =
     (at_lifecycle a = LIFE_CLOSED \<and> at_closed_at a = Some (cn_closed_at n)
     \<and> at_manifest_hash a = cn_manifest_hash n \<and> at_unit_key a = cn_unit_key n
     \<and> at_number a = cn_number n \<and> expected_hygiene (at_hygiene a) = ax_data_hygiene (cn_axes n)
     \<and> cn_created_at n = now
     \<and> ((at_quality a = QUALITY_INCONCLUSIVE \<and> cn_source n \<in> {FINISHED_UNSEALED, SOURCE_INCONCLUSIVE})
        \<or> (at_quality a = QUALITY_FAILED \<and> cn_source n = SOURCE_FAILED)
        \<or> (at_quality a = QUALITY_INFRA_ERROR \<and> cn_source n = SOURCE_INFRA_ERROR)
        \<or> (at_quality a = QUALITY_CANCELED \<and> cn_source n = SOURCE_CANCELED))
     \<and> \<not> (cn_source n = SOURCE_CANCELED
           \<and> (ax_verdict (cn_axes n) \<noteq> (if at_started_at a = None then VERDICT_NOT_EVALUATED
                                         else VERDICT_INCONCLUSIVE)
              \<or> ax_outcome_class (cn_axes n) \<noteq> OUTCOME_USER)))"

definition guard_closure_notice :: "hashing \<Rightarrow> instant \<Rightarrow> result_db \<Rightarrow> closure_notice \<Rightarrow> bool" where
  "guard_closure_notice H now db n =
     (\<not> list_ex (\<lambda>s. se_attempt s = cn_attempt n) (rd_seals db)
     \<and> list_ex (\<lambda>a. at_id a = cn_attempt n \<and> at_unit a = cn_unit n \<and> at_scope a = cn_scope n
          \<and> notice_matches_attempt now n a) (rd_attempts db)
     \<and> attempt_closure_notice_hash H n = cn_hash n)"

definition notice_check :: "closure_notice \<Rightarrow> bool" where
  "notice_check n = (let a = cn_axes n in
     digest_pattern (cn_manifest_hash n) \<and> digest_pattern (cn_unit_key n) \<and> digest_pattern (cn_hash n)
     \<and> 1 \<le> cn_number n \<and> ax_verdict a \<in> {VERDICT_INCONCLUSIVE, VERDICT_NOT_EVALUATED}
     \<and> safe_reason (ax_closure_reason a)
     \<and> ax_completeness a \<in> {EVIDENCE_MISSING, EVIDENCE_NOT_APPLICABLE}
     \<and> ax_integrity a = UNVERIFIED \<and> ax_influence a = AUTONOMOUS
     \<and> ((ax_verdict a = VERDICT_NOT_EVALUATED \<and> ax_completeness a = EVIDENCE_NOT_APPLICABLE)
        \<or> (ax_verdict a = VERDICT_INCONCLUSIVE \<and> ax_completeness a = EVIDENCE_MISSING))
     \<and> ((cn_source n = SOURCE_CANCELED \<and> ax_outcome_class a = OUTCOME_USER)
        \<or> (cn_source n = SOURCE_INFRA_ERROR \<and> ax_verdict a = VERDICT_INCONCLUSIVE
           \<and> ax_outcome_class a = OUTCOME_PLATFORM)
        \<or> (cn_source n \<in> {FINISHED_UNSEALED, SOURCE_FAILED} \<and> ax_verdict a = VERDICT_INCONCLUSIVE
           \<and> ax_outcome_class a = OUTCOME_AUTOMATION)
        \<or> (cn_source n = SOURCE_INCONCLUSIVE \<and> ax_verdict a = VERDICT_INCONCLUSIVE
           \<and> ax_outcome_class a = OUTCOME_UNKNOWN))
     \<and> cn_closed_at n \<le> cn_created_at n)"

definition notice_conflicts :: "closure_notice \<Rightarrow> closure_notice \<Rightarrow> bool" where
  "notice_conflicts x y = (cn_id x = cn_id y \<or> cn_attempt x = cn_attempt y
     \<or> (sc_tenant (cn_scope x) = sc_tenant (cn_scope y) \<and> cn_hash x = cn_hash y))"

definition insert_closure :: "hashing \<Rightarrow> instant \<Rightarrow> closure_notice \<Rightarrow> result_db \<Rightarrow> failure + result_db" where
  "insert_closure H now n db =
     attempt (db_call (ensure (guard_closure_notice H now db n) TriggerViolation)) (\<lambda>_.
     attempt (db_call (sql_insert notice_check notice_conflicts n (rd_notices db))) (\<lambda>table.
     attempt (db_call (ensure (attempt_exists db (cn_attempt n) (cn_unit n) (cn_scope n))
       ForeignKeyViolation)) (\<lambda>_. Inr (db\<lparr>rd_notices := table\<rparr>))))"

subsection \<open>Unit resolutions in the database\<close>

text \<open>
  The \<open>sources\<close> of the resolution trigger: the closed attempts of the unit, left joined to
  their seal and their notice.
\<close>

definition left_join :: "('r \<Rightarrow> bool) \<Rightarrow> 'r list \<Rightarrow> 'r option list" where
  "left_join p rows = (case rows_matching p rows of [] \<Rightarrow> [None] | rs \<Rightarrow> map Some rs)"

type_synonym terminal_row = "task_attempt \<times> attempt_seal option \<times> closure_notice option"

definition terminal_rows :: "result_db \<Rightarrow> uuid \<Rightarrow> terminal_row list" where
  "terminal_rows db u = sort_key (\<lambda>(a, _). at_number a)
     (concat (map (\<lambda>a. concat (map (\<lambda>f. map (\<lambda>n. (a, f, n))
          (left_join (\<lambda>n. cn_attempt n = at_id a) (rd_notices db)))
        (left_join (\<lambda>s. se_attempt s = at_id a) (rd_seals db))))
      (rows_matching (\<lambda>a. at_unit a = u \<and> at_lifecycle a = LIFE_CLOSED) (rd_attempts db))))"

fun row_seal_id :: "terminal_row \<Rightarrow> uuid option" where
  "row_seal_id (a, f, n) = map_option se_id f"

fun row_closure_id :: "terminal_row \<Rightarrow> uuid option" where
  "row_closure_id (a, f, n) = map_option cn_id n"

text \<open>An entry of \<open>expected_inputs\<close>; the coverage test runs before a row with no fact matters.\<close>

fun row_input :: "terminal_row \<Rightarrow> (int \<times> uuid \<times> fact_kind \<times> uuid \<times> string) option" where
  "row_input (a, Some s, n) = Some (at_number a, at_id a, SEAL, se_id s, se_content_hash s)"
| "row_input (a, None, Some n) = Some (at_number a, at_id a, CLOSURE_NOTICE, cn_id n, cn_hash n)"
| "row_input (a, None, None) = None"

fun row_axes :: "terminal_row \<Rightarrow> axes option" where
  "row_axes (a, Some s, n) = Some ((se_axes s)\<lparr>ax_verdict :=
     (if ax_integrity (se_axes s) \<noteq> VERIFIED
         \<or> ax_completeness (se_axes s) \<in> {EVIDENCE_PENDING, EVIDENCE_MISSING}
      then VERDICT_INCONCLUSIVE else ax_verdict (se_axes s))\<rparr>)"
| "row_axes (a, None, n) = map_option cn_axes n"

definition row_verdict :: "terminal_row \<Rightarrow> verdict option" where
  "row_verdict r = map_option ax_verdict (row_axes r)"

fun row_fingerprint :: "terminal_row \<Rightarrow> string option" where
  "row_fingerprint (a, Some s, n) = (if ax_verdict (se_axes s) = VERDICT_FAILED
     then Some (ax_closure_reason (se_axes s) @ '':'' @ se_oracle_results_hash s) else None)"
| "row_fingerprint (a, None, n) = None"

definition expected_stability :: "terminal_row list \<Rightarrow> verdict \<Rightarrow> int \<Rightarrow> stability" where
  "expected_stability rows effective decisive_number =
     (let source_count = length rows;
          passed_count = length (filter (\<lambda>r. row_verdict r = Some VERDICT_PASSED) rows);
          failed_count = length (filter (\<lambda>r. row_verdict r = Some VERDICT_FAILED) rows);
          prior_platform_count = length (filter (\<lambda>r. at_number (fst r) < decisive_number
            \<and> map_option ax_outcome_class (row_axes r) = Some OUTCOME_PLATFORM) rows);
          failure_fingerprint_count = length (remdups (List.map_filter row_fingerprint rows)) in
      if source_count = 1 \<and> effective \<in> {VERDICT_PASSED, VERDICT_FAILED} then STABLE
      else if effective = VERDICT_PASSED \<and> failed_count > 0 then FLAKY_SUSPECT
      else if effective = VERDICT_PASSED \<and> prior_platform_count > 0 then INFRA_RECOVERED
      else if effective = VERDICT_PASSED \<and> passed_count = source_count then STABLE
      else if failed_count = source_count \<and> failure_fingerprint_count = 1 then STABLE
      else if passed_count > 0 \<and> failed_count > 0 then FLAKY_SUSPECT
      else STABILITY_UNKNOWN)"

text \<open>
  The chain part of the trigger.  In SQL a comparison with a null \<open>supersedes\<close> is not true, so a
  null one passes here and fails the check constraint.
\<close>

definition resolution_chain_ok :: "unit_resolution option \<Rightarrow> unit_resolution \<Rightarrow> bool" where
  "resolution_chain_ok previous r = (case previous of
     Some p \<Rightarrow> ur_revision r = ur_revision p + 1 \<and> ur_resolution_id r = ur_resolution_id p
       \<and> opt_all (\<lambda>i. i = ur_id p) (ur_supersedes r)
   | None \<Rightarrow> ur_revision r = 1 \<and> ur_supersedes r = None)"

definition guard_unit_resolution :: "hashing \<Rightarrow> instant \<Rightarrow> result_db \<Rightarrow> unit_resolution \<Rightarrow> bool" where
  "guard_unit_resolution H now db r =
     (list_ex (\<lambda>u. eu_id u = ur_unit r \<and> eu_scope u = ur_scope r
          \<and> eu_manifest_hash u = ur_manifest_hash r \<and> eu_unit_key u = ur_unit_key r) (rd_units db)
     \<and> ur_created_at r = now
     \<and> resolution_chain_ok (latest_by ur_revision (\<lambda>x. ur_unit x = ur_unit r) (rd_resolutions db)) r
     \<and> (let rows = terminal_rows db (ur_unit r);
            seal_ids = List.map_filter row_seal_id rows;
            closure_ids = List.map_filter row_closure_id rows in
        rows \<noteq> [] \<and> length rows = length seal_ids + length closure_ids
        \<and> ur_seal_ids r = seal_ids \<and> ur_closure_ids r = closure_ids
        \<and> ur_input_set_hash r = H (InputSet (ur_unit r) (ur_manifest_hash r) (ur_unit_key r)
             (List.map_filter row_input rows))
        \<and> at_id (fst (last rows)) = ur_decisive_attempt r
        \<and> at_number (fst (last rows)) = ur_decisive_number r
        \<and> row_axes (last rows) = Some (ur_axes r)
        \<and> ur_stability r = expected_stability rows (ax_verdict (ur_axes r)) (ur_decisive_number r)))"

definition resolution_check :: "unit_resolution \<Rightarrow> bool" where
  "resolution_check r = (1 \<le> ur_revision r \<and> 1 \<le> ur_decisive_number r
     \<and> ((ur_revision r = 1 \<and> ur_supersedes r = None) \<or> (1 < ur_revision r \<and> ur_supersedes r \<noteq> None))
     \<and> 1 \<le> length (ur_seal_ids r) + length (ur_closure_ids r)
     \<and> length (ur_seal_ids r) + length (ur_closure_ids r) \<le> 100
     \<and> list_all digest_pattern
         [ur_manifest_hash r, ur_unit_key r, ur_input_set_hash r, ur_policy_digest r]
     \<and> ax_verdict (ur_axes r) \<noteq> VERDICT_PENDING \<and> safe_reason (ax_closure_reason (ur_axes r))
     \<and> pass_is_backed (ur_axes r) \<and> ur_policy_digest r = UNIT_RESOLUTION_POLICY_DIGEST)"

definition resolution_conflicts :: "unit_resolution \<Rightarrow> unit_resolution \<Rightarrow> bool" where
  "resolution_conflicts x y = (ur_id x = ur_id y
     \<or> (ur_unit x = ur_unit y \<and> (ur_revision x = ur_revision y
        \<or> (ur_input_set_hash x = ur_input_set_hash y \<and> ur_policy_digest x = ur_policy_digest y))))"

definition resolution_references :: "result_db \<Rightarrow> unit_resolution \<Rightarrow> bool" where
  "resolution_references db r = (unit_exists db (ur_unit r) (ur_scope r)
     \<and> attempt_exists db (ur_decisive_attempt r) (ur_unit r) (ur_scope r)
     \<and> opt_all (\<lambda>i. list_ex (\<lambda>x. ur_id x = i) (rd_resolutions db)) (ur_supersedes r))"

definition insert_resolution ::
    "hashing \<Rightarrow> instant \<Rightarrow> unit_resolution \<Rightarrow> result_db \<Rightarrow> failure + result_db" where
  "insert_resolution H now r db =
     attempt (db_call (ensure (guard_unit_resolution H now db r) TriggerViolation)) (\<lambda>_.
     attempt (db_call (sql_insert resolution_check resolution_conflicts r (rd_resolutions db))) (\<lambda>table.
     attempt (db_call (ensure (resolution_references db r) ForeignKeyViolation)) (\<lambda>_.
       Inr (db\<lparr>rd_resolutions := table\<rparr>))))"

text \<open>The chain every accepted resolution extends.\<close>

definition resolution_admitted :: "unit_resolution list \<Rightarrow> unit_resolution \<Rightarrow> bool" where
  "resolution_admitted rows r =
     (resolution_chain_ok (latest_by ur_revision (\<lambda>x. ur_unit x = ur_unit r) rows) r \<and> resolution_check r)"

interpretation resolutions: revision_chain ur_unit ur_revision ur_id ur_supersedes resolution_admitted
  by unfold_locales
    (auto simp: resolution_admitted_def resolution_chain_ok_def resolution_check_def opt_all_def
      split: option.splits)

lemma insert_resolution_Inr:
  "insert_resolution H now r db = Inr db' \<Longrightarrow>
     resolution_admitted (rd_resolutions db) r \<and> guard_unit_resolution H now db r
     \<and> resolution_references db r \<and> db' = db\<lparr>rd_resolutions := rd_resolutions db @ [r]\<rparr>
     \<and> (\<forall>x \<in> set (rd_resolutions db). \<not> resolution_conflicts x r)"
  by (auto simp: insert_resolution_def attempt_Inr db_call_Inr ensure_Inr sql_insert_Inr
      resolution_admitted_def guard_unit_resolution_def)

end
