(* ===== verification/Unit_Resolution.thy ===== *)
theory Unit_Resolution
  imports Result_Store
begin

text \<open>
  Terminal facts of attempts and the resolution of a unit over them, from
  \<^verbatim>\<open>application/result_projection.py\<close>.  \<open>now\<close> is the transaction's timestamp, which the
  triggers compare with, and \<open>created\<close> the \<open>created_at\<close> a caller passes; \<open>ids\<close> are the
  values \<open>new_entity_id\<close> returns, in the order of the calls.
\<close>

definition projection_error :: "string \<Rightarrow> failure + 'a" where
  "projection_error code = Inl (ProjectionError code)"

fun result_hygiene :: "execution_hygiene \<Rightarrow> data_hygiene" where
  "result_hygiene CLEANUP_NOT_REQUIRED = HYGIENE_NOT_APPLICABLE"
| "result_hygiene CLEANUP_PENDING = HYGIENE_PENDING"
| "result_hygiene CLEANUP_RUNNING = HYGIENE_PENDING"
| "result_hygiene CLEANUP_CLEANED = HYGIENE_CLEANED"
| "result_hygiene CLEANUP_CLEANUP_FAILED = HYGIENE_CLEANUP_FAILED"
| "result_hygiene CLEANUP_LEAKED = HYGIENE_LEAKED"

definition require_attempt_scope :: "execution_unit \<Rightarrow> task_attempt \<Rightarrow> failure + unit" where
  "require_attempt_scope u a =
     ensure (at_scope a = eu_scope u \<and> at_unit a = eu_id u \<and> at_manifest_hash a = eu_manifest_hash u
         \<and> at_unit_key a = eu_unit_key u)
       (ProjectionError ''RESULT_ATTEMPT_SCOPE_INVALID'')"

subsection \<open>Closure notices\<close>

fun closure_sources :: "execution_quality \<Rightarrow> closure_source list" where
  "closure_sources QUALITY_INCONCLUSIVE = [FINISHED_UNSEALED, SOURCE_INCONCLUSIVE]"
| "closure_sources QUALITY_FAILED = [SOURCE_FAILED]"
| "closure_sources QUALITY_INFRA_ERROR = [SOURCE_INFRA_ERROR]"
| "closure_sources QUALITY_CANCELED = [SOURCE_CANCELED]"
| "closure_sources _ = []"

definition require_closure_source :: "task_attempt \<Rightarrow> closure_source \<Rightarrow> failure + unit" where
  "require_closure_source a src = ensure (src \<in> set (closure_sources (at_quality a)))
     (ProjectionError ''RESULT_CLOSURE_STATUS_CONFLICT'')"

definition closure_axes :: "task_attempt \<Rightarrow> closure_source \<Rightarrow> string \<Rightarrow> axes" where
  "closure_axes a src reason =
     (let v = (if src = SOURCE_CANCELED \<and> at_started_at a = None then VERDICT_NOT_EVALUATED
               else VERDICT_INCONCLUSIVE) in
      \<lparr>ax_verdict = v, ax_outcome_class = closure_outcome src, ax_closure_reason = reason,
       ax_data_hygiene = result_hygiene (at_hygiene a),
       ax_completeness = (if v = VERDICT_NOT_EVALUATED then EVIDENCE_NOT_APPLICABLE
                          else EVIDENCE_MISSING),
       ax_integrity = UNVERIFIED, ax_influence = AUTONOMOUS\<rparr>)"

definition closure_notice_of ::
    "hashing \<Rightarrow> uuid \<Rightarrow> task_attempt \<Rightarrow> closure_source \<Rightarrow> string \<Rightarrow> instant \<Rightarrow> instant \<Rightarrow> closure_notice" where
  "closure_notice_of H i a src reason closed created =
     (let content = \<lparr>cn_id = i, cn_scope = at_scope a, cn_unit = at_unit a, cn_attempt = at_id a,
        cn_manifest_hash = at_manifest_hash a, cn_unit_key = at_unit_key a, cn_number = at_number a,
        cn_source = src, cn_axes = closure_axes a src reason, cn_closed_at = closed,
        cn_created_at = created\<rparr> in
      closure_content.extend content
        (closure_notice.fields (attempt_closure_notice_hash H content)))"

definition build_closure_notice ::
    "hashing \<Rightarrow> uuid \<Rightarrow> task_attempt \<Rightarrow> closure_source \<Rightarrow> string \<Rightarrow> instant
      \<Rightarrow> failure + closure_notice" where
  "build_closure_notice H i a src reason created = (case at_closed_at a of
     None \<Rightarrow> projection_error ''RESULT_CLOSURE_TIME_MISSING''
   | Some closed \<Rightarrow> (let n = closure_notice_of H i a src reason closed created in
       attempt (ensure (closure_notice_valid H n) ModelInvalid) (\<lambda>_. Inr n)))"

definition require_exact_closure ::
    "closure_notice \<Rightarrow> task_attempt \<Rightarrow> closure_source \<Rightarrow> string \<Rightarrow> failure + unit" where
  "require_exact_closure n a src reason =
     attempt (require_closure_source a src) (\<lambda>_.
     ensure (cn_scope n = at_scope a \<and> cn_unit n = at_unit a \<and> cn_attempt n = at_id a
         \<and> cn_manifest_hash n = at_manifest_hash a \<and> cn_unit_key n = at_unit_key a
         \<and> cn_number n = at_number a \<and> cn_source n = src
         \<and> ax_closure_reason (cn_axes n) = reason \<and> Some (cn_closed_at n) = at_closed_at a
         \<and> ax_data_hygiene (cn_axes n) = result_hygiene (at_hygiene a))
       (ProjectionError ''RESULT_CLOSURE_REPLAY_CONFLICT''))"

subsection \<open>Sources of a resolution\<close>

text \<open>\<open>_ResolutionSource\<close>; the seven axes carry the effective verdict.\<close>

record resolution_source =
  rs_attempt :: task_attempt
  rs_fact_id :: uuid
  rs_fact_hash :: string
  rs_fact_kind :: fact_kind
  rs_axes :: axes
  rs_fingerprint :: "string option"

definition rs_verdict :: "resolution_source \<Rightarrow> verdict" where
  "rs_verdict s = ax_verdict (rs_axes s)"

definition effective_seal_verdict :: "attempt_seal \<Rightarrow> verdict" where
  "effective_seal_verdict s =
     (if ax_integrity (se_axes s) \<noteq> VERIFIED
         \<or> ax_completeness (se_axes s) \<in> {EVIDENCE_PENDING, EVIDENCE_MISSING}
      then VERDICT_INCONCLUSIVE else ax_verdict (se_axes s))"

definition seal_source :: "task_attempt \<Rightarrow> attempt_seal \<Rightarrow> resolution_source" where
  "seal_source a s = \<lparr>rs_attempt = a, rs_fact_id = se_id s, rs_fact_hash = se_content_hash s,
     rs_fact_kind = SEAL, rs_axes = (se_axes s)\<lparr>ax_verdict := effective_seal_verdict s\<rparr>,
     rs_fingerprint = (if effective_seal_verdict s = VERDICT_FAILED
       then Some (ax_closure_reason (se_axes s) @ '':'' @ se_oracle_results_hash s) else None)\<rparr>"

definition source_from_seal :: "task_attempt \<Rightarrow> attempt_seal \<Rightarrow> failure + resolution_source" where
  "source_from_seal a s =
     (if se_scope s = at_scope a \<and> se_unit s = at_unit a \<and> se_attempt s = at_id a
         \<and> se_manifest_hash s = at_manifest_hash a \<and> se_unit_key s = at_unit_key a
      then Inr (seal_source a s) else projection_error ''RESULT_SEAL_SCOPE_INVALID'')"

definition closure_source_of :: "task_attempt \<Rightarrow> closure_notice \<Rightarrow> resolution_source" where
  "closure_source_of a n = \<lparr>rs_attempt = a, rs_fact_id = cn_id n, rs_fact_hash = cn_hash n,
     rs_fact_kind = CLOSURE_NOTICE, rs_axes = cn_axes n, rs_fingerprint = None\<rparr>"

definition source_from_closure ::
    "task_attempt \<Rightarrow> closure_notice option \<Rightarrow> failure + resolution_source" where
  "source_from_closure a notice = (case notice of
     None \<Rightarrow> projection_error ''RESULT_CLOSURE_INPUT_MISSING''
   | Some n \<Rightarrow> attempt (require_exact_closure n a (cn_source n) (ax_closure_reason (cn_axes n)))
       (\<lambda>_. Inr (closure_source_of a n)))"

definition resolution_source_for ::
    "task_attempt \<Rightarrow> attempt_seal option \<Rightarrow> closure_notice option \<Rightarrow> failure + resolution_source" where
  "resolution_source_for a seal closure =
     (if (seal = None) = (closure = None) then projection_error ''RESULT_TERMINAL_COVERAGE_INVALID''
      else case seal of Some s \<Rightarrow> source_from_seal a s | None \<Rightarrow> source_from_closure a closure)"

text \<open>The dictionaries by attempt, in which a later row replaces an earlier one.\<close>

definition seals_by_attempt :: "attempt_seal list \<Rightarrow> uuid \<Rightarrow> attempt_seal option" where
  "seals_by_attempt seals = map_of (rev (map (\<lambda>s. (se_attempt s, s)) seals))"

definition closures_by_attempt :: "closure_notice list \<Rightarrow> uuid \<Rightarrow> closure_notice option" where
  "closures_by_attempt notices = map_of (rev (map (\<lambda>n. (cn_attempt n, n)) notices))"

fun gather_sources ::
    "execution_unit \<Rightarrow> (uuid \<Rightarrow> attempt_seal option) \<Rightarrow> (uuid \<Rightarrow> closure_notice option)
      \<Rightarrow> task_attempt list \<Rightarrow> failure + resolution_source list" where
  "gather_sources u seals closures [] = Inr []"
| "gather_sources u seals closures (a # attempts) =
     attempt (require_attempt_scope u a) (\<lambda>_.
     if at_lifecycle a \<noteq> LIFE_CLOSED then gather_sources u seals closures attempts
     else attempt (resolution_source_for a (seals (at_id a)) (closures (at_id a))) (\<lambda>s.
       attempt (gather_sources u seals closures attempts) (\<lambda>rest. Inr (s # rest))))"

definition source_input :: "resolution_source \<Rightarrow> int \<times> uuid \<times> fact_kind \<times> uuid \<times> string" where
  "source_input s = (at_number (rs_attempt s), at_id (rs_attempt s), rs_fact_kind s, rs_fact_id s,
     rs_fact_hash s)"

definition input_set_hash :: "hashing \<Rightarrow> execution_unit \<Rightarrow> resolution_source list \<Rightarrow> string" where
  "input_set_hash H u sources =
     H (InputSet (eu_id u) (eu_manifest_hash u) (eu_unit_key u) (map source_input sources))"

definition resolve_stability :: "resolution_source list \<Rightarrow> stability" where
  "resolve_stability sources =
     (let verdicts = map rs_verdict sources;
          fallback =
            (if list_all (\<lambda>v. v = VERDICT_FAILED) verdicts
             then (if length (remdups (List.map_filter rs_fingerprint sources)) = 1 then STABLE
                   else STABILITY_UNKNOWN)
             else if VERDICT_PASSED \<in> set verdicts \<and> VERDICT_FAILED \<in> set verdicts then FLAKY_SUSPECT
             else STABILITY_UNKNOWN) in
      if length sources = 1 then
        (if hd verdicts \<in> {VERDICT_PASSED, VERDICT_FAILED} then STABLE else STABILITY_UNKNOWN)
      else if last verdicts = VERDICT_PASSED then
        (if VERDICT_FAILED \<in> set (butlast verdicts) then FLAKY_SUSPECT
         else if list_ex (\<lambda>s. ax_outcome_class (rs_axes s) = OUTCOME_PLATFORM) (butlast sources)
           then INFRA_RECOVERED
         else if list_all (\<lambda>v. v = VERDICT_PASSED) verdicts then STABLE
         else fallback)
      else fallback)"

subsection \<open>Resolving a unit\<close>

definition terminal_sources ::
    "hashing \<Rightarrow> execution_unit \<Rightarrow> result_db \<Rightarrow> failure + resolution_source list" where
  "terminal_sources H u db =
     attempt (list_seals_for_unit H db (eu_id u)) (\<lambda>seals.
     attempt (list_closures_for_unit H db (eu_id u)) (\<lambda>notices.
     attempt (gather_sources u (seals_by_attempt seals) (closures_by_attempt notices)
       (list_attempts db (eu_id u))) (\<lambda>sources.
     attempt (ensure (sources \<noteq> []) (ProjectionError ''RESULT_RESOLUTION_INPUT_MISSING''))
       (\<lambda>_. Inr sources))))"

definition resolution_of ::
    "hashing \<Rightarrow> (nat \<Rightarrow> uuid) \<Rightarrow> execution_unit \<Rightarrow> instant \<Rightarrow> resolution_source list
      \<Rightarrow> unit_resolution option \<Rightarrow> unit_resolution" where
  "resolution_of H ids u created sources latest = (let decisive = last sources in
     \<lparr>ur_id = ids 0,
      ur_resolution_id = (case latest of Some l \<Rightarrow> ur_resolution_id l | None \<Rightarrow> ids 1),
      ur_scope = eu_scope u, ur_unit = eu_id u, ur_manifest_hash = eu_manifest_hash u,
      ur_unit_key = eu_unit_key u,
      ur_revision = (case latest of Some l \<Rightarrow> ur_revision l + 1 | None \<Rightarrow> 1),
      ur_seal_ids = map rs_fact_id (filter (\<lambda>s. rs_fact_kind s = SEAL) sources),
      ur_closure_ids = map rs_fact_id (filter (\<lambda>s. rs_fact_kind s = CLOSURE_NOTICE) sources),
      ur_input_set_hash = input_set_hash H u sources, ur_axes = rs_axes decisive,
      ur_stability = resolve_stability sources, ur_decisive_attempt = at_id (rs_attempt decisive),
      ur_decisive_number = at_number (rs_attempt decisive),
      ur_policy_digest = UNIT_RESOLUTION_POLICY_DIGEST,
      ur_supersedes = map_option ur_id latest, ur_created_at = created\<rparr>)"

lemma resolution_of_fields [simp]:
  "ur_id (resolution_of H ids u created sources l) = ids 0"
  "ur_scope (resolution_of H ids u created sources l) = eu_scope u"
  "ur_unit (resolution_of H ids u created sources l) = eu_id u"
  "ur_manifest_hash (resolution_of H ids u created sources l) = eu_manifest_hash u"
  "ur_unit_key (resolution_of H ids u created sources l) = eu_unit_key u"
  "ur_revision (resolution_of H ids u created sources l)
     = (case l of Some p \<Rightarrow> ur_revision p + 1 | None \<Rightarrow> 1)"
  "ur_seal_ids (resolution_of H ids u created sources l)
     = map rs_fact_id (filter (\<lambda>s. rs_fact_kind s = SEAL) sources)"
  "ur_closure_ids (resolution_of H ids u created sources l)
     = map rs_fact_id (filter (\<lambda>s. rs_fact_kind s = CLOSURE_NOTICE) sources)"
  "ur_input_set_hash (resolution_of H ids u created sources l) = input_set_hash H u sources"
  "ur_axes (resolution_of H ids u created sources l) = rs_axes (last sources)"
  "ur_stability (resolution_of H ids u created sources l) = resolve_stability sources"
  "ur_decisive_attempt (resolution_of H ids u created sources l) = at_id (rs_attempt (last sources))"
  "ur_decisive_number (resolution_of H ids u created sources l) = at_number (rs_attempt (last sources))"
  "ur_policy_digest (resolution_of H ids u created sources l) = UNIT_RESOLUTION_POLICY_DIGEST"
  "ur_supersedes (resolution_of H ids u created sources l) = map_option ur_id l"
  "ur_created_at (resolution_of H ids u created sources l) = created"
  by (simp_all add: resolution_of_def Let_def)

definition verdict_text :: "verdict \<Rightarrow> string" where
  "verdict_text v = (case v of VERDICT_PENDING \<Rightarrow> ''PENDING'' | VERDICT_PASSED \<Rightarrow> ''PASSED''
     | VERDICT_FAILED \<Rightarrow> ''FAILED'' | VERDICT_INCONCLUSIVE \<Rightarrow> ''INCONCLUSIVE''
     | VERDICT_NOT_EVALUATED \<Rightarrow> ''NOT_EVALUATED'')"

definition stability_text :: "stability \<Rightarrow> string" where
  "stability_text s = (case s of STABILITY_UNKNOWN \<Rightarrow> ''UNKNOWN'' | STABLE \<Rightarrow> ''STABLE''
     | INFRA_RECOVERED \<Rightarrow> ''INFRA_RECOVERED'' | FLAKY_SUSPECT \<Rightarrow> ''FLAKY_SUSPECT''
     | FLAKY_CONFIRMED \<Rightarrow> ''FLAKY_CONFIRMED'')"

definition unit_resolved_event :: "unit_resolution \<Rightarrow> domain_event" where
  "unit_resolved_event r = \<lparr>ev_type = ''unit.resolved'', ev_aggregate = ur_unit r,
     ev_payload = [(''unitResolutionRevisionId'', JString (uuid_text (ur_id r))),
       (''revision'', JInt (ur_revision r)), (''inputSetHash'', JString (ur_input_set_hash r)),
       (''effectiveVerdict'', JString (verdict_text (ax_verdict (ur_axes r)))),
       (''stability'', JString (stability_text (ur_stability r)))],
     ev_occurred_at = ur_created_at r\<rparr>"

definition resolve_unit ::
    "hashing \<Rightarrow> instant \<Rightarrow> (nat \<Rightarrow> uuid) \<Rightarrow> execution_unit \<Rightarrow> instant \<Rightarrow> result_db
      \<Rightarrow> failure + unit_resolution \<times> result_db" where
  "resolve_unit H now ids u created db =
     attempt (terminal_sources H u db) (\<lambda>sources.
     attempt (get_latest_resolution db (eu_id u)) (\<lambda>latest.
     if opt_all (\<lambda>l. \<not> (ur_input_set_hash l = input_set_hash H u sources
           \<and> ur_policy_digest l = UNIT_RESOLUTION_POLICY_DIGEST)) latest
     then let r = resolution_of H ids u created sources latest in
       attempt (ensure (unit_resolution_valid r) ModelInvalid) (\<lambda>_.
       attempt (insert_resolution H now r db) (\<lambda>db'.
         Inr (r, append_outbox (unit_resolved_event r) db')))
     else Inr (the latest, db)))"

definition close_without_seal ::
    "hashing \<Rightarrow> instant \<Rightarrow> (nat \<Rightarrow> uuid) \<Rightarrow> execution_unit \<Rightarrow> task_attempt \<Rightarrow> closure_source \<Rightarrow> string
      \<Rightarrow> instant \<Rightarrow> result_db \<Rightarrow> failure + unit_resolution \<times> result_db" where
  "close_without_seal H now ids u a src reason created db =
     attempt (require_attempt_scope u a) (\<lambda>_.
     attempt (ensure (at_lifecycle a = LIFE_CLOSED \<and> at_closed_at a \<noteq> None)
       (ProjectionError ''RESULT_CLOSURE_ATTEMPT_NOT_CLOSED'')) (\<lambda>_.
     attempt (require_closure_source a src) (\<lambda>_.
     attempt (get_seal_by_attempt H db (at_id a)) (\<lambda>seal.
     attempt (ensure (seal = None) (ProjectionError ''RESULT_CLOSURE_SEAL_ALREADY_EXISTS'')) (\<lambda>_.
     attempt (get_closure_by_attempt H db (at_id a)) (\<lambda>existing.
     case existing of
       None \<Rightarrow> attempt (build_closure_notice H (ids 0) a src reason created) (\<lambda>n.
         attempt (insert_closure H now n db) (\<lambda>db'.
         resolve_unit H now (\<lambda>k. ids (k + 1)) u created db'))
     | Some n \<Rightarrow> attempt (require_exact_closure n a src reason) (\<lambda>_.
         resolve_unit H now ids u created db)))))))"

end
