(* ===== verification/Result_Sources.thy ===== *)
theory Result_Sources
  imports Unit_Resolution
begin

text \<open>
  The terminal facts of a unit as the service reads them (\<open>terminal_sources\<close>) and as the trigger
  of the database joins them (\<open>terminal_rows\<close>) are the same, attempt by attempt; so are the
  stability the service computes from them and the one the trigger computes in SQL.
\<close>

subsection \<open>The keys of the tables\<close>

definition attempts_keyed :: "task_attempt list \<Rightarrow> bool" where
  "attempts_keyed rows = (distinct (map at_id rows) \<and> distinct (map (\<lambda>a. (at_unit a, at_number a)) rows)
     \<and> list_all (\<lambda>a. 1 \<le> at_number a \<and> at_number a \<le> 100) rows)"

definition seals_keyed :: "hashing \<Rightarrow> result_db \<Rightarrow> bool" where
  "seals_keyed H db = (distinct (map se_attempt (rd_seals db)) \<and> distinct (map se_id (rd_seals db))
     \<and> list_all (\<lambda>s. attempt_seal_valid H s \<and> attempt_exists db (se_attempt s) (se_unit s) (se_scope s))
         (rd_seals db))"

definition notices_keyed :: "hashing \<Rightarrow> result_db \<Rightarrow> bool" where
  "notices_keyed H db = (distinct (map cn_attempt (rd_notices db)) \<and> distinct (map cn_id (rd_notices db))
     \<and> list_all (\<lambda>n. closure_notice_valid H n \<and> attempt_exists db (cn_attempt n) (cn_unit n) (cn_scope n))
         (rd_notices db))"

definition facts_keyed :: "hashing \<Rightarrow> result_db \<Rightarrow> bool" where
  "facts_keyed H db = (attempts_keyed (rd_attempts db) \<and> seals_keyed H db \<and> notices_keyed H db)"

lemma option_eqI: "(\<And>x. f = Some x \<longleftrightarrow> g = Some x) \<Longrightarrow> f = g"
  by (cases f; cases g) auto

lemma first_row_key_iff:
  "distinct (map key rows) \<Longrightarrow> first_row (\<lambda>x. key x = k) rows = Some r \<longleftrightarrow> r \<in> set rows \<and> key r = k"
  using first_row_key [of key rows r] by (auto dest: first_row_Some)

lemma map_of_key_iff:
  assumes "distinct (map key rows)"
  shows "map_of (rev (map (\<lambda>x. (key x, x)) rows)) k = Some r \<longleftrightarrow> r \<in> set rows \<and> key r = k"
proof -
  have "distinct (map fst (rev (map (\<lambda>x. (key x, x)) rows)))"
    using assms by (simp add: rev_map comp_def flip: rev_map)
  then show ?thesis by (auto simp: map_of_eq_Some_iff)
qed

lemma left_join_key:
  assumes "distinct (map key rows)"
  shows "left_join (\<lambda>x. key x = k) rows = [first_row (\<lambda>x. key x = k) rows]"
proof (cases "k \<in> key ` set rows")
  case True
  then obtain r where "r \<in> set rows" "k = key r" by blast
  with assms show ?thesis
    by (simp add: left_join_def rows_matching_def filter_key_unique first_row_key)
next
  case False
  then have "filter (\<lambda>x. key x = k) rows = []" by (auto simp: filter_empty_conv)
  then show ?thesis by (simp add: left_join_def rows_matching_def first_row_def)
qed

lemma insort_key_map: "insort_key f (g x) (map g ys) = map g (insort_key (\<lambda>y. f (g y)) x ys)"
  by (induction ys) auto

lemma sort_key_map: "sort_key f (map g xs) = map g (sort_key (\<lambda>x. f (g x)) xs)"
  by (induction xs) (simp_all add: insort_key_map)

subsection \<open>Closed attempts\<close>

definition seal_of :: "result_db \<Rightarrow> task_attempt \<Rightarrow> attempt_seal option" where
  "seal_of db a = first_row (\<lambda>s. se_attempt s = at_id a) (rd_seals db)"

definition notice_of :: "result_db \<Rightarrow> task_attempt \<Rightarrow> closure_notice option" where
  "notice_of db a = first_row (\<lambda>n. cn_attempt n = at_id a) (rd_notices db)"

definition closed_attempts :: "result_db \<Rightarrow> uuid \<Rightarrow> task_attempt list" where
  "closed_attempts db u = filter (\<lambda>a. at_lifecycle a = LIFE_CLOSED) (list_attempts db u)"

lemma attempts_of_unit_keyed:
  assumes "attempts_keyed rows"
  shows "distinct (map at_number (filter (\<lambda>a. at_unit a = u \<and> p a) rows))"
proof -
  have "distinct (map (\<lambda>a. (at_unit a, at_number a)) (filter (\<lambda>a. at_unit a = u \<and> p a) rows))"
    using assms by (simp add: attempts_keyed_def distinct_map_filter)
  then show ?thesis by (auto simp: distinct_map inj_on_def)
qed

lemma closed_attempts_sorted:
  assumes "attempts_keyed (rd_attempts db)"
  shows "closed_attempts db u = sort_key at_number
    (rows_matching (\<lambda>a. at_unit a = u \<and> at_lifecycle a = LIFE_CLOSED) (rd_attempts db))"
proof -
  let ?xs = "filter (\<lambda>a. at_unit a = u \<and> at_lifecycle a = LIFE_CLOSED) (rd_attempts db)"
  have eq: "closed_attempts db u = sort_key (\<lambda>a. (at_number a, at_id a)) ?xs"
    by (simp add: closed_attempts_def list_attempts_def rows_matching_def filter_sort conj_commute)
  have d: "distinct (map at_number ?xs)" using assms by (rule attempts_of_unit_keyed)
  have "sort_key at_number ?xs = sort_key (\<lambda>a. (at_number a, at_id a)) ?xs"
  proof (rule sort_key_eqI)
    have "sorted (map (\<lambda>a. (at_number a, at_id a)) (sort_key (\<lambda>a. (at_number a, at_id a)) ?xs))"
      by (rule sorted_sort_key)
    then show "sorted (map at_number (sort_key (\<lambda>a. (at_number a, at_id a)) ?xs))"
      unfolding sorted_map by (rule sorted_wrt_mono_rel [rotated]) (auto simp: less_eq_prod_def)
  qed (use d in \<open>simp_all add: distinct_map\<close>)
  with eq show ?thesis by (simp add: rows_matching_def)
qed

lemma closed_attempts_props:
  assumes "attempts_keyed (rd_attempts db)"
  shows "distinct (map at_number (closed_attempts db u))" "sorted (map at_number (closed_attempts db u))"
    and "a \<in> set (closed_attempts db u) \<longleftrightarrow>
      a \<in> set (rd_attempts db) \<and> at_unit a = u \<and> at_lifecycle a = LIFE_CLOSED"
proof -
  have "distinct (map at_number (sort_key at_number
      (filter (\<lambda>a. at_unit a = u \<and> at_lifecycle a = LIFE_CLOSED) (rd_attempts db))))"
    using attempts_of_unit_keyed [OF assms] by (simp add: distinct_map)
  then show "distinct (map at_number (closed_attempts db u))"
    and "sorted (map at_number (closed_attempts db u))"
    and "a \<in> set (closed_attempts db u) \<longleftrightarrow>
      a \<in> set (rd_attempts db) \<and> at_unit a = u \<and> at_lifecycle a = LIFE_CLOSED"
    by (simp_all add: closed_attempts_sorted [OF assms] rows_matching_def)
qed

lemma terminal_rows_of_attempts:
  assumes "facts_keyed H db"
  shows "terminal_rows db u = map (\<lambda>a. (a, seal_of db a, notice_of db a)) (closed_attempts db u)"
proof -
  have keys: "distinct (map se_attempt (rd_seals db))" "distinct (map cn_attempt (rd_notices db))"
    "attempts_keyed (rd_attempts db)"
    using assms by (simp_all add: facts_keyed_def seals_keyed_def notices_keyed_def)
  have "terminal_rows db u = sort_key (\<lambda>(a, _). at_number a)
      (map (\<lambda>a. (a, seal_of db a, notice_of db a))
        (rows_matching (\<lambda>a. at_unit a = u \<and> at_lifecycle a = LIFE_CLOSED) (rd_attempts db)))"
    by (simp add: terminal_rows_def left_join_key [OF keys(1)] left_join_key [OF keys(2)]
        seal_of_def notice_of_def)
  then show ?thesis
    by (simp add: sort_key_map closed_attempts_sorted [OF keys(3)])
qed

subsection \<open>The service's lookups\<close>

lemma attempt_of_fact:
  assumes "distinct (map at_id (rd_attempts db))" and "attempt_exists db (at_id a) u scope"
    and "a \<in> set (rd_attempts db)"
  shows "at_unit a = u" and "at_scope a = scope"
  using assms distinct_key_eq [of at_id "rd_attempts db" _ a]
  by (auto simp: attempt_exists_def list_ex_iff)

text \<open>
  Rows joined to the attempt they name and sorted by its number: the rows themselves, when every
  one names an attempt.
\<close>

lemma joined_listing:
  fixes key :: "'r \<Rightarrow> uuid"
  assumes ids: "distinct (map at_id attempts)" and p: "\<And>r a. p r a \<Longrightarrow> at_id a = key r"
    and ref: "\<And>r. r \<in> set mine \<Longrightarrow> \<exists>a \<in> set attempts. p r a"
    and l: "listed = map fst (sort_key (\<lambda>(r, a). at_number a)
      (concat (map (\<lambda>r. map (\<lambda>a. (r, a)) (rows_matching (p r) attempts)) mine)))"
  shows "set listed = set mine" and "distinct (map key mine) \<Longrightarrow> distinct (map key listed)"
proof -
  define the_attempt where "the_attempt r = (SOME a. a \<in> set attempts \<and> p r a)" for r :: 'r
  have join: "rows_matching (p r) attempts = [the_attempt r]" if r: "r \<in> set mine" for r
  proof -
    have a: "the_attempt r \<in> set attempts" "p r (the_attempt r)"
      using someI_ex [of "\<lambda>a. a \<in> set attempts \<and> p r a"] ref [OF r] by (auto simp: the_attempt_def)
    then have "p r = (\<lambda>x. at_id x = at_id (the_attempt r) \<and> p r x)"
      using p by (auto simp: fun_eq_iff)
    with filter_key_and_unique [OF ids a(1), of "p r"] a(2) show ?thesis
      by (simp add: rows_matching_def)
  qed
  have "map (\<lambda>r. map (\<lambda>a. (r, a)) (rows_matching (p r) attempts)) mine = map (\<lambda>r. [(r, the_attempt r)]) mine"
    using join by (intro map_cong refl) simp
  with l have eq: "listed = sort_key (\<lambda>r. at_number (the_attempt r)) mine"
    by (simp add: sort_key_map comp_def)
  show "set listed = set mine" by (simp add: eq)
  show "distinct (map key mine) \<Longrightarrow> distinct (map key listed)"
    by (simp add: eq distinct_map)
qed

lemma listed_seals:
  assumes k: "facts_keyed H db" and l: "list_seals_for_unit H db u = Inr seals"
  shows "distinct (map se_attempt seals)"
    and "set seals = {s \<in> set (rd_seals db). se_unit s = u}"
proof -
  let ?mine = "rows_matching (\<lambda>s. se_unit s = u) (rd_seals db)"
  have ids: "distinct (map at_id (rd_attempts db))" and keys: "distinct (map se_attempt ?mine)"
    and refs: "s \<in> set ?mine \<Longrightarrow> \<exists>a \<in> set (rd_attempts db). at_id a = se_attempt s" for s
    using k by (auto simp: facts_keyed_def seals_keyed_def attempts_keyed_def list_all_iff
        rows_matching_def distinct_map_filter attempt_exists_def list_ex_iff)
  have "seals = map fst (sort_key (\<lambda>(s, a). at_number a)
      (concat (map (\<lambda>s. map (\<lambda>a. (s, a)) (rows_matching (\<lambda>a. at_id a = se_attempt s) (rd_attempts db))) ?mine)))"
    using l by (simp add: list_seals_for_unit_def model_rows_Inr)
  from joined_listing [OF ids _ refs this] keys
  show "distinct (map se_attempt seals)" "set seals = {s \<in> set (rd_seals db). se_unit s = u}"
    by (auto simp: rows_matching_def)
qed

lemma listed_closures:
  assumes k: "facts_keyed H db" and l: "list_closures_for_unit H db u = Inr notices"
  shows "distinct (map cn_attempt notices)"
    and "set notices = {n \<in> set (rd_notices db). cn_unit n = u}"
proof -
  have eq: "notices = sort_key cn_number (rows_matching (\<lambda>n. cn_unit n = u) (rd_notices db))"
    using l by (simp add: list_closures_for_unit_def model_rows_Inr)
  have keys: "distinct (map cn_attempt (rd_notices db))"
    using k by (simp add: facts_keyed_def notices_keyed_def)
  show "distinct (map cn_attempt notices)"
    using keys by (simp add: eq distinct_map rows_matching_def inj_on_def)
  show "set notices = {n \<in> set (rd_notices db). cn_unit n = u}"
    by (simp add: eq rows_matching_def)
qed

lemma service_lookups:
  assumes k: "facts_keyed H db" and a: "a \<in> set (closed_attempts db u)"
  shows "list_seals_for_unit H db u = Inr seals \<Longrightarrow> seals_by_attempt seals (at_id a) = seal_of db a"
    and "list_closures_for_unit H db u = Inr notices \<Longrightarrow> closures_by_attempt notices (at_id a) = notice_of db a"
proof -
  have ids: "distinct (map at_id (rd_attempts db))" and ak: "attempts_keyed (rd_attempts db)"
    and sk: "distinct (map se_attempt (rd_seals db))" and nk: "distinct (map cn_attempt (rd_notices db))"
    using k by (auto simp: facts_keyed_def attempts_keyed_def seals_keyed_def notices_keyed_def)
  have mem: "a \<in> set (rd_attempts db)" "at_unit a = u"
    using a by (simp_all add: closed_attempts_props [OF ak])
  show "seals_by_attempt seals (at_id a) = seal_of db a" if l: "list_seals_for_unit H db u = Inr seals"
  proof (rule option_eqI)
    fix s
    have "s \<in> set (rd_seals db) \<Longrightarrow> se_attempt s = at_id a \<Longrightarrow> se_unit s = u"
      using attempt_of_fact(1) [OF ids _ mem(1), of "se_unit s" "se_scope s"] k mem(2)
      by (auto simp: facts_keyed_def seals_keyed_def list_all_iff)
    then show "seals_by_attempt seals (at_id a) = Some s \<longleftrightarrow> seal_of db a = Some s"
      using listed_seals [OF k l]
      by (auto simp: seals_by_attempt_def seal_of_def map_of_key_iff first_row_key_iff [OF sk])
  qed
  show "closures_by_attempt notices (at_id a) = notice_of db a"
    if l: "list_closures_for_unit H db u = Inr notices"
  proof (rule option_eqI)
    fix n
    have "n \<in> set (rd_notices db) \<Longrightarrow> cn_attempt n = at_id a \<Longrightarrow> cn_unit n = u"
      using attempt_of_fact(1) [OF ids _ mem(1), of "cn_unit n" "cn_scope n"] k mem(2)
      by (auto simp: facts_keyed_def notices_keyed_def list_all_iff)
    then show "closures_by_attempt notices (at_id a) = Some n \<longleftrightarrow> notice_of db a = Some n"
      using listed_closures [OF k l]
      by (auto simp: closures_by_attempt_def notice_of_def map_of_key_iff first_row_key_iff [OF nk])
  qed
qed

text \<open>Every table read of a keyed store yields its rows.\<close>

lemma listed_rows_total:
  assumes "facts_keyed H db"
  shows "\<exists>seals. list_seals_for_unit H db u = Inr seals"
    and "\<exists>notices. list_closures_for_unit H db u = Inr notices"
  using assms
  by (auto simp: facts_keyed_def seals_keyed_def notices_keyed_def list_seals_for_unit_def
      list_closures_for_unit_def model_rows_Inr rows_matching_def list_all_iff)

end
