(* ===== verification/Resolution_Rows.thy ===== *)
theory Resolution_Rows
  imports Result_Sources
begin

text \<open>
  How the sources the service gathers and the rows the trigger joins correspond, and that each
  quantity of the resolution comes out the same on both sides.
\<close>

definition matches_row :: "resolution_source \<Rightarrow> terminal_row \<Rightarrow> bool" where
  "matches_row s r = (fst r = rs_attempt s \<and> row_axes r = Some (rs_axes s)
     \<and> row_input r = Some (source_input s)
     \<and> row_seal_id r = (if rs_fact_kind s = SEAL then Some (rs_fact_id s) else None)
     \<and> row_closure_id r = (if rs_fact_kind s = CLOSURE_NOTICE then Some (rs_fact_id s) else None)
     \<and> (rs_verdict s = VERDICT_FAILED \<longrightarrow> row_fingerprint r = rs_fingerprint s))"

lemma source_matches_row:
  assumes "resolution_source_for a f n = Inr s"
  shows "matches_row s (a, f, n)"
  using assms
  by (cases f; cases n)
    (auto simp: resolution_source_for_def projection_error_def source_from_seal_def seal_source_def
      source_from_closure_def closure_source_of_def effective_seal_verdict_def matches_row_def
      source_input_def rs_verdict_def require_exact_closure_def require_closure_source_def ensure_def
      split: if_splits)

text \<open>The gathered sources, one per closed attempt.\<close>

lemma gather_sources_rows:
  assumes "gather_sources u seals closures attempts = Inr sources"
    and "\<And>a. a \<in> set attempts \<Longrightarrow> at_lifecycle a = LIFE_CLOSED
      \<Longrightarrow> seals (at_id a) = f a \<and> closures (at_id a) = n a"
  shows "list_all2 matches_row sources
      (map (\<lambda>a. (a, f a, n a)) (filter (\<lambda>a. at_lifecycle a = LIFE_CLOSED) attempts))
    \<and> list_all (\<lambda>a. require_attempt_scope u a = Inr ()) attempts"
  using assms
  by (induction attempts arbitrary: sources)
    (auto simp: attempt_Inr intro!: source_matches_row split: if_splits)

lemma list_all2_map_filter:
  assumes "list_all2 P xs ys" and "\<And>x y. P x y \<Longrightarrow> f x = g y"
  shows "List.map_filter f xs = List.map_filter g ys"
  using assms by (induction rule: list_all2_induct) (simp_all add: List.map_filter_simps split: option.split)

lemma map_filter_guarded: "List.map_filter (\<lambda>x. if p x then Some (f x) else None) xs = map f (filter p xs)"
  by (induction xs) (auto simp: List.map_filter_simps)

lemma length_fact_kinds:
  "length (filter (\<lambda>s. rs_fact_kind s = SEAL) xs) + length (filter (\<lambda>s. rs_fact_kind s = CLOSURE_NOTICE) xs)
     = length xs"
  by (induction xs) (auto intro: fact_kind.exhaust)

lemma rows_facts:
  assumes m: "list_all2 matches_row sources rows"
  shows "List.map_filter row_seal_id rows = map rs_fact_id (filter (\<lambda>s. rs_fact_kind s = SEAL) sources)"
    and "List.map_filter row_closure_id rows
      = map rs_fact_id (filter (\<lambda>s. rs_fact_kind s = CLOSURE_NOTICE) sources)"
    and "List.map_filter row_input rows = map source_input sources"
    and "map row_verdict rows = map (\<lambda>s. Some (rs_verdict s)) sources"
    and "map fst rows = map rs_attempt sources"
    and "map row_axes rows = map (\<lambda>s. Some (rs_axes s)) sources"
proof -
  show "List.map_filter row_seal_id rows = map rs_fact_id (filter (\<lambda>s. rs_fact_kind s = SEAL) sources)"
    unfolding map_filter_guarded [symmetric]
    by (rule list_all2_map_filter [OF m, symmetric]) (simp add: matches_row_def)
  show "List.map_filter row_closure_id rows
      = map rs_fact_id (filter (\<lambda>s. rs_fact_kind s = CLOSURE_NOTICE) sources)"
    unfolding map_filter_guarded [symmetric]
    by (rule list_all2_map_filter [OF m, symmetric]) (simp add: matches_row_def)
  have "List.map_filter row_input rows = List.map_filter (\<lambda>s. Some (source_input s)) sources"
    by (rule list_all2_map_filter [OF m, symmetric]) (simp add: matches_row_def)
  then show "List.map_filter row_input rows = map source_input sources"
    using map_filter_guarded [of "\<lambda>_. True" source_input sources] by simp
  show "map row_verdict rows = map (\<lambda>s. Some (rs_verdict s)) sources"
    "map fst rows = map rs_attempt sources" "map row_axes rows = map (\<lambda>s. Some (rs_axes s)) sources"
    using m by (induction rule: list_all2_induct) (auto simp: matches_row_def row_verdict_def rs_verdict_def)
qed

subsection \<open>Stability\<close>

lemma count_verdict:
  assumes "map row_verdict rows = map (\<lambda>s. Some (rs_verdict s)) sources"
  shows "length (filter (\<lambda>r. row_verdict r = Some v) rows) = length (filter (\<lambda>s. rs_verdict s = v) sources)"
proof -
  have "length (filter (\<lambda>r. row_verdict r = Some v) rows) = length (filter (\<lambda>x. x = Some v) (map row_verdict rows))"
    by (simp add: filter_map comp_def)
  also have "\<dots> = length (filter (\<lambda>s. rs_verdict s = v) sources)"
    by (simp add: assms filter_map comp_def)
  finally show ?thesis .
qed

text \<open>The SQL expression over the sources themselves.\<close>

definition sql_stability :: "resolution_source list \<Rightarrow> stability" where
  "sql_stability sources =
     (let effective = rs_verdict (last sources);
          failed = (\<lambda>s. rs_verdict s = VERDICT_FAILED); passed = (\<lambda>s. rs_verdict s = VERDICT_PASSED) in
      if length sources = 1 \<and> effective \<in> {VERDICT_PASSED, VERDICT_FAILED} then STABLE
      else if effective = VERDICT_PASSED \<and> list_ex failed sources then FLAKY_SUSPECT
      else if effective = VERDICT_PASSED
        \<and> list_ex (\<lambda>s. ax_outcome_class (rs_axes s) = OUTCOME_PLATFORM) (butlast sources)
        then INFRA_RECOVERED
      else if effective = VERDICT_PASSED \<and> list_all passed sources then STABLE
      else if list_all failed sources \<and> length (remdups (List.map_filter rs_fingerprint sources)) = 1
        then STABLE
      else if list_ex passed sources \<and> list_ex failed sources then FLAKY_SUSPECT
      else STABILITY_UNKNOWN)"

lemma length_filter_pos: "0 < length (filter p xs) \<longleftrightarrow> list_ex p xs"
  by (simp add: list_ex_iff filter_empty_conv)

lemma length_filter_all: "length (filter p xs) = length xs \<longleftrightarrow> list_all p xs"
proof (induction xs)
  case (Cons x xs)
  moreover have "length (filter p xs) \<noteq> Suc (length xs)"
    by (metis length_filter_le Suc_n_not_le_n)
  ultimately show ?case by auto
qed simp

lemma sql_stability_rows:
  assumes m: "list_all2 matches_row sources rows" and ne: "sources \<noteq> []"
    and n: "distinct (map at_number (map rs_attempt sources))"
      "sorted (map at_number (map rs_attempt sources))"
  shows "expected_stability rows (rs_verdict (last sources)) (at_number (rs_attempt (last sources)))
    = sql_stability sources"
proof -
  note facts = rows_facts [OF m]
  have len: "length rows = length sources" using m by (simp add: list_all2_lengthD)
  have ordered: "filter (\<lambda>s. at_number (rs_attempt s) < at_number (rs_attempt (last sources))) sources = butlast sources"
    using n ne
  proof (induction sources rule: rev_induct)
    case (snoc s ss)
    then have "at_number (rs_attempt x) < at_number (rs_attempt s)" if "x \<in> set ss" for x
      using that by (auto simp: sorted_append order_less_le image_iff)
    then show ?case by simp
  qed simp
  have "list_ex (\<lambda>r. at_number (fst r) < at_number (rs_attempt (last sources))
        \<and> map_option ax_outcome_class (row_axes r) = Some OUTCOME_PLATFORM) rows
      \<longleftrightarrow> list_ex (\<lambda>s. at_number (rs_attempt s) < at_number (rs_attempt (last sources))
        \<and> ax_outcome_class (rs_axes s) = OUTCOME_PLATFORM) sources"
    using m by (induction rule: list_all2_induct) (auto simp: matches_row_def)
  also have "\<dots> \<longleftrightarrow> list_ex (\<lambda>s. ax_outcome_class (rs_axes s) = OUTCOME_PLATFORM) (butlast sources)"
    unfolding ordered [symmetric] by (auto simp: list_ex_iff)
  finally have platform: "0 < length (filter (\<lambda>r. at_number (fst r) < at_number (rs_attempt (last sources))
        \<and> map_option ax_outcome_class (row_axes r) = Some OUTCOME_PLATFORM) rows)
      \<longleftrightarrow> list_ex (\<lambda>s. ax_outcome_class (rs_axes s) = OUTCOME_PLATFORM) (butlast sources)"
    by (simp only: length_filter_pos)
  have fingerprints: "List.map_filter row_fingerprint rows = List.map_filter rs_fingerprint sources"
    if "list_all (\<lambda>s. rs_verdict s = VERDICT_FAILED) sources"
    using m that
    by (induction rule: list_all2_induct) (auto simp: matches_row_def List.map_filter_simps split: option.split)
  show ?thesis
    unfolding expected_stability_def sql_stability_def Let_def
    using len platform fingerprints
    by (simp only: count_verdict [OF facts(4)] length_filter_pos length_filter_all cong: conj_cong if_cong)
qed

lemma verdict_members:
  "v \<in> rs_verdict ` set xs \<longleftrightarrow> list_ex (\<lambda>s. rs_verdict s = v) xs"
  "v = rs_verdict x \<longleftrightarrow> rs_verdict x = v"
  by (auto simp: list_ex_iff)

lemma verdicts_exclude:
  "v \<noteq> w \<Longrightarrow> list_all (\<lambda>s. rs_verdict s = v) xs \<Longrightarrow> \<not> list_ex (\<lambda>s. rs_verdict s = w) xs"
  by (auto simp: list_ex_iff list_all_iff)

lemma resolve_stability_sql:
  assumes "sources \<noteq> []"
  shows "resolve_stability sources = sql_stability sources"
proof (cases sources rule: rev_cases)
  case (snoc ss s)
  show ?thesis
    using verdicts_exclude [of VERDICT_FAILED VERDICT_PASSED ss]
      verdicts_exclude [of VERDICT_PASSED VERDICT_FAILED ss]
    by (cases "ss = []"; cases "rs_verdict s")
      (simp_all add: snoc resolve_stability_def sql_stability_def Let_def verdict_members list.pred_map comp_def)
qed (use assms in simp)

end
