(* ===== verification/Resolution_Correct.thy ===== *)
theory Resolution_Correct
  imports Resolution_Rows
begin

text \<open>
  What the resolution of a unit guarantees: the row the service computes is the row the trigger of
  the database recomputes, so on a consistent store the database accepts it; resolving again over
  the same facts returns the same revision; the invariant of the store survives.
\<close>

definition units_keyed :: "execution_unit list \<Rightarrow> bool" where
  "units_keyed us = (distinct (map eu_id us)
     \<and> list_all (\<lambda>u. digest_pattern (eu_manifest_hash u) \<and> digest_pattern (eu_unit_key u)) us)"

definition resolutions_keyed :: "unit_resolution list \<Rightarrow> bool" where
  "resolutions_keyed rs = (list_all unit_resolution_valid rs
     \<and> chained ur_unit ur_revision ur_id ur_supersedes rs)"

definition fact_store_ok :: "hashing \<Rightarrow> result_db \<Rightarrow> bool" where
  "fact_store_ok H db =
     (facts_keyed H db \<and> units_keyed (rd_units db) \<and> resolutions_keyed (rd_resolutions db))"

lemma latest_resolution_row:
  assumes "resolutions_keyed (rd_resolutions db)"
  shows "get_latest_resolution db u = Inr (latest_by ur_revision (\<lambda>r. ur_unit r = u) (rd_resolutions db))"
    and "latest_by ur_revision (\<lambda>r. ur_unit r = u) (rd_resolutions db) = Some l
      \<Longrightarrow> l \<in> set (rd_resolutions db) \<and> ur_unit l = u \<and> unit_resolution_valid l"
proof -
  have l: "l \<in> set (rd_resolutions db) \<and> ur_unit l = u \<and> unit_resolution_valid l"
    if "latest_by ur_revision (\<lambda>r. ur_unit r = u) (rd_resolutions db) = Some l" for l
    using first_row_Some [OF that [unfolded latest_by_def]] assms
    by (auto simp: rows_matching_def resolutions_keyed_def list_all_iff)
  then show "latest_by ur_revision (\<lambda>r. ur_unit r = u) (rd_resolutions db) = Some l
      \<Longrightarrow> l \<in> set (rd_resolutions db) \<and> ur_unit l = u \<and> unit_resolution_valid l" .
  show "get_latest_resolution db u = Inr (latest_by ur_revision (\<lambda>r. ur_unit r = u) (rd_resolutions db))"
    unfolding get_latest_resolution_def by (rule model_row_all_valid) (use l in blast)
qed

subsection \<open>The gathered sources\<close>

lemma terminal_sources_rows:
  assumes k: "facts_keyed H db" and s: "terminal_sources H u db = Inr sources"
  shows "list_all2 matches_row sources (terminal_rows db (eu_id u))"
    and "map rs_attempt sources = closed_attempts db (eu_id u)" and "sources \<noteq> []"
    and "\<And>a. a \<in> set (closed_attempts db (eu_id u)) \<Longrightarrow> require_attempt_scope u a = Inr ()"
proof -
  have ak: "attempts_keyed (rd_attempts db)" using k by (simp add: facts_keyed_def)
  from s obtain seals notices where l: "list_seals_for_unit H db (eu_id u) = Inr seals"
      "list_closures_for_unit H db (eu_id u) = Inr notices"
    and g: "gather_sources u (seals_by_attempt seals) (closures_by_attempt notices)
      (list_attempts db (eu_id u)) = Inr sources" and ne: "sources \<noteq> []"
    by (auto simp: terminal_sources_def attempt_Inr split: if_splits)
  show "sources \<noteq> []" by (rule ne)
  have look: "seals_by_attempt seals (at_id a) = seal_of db a
      \<and> closures_by_attempt notices (at_id a) = notice_of db a"
    if "a \<in> set (list_attempts db (eu_id u))" "at_lifecycle a = LIFE_CLOSED" for a
    using service_lookups [OF k, of a "eu_id u"] l that by (simp add: closed_attempts_def)
  note r = gather_sources_rows [OF g look, folded closed_attempts_def]
  then show m: "list_all2 matches_row sources (terminal_rows db (eu_id u))"
    by (simp add: terminal_rows_of_attempts [OF k])
  from rows_facts(5) [OF m] show "map rs_attempt sources = closed_attempts db (eu_id u)"
    by (simp add: terminal_rows_of_attempts [OF k] comp_def)
  show "\<And>a. a \<in> set (closed_attempts db (eu_id u)) \<Longrightarrow> require_attempt_scope u a = Inr ()"
    using r by (simp add: list_all_iff closed_attempts_def)
qed

lemma terminal_sources_fails:
  assumes "facts_keyed H db" and "terminal_sources H u db = Inl f"
  shows "\<exists>code. f = ProjectionError code"
proof -
  have gather: "\<exists>code. f = ProjectionError code"
    if "gather_sources u seals closures attempts = Inl f" for seals closures attempts
    using that
    by (induction attempts)
      (auto simp: attempt_Inl require_attempt_scope_def ensure_Inl resolution_source_for_def
        projection_error_def source_from_seal_def source_from_closure_def require_exact_closure_def
        require_closure_source_def split: if_splits option.splits)
  from assms(2) listed_rows_total [OF assms(1), of "eu_id u"] gather show ?thesis
    by (auto simp: terminal_sources_def attempt_Inl split: if_splits)
qed

lemma seal_axes: "attempt_seal_valid H f \<Longrightarrow> safe_reason (ax_closure_reason (se_axes f))
    \<and> ax_verdict (se_axes f) \<noteq> VERDICT_PENDING \<and> pass_is_backed (se_axes f)"
  by (simp add: attempt_seal_valid_def seal_content_valid_def)

lemma notice_axes: "closure_notice_valid H n \<Longrightarrow> safe_reason (ax_closure_reason (cn_axes n))
    \<and> ax_verdict (cn_axes n) \<in> {VERDICT_INCONCLUSIVE, VERDICT_NOT_EVALUATED}"
  unfolding closure_notice_valid_def closure_content_valid_def Let_def by blast

definition axes_ok :: "axes \<Rightarrow> bool" where
  "axes_ok x = (safe_reason (ax_closure_reason x) \<and> ax_verdict x \<noteq> VERDICT_PENDING \<and> pass_is_backed x)"

lemma row_axes_ok:
  assumes "row_axes (a, f, n) = Some x" and "\<And>s. f = Some s \<Longrightarrow> attempt_seal_valid H s"
    and "\<And>c. n = Some c \<Longrightarrow> closure_notice_valid H c"
  shows "axes_ok x"
proof (cases f)
  case None
  with assms(1) obtain c where c: "n = Some c" "x = cn_axes c" by auto
  with notice_axes [OF assms(3)] show ?thesis by (auto simp: axes_ok_def pass_is_backed_def)
next
  case (Some s)
  with assms(1) seal_axes [OF assms(2)] show ?thesis
    by (auto simp: axes_ok_def pass_is_backed_def split: if_splits)
qed

text \<open>Each source carries the facts of a valid row.\<close>

lemma source_facts:
  assumes k: "facts_keyed H db" and m: "matches_row s (a, seal_of db a, notice_of db a)"
  shows "axes_ok (rs_axes s)"
    and "rs_fact_kind s = SEAL \<Longrightarrow> \<exists>f \<in> set (rd_seals db). se_attempt f = at_id a \<and> se_id f = rs_fact_id s"
    and "rs_fact_kind s = CLOSURE_NOTICE
      \<Longrightarrow> \<exists>n \<in> set (rd_notices db). cn_attempt n = at_id a \<and> cn_id n = rs_fact_id s"
proof -
  have seal: "f \<in> set (rd_seals db) \<and> se_attempt f = at_id a \<and> attempt_seal_valid H f"
    if "seal_of db a = Some f" for f
    using first_row_Some [OF that [unfolded seal_of_def]] k
    by (auto simp: facts_keyed_def seals_keyed_def list_all_iff)
  have notice: "n \<in> set (rd_notices db) \<and> cn_attempt n = at_id a \<and> closure_notice_valid H n"
    if "notice_of db a = Some n" for n
    using first_row_Some [OF that [unfolded notice_of_def]] k
    by (auto simp: facts_keyed_def notices_keyed_def list_all_iff)
  show "axes_ok (rs_axes s)"
    using m seal notice row_axes_ok [of a "seal_of db a" "notice_of db a" "rs_axes s" H]
    unfolding matches_row_def by blast
  show "\<exists>f \<in> set (rd_seals db). se_attempt f = at_id a \<and> se_id f = rs_fact_id s"
    if "rs_fact_kind s = SEAL"
    using m seal that by (cases "seal_of db a") (auto simp: matches_row_def)
  show "\<exists>n \<in> set (rd_notices db). cn_attempt n = at_id a \<and> cn_id n = rs_fact_id s"
    if "rs_fact_kind s = CLOSURE_NOTICE"
    using m notice that by (cases "notice_of db a") (auto simp: matches_row_def)
qed

lemma sources_facts:
  assumes k: "facts_keyed H db" and s: "terminal_sources H u db = Inr sources"
  shows "s \<in> set sources \<Longrightarrow> axes_ok (rs_axes s) \<and> rs_attempt s \<in> set (closed_attempts db (eu_id u))"
    and "distinct (map rs_fact_id (filter (\<lambda>s. rs_fact_kind s = SEAL) sources))"
    and "distinct (map rs_fact_id (filter (\<lambda>s. rs_fact_kind s = CLOSURE_NOTICE) sources))"
    and "length sources \<le> 100"
proof -
  note t = terminal_sources_rows [OF k s]
  have ak: "attempts_keyed (rd_attempts db)" using k by (simp add: facts_keyed_def)
  have row: "matches_row s (rs_attempt s, seal_of db (rs_attempt s), notice_of db (rs_attempt s))
      \<and> rs_attempt s \<in> set (closed_attempts db (eu_id u))" if "s \<in> set sources" for s
  proof -
    from t(1) that obtain r where "r \<in> set (terminal_rows db (eu_id u))" "matches_row s r"
      by (metis list_all2_conv_all_nth in_set_conv_nth nth_mem)
    then show ?thesis by (auto simp: terminal_rows_of_attempts [OF k] matches_row_def)
  qed
  show "s \<in> set sources \<Longrightarrow> axes_ok (rs_axes s) \<and> rs_attempt s \<in> set (closed_attempts db (eu_id u))"
    using row source_facts(1) [OF k] by blast
  have attempts: "distinct (map (\<lambda>s. at_number (rs_attempt s)) sources)"
    using closed_attempts_props(1) [OF ak, of "eu_id u"] by (simp add: comp_def flip: t(2))
  have keys: "distinct (map se_id (rd_seals db))" "distinct (map cn_id (rd_notices db))"
      "distinct (map at_id (rd_attempts db))"
    using k by (simp_all add: facts_keyed_def seals_keyed_def notices_keyed_def attempts_keyed_def)
  have same: "rs_attempt x = rs_attempt y"
    if "x \<in> set sources" "y \<in> set sources" "at_id (rs_attempt x) = at_id (rs_attempt y)" for x y
    using row [OF that(1)] row [OF that(2)] that(3) distinct_key_eq [OF keys(3)]
    by (simp add: closed_attempts_props [OF ak])
  have inj: "x = y" if "x \<in> set sources" "y \<in> set sources" "rs_attempt x = rs_attempt y" for x y
    using attempts that by (auto simp: distinct_map inj_on_def)
  have once: "distinct sources" using attempts by (simp add: distinct_map)
  have seal_inj: "x = y" if "x \<in> set sources" "y \<in> set sources" "rs_fact_kind x = SEAL"
      "rs_fact_kind y = SEAL" "rs_fact_id x = rs_fact_id y" for x y
    using source_facts(2) [OF k] row [OF that(1)] row [OF that(2)] that same inj
      distinct_key_eq [OF keys(1)] by metis
  have notice_inj: "x = y" if "x \<in> set sources" "y \<in> set sources" "rs_fact_kind x = CLOSURE_NOTICE"
      "rs_fact_kind y = CLOSURE_NOTICE" "rs_fact_id x = rs_fact_id y" for x y
    using source_facts(3) [OF k] row [OF that(1)] row [OF that(2)] that same inj
      distinct_key_eq [OF keys(2)] by metis
  show "distinct (map rs_fact_id (filter (\<lambda>s. rs_fact_kind s = SEAL) sources))"
    "distinct (map rs_fact_id (filter (\<lambda>s. rs_fact_kind s = CLOSURE_NOTICE) sources))"
    using once seal_inj notice_inj by (auto simp: distinct_map inj_on_def)
  have "set (map (\<lambda>s. at_number (rs_attempt s)) sources) \<subseteq> {1..100}"
    using row ak by (auto simp: closed_attempts_props [OF ak]) (auto simp: attempts_keyed_def list_all_iff)
  then have "card (set (map (\<lambda>s. at_number (rs_attempt s)) sources)) \<le> card {1..100::int}"
    by (rule card_mono [rotated]) simp
  then show "length sources \<le> 100"
    using distinct_card [OF attempts] by simp
qed

subsection \<open>The computed revision\<close>

lemma resolution_of_valid:
  assumes k: "fact_store_ok H db" and d: "digests H" and u: "u \<in> set (rd_units db)"
    and s: "terminal_sources H u db = Inr sources"
    and l: "l = latest_by ur_revision (\<lambda>r. ur_unit r = eu_id u) (rd_resolutions db)"
  shows "unit_resolution_valid (resolution_of H ids u now sources l)"
    and "resolution_check (resolution_of H ids u now sources l)"
proof -
  have fk: "facts_keyed H db" and rk: "resolutions_keyed (rd_resolutions db)"
    using k by (simp_all add: fact_store_ok_def)
  have digest: "digest_pattern (eu_manifest_hash u)" "digest_pattern (eu_unit_key u)"
    using k u by (auto simp: fact_store_ok_def units_keyed_def list_all_iff)
  have policy: "digest_pattern UNIT_RESOLUTION_POLICY_DIGEST" by code_simp
  note f = sources_facts [OF fk s] and t = terminal_sources_rows [OF fk s]
  have last: "axes_ok (rs_axes (last sources))"
    and num: "1 \<le> at_number (rs_attempt (last sources))"
    using f(1) [of "last sources"] t(3) fk
    by (auto simp: facts_keyed_def attempts_keyed_def list_all_iff closed_attempts_def list_attempts_def rows_matching_def)
  have previous: "1 \<le> ur_revision p" if "l = Some p" for p
    using latest_resolution_row(2) [OF rk that [unfolded l]]
    by (simp add: unit_resolution_valid_def lineage_ok_def)
  have lens: "length (filter (\<lambda>s. rs_fact_kind s = SEAL) sources)
      + length (filter (\<lambda>s. rs_fact_kind s = CLOSURE_NOTICE) sources) = length sources"
    by (rule length_fact_kinds)
  have some: "filter (\<lambda>s. rs_fact_kind s = SEAL) sources = []
      \<longrightarrow> filter (\<lambda>s. rs_fact_kind s = CLOSURE_NOTICE) sources \<noteq> []"
    using lens t(3) by auto
  have lineage: "lineage_ok (case l of Some p \<Rightarrow> ur_revision p + 1 | None \<Rightarrow> 1) (map_option ur_id l)"
    using previous by (cases l) (simp_all add: lineage_ok_def)
  have hash: "digest_pattern (input_set_hash H u sources)"
    using d by (simp add: digests_def input_set_hash_def)
  show "unit_resolution_valid (resolution_of H ids u now sources l)"
    using hash digest policy f(2,3,4) last num lens some lineage
    by (simp add: unit_resolution_valid_def axes_ok_def)
  have chain: "(1::int) \<le> (case l of Some p \<Rightarrow> ur_revision p + 1 | None \<Rightarrow> 1)
      \<and> ((case l of Some p \<Rightarrow> ur_revision p + 1 | None \<Rightarrow> 1) = 1 \<and> map_option ur_id l = None
         \<or> 1 < (case l of Some p \<Rightarrow> ur_revision p + 1 | None \<Rightarrow> 1) \<and> map_option ur_id l \<noteq> None)"
    using previous by (cases l) auto
  have "1 \<le> length sources" using t(3) by (cases sources) simp_all
  then show "resolution_check (resolution_of H ids u now sources l)"
    using hash digest policy f(4) last num lens chain
    by (simp add: resolution_check_def axes_ok_def)
qed

lemma resolution_of_guarded:
  assumes k: "fact_store_ok H db" and u: "u \<in> set (rd_units db)"
    and s: "terminal_sources H u db = Inr sources"
    and l: "l = latest_by ur_revision (\<lambda>r. ur_unit r = eu_id u) (rd_resolutions db)"
  shows "guard_unit_resolution H now db (resolution_of H ids u now sources l)"
    and "resolution_references db (resolution_of H ids u now sources l)"
proof -
  have fk: "facts_keyed H db" and rk: "resolutions_keyed (rd_resolutions db)"
    using k by (simp_all add: fact_store_ok_def)
  then have ak: "attempts_keyed (rd_attempts db)" by (simp add: facts_keyed_def)
  note t = terminal_sources_rows [OF fk s]
  note rows = rows_facts [OF t(1)]
  let ?rows = "terminal_rows db (eu_id u)"
  have len: "length ?rows = length sources" using t(1) by (simp add: list_all2_lengthD)
  with t(3) have ne: "?rows \<noteq> []" by auto
  have decisive: "fst (last ?rows) = rs_attempt (last sources)"
      "row_axes (last ?rows) = Some (rs_axes (last sources))"
    using arg_cong [OF rows(5), of last] arg_cong [OF rows(6), of last] ne t(3)
    by (simp_all add: last_map)
  have ordered: "distinct (map at_number (map rs_attempt sources))"
      "sorted (map at_number (map rs_attempt sources))"
    using closed_attempts_props(1,2) [OF ak] by (simp_all only: t(2))
  have stability: "resolve_stability sources
      = expected_stability ?rows (rs_verdict (last sources)) (at_number (rs_attempt (last sources)))"
    using resolve_stability_sql [OF t(3)] sql_stability_rows [OF t(1,3) ordered] by simp
  have chain: "resolution_chain_ok l (resolution_of H ids u now sources l)"
    by (cases l) (simp_all add: resolution_chain_ok_def opt_all_def, simp add: resolution_of_def Let_def)
  have unit: "list_ex (\<lambda>x. eu_id x = eu_id u \<and> eu_scope x = eu_scope u
      \<and> eu_manifest_hash x = eu_manifest_hash u \<and> eu_unit_key x = eu_unit_key u) (rd_units db)"
    using u by (auto simp: list_ex_iff)
  show "guard_unit_resolution H now db (resolution_of H ids u now sources l)"
    using ne len chain unit stability decisive
    by (simp add: guard_unit_resolution_def Let_def rows(1-3) length_fact_kinds
        input_set_hash_def rs_verdict_def flip: l)
  have "rs_attempt (last sources) \<in> set (closed_attempts db (eu_id u))"
    using t(2,3) by (metis last_in_set list.set_map image_eqI)
  then have "rs_attempt (last sources) \<in> set (rd_attempts db)"
      "require_attempt_scope u (rs_attempt (last sources)) = Inr ()"
    using t(4) by (simp_all add: closed_attempts_props [OF ak])
  then have attempt: "attempt_exists db (at_id (rs_attempt (last sources))) (eu_id u) (eu_scope u)"
    by (auto simp: attempt_exists_def list_ex_iff require_attempt_scope_def ensure_Inr)
  have "list_ex (\<lambda>x. ur_id x = ur_id p) (rd_resolutions db)" if "l = Some p" for p
    using latest_resolution_row(2) [OF rk that [unfolded l]] by (auto simp: list_ex_iff)
  then show "resolution_references db (resolution_of H ids u now sources l)"
    using attempt unit
    by (cases l) (auto simp: resolution_references_def unit_exists_def list_ex_iff opt_all_def)
qed

subsection \<open>Resolving\<close>

definition latest_resolution :: "result_db \<Rightarrow> uuid \<Rightarrow> unit_resolution option" where
  "latest_resolution db u = latest_by ur_revision (\<lambda>r. ur_unit r = u) (rd_resolutions db)"

definition is_current_resolution ::
    "hashing \<Rightarrow> execution_unit \<Rightarrow> resolution_source list \<Rightarrow> unit_resolution \<Rightarrow> bool" where
  "is_current_resolution H u sources l = (ur_input_set_hash l = input_set_hash H u sources
     \<and> ur_policy_digest l = UNIT_RESOLUTION_POLICY_DIGEST)"

text \<open>The two ends of \<open>resolve_unit\<close> on a consistent store.\<close>

lemma resolve_unit_eq:
  assumes k: "fact_store_ok H db" and s: "terminal_sources H u db = Inr sources"
  shows "resolve_unit H now ids u created db =
     (let l = latest_resolution db (eu_id u); r = resolution_of H ids u created sources l in
      if opt_all (\<lambda>p. \<not> is_current_resolution H u sources p) l
      then attempt (ensure (unit_resolution_valid r) ModelInvalid) (\<lambda>_.
        attempt (insert_resolution H now r db) (\<lambda>db'.
          Inr (r, append_outbox (unit_resolved_event r) db')))
      else Inr (the l, db))"
  using latest_resolution_row(1) [of db "eu_id u"] k s
  by (simp add: resolve_unit_def is_current_resolution_def Let_def latest_resolution_def fact_store_ok_def)

lemma resolution_no_conflict:
  assumes k: "resolutions_keyed (rd_resolutions db)"
    and l: "l = latest_resolution db (eu_id u)"
    and fresh: "ids 0 \<notin> ur_id ` set (rd_resolutions db)"
    and new: "\<forall>x \<in> set (rd_resolutions db). ur_unit x = eu_id u
      \<longrightarrow> ur_input_set_hash x \<noteq> input_set_hash H u sources"
    and admitted: "resolution_admitted (rd_resolutions db) (resolution_of H ids u now sources l)"
    and x: "x \<in> set (rd_resolutions db)"
  shows "\<not> resolution_conflicts x (resolution_of H ids u now sources l)"
proof -
  have c: "chained ur_unit ur_revision ur_id ur_supersedes (rd_resolutions db)"
    using k by (simp add: resolutions_keyed_def)
  have "ur_revision x < ur_revision (resolution_of H ids u now sources l)" if "ur_unit x = eu_id u"
    using resolutions.new_revision_is_fresh [OF c admitted x] that by simp
  moreover have "ur_id x \<noteq> ids 0" using fresh x by (metis imageI)
  ultimately show ?thesis
    using new x unfolding resolution_conflicts_def resolution_of_fields by (metis order_less_irrefl)
qed

lemma insert_resolution_accepts:
  assumes k: "fact_store_ok H db" and d: "digests H" and u: "u \<in> set (rd_units db)"
    and s: "terminal_sources H u db = Inr sources" and l: "l = latest_resolution db (eu_id u)"
    and r: "r = resolution_of H ids u now sources l"
  shows "insert_resolution H now r db =
    (if list_ex (\<lambda>x. resolution_conflicts x r) (rd_resolutions db)
     then Inl (DatabaseFailure UniqueViolation)
     else Inr (db\<lparr>rd_resolutions := rd_resolutions db @ [r]\<rparr>))"
  using resolution_of_guarded [OF k u s l [unfolded latest_resolution_def], where now = now and ids = ids]
    resolution_of_valid(2) [OF k d u s l [unfolded latest_resolution_def], where now = now and ids = ids]
  by (simp add: insert_resolution_def sql_insert_def ensure_def flip: r)

lemma resolution_of_admitted:
  assumes k: "fact_store_ok H db" and d: "digests H" and u: "u \<in> set (rd_units db)"
    and s: "terminal_sources H u db = Inr sources" and l: "l = latest_resolution db (eu_id u)"
  shows "resolution_admitted (rd_resolutions db) (resolution_of H ids u now sources l)"
  using resolution_of_guarded(1) [OF k u s l [unfolded latest_resolution_def], where now = now and ids = ids]
    resolution_of_valid(2) [OF k d u s l [unfolded latest_resolution_def], where now = now and ids = ids]
  by (simp add: resolution_admitted_def guard_unit_resolution_def)

lemma resolve_unit_failures_aux:
  assumes "fact_store_ok H db" and "digests H" and "u \<in> set (rd_units db)"
    and "resolve_unit H now ids u now db = Inl f"
  shows "(\<exists>code. f = ProjectionError code) \<or> f = DatabaseFailure UniqueViolation"
proof (cases "terminal_sources H u db")
  case (Inl f')
  then have "f' = f" using assms(4) by (simp add: resolve_unit_def)
  then show ?thesis using terminal_sources_fails [OF _ Inl] assms(1) by (simp add: fact_store_ok_def)
next
  case (Inr sources)
  show ?thesis
    using assms(4) resolution_of_valid(1) [OF assms(1-3) Inr latest_resolution_def, where now = now and ids = ids]
      insert_resolution_accepts [OF assms(1-3) Inr refl refl, where now = now and ids = ids]
    by (simp add: resolve_unit_eq [OF assms(1) Inr] Let_def split: if_splits)
qed

lemma resolve_unit_appends_aux:
  assumes "fact_store_ok H db" and "digests H" and "u \<in> set (rd_units db)"
    and "terminal_sources H u db = Inr sources"
    and "\<forall>x \<in> set (rd_resolutions db). ur_unit x = eu_id u
      \<longrightarrow> ur_input_set_hash x \<noteq> input_set_hash H u sources"
    and "ids 0 \<notin> ur_id ` set (rd_resolutions db)"
  shows "resolve_unit H now ids u now db =
    (let r = resolution_of H ids u now sources (latest_resolution db (eu_id u)) in
     Inr (r, append_outbox (unit_resolved_event r) (db\<lparr>rd_resolutions := rd_resolutions db @ [r]\<rparr>)))"
proof -
  let ?l = "latest_resolution db (eu_id u)"
  let ?r = "resolution_of H ids u now sources ?l"
  have rk: "resolutions_keyed (rd_resolutions db)" using assms(1) by (simp add: fact_store_ok_def)
  have none: "\<not> list_ex (\<lambda>x. resolution_conflicts x ?r) (rd_resolutions db)"
    using resolution_no_conflict [where ids = ids and u = u, OF rk refl assms(6,5)
        resolution_of_admitted [OF assms(1-4) refl]]
    by (auto simp: list_ex_iff)
  have "opt_all (\<lambda>p. \<not> is_current_resolution H u sources p) ?l"
    using latest_resolution_row(2) [OF rk, of "eu_id u"] assms(5)
    by (cases ?l) (auto simp: opt_all_def is_current_resolution_def latest_resolution_def)
  then show ?thesis
    using resolution_of_valid(1) [OF assms(1-4) latest_resolution_def, where now = now and ids = ids] none
      insert_resolution_accepts [OF assms(1-4) refl refl, where now = now and ids = ids]
    by (simp add: resolve_unit_eq [OF assms(1,4)] Let_def)
qed

subsection \<open>Properties\<close>

text \<open>
  C1: Resolving a unit over a new set of terminal facts succeeds: the revision the service computes
  passes every check of the database, among them the trigger that recomputes inputs, verdict,
  stability and digest in SQL, and exactly this row and its event are appended.
\<close>

theorem resolve_unit_appends:
  assumes "fact_store_ok H db" and "digests H" and "u \<in> set (rd_units db)"
    and "terminal_sources H u db = Inr sources"
    and "\<forall>x \<in> set (rd_resolutions db). ur_unit x = eu_id u
      \<longrightarrow> ur_input_set_hash x \<noteq> input_set_hash H u sources"
    and "ids 0 \<notin> ur_id ` set (rd_resolutions db)"
  shows "resolve_unit H now ids u now db =
    (let r = resolution_of H ids u now sources (latest_resolution db (eu_id u)) in
     Inr (r, append_outbox (unit_resolved_event r) (db\<lparr>rd_resolutions := rd_resolutions db @ [r]\<rparr>)))"
  using assms by (rule resolve_unit_appends_aux)

text \<open>
  C2: On a consistent store a resolution fails only for inconsistent facts of the unit (a projection
  error) or for a key the database already has: no trigger, check constraint or foreign key ever
  rejects the computed row, and no row fails its model.
\<close>

theorem resolve_unit_failures:
  assumes "fact_store_ok H db" and "digests H" and "u \<in> set (rd_units db)"
    and "resolve_unit H now ids u now db = Inl f"
  shows "(\<exists>code. f = ProjectionError code) \<or> f = DatabaseFailure UniqueViolation"
  using assms by (rule resolve_unit_failures_aux)

lemma fact_store_ok_update:
  "fact_store_ok H (append_outbox e db) = fact_store_ok H db"
  "facts_keyed H (db\<lparr>rd_resolutions := rs\<rparr>) = facts_keyed H db"
  by (simp_all add: fact_store_ok_def facts_keyed_def seals_keyed_def notices_keyed_def
      attempt_exists_def append_outbox_def)

lemma fact_store_ok_append:
  assumes "fact_store_ok H db" and "resolution_admitted (rd_resolutions db) r" and "unit_resolution_valid r"
  shows "fact_store_ok H (db\<lparr>rd_resolutions := rd_resolutions db @ [r]\<rparr>)"
  using assms resolutions.chain_extends [of "rd_resolutions db" r]
  by (simp add: fact_store_ok_def fact_store_ok_update resolutions_keyed_def)

lemma resolve_unit_Inr:
  assumes "fact_store_ok H db" and "resolve_unit H now ids u created db = Inr (r, db')"
  obtains sources where "terminal_sources H u db = Inr sources" and "db' = db"
      and "latest_resolution db (eu_id u) = Some r" and "is_current_resolution H u sources r"
    | sources where "terminal_sources H u db = Inr sources"
      and "r = resolution_of H ids u created sources (latest_resolution db (eu_id u))"
      and "unit_resolution_valid r"
      and "insert_resolution H now r db = Inr (db\<lparr>rd_resolutions := rd_resolutions db @ [r]\<rparr>)"
      and "db' = append_outbox (unit_resolved_event r) (db\<lparr>rd_resolutions := rd_resolutions db @ [r]\<rparr>)"
proof -
  from assms(2) obtain sources where s: "terminal_sources H u db = Inr sources"
    by (auto simp: resolve_unit_def attempt_Inr)
  show ?thesis
  proof (cases "opt_all (\<lambda>p. \<not> is_current_resolution H u sources p) (latest_resolution db (eu_id u))")
    case True
    with assms(2) show ?thesis
      by (intro that(2) [OF s])
        (auto simp: resolve_unit_eq [OF assms(1) s] Let_def attempt_Inr ensure_Inr dest: insert_resolution_Inr
          split: if_splits)
  next
    case False
    with assms(2) show ?thesis
      by (intro that(1) [OF s]) (auto simp: resolve_unit_eq [OF assms(1) s] opt_all_def split: option.splits)
  qed
qed

lemma resolve_unit_keeps_aux:
  assumes "fact_store_ok H db" and "resolve_unit H now ids u created db = Inr (r, db')"
  shows "fact_store_ok H db'"
  using assms
proof (cases rule: resolve_unit_Inr)
  case (2 sources)
  then show ?thesis
    using fact_store_ok_append [OF assms(1)] insert_resolution_Inr [OF 2(4)]
    by (simp add: fact_store_ok_update)
qed (use assms in simp)

text \<open>
  C3: Resolving preserves the consistency of the fact store: keys, foreign keys and models of the
  facts, and the gapless chain of revisions of every unit.
\<close>

theorem resolve_unit_keeps_store:
  assumes "fact_store_ok H db" and "resolve_unit H now ids u created db = Inr (r, db')"
  shows "fact_store_ok H db'"
  using assms by (rule resolve_unit_keeps_aux)

lemma terminal_sources_cong:
  assumes "rd_attempts db' = rd_attempts db" and "rd_seals db' = rd_seals db"
    and "rd_notices db' = rd_notices db"
  shows "terminal_sources H u db' = terminal_sources H u db"
  using assms
  by (simp add: terminal_sources_def list_seals_for_unit_def list_closures_for_unit_def list_attempts_def)

lemma latest_resolution_append:
  assumes "resolutions_keyed (rd_resolutions db)" and "resolution_admitted (rd_resolutions db) r"
  shows "latest_by ur_revision (\<lambda>x. ur_unit x = ur_unit r) (rd_resolutions db @ [r]) = Some r"
proof -
  have "chained ur_unit ur_revision ur_id ur_supersedes (rd_resolutions db @ [r])"
    using assms by (intro resolutions.chain_extends) (simp_all add: resolutions_keyed_def)
  from resolutions.latest_is_last [OF this, of "ur_unit r"] show ?thesis
    by (simp add: rows_matching_def)
qed

text \<open>
  C4: Resolution is idempotent: right after one, resolving the unit again, in any later transaction
  and with any identifiers, returns the same revision and writes nothing.
\<close>

theorem resolve_unit_idempotent:
  assumes "fact_store_ok H db" and "resolve_unit H now ids u created db = Inr (r, db')"
  shows "resolve_unit H now' ids' u created' db' = Inr (r, db')"
  using assms
proof (cases rule: resolve_unit_Inr)
  case (1 sources)
  then show ?thesis
    by (simp add: resolve_unit_eq [OF assms(1) 1(1)] Let_def opt_all_def)
next
  case (2 sources)
  let ?db = "db\<lparr>rd_resolutions := rd_resolutions db @ [r]\<rparr>"
  have ok: "fact_store_ok H db'" by (rule resolve_unit_keeps_aux [OF assms])
  have s: "terminal_sources H u db' = Inr sources"
    using 2(1) terminal_sources_cong [of db' db] by (simp add: 2(5) append_outbox_def)
  have "ur_unit r = eu_id u" by (simp add: 2(2))
  then have "latest_resolution db' (eu_id u) = Some r"
    using latest_resolution_append [of db r] insert_resolution_Inr [OF 2(4)] assms(1)
    by (simp add: latest_resolution_def 2(5) append_outbox_def fact_store_ok_def)
  moreover have "is_current_resolution H u sources r" by (simp add: is_current_resolution_def 2(2))
  ultimately show ?thesis
    by (simp add: resolve_unit_eq [OF ok s] Let_def opt_all_def)
qed

subsection \<open>What an accepted revision says\<close>

lemma accepted_rows:
  assumes k: "facts_keyed H db" and i: "insert_resolution H now r db = Inr db'"
  shows "closed_attempts db (ur_unit r) \<noteq> []"
    and "at_id (last (closed_attempts db (ur_unit r))) = ur_decisive_attempt r"
    and "(let a = last (closed_attempts db (ur_unit r)) in row_axes (a, seal_of db a, notice_of db a))
      = Some (ur_axes r)"
    and "ur_stability r = expected_stability (terminal_rows db (ur_unit r)) (ax_verdict (ur_axes r))
      (ur_decisive_number r)"
  using insert_resolution_Inr [OF i]
  by (auto simp: guard_unit_resolution_def Let_def terminal_rows_of_attempts [OF k] last_map)

lemma sealed_pass:
  assumes k: "facts_keyed H db" and x: "row_axes (a, seal_of db a, notice_of db a) = Some x"
    and p: "ax_verdict x = VERDICT_PASSED"
  obtains s where "s \<in> set (rd_seals db)" and "se_attempt s = at_id a" and "seal_of db a = Some s"
    and "ax_verdict (se_axes s) = VERDICT_PASSED" and "ax_completeness (se_axes s) = EVIDENCE_COMPLETE"
    and "ax_integrity (se_axes s) = VERIFIED"
proof (cases "seal_of db a")
  case None
  then obtain n where n: "notice_of db a = Some n" "x = cn_axes n" using x by auto
  then have "closure_notice_valid H n"
    using first_row_Some [of _ "rd_notices db" n] k
    by (auto simp: notice_of_def facts_keyed_def notices_keyed_def list_all_iff)
  from notice_axes [OF this] n p show ?thesis by auto
next
  case (Some s)
  then have s: "s \<in> set (rd_seals db)" "se_attempt s = at_id a"
    using first_row_Some [of _ "rd_seals db" s] by (auto simp: seal_of_def)
  then have "attempt_seal_valid H s" using k by (auto simp: facts_keyed_def seals_keyed_def list_all_iff)
  from seal_axes [OF this] x p Some show ?thesis
    by (intro that [OF s Some]) (auto simp: pass_is_backed_def split: if_splits)
qed

text \<open>
  C5: The database accepts a PASSED resolution only when the decisive attempt, the last closed one,
  has a seal that says PASSED over complete and verified evidence; a closure notice never passes.
\<close>

theorem accepted_pass_is_sealed:
  assumes "facts_keyed H db" and "insert_resolution H now r db = Inr db'"
    and "ax_verdict (ur_axes r) = VERDICT_PASSED"
  shows "\<exists>s \<in> set (rd_seals db). se_attempt s = ur_decisive_attempt r
    \<and> ax_verdict (se_axes s) = VERDICT_PASSED \<and> ax_completeness (se_axes s) = EVIDENCE_COMPLETE
    \<and> ax_integrity (se_axes s) = VERIFIED"
  using accepted_rows(2,3) [OF assms(1,2)] assms(3)
  by (auto simp: Let_def elim!: sealed_pass [OF assms(1)])

text \<open>
  C6: A resolution accepted as PASSED and STABLE hides no earlier failure: every closed attempt of
  the unit has a seal with a passed, complete and verified verdict.
\<close>

theorem accepted_stable_pass_is_unanimous:
  assumes "facts_keyed H db" and "insert_resolution H now r db = Inr db'"
    and "ax_verdict (ur_axes r) = VERDICT_PASSED" and "ur_stability r = STABLE"
    and "a \<in> set (closed_attempts db (ur_unit r))"
  shows "\<exists>s \<in> set (rd_seals db). se_attempt s = at_id a \<and> ax_verdict (se_axes s) = VERDICT_PASSED
    \<and> ax_completeness (se_axes s) = EVIDENCE_COMPLETE \<and> ax_integrity (se_axes s) = VERIFIED"
proof -
  let ?rows = "terminal_rows db (ur_unit r)"
  have row: "(a, seal_of db a, notice_of db a) \<in> set ?rows"
    using assms(5) by (simp add: terminal_rows_of_attempts [OF assms(1)])
  have last: "row_verdict (last ?rows) = Some VERDICT_PASSED"
    using accepted_rows(1,3) [OF assms(1,2)] assms(3)
    by (simp add: terminal_rows_of_attempts [OF assms(1)] last_map row_verdict_def Let_def)
  have "length (filter (\<lambda>r. row_verdict r = Some VERDICT_PASSED) ?rows) = length ?rows"
  proof (cases "length ?rows = 1")
    case True
    then obtain x where "?rows = [x]" by (auto simp: length_Suc_conv)
    with last show ?thesis by simp
  next
    case False
    have "filter (\<lambda>r. row_verdict r = Some VERDICT_FAILED) ?rows \<noteq> ?rows"
      using last row by (auto simp: filter_id_conv) (metis last_in_set list.set_intros(1) option.inject
          verdict.distinct(9) empty_iff list.set(1))
    with False accepted_rows(4) [OF assms(1,2)] assms(3,4) show ?thesis
      by (auto simp: expected_stability_def Let_def length_filter_all filter_id_conv list_all_iff split: if_splits)
  qed
  then have "row_verdict (a, seal_of db a, notice_of db a) = Some VERDICT_PASSED"
    using row by (simp add: length_filter_all list_all_iff)
  then show ?thesis
    by (auto simp: row_verdict_def elim!: sealed_pass [OF assms(1)])
qed

end
