(* ===== verification/Closure_Correct.thy ===== *)
theory Closure_Correct
  imports Resolution_Correct
begin

text \<open>
  Attempts that end without a seal: the closure notice the service builds is one the database
  accepts, the fact store stays consistent, and closing is idempotent with the resolution it ends in.
\<close>

lemma closure_notice_fields [simp]:
  "cn_id (closure_notice_of H i a src reason closed created) = i"
  "cn_scope (closure_notice_of H i a src reason closed created) = at_scope a"
  "cn_unit (closure_notice_of H i a src reason closed created) = at_unit a"
  "cn_attempt (closure_notice_of H i a src reason closed created) = at_id a"
  "cn_manifest_hash (closure_notice_of H i a src reason closed created) = at_manifest_hash a"
  "cn_unit_key (closure_notice_of H i a src reason closed created) = at_unit_key a"
  "cn_number (closure_notice_of H i a src reason closed created) = at_number a"
  "cn_source (closure_notice_of H i a src reason closed created) = src"
  "cn_axes (closure_notice_of H i a src reason closed created) = closure_axes a src reason"
  "cn_closed_at (closure_notice_of H i a src reason closed created) = closed"
  "cn_created_at (closure_notice_of H i a src reason closed created) = created"
  "cn_hash (closure_notice_of H i a src reason closed created)
     = attempt_closure_notice_hash H (closure_notice_of H i a src reason closed created)"
  by (simp_all add: closure_notice_of_def Let_def closure_content.defs closure_notice.defs
      attempt_closure_notice_hash_def)

lemma closure_axes_fields [simp]:
  "ax_closure_reason (closure_axes a src reason) = reason"
  "ax_outcome_class (closure_axes a src reason) = closure_outcome src"
  "ax_data_hygiene (closure_axes a src reason) = result_hygiene (at_hygiene a)"
  "ax_integrity (closure_axes a src reason) = UNVERIFIED"
  "ax_influence (closure_axes a src reason) = AUTONOMOUS"
  "ax_verdict (closure_axes a src reason) = (if src = SOURCE_CANCELED \<and> at_started_at a = None
     then VERDICT_NOT_EVALUATED else VERDICT_INCONCLUSIVE)"
  "ax_completeness (closure_axes a src reason) = (if src = SOURCE_CANCELED \<and> at_started_at a = None
     then EVIDENCE_NOT_APPLICABLE else EVIDENCE_MISSING)"
  by (simp_all add: closure_axes_def Let_def)

lemma result_hygiene_is_expected: "result_hygiene h = expected_hygiene h"
  by (cases h) simp_all

text \<open>An attempt the service may close without a seal.\<close>

definition closable :: "execution_unit \<Rightarrow> task_attempt \<Rightarrow> closure_source \<Rightarrow> string \<Rightarrow> instant \<Rightarrow> instant \<Rightarrow> bool" where
  "closable u a src reason closed now = (require_attempt_scope u a = Inr () \<and> at_lifecycle a = LIFE_CLOSED
     \<and> at_closed_at a = Some closed \<and> require_closure_source a src = Inr () \<and> safe_reason reason
     \<and> closed \<le> now)"

lemma closure_notice_of_valid:
  assumes k: "fact_store_ok H db" and d: "digests H" and u: "u \<in> set (rd_units db)"
    and a: "a \<in> set (rd_attempts db)" and c: "closable u a src reason closed now"
  shows "closure_notice_valid H (closure_notice_of H i a src reason closed now)"
    and "notice_check (closure_notice_of H i a src reason closed now)"
proof -
  have digest: "digest_pattern (at_manifest_hash a)" "digest_pattern (at_unit_key a)"
    using k u c by (auto simp: fact_store_ok_def units_keyed_def list_all_iff closable_def
        require_attempt_scope_def ensure_Inr)
  have number: "1 \<le> at_number a"
    using k a by (auto simp: fact_store_ok_def facts_keyed_def attempts_keyed_def list_all_iff)
  have hash: "digest_pattern (attempt_closure_notice_hash H n)" for n :: closure_notice
    using d by (simp add: attempt_closure_notice_hash_def digests_def)
  have rest: "safe_reason reason" "closed \<le> now" using c by (simp_all add: closable_def)
  show "closure_notice_valid H (closure_notice_of H i a src reason closed now)"
    using digest number hash rest
    by (cases src) (simp_all add: closure_notice_valid_def closure_content_valid_def Let_def)
  show "notice_check (closure_notice_of H i a src reason closed now)"
    using digest number hash rest by (cases src) (simp_all add: notice_check_def Let_def)
qed

lemma closure_notice_of_guarded:
  assumes k: "facts_keyed H db" and a: "a \<in> set (rd_attempts db)"
    and c: "closable u a src reason closed now" and s: "seal_of db a = None"
  shows "guard_closure_notice H now db (closure_notice_of H i a src reason closed now)"
    and "attempt_exists db (at_id a) (at_unit a) (at_scope a)"
proof -
  have "src \<in> set (closure_sources (at_quality a))"
    using c by (simp add: closable_def require_closure_source_def ensure_Inr)
  then have "notice_matches_attempt now (closure_notice_of H i a src reason closed now) a"
    using c by (cases "at_quality a")
      (auto simp: notice_matches_attempt_def closable_def result_hygiene_is_expected)
  then show "guard_closure_notice H now db (closure_notice_of H i a src reason closed now)"
    using a s by (auto simp: guard_closure_notice_def list_ex_iff seal_of_def first_row_None)
  show "attempt_exists db (at_id a) (at_unit a) (at_scope a)"
    using a by (auto simp: attempt_exists_def list_ex_iff)
qed

lemma insert_closure_accepts:
  assumes k: "fact_store_ok H db" and d: "digests H" and u: "u \<in> set (rd_units db)"
    and a: "a \<in> set (rd_attempts db)" and c: "closable u a src reason closed now"
    and s: "seal_of db a = None" and n: "n = closure_notice_of H i a src reason closed now"
  shows "insert_closure H now n db =
    (if list_ex (\<lambda>x. notice_conflicts x n) (rd_notices db) then Inl (DatabaseFailure UniqueViolation)
     else Inr (db\<lparr>rd_notices := rd_notices db @ [n]\<rparr>))"
proof -
  have "facts_keyed H db" using k by (simp add: fact_store_ok_def)
  from closure_notice_of_guarded [OF this a c s] closure_notice_of_valid(2) [OF k d u a c, of i]
  show ?thesis by (simp add: insert_closure_def sql_insert_def ensure_def n)
qed

lemma insert_closure_keeps_store:
  assumes k: "fact_store_ok H db" and v: "closure_notice_valid H n"
    and i: "insert_closure H now n db = Inr db'"
  shows "fact_store_ok H db'"
proof -
  have db': "db' = db\<lparr>rd_notices := rd_notices db @ [n]\<rparr>"
    and new: "\<forall>x \<in> set (rd_notices db). \<not> notice_conflicts x n"
    and ref: "attempt_exists db (cn_attempt n) (cn_unit n) (cn_scope n)"
    using i by (auto simp: insert_closure_def attempt_Inr db_call_Inr ensure_Inr sql_insert_Inr)
  have "cn_attempt n \<notin> cn_attempt ` set (rd_notices db)" "cn_id n \<notin> cn_id ` set (rd_notices db)"
    using new by (auto simp: notice_conflicts_def)
  with k v ref show ?thesis
    by (simp add: db' fact_store_ok_def facts_keyed_def seals_keyed_def notices_keyed_def attempt_exists_def)
qed

lemma build_and_insert_closure:
  assumes "fact_store_ok H db" and "digests H" and "u \<in> set (rd_units db)"
    and "a \<in> set (rd_attempts db)" and "closable u a src reason closed now" and "seal_of db a = None"
    and "n = closure_notice_of H i a src reason closed now"
  shows "attempt (build_closure_notice H i a src reason now) (\<lambda>n. insert_closure H now n db) =
    (if list_ex (\<lambda>x. notice_conflicts x n) (rd_notices db) then Inl (DatabaseFailure UniqueViolation)
     else Inr (db\<lparr>rd_notices := rd_notices db @ [n]\<rparr>))"
proof -
  have "build_closure_notice H i a src reason now = Inr n"
    using assms(5) closure_notice_of_valid(1) [OF assms(1-5), of i]
    by (simp add: build_closure_notice_def closable_def Let_def assms(7))
  then show ?thesis
    using insert_closure_accepts [OF assms] by simp
qed

subsection \<open>Properties\<close>

text \<open>
  C7: A closed attempt without facts can be closed without a seal: the notice built for it passes
  its model, the triggers and the constraints of the database, and exactly it is added; only a key
  the database already has can refuse it.
\<close>

theorem closure_notice_accepted:
  assumes "fact_store_ok H db" and "digests H" and "u \<in> set (rd_units db)"
    and "a \<in> set (rd_attempts db)" and "closable u a src reason closed now" and "seal_of db a = None"
    and "n = closure_notice_of H i a src reason closed now"
  shows "attempt (build_closure_notice H i a src reason now) (\<lambda>n. insert_closure H now n db) =
    (if list_ex (\<lambda>x. notice_conflicts x n) (rd_notices db) then Inl (DatabaseFailure UniqueViolation)
     else Inr (db\<lparr>rd_notices := rd_notices db @ [n]\<rparr>))"
  using assms by (rule build_and_insert_closure)

text \<open>
  Closing an attempt without a seal, with a safe reason and a closing time that is not in the
  future, fails only for inconsistent facts or a key the database already has.
\<close>

theorem close_without_seal_failures:
  assumes "fact_store_ok H db" and "digests H" and "u \<in> set (rd_units db)"
    and "a \<in> set (rd_attempts db)" and "safe_reason reason"
    and "\<forall>closed. at_closed_at a = Some closed \<longrightarrow> closed \<le> now"
    and "close_without_seal H now ids u a src reason now db = Inl f"
  shows "(\<exists>code. f = ProjectionError code) \<or> f = DatabaseFailure UniqueViolation"
proof -
  have fk: "facts_keyed H db" using assms(1) by (simp add: fact_store_ok_def)
  have seal: "get_seal_by_attempt H db (at_id a) = Inr (seal_of db a)"
    unfolding get_seal_by_attempt_def seal_of_def
    by (rule model_row_all_valid) (use fk in \<open>auto dest!: first_row_Some simp: facts_keyed_def seals_keyed_def list_all_iff\<close>)
  have notice: "get_closure_by_attempt H db (at_id a) = Inr (notice_of db a)"
    unfolding get_closure_by_attempt_def notice_of_def
    by (rule model_row_all_valid) (use fk in \<open>auto dest!: first_row_Some simp: facts_keyed_def notices_keyed_def list_all_iff\<close>)
  have fresh: ?thesis if "attempt (build_closure_notice H (ids 0) a src reason now) (\<lambda>n.
        attempt (insert_closure H now n db) (resolve_unit H now (\<lambda>k. ids (k + 1)) u now)) = Inl f"
      and c: "closable u a src reason closed now" and s: "seal_of db a = None" for closed
  proof -
    let ?n = "closure_notice_of H (ids 0) a src reason closed now"
    have "attempt (attempt (build_closure_notice H (ids 0) a src reason now) (\<lambda>n. insert_closure H now n db))
        (resolve_unit H now (\<lambda>k. ids (k + 1)) u now) = Inl f"
      using that(1) by (simp add: attempt_assoc)
    then consider "f = DatabaseFailure UniqueViolation"
      | db' where "insert_closure H now ?n db = Inr db'" "resolve_unit H now (\<lambda>k. ids (k + 1)) u now db' = Inl f"
      using build_and_insert_closure [OF assms(1-4) c s refl, of "ids 0"]
        insert_closure_accepts [OF assms(1-4) c s refl, of "ids 0"]
      by (auto split: if_splits)
    then show ?thesis
    proof cases
      case 2
      have "rd_units db' = rd_units db"
        using 2(1) by (auto simp: insert_closure_def attempt_Inr)
      with resolve_unit_failures_aux [OF insert_closure_keeps_store [OF assms(1)
            closure_notice_of_valid(1) [OF assms(1-4) c] 2(1)] assms(2) _ 2(2)] assms(3)
      show ?thesis by simp
    qed simp
  qed
  have existing: ?thesis
    if "attempt (require_exact_closure n a src reason) (\<lambda>_. resolve_unit H now ids u now db) = Inl f" for n
    using that resolve_unit_failures_aux [OF assms(1-3)]
    by (auto simp: attempt_Inl require_exact_closure_def require_closure_source_def ensure_Inl split: if_splits)
  show ?thesis
  proof (cases "require_attempt_scope u a = Inr () \<and> at_lifecycle a = LIFE_CLOSED
      \<and> at_closed_at a \<noteq> None \<and> require_closure_source a src = Inr () \<and> seal_of db a = None")
    case True
    then obtain closed where "closable u a src reason closed now"
      using assms(5,6) by (auto simp: closable_def)
    with True assms(7) fresh existing show ?thesis
      by (simp add: close_without_seal_def seal notice ensure_def split: option.splits)
  next
    case False
    with assms(7) show ?thesis
      by (auto simp: close_without_seal_def seal require_attempt_scope_def require_closure_source_def
          ensure_def split: if_splits)
  qed
qed

end
