(* ===== verification/Hygiene_Projection.thy ===== *)
theory Hygiene_Projection
  imports Closure_Correct Result_Hygiene
begin

text \<open>
  The hygiene resolution of a unit over the cleanups of its closed attempts: the service of
  \<^verbatim>\<open>application/result_hygiene.py\<close> and the insertion with the constraints and the trigger
  \<open>guard_unit_hygiene_resolution_insert\<close> of migration 0035.  \<open>ResultHygieneProjectionError\<close> is a
  \<open>ProjectionError\<close> of the model; its codes start with \<open>RESULT_HYGIENE\<close> or \<open>RESULT_FIXTURE\<close>.
\<close>

subsection \<open>Reads\<close>

definition list_fixture_bindings_for_unit ::
    "hashing \<Rightarrow> result_db \<Rightarrow> uuid \<Rightarrow> failure + fixture_binding list" where
  "list_fixture_bindings_for_unit H db u = model_rows (fixture_binding_valid H)
     (map fst (sort_key (\<lambda>(b, a). at_number a)
       (concat (map (\<lambda>b. map (\<lambda>a. (b, a))
           (rows_matching (\<lambda>a. at_id a = fb_attempt b \<and> at_unit a = fb_unit b) (rd_attempts db)))
         (rows_matching (\<lambda>b. fb_unit b = u) (rd_bindings db))))))"

definition get_fixture_run :: "result_db \<Rightarrow> uuid \<Rightarrow> fixture_run option" where
  "get_fixture_run db i = first_row (\<lambda>f. fr_id f = i) (rd_fixtures db)"

definition get_latest_hygiene_resolution ::
    "hashing \<Rightarrow> result_db \<Rightarrow> uuid \<Rightarrow> failure + hygiene_resolution option" where
  "get_latest_hygiene_resolution H db u =
     model_row (hygiene_resolution_valid H) (latest_by hr_revision (\<lambda>r. hr_unit r = u) (rd_hygiene db))"

subsection \<open>The service\<close>

definition require_hygiene_scope :: "execution_unit \<Rightarrow> task_attempt \<Rightarrow> failure + unit" where
  "require_hygiene_scope u a =
     ensure (at_scope a = eu_scope u \<and> at_unit a = eu_id u \<and> at_manifest_hash a = eu_manifest_hash u
         \<and> at_unit_key a = eu_unit_key u)
       (ProjectionError ''RESULT_HYGIENE_ATTEMPT_SCOPE_INVALID'')"

definition fixture_execution_id :: "uuid \<Rightarrow> string" where
  "fixture_execution_id attempt_id = ''unit-attempt:'' @ uuid_text attempt_id"

definition require_binding_scope ::
    "execution_unit \<Rightarrow> task_attempt \<Rightarrow> fixture_run \<Rightarrow> failure + unit" where
  "require_binding_scope u a f =
     ensure (at_scope a = eu_scope u \<and> at_unit a = eu_id u
         \<and> fr_tenant f = sc_tenant (eu_scope u) \<and> fr_project f = sc_project (eu_scope u)
         \<and> fr_environment f = ub_environment_id (eu_binding u)
         \<and> fr_blueprint f = ub_fixture_blueprint_version_id (eu_binding u)
         \<and> fr_execution_id f = fixture_execution_id (at_id a))
       (ProjectionError ''RESULT_FIXTURE_BINDING_SCOPE_INVALID'')"

definition require_exact_binding ::
    "fixture_binding \<Rightarrow> execution_unit \<Rightarrow> task_attempt \<Rightarrow> fixture_run \<Rightarrow> failure + unit" where
  "require_exact_binding b u a f =
     ensure (fb_scope b = at_scope a \<and> fb_unit b = eu_id u \<and> fb_attempt b = at_id a
         \<and> fb_fixture_run b = fr_id f \<and> fb_blueprint b = fr_blueprint f
         \<and> fb_environment b = fr_environment f \<and> fb_plan_digest b = fr_plan_digest f)
       (ProjectionError ''RESULT_FIXTURE_BINDING_REPLAY_CONFLICT'')"

definition not_required_input :: "hashing \<Rightarrow> task_attempt \<Rightarrow> hygiene_input" where
  "not_required_input H a =
     \<lparr>hi_attempt = at_id a, hi_number = at_number a, hi_source = EXPLICIT_NOT_REQUIRED,
      hi_data_hygiene = HYGIENE_NOT_APPLICABLE, hi_binding_id = None, hi_fixture_run_id = None,
      hi_fixture_revision = None, hi_fixture_status = None, hi_cleanup_generation = None,
      hi_plan_digest = None, hi_manifest_digest = None,
      hi_state_hash = H (JsonBody (no_cleanup_json isoformat a)),
      hi_resources = 0, hi_cleaned = 0, hi_leaked = 0, hi_unresolved = 0,
      hi_exhausted_reconciles = 0, hi_unresolved_reconciles = 0,
      hi_observed_at = (case at_cleanup_resolved_at a of Some t \<Rightarrow> t | None \<Rightarrow> at_updated_at a)\<rparr>"

definition fixture_data_hygiene :: "cleanup_state \<Rightarrow> nat \<Rightarrow> nat \<Rightarrow> failure + data_hygiene" where
  "fixture_data_hygiene state leaked exhausted = (case state of
     STATE_NOT_REQUIRED \<Rightarrow> Inr HYGIENE_NOT_APPLICABLE
   | STATE_CLEANED \<Rightarrow> Inr HYGIENE_CLEANED
   | STATE_LEAKED \<Rightarrow> (if leaked = 0 \<and> exhausted = 0
       then projection_error ''RESULT_HYGIENE_LEAK_FACT_MISSING'' else Inr HYGIENE_LEAKED)
   | _ \<Rightarrow> Inr HYGIENE_PENDING)"

definition created_resources :: "fixture_run \<Rightarrow> fixture_resource list" where
  "created_resources f = filter (\<lambda>r. fo_ownership r = CREATED) (fr_resources f)"

definition count_status :: "resource_status \<Rightarrow> fixture_run \<Rightarrow> nat" where
  "count_status s f = length (filter (\<lambda>r. fo_status r = s) (created_resources f))"

definition exhausted_reconciles :: "fixture_run \<Rightarrow> nat" where
  "exhausted_reconciles f =
     length (filter (\<lambda>n. fn_reconcile_state n = RECONCILE_EXHAUSTED) (uncertain_nodes f))"

definition unresolved_reconciles :: "fixture_run \<Rightarrow> nat" where
  "unresolved_reconciles f = length (filter (\<lambda>n. fn_reconcile_state n \<in>
     {RECONCILE_PENDING, RECONCILE_RUNNING, RECONCILE_INCONCLUSIVE}) (uncertain_nodes f))"

definition fixture_hygiene_input ::
    "hashing \<Rightarrow> task_attempt \<Rightarrow> fixture_binding \<Rightarrow> fixture_run \<Rightarrow> data_hygiene \<Rightarrow> hygiene_input" where
  "fixture_hygiene_input H a b f h =
     (let resources = length (created_resources f); cleaned = count_status RESOURCE_CLEANED f;
          leaked = count_status RESOURCE_LEAKED f in
     \<lparr>hi_attempt = at_id a, hi_number = at_number a, hi_source = FIXTURE_RUN, hi_data_hygiene = h,
      hi_binding_id = Some (fb_id b), hi_fixture_run_id = Some (fr_id f),
      hi_fixture_revision = Some (fr_revision f),
      hi_fixture_status = Some (fixture_status_text (fr_status f)),
      hi_cleanup_generation = Some (fr_cleanup_generation f), hi_plan_digest = Some (fr_plan_digest f),
      hi_manifest_digest = fr_manifest_digest f,
      hi_state_hash = H (JsonBody (service_observation f)),
      hi_resources = resources, hi_cleaned = cleaned, hi_leaked = leaked,
      hi_unresolved = resources - cleaned - leaked,
      hi_exhausted_reconciles = exhausted_reconciles f,
      hi_unresolved_reconciles = unresolved_reconciles f, hi_observed_at = fr_updated_at f\<rparr>)"

definition fixture_input ::
    "hashing \<Rightarrow> result_db \<Rightarrow> execution_unit \<Rightarrow> task_attempt \<Rightarrow> fixture_binding \<Rightarrow> failure + hygiene_input" where
  "fixture_input H db u a b = (case get_fixture_run db (fb_fixture_run b) of
     None \<Rightarrow> projection_error ''RESULT_HYGIENE_FIXTURE_MISSING''
   | Some f \<Rightarrow>
       attempt (require_binding_scope u a f) (\<lambda>_.
       attempt (require_exact_binding b u a f) (\<lambda>_.
       attempt (fixture_data_hygiene (fr_cleanup_state f) (count_status RESOURCE_LEAKED f)
         (exhausted_reconciles f)) (\<lambda>h.
       let i = fixture_hygiene_input H a b f h in
       attempt (ensure (hygiene_input_valid i) ModelInvalid) (\<lambda>_. Inr i)))))"

definition bindings_by_attempt :: "fixture_binding list \<Rightarrow> uuid \<Rightarrow> fixture_binding option" where
  "bindings_by_attempt bs = map_of (rev (map (\<lambda>b. (fb_attempt b, b)) bs))"

text \<open>\<open>None\<close> is the early return for an attempt whose cleanup is not known yet.\<close>

fun gather_inputs ::
    "hashing \<Rightarrow> result_db \<Rightarrow> execution_unit \<Rightarrow> (uuid \<Rightarrow> fixture_binding option) \<Rightarrow> task_attempt list
      \<Rightarrow> failure + hygiene_input list option" where
  "gather_inputs H db u bindings [] = Inr (Some [])"
| "gather_inputs H db u bindings (a # attempts) =
     attempt (require_hygiene_scope u a) (\<lambda>_.
     if bindings (at_id a) = None \<and> at_hygiene a \<noteq> CLEANUP_NOT_REQUIRED then Inr None
     else attempt (case bindings (at_id a) of
         None \<Rightarrow> (let i = not_required_input H a in
           attempt (ensure (hygiene_input_valid i) ModelInvalid) (\<lambda>_. Inr i))
       | Some b \<Rightarrow> fixture_input H db u a b) (\<lambda>i.
       attempt (gather_inputs H db u bindings attempts) (\<lambda>rest. Inr (map_option (\<lambda>is. i # is) rest))))"

definition input_watermark :: "hygiene_input list \<Rightarrow> instant" where
  "input_watermark inputs = foldr max (map hi_observed_at inputs) (hi_observed_at (hd inputs))"

definition hygiene_resolution_of ::
    "hashing \<Rightarrow> (nat \<Rightarrow> uuid) \<Rightarrow> execution_unit \<Rightarrow> instant \<Rightarrow> hygiene_input list
      \<Rightarrow> hygiene_resolution option \<Rightarrow> hygiene_resolution" where
  "hygiene_resolution_of H ids u created inputs latest =
     (let content = \<lparr>hr_id = ids 0,
        hr_resolution_id = (case latest of Some l \<Rightarrow> hr_resolution_id l | None \<Rightarrow> ids 1),
        hr_scope = eu_scope u, hr_unit = eu_id u, hr_manifest_hash = eu_manifest_hash u,
        hr_unit_key = eu_unit_key u,
        hr_revision = (case latest of Some l \<Rightarrow> hr_revision l + 1 | None \<Rightarrow> 1),
        hr_inputs = inputs,
        hr_input_set_hash = unit_hygiene_input_set_hash H (eu_id u) (eu_manifest_hash u) inputs,
        hr_data_hygiene = resolve_unit_data_hygiene inputs, hr_policy_digest = HYGIENE_POLICY_DIGEST,
        hr_supersedes = map_option hr_id latest, hr_watermark = input_watermark inputs,
        hr_created_at = created\<rparr> in
      hygiene_content.extend content
        (hygiene_resolution.fields (unit_hygiene_resolution_hash H content)))"

fun hygiene_text :: "data_hygiene \<Rightarrow> string" where
  "hygiene_text HYGIENE_PENDING = ''PENDING''"
| "hygiene_text HYGIENE_CLEANED = ''CLEANED''"
| "hygiene_text HYGIENE_CLEANUP_FAILED = ''CLEANUP_FAILED''"
| "hygiene_text HYGIENE_LEAKED = ''LEAKED''"
| "hygiene_text HYGIENE_NOT_APPLICABLE = ''NOT_APPLICABLE''"

definition hygiene_resolved_event :: "hygiene_resolution \<Rightarrow> domain_event" where
  "hygiene_resolved_event r = \<lparr>ev_type = ''unit.hygiene_resolved'', ev_aggregate = hr_unit r,
     ev_payload = [(''unitHygieneResolutionRevisionId'', uuid_json (hr_id r)),
       (''revision'', JInt (hr_revision r)), (''inputSetHash'', JString (hr_input_set_hash r)),
       (''dataHygiene'', JString (hygiene_text (hr_data_hygiene r))),
       (''resolutionHash'', JString (hr_hash r)),
       (''projectionWatermark'', JString (isoformat (hr_watermark r)))],
     ev_occurred_at = hr_created_at r\<rparr>"

subsection \<open>The table\<close>

fun expected_fixture_hygiene :: "cleanup_state \<Rightarrow> data_hygiene" where
  "expected_fixture_hygiene STATE_NOT_REQUIRED = HYGIENE_NOT_APPLICABLE"
| "expected_fixture_hygiene STATE_CLEANED = HYGIENE_CLEANED"
| "expected_fixture_hygiene STATE_LEAKED = HYGIENE_LEAKED"
| "expected_fixture_hygiene _ = HYGIENE_PENDING"

definition guard_no_cleanup_input ::
    "hashing \<Rightarrow> result_db \<Rightarrow> task_attempt \<Rightarrow> hygiene_input \<Rightarrow> bool" where
  "guard_no_cleanup_input H db a i = (at_hygiene a = CLEANUP_NOT_REQUIRED
     \<and> \<not> list_ex (\<lambda>b. fb_attempt b = at_id a) (rd_bindings db)
     \<and> hi_data_hygiene i = HYGIENE_NOT_APPLICABLE \<and> hi_binding_id i = None \<and> hi_fixture_run_id i = None
     \<and> hi_fixture_revision i = None \<and> hi_fixture_status i = None \<and> hi_cleanup_generation i = None
     \<and> hi_plan_digest i = None \<and> hi_manifest_digest i = None
     \<and> hi_resources i = 0 \<and> hi_cleaned i = 0 \<and> hi_leaked i = 0 \<and> hi_unresolved i = 0
     \<and> hi_exhausted_reconciles i = 0 \<and> hi_unresolved_reconciles i = 0
     \<and> hi_observed_at i = (case at_cleanup_resolved_at a of Some t \<Rightarrow> t | None \<Rightarrow> at_updated_at a)
     \<and> hi_state_hash i = H (JsonBody (no_cleanup_json postgres_time a)))"

definition guard_fixture_input ::
    "hashing \<Rightarrow> hygiene_resolution \<Rightarrow> fixture_binding \<Rightarrow> fixture_run \<Rightarrow> hygiene_input \<Rightarrow> bool" where
  "guard_fixture_input H r b f i =
     (fr_tenant f = sc_tenant (hr_scope r) \<and> fr_project f = sc_project (hr_scope r)
     \<and> fb_plan_digest b = fr_plan_digest f \<and> hi_fixture_run_id i = Some (fr_id f)
     \<and> hi_fixture_revision i = Some (fr_revision f)
     \<and> hi_fixture_status i = Some (fixture_status_text (fr_status f))
     \<and> hi_cleanup_generation i = Some (fr_cleanup_generation f)
     \<and> hi_plan_digest i = Some (fr_plan_digest f) \<and> hi_manifest_digest i = fr_manifest_digest f
     \<and> hi_state_hash i = H (JsonBody (database_observation f))
     \<and> hi_resources i = length (filter (\<lambda>x. fo_ownership x = CREATED) (fr_resources f))
     \<and> hi_cleaned i = length (filter (\<lambda>x. fo_ownership x = CREATED \<and> fo_status x = RESOURCE_CLEANED)
         (fr_resources f))
     \<and> hi_leaked i = length (filter (\<lambda>x. fo_ownership x = CREATED \<and> fo_status x = RESOURCE_LEAKED)
         (fr_resources f))
     \<and> hi_unresolved i = length (filter (\<lambda>x. fo_ownership x = CREATED
         \<and> fo_status x \<notin> {RESOURCE_CLEANED, RESOURCE_LEAKED}) (fr_resources f))
     \<and> hi_exhausted_reconciles i = length (filter (\<lambda>n. fn_status n = NODE_OUTCOME_UNCERTAIN
         \<and> fn_reconcile_state n = RECONCILE_EXHAUSTED) (fr_nodes f))
     \<and> hi_unresolved_reconciles i = length (filter (\<lambda>n. fn_status n = NODE_OUTCOME_UNCERTAIN
         \<and> fn_reconcile_state n \<in> {RECONCILE_PENDING, RECONCILE_RUNNING, RECONCILE_INCONCLUSIVE})
         (fr_nodes f))
     \<and> hi_observed_at i = fr_updated_at f
     \<and> hi_data_hygiene i = expected_fixture_hygiene (fr_cleanup_state f))"

definition guard_hygiene_input ::
    "hashing \<Rightarrow> result_db \<Rightarrow> hygiene_resolution \<Rightarrow> nat \<times> hygiene_input \<Rightarrow> bool" where
  "guard_hygiene_input H db r = (\<lambda>(index, i).
     case first_row (\<lambda>a. at_id a = hi_attempt i \<and> at_unit a = hr_unit r \<and> at_scope a = hr_scope r
         \<and> at_lifecycle a = LIFE_CLOSED) (rd_attempts db) of
       None \<Rightarrow> False
     | Some a \<Rightarrow> at_number a = int index \<and> hi_number i = int index \<and>
         (if hi_source i = EXPLICIT_NOT_REQUIRED then guard_no_cleanup_input H db a i
          else case first_row (\<lambda>b. Some (fb_id b) = hi_binding_id i \<and> fb_attempt b = at_id a
              \<and> fb_unit b = hr_unit r) (rd_bindings db) of
            None \<Rightarrow> False
          | Some b \<Rightarrow> (case first_row (\<lambda>f. fr_id f = fb_fixture_run b) (rd_fixtures db) of
              None \<Rightarrow> False | Some f \<Rightarrow> guard_fixture_input H r b f i)))"

text \<open>The flags the loop of the trigger sets, read as a set of states.\<close>

definition expected_unit_hygiene :: "data_hygiene list \<Rightarrow> data_hygiene option" where
  "expected_unit_hygiene states =
     (if HYGIENE_LEAKED \<in> set states then Some HYGIENE_LEAKED
      else if HYGIENE_PENDING \<in> set states then Some HYGIENE_PENDING
      else if HYGIENE_CLEANED \<in> set states then Some HYGIENE_CLEANED
      else if HYGIENE_NOT_APPLICABLE \<in> set states then Some HYGIENE_NOT_APPLICABLE else None)"

definition hygiene_chain_ok :: "hygiene_resolution option \<Rightarrow> hygiene_resolution \<Rightarrow> bool" where
  "hygiene_chain_ok previous r = (case previous of
     Some p \<Rightarrow> hr_revision r = hr_revision p + 1 \<and> hr_resolution_id r = hr_resolution_id p
       \<and> opt_all (\<lambda>i. i = hr_id p) (hr_supersedes r)
   | None \<Rightarrow> hr_revision r = 1 \<and> hr_supersedes r = None)"

definition guard_hygiene_resolution :: "hashing \<Rightarrow> result_db \<Rightarrow> hygiene_resolution \<Rightarrow> bool" where
  "guard_hygiene_resolution H db r =
     (list_ex (\<lambda>u. eu_id u = hr_unit r \<and> eu_scope u = hr_scope r
          \<and> eu_manifest_hash u = hr_manifest_hash r \<and> eu_unit_key u = hr_unit_key r) (rd_units db)
     \<and> length (rows_matching (\<lambda>a. at_unit a = hr_unit r \<and> at_lifecycle a = LIFE_CLOSED) (rd_attempts db))
         = length (hr_inputs r) \<and> hr_inputs r \<noteq> []
     \<and> hygiene_chain_ok (latest_by hr_revision (\<lambda>x. hr_unit x = hr_unit r) (rd_hygiene db)) r
     \<and> list_all (guard_hygiene_input H db r) (enumerate 1 (hr_inputs r))
     \<and> opt_all (\<lambda>h. hr_data_hygiene r = h) (expected_unit_hygiene (map hi_data_hygiene (hr_inputs r)))
     \<and> hr_watermark r = Max (set (map hi_observed_at (hr_inputs r)))
     \<and> hr_input_set_hash r = H (HygieneInputSet (hr_unit r) (hr_manifest_hash r) (hr_inputs r))
     \<and> unit_hygiene_resolution_hash H r = hr_hash r)"

definition hygiene_check :: "hygiene_resolution \<Rightarrow> bool" where
  "hygiene_check r = (1 \<le> hr_revision r
     \<and> ((hr_revision r = 1 \<and> hr_supersedes r = None) \<or> (1 < hr_revision r \<and> hr_supersedes r \<noteq> None))
     \<and> 1 \<le> length (hr_inputs r) \<and> length (hr_inputs r) \<le> 100
     \<and> hr_policy_digest r = HYGIENE_POLICY_DIGEST
     \<and> list_all digest_pattern [hr_manifest_hash r, hr_unit_key r, hr_input_set_hash r,
         hr_policy_digest r, hr_hash r]
     \<and> hr_watermark r \<le> hr_created_at r)"

definition hygiene_conflicts :: "hygiene_resolution \<Rightarrow> hygiene_resolution \<Rightarrow> bool" where
  "hygiene_conflicts x y = (hr_id x = hr_id y
     \<or> (hr_unit x = hr_unit y \<and> (hr_revision x = hr_revision y
        \<or> (hr_input_set_hash x = hr_input_set_hash y \<and> hr_policy_digest x = hr_policy_digest y)))
     \<or> (sc_tenant (hr_scope x) = sc_tenant (hr_scope y) \<and> hr_hash x = hr_hash y))"

definition hygiene_references :: "result_db \<Rightarrow> hygiene_resolution \<Rightarrow> bool" where
  "hygiene_references db r = (unit_exists db (hr_unit r) (hr_scope r)
     \<and> opt_all (\<lambda>i. list_ex (\<lambda>x. hr_id x = i) (rd_hygiene db)) (hr_supersedes r))"

definition insert_hygiene_resolution ::
    "hashing \<Rightarrow> hygiene_resolution \<Rightarrow> result_db \<Rightarrow> failure + result_db" where
  "insert_hygiene_resolution H r db =
     attempt (db_call (ensure (guard_hygiene_resolution H db r) TriggerViolation)) (\<lambda>_.
     attempt (db_call (sql_insert hygiene_check hygiene_conflicts r (rd_hygiene db))) (\<lambda>table.
     attempt (db_call (ensure (hygiene_references db r) ForeignKeyViolation)) (\<lambda>_.
       Inr (db\<lparr>rd_hygiene := table\<rparr>))))"

definition hygiene_admitted :: "hygiene_resolution list \<Rightarrow> hygiene_resolution \<Rightarrow> bool" where
  "hygiene_admitted rows r =
     (hygiene_chain_ok (latest_by hr_revision (\<lambda>x. hr_unit x = hr_unit r) rows) r \<and> hygiene_check r)"

interpretation hygienes: revision_chain hr_unit hr_revision hr_id hr_supersedes hygiene_admitted
  by unfold_locales
    (auto simp: hygiene_admitted_def hygiene_chain_ok_def hygiene_check_def opt_all_def
      split: option.splits)

subsection \<open>Projecting a unit\<close>

definition project_unit ::
    "hashing \<Rightarrow> (nat \<Rightarrow> uuid) \<Rightarrow> execution_unit \<Rightarrow> instant \<Rightarrow> result_db
      \<Rightarrow> failure + hygiene_resolution option \<times> result_db" where
  "project_unit H ids u created db =
     (let attempts = closed_attempts db (eu_id u) in
      if attempts = [] then Inr (None, db) else
      attempt (ensure (map at_number attempts = map int [1..<Suc (length attempts)])
        (ProjectionError ''RESULT_HYGIENE_ATTEMPT_SEQUENCE_INVALID'')) (\<lambda>_.
      attempt (list_fixture_bindings_for_unit H db (eu_id u)) (\<lambda>bindings.
      attempt (gather_inputs H db u (bindings_by_attempt bindings) attempts) (\<lambda>gathered.
      case gathered of None \<Rightarrow> Inr (None, db) | Some inputs \<Rightarrow>
      attempt (get_latest_hygiene_resolution H db (eu_id u)) (\<lambda>latest.
      if opt_all (\<lambda>l. \<not> (hr_input_set_hash l
              = unit_hygiene_input_set_hash H (eu_id u) (eu_manifest_hash u) inputs
            \<and> hr_policy_digest l = HYGIENE_POLICY_DIGEST)) latest
      then
        attempt (ensure (input_watermark inputs \<le> created)
          (ProjectionError ''RESULT_HYGIENE_WATERMARK_INVALID'')) (\<lambda>_.
        let r = hygiene_resolution_of H ids u created inputs latest in
        attempt (ensure (hygiene_resolution_valid H r) ModelInvalid) (\<lambda>_.
        attempt (insert_hygiene_resolution H r db) (\<lambda>db'.
          Inr (Some r, append_outbox (hygiene_resolved_event r) db'))))
      else Inr (latest, db))))))"

end
