(* ===== verification/Hygiene_Correct.thy ===== *)
theory Hygiene_Correct
  imports Hygiene_Projection
begin

text \<open>
  What the hygiene projection guarantees.  The service and the trigger agree on every quantity of a
  revision except the digest of a cleanup observation, over which they render instants
  differently: the trigger accepts a revision exactly when the texts coincide, which they never do
  for a fixture that has a resource.
\<close>

subsection \<open>Inputs\<close>

lemma length_filter_split:
  "length (filter p xs) - length (filter (\<lambda>x. p x \<and> q x) xs) - length (filter (\<lambda>x. p x \<and> r x) xs)
     = length (filter (\<lambda>x. p x \<and> \<not> q x \<and> \<not> r x) xs)"
  if "\<And>x. \<not> (q x \<and> r x)"
proof -
  have "length (filter p xs) = length (filter (\<lambda>x. p x \<and> q x) xs) + length (filter (\<lambda>x. p x \<and> r x) xs)
      + length (filter (\<lambda>x. p x \<and> \<not> q x \<and> \<not> r x) xs)"
    using that by (induction xs) auto
  then show ?thesis by simp
qed

lemma fixture_input_fields [simp]:
  "hi_attempt (fixture_hygiene_input H a b f h) = at_id a"
  "hi_number (fixture_hygiene_input H a b f h) = at_number a"
  "hi_source (fixture_hygiene_input H a b f h) = FIXTURE_RUN"
  "hi_data_hygiene (fixture_hygiene_input H a b f h) = h"
  "hi_binding_id (fixture_hygiene_input H a b f h) = Some (fb_id b)"
  "hi_fixture_run_id (fixture_hygiene_input H a b f h) = Some (fr_id f)"
  "hi_state_hash (fixture_hygiene_input H a b f h) = H (JsonBody (service_observation f))"
  "hi_resources (fixture_hygiene_input H a b f h) = length (created_resources f)"
  "hi_observed_at (fixture_hygiene_input H a b f h) = fr_updated_at f"
  by (simp_all add: fixture_hygiene_input_def Let_def)

lemma no_cleanup_fields [simp]:
  "hi_attempt (not_required_input H a) = at_id a"
  "hi_number (not_required_input H a) = at_number a"
  "hi_source (not_required_input H a) = EXPLICIT_NOT_REQUIRED"
  "hi_data_hygiene (not_required_input H a) = HYGIENE_NOT_APPLICABLE"
  "hi_state_hash (not_required_input H a) = H (JsonBody (no_cleanup_json isoformat a))"
  by (simp_all add: not_required_input_def)

text \<open>How an input the service gathered for an attempt came about.\<close>

inductive input_for :: "hashing \<Rightarrow> result_db \<Rightarrow> execution_unit \<Rightarrow> task_attempt
    \<Rightarrow> fixture_binding option \<Rightarrow> hygiene_input \<Rightarrow> bool"
  for H db u a where
    no_cleanup: "at_hygiene a = CLEANUP_NOT_REQUIRED \<Longrightarrow> input_for H db u a None (not_required_input H a)"
  | from_fixture: "get_fixture_run db (fb_fixture_run b) = Some f \<Longrightarrow> require_binding_scope u a f = Inr ()
      \<Longrightarrow> require_exact_binding b u a f = Inr ()
      \<Longrightarrow> fixture_data_hygiene (fr_cleanup_state f) (count_status RESOURCE_LEAKED f) (exhausted_reconciles f) = Inr h
      \<Longrightarrow> input_for H db u a (Some b) (fixture_hygiene_input H a b f h)"

inductive_cases input_for_None: "input_for H db u a None i"
inductive_cases input_for_Some: "input_for H db u a (Some b) i"

lemma gather_inputs_Inr:
  assumes "gather_inputs H db u bindings attempts = Inr (Some inputs)"
  shows "list_all2 (\<lambda>i a. input_for H db u a (bindings (at_id a)) i \<and> hygiene_input_valid i
    \<and> require_hygiene_scope u a = Inr ()) inputs attempts"
  using assms
proof (induction attempts arbitrary: inputs)
  case (Cons a attempts)
  show ?case
  proof (cases "bindings (at_id a)")
    case None
    with Cons show ?thesis
      by (auto simp: attempt_Inr ensure_Inr Let_def intro: input_for.no_cleanup split: if_splits)
  next
    case (Some b)
    with Cons.prems obtain i rest where i: "fixture_input H db u a b = Inr i" and inputs: "inputs = i # rest"
      and rest: "gather_inputs H db u bindings attempts = Inr (Some rest)"
      and scope: "require_hygiene_scope u a = Inr ()"
      by (auto simp: attempt_Inr)
    from i have "input_for H db u a (Some b) i \<and> hygiene_input_valid i"
      by (auto simp: fixture_input_def projection_error_def attempt_Inr ensure_Inr Let_def
          intro: input_for.from_fixture split: option.splits if_splits)
    with Some inputs scope Cons.IH [OF rest] show ?thesis by simp
  qed
qed simp

lemma fixture_data_hygiene_Inr:
  "fixture_data_hygiene s l e = Inr h \<Longrightarrow> h = expected_fixture_hygiene s"
  by (cases s) (auto simp: fixture_data_hygiene_def projection_error_def split: if_splits)

lemma input_never_cleanup_failed:
  "input_for H db u a b i \<Longrightarrow> hi_data_hygiene i \<noteq> HYGIENE_CLEANUP_FAILED"
proof (induction rule: input_for.induct)
  case (from_fixture b f h)
  then show ?case by (cases "fr_cleanup_state f") (auto dest: fixture_data_hygiene_Inr)
qed simp

subsection \<open>The aggregates\<close>

lemma expected_unit_hygiene_eq:
  assumes "inputs \<noteq> []" and "\<And>i. i \<in> set inputs \<Longrightarrow> hi_data_hygiene i \<noteq> HYGIENE_CLEANUP_FAILED"
  shows "expected_unit_hygiene (map hi_data_hygiene inputs) = Some (resolve_unit_data_hygiene inputs)"
proof -
  have no: "HYGIENE_CLEANUP_FAILED \<notin> hi_data_hygiene ` set inputs" using assms(2) by (metis imageE)
  obtain i where i: "i \<in> set inputs" using assms(1) by (cases inputs) auto
  show ?thesis
  proof (cases "HYGIENE_CLEANED \<in> hi_data_hygiene ` set inputs")
    case True
    then show ?thesis using no
      by (auto simp: expected_unit_hygiene_def resolve_unit_data_hygiene_def hygiene_of_states_def)
  next
    case False
    have "hi_data_hygiene x = HYGIENE_NOT_APPLICABLE"
      if "x \<in> set inputs" "HYGIENE_LEAKED \<notin> hi_data_hygiene ` set inputs"
        "HYGIENE_PENDING \<notin> hi_data_hygiene ` set inputs" for x
      using that False no by (cases "hi_data_hygiene x") (auto simp: image_iff)
    then have "hi_data_hygiene ` set inputs = {HYGIENE_NOT_APPLICABLE}"
      if "HYGIENE_LEAKED \<notin> hi_data_hygiene ` set inputs" "HYGIENE_PENDING \<notin> hi_data_hygiene ` set inputs"
      using that i by auto
    with False no show ?thesis
      by (auto simp: expected_unit_hygiene_def resolve_unit_data_hygiene_def hygiene_of_states_def)
  qed
qed

lemma foldr_max_Max: "foldr max xs x = Max (set (x # xs))" for x :: instant
proof (induction xs)
  case (Cons y xs)
  have "Max (insert y (set (x # xs))) = max y (Max (set (x # xs)))" by (rule Max_insert) simp_all
  moreover have "set (x # y # xs) = insert y (set (x # xs))" by auto
  ultimately show ?case using Cons by (simp only: foldr_Cons comp_apply)
qed simp

lemma input_watermark_Max:
  "inputs \<noteq> [] \<Longrightarrow> input_watermark inputs = Max (set (map hi_observed_at inputs))"
  by (cases inputs) (simp_all add: input_watermark_def foldr_max_Max insert_absorb del: Max_insert)

subsection \<open>The store\<close>

definition bindings_keyed :: "hashing \<Rightarrow> result_db \<Rightarrow> bool" where
  "bindings_keyed H db = (distinct (map fb_attempt (rd_bindings db)) \<and> distinct (map fb_id (rd_bindings db))
     \<and> list_all (\<lambda>b. fixture_binding_valid H b \<and> attempt_exists db (fb_attempt b) (fb_unit b) (fb_scope b))
         (rd_bindings db) \<and> distinct (map fr_id (rd_fixtures db)))"

definition hygienes_keyed :: "hashing \<Rightarrow> hygiene_resolution list \<Rightarrow> bool" where
  "hygienes_keyed H rs = (list_all (hygiene_resolution_valid H) rs
     \<and> chained hr_unit hr_revision hr_id hr_supersedes rs)"

definition hygiene_store_ok :: "hashing \<Rightarrow> result_db \<Rightarrow> bool" where
  "hygiene_store_ok H db = (attempts_keyed (rd_attempts db) \<and> units_keyed (rd_units db)
     \<and> bindings_keyed H db \<and> hygienes_keyed H (rd_hygiene db))"

definition binding_of :: "result_db \<Rightarrow> task_attempt \<Rightarrow> fixture_binding option" where
  "binding_of db a = first_row (\<lambda>b. fb_attempt b = at_id a) (rd_bindings db)"

lemma bindings_lookup:
  assumes k: "hygiene_store_ok H db" and l: "list_fixture_bindings_for_unit H db u = Inr bindings"
    and a: "a \<in> set (closed_attempts db u)"
  shows "bindings_by_attempt bindings (at_id a) = binding_of db a"
proof (rule option_eqI)
  fix b
  let ?mine = "rows_matching (\<lambda>b. fb_unit b = u) (rd_bindings db)"
  have ids: "distinct (map at_id (rd_attempts db))" and keys: "distinct (map fb_attempt (rd_bindings db))"
    and ak: "attempts_keyed (rd_attempts db)"
    and exists: "\<And>b. b \<in> set (rd_bindings db) \<Longrightarrow> attempt_exists db (fb_attempt b) (fb_unit b) (fb_scope b)"
    using k by (auto simp: hygiene_store_ok_def bindings_keyed_def attempts_keyed_def list_all_iff)
  have ref: "\<exists>a \<in> set (rd_attempts db). at_id a = fb_attempt b \<and> at_unit a = fb_unit b"
    if "b \<in> set ?mine" for b
    using exists that by (auto simp: rows_matching_def attempt_exists_def list_ex_iff)
  have "bindings = map fst (sort_key (\<lambda>(b, a). at_number a)
      (concat (map (\<lambda>b. map (\<lambda>a. (b, a))
        (rows_matching (\<lambda>a. at_id a = fb_attempt b \<and> at_unit a = fb_unit b) (rd_attempts db))) ?mine)))"
    using l by (simp add: list_fixture_bindings_for_unit_def model_rows_Inr)
  note listed = joined_listing [where key = fb_attempt, OF ids _ ref this]
  have mem: "a \<in> set (rd_attempts db)" "at_unit a = u"
    using a by (simp_all add: closed_attempts_props [OF ak])
  have "b \<in> set (rd_bindings db) \<Longrightarrow> fb_attempt b = at_id a \<Longrightarrow> fb_unit b = u"
    using attempt_of_fact(1) [OF ids _ mem(1), of "fb_unit b" "fb_scope b"] exists [of b] mem(2) by simp
  then show "bindings_by_attempt bindings (at_id a) = Some b \<longleftrightarrow> binding_of db a = Some b"
    using listed keys
    by (auto simp: bindings_by_attempt_def binding_of_def map_of_key_iff first_row_key_iff [OF keys]
        rows_matching_def distinct_map_filter)
qed

lemma bindings_listed:
  "hygiene_store_ok H db \<Longrightarrow> \<exists>bs. list_fixture_bindings_for_unit H db u = Inr bs"
  by (auto simp: hygiene_store_ok_def bindings_keyed_def list_fixture_bindings_for_unit_def
      model_rows_Inr rows_matching_def list_all_iff)

lemma latest_hygiene_row:
  assumes "hygienes_keyed H (rd_hygiene db)"
  shows "get_latest_hygiene_resolution H db u
      = Inr (latest_by hr_revision (\<lambda>r. hr_unit r = u) (rd_hygiene db))"
    and "latest_by hr_revision (\<lambda>r. hr_unit r = u) (rd_hygiene db) = Some l
      \<Longrightarrow> l \<in> set (rd_hygiene db) \<and> hr_unit l = u \<and> hygiene_resolution_valid H l"
proof -
  have l: "l \<in> set (rd_hygiene db) \<and> hr_unit l = u \<and> hygiene_resolution_valid H l"
    if "latest_by hr_revision (\<lambda>r. hr_unit r = u) (rd_hygiene db) = Some l" for l
    using first_row_Some [OF that [unfolded latest_by_def]] assms
    by (auto simp: rows_matching_def hygienes_keyed_def list_all_iff)
  then show "latest_by hr_revision (\<lambda>r. hr_unit r = u) (rd_hygiene db) = Some l
      \<Longrightarrow> l \<in> set (rd_hygiene db) \<and> hr_unit l = u \<and> hygiene_resolution_valid H l" .
  show "get_latest_hygiene_resolution H db u
      = Inr (latest_by hr_revision (\<lambda>r. hr_unit r = u) (rd_hygiene db))"
    unfolding get_latest_hygiene_resolution_def by (rule model_row_all_valid) (use l in blast)
qed

subsection \<open>What the trigger makes of an input\<close>

text \<open>The texts of an attempt's observation coincide on both sides.\<close>

definition observation_agrees :: "result_db \<Rightarrow> task_attempt \<Rightarrow> bool" where
  "observation_agrees db a = (case binding_of db a of
     None \<Rightarrow> \<not> trailing_zero (at_updated_at a)
   | Some b \<Rightarrow> opt_all (\<lambda>f. service_observation f = database_observation f)
       (get_fixture_run db (fb_fixture_run b)))"

lemma resource_counts:
  "count_status s f = length (filter (\<lambda>x. fo_ownership x = CREATED \<and> fo_status x = s) (fr_resources f))"
  by (simp add: count_status_def created_resources_def conj_commute)

lemma fixture_input_accepted:
  assumes "service_observation f = database_observation f"
    and "fixture_data_hygiene (fr_cleanup_state f) (count_status RESOURCE_LEAKED f) (exhausted_reconciles f) = Inr h"
    and "fr_tenant f = sc_tenant (hr_scope r)" "fr_project f = sc_project (hr_scope r)"
    and "fb_plan_digest b = fr_plan_digest f"
  shows "guard_fixture_input H r b f (fixture_hygiene_input H a b f h)"
proof -
  have "length (created_resources f) - count_status RESOURCE_CLEANED f - count_status RESOURCE_LEAKED f
      = length (filter (\<lambda>x. fo_ownership x = CREATED \<and> fo_status x \<notin> {RESOURCE_CLEANED, RESOURCE_LEAKED})
        (fr_resources f))"
    using length_filter_split [of "\<lambda>x. fo_status x = RESOURCE_CLEANED" "\<lambda>x. fo_status x = RESOURCE_LEAKED"
        "\<lambda>x. fo_ownership x = CREATED" "fr_resources f"]
    by (simp add: resource_counts created_resources_def)
  then show ?thesis
    using assms fixture_data_hygiene_Inr [OF assms(2)]
    by (simp add: guard_fixture_input_def fixture_hygiene_input_def Let_def resource_counts
        created_resources_def exhausted_reconciles_def unresolved_reconciles_def uncertain_nodes_def
        conj_commute)
qed

lemma gathered_input_accepted:
  assumes k: "hygiene_store_ok H db" and a: "a \<in> set (closed_attempts db (eu_id u))"
    and scope: "require_hygiene_scope u a = Inr ()"
    and i: "input_for H db u a (binding_of db a) i" and n: "at_number a = int index"
    and agrees: "observation_agrees db a" and r: "hr_unit r = eu_id u" "hr_scope r = eu_scope u"
  shows "guard_hygiene_input H db r (index, i)"
proof -
  have ids: "distinct (map at_id (rd_attempts db))" and ak: "attempts_keyed (rd_attempts db)"
    and bk: "distinct (map fb_id (rd_bindings db))" "distinct (map fr_id (rd_fixtures db))"
    using k by (simp_all add: hygiene_store_ok_def bindings_keyed_def attempts_keyed_def)
  have mem: "a \<in> set (rd_attempts db)" "at_unit a = eu_id u" "at_lifecycle a = LIFE_CLOSED"
      "at_scope a = eu_scope u"
    using a scope by (auto simp: closed_attempts_props [OF ak] require_hygiene_scope_def ensure_Inr)
  have found: "first_row (\<lambda>x. at_id x = at_id a \<and> at_unit x = hr_unit r \<and> at_scope x = hr_scope r
      \<and> at_lifecycle x = LIFE_CLOSED) (rd_attempts db) = Some a"
    using filter_key_and_unique [OF ids mem(1)] mem r by (simp add: first_row_def)
  have attempt: "hi_attempt i = at_id a" "hi_number i = at_number a"
    using i by (auto elim!: input_for.cases)
  show ?thesis
  proof (cases "binding_of db a")
    case None
    then have "i = not_required_input H a" "at_hygiene a = CLEANUP_NOT_REQUIRED"
      using i by (auto elim: input_for_None)
    moreover have "\<not> list_ex (\<lambda>b. fb_attempt b = at_id a) (rd_bindings db)"
      using None by (simp add: binding_of_def first_row_None list_ex_iff)
    moreover have "no_cleanup_json isoformat a = no_cleanup_json postgres_time a"
      using agrees None by (simp add: observation_agrees_def no_cleanup_agree_iff)
    ultimately have "guard_no_cleanup_input H db a i"
      by (simp add: guard_no_cleanup_input_def not_required_input_def)
    moreover have "hi_source i = EXPLICIT_NOT_REQUIRED"
      using \<open>i = not_required_input H a\<close> by simp
    ultimately show ?thesis
      using found attempt n by (simp add: guard_hygiene_input_def)
  next
    case (Some b)
    then have b: "b \<in> set (rd_bindings db)" "fb_attempt b = at_id a"
      by (auto simp: binding_of_def dest: first_row_Some)
    from i Some obtain f h where f: "get_fixture_run db (fb_fixture_run b) = Some f"
      and bs: "require_binding_scope u a f = Inr ()" and eb: "require_exact_binding b u a f = Inr ()"
      and h: "fixture_data_hygiene (fr_cleanup_state f) (count_status RESOURCE_LEAKED f) (exhausted_reconciles f) = Inr h"
      and i': "i = fixture_hygiene_input H a b f h"
      by (auto elim: input_for_Some)
    have row: "first_row (\<lambda>x. Some (fb_id x) = Some (fb_id b) \<and> fb_attempt x = at_id a
        \<and> fb_unit x = hr_unit r) (rd_bindings db) = Some b"
      using filter_key_and_unique [OF bk(1) b(1)] b(2) eb r
      by (simp add: first_row_def require_exact_binding_def ensure_Inr)
    have "guard_fixture_input H r b f i"
      unfolding i' using agrees Some f h bs eb r
      by (intro fixture_input_accepted)
        (auto simp: observation_agrees_def opt_all_def require_binding_scope_def require_exact_binding_def ensure_Inr)
    then show ?thesis
      using found attempt n row f by (simp add: guard_hygiene_input_def i' get_fixture_run_def)
  qed
qed

text \<open>
  The converse, over a digest that keeps the documents of a store apart: an accepted fixture input
  observed no resource and no cleanup attempt, an accepted input without cleanup an instant whose
  fraction needs no trimming.
\<close>

definition observed_documents :: "result_db \<Rightarrow> json list" where
  "observed_documents db = concat (map (\<lambda>f. [service_observation f, database_observation f]) (rd_fixtures db))
     @ concat (map (\<lambda>a. [no_cleanup_json isoformat a, no_cleanup_json postgres_time a]) (rd_attempts db))"

definition keeps_apart :: "hashing \<Rightarrow> result_db \<Rightarrow> bool" where
  "keeps_apart H db = list_all (\<lambda>x. list_all (\<lambda>y. H (JsonBody x) = H (JsonBody y) \<longrightarrow> x = y)
     (observed_documents db)) (observed_documents db)"

lemma keeps_apartD:
  "keeps_apart H db \<Longrightarrow> x \<in> set (observed_documents db) \<Longrightarrow> y \<in> set (observed_documents db)
     \<Longrightarrow> H (JsonBody x) = H (JsonBody y) \<Longrightarrow> x = y"
  by (auto simp: keeps_apart_def list_all_iff)

lemma times_never_meet: "pydantic_time t \<noteq> postgres_time t'"
proof
  assume "pydantic_time t = postgres_time t'"
  then have "last (pydantic_time t) = last (postgres_time t')" by simp
  then show False by (simp add: pydantic_time_def postgres_time_def)
qed

lemma observations_meet:
  assumes "service_observation f = database_observation f'"
  shows "fr_resources f = [] \<and> fr_cleanup_attempts f = []"
proof -
  have "resource_json pydantic_time r \<noteq> resource_json postgres_time r'" for r r'
    by (simp add: resource_json_def times_never_meet)
  moreover have "cleanup_attempt_json pydantic_time c \<noteq> cleanup_attempt_json postgres_time c'" for c c'
    by (simp add: cleanup_attempt_json_def times_never_meet)
  moreover have "map (resource_json pydantic_time) (fr_resources f)
      = map (resource_json postgres_time) (fr_resources f')"
    "map (cleanup_attempt_json pydantic_time) (fr_cleanup_attempts f)
      = map (cleanup_attempt_json postgres_time) (fr_cleanup_attempts f')"
    using assms by (simp_all add: service_observation_def database_observation_def observation_json_def)
  ultimately show ?thesis
    by (cases "fr_resources f"; cases "fr_cleanup_attempts f") auto
qed

lemma accepted_fixture_input:
  assumes "guard_hygiene_input H db r (index, fixture_hygiene_input H a b f h)" and "keeps_apart H db"
    and "f \<in> set (rd_fixtures db)"
  shows "fr_resources f = [] \<and> fr_cleanup_attempts f = []"
proof -
  from assms(1) obtain f' where "H (JsonBody (service_observation f)) = H (JsonBody (database_observation f'))"
    and "f' \<in> set (rd_fixtures db)"
    by (auto simp: guard_hygiene_input_def guard_fixture_input_def split: option.splits dest!: first_row_Some)
  then have "service_observation f = database_observation f'"
    using assms(3) by (intro keeps_apartD [OF assms(2)]) (auto simp: observed_documents_def)
  then show ?thesis by (rule observations_meet)
qed

lemma accepted_no_cleanup_input:
  assumes "guard_hygiene_input H db r (index, not_required_input H a)" and "keeps_apart H db"
    and "distinct (map at_id (rd_attempts db))" and "a \<in> set (rd_attempts db)"
  shows "\<not> trailing_zero (at_updated_at a)"
proof -
  from assms(1) obtain a' where a': "a' \<in> set (rd_attempts db)" "at_id a' = at_id a"
    and h: "H (JsonBody (no_cleanup_json isoformat a)) = H (JsonBody (no_cleanup_json postgres_time a'))"
    by (auto simp: guard_hygiene_input_def guard_no_cleanup_input_def split: option.splits dest!: first_row_Some)
  then have "a' = a" using distinct_key_eq [OF assms(3)] assms(4) by blast
  with h assms(4) have "no_cleanup_json isoformat a = no_cleanup_json postgres_time a"
    by (intro keeps_apartD [OF assms(2)]) (auto simp: observed_documents_def)
  then show ?thesis by (simp add: no_cleanup_agree_iff)
qed

subsection \<open>The computed revision\<close>

lemma hygiene_resolution_fields [simp]:
  "hr_id (hygiene_resolution_of H ids u created inputs l) = ids 0"
  "hr_scope (hygiene_resolution_of H ids u created inputs l) = eu_scope u"
  "hr_unit (hygiene_resolution_of H ids u created inputs l) = eu_id u"
  "hr_manifest_hash (hygiene_resolution_of H ids u created inputs l) = eu_manifest_hash u"
  "hr_unit_key (hygiene_resolution_of H ids u created inputs l) = eu_unit_key u"
  "hr_revision (hygiene_resolution_of H ids u created inputs l)
     = (case l of Some p \<Rightarrow> hr_revision p + 1 | None \<Rightarrow> 1)"
  "hr_inputs (hygiene_resolution_of H ids u created inputs l) = inputs"
  "hr_input_set_hash (hygiene_resolution_of H ids u created inputs l)
     = unit_hygiene_input_set_hash H (eu_id u) (eu_manifest_hash u) inputs"
  "hr_data_hygiene (hygiene_resolution_of H ids u created inputs l) = resolve_unit_data_hygiene inputs"
  "hr_policy_digest (hygiene_resolution_of H ids u created inputs l) = HYGIENE_POLICY_DIGEST"
  "hr_supersedes (hygiene_resolution_of H ids u created inputs l) = map_option hr_id l"
  "hr_watermark (hygiene_resolution_of H ids u created inputs l) = input_watermark inputs"
  "hr_created_at (hygiene_resolution_of H ids u created inputs l) = created"
  "hr_hash (hygiene_resolution_of H ids u created inputs l)
     = unit_hygiene_resolution_hash H (hygiene_resolution_of H ids u created inputs l)"
  by (simp_all add: hygiene_resolution_of_def Let_def hygiene_content.defs hygiene_resolution.defs
      unit_hygiene_resolution_hash_def)

lemma insert_hygiene_Inr:
  "insert_hygiene_resolution H r db = Inr db' \<Longrightarrow> guard_hygiene_resolution H db r
     \<and> hygiene_admitted (rd_hygiene db) r \<and> db' = db\<lparr>rd_hygiene := rd_hygiene db @ [r]\<rparr>"
  by (auto simp: insert_hygiene_resolution_def attempt_Inr db_call_Inr ensure_Inr sql_insert_Inr
      hygiene_admitted_def guard_hygiene_resolution_def)

text \<open>A projection that wrote a row inserted the revision over the gathered inputs.\<close>

lemma project_unit_wrote:
  assumes k: "hygiene_store_ok H db"
    and p: "project_unit H ids u created db = Inr (Some r, db')" and w: "db' \<noteq> db"
  obtains inputs where "r = hygiene_resolution_of H ids u created inputs
        (latest_by hr_revision (\<lambda>x. hr_unit x = eu_id u) (rd_hygiene db))"
    and "list_all2 (\<lambda>i a. input_for H db u a (binding_of db a) i) inputs (closed_attempts db (eu_id u))"
    and "insert_hygiene_resolution H r db = Inr (db\<lparr>rd_hygiene := rd_hygiene db @ [r]\<rparr>)"
    and "hygiene_resolution_valid H r"
    and "db' = append_outbox (hygiene_resolved_event r) (db\<lparr>rd_hygiene := rd_hygiene db @ [r]\<rparr>)"
proof -
  have hk: "hygienes_keyed H (rd_hygiene db)" using k by (simp add: hygiene_store_ok_def)
  from p w obtain bs inputs db'' where b: "list_fixture_bindings_for_unit H db (eu_id u) = Inr bs"
    and g: "gather_inputs H db u (bindings_by_attempt bs) (closed_attempts db (eu_id u)) = Inr (Some inputs)"
    and r: "r = hygiene_resolution_of H ids u created inputs
        (latest_by hr_revision (\<lambda>x. hr_unit x = eu_id u) (rd_hygiene db))"
    and v: "hygiene_resolution_valid H r" and i: "insert_hygiene_resolution H r db = Inr db''"
    and db': "db' = append_outbox (hygiene_resolved_event r) db''"
    by (auto simp: project_unit_def Let_def attempt_Inr ensure_Inr latest_hygiene_row(1) [OF hk]
        split: if_splits option.splits)
  have "list_all2 (\<lambda>i a. input_for H db u a (binding_of db a) i) inputs (closed_attempts db (eu_id u))"
    using gather_inputs_Inr [OF g] bindings_lookup [OF k b]
    by (auto simp: list_all2_conv_all_nth)
  with insert_hygiene_Inr [OF i] i v r db' show ?thesis by (intro that [of inputs]) auto
qed

lemma closed_attempts_count:
  assumes "attempts_keyed (rd_attempts db)"
  shows "length (rows_matching (\<lambda>a. at_unit a = u \<and> at_lifecycle a = LIFE_CLOSED) (rd_attempts db))
    = length (closed_attempts db u)"
  by (simp add: closed_attempts_sorted [OF assms])

lemma hygiene_resolution_of_guarded:
  assumes k: "hygiene_store_ok H db" and u: "u \<in> set (rd_units db)"
    and n: "map at_number (closed_attempts db (eu_id u)) = map int [1..<Suc (length (closed_attempts db (eu_id u)))]"
    and g: "list_all2 (\<lambda>i a. input_for H db u a (binding_of db a) i \<and> require_hygiene_scope u a = Inr ())
      inputs (closed_attempts db (eu_id u))" and ne: "closed_attempts db (eu_id u) \<noteq> []"
    and agrees: "list_all (observation_agrees db) (closed_attempts db (eu_id u))"
    and l: "l = latest_by hr_revision (\<lambda>x. hr_unit x = eu_id u) (rd_hygiene db)"
  shows "guard_hygiene_resolution H db (hygiene_resolution_of H ids u created inputs l)"
    and "hygiene_references db (hygiene_resolution_of H ids u created inputs l)"
proof -
  let ?r = "hygiene_resolution_of H ids u created inputs l"
  let ?as = "closed_attempts db (eu_id u)"
  have ak: "attempts_keyed (rd_attempts db)" and hk: "hygienes_keyed H (rd_hygiene db)"
    using k by (simp_all add: hygiene_store_ok_def)
  have len: "length inputs = length ?as" using g by (rule list_all2_lengthD)
  with ne have ine: "inputs \<noteq> []" by auto
  have unit: "list_ex (\<lambda>x. eu_id x = eu_id u \<and> eu_scope x = eu_scope u
      \<and> eu_manifest_hash x = eu_manifest_hash u \<and> eu_unit_key x = eu_unit_key u) (rd_units db)"
    using u by (auto simp: list_ex_iff)
  have chain: "hygiene_chain_ok l ?r"
    by (cases l) (simp_all add: hygiene_chain_ok_def opt_all_def, simp add: hygiene_resolution_of_def Let_def
        hygiene_content.defs hygiene_resolution.defs)
  have "list_all (guard_hygiene_input H db ?r) (enumerate 1 inputs)"
  proof (unfold list_all_iff, rule ballI)
    fix x assume "x \<in> set (enumerate 1 inputs)"
    then have "x = (Suc (fst x - 1), inputs ! (fst x - 1)) \<and> fst x - 1 < length inputs"
      unfolding in_set_enumerate_eq by (auto intro: prod_eqI)
    then obtain m where x: "x = (Suc m, inputs ! m)" "m < length inputs" by blast
    then have g': "input_for H db u (?as ! m) (binding_of db (?as ! m)) (inputs ! m)"
        "require_hygiene_scope u (?as ! m) = Inr ()" and mem: "?as ! m \<in> set ?as"
      using g len by (auto simp: list_all2_conv_all_nth)
    have "map at_number ?as ! m = int (Suc m)"
      using x(2) len unfolding n by (simp del: upt_Suc)
    then have "at_number (?as ! m) = int (Suc m)" using x(2) len by simp
    from gathered_input_accepted [OF k mem g'(2,1) this] agrees mem
    show "guard_hygiene_input H db ?r x" by (simp add: x list_all_iff)
  qed
  moreover have "expected_unit_hygiene (map hi_data_hygiene inputs) = Some (resolve_unit_data_hygiene inputs)"
    using ine g input_never_cleanup_failed
    by (intro expected_unit_hygiene_eq) (auto simp: in_set_conv_nth list_all2_conv_all_nth)
  ultimately show "guard_hygiene_resolution H db ?r"
    using unit chain len ine input_watermark_Max [OF ine]
    by (simp add: guard_hygiene_resolution_def closed_attempts_count [OF ak] opt_all_def
        unit_hygiene_input_set_hash_def flip: l)
  have "list_ex (\<lambda>x. hr_id x = hr_id p) (rd_hygiene db)" if "l = Some p" for p
    using latest_hygiene_row(2) [OF hk that [unfolded l]] by (auto simp: list_ex_iff)
  then show "hygiene_references db ?r"
    using unit by (cases l) (auto simp: hygiene_references_def unit_exists_def list_ex_iff opt_all_def)
qed

lemma hygiene_valid_checked:
  assumes "hygiene_resolution_valid H r" and "l = latest_by hr_revision (\<lambda>x. hr_unit x = hr_unit r) rows"
    and "r = hygiene_resolution_of H ids u created inputs l" and "hygienes_keyed H rows"
  shows "hygiene_check r"
  using assms(1) 
  by (auto simp: hygiene_resolution_valid_def hygiene_content_valid_def hygiene_check_def lineage_ok_def
      Suc_le_eq)

text \<open>What a projection does with acceptable observations.\<close>

lemma project_unit_appends:
  assumes k: "hygiene_store_ok H db" and u: "u \<in> set (rd_units db)"
    and ne: "closed_attempts db (eu_id u) \<noteq> []"
    and n: "map at_number (closed_attempts db (eu_id u)) = map int [1..<Suc (length (closed_attempts db (eu_id u)))]"
    and agrees: "list_all (observation_agrees db) (closed_attempts db (eu_id u))"
    and bs: "list_fixture_bindings_for_unit H db (eu_id u) = Inr bs"
    and g: "gather_inputs H db u (bindings_by_attempt bs) (closed_attempts db (eu_id u)) = Inr (Some inputs)"
    and l: "l = latest_by hr_revision (\<lambda>x. hr_unit x = eu_id u) (rd_hygiene db)"
    and new: "opt_all (\<lambda>l. hr_input_set_hash l
        \<noteq> unit_hygiene_input_set_hash H (eu_id u) (eu_manifest_hash u) inputs) l"
    and r: "r = hygiene_resolution_of H ids u created inputs l" and v: "hygiene_resolution_valid H r"
    and free: "\<not> list_ex (\<lambda>x. hygiene_conflicts x r) (rd_hygiene db)"
  shows "project_unit H ids u created db
    = Inr (Some r, append_outbox (hygiene_resolved_event r) (db\<lparr>rd_hygiene := rd_hygiene db @ [r]\<rparr>))"
proof -
  let ?as = "closed_attempts db (eu_id u)"
  have hk: "hygienes_keyed H (rd_hygiene db)" using k by (simp add: hygiene_store_ok_def)
  have "list_all2 (\<lambda>i a. input_for H db u a (binding_of db a) i \<and> require_hygiene_scope u a = Inr ()) inputs ?as"
    using gather_inputs_Inr [OF g] bindings_lookup [OF k bs] by (auto simp: list_all2_conv_all_nth)
  note guarded = hygiene_resolution_of_guarded [OF k u n this ne agrees l, where ids = ids and created = created]
  have "insert_hygiene_resolution H r db = Inr (db\<lparr>rd_hygiene := rd_hygiene db @ [r]\<rparr>)"
    using guarded free hygiene_valid_checked [OF v _ _ hk, of l ids u created inputs] l
    by (simp add: insert_hygiene_resolution_def sql_insert_def ensure_def r)
  moreover have "input_watermark inputs \<le> created"
    using v by (simp add: r hygiene_resolution_valid_def hygiene_content_valid_def input_watermark_def)
  moreover have "opt_all (\<lambda>l. \<not> (hr_input_set_hash l
      = unit_hygiene_input_set_hash H (eu_id u) (eu_manifest_hash u) inputs
      \<and> hr_policy_digest l = HYGIENE_POLICY_DIGEST)) l"
    using new by (cases l) (simp_all add: opt_all_def)
  ultimately show ?thesis
    using ne n v r by (simp add: project_unit_def Let_def bs g latest_hygiene_row(1) [OF hk] ensure_def
        del: upt_Suc flip: l)
qed

subsection \<open>Properties\<close>

text \<open>
  C8: The hygiene of a unit is the worst state of its attempts in the policy's precedence (leaked,
  cleanup failed, pending, cleaned, not applicable): a later clean retry never hides a leak.
\<close>

theorem unit_hygiene_is_worst:
  assumes "inputs \<noteq> []"
  shows "resolve_unit_data_hygiene inputs = Max (hi_data_hygiene ` set inputs)"
  using assms by (rule resolve_is_maximum)

text \<open>
  C9: On a consistent store, when both sides render the observations of the unit's closed attempts
  alike, a hygiene projection fails only for inconsistent facts, for an observation that is no valid
  model or for a key the database already has: the trigger that recounts resources, states and
  reconciliations in SQL never rejects the service's revision.
\<close>

theorem project_unit_failures:
  assumes "hygiene_store_ok H db" and "u \<in> set (rd_units db)"
    and "list_all (observation_agrees db) (closed_attempts db (eu_id u))"
    and "project_unit H ids u created db = Inl f"
  shows "(\<exists>code. f = ProjectionError code) \<or> f = ModelInvalid \<or> f = DatabaseFailure UniqueViolation"
proof -
  let ?as = "closed_attempts db (eu_id u)"
  let ?l = "latest_by hr_revision (\<lambda>x. hr_unit x = eu_id u) (rd_hygiene db)"
  have hk: "hygienes_keyed H (rd_hygiene db)" using assms(1) by (simp add: hygiene_store_ok_def)
  obtain bs where bs: "list_fixture_bindings_for_unit H db (eu_id u) = Inr bs"
    using bindings_listed [OF assms(1)] by blast
  have gather: "(\<exists>code. f = ProjectionError code) \<or> f = ModelInvalid"
    if "gather_inputs H db u b as = Inl f" for b as
    using that
    by (induction as)
      (auto simp: attempt_Inl require_hygiene_scope_def fixture_input_def projection_error_def ensure_Inl
        Let_def require_binding_scope_def require_exact_binding_def fixture_data_hygiene_def
        split: if_splits option.splits cleanup_state.splits)
  have insert: "f = DatabaseFailure UniqueViolation"
    if g: "gather_inputs H db u (bindings_by_attempt bs) ?as = Inr (Some inputs)"
      and n: "map at_number ?as = map int [1..<Suc (length ?as)]" and ne: "?as \<noteq> []"
      and v: "hygiene_resolution_valid H (hygiene_resolution_of H ids u created inputs ?l)"
      and i: "insert_hygiene_resolution H (hygiene_resolution_of H ids u created inputs ?l) db = Inl f"
    for inputs
  proof -
    have "list_all2 (\<lambda>i a. input_for H db u a (binding_of db a) i \<and> require_hygiene_scope u a = Inr ()) inputs ?as"
      using gather_inputs_Inr [OF g] bindings_lookup [OF assms(1) bs]
      by (auto simp: list_all2_conv_all_nth)
    note guarded = hygiene_resolution_of_guarded [OF assms(1,2) n this ne assms(3) refl,
        where ids = ids and created = created]
    from i guarded hygiene_valid_checked [OF v _ refl hk] show ?thesis
      by (auto simp: insert_hygiene_resolution_def sql_insert_def ensure_def split: if_splits)
  qed
  from assms(4) gather insert show ?thesis
    by (auto simp: project_unit_def Let_def bs latest_hygiene_row(1) [OF hk] attempt_Inl ensure_Inl
        split: if_splits option.splits)
qed

text \<open>
  C10: Over a digest that keeps the observed documents apart, no hygiene revision is ever written
  for a fixture that has a resource: the service hashes the ledger's instants in Pydantic's
  rendering (\<open>Z\<close>), the trigger in PostgreSQL's (\<open>+00:00\<close>), and the trigger rejects the row.
\<close>

theorem written_hygiene_saw_no_resource:
  assumes "hygiene_store_ok H db" and "keeps_apart H db"
    and "project_unit H ids u created db = Inr (Some r, db')" and "db' \<noteq> db"
    and "i \<in> set (hr_inputs r)" and "hi_source i = FIXTURE_RUN"
  shows "hi_resources i = 0"
  using assms(1,3,4)
proof (cases rule: project_unit_wrote)
  case (1 inputs)
  from assms(5) obtain m where m: "m < length inputs" "i = inputs ! m"
    by (auto simp: 1(1) in_set_conv_nth)
  with 1(2) obtain a where "input_for H db u a (binding_of db a) i"
    by (auto simp: list_all2_conv_all_nth)
  with assms(6) obtain b f h where i: "i = fixture_hygiene_input H a b f h"
    and f: "get_fixture_run db (fb_fixture_run b) = Some f"
    by (auto elim!: input_for.cases)
  have "(Suc m, i) \<in> set (enumerate 1 (hr_inputs r))"
    using m by (auto simp: 1(1) in_set_enumerate_eq)
  then have "guard_hygiene_input H db r (Suc m, i)"
    using insert_hygiene_Inr [OF 1(3)] by (auto simp: guard_hygiene_resolution_def list_all_iff)
  with accepted_fixture_input [of H db r "Suc m" a b f h] assms(2) f show ?thesis
    by (auto simp: i get_fixture_run_def created_resources_def dest: first_row_Some)
qed

text \<open>
  C11: Likewise no revision is ever written over an attempt without cleanup whose update instant
  has a fraction of a second that ends in a zero: \<open>isoformat\<close> keeps the zero, \<open>to_jsonb\<close> drops it.
\<close>

theorem written_hygiene_saw_no_trailing_zero:
  assumes "hygiene_store_ok H db" and "keeps_apart H db"
    and "project_unit H ids u created db = Inr (Some r, db')" and "db' \<noteq> db"
    and "a \<in> set (closed_attempts db (eu_id u))" and "binding_of db a = None"
  shows "\<not> trailing_zero (at_updated_at a)"
  using assms(1,3,4)
proof (cases rule: project_unit_wrote)
  case (1 inputs)
  have ak: "attempts_keyed (rd_attempts db)" using assms(1) by (simp add: hygiene_store_ok_def)
  from assms(5) obtain m where m: "m < length (closed_attempts db (eu_id u))"
      "a = closed_attempts db (eu_id u) ! m"
    by (auto simp: in_set_conv_nth)
  with 1(2) have "m < length inputs" and "input_for H db u a (binding_of db a) (inputs ! m)"
    by (simp_all add: list_all2_conv_all_nth)
  with assms(6) have "m < length inputs" "inputs ! m = not_required_input H a"
    by (auto elim: input_for_None)
  then have "(Suc m, not_required_input H a) \<in> set (enumerate 1 (hr_inputs r))"
    by (auto simp: 1(1) in_set_enumerate_eq)
  then have "guard_hygiene_input H db r (Suc m, not_required_input H a)"
    using insert_hygiene_Inr [OF 1(3)] by (auto simp: guard_hygiene_resolution_def list_all_iff)
  from accepted_no_cleanup_input [OF this assms(2)] show ?thesis
    using assms(5) ak by (simp add: closed_attempts_props [OF ak] attempts_keyed_def)
qed

end
