(* ===== verification/Result_Demo.thy ===== *)
theory Result_Demo
  imports Hygiene_Correct
begin

text \<open>
  A concrete run for the witnesses of the result properties: one unit with an attempt lost to an
  infrastructure error (closed with a notice) and a second one sealed as passed, and a digest
  function that is total and keeps the few documents of the example apart.
\<close>

definition demo_digest :: "char \<Rightarrow> string" where
  "demo_digest c = ''sha256:'' @ replicate 64 c"

definition demo_hash :: hashing where
  "demo_hash d = demo_digest (case d of
     JsonBody (JObject kvs) \<Rightarrow> (if (''attemptNumber'', JInt 1) \<in> set kvs then CHR ''b''
       else if length kvs = 5 then CHR ''c'' else CHR ''a'')
   | InputSet _ _ _ _ \<Rightarrow> CHR ''d'' | HygieneInputSet _ _ _ \<Rightarrow> CHR ''e'' | HygieneBody _ \<Rightarrow> CHR ''f''
   | SnapshotBody s \<Rightarrow> (if ss_finality s = QUALITY_FINAL then CHR ''b'' else if ss_finality s = REEVALUATED then CHR ''d''
       else CHR ''c'')
   | _ \<Rightarrow> CHR ''a'')"

definition demo_scope :: task_scope where
  "demo_scope = \<lparr>sc_tenant = 1, sc_project = 2, sc_run = 3\<rparr>"

definition demo_binding :: unit_binding where
  "demo_binding = \<lparr>ub_ordinal = 1, ub_unit_key = demo_digest CHR ''a'', ub_case_version_id = 31,
     ub_execution_profile_version_id = 32, ub_fixture_blueprint_version_id = 33,
     ub_identity_profile_version_id = 34, ub_environment_id = 35, ub_browser_profile_version_id = 36,
     ub_data_profile_version_id = 37, ub_parameter_digest = demo_digest CHR ''a'',
     ub_dependency_digest = demo_digest CHR ''a''\<rparr>"

definition demo_unit :: execution_unit where
  "demo_unit = \<lparr>eu_id = 4, eu_scope = demo_scope, eu_manifest_hash = demo_digest CHR ''a'',
     eu_binding = demo_binding, eu_lifecycle = LIFE_CLOSED\<rparr>"

definition demo_attempt :: "uuid \<Rightarrow> int \<Rightarrow> lifecycle \<Rightarrow> execution_quality \<Rightarrow> task_attempt" where
  "demo_attempt i n life quality = \<lparr>at_id = i, at_scope = demo_scope, at_unit = 4,
     at_manifest_hash = demo_digest CHR ''a'', at_unit_key = demo_digest CHR ''a'', at_number = n,
     at_lifecycle = life, at_quality = quality, at_hygiene = CLEANUP_NOT_REQUIRED,
     at_started_at = Some 1, at_cleanup_resolved_at = None, at_closed_at = Some 5, at_updated_at = 5\<rparr>"

definition demo_lost :: task_attempt where
  "demo_lost = demo_attempt 5 1 LIFE_CLOSED QUALITY_INFRA_ERROR"

definition demo_passed :: "int \<Rightarrow> task_attempt" where
  "demo_passed n = demo_attempt 6 n LIFE_CLOSED QUALITY_PASSED"

definition demo_seal :: attempt_seal where
  "demo_seal = \<lparr>se_id = 8, se_scope = demo_scope, se_unit = 4, se_attempt = 6, se_manifest_id = 3,
     se_manifest_hash = demo_digest CHR ''a'', se_unit_key = demo_digest CHR ''a'', se_ticket_id = 9,
     se_ticket_digest = demo_digest CHR ''a'',
     se_axes = \<lparr>ax_verdict = VERDICT_PASSED, ax_outcome_class = OUTCOME_BUSINESS,
       ax_closure_reason = ''COMPLETED'', ax_data_hygiene = HYGIENE_NOT_APPLICABLE,
       ax_completeness = EVIDENCE_COMPLETE, ax_integrity = VERIFIED, ax_influence = AUTONOMOUS\<rparr>,
     se_stability = STABLE, se_oracle_results_hash = demo_digest CHR ''a'',
     se_artifact_manifest_hash = demo_digest CHR ''a'', se_event_head = demo_digest CHR ''a'',
     se_event_count = 1, se_evidence_policy_digest = demo_digest CHR ''a'',
     se_runtime_digest = demo_digest CHR ''a'', se_sealed_at = 5, se_kid = ''key-1'',
     se_signature_value = ''base64url:'' @ replicate 86 (CHR ''A''), se_content_hash = demo_digest CHR ''a''\<rparr>"

definition demo_notice :: closure_notice where
  "demo_notice = closure_notice_of demo_hash 7 demo_lost SOURCE_INFRA_ERROR ''INFRA_LOST'' 5 6"

definition demo_db :: "task_attempt list \<Rightarrow> closure_notice list \<Rightarrow> result_db" where
  "demo_db attempts notices = \<lparr>rd_runs = [], rd_manifests = [], rd_units = [demo_unit],
     rd_attempts = attempts, rd_seals = [demo_seal], rd_notices = notices, rd_resolutions = [],
     rd_fixtures = [], rd_bindings = [], rd_hygiene = [], rd_snapshots = [], rd_commands = [],
     rd_clusters = [], rd_classifications = [], rd_decisions = [], rd_callbacks = [],
     rd_outbox = [], rd_audit = [], rd_requests = []\<rparr>"

text \<open>Both attempts and their facts; without the notice; the passed attempt alone.\<close>

definition demo_store :: result_db where
  "demo_store = demo_db [demo_lost, demo_passed 2] [demo_notice]"

definition demo_gap :: result_db where
  "demo_gap = demo_db [demo_lost, demo_passed 2] []"

definition demo_clean :: result_db where
  "demo_clean = demo_db [demo_passed 1] []"

definition demo_ids :: "nat \<Rightarrow> uuid" where
  "demo_ids k = 100 + k"

lemma digests_demo: "digests demo_hash"
proof -
  have "digest_pattern (demo_digest c)" if "c \<in> {CHR ''a'', CHR ''b'', CHR ''c'', CHR ''d'', CHR ''e'', CHR ''f''}" for c
    using that by (elim insertE emptyE; hypsubst; code_simp)
  then show ?thesis
    by (auto simp: digests_def demo_hash_def split: result_document.split json.split)
qed

lemma demo_rows_valid:
  "attempt_seal_valid demo_hash demo_seal" "closure_notice_valid demo_hash demo_notice"
  "units_keyed [demo_unit]" "resolutions_keyed []"
  "attempts_keyed [demo_lost, demo_passed 2]" "attempts_keyed [demo_passed 1]"
  by code_simp+

lemma demo_keys:
  "at_id demo_lost = 5" "at_id (demo_passed n) = 6" "at_unit demo_lost = 4" "at_unit (demo_passed n) = 4"
  "at_scope demo_lost = demo_scope" "at_scope (demo_passed n) = demo_scope"
  "eu_id demo_unit = 4"
  "se_attempt demo_seal = 6" "se_unit demo_seal = 4" "se_scope demo_seal = demo_scope"
  "cn_attempt demo_notice = 5" "cn_unit demo_notice = 4" "cn_scope demo_notice = demo_scope"
  by (simp_all add: demo_lost_def demo_passed_def demo_attempt_def demo_seal_def demo_notice_def demo_unit_def)

lemma demo_store_fields [simp]:
  "rd_attempts (demo_db as ns) = as" "rd_units (demo_db as ns) = [demo_unit]"
  "rd_seals (demo_db as ns) = [demo_seal]" "rd_notices (demo_db as ns) = ns"
  "rd_resolutions (demo_db as ns) = []" "rd_hygiene (demo_db as ns) = []"
  by (simp_all add: demo_db_def)

lemma demo_reads:
  "rd_attempts db = [demo_lost, demo_passed 2] \<Longrightarrow> list_attempts db 4 = [demo_lost, demo_passed 2]"
  "rd_attempts db = [demo_passed n] \<Longrightarrow> list_attempts db 4 = [demo_passed n]"
  by (simp_all add: list_attempts_def rows_matching_def demo_keys)
    (simp add: demo_lost_def demo_passed_def demo_attempt_def)

lemma demo_seals:
  "at_id a = 6 \<Longrightarrow> list_seals_for_unit demo_hash (demo_db [demo_lost, a] ns) 4 = Inr [demo_seal]"
  "at_id a = 6 \<Longrightarrow> list_seals_for_unit demo_hash (demo_db [a] ns) 4 = Inr [demo_seal]"
  by (simp_all add: list_seals_for_unit_def rows_matching_def model_rows_def demo_keys demo_rows_valid)

lemma demo_notices:
  "list_closures_for_unit demo_hash (demo_db as [demo_notice]) 4 = Inr [demo_notice]"
  "list_closures_for_unit demo_hash (demo_db as []) 4 = Inr []"
  by (simp_all add: list_closures_for_unit_def rows_matching_def model_rows_def demo_keys demo_rows_valid)

lemma demo_scopes: "require_attempt_scope demo_unit demo_lost = Inr ()"
  "require_attempt_scope demo_unit (demo_passed n) = Inr ()"
  "at_lifecycle demo_lost = LIFE_CLOSED" "at_lifecycle (demo_passed n) = LIFE_CLOSED"
  by (simp_all add: require_attempt_scope_def ensure_def demo_lost_def demo_passed_def demo_attempt_def
      demo_unit_def demo_binding_def eu_unit_key_def)

lemma demo_facts:
  "resolution_source_for demo_lost None (Some demo_notice) = Inr (closure_source_of demo_lost demo_notice)"
  "resolution_source_for (demo_passed n) (Some demo_seal) None = Inr (seal_source (demo_passed n) demo_seal)"
  "resolution_source_for demo_lost None None = Inl (ProjectionError ''RESULT_TERMINAL_COVERAGE_INVALID'')"
  by (code_simp, simp add: resolution_source_for_def source_from_seal_def demo_passed_def demo_attempt_def
      demo_seal_def, code_simp)

lemma demo_stores_ok:
  "fact_store_ok demo_hash demo_store" "fact_store_ok demo_hash demo_gap" "fact_store_ok demo_hash demo_clean"
  by (simp_all add: fact_store_ok_def facts_keyed_def seals_keyed_def notices_keyed_def attempt_exists_def
      demo_store_def demo_gap_def demo_clean_def demo_rows_valid demo_keys)

lemma demo_sources:
  "terminal_sources demo_hash demo_unit demo_store =
     Inr [closure_source_of demo_lost demo_notice, seal_source (demo_passed 2) demo_seal]"
  "terminal_sources demo_hash demo_unit demo_clean = Inr [seal_source (demo_passed 1) demo_seal]"
  "terminal_sources demo_hash demo_unit demo_gap = Inl (ProjectionError ''RESULT_TERMINAL_COVERAGE_INVALID'')"
  by (simp_all add: terminal_sources_def demo_store_def demo_clean_def demo_gap_def demo_seals demo_notices
      demo_reads demo_scopes demo_facts seals_by_attempt_def closures_by_attempt_def demo_keys ensure_def)

lemma demo_unit_listed: "demo_unit \<in> set (rd_units (demo_db as ns))"
  by simp

definition demo_row :: unit_resolution where
  "demo_row = resolution_of demo_hash demo_ids demo_unit 10
     [closure_source_of demo_lost demo_notice, seal_source (demo_passed 2) demo_seal] None"

definition demo_clean_row :: unit_resolution where
  "demo_clean_row = resolution_of demo_hash demo_ids demo_unit 10 [seal_source (demo_passed 1) demo_seal] None"

definition demo_after :: result_db where
  "demo_after = append_outbox (unit_resolved_event demo_row)
     (demo_store\<lparr>rd_resolutions := [demo_row]\<rparr>)"

lemma demo_no_resolution: "latest_resolution (demo_db as ns) u = None"
  by (simp add: latest_resolution_def latest_by_def rows_matching_def first_row_def)

lemma demo_resolves: "resolve_unit demo_hash 10 demo_ids demo_unit 10 demo_store = Inr (demo_row, demo_after)"
  using resolve_unit_appends_aux [OF demo_stores_ok(1) digests_demo _ demo_sources(1), of demo_ids 10]
  by (simp add: demo_store_def demo_no_resolution demo_row_def demo_after_def Let_def)

lemma demo_inserts:
  "insert_resolution demo_hash 10 demo_row demo_store = Inr (demo_store\<lparr>rd_resolutions := [demo_row]\<rparr>)"
  "insert_resolution demo_hash 10 demo_clean_row demo_clean
     = Inr (demo_clean\<lparr>rd_resolutions := [demo_clean_row]\<rparr>)"
  using insert_resolution_accepts [OF demo_stores_ok(1) digests_demo _ demo_sources(1) refl refl, of 10 demo_ids]
    insert_resolution_accepts [OF demo_stores_ok(3) digests_demo _ demo_sources(2) refl refl, of 10 demo_ids]
  by (simp_all add: demo_store_def demo_clean_def demo_no_resolution demo_row_def demo_clean_row_def)

subsection \<open>Resolving\<close>

lemma resolve_unit_appends_witness:
  "resolve_unit demo_hash 10 demo_ids demo_unit 10 demo_store =
    (let r = resolution_of demo_hash demo_ids demo_unit 10
       [closure_source_of demo_lost demo_notice, seal_source (demo_passed 2) demo_seal]
       (latest_resolution demo_store 4) in
     Inr (r, append_outbox (unit_resolved_event r) (demo_store\<lparr>rd_resolutions := [r]\<rparr>)))"
  using resolve_unit_appends [OF demo_stores_ok(1) digests_demo _ demo_sources(1), of demo_ids 10]
  by (simp add: demo_store_def demo_unit_def)

lemma resolve_unit_failures_witness:
  "(\<exists>code. ProjectionError ''RESULT_TERMINAL_COVERAGE_INVALID'' = ProjectionError code)
    \<or> ProjectionError ''RESULT_TERMINAL_COVERAGE_INVALID'' = DatabaseFailure UniqueViolation"
  by (rule resolve_unit_failures [OF demo_stores_ok(2) digests_demo,
      where u = demo_unit and now = 10 and ids = demo_ids])
    (simp_all add: resolve_unit_def demo_sources, simp add: demo_gap_def)

lemma resolve_unit_keeps_store_witness: "fact_store_ok demo_hash demo_after"
  by (rule resolve_unit_keeps_store [OF demo_stores_ok(1) demo_resolves])

lemma resolve_unit_idempotent_witness:
  "resolve_unit demo_hash 20 (\<lambda>k. 200 + k) demo_unit 20 demo_after = Inr (demo_row, demo_after)"
  by (rule resolve_unit_idempotent [OF demo_stores_ok(1) demo_resolves])

lemma demo_facts_keyed: "facts_keyed demo_hash demo_store" "facts_keyed demo_hash demo_clean"
  using demo_stores_ok by (simp_all add: fact_store_ok_def)

lemma accepted_pass_is_sealed_witness:
  "\<exists>s \<in> set (rd_seals demo_store). se_attempt s = ur_decisive_attempt demo_row
    \<and> ax_verdict (se_axes s) = VERDICT_PASSED \<and> ax_completeness (se_axes s) = EVIDENCE_COMPLETE
    \<and> ax_integrity (se_axes s) = VERIFIED"
  by (rule accepted_pass_is_sealed [OF demo_facts_keyed(1) demo_inserts(1)])
    (simp add: demo_row_def seal_source_def effective_seal_verdict_def demo_seal_def)

lemma accepted_stable_pass_is_unanimous_witness:
  "\<exists>s \<in> set (rd_seals demo_clean). se_attempt s = at_id (demo_passed 1)
    \<and> ax_verdict (se_axes s) = VERDICT_PASSED \<and> ax_completeness (se_axes s) = EVIDENCE_COMPLETE
    \<and> ax_integrity (se_axes s) = VERIFIED"
proof (rule accepted_stable_pass_is_unanimous [OF demo_facts_keyed(2) demo_inserts(2)])
  show "ax_verdict (ur_axes demo_clean_row) = VERDICT_PASSED" "ur_stability demo_clean_row = STABLE"
    by (simp_all add: demo_clean_row_def seal_source_def effective_seal_verdict_def demo_seal_def
        resolve_stability_def rs_verdict_def)
  have "attempts_keyed (rd_attempts demo_clean)" using demo_facts_keyed by (simp add: facts_keyed_def)
  then show "demo_passed 1 \<in> set (closed_attempts demo_clean (ur_unit demo_clean_row))"
    by (simp add: closed_attempts_props demo_clean_row_def demo_unit_def)
      (simp add: demo_clean_def demo_passed_def demo_attempt_def)
qed

subsection \<open>Closing\<close>

lemma demo_closable: "closable demo_unit demo_lost SOURCE_INFRA_ERROR ''INFRA_LOST'' 5 6"
  by code_simp

lemma closure_notice_accepted_witness:
  "attempt (build_closure_notice demo_hash 7 demo_lost SOURCE_INFRA_ERROR ''INFRA_LOST'' 6)
     (\<lambda>n. insert_closure demo_hash 6 n demo_gap) = Inr (demo_gap\<lparr>rd_notices := [demo_notice]\<rparr>)"
  using closure_notice_accepted [OF demo_stores_ok(2) digests_demo _ _ demo_closable _ demo_notice_def]
  by (simp add: demo_gap_def seal_of_def first_row_def demo_keys)

lemma close_without_seal_failures_witness:
  "(\<exists>code. ProjectionError ''RESULT_CLOSURE_STATUS_CONFLICT'' = ProjectionError code)
    \<or> ProjectionError ''RESULT_CLOSURE_STATUS_CONFLICT'' = DatabaseFailure UniqueViolation"
proof (rule close_without_seal_failures [OF demo_stores_ok(2) digests_demo])
  show "demo_unit \<in> set (rd_units demo_gap)" "demo_lost \<in> set (rd_attempts demo_gap)"
    by (simp_all add: demo_gap_def)
  show "safe_reason ''CANCELED''" "\<forall>closed. at_closed_at demo_lost = Some closed \<longrightarrow> closed \<le> 6"
    by code_simp (simp add: demo_lost_def demo_attempt_def)
  show "close_without_seal demo_hash 6 demo_ids demo_unit demo_lost SOURCE_CANCELED ''CANCELED'' 6 demo_gap
      = Inl (ProjectionError ''RESULT_CLOSURE_STATUS_CONFLICT'')"
    by (simp add: close_without_seal_def demo_scopes)
      (simp add: require_closure_source_def ensure_def demo_lost_def demo_attempt_def)
qed

subsection \<open>Hygiene\<close>

text \<open>
  The lost attempt needed no cleanup; the passed one ran on a fixture that was cleaned without
  having created a resource.  In the second store the only closed attempt has number 2.
\<close>

definition demo_fixture :: fixture_run where
  "demo_fixture = \<lparr>fr_id = 11, fr_tenant = 1, fr_project = 2, fr_environment = 35, fr_blueprint = 33,
     fr_kind = FIXTURE_EXECUTION, fr_execution_id = fixture_execution_id 6,
     fr_plan_digest = demo_digest CHR ''a'', fr_status = FIXTURE_RELEASED,
     fr_cleanup_state = STATE_CLEANED, fr_cleanup_generation = 1, fr_requested_at = 1, fr_revision = 4,
     fr_updated_at = 6, fr_resources = [], fr_cleanup_attempts = [], fr_nodes = [],
     fr_manifest_digest = None\<rparr>"

definition demo_fixture_binding :: fixture_binding where
  "demo_fixture_binding = \<lparr>fb_id = 12, fb_scope = demo_scope, fb_unit = 4, fb_attempt = 6,
     fb_fixture_run = 11, fb_blueprint = 33, fb_environment = 35,
     fb_plan_digest = demo_digest CHR ''a'', fb_created_at = 2, fb_hash = demo_digest CHR ''a''\<rparr>"

definition demo_cleanup :: "task_attempt list \<Rightarrow> result_db" where
  "demo_cleanup attempts = (demo_db attempts [])\<lparr>rd_fixtures := [demo_fixture],
     rd_bindings := [demo_fixture_binding]\<rparr>"

definition demo_inputs :: "hygiene_input list" where
  "demo_inputs = [not_required_input demo_hash demo_lost,
     fixture_hygiene_input demo_hash (demo_passed 2) demo_fixture_binding demo_fixture HYGIENE_CLEANED]"

definition demo_hygiene :: hygiene_resolution where
  "demo_hygiene = hygiene_resolution_of demo_hash demo_ids demo_unit 10 demo_inputs None"

lemma demo_cleanup_fields [simp]:
  "rd_attempts (demo_cleanup as) = as" "rd_units (demo_cleanup as) = [demo_unit]"
  "rd_fixtures (demo_cleanup as) = [demo_fixture]"
  "rd_bindings (demo_cleanup as) = [demo_fixture_binding]" "rd_hygiene (demo_cleanup as) = []"
  by (simp_all add: demo_cleanup_def demo_db_def)

lemma demo_fixture_keys [simp]:
  "fb_id demo_fixture_binding = 12" "fb_scope demo_fixture_binding = demo_scope"
  "fb_unit demo_fixture_binding = 4" "fb_attempt demo_fixture_binding = 6"
  "fb_fixture_run demo_fixture_binding = 11" "fr_id demo_fixture = 11" "fr_resources demo_fixture = []"
  "fr_nodes demo_fixture = []" "fr_cleanup_attempts demo_fixture = []"
  by (simp_all add: demo_fixture_binding_def demo_fixture_def)

lemma demo_cleanup_rows:
  "fixture_binding_valid demo_hash demo_fixture_binding" "attempts_keyed [demo_passed 2]"
  by code_simp+

lemma demo_cleanup_ok:
  "hygiene_store_ok demo_hash (demo_cleanup [demo_lost, demo_passed 2])"
  "hygiene_store_ok demo_hash (demo_cleanup [demo_passed 2])"
  by (simp_all add: hygiene_store_ok_def bindings_keyed_def attempt_exists_def hygienes_keyed_def
      chained_def demo_cleanup_rows demo_rows_valid demo_keys)

lemma demo_bindings:
  "binding_of (demo_cleanup as) demo_lost = None"
  "binding_of (demo_cleanup as) (demo_passed n) = Some demo_fixture_binding"
  "get_fixture_run (demo_cleanup as) 11 = Some demo_fixture"
  by (simp_all add: binding_of_def get_fixture_run_def first_row_def demo_keys)

lemma demo_closed:
  "closed_attempts (demo_cleanup [demo_lost, demo_passed 2]) 4 = [demo_lost, demo_passed 2]"
  "closed_attempts (demo_cleanup [demo_passed 2]) 4 = [demo_passed 2]"
  by (simp_all add: closed_attempts_def demo_reads demo_scopes)

lemma demo_attempts_agree:
  "observation_agrees (demo_cleanup as) demo_lost" "observation_agrees (demo_cleanup as) (demo_passed n)"
  by (simp_all add: observation_agrees_def demo_bindings opt_all_def observations_agree_iff uncertain_nodes_def)
    code_simp

lemma demo_inputs_valid:
  "hygiene_input_valid (not_required_input demo_hash demo_lost)"
  "hygiene_input_valid
     (fixture_hygiene_input demo_hash (demo_passed 2) demo_fixture_binding demo_fixture HYGIENE_CLEANED)"
  by code_simp+

lemma demo_listed_bindings:
  "list_fixture_bindings_for_unit demo_hash (demo_cleanup [demo_lost, demo_passed 2]) 4
     = Inr [demo_fixture_binding]"
  by (simp add: list_fixture_bindings_for_unit_def rows_matching_def model_rows_def demo_keys demo_cleanup_rows)

lemma demo_gathered:
  "gather_inputs demo_hash (demo_cleanup as) demo_unit (bindings_by_attempt [demo_fixture_binding])
     [demo_lost, demo_passed 2] = Inr (Some demo_inputs)"
proof -
  have "require_hygiene_scope demo_unit demo_lost = Inr ()"
    "require_hygiene_scope demo_unit (demo_passed 2) = Inr ()" "at_hygiene demo_lost = CLEANUP_NOT_REQUIRED"
    by code_simp+
  moreover have "fixture_input demo_hash (demo_cleanup as) demo_unit (demo_passed 2) demo_fixture_binding
      = Inr (fixture_hygiene_input demo_hash (demo_passed 2) demo_fixture_binding demo_fixture HYGIENE_CLEANED)"
  proof -
    have "require_binding_scope demo_unit (demo_passed 2) demo_fixture = Inr ()"
      "require_exact_binding demo_fixture_binding demo_unit (demo_passed 2) demo_fixture = Inr ()"
      "fixture_data_hygiene (fr_cleanup_state demo_fixture) l e = Inr HYGIENE_CLEANED" for l e
      by (code_simp, code_simp, simp add: demo_fixture_def fixture_data_hygiene_def)
    then show ?thesis
      by (simp add: fixture_input_def demo_bindings demo_inputs_valid ensure_def Let_def)
  qed
  ultimately show ?thesis
    by (simp add: bindings_by_attempt_def demo_keys demo_inputs_valid demo_inputs_def ensure_def Let_def)
qed

lemma demo_hygiene_valid: "hygiene_resolution_valid demo_hash demo_hygiene"
  by code_simp

lemma demo_projected:
  "project_unit demo_hash demo_ids demo_unit 10 (demo_cleanup [demo_lost, demo_passed 2])
     = Inr (Some demo_hygiene, append_outbox (hygiene_resolved_event demo_hygiene)
         ((demo_cleanup [demo_lost, demo_passed 2])\<lparr>rd_hygiene := [demo_hygiene]\<rparr>))"
proof -
  have "at_number demo_lost = 1" "at_number (demo_passed 2) = 2"
    by (simp_all add: demo_lost_def demo_passed_def demo_attempt_def)
  then show ?thesis
    using project_unit_appends [OF demo_cleanup_ok(1), of demo_unit "[demo_fixture_binding]"
        demo_inputs None demo_hygiene demo_ids 10]
    by (simp add: demo_keys demo_listed_bindings demo_closed demo_attempts_agree demo_gathered demo_hygiene_valid
        latest_by_def first_row_def rows_matching_def opt_all_def upt_rec
        del: gather_inputs.simps flip: demo_hygiene_def)
qed

lemma unit_hygiene_is_worst_witness:
  "HYGIENE_CLEANED = Max (hi_data_hygiene ` set demo_inputs)"
  using unit_hygiene_is_worst [of demo_inputs]
  by (simp add: demo_inputs_def resolve_unit_data_hygiene_def hygiene_of_states_def)

lemma project_unit_failures_witness:
  "(\<exists>code. ProjectionError ''RESULT_HYGIENE_ATTEMPT_SEQUENCE_INVALID'' = ProjectionError code)
    \<or> ProjectionError ''RESULT_HYGIENE_ATTEMPT_SEQUENCE_INVALID'' = ModelInvalid
    \<or> ProjectionError ''RESULT_HYGIENE_ATTEMPT_SEQUENCE_INVALID'' = DatabaseFailure UniqueViolation"
proof (rule project_unit_failures [OF demo_cleanup_ok(2)])
  show "demo_unit \<in> set (rd_units (demo_cleanup [demo_passed 2]))"
    by (simp add: demo_cleanup_def demo_db_def)
  show "list_all (observation_agrees (demo_cleanup [demo_passed 2]))
      (closed_attempts (demo_cleanup [demo_passed 2]) (eu_id demo_unit))"
    by (simp add: demo_keys demo_closed demo_attempts_agree)
  show "project_unit demo_hash demo_ids demo_unit 10 (demo_cleanup [demo_passed 2])
      = Inl (ProjectionError ''RESULT_HYGIENE_ATTEMPT_SEQUENCE_INVALID'')"
    by (simp add: project_unit_def demo_keys demo_closed ensure_def)
      (simp add: demo_passed_def demo_attempt_def)
qed

lemma demo_keeps_apart: "keeps_apart demo_hash (demo_cleanup [demo_lost, demo_passed 2])"
proof -
  have same: "isoformat 5 = postgres_time 5" by code_simp
  have "service_observation demo_fixture = database_observation demo_fixture"
    by (simp add: observations_agree_iff uncertain_nodes_def)
  then show ?thesis
    by (simp add: keeps_apart_def observed_documents_def)
      (simp add: database_observation_def observation_json_def no_cleanup_json_def demo_hash_def
        demo_digest_def demo_lost_def demo_passed_def demo_attempt_def same)
qed

lemma demo_projection_wrote:
  "append_outbox e (db\<lparr>rd_hygiene := [r]\<rparr>) \<noteq> db"
proof
  assume "append_outbox e (db\<lparr>rd_hygiene := [r]\<rparr>) = db"
  then have "rd_outbox (append_outbox e (db\<lparr>rd_hygiene := [r]\<rparr>)) = rd_outbox db" by simp
  then show False by (simp add: append_outbox_def)
qed

lemma written_hygiene_saw_no_resource_witness:
  "hi_resources (demo_inputs ! 1) = 0"
  by (rule written_hygiene_saw_no_resource
      [OF demo_cleanup_ok(1) demo_keeps_apart demo_projected demo_projection_wrote])
    (simp_all add: demo_hygiene_def demo_inputs_def)

lemma written_hygiene_saw_no_trailing_zero_witness:
  "\<not> trailing_zero (at_updated_at demo_lost)"
  by (rule written_hygiene_saw_no_trailing_zero
      [OF demo_cleanup_ok(1) demo_keeps_apart demo_projected demo_projection_wrote])
    (simp_all add: demo_keys demo_closed demo_bindings)

end
