(* ===== verification/Task_Snapshot.thy ===== *)
theory Task_Snapshot
  imports Hygiene_Projection
begin

text \<open>
  The snapshot of a run over the latest resolutions of its units: \<open>snapshot_task\<close> (the
  quality-final snapshot) and \<open>snapshot_task_fully_resolved\<close> (bound to terminal cleanup) of
  \<^verbatim>\<open>application/result_projection.py\<close>, and the table with the constraints of the migrations
  0034, 0036 and 0037 and the triggers that recount every quantity in SQL.
\<close>

subsection \<open>Counting\<close>

definition tally :: "('r \<Rightarrow> 'v) \<Rightarrow> 'r list \<Rightarrow> 'v \<Rightarrow> nat" where
  "tally f rs v = length (filter (\<lambda>r. f r = v) rs)"

definition verdict_counts_of :: "unit_resolution list \<Rightarrow> verdict_counts" where
  "verdict_counts_of rs = (let n = tally (\<lambda>r. ax_verdict (ur_axes r)) rs in
     \<lparr>vc_passed = n VERDICT_PASSED, vc_failed = n VERDICT_FAILED,
      vc_inconclusive = n VERDICT_INCONCLUSIVE, vc_not_evaluated = n VERDICT_NOT_EVALUATED\<rparr>)"

definition count_verdicts :: "unit_resolution list \<Rightarrow> failure + verdict_counts" where
  "count_verdicts rs =
     attempt (ensure (tally (\<lambda>r. ax_verdict (ur_axes r)) rs VERDICT_PENDING = 0)
       (ProjectionError ''RESULT_SNAPSHOT_VERDICT_PENDING'')) (\<lambda>_. Inr (verdict_counts_of rs))"

definition axis_distributions_of :: "data_hygiene list \<Rightarrow> unit_resolution list \<Rightarrow> axis_distributions" where
  "axis_distributions_of hygienes rs =
     (let h = tally id hygienes; c = tally (\<lambda>r. ax_completeness (ur_axes r)) rs;
          i = tally (\<lambda>r. ax_integrity (ur_axes r)) rs; f = tally (\<lambda>r. ax_influence (ur_axes r)) rs;
          s = tally ur_stability rs; x = tally (\<lambda>r. ax_outcome_class (ur_axes r)) rs in
      \<lparr>ad_data_hygiene = \<lparr>hc_pending = h HYGIENE_PENDING, hc_cleaned = h HYGIENE_CLEANED,
         hc_cleanup_failed = h HYGIENE_CLEANUP_FAILED, hc_leaked = h HYGIENE_LEAKED,
         hc_not_applicable = h HYGIENE_NOT_APPLICABLE\<rparr>,
       ad_completeness = \<lparr>cc_pending = c EVIDENCE_PENDING, cc_complete = c EVIDENCE_COMPLETE,
         cc_partial = c EVIDENCE_PARTIAL, cc_missing = c EVIDENCE_MISSING,
         cc_not_applicable = c EVIDENCE_NOT_APPLICABLE\<rparr>,
       ad_integrity = \<lparr>ic_unverified = i UNVERIFIED, ic_verified = i VERIFIED, ic_invalid = i INVALID\<rparr>,
       ad_influence = \<lparr>fc_autonomous = f AUTONOMOUS, fc_manual_assisted = f MANUAL_ASSISTED,
         fc_manual_only = f MANUAL_ONLY\<rparr>,
       ad_stability = \<lparr>sc_unknown = s STABILITY_UNKNOWN, sc_stable = s STABLE,
         sc_infra_recovered = s INFRA_RECOVERED, sc_flaky_suspect = s FLAKY_SUSPECT,
         sc_flaky_confirmed = s FLAKY_CONFIRMED\<rparr>,
       ad_outcome_class = \<lparr>oc_business = x OUTCOME_BUSINESS, oc_dependency = x OUTCOME_DEPENDENCY,
         oc_platform = x OUTCOME_PLATFORM, oc_user = x OUTCOME_USER,
         oc_automation = x OUTCOME_AUTOMATION, oc_policy = x OUTCOME_POLICY,
         oc_unknown = x OUTCOME_UNKNOWN\<rparr>\<rparr>)"

definition trusted_passes :: "unit_resolution list \<Rightarrow> nat" where
  "trusted_passes rs = length (filter (\<lambda>r. ax_verdict (ur_axes r) = VERDICT_PASSED
     \<and> ax_completeness (ur_axes r) = EVIDENCE_COMPLETE \<and> ax_integrity (ur_axes r) = VERIFIED) rs)"

definition autonomous_passes :: "unit_resolution list \<Rightarrow> nat" where
  "autonomous_passes rs = length (filter (\<lambda>r. ax_verdict (ur_axes r) = VERDICT_PASSED
     \<and> ax_influence (ur_axes r) = AUTONOMOUS) rs)"

text \<open>The latest of a non-empty list of instants.\<close>

fun latest_instant :: "instant list \<Rightarrow> instant" where
  "latest_instant [] = 0"
| "latest_instant (t # ts) = foldr max ts t"

subsection \<open>The inputs\<close>

definition unit_covered :: "task_run \<Rightarrow> nat \<times> unit_binding \<times> execution_unit \<times> unit_resolution \<Rightarrow> bool" where
  "unit_covered run = (\<lambda>(ordinal, b, u, r).
     ub_ordinal b = int ordinal \<and> b = eu_binding u \<and> eu_lifecycle u = LIFE_CLOSED
     \<and> eu_scope u = tr_scope run \<and> eu_manifest_hash u = tr_manifest_hash run
     \<and> ur_scope r = tr_scope run \<and> ur_unit r = eu_id u
     \<and> ur_manifest_hash r = tr_manifest_hash run \<and> ur_unit_key r = eu_unit_key u)"

definition load_quality_inputs ::
    "task_run \<Rightarrow> run_manifest \<Rightarrow> result_db \<Rightarrow> failure + execution_unit list \<times> unit_resolution list" where
  "load_quality_inputs run manifest db =
     attempt (ensure (tr_lifecycle run = LIFE_CLOSED \<and> tr_closed_at run \<noteq> None)
       (ProjectionError ''RESULT_SNAPSHOT_RUN_NOT_CLOSED'')) (\<lambda>_.
     attempt (ensure (tr_materialization run = SEALED
         \<and> tr_unit_count run = Some (int (length (mf_units manifest)))
         \<and> tr_first_attempt_count run = Some (int (length (mf_units manifest)))
         \<and> mf_scope manifest = tr_scope run \<and> mf_hash manifest = tr_manifest_hash run)
       (ProjectionError ''RESULT_SNAPSHOT_MANIFEST_INVALID'')) (\<lambda>_.
     let units = list_units db (sc_run (tr_scope run)) in
     attempt (list_latest_resolutions_for_task db (sc_run (tr_scope run))) (\<lambda>resolutions.
     attempt (ensure (length units = length (mf_units manifest)
         \<and> length resolutions = length (mf_units manifest)
         \<and> list_all (unit_covered run) (enumerate 1 (zip (mf_units manifest) (zip units resolutions))))
       (ProjectionError ''RESULT_SNAPSHOT_UNIT_COVERAGE_INVALID'')) (\<lambda>_. Inr (units, resolutions)))))"

definition hygiene_covered :: "task_run \<Rightarrow> execution_unit \<times> hygiene_resolution \<Rightarrow> bool" where
  "hygiene_covered run = (\<lambda>(u, h). hr_scope h = tr_scope run \<and> hr_unit h = eu_id u
     \<and> hr_manifest_hash h = tr_manifest_hash run \<and> hr_unit_key h = eu_unit_key u)"

definition terminal_hygiene :: "data_hygiene list" where
  "terminal_hygiene = [HYGIENE_CLEANED, HYGIENE_LEAKED, HYGIENE_NOT_APPLICABLE]"

subsection \<open>The snapshot\<close>

text \<open>
  The two services build the same model; without hygiene resolutions it is \<open>QUALITY_FINAL\<close> under
  version 0.1 of the policy, with them \<open>FULLY_RESOLVED\<close> under version 0.2.
\<close>

definition snapshot_hygienes :: "unit_resolution list \<Rightarrow> hygiene_resolution list option \<Rightarrow> data_hygiene list" where
  "snapshot_hygienes rs hygienes = (case hygienes of
     None \<Rightarrow> map (\<lambda>r. ax_data_hygiene (ur_axes r)) rs | Some hs \<Rightarrow> map hr_data_hygiene hs)"

definition snapshot_watermark :: "unit_resolution list \<Rightarrow> hygiene_resolution list option \<Rightarrow> instant" where
  "snapshot_watermark rs hygienes = latest_instant (map ur_created_at rs
     @ (case hygienes of None \<Rightarrow> [] | Some hs \<Rightarrow> map hr_created_at hs))"

definition task_snapshot_of ::
    "hashing \<Rightarrow> uuid \<Rightarrow> task_run \<Rightarrow> nat \<Rightarrow> string \<Rightarrow> unit_resolution list \<Rightarrow> hygiene_resolution list option
      \<Rightarrow> verdict_counts \<Rightarrow> task_snapshot option \<Rightarrow> instant \<Rightarrow> task_snapshot" where
  "task_snapshot_of H i run count set_hash rs hygienes vc latest created =
     (let content = \<lparr>ss_schema_version = (if hygienes = None then ''atlas.task-result-snapshot/0.1''
          else ''atlas.task-result-snapshot/0.2''),
        ss_id = i, ss_scope = tr_scope run, ss_manifest_hash = tr_manifest_hash run,
        ss_revision = (case latest of Some l \<Rightarrow> ss_revision l + 1 | None \<Rightarrow> 1),
        ss_finality = (if hygienes = None then QUALITY_FINAL else FULLY_RESOLVED),
        ss_resolution_ids = map ur_id rs, ss_resolution_set_hash = set_hash,
        ss_hygiene_ids = map_option (map hr_id) hygienes,
        ss_hygiene_set_hash = map_option
          (task_result_hygiene_resolution_set_hash H (sc_run (tr_scope run)) (tr_manifest_hash run)) hygienes,
        ss_source_snapshot = None, ss_command = None,
        ss_policy_version = (if hygienes = None then ''0.1.0'' else ''0.2.0''),
        ss_policy_digest = (if hygienes = None then SNAPSHOT_POLICY_DIGEST
          else SNAPSHOT_FULLY_RESOLVED_POLICY_DIGEST),
        ss_watermark = snapshot_watermark rs hygienes, ss_manifest_count = count, ss_verdicts = vc,
        ss_distributions = axis_distributions_of (snapshot_hygienes rs hygienes) rs,
        ss_raw = \<lparr>numerator = vc_passed vc, denominator = count\<rparr>,
        ss_trusted = \<lparr>numerator = trusted_passes rs, denominator = count\<rparr>,
        ss_autonomous = \<lparr>numerator = autonomous_passes rs, denominator = count\<rparr>,
        ss_decisive = \<lparr>numerator = vc_passed vc, denominator = vc_passed vc + vc_failed vc\<rparr>,
        ss_supersedes = map_option ss_id latest, ss_created_at = created\<rparr> in
      snapshot_content.extend content (task_snapshot.fields (task_result_snapshot_hash H content)))"

fun finality_text :: "finality \<Rightarrow> string" where
  "finality_text PROVISIONAL = ''PROVISIONAL''"
| "finality_text QUALITY_FINAL = ''QUALITY_FINAL''"
| "finality_text FULLY_RESOLVED = ''FULLY_RESOLVED''"
| "finality_text REEVALUATED = ''REEVALUATED''"

definition snapshot_created_event :: "task_snapshot \<Rightarrow> domain_event" where
  "snapshot_created_event s = \<lparr>ev_type = ''task.snapshot_created'', ev_aggregate = sc_run (ss_scope s),
     ev_payload = [(''resultSnapshotId'', uuid_json (ss_id s)), (''revision'', JInt (ss_revision s)),
       (''finality'', JString (finality_text (ss_finality s))),
       (''inputResolutionSetHash'', JString (ss_resolution_set_hash s)),
       (''snapshotHash'', JString (ss_hash s)),
       (''projectionWatermark'', JString (isoformat (ss_watermark s)))]
       @ (case ss_hygiene_set_hash s of None \<Rightarrow> []
          | Some h \<Rightarrow> [(''inputHygieneResolutionSetHash'', JString h)]),
     ev_occurred_at = ss_created_at s\<rparr>"

subsection \<open>The triggers\<close>

text \<open>
  Phases (migration 0037): a run starts \<open>QUALITY_FINAL\<close> and its snapshots never go back from
  \<open>FULLY_RESOLVED\<close> or \<open>REEVALUATED\<close>.
\<close>

definition phase_follows :: "finality \<Rightarrow> finality \<Rightarrow> bool" where
  "phase_follows previous new =
     (\<not> (previous \<in> {FULLY_RESOLVED, REEVALUATED} \<and> new = QUALITY_FINAL)
      \<and> \<not> (previous = REEVALUATED \<and> new = FULLY_RESOLVED))"

definition guard_snapshot_phase :: "task_snapshot list \<Rightarrow> task_snapshot \<Rightarrow> bool" where
  "guard_snapshot_phase rows s =
     (case latest_by ss_revision (\<lambda>x. sc_run (ss_scope x) = sc_run (ss_scope s)) rows of
        Some p \<Rightarrow> ss_revision s = ss_revision p + 1 \<and> opt_all (\<lambda>i. i = ss_id p) (ss_supersedes s)
          \<and> phase_follows (ss_finality p) (ss_finality s)
      | None \<Rightarrow> ss_revision s = 1 \<and> ss_supersedes s = None \<and> ss_finality s = QUALITY_FINAL)"

definition guard_snapshot_run :: "instant \<Rightarrow> result_db \<Rightarrow> task_snapshot \<Rightarrow> bool" where
  "guard_snapshot_run now db s = list_ex (\<lambda>run. tr_scope run = ss_scope s \<and> tr_lifecycle run = LIFE_CLOSED
     \<and> tr_closed_at run \<noteq> None \<and> tr_manifest_hash run = ss_manifest_hash s
     \<and> tr_materialization run = SEALED
     \<and> opt_all (\<lambda>n. n = int (ss_manifest_count s)) (tr_unit_count run)
     \<and> ss_created_at s = now) (rd_runs db)"

text \<open>The latest resolution of every unit of the run, in the order of the manifest.\<close>

definition units_of_scope :: "result_db \<Rightarrow> task_scope \<Rightarrow> execution_unit list" where
  "units_of_scope db scope = sort_key (\<lambda>u. ub_ordinal (eu_binding u))
     (rows_matching (\<lambda>u. eu_scope u = scope) (rd_units db))"

definition joined_resolutions :: "result_db \<Rightarrow> task_scope \<Rightarrow> (execution_unit \<times> unit_resolution) list" where
  "joined_resolutions db scope = List.map_filter (\<lambda>u. map_option (Pair u)
     (latest_by ur_revision (\<lambda>r. ur_unit r = eu_id u \<and> ur_scope r = eu_scope u) (rd_resolutions db)))
     (units_of_scope db scope)"

text \<open>Its inputs are still exactly the terminal facts of the closed attempts.\<close>

definition resolution_fresh :: "result_db \<Rightarrow> unit_resolution \<Rightarrow> bool" where
  "resolution_fresh db r = (let rows = terminal_rows db (ur_unit r) in
     list_all (\<lambda>row. row_seal_id row \<noteq> None \<or> row_closure_id row \<noteq> None) rows
     \<and> List.map_filter row_seal_id rows = ur_seal_ids r
     \<and> List.map_filter row_closure_id rows = ur_closure_ids r)"

definition fresh_resolutions :: "result_db \<Rightarrow> task_scope \<Rightarrow> (execution_unit \<times> unit_resolution) list" where
  "fresh_resolutions db scope = filter (\<lambda>(u, r). resolution_fresh db r) (joined_resolutions db scope)"

definition joined_hygienes :: "result_db \<Rightarrow> task_scope \<Rightarrow> (execution_unit \<times> hygiene_resolution) list" where
  "joined_hygienes db scope = List.map_filter (\<lambda>u. map_option (Pair u)
     (latest_by hr_revision (\<lambda>r. hr_unit r = eu_id u \<and> hr_scope r = eu_scope u) (rd_hygiene db)))
     (units_of_scope db scope)"

text \<open>An input of a hygiene resolution still describes its attempt and its fixture.\<close>

definition fixture_input_fresh :: "fixture_binding \<Rightarrow> fixture_run \<Rightarrow> hygiene_input \<Rightarrow> bool" where
  "fixture_input_fresh b f i =
     (opt_all (\<lambda>x. x = fb_id b) (hi_binding_id i) \<and> opt_all (\<lambda>x. x = fr_id f) (hi_fixture_run_id i)
     \<and> opt_all (\<lambda>x. x = fr_revision f) (hi_fixture_revision i)
     \<and> opt_all (\<lambda>x. x = fixture_status_text (fr_status f)) (hi_fixture_status i)
     \<and> opt_all (\<lambda>x. x = fr_cleanup_generation f) (hi_cleanup_generation i)
     \<and> opt_all (\<lambda>x. x = fr_plan_digest f) (hi_plan_digest i)
     \<and> hi_observed_at i = fr_updated_at f
     \<and> hi_data_hygiene i = expected_fixture_hygiene (fr_cleanup_state f))"

definition input_fresh :: "result_db \<Rightarrow> hygiene_resolution \<Rightarrow> nat \<times> hygiene_input \<Rightarrow> bool" where
  "input_fresh db h = (\<lambda>(n, i).
     case first_row (\<lambda>a. at_id a = hi_attempt i \<and> at_unit a = hr_unit h \<and> at_scope a = hr_scope h)
       (rd_attempts db) of
       None \<Rightarrow> False
     | Some a \<Rightarrow> at_lifecycle a = LIFE_CLOSED \<and> at_number a = int n \<and> hi_number i = int n \<and>
         (let binding = first_row (\<lambda>b. fb_attempt b = at_id a) (rd_bindings db) in
          case hi_source i of
            EXPLICIT_NOT_REQUIRED \<Rightarrow> at_hygiene a = CLEANUP_NOT_REQUIRED \<and> binding = None
              \<and> hi_data_hygiene i = HYGIENE_NOT_APPLICABLE
              \<and> hi_observed_at i = (case at_cleanup_resolved_at a of Some t \<Rightarrow> t | None \<Rightarrow> at_updated_at a)
          | FIXTURE_RUN \<Rightarrow> (case binding of None \<Rightarrow> False | Some b \<Rightarrow>
              (case first_row (\<lambda>f. fr_id f = fb_fixture_run b) (rd_fixtures db) of None \<Rightarrow> False
               | Some f \<Rightarrow> fixture_input_fresh b f i))))"

definition hygiene_fresh :: "result_db \<Rightarrow> hygiene_resolution \<Rightarrow> bool" where
  "hygiene_fresh db h = (length (hr_inputs h)
       = length (rows_matching (\<lambda>a. at_unit a = hr_unit h \<and> at_lifecycle a = LIFE_CLOSED) (rd_attempts db))
     \<and> list_all (input_fresh db h) (enumerate 1 (hr_inputs h)))"

definition fresh_hygienes :: "result_db \<Rightarrow> task_scope \<Rightarrow> (execution_unit \<times> hygiene_resolution) list" where
  "fresh_hygienes db scope = filter (\<lambda>(u, h). hygiene_fresh db h) (joined_hygienes db scope)"

text \<open>
  The inputs of the two set digests are numbered by the ordinals of the units.  A snapshot over no
  unit at all is left to the check on the manifest count.
\<close>

definition ordinal_of :: "execution_unit \<Rightarrow> nat" where
  "ordinal_of u = nat (ub_ordinal (eu_binding u))"

definition guard_resolution_set :: "hashing \<Rightarrow> result_db \<Rightarrow> task_snapshot \<Rightarrow> bool" where
  "guard_resolution_set H db s = (let rows = fresh_resolutions db (ss_scope s); vc = verdict_counts_of (map snd rows) in
     length rows = ss_manifest_count s
     \<and> list_all (\<lambda>(u, r). eu_lifecycle u = LIFE_CLOSED) rows
     \<and> map (\<lambda>(u, r). ur_id r) rows = ss_resolution_ids s
     \<and> verdict_total vc = ss_manifest_count s
     \<and> ss_resolution_set_hash s = H (ResolutionSet (sc_run (ss_scope s)) (ss_manifest_hash s)
         (map (\<lambda>(u, r). (ordinal_of u, eu_id u, ur_id r, ur_revision r, ur_input_set_hash r)) rows)))"

definition guard_hygiene_set :: "hashing \<Rightarrow> result_db \<Rightarrow> task_snapshot \<Rightarrow> bool" where
  "guard_hygiene_set H db s = (let rows = fresh_hygienes db (ss_scope s) in
     list_ex (\<lambda>q. sc_run (ss_scope q) = sc_run (ss_scope s) \<and> ss_finality q = QUALITY_FINAL
         \<and> ss_resolution_set_hash q = ss_resolution_set_hash s
         \<and> ss_policy_digest q = SNAPSHOT_POLICY_DIGEST) (rd_snapshots db)
     \<and> length rows = ss_manifest_count s
     \<and> list_all (\<lambda>(u, h). hr_data_hygiene h \<in> set terminal_hygiene) rows
     \<and> opt_all (\<lambda>ids. map (\<lambda>(u, h). hr_id h) rows = ids) (ss_hygiene_ids s)
     \<and> opt_all (\<lambda>d. d = H (HygieneSet (sc_run (ss_scope s)) (ss_manifest_hash s)
         (map (\<lambda>(u, h). (ordinal_of u, eu_id u, hr_id h, hr_revision h, hr_input_set_hash h,
            hr_data_hygiene h, hr_policy_digest h, hr_hash h)) rows))) (ss_hygiene_set_hash s))"

definition guard_aggregation :: "result_db \<Rightarrow> task_snapshot \<Rightarrow> bool" where
  "guard_aggregation db s =
     (let rs = map snd (fresh_resolutions db (ss_scope s));
          hs = (if ss_finality s = FULLY_RESOLVED then Some (map snd (fresh_hygienes db (ss_scope s))) else None);
          vc = verdict_counts_of rs; count = ss_manifest_count s in
      ss_watermark s = snapshot_watermark rs hs \<and> ss_verdicts s = vc
      \<and> ss_distributions s = axis_distributions_of (snapshot_hygienes rs hs) rs
      \<and> ss_raw s = \<lparr>numerator = vc_passed vc, denominator = count\<rparr>
      \<and> ss_trusted s = \<lparr>numerator = trusted_passes rs, denominator = count\<rparr>
      \<and> ss_autonomous s = \<lparr>numerator = autonomous_passes rs, denominator = count\<rparr>
      \<and> ss_decisive s = \<lparr>numerator = vc_passed vc, denominator = vc_passed vc + vc_failed vc\<rparr>)"

text \<open>The trigger of migration 0036; its chain is the phase trigger's, which runs before it.\<close>

definition guard_snapshot :: "hashing \<Rightarrow> instant \<Rightarrow> result_db \<Rightarrow> task_snapshot \<Rightarrow> bool" where
  "guard_snapshot H now db s = (guard_snapshot_run now db s \<and> guard_resolution_set H db s
     \<and> (ss_finality s = FULLY_RESOLVED \<longrightarrow> guard_hygiene_set H db s)
     \<and> guard_aggregation db s
     \<and> ss_schema_version s = (if ss_finality s = FULLY_RESOLVED then ''atlas.task-result-snapshot/0.2''
         else ''atlas.task-result-snapshot/0.1'')
     \<and> task_result_snapshot_hash H s = ss_hash s)"

text \<open>The trigger of migration 0037 for a re-evaluated snapshot: nothing of the source changes.\<close>

definition same_result :: "task_snapshot \<Rightarrow> task_snapshot \<Rightarrow> bool" where
  "same_result s source =
     (ss_resolution_ids s = ss_resolution_ids source
     \<and> ss_resolution_set_hash s = ss_resolution_set_hash source
     \<and> ss_hygiene_ids s = ss_hygiene_ids source
     \<and> ss_hygiene_set_hash s = ss_hygiene_set_hash source
     \<and> ss_watermark s = ss_watermark source \<and> ss_manifest_count s = ss_manifest_count source
     \<and> ss_verdicts s = ss_verdicts source \<and> ss_distributions s = ss_distributions source
     \<and> ss_raw s = ss_raw source \<and> ss_trusted s = ss_trusted source
     \<and> ss_autonomous s = ss_autonomous source \<and> ss_decisive s = ss_decisive source)"

definition guard_snapshot_reevaluated :: "hashing \<Rightarrow> instant \<Rightarrow> result_db \<Rightarrow> task_snapshot \<Rightarrow> bool" where
  "guard_snapshot_reevaluated H now db s = (guard_snapshot_run now db s \<and>
     (case first_row (\<lambda>x. Some (ss_id x) = ss_source_snapshot s \<and> ss_scope x = ss_scope s)
       (rd_snapshots db) of
        None \<Rightarrow> False
      | Some source \<Rightarrow> ss_finality source = FULLY_RESOLVED \<and> ss_manifest_hash source = ss_manifest_hash s \<and>
        (case first_row (\<lambda>c. Some (rc_id c) = ss_command s \<and> rc_scope c = ss_scope s) (rd_commands db) of
           None \<Rightarrow> False
         | Some c \<Rightarrow> rc_source_snapshot c = ss_id source
             \<and> rc_policy_digest c = SNAPSHOT_REEVALUATED_POLICY_DIGEST \<and> rc_requested_at c = ss_created_at s)
        \<and> ss_finality s = REEVALUATED \<and> ss_policy_version s = ''0.3.0''
        \<and> ss_policy_digest s = SNAPSHOT_REEVALUATED_POLICY_DIGEST \<and> same_result s source)
     \<and> ss_schema_version s = ''atlas.task-result-snapshot/0.3''
     \<and> task_result_snapshot_hash H s = ss_hash s)"

subsection \<open>The table\<close>

definition snapshot_check :: "task_snapshot \<Rightarrow> bool" where
  "snapshot_check s = (1 \<le> ss_revision s
     \<and> ((ss_revision s = 1 \<and> ss_supersedes s = None) \<or> (1 < ss_revision s \<and> ss_supersedes s \<noteq> None))
     \<and> 1 \<le> ss_manifest_count s \<and> ss_manifest_count s \<le> 100000
     \<and> length (ss_resolution_ids s) = ss_manifest_count s
     \<and> list_all digest_pattern [ss_manifest_hash s, ss_resolution_set_hash s, ss_policy_digest s, ss_hash s]
     \<and> opt_all digest_pattern (ss_hygiene_set_hash s)
     \<and> (case ss_finality s of
          QUALITY_FINAL \<Rightarrow> ss_hygiene_ids s = None \<and> ss_hygiene_set_hash s = None
            \<and> ss_source_snapshot s = None \<and> ss_command s = None \<and> ss_policy_version s = ''0.1.0''
            \<and> ss_policy_digest s = SNAPSHOT_POLICY_DIGEST
        | FULLY_RESOLVED \<Rightarrow> map_option length (ss_hygiene_ids s) = Some (ss_manifest_count s)
            \<and> ss_hygiene_set_hash s \<noteq> None \<and> ss_source_snapshot s = None \<and> ss_command s = None
            \<and> ss_policy_version s = ''0.2.0'' \<and> ss_policy_digest s = SNAPSHOT_FULLY_RESOLVED_POLICY_DIGEST
        | REEVALUATED \<Rightarrow> map_option length (ss_hygiene_ids s) = Some (ss_manifest_count s)
            \<and> ss_hygiene_set_hash s \<noteq> None \<and> ss_source_snapshot s \<noteq> None \<and> ss_command s \<noteq> None
            \<and> ss_policy_version s = ''0.3.0'' \<and> ss_policy_digest s = SNAPSHOT_REEVALUATED_POLICY_DIGEST
        | PROVISIONAL \<Rightarrow> False)
     \<and> ss_watermark s \<le> ss_created_at s)"

text \<open>
  The keys: id, digest per tenant and revision per run of migration 0034; the inputs per finality of
  the partial indexes of 0036 and 0037, which replace the input key of 0034.
\<close>

definition snapshot_conflicts :: "task_snapshot \<Rightarrow> task_snapshot \<Rightarrow> bool" where
  "snapshot_conflicts x y = (ss_id x = ss_id y
     \<or> (sc_tenant (ss_scope x) = sc_tenant (ss_scope y) \<and> ss_hash x = ss_hash y)
     \<or> (sc_run (ss_scope x) = sc_run (ss_scope y) \<and>
         (ss_revision x = ss_revision y
          \<or> (ss_finality x = ss_finality y \<and> ss_policy_digest x = ss_policy_digest y \<and>
              (case ss_finality x of
                 QUALITY_FINAL \<Rightarrow> ss_resolution_set_hash x = ss_resolution_set_hash y
               | FULLY_RESOLVED \<Rightarrow> ss_resolution_set_hash x = ss_resolution_set_hash y
                   \<and> ss_hygiene_set_hash x = ss_hygiene_set_hash y
               | REEVALUATED \<Rightarrow> ss_source_snapshot x = ss_source_snapshot y
               | PROVISIONAL \<Rightarrow> False)))))"

definition snapshot_references :: "result_db \<Rightarrow> task_snapshot \<Rightarrow> bool" where
  "snapshot_references db s = (list_ex (\<lambda>run. tr_scope run = ss_scope s) (rd_runs db)
     \<and> opt_all (\<lambda>i. list_ex (\<lambda>x. ss_id x = i) (rd_snapshots db)) (ss_supersedes s)
     \<and> opt_all (\<lambda>i. list_ex (\<lambda>x. ss_id x = i) (rd_snapshots db)) (ss_source_snapshot s)
     \<and> opt_all (\<lambda>i. list_ex (\<lambda>c. rc_id c = i) (rd_commands db)) (ss_command s))"

definition insert_snapshot :: "hashing \<Rightarrow> instant \<Rightarrow> task_snapshot \<Rightarrow> result_db \<Rightarrow> failure + result_db" where
  "insert_snapshot H now s db =
     attempt (db_call (ensure (guard_snapshot_phase (rd_snapshots db) s
         \<and> (if ss_finality s = REEVALUATED then guard_snapshot_reevaluated H now db s
            else guard_snapshot H now db s)) TriggerViolation)) (\<lambda>_.
     attempt (db_call (sql_insert snapshot_check snapshot_conflicts s (rd_snapshots db))) (\<lambda>table.
     attempt (db_call (ensure (snapshot_references db s) ForeignKeyViolation)) (\<lambda>_.
       Inr (db\<lparr>rd_snapshots := table\<rparr>))))"

definition snapshot_admitted :: "task_snapshot list \<Rightarrow> task_snapshot \<Rightarrow> bool" where
  "snapshot_admitted rows s = (guard_snapshot_phase rows s \<and> snapshot_check s)"

interpretation snapshots: revision_chain "\<lambda>s. sc_run (ss_scope s)" ss_revision ss_id ss_supersedes snapshot_admitted
  by unfold_locales
    (auto simp: snapshot_admitted_def guard_snapshot_phase_def snapshot_check_def opt_all_def
      split: option.splits)

subsection \<open>The service\<close>

text \<open>\<open>_append_snapshot\<close> after the construction of the model.\<close>

definition append_snapshot ::
    "hashing \<Rightarrow> instant \<Rightarrow> task_snapshot \<Rightarrow> result_db \<Rightarrow> failure + task_snapshot \<times> result_db" where
  "append_snapshot H now s db =
     attempt (ensure (task_snapshot_valid H s) ModelInvalid) (\<lambda>_.
     attempt (insert_snapshot H now s db) (\<lambda>db'. Inr (s, append_outbox (snapshot_created_event s) db')))"

text \<open>\<open>max\<close> over the resolutions' instants, which needs one.\<close>

definition require_watermark ::
    "unit_resolution list \<Rightarrow> hygiene_resolution list option \<Rightarrow> instant \<Rightarrow> failure + unit" where
  "require_watermark rs hygienes created =
     attempt (ensure (rs \<noteq> []) RuntimeFailure) (\<lambda>_.
     ensure (snapshot_watermark rs hygienes \<le> created)
       (ProjectionError ''RESULT_SNAPSHOT_WATERMARK_INVALID''))"

definition snapshot_task ::
    "hashing \<Rightarrow> instant \<Rightarrow> uuid \<Rightarrow> task_run \<Rightarrow> run_manifest \<Rightarrow> instant \<Rightarrow> result_db
      \<Rightarrow> failure + task_snapshot \<times> result_db" where
  "snapshot_task H now i run manifest created db =
     (let run_id = sc_run (tr_scope run) in
      attempt (load_quality_inputs run manifest db) (\<lambda>(_, rs).
      let set_hash = task_result_resolution_set_hash H run_id (tr_manifest_hash run) rs in
      attempt (get_latest_snapshot_for_finality H db run_id QUALITY_FINAL) (\<lambda>quality.
      if opt_all (\<lambda>q. \<not> (ss_resolution_set_hash q = set_hash
          \<and> ss_policy_digest q = SNAPSHOT_POLICY_DIGEST)) quality
      then
        attempt (get_latest_snapshot H db run_id) (\<lambda>latest.
        attempt (ensure (opt_all (\<lambda>l. ss_finality l \<notin> {FULLY_RESOLVED, REEVALUATED}) latest)
          (ProjectionError ''RESULT_SNAPSHOT_FINALITY_ORDER_INVALID'')) (\<lambda>_.
        attempt (require_watermark rs None created) (\<lambda>_.
        attempt (count_verdicts rs) (\<lambda>vc.
        append_snapshot H now
          (task_snapshot_of H i run (length (mf_units manifest)) set_hash rs None vc latest created) db))))
      else Inr (the quality, db))))"

text \<open>The early returns of a run that is not closed or whose cleanup is not terminal are \<open>None\<close>.\<close>

definition append_fully_resolved ::
    "hashing \<Rightarrow> instant \<Rightarrow> uuid \<Rightarrow> task_run \<Rightarrow> run_manifest \<Rightarrow> instant \<Rightarrow> string \<Rightarrow> unit_resolution list
      \<Rightarrow> hygiene_resolution list \<Rightarrow> result_db \<Rightarrow> failure + task_snapshot option \<times> result_db" where
  "append_fully_resolved H now i run manifest created set_hash rs hs db =
     (let run_id = sc_run (tr_scope run);
          hygiene_hash = task_result_hygiene_resolution_set_hash H run_id (tr_manifest_hash run) hs in
      attempt (get_latest_snapshot_for_finality H db run_id FULLY_RESOLVED) (\<lambda>full.
      if opt_all (\<lambda>f. \<not> (ss_resolution_set_hash f = set_hash \<and> ss_hygiene_set_hash f = Some hygiene_hash
          \<and> ss_policy_digest f = SNAPSHOT_FULLY_RESOLVED_POLICY_DIGEST)) full
      then
        attempt (get_latest_snapshot H db run_id) (\<lambda>latest.
        attempt (ensure (latest \<noteq> None) (ProjectionError ''RESULT_SNAPSHOT_QUALITY_FINAL_MISSING'')) (\<lambda>_.
        attempt (ensure (opt_all (\<lambda>l. ss_finality l \<noteq> REEVALUATED) latest)
          (ProjectionError ''RESULT_SNAPSHOT_FINALITY_ORDER_INVALID'')) (\<lambda>_.
        attempt (require_watermark rs (Some hs) created) (\<lambda>_.
        attempt (count_verdicts rs) (\<lambda>vc.
        attempt (append_snapshot H now
          (task_snapshot_of H i run (length (mf_units manifest)) set_hash rs (Some hs) vc latest created) db)
          (\<lambda>(s, db'). Inr (Some s, db')))))))
      else Inr (full, db)))"

definition snapshot_task_fully_resolved ::
    "hashing \<Rightarrow> instant \<Rightarrow> (nat \<Rightarrow> uuid) \<Rightarrow> task_run \<Rightarrow> run_manifest \<Rightarrow> instant \<Rightarrow> result_db
      \<Rightarrow> failure + task_snapshot option \<times> result_db" where
  "snapshot_task_fully_resolved H now ids run manifest created db =
     (if \<not> (tr_lifecycle run = LIFE_CLOSED \<and> tr_closed_at run \<noteq> None) then Inr (None, db) else
      attempt (snapshot_task H now (ids 0) run manifest created db) (\<lambda>(quality, db1).
      attempt (load_quality_inputs run manifest db1) (\<lambda>(units, rs).
      attempt (list_latest_hygiene_resolutions_for_task H db1 (sc_run (tr_scope run))) (\<lambda>hs.
      if length hs \<noteq> length (mf_units manifest) then Inr (None, db1) else
      attempt (ensure (list_all (hygiene_covered run) (zip units hs))
        (ProjectionError ''RESULT_SNAPSHOT_HYGIENE_COVERAGE_INVALID'')) (\<lambda>_.
      if \<not> list_all (\<lambda>h. hr_data_hygiene h \<in> set terminal_hygiene) hs then Inr (None, db1) else
      append_fully_resolved H now (ids 1) run manifest created (ss_resolution_set_hash quality) rs hs db1)))))"

definition snapshot_task_fully_resolved_by_id ::
    "hashing \<Rightarrow> instant \<Rightarrow> (nat \<Rightarrow> uuid) \<Rightarrow> uuid \<Rightarrow> instant \<Rightarrow> result_db
      \<Rightarrow> failure + task_snapshot option \<times> result_db" where
  "snapshot_task_fully_resolved_by_id H now ids run_id created db = (case get_run db run_id of
     None \<Rightarrow> projection_error ''RESULT_SNAPSHOT_RUN_MISSING''
   | Some run \<Rightarrow>
       if \<not> (tr_lifecycle run = LIFE_CLOSED \<and> tr_closed_at run \<noteq> None) then Inr (None, db)
       else (case get_manifest db run_id of
          None \<Rightarrow> projection_error ''RESULT_SNAPSHOT_MANIFEST_INVALID''
        | Some manifest \<Rightarrow> snapshot_task_fully_resolved H now ids run manifest created db))"

end
