(* ===== verification/Snapshot_Rows.thy ===== *)
theory Snapshot_Rows
  imports Task_Snapshot Hygiene_Correct
begin

text \<open>
  The rows a snapshot is taken over, as the service loads them (\<open>load_quality_inputs\<close>) and as the
  triggers join them: on a consistent store the joins give the loaded resolutions, unit by unit in
  the order of the manifest, provided each is still over the current facts of its unit.
\<close>

subsection \<open>The store\<close>

definition resolutions_placed :: "result_db \<Rightarrow> bool" where
  "resolutions_placed db = (distinct (map ur_id (rd_resolutions db))
     \<and> list_all (\<lambda>r. unit_exists db (ur_unit r) (ur_scope r)) (rd_resolutions db))"

definition hygienes_placed :: "result_db \<Rightarrow> bool" where
  "hygienes_placed db = (distinct (map hr_id (rd_hygiene db))
     \<and> list_all (\<lambda>r. unit_exists db (hr_unit r) (hr_scope r)) (rd_hygiene db))"

text \<open>The phases of a run's snapshots in the order of their revisions.\<close>

fun phase :: "finality \<Rightarrow> nat" where
  "phase PROVISIONAL = 0"
| "phase QUALITY_FINAL = 1"
| "phase FULLY_RESOLVED = 2"
| "phase REEVALUATED = 3"

definition phased :: "task_snapshot list \<Rightarrow> bool" where
  "phased rows = list_all (\<lambda>x. list_all (\<lambda>y. sc_run (ss_scope x) = sc_run (ss_scope y)
     \<and> ss_revision x \<le> ss_revision y \<longrightarrow> phase (ss_finality x) \<le> phase (ss_finality y)) rows) rows"

definition snapshots_keyed :: "hashing \<Rightarrow> task_snapshot list \<Rightarrow> bool" where
  "snapshots_keyed H rows = (list_all (task_snapshot_valid H) rows \<and> phased rows
     \<and> chained (\<lambda>s. sc_run (ss_scope s)) ss_revision ss_id ss_supersedes rows)"

definition snapshot_store_ok :: "hashing \<Rightarrow> result_db \<Rightarrow> bool" where
  "snapshot_store_ok H db = (fact_store_ok H db \<and> hygiene_store_ok H db \<and> resolutions_placed db
     \<and> hygienes_placed db \<and> snapshots_keyed H (rd_snapshots db))"

subsection \<open>Counting\<close>

lemma tally_Nil [simp]: "tally f [] v = 0"
  by (simp add: tally_def)

lemma tally_Cons [simp]: "tally f (r # rs) v = (if f r = v then 1 else 0) + tally f rs v"
  by (simp add: tally_def)

lemma tally_map: "tally id (map f rs) = tally f rs"
  by (induction rs) (auto simp: fun_eq_iff)

lemma tally_none: "(\<And>r. r \<in> set rs \<Longrightarrow> f r \<noteq> v) \<Longrightarrow> tally f rs v = 0"
  by (simp add: tally_def)

lemma tally_zero: "tally f rs v = 0 \<longleftrightarrow> (\<forall>r \<in> set rs. f r \<noteq> v)"
  by (simp add: tally_def filter_empty_conv)

lemma tally_all: "tally f rs v = length rs \<longleftrightarrow> (\<forall>r \<in> set rs. f r = v)"
  by (simp add: tally_def length_filter_all list_all_iff)

lemma verdict_total_tally:
  "verdict_total (verdict_counts_of rs) + tally (\<lambda>r. ax_verdict (ur_axes r)) rs VERDICT_PENDING = length rs"
proof (induction rs)
  case (Cons r rs)
  then show ?case
    by (cases "ax_verdict (ur_axes r)") (simp_all add: verdict_total_def verdict_counts_of_def Let_def)
qed (simp add: verdict_total_def verdict_counts_of_def)

lemma hygiene_total: "tally f rs HYGIENE_PENDING + tally f rs HYGIENE_CLEANED
    + tally f rs HYGIENE_CLEANUP_FAILED + tally f rs HYGIENE_LEAKED + tally f rs HYGIENE_NOT_APPLICABLE = length rs"
proof (induction rs)
  case (Cons r rs) then show ?case by (cases "f r") simp_all
qed simp

lemma completeness_total: "tally f rs EVIDENCE_PENDING + tally f rs EVIDENCE_COMPLETE
    + tally f rs EVIDENCE_PARTIAL + tally f rs EVIDENCE_MISSING + tally f rs EVIDENCE_NOT_APPLICABLE = length rs"
proof (induction rs)
  case (Cons r rs) then show ?case by (cases "f r") simp_all
qed simp

lemma integrity_total: "tally f rs UNVERIFIED + tally f rs VERIFIED + tally f rs INVALID = length rs"
proof (induction rs)
  case (Cons r rs) then show ?case by (cases "f r") simp_all
qed simp

lemma influence_total: "tally f rs AUTONOMOUS + tally f rs MANUAL_ASSISTED + tally f rs MANUAL_ONLY = length rs"
proof (induction rs)
  case (Cons r rs) then show ?case by (cases "f r") simp_all
qed simp

lemma stability_total: "tally f rs STABILITY_UNKNOWN + tally f rs STABLE + tally f rs INFRA_RECOVERED
    + tally f rs FLAKY_SUSPECT + tally f rs FLAKY_CONFIRMED = length rs"
proof (induction rs)
  case (Cons r rs) then show ?case by (cases "f r") simp_all
qed simp

lemma outcome_total: "tally f rs OUTCOME_BUSINESS + tally f rs OUTCOME_DEPENDENCY + tally f rs OUTCOME_PLATFORM
    + tally f rs OUTCOME_USER + tally f rs OUTCOME_AUTOMATION + tally f rs OUTCOME_POLICY
    + tally f rs OUTCOME_UNKNOWN = length rs"
proof (induction rs)
  case (Cons r rs) then show ?case by (cases "f r") simp_all
qed simp

lemma axis_totals_length:
  "length hs = length rs \<Longrightarrow>
     list_all (\<lambda>total. total = length rs) (axis_totals (axis_distributions_of hs rs))"
  using hygiene_total [of id hs] by (simp add: axis_totals_def axis_distributions_of_def Let_def
      completeness_total integrity_total influence_total stability_total outcome_total)

lemma qualified_passes:
  "trusted_passes rs \<le> vc_passed (verdict_counts_of rs)"
  "autonomous_passes rs \<le> vc_passed (verdict_counts_of rs)"
proof -
  have "length (filter (\<lambda>r. p r \<and> q r) rs) \<le> length (filter p rs)" for p q :: "unit_resolution \<Rightarrow> bool"
    by (induction rs) auto
  then show "trusted_passes rs \<le> vc_passed (verdict_counts_of rs)"
    "autonomous_passes rs \<le> vc_passed (verdict_counts_of rs)"
    by (simp_all add: trusted_passes_def autonomous_passes_def verdict_counts_of_def Let_def tally_def)
qed

lemma latest_instant_Max: "ts \<noteq> [] \<Longrightarrow> latest_instant ts = Max (set ts)"
  by (cases ts) (simp_all add: foldr_max_Max del: Max_insert)

subsection \<open>Joins\<close>

lemma map_filter_total:
  assumes "length (List.map_filter f xs) = length xs"
  shows "List.map_filter f xs = map (\<lambda>x. the (f x)) xs" and "x \<in> set xs \<Longrightarrow> f x \<noteq> None"
proof -
  have le: "length (List.map_filter f ys) \<le> length ys" for ys
    by (induction ys) (auto simp: List.map_filter_simps split: option.split)
  have "List.map_filter f xs = map (\<lambda>x. the (f x)) xs \<and> (\<forall>x \<in> set xs. f x \<noteq> None)"
    using assms
  proof (induction xs)
    case (Cons x xs)
    then show ?case using le [of xs] by (auto simp: List.map_filter_simps split: option.splits)
  qed (simp add: List.map_filter_simps)
  then show "List.map_filter f xs = map (\<lambda>x. the (f x)) xs" and "x \<in> set xs \<Longrightarrow> f x \<noteq> None"
    by blast+
qed

lemma map_filter_Some:
  "(\<And>x. x \<in> set xs \<Longrightarrow> f x = Some (g x)) \<Longrightarrow> List.map_filter f xs = map g xs"
  by (induction xs) (simp_all add: List.map_filter_simps)

lemma latest_by_cong:
  "(\<And>r. r \<in> set rows \<Longrightarrow> p r = q r) \<Longrightarrow> latest_by revision p rows = latest_by revision q rows"
  by (simp add: latest_by_def rows_matching_def cong: filter_cong)

text \<open>The service's and the trigger's join of units to their latest row of a table.\<close>

lemma joins_agree:
  assumes placed: "\<And>r u. r \<in> set rows \<Longrightarrow> u \<in> set us \<Longrightarrow> unit_of r = eu_id u \<Longrightarrow> scope_of r = eu_scope u"
    and scope: "\<And>u. u \<in> set us \<Longrightarrow> sc_run (eu_scope u) = run"
    and rs: "rs = List.map_filter (\<lambda>u. case latest_by revision
        (\<lambda>r. sc_run (scope_of r) = run \<and> unit_of r = eu_id u) rows of
        None \<Rightarrow> None | Some r \<Rightarrow> if scope_of r = eu_scope u then Some r else None) us"
    and total: "length rs = length us"
  shows "List.map_filter (\<lambda>u. map_option (Pair u)
      (latest_by revision (\<lambda>r. unit_of r = eu_id u \<and> scope_of r = eu_scope u) rows)) us = zip us rs"
    and "n < length us \<Longrightarrow> latest_by revision (\<lambda>r. unit_of r = eu_id (us ! n)) rows = Some (rs ! n)"
proof -
  let ?l = "\<lambda>u. latest_by revision (\<lambda>r. unit_of r = eu_id u) rows"
  have l: "latest_by revision (\<lambda>r. sc_run (scope_of r) = run \<and> unit_of r = eu_id u) rows = ?l u"
      "latest_by revision (\<lambda>r. unit_of r = eu_id u \<and> scope_of r = eu_scope u) rows = ?l u"
    if "u \<in> set us" for u
    using placed [OF _ that] scope [OF that] by (auto intro!: latest_by_cong)
  note m = map_filter_total [OF total [unfolded rs], folded rs]
  have some: "?l u = Some (the (?l u)) \<and> scope_of (the (?l u)) = eu_scope u" if "u \<in> set us" for u
    using m(2) [OF that] unfolding l(1) [OF that] by (cases "?l u") (simp_all split: if_splits)
  have "rs = map (\<lambda>u. the (?l u)) us"
    unfolding m(1)
  proof (rule map_cong [OF refl])
    fix u assume u: "u \<in> set us"
    from some [OF u] obtain r where "?l u = Some r" "scope_of r = eu_scope u" by auto
    then show "the (case latest_by revision (\<lambda>r. sc_run (scope_of r) = run \<and> unit_of r = eu_id u) rows of
        None \<Rightarrow> None | Some r \<Rightarrow> if scope_of r = eu_scope u then Some r else None) = the (?l u)"
      by (simp add: l(1) [OF u])
  qed
  then have nth: "rs ! n = the (?l (us ! n))" if "n < length us" for n using that by simp
  have pairs: "map_option (Pair u) (latest_by revision (\<lambda>r. unit_of r = eu_id u \<and> scope_of r = eu_scope u) rows)
      = Some (u, the (?l u))" if "u \<in> set us" for u
  proof -
    from some [OF that] obtain r where "?l u = Some r" by auto
    then show ?thesis by (simp add: l(2) [OF that])
  qed
  have "map (\<lambda>u. (u, the (?l u))) us = zip us rs"
    using total nth by (intro nth_equalityI) simp_all
  then show "List.map_filter (\<lambda>u. map_option (Pair u)
      (latest_by revision (\<lambda>r. unit_of r = eu_id u \<and> scope_of r = eu_scope u) rows)) us = zip us rs"
    using map_filter_Some [OF pairs, of us] by simp
  show "n < length us \<Longrightarrow> ?l (us ! n) = Some (rs ! n)"
    using some [of "us ! n"] nth by simp
qed

lemma unit_scope_unique:
  assumes "units_keyed (rd_units db)" and "unit_exists db i scope" and "u \<in> set (rd_units db)" and "i = eu_id u"
  shows "scope = eu_scope u"
  using assms distinct_key_eq [of eu_id "rd_units db" _ u]
  by (auto simp: units_keyed_def unit_exists_def list_ex_iff)

text \<open>What a successful load says of the units.\<close>

lemma load_quality_inputs_Inr:
  assumes k: "units_keyed (rd_units db)" and l: "load_quality_inputs run manifest db = Inr (units, rs)"
  shows "units = list_units db (sc_run (tr_scope run))"
    and "list_latest_resolutions_for_task db (sc_run (tr_scope run)) = Inr rs"
    and "length units = length (mf_units manifest)" and "length rs = length (mf_units manifest)"
    and "tr_lifecycle run = LIFE_CLOSED" and "tr_closed_at run \<noteq> None" and "tr_materialization run = SEALED"
    and "tr_unit_count run = Some (int (length (mf_units manifest)))"
    and "units_of_scope db (tr_scope run) = units"
    and "map ordinal_of units = [1..<Suc (length units)]"
    and "u \<in> set units \<Longrightarrow> u \<in> set (rd_units db) \<and> eu_scope u = tr_scope run
      \<and> eu_manifest_hash u = tr_manifest_hash run \<and> eu_lifecycle u = LIFE_CLOSED"
    and "n < length units \<Longrightarrow> ur_unit (rs ! n) = eu_id (units ! n)"
proof -
  from l have units: "units = list_units db (sc_run (tr_scope run))"
    and rs: "list_latest_resolutions_for_task db (sc_run (tr_scope run)) = Inr rs"
    and len: "length units = length (mf_units manifest)" "length rs = length (mf_units manifest)"
    and cov: "list_all (unit_covered run) (enumerate 1 (zip (mf_units manifest) (zip units rs)))"
    and run: "tr_lifecycle run = LIFE_CLOSED" "tr_closed_at run \<noteq> None" "tr_materialization run = SEALED"
      "tr_unit_count run = Some (int (length (mf_units manifest)))"
    by (auto simp: load_quality_inputs_def Let_def attempt_Inr split: if_splits)
  have n: "ub_ordinal (eu_binding (units ! n)) = int (Suc n) \<and> eu_scope (units ! n) = tr_scope run
      \<and> eu_manifest_hash (units ! n) = tr_manifest_hash run \<and> eu_lifecycle (units ! n) = LIFE_CLOSED
      \<and> ur_unit (rs ! n) = eu_id (units ! n)" if "n < length units" for n
  proof -
    have "(Suc n, mf_units manifest ! n, units ! n, rs ! n)
        \<in> set (enumerate 1 (zip (mf_units manifest) (zip units rs)))"
      using that len by (auto simp: in_set_enumerate_eq)
    with cov show ?thesis by (auto simp: list_all_iff unit_covered_def)
  qed
  have all: "eu_scope u = tr_scope run \<and> eu_manifest_hash u = tr_manifest_hash run
      \<and> eu_lifecycle u = LIFE_CLOSED" if "u \<in> set units" for u
    using that n by (auto simp: in_set_conv_nth)
  have mem: "set units = {u \<in> set (rd_units db). sc_run (eu_scope u) = sc_run (tr_scope run)}"
    by (auto simp: units list_units_def rows_matching_def)
  have same: "rows_matching (\<lambda>u. sc_run (eu_scope u) = sc_run (tr_scope run)) (rd_units db)
      = rows_matching (\<lambda>u. eu_scope u = tr_scope run) (rd_units db)"
    using all mem by (auto simp: rows_matching_def intro!: filter_cong)
  have ords: "map ordinal_of units = [1..<Suc (length units)]"
    using n by (intro nth_equalityI) (simp_all add: ordinal_of_def del: upt_Suc)
  have key: "map (\<lambda>u. ub_ordinal (eu_binding u)) units = map int [1..<Suc (length units)]"
    using n by (intro nth_equalityI) (simp_all del: upt_Suc)
  have d: "distinct (map eu_id (rd_units db))" using k by (simp add: units_keyed_def)
  have "sort_key (\<lambda>u. ub_ordinal (eu_binding u)) (rows_matching (\<lambda>u. eu_scope u = tr_scope run) (rd_units db)) = units"
  proof (rule sort_key_eqI)
    show rows: "set units = set (rows_matching (\<lambda>u. eu_scope u = tr_scope run) (rd_units db))"
      using mem unfolding same [symmetric] by (auto simp: rows_matching_def)
    have du: "distinct (map (\<lambda>u. ub_ordinal (eu_binding u)) units)" unfolding key by (simp add: distinct_map)
    then show "distinct units" by (simp add: distinct_map)
    show "distinct (rows_matching (\<lambda>u. eu_scope u = tr_scope run) (rd_units db))"
      using d by (simp add: rows_matching_def distinct_map)
    show "inj_on (\<lambda>u. ub_ordinal (eu_binding u)) (set (rows_matching (\<lambda>u. eu_scope u = tr_scope run) (rd_units db)))"
      using du by (simp add: distinct_map flip: rows)
    show "sorted (map (\<lambda>u. ub_ordinal (eu_binding u)) units)" unfolding key
      by (simp add: sorted_wrt_map del: upt_Suc)
  qed
  then show "units_of_scope db (tr_scope run) = units" by (simp add: units_of_scope_def)
  show "u \<in> set units \<Longrightarrow> u \<in> set (rd_units db) \<and> eu_scope u = tr_scope run
      \<and> eu_manifest_hash u = tr_manifest_hash run \<and> eu_lifecycle u = LIFE_CLOSED"
    using all mem by blast
  show "units = list_units db (sc_run (tr_scope run))"
    "list_latest_resolutions_for_task db (sc_run (tr_scope run)) = Inr rs"
    "length units = length (mf_units manifest)" "length rs = length (mf_units manifest)"
    "tr_lifecycle run = LIFE_CLOSED" "tr_closed_at run \<noteq> None" "tr_materialization run = SEALED"
    "tr_unit_count run = Some (int (length (mf_units manifest)))"
    "map ordinal_of units = [1..<Suc (length units)]"
    by (rule units rs len run ords)+
  show "n < length units \<Longrightarrow> ur_unit (rs ! n) = eu_id (units ! n)" using n by simp
qed

lemma joined_loaded_resolutions:
  assumes k: "snapshot_store_ok H db" and l: "load_quality_inputs run manifest db = Inr (units, rs)"
  shows "joined_resolutions db (tr_scope run) = zip units rs"
    and "n < length units \<Longrightarrow> latest_resolution db (eu_id (units ! n)) = Some (rs ! n)"
proof -
  have uk: "units_keyed (rd_units db)" and pl: "resolutions_placed db"
    using k by (simp_all add: snapshot_store_ok_def fact_store_ok_def)
  note q = load_quality_inputs_Inr [OF uk l]
  have placed: "ur_scope r = eu_scope u"
    if "r \<in> set (rd_resolutions db)" "u \<in> set units" "ur_unit r = eu_id u" for r u
    using unit_scope_unique [OF uk _ _ that(3)] q(11) [OF that(2)] pl that(1)
    by (auto simp: resolutions_placed_def list_all_iff)
  have run: "sc_run (eu_scope u) = sc_run (tr_scope run)" if "u \<in> set units" for u
    using q(11) [OF that] by simp
  have rs: "rs = List.map_filter (\<lambda>u. case latest_by ur_revision
        (\<lambda>r. sc_run (ur_scope r) = sc_run (tr_scope run) \<and> ur_unit r = eu_id u) (rd_resolutions db) of
        None \<Rightarrow> None | Some r \<Rightarrow> if ur_scope r = eu_scope u then Some r else None) units"
    using q(2) unfolding list_latest_resolutions_for_task_def model_rows_Inr q(1) [symmetric] by (rule conjunct1)
  have len: "length rs = length units" using q(3,4) by simp
  note j = joins_agree [OF placed run rs len]
  show "joined_resolutions db (tr_scope run) = zip units rs"
    unfolding joined_resolutions_def q(9) by (rule j(1))
  show "n < length units \<Longrightarrow> latest_resolution db (eu_id (units ! n)) = Some (rs ! n)"
    unfolding latest_resolution_def by (rule j(2))
qed

lemma fresh_loaded_resolutions:
  assumes "snapshot_store_ok H db" and "load_quality_inputs run manifest db = Inr (units, rs)"
    and "list_all (resolution_fresh db) rs"
  shows "fresh_resolutions db (tr_scope run) = zip units rs"
  using joined_loaded_resolutions(1) [OF assms(1,2)] assms(3)
  by (auto simp: fresh_resolutions_def list_all_iff intro!: filter_True dest: set_zip_rightD)

lemma joined_loaded_hygienes:
  assumes k: "snapshot_store_ok H db" and l: "load_quality_inputs run manifest db = Inr (units, rs)"
    and h: "list_latest_hygiene_resolutions_for_task H db (sc_run (tr_scope run)) = Inr hs"
    and total: "length hs = length units"
  shows "joined_hygienes db (tr_scope run) = zip units hs"
    and "n < length units \<Longrightarrow> latest_by hr_revision (\<lambda>r. hr_unit r = eu_id (units ! n)) (rd_hygiene db) = Some (hs ! n)"
proof -
  have uk: "units_keyed (rd_units db)" and pl: "hygienes_placed db"
    using k by (simp_all add: snapshot_store_ok_def fact_store_ok_def)
  note q = load_quality_inputs_Inr [OF uk l]
  have placed: "hr_scope r = eu_scope u"
    if "r \<in> set (rd_hygiene db)" "u \<in> set units" "hr_unit r = eu_id u" for r u
    using unit_scope_unique [OF uk _ _ that(3)] q(11) [OF that(2)] pl that(1)
    by (auto simp: hygienes_placed_def list_all_iff)
  have run: "sc_run (eu_scope u) = sc_run (tr_scope run)" if "u \<in> set units" for u
    using q(11) [OF that] by simp
  have hs: "hs = List.map_filter (\<lambda>u. case latest_by hr_revision
        (\<lambda>r. sc_run (hr_scope r) = sc_run (tr_scope run) \<and> hr_unit r = eu_id u) (rd_hygiene db) of
        None \<Rightarrow> None | Some r \<Rightarrow> if hr_scope r = eu_scope u then Some r else None) units"
    using h unfolding list_latest_hygiene_resolutions_for_task_def model_rows_Inr q(1) [symmetric]
    by (rule conjunct1)
  note j = joins_agree [OF placed run hs total]
  show "joined_hygienes db (tr_scope run) = zip units hs"
    unfolding joined_hygienes_def q(9) by (rule j(1))
  show "n < length units \<Longrightarrow> latest_by hr_revision (\<lambda>r. hr_unit r = eu_id (units ! n)) (rd_hygiene db) = Some (hs ! n)"
    by (rule j(2))
qed

lemma fresh_loaded_hygienes:
  assumes "snapshot_store_ok H db" and "load_quality_inputs run manifest db = Inr (units, rs)"
    and "list_latest_hygiene_resolutions_for_task H db (sc_run (tr_scope run)) = Inr hs"
    and "length hs = length units" and "list_all (hygiene_fresh db) hs"
  shows "fresh_hygienes db (tr_scope run) = zip units hs"
  using joined_loaded_hygienes(1) [OF assms(1-4)] assms(5)
  by (auto simp: fresh_hygienes_def list_all_iff intro!: filter_True dest: set_zip_rightD)

text \<open>The service numbers the inputs of a set digest, the trigger takes the units' ordinals.\<close>

lemma numbered_by_ordinals:
  assumes "map ordinal_of units = [1..<Suc (length units)]" and "length xs = length units"
    and "\<And>n. n < length units \<Longrightarrow> f (xs ! n) = eu_id (units ! n)"
  shows "map (\<lambda>(u, x). (ordinal_of u, eu_id u, g x)) (zip units xs)
    = map (\<lambda>(n, x). (n, f x, g x)) (enumerate 1 xs)"
proof (rule nth_equalityI)
  fix n assume "n < length (map (\<lambda>(u, x). (ordinal_of u, eu_id u, g x)) (zip units xs))"
  then have n: "n < length units" "n < length xs" using assms(2) by simp_all
  have "map ordinal_of units ! n = [1..<Suc (length units)] ! n" by (simp only: assms(1))
  then have "ordinal_of (units ! n) = Suc n" using n by (simp del: upt_Suc)
  then show "map (\<lambda>(u, x). (ordinal_of u, eu_id u, g x)) (zip units xs) ! n
      = map (\<lambda>(n, x). (n, f x, g x)) (enumerate 1 xs) ! n"
    using n assms(3) by (simp add: nth_enumerate_eq)
qed (simp add: assms(2))

lemma loaded_rows:
  assumes k: "snapshot_store_ok H db" and l: "load_quality_inputs run manifest db = Inr (units, rs)"
  shows "set rs \<subseteq> set (rd_resolutions db)" and "distinct (map ur_id rs)"
    and "list_all unit_resolution_valid rs" and "tally (\<lambda>r. ax_verdict (ur_axes r)) rs VERDICT_PENDING = 0"
proof -
  have uk: "units_keyed (rd_units db)" and rk: "resolutions_keyed (rd_resolutions db)"
    and ids: "distinct (map ur_id (rd_resolutions db))"
    using k by (simp_all add: snapshot_store_ok_def fact_store_ok_def resolutions_placed_def)
  note q = load_quality_inputs_Inr [OF uk l]
  have mem: "rs ! n \<in> set (rd_resolutions db) \<and> unit_resolution_valid (rs ! n)" if "n < length rs" for n
    using latest_resolution_row(2) [OF rk, of "eu_id (units ! n)" "rs ! n"] that q(3,4)
      joined_loaded_resolutions(2) [OF k l, of n] by (simp add: latest_resolution_def)
  then show sub: "set rs \<subseteq> set (rd_resolutions db)" and v: "list_all unit_resolution_valid rs"
    by (auto simp: in_set_conv_nth list_all_iff)
  have "map (\<lambda>r. ur_unit r) rs = map eu_id units"
    using q(3,4,12) by (intro nth_equalityI) simp_all
  moreover have "distinct (map eu_id units)"
  proof -
    have d: "distinct (map eu_id (rd_units db))" using uk by (simp add: units_keyed_def)
    have "distinct (map ordinal_of units)" using q(10) by (simp only: distinct_upt)
    then show ?thesis using d q(11) by (auto simp: distinct_map inj_on_def)
  qed
  ultimately have "distinct rs" by (metis distinct_map)
  with sub ids show "distinct (map ur_id rs)" by (auto simp: distinct_map intro: inj_on_subset)
  show "tally (\<lambda>r. ax_verdict (ur_axes r)) rs VERDICT_PENDING = 0"
    using v by (auto simp: tally_zero list_all_iff unit_resolution_valid_def)
qed

end
