(* ===== verification/Snapshot_Correct.thy ===== *)
theory Snapshot_Correct
  imports Snapshot_Rows
begin

text \<open>
  What the snapshots of a run guarantee: over current resolutions the triggers accept what the
  service computes; the phases of a run never go back; a closed run with terminal cleanup gets its
  fully resolved snapshot; the rates are bounded and trusted passes are all the passes there are.
\<close>

subsection \<open>The computed snapshot\<close>

lemma task_snapshot_fields [simp]:
  "ss_schema_version (task_snapshot_of H i run count sh rs hy vc l now)
     = (if hy = None then ''atlas.task-result-snapshot/0.1'' else ''atlas.task-result-snapshot/0.2'')"
  "ss_id (task_snapshot_of H i run count sh rs hy vc l now) = i"
  "ss_scope (task_snapshot_of H i run count sh rs hy vc l now) = tr_scope run"
  "ss_manifest_hash (task_snapshot_of H i run count sh rs hy vc l now) = tr_manifest_hash run"
  "ss_revision (task_snapshot_of H i run count sh rs hy vc l now)
     = (case l of Some p \<Rightarrow> ss_revision p + 1 | None \<Rightarrow> 1)"
  "ss_finality (task_snapshot_of H i run count sh rs hy vc l now)
     = (if hy = None then QUALITY_FINAL else FULLY_RESOLVED)"
  "ss_resolution_ids (task_snapshot_of H i run count sh rs hy vc l now) = map ur_id rs"
  "ss_resolution_set_hash (task_snapshot_of H i run count sh rs hy vc l now) = sh"
  "ss_hygiene_ids (task_snapshot_of H i run count sh rs hy vc l now) = map_option (map hr_id) hy"
  "ss_hygiene_set_hash (task_snapshot_of H i run count sh rs hy vc l now) = map_option
     (task_result_hygiene_resolution_set_hash H (sc_run (tr_scope run)) (tr_manifest_hash run)) hy"
  "ss_source_snapshot (task_snapshot_of H i run count sh rs hy vc l now) = None"
  "ss_command (task_snapshot_of H i run count sh rs hy vc l now) = None"
  "ss_policy_version (task_snapshot_of H i run count sh rs hy vc l now)
     = (if hy = None then ''0.1.0'' else ''0.2.0'')"
  "ss_policy_digest (task_snapshot_of H i run count sh rs hy vc l now)
     = (if hy = None then SNAPSHOT_POLICY_DIGEST else SNAPSHOT_FULLY_RESOLVED_POLICY_DIGEST)"
  "ss_watermark (task_snapshot_of H i run count sh rs hy vc l now) = snapshot_watermark rs hy"
  "ss_manifest_count (task_snapshot_of H i run count sh rs hy vc l now) = count"
  "ss_verdicts (task_snapshot_of H i run count sh rs hy vc l now) = vc"
  "ss_distributions (task_snapshot_of H i run count sh rs hy vc l now)
     = axis_distributions_of (snapshot_hygienes rs hy) rs"
  "ss_raw (task_snapshot_of H i run count sh rs hy vc l now)
     = \<lparr>numerator = vc_passed vc, denominator = count\<rparr>"
  "ss_trusted (task_snapshot_of H i run count sh rs hy vc l now)
     = \<lparr>numerator = trusted_passes rs, denominator = count\<rparr>"
  "ss_autonomous (task_snapshot_of H i run count sh rs hy vc l now)
     = \<lparr>numerator = autonomous_passes rs, denominator = count\<rparr>"
  "ss_decisive (task_snapshot_of H i run count sh rs hy vc l now)
     = \<lparr>numerator = vc_passed vc, denominator = vc_passed vc + vc_failed vc\<rparr>"
  "ss_supersedes (task_snapshot_of H i run count sh rs hy vc l now) = map_option ss_id l"
  "ss_created_at (task_snapshot_of H i run count sh rs hy vc l now) = now"
  "ss_hash (task_snapshot_of H i run count sh rs hy vc l now)
     = task_result_snapshot_hash H (task_snapshot_of H i run count sh rs hy vc l now)"
  by (simp_all add: task_snapshot_of_def Let_def snapshot_content.defs task_snapshot.defs
      task_result_snapshot_hash_def)

lemma latest_snapshot_row:
  assumes "snapshots_keyed H (rd_snapshots db)"
  shows "model_row (task_snapshot_valid H) (latest_by ss_revision p (rd_snapshots db))
      = Inr (latest_by ss_revision p (rd_snapshots db))"
    and "latest_by ss_revision p (rd_snapshots db) = Some l
      \<Longrightarrow> l \<in> set (rd_snapshots db) \<and> p l \<and> task_snapshot_valid H l"
proof -
  have l: "l \<in> set (rd_snapshots db) \<and> p l \<and> task_snapshot_valid H l"
    if "latest_by ss_revision p (rd_snapshots db) = Some l" for l
    using first_row_Some [OF that [unfolded latest_by_def]] assms
    by (auto simp: rows_matching_def snapshots_keyed_def list_all_iff)
  then show "latest_by ss_revision p (rd_snapshots db) = Some l
      \<Longrightarrow> l \<in> set (rd_snapshots db) \<and> p l \<and> task_snapshot_valid H l" .
  show "model_row (task_snapshot_valid H) (latest_by ss_revision p (rd_snapshots db))
      = Inr (latest_by ss_revision p (rd_snapshots db))"
    by (rule model_row_all_valid) (use l in blast)
qed

definition latest_snapshot :: "result_db \<Rightarrow> uuid \<Rightarrow> task_snapshot option" where
  "latest_snapshot db run = latest_by ss_revision (\<lambda>s. sc_run (ss_scope s) = run) (rd_snapshots db)"

text \<open>The inputs of one projection of a run: its loaded resolutions, and its cleanup if it is resolved.\<close>

definition hygiene_loaded :: "hashing \<Rightarrow> result_db \<Rightarrow> task_run \<Rightarrow> hygiene_resolution list \<Rightarrow> bool" where
  "hygiene_loaded H db run hs =
     (list_latest_hygiene_resolutions_for_task H db (sc_run (tr_scope run)) = Inr hs
      \<and> list_all (\<lambda>h. hr_data_hygiene h \<in> set terminal_hygiene \<and> hygiene_fresh db h) hs)"

lemma policy_digests [simp]:
  "digest_pattern SNAPSHOT_POLICY_DIGEST" "digest_pattern SNAPSHOT_FULLY_RESOLVED_POLICY_DIGEST"
  "digest_pattern SNAPSHOT_REEVALUATED_POLICY_DIGEST"
  by code_simp+

lemma hygiene_ids_distinct:
  assumes k: "snapshot_store_ok H db" and l: "load_quality_inputs run manifest db = Inr (units, rs)"
    and h: "list_latest_hygiene_resolutions_for_task H db (sc_run (tr_scope run)) = Inr hs"
    and total: "length hs = length units"
  shows "distinct (map hr_id hs)" and "n < length hs \<Longrightarrow> hr_unit (hs ! n) = eu_id (units ! n)"
proof -
  have hk: "hygienes_keyed H (rd_hygiene db)" and uk: "units_keyed (rd_units db)"
    and ids: "distinct (map hr_id (rd_hygiene db))"
    using k by (simp_all add: snapshot_store_ok_def hygiene_store_ok_def fact_store_ok_def hygienes_placed_def)
  note q = load_quality_inputs_Inr [OF uk l]
  have mem: "hs ! n \<in> set (rd_hygiene db) \<and> hr_unit (hs ! n) = eu_id (units ! n)" if "n < length hs" for n
    using latest_hygiene_row(2) [OF hk, of "eu_id (units ! n)" "hs ! n"] that total
      joined_loaded_hygienes(2) [OF k l h total, of n] by simp
  then show "n < length hs \<Longrightarrow> hr_unit (hs ! n) = eu_id (units ! n)" by blast
  have "map hr_unit hs = map eu_id units"
    using mem total by (intro nth_equalityI) simp_all
  moreover have "distinct (map eu_id units)"
  proof -
    have "distinct (map ordinal_of units)" using q(10) by (simp only: distinct_upt)
    then show ?thesis using uk q(11) by (auto simp: distinct_map inj_on_def units_keyed_def)
  qed
  ultimately have "distinct hs" by (metis distinct_map)
  moreover have "set hs \<subseteq> set (rd_hygiene db)" using mem by (auto simp: in_set_conv_nth)
  ultimately show "distinct (map hr_id hs)"
    using ids by (auto simp: distinct_map intro: inj_on_subset)
qed

lemma task_snapshot_of_valid:
  assumes k: "snapshot_store_ok H db" and d: "digests H"
    and l: "load_quality_inputs run manifest db = Inr (units, rs)"
    and bounds: "1 \<le> length units" "length units \<le> 100000"
    and hy: "\<And>hs. hy = Some hs \<Longrightarrow> hygiene_loaded H db run hs \<and> length hs = length units"
    and late: "late = latest_snapshot db (sc_run (tr_scope run))"
    and time: "snapshot_watermark rs hy \<le> now" and sh: "digest_pattern sh"
  shows "task_snapshot_valid H (task_snapshot_of H i run (length units) sh rs hy (verdict_counts_of rs) late now)"
    and "snapshot_check (task_snapshot_of H i run (length units) sh rs hy (verdict_counts_of rs) late now)"
proof -
  have uk: "units_keyed (rd_units db)" and sk: "snapshots_keyed H (rd_snapshots db)"
    using k by (simp_all add: snapshot_store_ok_def fact_store_ok_def)
  note q = load_quality_inputs_Inr [OF uk l] and rows = loaded_rows [OF k l]
  have len: "length rs = length units" using q(3,4) by simp
  obtain u where u: "u \<in> set units" using bounds(1) by (cases units) auto
  have mh: "digest_pattern (tr_manifest_hash run)"
    using q(11) [OF u] uk by (auto simp: units_keyed_def list_all_iff)
  have hash: "digest_pattern (H x)" for x using d by (simp add: digests_def)
  have previous: "1 \<le> ss_revision p" if "late = Some p" for p
    using latest_snapshot_row(2) [OF sk that [unfolded late latest_snapshot_def]]
    by (simp add: task_snapshot_valid_def snapshot_content_valid_def lineage_ok_def)
  have lineage: "lineage_ok (case late of Some p \<Rightarrow> ss_revision p + 1 | None \<Rightarrow> 1) (map_option ss_id late)"
    using previous by (cases late) (simp_all add: lineage_ok_def)
  have total: "verdict_total (verdict_counts_of rs) = length units"
    using verdict_total_tally [of rs] rows(4) len by simp
  have hlen: "length (snapshot_hygienes rs hy) = length rs"
    using hy len by (cases hy) (simp_all add: snapshot_hygienes_def)
  have hygiene: "distinct (map hr_id hs) \<and> length hs = length units
      \<and> tally hr_data_hygiene hs HYGIENE_PENDING = 0 \<and> tally hr_data_hygiene hs HYGIENE_CLEANUP_FAILED = 0"
    if "hy = Some hs" for hs
    using hy [OF that] hygiene_ids_distinct(1) [OF k l, of hs]
    by (auto simp: hygiene_loaded_def terminal_hygiene_def tally_zero list_all_iff)
  have pass: "vc_passed (verdict_counts_of rs) \<le> length units"
    using total by (simp add: verdict_total_def)
  have rates: "trusted_passes rs \<le> length units" "autonomous_passes rs \<le> length units"
    using qualified_passes [of rs] pass by (simp_all add: le_trans)
  have axes: "list_all (\<lambda>t. t = length units) (axis_totals (axis_distributions_of (snapshot_hygienes rs hy) rs))"
    using axis_totals_length [OF hlen] len by simp
  show "task_snapshot_valid H (task_snapshot_of H i run (length units) sh rs hy (verdict_counts_of rs) late now)"
  proof (cases hy)
    case None
    with lineage total axes mh sh bounds time rows(2) len pass rates qualified_passes [of rs] show ?thesis
      by (simp add: task_snapshot_valid_def snapshot_content_valid_def finality_shape_def policy_digest_of_def
          pass_rate_valid_def opt_all_def task_result_snapshot_hash_def hash)
  next
    case (Some hs)
    with hygiene [OF Some] lineage total axes mh sh bounds time rows(2) len pass rates qualified_passes [of rs]
    show ?thesis
      by (simp add: task_snapshot_valid_def snapshot_content_valid_def finality_shape_def policy_digest_of_def
          pass_rate_valid_def opt_all_def task_result_snapshot_hash_def hash snapshot_hygienes_def
          axis_distributions_of_def Let_def tally_map task_result_hygiene_resolution_set_hash_def)
  qed
  have chain: "(1::int) \<le> (case late of Some p \<Rightarrow> ss_revision p + 1 | None \<Rightarrow> 1)
      \<and> ((case late of Some p \<Rightarrow> ss_revision p + 1 | None \<Rightarrow> 1) = 1 \<and> map_option ss_id late = None
         \<or> 1 < (case late of Some p \<Rightarrow> ss_revision p + 1 | None \<Rightarrow> 1) \<and> map_option ss_id late \<noteq> None)"
    using previous by (cases late) auto
  show "snapshot_check (task_snapshot_of H i run (length units) sh rs hy (verdict_counts_of rs) late now)"
    using chain mh sh bounds time len hygiene
    by (cases hy) (simp_all add: snapshot_check_def opt_all_def task_result_snapshot_hash_def hash
        task_result_hygiene_resolution_set_hash_def)
qed

text \<open>Over current rows the triggers accept it.\<close>

definition quality_recorded :: "hashing \<Rightarrow> result_db \<Rightarrow> task_run \<Rightarrow> unit_resolution list \<Rightarrow> bool" where
  "quality_recorded H db run rs = list_ex (\<lambda>q. sc_run (ss_scope q) = sc_run (tr_scope run)
     \<and> ss_finality q = QUALITY_FINAL \<and> ss_policy_digest q = SNAPSHOT_POLICY_DIGEST
     \<and> ss_resolution_set_hash q
         = task_result_resolution_set_hash H (sc_run (tr_scope run)) (tr_manifest_hash run) rs) (rd_snapshots db)"

lemma task_snapshot_of_guarded:
  assumes k: "snapshot_store_ok H db" and l: "load_quality_inputs run manifest db = Inr (units, rs)"
    and run: "run \<in> set (rd_runs db)" and fresh: "list_all (resolution_fresh db) rs"
    and hy: "\<And>hs. hy = Some hs \<Longrightarrow> hygiene_loaded H db run hs \<and> length hs = length units \<and> quality_recorded H db run rs"
    and sh: "sh = task_result_resolution_set_hash H (sc_run (tr_scope run)) (tr_manifest_hash run) rs"
  shows "guard_snapshot H now db (task_snapshot_of H i run (length units) sh rs hy (verdict_counts_of rs) late now)"
proof -
  have uk: "units_keyed (rd_units db)" using k by (simp add: snapshot_store_ok_def fact_store_ok_def)
  note q = load_quality_inputs_Inr [OF uk l] and rows = loaded_rows [OF k l]
  note f = fresh_loaded_resolutions [OF k l fresh]
  have len: "length rs = length units" using q(3,4) by simp
  let ?s = "task_snapshot_of H i run (length units) sh rs hy (verdict_counts_of rs) late now"
  have snd: "map snd (zip units rs) = rs" using len by simp
  have r: "guard_snapshot_run now db ?s"
    using run q by (auto simp: guard_snapshot_run_def list_ex_iff opt_all_def)
  have set: "guard_resolution_set H db ?s"
  proof -
    have "list_all (\<lambda>(u, r). eu_lifecycle u = LIFE_CLOSED) (zip units rs)"
      using q(11) by (auto simp: list_all_iff dest: set_zip_leftD)
    moreover have "map (\<lambda>(u, r). ur_id r) (zip units rs) = map ur_id rs"
      using len by (intro nth_equalityI) simp_all
    moreover have "verdict_total (verdict_counts_of rs) = length units"
      using verdict_total_tally [of rs] rows(4) len by simp
    ultimately show ?thesis
      using numbered_by_ordinals [OF q(10) len q(12), of "\<lambda>r. (ur_id r, ur_revision r, ur_input_set_hash r)"] len
      by (simp add: guard_resolution_set_def Let_def f sh task_result_resolution_set_hash_def)
  qed
  have hygiene: "guard_hygiene_set H db ?s \<and> fresh_hygienes db (tr_scope run) = zip units hs" if h: "hy = Some hs" for hs
  proof -
    have hl: "list_latest_hygiene_resolutions_for_task H db (sc_run (tr_scope run)) = Inr hs"
        "list_all (hygiene_fresh db) hs" "list_all (\<lambda>h. hr_data_hygiene h \<in> set terminal_hygiene) hs"
        "length hs = length units" "quality_recorded H db run rs"
      using hy [OF h] by (auto simp: hygiene_loaded_def list_all_iff)
    note fh = fresh_loaded_hygienes [OF k l hl(1,4,2)]
    have ids: "map (\<lambda>(u, h). hr_id h) (zip units hs) = map hr_id hs"
      using hl(4) by (intro nth_equalityI) simp_all
    have unit: "hr_unit (hs ! n) = eu_id (units ! n)" if "n < length units" for n
      using hygiene_ids_distinct(2) [OF k l hl(1,4)] that hl(4) by simp
    have "list_all (\<lambda>(u, h). hr_data_hygiene h \<in> set terminal_hygiene) (zip units hs)"
      using hl(3) by (auto simp: list_all_iff dest: set_zip_rightD)
    with fh show ?thesis
      using hl(4,5) ids numbered_by_ordinals [OF q(10) hl(4) unit, of "\<lambda>h. (hr_id h, hr_revision h, hr_input_set_hash h,
          hr_data_hygiene h, hr_policy_digest h, hr_hash h)"]
      by (simp add: guard_hygiene_set_def Let_def h sh quality_recorded_def opt_all_def
          task_result_hygiene_resolution_set_hash_def list_ex_iff) blast
  qed
  have agg: "guard_aggregation db ?s"
  proof (cases hy)
    case None
    then show ?thesis by (simp add: guard_aggregation_def Let_def f snd)
  next
    case (Some hs)
    with hygiene [OF Some] hy [OF Some] show ?thesis by (simp add: guard_aggregation_def Let_def f snd)
  qed
  show ?thesis
    using r set hygiene agg
    by (cases hy) (simp_all add: guard_snapshot_def task_result_snapshot_hash_def)
qed

lemma task_snapshot_of_phase:
  assumes late: "late = latest_snapshot db (sc_run (tr_scope run))"
    and phase: "opt_all (\<lambda>p. phase_follows (ss_finality p) (if hy = None then QUALITY_FINAL else FULLY_RESOLVED)) late"
    and first: "late = None \<Longrightarrow> hy = None"
  shows "guard_snapshot_phase (rd_snapshots db) (task_snapshot_of H i run count sh rs hy vc late now)"
  using assms(2,3) unfolding guard_snapshot_phase_def task_snapshot_fields late [unfolded latest_snapshot_def, symmetric]
  by (cases late) (simp_all add: opt_all_def)

lemma task_snapshot_of_references:
  assumes k: "snapshots_keyed H (rd_snapshots db)" and run: "run \<in> set (rd_runs db)"
    and late: "late = latest_snapshot db (sc_run (tr_scope run))"
  shows "snapshot_references db (task_snapshot_of H i run count sh rs hy vc late now)"
proof -
  have "list_ex (\<lambda>x. ss_id x = ss_id p) (rd_snapshots db)" if "late = Some p" for p
    using latest_snapshot_row(2) [OF k that [unfolded late latest_snapshot_def]] by (auto simp: list_ex_iff)
  with run show ?thesis
    by (cases late) (auto simp: snapshot_references_def opt_all_def list_ex_iff)
qed

lemma append_snapshot_accepts:
  assumes k: "snapshot_store_ok H db" and d: "digests H"
    and l: "load_quality_inputs run manifest db = Inr (units, rs)"
    and bounds: "1 \<le> length units" "length units \<le> 100000"
    and run: "run \<in> set (rd_runs db)" and fresh: "list_all (resolution_fresh db) rs"
    and hy: "\<And>hs. hy = Some hs \<Longrightarrow> hygiene_loaded H db run hs \<and> length hs = length units \<and> quality_recorded H db run rs"
    and late: "late = latest_snapshot db (sc_run (tr_scope run))"
    and phase: "opt_all (\<lambda>p. phase_follows (ss_finality p) (if hy = None then QUALITY_FINAL else FULLY_RESOLVED)) late"
    and first: "late = None \<Longrightarrow> hy = None"
    and time: "snapshot_watermark rs hy \<le> now"
    and s: "s = task_snapshot_of H i run (length units)
      (task_result_resolution_set_hash H (sc_run (tr_scope run)) (tr_manifest_hash run) rs) rs hy (verdict_counts_of rs) late now"
  shows "append_snapshot H now s db = (if list_ex (\<lambda>x. snapshot_conflicts x s) (rd_snapshots db)
      then Inl (DatabaseFailure UniqueViolation)
      else Inr (s, append_outbox (snapshot_created_event s) (db\<lparr>rd_snapshots := rd_snapshots db @ [s]\<rparr>)))"
proof -
  have sk: "snapshots_keyed H (rd_snapshots db)" using k by (simp add: snapshot_store_ok_def)
  have sh: "digest_pattern (task_result_resolution_set_hash H (sc_run (tr_scope run)) (tr_manifest_hash run) rs)"
    using d by (simp add: task_result_resolution_set_hash_def digests_def)
  have hy': "hygiene_loaded H db run hs \<and> length hs = length units" if "hy = Some hs" for hs
    using hy [OF that] by blast
  have g: "guard_snapshot H now db s"
    unfolding s using k l run fresh hy refl by (rule task_snapshot_of_guarded)
  have p: "guard_snapshot_phase (rd_snapshots db) s"
    unfolding s using late phase first by (rule task_snapshot_of_phase)
  have r: "snapshot_references db s"
    unfolding s using sk run late by (rule task_snapshot_of_references)
  note v = task_snapshot_of_valid [OF k d l bounds hy' late time sh, where i = i, folded s]
  have "ss_finality s \<noteq> REEVALUATED" by (simp add: s)
  with g p r v show ?thesis
    by (simp add: append_snapshot_def insert_snapshot_def sql_insert_def ensure_def)
qed

subsection \<open>The table\<close>

lemma insert_snapshot_Inr:
  "insert_snapshot H now s db = Inr db' \<Longrightarrow> snapshot_admitted (rd_snapshots db) s
     \<and> (if ss_finality s = REEVALUATED then guard_snapshot_reevaluated H now db s else guard_snapshot H now db s)
     \<and> (\<forall>x \<in> set (rd_snapshots db). \<not> snapshot_conflicts x s)
     \<and> db' = db\<lparr>rd_snapshots := rd_snapshots db @ [s]\<rparr>"
  by (auto simp: insert_snapshot_def attempt_Inr db_call_Inr ensure_Inr sql_insert_Inr snapshot_admitted_def)

lemma snapshot_finality: "task_snapshot_valid H s \<Longrightarrow> ss_finality s \<noteq> PROVISIONAL"
  by (auto simp: task_snapshot_valid_def snapshot_content_valid_def finality_shape_def)

lemma phase_follows_phase:
  "phase_follows p n \<Longrightarrow> p \<noteq> PROVISIONAL \<Longrightarrow> n \<noteq> PROVISIONAL \<Longrightarrow> phase p \<le> phase n"
  by (cases p; cases n) (simp_all add: phase_follows_def)

text \<open>The latest snapshot of a run has its highest revision.\<close>

lemma latest_snapshot_is_highest:
  assumes k: "snapshots_keyed H rows" and x: "x \<in> set rows"
  obtains p where "latest_by ss_revision (\<lambda>s. sc_run (ss_scope s) = sc_run (ss_scope x)) rows = Some p"
    and "p \<in> set rows" and "sc_run (ss_scope p) = sc_run (ss_scope x)" and "ss_revision x \<le> ss_revision p"
proof -
  have c: "chained (\<lambda>s. sc_run (ss_scope s)) ss_revision ss_id ss_supersedes rows"
    using k by (simp add: snapshots_keyed_def)
  let ?rs = "rows_matching (\<lambda>s. sc_run (ss_scope s) = sc_run (ss_scope x)) rows"
  have mem: "x \<in> set ?rs" using x by (simp add: rows_matching_def)
  then have ne: "?rs \<noteq> []" by auto
  have "ss_revision x \<in> set (map ss_revision ?rs)" using mem by simp
  then have "ss_revision x \<le> int (length ?rs)"
    by (auto simp: linked_revisions [OF chained_group [OF c]])
  also have "\<dots> = ss_revision (last ?rs)" using linked_last [OF chained_group [OF c] ne] by simp
  finally have le: "ss_revision x \<le> ss_revision (last ?rs)" .
  have "last ?rs \<in> set ?rs" using ne by simp
  then have "last ?rs \<in> set rows" "sc_run (ss_scope (last ?rs)) = sc_run (ss_scope x)"
    by (simp_all add: rows_matching_def)
  moreover have "latest_by ss_revision (\<lambda>s. sc_run (ss_scope s) = sc_run (ss_scope x)) rows = Some (last ?rs)"
    using snapshots.latest_is_last [OF c, of "sc_run (ss_scope x)"] ne by (simp add: Let_def)
  ultimately show ?thesis using le that by blast
qed

lemma admitted_phase:
  assumes k: "snapshots_keyed H rows" and a: "snapshot_admitted rows s"
    and x: "x \<in> set rows" "sc_run (ss_scope x) = sc_run (ss_scope s)"
  shows "phase (ss_finality x) \<le> phase (ss_finality s)"
proof -
  obtain p where p: "latest_by ss_revision (\<lambda>y. sc_run (ss_scope y) = sc_run (ss_scope x)) rows = Some p"
      "p \<in> set rows" "sc_run (ss_scope p) = sc_run (ss_scope x)" "ss_revision x \<le> ss_revision p"
    using latest_snapshot_is_highest [OF k x(1)] by blast
  have "phase (ss_finality x) \<le> phase (ss_finality p)"
    using k p x(1) by (auto simp: snapshots_keyed_def phased_def list_all_iff)
  also have "\<dots> \<le> phase (ss_finality s)"
  proof (rule phase_follows_phase)
    show "phase_follows (ss_finality p) (ss_finality s)"
      using a p(1) x(2) by (simp add: snapshot_admitted_def guard_snapshot_phase_def)
    show "ss_finality p \<noteq> PROVISIONAL"
      using k p(2) by (auto simp: snapshots_keyed_def list_all_iff dest: snapshot_finality)
    show "ss_finality s \<noteq> PROVISIONAL" using a by (auto simp: snapshot_admitted_def snapshot_check_def)
  qed
  finally show ?thesis .
qed

lemma snapshots_keyed_append:
  assumes k: "snapshots_keyed H rows" and a: "snapshot_admitted rows s" and v: "task_snapshot_valid H s"
  shows "snapshots_keyed H (rows @ [s])"
proof -
  have c: "chained (\<lambda>s. sc_run (ss_scope s)) ss_revision ss_id ss_supersedes rows"
    using k by (simp add: snapshots_keyed_def)
  have "\<not> ss_revision s \<le> ss_revision x" if "x \<in> set rows" "sc_run (ss_scope x) = sc_run (ss_scope s)" for x
    using snapshots.new_revision_is_fresh [OF c a that(1)] that(2) by simp
  then have "phased (rows @ [s])"
    using k admitted_phase [OF k a] by (auto simp: phased_def snapshots_keyed_def list_all_iff)
  then show ?thesis
    using k v snapshots.chain_extends [OF c a] by (simp add: snapshots_keyed_def)
qed

lemma snapshot_store_ok_update:
  "snapshot_store_ok H (append_outbox e db) = snapshot_store_ok H db"
  "snapshot_store_ok H (db\<lparr>rd_snapshots := rows\<rparr>) \<longleftrightarrow> fact_store_ok H db \<and> hygiene_store_ok H db
     \<and> resolutions_placed db \<and> hygienes_placed db \<and> snapshots_keyed H rows"
  by (simp_all add: snapshot_store_ok_def fact_store_ok_def facts_keyed_def seals_keyed_def notices_keyed_def
      hygiene_store_ok_def bindings_keyed_def resolutions_placed_def hygienes_placed_def attempt_exists_def
      unit_exists_def append_outbox_def)

lemma append_snapshot_Inr:
  assumes k: "snapshot_store_ok H db" and a: "append_snapshot H now s db = Inr (s', db')"
  shows "s' = s" and "db' = append_outbox (snapshot_created_event s) (db\<lparr>rd_snapshots := rd_snapshots db @ [s]\<rparr>)"
    and "snapshot_admitted (rd_snapshots db) s" and "snapshot_store_ok H db'"
proof -
  from a obtain db1 where v: "task_snapshot_valid H s" and i: "insert_snapshot H now s db = Inr db1"
    and r: "s' = s" "db' = append_outbox (snapshot_created_event s) db1"
    by (auto simp: append_snapshot_def attempt_Inr split: if_splits)
  note n = insert_snapshot_Inr [OF i]
  from r n show "s' = s" and "db' = append_outbox (snapshot_created_event s) (db\<lparr>rd_snapshots := rd_snapshots db @ [s]\<rparr>)"
    and adm: "snapshot_admitted (rd_snapshots db) s" by simp_all
  have "snapshots_keyed H (rd_snapshots db @ [s])"
    using k adm v by (intro snapshots_keyed_append) (simp_all add: snapshot_store_ok_def)
  then show "snapshot_store_ok H db'"
    using k n unfolding r(2) snapshot_store_ok_update(1)
    by (simp only: n snapshot_store_ok_update(2)) (simp add: snapshot_store_ok_def)
qed

subsection \<open>\<open>snapshot_task\<close>\<close>

definition run_ready :: "hashing \<Rightarrow> result_db \<Rightarrow> task_run \<Rightarrow> run_manifest \<Rightarrow> bool" where
  "run_ready H db run manifest = (snapshot_store_ok H db \<and> digests H \<and> run \<in> set (rd_runs db)
     \<and> 1 \<le> length (mf_units manifest) \<and> length (mf_units manifest) \<le> 100000)"

definition latest_quality :: "result_db \<Rightarrow> uuid \<Rightarrow> task_snapshot option" where
  "latest_quality db run =
     latest_by ss_revision (\<lambda>s. sc_run (ss_scope s) = run \<and> ss_finality s = QUALITY_FINAL) (rd_snapshots db)"

definition quality_snapshot_of ::
    "hashing \<Rightarrow> result_db \<Rightarrow> uuid \<Rightarrow> task_run \<Rightarrow> unit_resolution list \<Rightarrow> instant \<Rightarrow> task_snapshot" where
  "quality_snapshot_of H db i run rs now = task_snapshot_of H i run (length rs)
     (task_result_resolution_set_hash H (sc_run (tr_scope run)) (tr_manifest_hash run) rs) rs None
     (verdict_counts_of rs) (latest_snapshot db (sc_run (tr_scope run))) now"

definition is_current_quality ::
    "hashing \<Rightarrow> task_run \<Rightarrow> unit_resolution list \<Rightarrow> task_snapshot \<Rightarrow> bool" where
  "is_current_quality H run rs q = (ss_policy_digest q = SNAPSHOT_POLICY_DIGEST \<and> ss_resolution_set_hash q
     = task_result_resolution_set_hash H (sc_run (tr_scope run)) (tr_manifest_hash run) rs)"

lemma snapshot_task_eq:
  assumes r: "run_ready H db run manifest" and l: "load_quality_inputs run manifest db = Inr (units, rs)"
    and fresh: "list_all (resolution_fresh db) rs"
  shows "snapshot_task H now i run manifest now db =
    (let late = latest_snapshot db (sc_run (tr_scope run)); q = latest_quality db (sc_run (tr_scope run));
         s = quality_snapshot_of H db i run rs now in
     if \<not> opt_all (\<lambda>q. \<not> is_current_quality H run rs q) q then Inr (the q, db)
     else if \<not> opt_all (\<lambda>p. ss_finality p \<notin> {FULLY_RESOLVED, REEVALUATED}) late
       then Inl (ProjectionError ''RESULT_SNAPSHOT_FINALITY_ORDER_INVALID'')
     else if now < snapshot_watermark rs None then Inl (ProjectionError ''RESULT_SNAPSHOT_WATERMARK_INVALID'')
     else if list_ex (\<lambda>x. snapshot_conflicts x s) (rd_snapshots db) then Inl (DatabaseFailure UniqueViolation)
     else Inr (s, append_outbox (snapshot_created_event s) (db\<lparr>rd_snapshots := rd_snapshots db @ [s]\<rparr>)))"
proof -
  have k: "snapshot_store_ok H db" and d: "digests H" and run: "run \<in> set (rd_runs db)"
    using r by (simp_all add: run_ready_def)
  then have sk: "snapshots_keyed H (rd_snapshots db)" and uk: "units_keyed (rd_units db)"
    by (simp_all add: snapshot_store_ok_def fact_store_ok_def)
  note q = load_quality_inputs_Inr [OF uk l]
  have bounds: "1 \<le> length units" "length units \<le> 100000" and len: "length rs = length units"
      "length (mf_units manifest) = length units"
    using r q(3,4) by (simp_all add: run_ready_def)
  have ne: "rs \<noteq> []" using bounds(1) len by auto
  let ?late = "latest_snapshot db (sc_run (tr_scope run))"
  have phase: "opt_all (\<lambda>p. phase_follows (ss_finality p) (if None = None then QUALITY_FINAL else FULLY_RESOLVED)) ?late"
    if "opt_all (\<lambda>p. ss_finality p \<notin> {FULLY_RESOLVED, REEVALUATED}) ?late"
    using that by (cases ?late) (simp_all add: opt_all_def phase_follows_def)
  have appended: "append_snapshot H now (quality_snapshot_of H db i run rs now) db =
      (if list_ex (\<lambda>x. snapshot_conflicts x (quality_snapshot_of H db i run rs now)) (rd_snapshots db)
       then Inl (DatabaseFailure UniqueViolation)
       else Inr (quality_snapshot_of H db i run rs now, append_outbox
         (snapshot_created_event (quality_snapshot_of H db i run rs now))
         (db\<lparr>rd_snapshots := rd_snapshots db @ [quality_snapshot_of H db i run rs now]\<rparr>)))"
    if "opt_all (\<lambda>p. ss_finality p \<notin> {FULLY_RESOLVED, REEVALUATED}) ?late" "snapshot_watermark rs None \<le> now"
    using append_snapshot_accepts [OF k d l bounds run fresh _ refl phase [OF that(1)] _ that(2), where i = i] len
    by (simp add: quality_snapshot_of_def)
  show ?thesis
    using appended loaded_rows(4) [OF k l] ne
    by (simp add: snapshot_task_def l Let_def get_latest_snapshot_for_finality_def get_latest_snapshot_def
        latest_snapshot_row(1) [OF sk] count_verdicts_def require_watermark_def latest_quality_def
        latest_snapshot_def is_current_quality_def quality_snapshot_of_def len conj_commute
        cong: if_cong)
qed

end
