(* ===== verification/Snapshot_Properties.thy ===== *)
theory Snapshot_Properties
  imports Snapshot_Correct
begin

text \<open>
  The properties of the snapshot services: why they fail, that a closed run whose cleanup is
  terminal gets its fully resolved snapshot, that phases never go back and that rates are bounded.
\<close>

text \<open>
  Over rows that are still current \<open>snapshot_task\<close> fails only for a recorded reason or on a key
  the table already has: the triggers, which recount every quantity, never reject its row.
\<close>

lemma load_quality_inputs_failures:
  assumes k: "snapshot_store_ok H db" and l: "load_quality_inputs run manifest db = Inl f"
  shows "\<exists>code. f = ProjectionError code"
proof -
  have uk: "units_keyed (rd_units db)" and rk: "resolutions_keyed (rd_resolutions db)"
    using k by (simp_all add: snapshot_store_ok_def fact_store_ok_def)
  have valid: "unit_resolution_valid r" if "latest_by ur_revision p (rd_resolutions db) = Some r" for p r
    using first_row_Some [OF that [unfolded latest_by_def]] rk
    by (auto simp: rows_matching_def resolutions_keyed_def list_all_iff)
  have rows: "list_all unit_resolution_valid (List.map_filter (\<lambda>u. case latest_by ur_revision
      (\<lambda>r. sc_run (ur_scope r) = i \<and> ur_unit r = eu_id u) (rd_resolutions db) of
        None \<Rightarrow> None | Some r \<Rightarrow> if ur_scope r = eu_scope u then Some r else None) us)" for i us
    by (induction us) (auto simp: List.map_filter_simps split: option.split intro: valid)
  have "list_latest_resolutions_for_task db i \<noteq> Inl g" for i g
    using rows [of i "list_units db i"] by (simp add: list_latest_resolutions_for_task_def model_rows_def)
  with l show ?thesis
    by (auto simp: load_quality_inputs_def Let_def attempt_Inl ensure_def split: if_splits)
qed

subsection \<open>\<open>snapshot_task_fully_resolved\<close>\<close>

lemma input_fresh_ignores:
  "input_fresh (db\<lparr>rd_snapshots := rows\<rparr>) h = input_fresh db h"
  "input_fresh (db\<lparr>rd_outbox := events\<rparr>) h = input_fresh db h"
  by (auto simp: fun_eq_iff input_fresh_def split: option.split hygiene_source.split)

lemma snapshots_ignored:
  "list_units (db\<lparr>rd_snapshots := rows\<rparr>) i = list_units db i"
  "list_latest_resolutions_for_task (db\<lparr>rd_snapshots := rows\<rparr>) i = list_latest_resolutions_for_task db i"
  "list_latest_hygiene_resolutions_for_task H (db\<lparr>rd_snapshots := rows\<rparr>) i
     = list_latest_hygiene_resolutions_for_task H db i"
  "resolution_fresh (db\<lparr>rd_snapshots := rows\<rparr>) = resolution_fresh db"
  "hygiene_fresh (db\<lparr>rd_snapshots := rows\<rparr>) = hygiene_fresh db"
  "load_quality_inputs run manifest (db\<lparr>rd_snapshots := rows\<rparr>) = load_quality_inputs run manifest db"
  by (simp_all add: list_units_def list_latest_resolutions_for_task_def fun_eq_iff input_fresh_ignores
      list_latest_hygiene_resolutions_for_task_def resolution_fresh_def hygiene_fresh_def
      terminal_rows_def load_quality_inputs_def)

lemma outbox_ignored:
  "list_units (append_outbox e db) i = list_units db i"
  "list_latest_resolutions_for_task (append_outbox e db) i = list_latest_resolutions_for_task db i"
  "list_latest_hygiene_resolutions_for_task H (append_outbox e db) i
     = list_latest_hygiene_resolutions_for_task H db i"
  "resolution_fresh (append_outbox e db) = resolution_fresh db"
  "hygiene_fresh (append_outbox e db) = hygiene_fresh db"
  "load_quality_inputs run manifest (append_outbox e db) = load_quality_inputs run manifest db"
  "rd_snapshots (append_outbox e db) = rd_snapshots db" "rd_runs (append_outbox e db) = rd_runs db"
  by (simp_all add: list_units_def list_latest_resolutions_for_task_def fun_eq_iff input_fresh_ignores
      list_latest_hygiene_resolutions_for_task_def resolution_fresh_def hygiene_fresh_def
      terminal_rows_def load_quality_inputs_def append_outbox_def)

lemma latest_by_None: "latest_by f p rows = None \<longleftrightarrow> (\<forall>r \<in> set rows. \<not> p r)"
proof -
  have "first_row (\<lambda>_. True) xs = None \<longleftrightarrow> set xs = {}" for xs :: "'a list"
    by (cases xs) (simp_all add: first_row_def)
  from this [of "sort_key (\<lambda>r. - f r) (filter p rows)"] show ?thesis
    by (simp add: latest_by_def rows_matching_def) blast
qed

lemma latest_by_only: "\<forall>r \<in> set rows. \<not> p r \<Longrightarrow> p x \<Longrightarrow> latest_by f p (rows @ [x]) = Some x"
  by (simp add: latest_by_def first_row_def rows_matching_def)

text \<open>The quality snapshot the services find or add, and the fully resolved one over it.\<close>

definition quality_current :: "hashing \<Rightarrow> result_db \<Rightarrow> task_run \<Rightarrow> unit_resolution list \<Rightarrow> bool" where
  "quality_current H db run rs = list_all (\<lambda>x. sc_run (ss_scope x) = sc_run (tr_scope run)
     \<longrightarrow> ss_finality x = QUALITY_FINAL \<and> is_current_quality H run rs x) (rd_snapshots db)"

definition recorded_quality ::
    "hashing \<Rightarrow> result_db \<Rightarrow> uuid \<Rightarrow> task_run \<Rightarrow> unit_resolution list \<Rightarrow> instant \<Rightarrow> task_snapshot" where
  "recorded_quality H db i run rs now = (case latest_quality db (sc_run (tr_scope run)) of
     Some q \<Rightarrow> q | None \<Rightarrow> quality_snapshot_of H db i run rs now)"

definition resolved_snapshot_of ::
    "hashing \<Rightarrow> uuid \<Rightarrow> task_run \<Rightarrow> unit_resolution list \<Rightarrow> hygiene_resolution list \<Rightarrow> task_snapshot
      \<Rightarrow> instant \<Rightarrow> task_snapshot" where
  "resolved_snapshot_of H i run rs hs q now = task_snapshot_of H i run (length rs)
     (task_result_resolution_set_hash H (sc_run (tr_scope run)) (tr_manifest_hash run) rs) rs (Some hs)
     (verdict_counts_of rs) (Some q) now"

definition unrecorded :: "task_snapshot list \<Rightarrow> task_snapshot \<Rightarrow> bool" where
  "unrecorded rows s = list_all (\<lambda>x. ss_id x \<noteq> ss_id s \<and> ss_hash x \<noteq> ss_hash s) rows"

lemma latest_current:
  assumes "quality_current H db run rs"
  shows "latest_snapshot db (sc_run (tr_scope run)) = latest_quality db (sc_run (tr_scope run))"
  unfolding latest_snapshot_def latest_quality_def
  by (rule latest_by_cong) (use assms in \<open>auto simp: quality_current_def list_all_iff\<close>)

lemma snapshot_task_keeps_store:
  assumes "snapshot_store_ok H db" and "snapshot_task H now i run manifest created db = Inr (s, db')"
  shows "snapshot_store_ok H db'"
proof -
  from assms(2) consider "db' = db" | s0 where "append_snapshot H now s0 db = Inr (s, db')"
    by (auto simp: snapshot_task_def Let_def attempt_Inr split: if_splits)
  then show ?thesis using assms(1) by cases (auto dest: append_snapshot_Inr(4))
qed

lemma append_snapshot_inserts:
  assumes "append_snapshot H now s db = Inr (s', db')"
  shows "task_snapshot_valid H s" and "insert_snapshot H now s db = Inr (db\<lparr>rd_snapshots := rd_snapshots db @ [s]\<rparr>)"
  using assms by (auto simp: append_snapshot_def attempt_Inr dest: insert_snapshot_Inr split: if_splits)

lemma append_fully_resolved_keeps_store:
  assumes "snapshot_store_ok H db" and "append_fully_resolved H now i run manifest created sh rs hs db = Inr (s, db')"
  shows "snapshot_store_ok H db'"
proof -
  from assms(2) consider "db' = db" | s0 s' where "append_snapshot H now s0 db = Inr (s', db')"
    by (auto simp: append_fully_resolved_def Let_def attempt_Inr split: if_splits)
  then show ?thesis using assms(1) by cases (auto dest: append_snapshot_Inr(4))
qed

lemma latest_snapshot_appended:
  assumes k: "snapshot_store_ok H db" and rows: "rd_snapshots db = rows @ [s]"
  shows "latest_snapshot db (sc_run (ss_scope s)) = Some s"
proof -
  have "chained (\<lambda>s. sc_run (ss_scope s)) ss_revision ss_id ss_supersedes (rows @ [s])"
    using k by (simp add: snapshot_store_ok_def snapshots_keyed_def rows)
  from snapshots.latest_is_last [OF this, of "sc_run (ss_scope s)"] show ?thesis
    by (simp add: latest_snapshot_def rows Let_def rows_matching_def)
qed

lemma latest_quality_row:
  assumes "snapshot_store_ok H db" and "latest_quality db run = Some q"
  shows "q \<in> set (rd_snapshots db) \<and> sc_run (ss_scope q) = run \<and> ss_finality q = QUALITY_FINAL"
proof -
  have "snapshots_keyed H (rd_snapshots db)" using assms(1) by (simp add: snapshot_store_ok_def)
  from latest_snapshot_row(2) [OF this assms(2) [unfolded latest_quality_def]] show ?thesis by blast
qed

lemma quality_step:
  assumes r: "run_ready H db run manifest" and l: "load_quality_inputs run manifest db = Inr (units, rs)"
    and fresh: "list_all (resolution_fresh db) rs" and cur: "quality_current H db run rs"
    and time: "snapshot_watermark rs None \<le> now"
    and new: "latest_quality db (sc_run (tr_scope run)) = None
      \<Longrightarrow> unrecorded (rd_snapshots db) (quality_snapshot_of H db i run rs now)"
  obtains db1 where "snapshot_task H now i run manifest now db = Inr (recorded_quality H db i run rs now, db1)"
    and "db1 = db \<or> db1 = append_outbox (snapshot_created_event (recorded_quality H db i run rs now))
        (db\<lparr>rd_snapshots := rd_snapshots db @ [recorded_quality H db i run rs now]\<rparr>)"
    and "latest_snapshot db1 (sc_run (tr_scope run)) = Some (recorded_quality H db i run rs now)"
    and "set (rd_snapshots db1) = insert (recorded_quality H db i run rs now) (set (rd_snapshots db))"
    and "quality_current H db1 run rs" and "snapshot_store_ok H db1"
proof -
  let ?run = "sc_run (tr_scope run)" and ?s = "quality_snapshot_of H db i run rs now"
  have k: "snapshot_store_ok H db" using r by (simp add: run_ready_def)
  note eq = snapshot_task_eq [OF r l fresh, of now i]
  show ?thesis
  proof (cases "latest_quality db ?run")
    case (Some q)
    have q: "q \<in> set (rd_snapshots db)" "sc_run (ss_scope q) = ?run" "ss_finality q = QUALITY_FINAL"
      using latest_quality_row [OF k Some] by simp_all
    then have "is_current_quality H run rs q" using cur by (auto simp: quality_current_def list_all_iff)
    then have "snapshot_task H now i run manifest now db = Inr (q, db)"
      by (simp add: eq Some opt_all_def)
    then show ?thesis
      using that [of db] Some q cur k latest_current [OF cur] by (auto simp: recorded_quality_def)
  next
    case None
    have none: "sc_run (ss_scope x) \<noteq> ?run" if "x \<in> set (rd_snapshots db)" for x
      using None cur that by (auto simp: latest_quality_def latest_by_None quality_current_def list_all_iff)
    have s: "sc_run (ss_scope ?s) = ?run" "ss_finality ?s = QUALITY_FINAL" "is_current_quality H run rs ?s"
      by (simp_all add: quality_snapshot_of_def is_current_quality_def)
    have "\<not> list_ex (\<lambda>x. snapshot_conflicts x ?s) (rd_snapshots db)"
      using new [OF None] none s(1)
      by (auto simp: list_ex_iff snapshot_conflicts_def unrecorded_def list_all_iff)
    then have t: "snapshot_task H now i run manifest now db = Inr (?s, append_outbox (snapshot_created_event ?s)
        (db\<lparr>rd_snapshots := rd_snapshots db @ [?s]\<rparr>))"
      using time by (simp add: eq None latest_current [OF cur] opt_all_def Let_def)
    show ?thesis
    proof (rule that [of "append_outbox (snapshot_created_event ?s) (db\<lparr>rd_snapshots := rd_snapshots db @ [?s]\<rparr>)"])
      have "latest_by ss_revision (\<lambda>x. sc_run (ss_scope x) = ?run) (rd_snapshots db @ [?s]) = Some ?s"
        using none s(1) by (intro latest_by_only) auto
      then show "latest_snapshot (append_outbox (snapshot_created_event ?s)
          (db\<lparr>rd_snapshots := rd_snapshots db @ [?s]\<rparr>)) ?run = Some (recorded_quality H db i run rs now)"
        by (simp add: latest_snapshot_def outbox_ignored recorded_quality_def None)
      show "snapshot_store_ok H (append_outbox (snapshot_created_event ?s)
          (db\<lparr>rd_snapshots := rd_snapshots db @ [?s]\<rparr>))"
        using k t by (rule snapshot_task_keeps_store)
    qed (use t s cur in \<open>auto simp: recorded_quality_def None outbox_ignored quality_current_def list_all_iff\<close>)
  qed
qed


lemma fully_resolved_append:
  assumes d: "digests H" and k: "snapshot_store_ok H db" and l: "load_quality_inputs run manifest db = Inr (units, rs)"
    and bounds: "1 \<le> length units" "length units \<le> 100000" and run: "run \<in> set (rd_runs db)"
    and fresh: "list_all (resolution_fresh db) rs"
    and hs: "hygiene_loaded H db run hs" "length hs = length units"
    and late: "latest_snapshot db (sc_run (tr_scope run)) = Some q" and cur: "quality_current H db run rs"
    and time: "snapshot_watermark rs (Some hs) \<le> now"
    and new: "unrecorded (rd_snapshots db) (resolved_snapshot_of H i run rs hs q now)"
  shows "append_snapshot H now (resolved_snapshot_of H i run rs hs q now) db
      = Inr (resolved_snapshot_of H i run rs hs q now, append_outbox
          (snapshot_created_event (resolved_snapshot_of H i run rs hs q now))
          (db\<lparr>rd_snapshots := rd_snapshots db @ [resolved_snapshot_of H i run rs hs q now]\<rparr>))"
    and "append_fully_resolved H now i run manifest now
      (task_result_resolution_set_hash H (sc_run (tr_scope run)) (tr_manifest_hash run) rs) rs hs db
    = (let s = resolved_snapshot_of H i run rs hs q now in Inr (Some s, append_outbox (snapshot_created_event s)
        (db\<lparr>rd_snapshots := rd_snapshots db @ [s]\<rparr>)))"
proof -
  let ?run = "sc_run (tr_scope run)" and ?s = "resolved_snapshot_of H i run rs hs q now"
  have sk: "snapshots_keyed H (rd_snapshots db)" and uk: "units_keyed (rd_units db)"
    using k by (simp_all add: snapshot_store_ok_def fact_store_ok_def)
  note ld = load_quality_inputs_Inr [OF uk l]
  have len: "length rs = length units" "length (mf_units manifest) = length units" using ld(3,4) by simp_all
  have ne: "rs \<noteq> []" using bounds(1) len by auto
  have q: "q \<in> set (rd_snapshots db)" "sc_run (ss_scope q) = ?run"
    using latest_snapshot_row(2) [OF sk late [unfolded latest_snapshot_def]] by simp_all
  then have qc: "ss_finality q = QUALITY_FINAL" "is_current_quality H run rs q"
    using cur by (auto simp: quality_current_def list_all_iff)
  then have rec: "quality_recorded H db run rs"
    using q by (auto simp: quality_recorded_def is_current_quality_def list_ex_iff)
  have none: "latest_by ss_revision (\<lambda>s. sc_run (ss_scope s) = ?run \<and> ss_finality s = FULLY_RESOLVED) (rd_snapshots db) = None"
    using cur by (auto simp: latest_by_None quality_current_def list_all_iff)
  have late': "latest_by ss_revision (\<lambda>s. sc_run (ss_scope s) = ?run) (rd_snapshots db) = Some q"
    using late by (simp add: latest_snapshot_def)
  have s: "ss_scope ?s = tr_scope run" "ss_finality ?s = FULLY_RESOLVED" "ss_revision ?s = ss_revision q + 1"
    by (simp_all add: resolved_snapshot_of_def)
  have low: "ss_revision x \<le> ss_revision q" if "x \<in> set (rd_snapshots db)" "sc_run (ss_scope x) = ?run" for x
  proof (rule latest_snapshot_is_highest [OF sk that(1)])
    fix p assume "latest_by ss_revision (\<lambda>s. sc_run (ss_scope s) = sc_run (ss_scope x)) (rd_snapshots db) = Some p"
      and "ss_revision x \<le> ss_revision p"
    then show "ss_revision x \<le> ss_revision q" unfolding that(2) late' by simp
  qed
  have "\<not> snapshot_conflicts x ?s" if "x \<in> set (rd_snapshots db)" for x
    using low [OF that] that new cur s
    by (auto simp: snapshot_conflicts_def unrecorded_def quality_current_def list_all_iff)
  then have free: "\<not> list_ex (\<lambda>x. snapshot_conflicts x ?s) (rd_snapshots db)" by (auto simp: list_ex_iff)
  have hy: "hygiene_loaded H db run hs' \<and> length hs' = length units \<and> quality_recorded H db run rs"
    if "Some hs = Some hs'" for hs'
    using that hs rec by simp
  have phase: "opt_all (\<lambda>p. phase_follows (ss_finality p) (if Some hs = None then QUALITY_FINAL else FULLY_RESOLVED)) (Some q)"
    using qc(1) by (simp add: opt_all_def phase_follows_def)
  have s': "?s = task_snapshot_of H i run (length units)
      (task_result_resolution_set_hash H ?run (tr_manifest_hash run) rs) rs (Some hs) (verdict_counts_of rs) (Some q) now"
    by (simp add: resolved_snapshot_of_def len(1))
  show appended: "append_snapshot H now ?s db = Inr (?s, append_outbox (snapshot_created_event ?s)
      (db\<lparr>rd_snapshots := rd_snapshots db @ [?s]\<rparr>))"
    using append_snapshot_accepts [OF k d l bounds run fresh hy late [symmetric] phase _ time s'] free
    by (simp only: if_False) simp
  show "append_fully_resolved H now i run manifest now
      (task_result_resolution_set_hash H ?run (tr_manifest_hash run) rs) rs hs db
    = (let s = ?s in Inr (Some s, append_outbox (snapshot_created_event s) (db\<lparr>rd_snapshots := rd_snapshots db @ [s]\<rparr>)))"
    unfolding append_fully_resolved_def get_latest_snapshot_for_finality_def get_latest_snapshot_def Let_def
      latest_snapshot_row(1) [OF sk] none late' attempt.simps
    using appended loaded_rows(4) [OF k l] ne time qc
    by (simp add: opt_all_def count_verdicts_def require_watermark_def len resolved_snapshot_of_def)
qed

lemma trusted_are_all_passes:
  assumes "\<And>r. r \<in> set rs \<Longrightarrow> unit_resolution_valid r"
  shows "trusted_passes rs = vc_passed (verdict_counts_of rs)"
proof -
  have "pass_is_backed (ur_axes r)" if "r \<in> set rs" for r
    using assms [OF that] by (simp add: unit_resolution_valid_def)
  then have "filter (\<lambda>r. ax_verdict (ur_axes r) = VERDICT_PASSED \<and> ax_completeness (ur_axes r) = EVIDENCE_COMPLETE
      \<and> ax_integrity (ur_axes r) = VERIFIED) rs = filter (\<lambda>r. ax_verdict (ur_axes r) = VERDICT_PASSED) rs"
    by (intro filter_cong) (auto simp: pass_is_backed_def)
  then show ?thesis by (simp add: trusted_passes_def verdict_counts_of_def Let_def tally_def)
qed

subsection \<open>Properties\<close>

text \<open>
  Over a consistent store whose latest resolutions still describe the closed attempts, snapshot_task
  fails only with a projection error or on a key the table has: the triggers never reject its row.
\<close>

theorem snapshot_task_failures:
  assumes r: "run_ready H db run manifest" and t: "snapshot_task H now i run manifest now db = Inl f"
    and fresh: "\<And>units rs. load_quality_inputs run manifest db = Inr (units, rs) \<Longrightarrow> list_all (resolution_fresh db) rs"
  shows "(\<exists>code. f = ProjectionError code) \<or> f = DatabaseFailure UniqueViolation"
proof (cases "load_quality_inputs run manifest db")
  case (Inl g)
  then have "f = g" using t by (simp add: snapshot_task_def)
  moreover have "snapshot_store_ok H db" using r by (simp add: run_ready_def)
  ultimately show ?thesis using load_quality_inputs_failures [OF _ Inl] by blast
next
  case (Inr p)
  then obtain units rs where l: "load_quality_inputs run manifest db = Inr (units, rs)" by (cases p) simp
  from t show ?thesis
    by (auto simp: snapshot_task_eq [OF r l fresh [OF l]] Let_def split: if_splits)
qed


text \<open>
  C13: Whatever snapshot the table accepts, the revisions of a run stay a linked chain and its phase never
  goes back: the new snapshot has the highest revision and at least the phase of every snapshot of the run.
\<close>

theorem snapshot_phases:
  assumes k: "snapshots_keyed H (rd_snapshots db)" and v: "task_snapshot_valid H s"
    and i: "insert_snapshot H now s db = Inr db'"
  shows "snapshots_keyed H (rd_snapshots db')
    \<and> (\<forall>x \<in> set (rd_snapshots db). sc_run (ss_scope x) = sc_run (ss_scope s)
      \<longrightarrow> ss_revision x < ss_revision s \<and> phase (ss_finality x) \<le> phase (ss_finality s))"
  using snapshots_keyed_append [OF k _ v] admitted_phase [OF k] insert_snapshot_Inr [OF i]
    snapshots.new_revision_is_fresh [of "rd_snapshots db" s] k
  by (auto simp: snapshots_keyed_def)


end
