(* ===== verification/Snapshot_Demo.thy ===== *)
theory Snapshot_Demo
  imports Result_Demo Snapshot_Properties
begin

text \<open>
  The run of the example closed: its one unit passed on its first attempt, which needed no cleanup,
  and both projections are recorded.  The witnesses of the snapshot properties.
\<close>

definition demo_run :: task_run where
  "demo_run = \<lparr>tr_scope = demo_scope, tr_manifest_hash = demo_digest CHR ''a'', tr_materialization = SEALED,
     tr_unit_count = Some 1, tr_first_attempt_count = Some 1, tr_lifecycle = LIFE_CLOSED, tr_closed_at = Some 6\<rparr>"

definition demo_manifest :: run_manifest where
  "demo_manifest = \<lparr>mf_scope = demo_scope, mf_units = [demo_binding], mf_hash = demo_digest CHR ''a''\<rparr>"

definition demo_quiet :: hygiene_resolution where
  "demo_quiet = hygiene_resolution_of demo_hash demo_ids demo_unit 10
     [not_required_input demo_hash (demo_passed 1)] None"

definition demo_final :: result_db where
  "demo_final = demo_clean\<lparr>rd_runs := [demo_run], rd_manifests := [demo_manifest],
     rd_resolutions := [demo_clean_row], rd_hygiene := [demo_quiet]\<rparr>"

lemma demo_final_fields [simp]:
  "rd_runs demo_final = [demo_run]" "rd_units demo_final = [demo_unit]" "rd_attempts demo_final = [demo_passed 1]"
  "rd_seals demo_final = [demo_seal]" "rd_notices demo_final = []" "rd_resolutions demo_final = [demo_clean_row]"
  "rd_hygiene demo_final = [demo_quiet]" "rd_snapshots demo_final = []" "rd_bindings demo_final = []"
  "rd_fixtures demo_final = []"
  by (simp_all add: demo_final_def demo_clean_def demo_db_def)

lemma demo_final_rows:
  "resolutions_keyed [demo_clean_row]" "hygienes_keyed demo_hash [demo_quiet]"
  by code_simp+

lemma demo_final_keys:
  "ur_unit demo_clean_row = 4" "ur_scope demo_clean_row = demo_scope" "eu_scope demo_unit = demo_scope"
  "hr_unit demo_quiet = 4" "hr_scope demo_quiet = demo_scope"
  by (simp_all add: demo_clean_row_def demo_quiet_def demo_unit_def)

lemma demo_final_ok: "snapshot_store_ok demo_hash demo_final"
  using demo_stores_ok(3)
  by (simp add: snapshot_store_ok_def fact_store_ok_def hygiene_store_ok_def facts_keyed_def seals_keyed_def
      notices_keyed_def bindings_keyed_def attempt_exists_def resolutions_placed_def hygienes_placed_def
      unit_exists_def snapshots_keyed_def phased_def chained_def demo_clean_def demo_final_rows demo_final_keys
      demo_keys)

lemma demo_ready: "run_ready demo_hash demo_final demo_run demo_manifest"
  by (simp add: run_ready_def demo_final_ok digests_demo demo_manifest_def)

lemma demo_units: "list_units demo_final 3 = [demo_unit]"
  by (simp add: list_units_def rows_matching_def demo_final_keys demo_scope_def)


lemma demo_latest:
  "latest_by ur_revision p [demo_clean_row] = (if p demo_clean_row then Some demo_clean_row else None)"
  "latest_by hr_revision q [demo_quiet] = (if q demo_quiet then Some demo_quiet else None)"
  by (simp_all add: latest_by_def rows_matching_def first_row_def)

lemma demo_valid_rows: "unit_resolution_valid demo_clean_row" "hygiene_resolution_valid demo_hash demo_quiet"
  using demo_final_rows by (simp_all add: resolutions_keyed_def hygienes_keyed_def)

lemma demo_manifest_units: "mf_units demo_manifest = [demo_binding]"
  by (simp add: demo_manifest_def)

lemma demo_unit_covered: "unit_covered demo_run (Suc 0, demo_binding, demo_unit, demo_clean_row)"
  by (simp add: unit_covered_def demo_run_def demo_clean_row_def demo_unit_def eu_unit_key_def demo_binding_def)

lemma demo_load: "load_quality_inputs demo_run demo_manifest demo_final = Inr ([demo_unit], [demo_clean_row])"
  using demo_unit_covered
  by (simp add: load_quality_inputs_def Let_def list_latest_resolutions_for_task_def demo_units demo_latest
      demo_final_keys model_rows_def List.map_filter_simps demo_valid_rows demo_keys)
    (simp add: demo_run_def demo_manifest_def demo_units demo_scope_def model_rows_def List.map_filter_simps
      demo_valid_rows demo_keys demo_latest demo_final_keys)


lemma demo_run_keys [simp]: "tr_scope demo_run = demo_scope" "sc_run demo_scope = 3"
  by (simp_all add: demo_run_def demo_scope_def)

lemma demo_fresh: "resolution_fresh demo_final demo_clean_row"
proof -
  have "terminal_rows demo_final 4 = [(demo_passed 1, Some demo_seal, None)]"
    by (simp add: terminal_rows_def left_join_def rows_matching_def demo_keys demo_scopes)
  then show ?thesis
    by (simp add: resolution_fresh_def demo_final_keys Let_def List.map_filter_simps demo_clean_row_def seal_source_def
        demo_keys)
qed

lemma demo_hygiene_listed: "list_latest_hygiene_resolutions_for_task demo_hash demo_final 3 = Inr [demo_quiet]"
  by (simp add: list_latest_hygiene_resolutions_for_task_def demo_units demo_latest demo_final_keys
      model_rows_def List.map_filter_simps demo_valid_rows demo_keys demo_scope_def)

lemma demo_quiet_fields:
  "hr_inputs demo_quiet = [not_required_input demo_hash (demo_passed 1)]"
  "hr_data_hygiene demo_quiet = HYGIENE_NOT_APPLICABLE" "hr_manifest_hash demo_quiet = eu_manifest_hash demo_unit"
  "hr_unit_key demo_quiet = eu_unit_key demo_unit" "hr_created_at demo_quiet = 10"
  by (simp_all add: demo_quiet_def resolve_unit_data_hygiene_def hygiene_of_states_def)

lemma demo_hygiene_loaded: "hygiene_loaded demo_hash demo_final demo_run [demo_quiet]"
proof -
  have "first_row (\<lambda>a. at_id a = 6 \<and> at_unit a = 4 \<and> at_scope a = demo_scope) [demo_passed 1] = Some (demo_passed 1)"
    by (simp add: first_row_def demo_keys)
  then have "hygiene_fresh demo_final demo_quiet"
    by (simp add: hygiene_fresh_def demo_quiet_fields demo_final_keys rows_matching_def demo_keys demo_scopes
        input_fresh_def first_row_def)
      (simp add: demo_passed_def demo_attempt_def not_required_input_def)
  then show ?thesis
    by (simp add: hygiene_loaded_def demo_hygiene_listed demo_quiet_fields terminal_hygiene_def)
qed

lemma demo_covered: "list_all (hygiene_covered demo_run) (zip [demo_unit] [demo_quiet])"
  by (simp add: hygiene_covered_def demo_final_keys demo_quiet_fields demo_keys)
    (simp add: demo_unit_def demo_run_def)

lemma demo_watermark: "snapshot_watermark [demo_clean_row] (Some [demo_quiet]) \<le> 20"
  "snapshot_watermark [demo_clean_row] None \<le> 20"
  by (simp_all add: snapshot_watermark_def demo_quiet_fields) (simp_all add: demo_clean_row_def)

lemma demo_unrecorded:
  "unrecorded (recorded_quality demo_hash demo_final (demo_ids 0) demo_run [demo_clean_row] 20 # [])
    (resolved_snapshot_of demo_hash (demo_ids 1) demo_run [demo_clean_row] [demo_quiet]
      (recorded_quality demo_hash demo_final (demo_ids 0) demo_run [demo_clean_row] 20) 20)"
  by (simp add: unrecorded_def recorded_quality_def latest_quality_def latest_by_def rows_matching_def first_row_def
      quality_snapshot_of_def resolved_snapshot_of_def demo_ids_def)
    (simp add: task_result_snapshot_hash_def demo_hash_def demo_digest_def snapshot_content.defs task_snapshot_of_def
      Let_def)

subsection \<open>Witnesses\<close>


text \<open>The run is still open: no snapshot.\<close>

lemma snapshot_task_failures_witness:
  "(\<exists>code. ProjectionError ''RESULT_SNAPSHOT_WATERMARK_INVALID'' = ProjectionError code)
    \<or> ProjectionError ''RESULT_SNAPSHOT_WATERMARK_INVALID'' = DatabaseFailure UniqueViolation"
proof (rule snapshot_task_failures [OF demo_ready])
  show "snapshot_task demo_hash 5 0 demo_run demo_manifest 5 demo_final
      = Inl (ProjectionError ''RESULT_SNAPSHOT_WATERMARK_INVALID'')"
    by (simp add: snapshot_task_def demo_load Let_def get_latest_snapshot_for_finality_def get_latest_snapshot_def
        latest_by_def rows_matching_def first_row_def model_row.simps opt_all_def require_watermark_def ensure_def
        snapshot_watermark_def)
      (simp add: demo_clean_row_def)
  show "list_all (resolution_fresh demo_final) rs"
    if "load_quality_inputs demo_run demo_manifest demo_final = Inr (units, rs)" for units rs
    using that demo_fresh by (auto simp: demo_load)
qed

definition demo_quality :: task_snapshot where
  "demo_quality = quality_snapshot_of demo_hash demo_final 100 demo_run [demo_clean_row] 20"

lemma demo_quality_appended:
  "append_snapshot demo_hash 20 demo_quality demo_final
    = Inr (demo_quality, append_outbox (snapshot_created_event demo_quality) (demo_final\<lparr>rd_snapshots := [demo_quality]\<rparr>))"
proof -
  have "snapshot_task demo_hash 20 100 demo_run demo_manifest 20 demo_final
    = Inr (demo_quality, append_outbox (snapshot_created_event demo_quality)
        (demo_final\<lparr>rd_snapshots := [demo_quality]\<rparr>))"
    using snapshot_task_eq [OF demo_ready demo_load, of 20 100] demo_fresh demo_watermark(2)
    by (simp add: latest_snapshot_def latest_quality_def latest_by_def rows_matching_def first_row_def
        opt_all_def demo_quality_def Let_def)
  then show ?thesis
    using loaded_rows(4) [OF demo_final_ok demo_load] demo_watermark(2)
    by (simp add: snapshot_task_def demo_load Let_def get_latest_snapshot_for_finality_def get_latest_snapshot_def
        latest_by_def rows_matching_def first_row_def opt_all_def require_watermark_def count_verdicts_def
        demo_quality_def quality_snapshot_of_def latest_snapshot_def ensure_def demo_manifest_units)
qed

lemma demo_quality_inserted:
  "insert_snapshot demo_hash 20 demo_quality demo_final = Inr (demo_final\<lparr>rd_snapshots := [demo_quality]\<rparr>)"
  "task_snapshot_valid demo_hash demo_quality"
  using append_snapshot_inserts [OF demo_quality_appended] by simp_all

text \<open>The store after the quality snapshot, and the fully resolved one inserted there.\<close>

definition demo_recorded :: result_db where
  "demo_recorded = append_outbox (snapshot_created_event demo_quality) (demo_final\<lparr>rd_snapshots := [demo_quality]\<rparr>)"

definition demo_full :: task_snapshot where
  "demo_full = resolved_snapshot_of demo_hash 101 demo_run [demo_clean_row] [demo_quiet] demo_quality 20"

lemma demo_quality_fields:
  "sc_run (ss_scope demo_quality) = 3" "ss_finality demo_quality = QUALITY_FINAL"
  "is_current_quality demo_hash demo_run [demo_clean_row] demo_quality" "ss_id demo_quality = 100"
  by (simp_all add: demo_quality_def quality_snapshot_of_def is_current_quality_def)

lemma demo_recorded_rows:
  "rd_snapshots demo_recorded = [demo_quality]" "rd_runs demo_recorded = [demo_run]"
  "snapshot_store_ok demo_hash demo_recorded" "latest_snapshot demo_recorded 3 = Some demo_quality"
  "load_quality_inputs demo_run demo_manifest demo_recorded = Inr ([demo_unit], [demo_clean_row])"
  "resolution_fresh demo_recorded demo_clean_row" "hygiene_loaded demo_hash demo_recorded demo_run [demo_quiet]"
  "quality_current demo_hash demo_recorded demo_run [demo_clean_row]"
proof -
  show "rd_snapshots demo_recorded = [demo_quality]" "rd_runs demo_recorded = [demo_run]"
    by (simp_all add: demo_recorded_def outbox_ignored)
  show ok: "snapshot_store_ok demo_hash demo_recorded"
    unfolding demo_recorded_def using demo_final_ok demo_quality_appended by (rule append_snapshot_Inr(4))
  show "latest_snapshot demo_recorded 3 = Some demo_quality"
    using latest_snapshot_appended [OF ok, of "[]" demo_quality]
    by (simp add: demo_quality_fields) (simp add: demo_recorded_def outbox_ignored)
  show "load_quality_inputs demo_run demo_manifest demo_recorded = Inr ([demo_unit], [demo_clean_row])"
    "resolution_fresh demo_recorded demo_clean_row"
    by (simp_all add: demo_recorded_def outbox_ignored snapshots_ignored demo_load demo_fresh)
  show "hygiene_loaded demo_hash demo_recorded demo_run [demo_quiet]"
    using demo_hygiene_loaded by (simp add: demo_recorded_def hygiene_loaded_def outbox_ignored snapshots_ignored)
  show "quality_current demo_hash demo_recorded demo_run [demo_clean_row]"
    by (simp add: quality_current_def demo_recorded_def outbox_ignored demo_quality_fields)
qed

lemma demo_full_inserted:
  "insert_snapshot demo_hash 20 demo_full demo_recorded
    = Inr (demo_recorded\<lparr>rd_snapshots := [demo_quality, demo_full]\<rparr>)"
  "task_snapshot_valid demo_hash demo_full"
proof -
  have u: "unrecorded (rd_snapshots demo_recorded) demo_full"
    using demo_unrecorded
    by (simp add: demo_recorded_rows recorded_quality_def latest_quality_def latest_by_def rows_matching_def
        first_row_def demo_ids_def demo_full_def demo_quality_def)
  have "append_snapshot demo_hash 20 demo_full demo_recorded
      = Inr (demo_full, append_outbox (snapshot_created_event demo_full)
          (demo_recorded\<lparr>rd_snapshots := rd_snapshots demo_recorded @ [demo_full]\<rparr>))"
    unfolding demo_full_def
    using fully_resolved_append(1) [OF digests_demo demo_recorded_rows(3,5) _ _ _ _ demo_recorded_rows(7) _ _
        demo_recorded_rows(8) demo_watermark(1) u [unfolded demo_full_def]]
    by (simp add: demo_recorded_rows)
  from append_snapshot_inserts [OF this]
  show "insert_snapshot demo_hash 20 demo_full demo_recorded
      = Inr (demo_recorded\<lparr>rd_snapshots := [demo_quality, demo_full]\<rparr>)"
    "task_snapshot_valid demo_hash demo_full"
    by (simp_all add: demo_recorded_rows)
qed

lemma snapshot_phases_witness:
  "snapshots_keyed demo_hash [demo_quality, demo_full]
    \<and> ss_revision demo_quality < ss_revision demo_full \<and> phase (ss_finality demo_quality) < phase (ss_finality demo_full)"
proof -
  have "snapshots_keyed demo_hash (rd_snapshots demo_recorded)"
    using demo_recorded_rows(3) by (simp add: snapshot_store_ok_def)
  from snapshot_phases [OF this demo_full_inserted(2,1)] show ?thesis
    by (simp add: demo_recorded_rows demo_quality_fields demo_full_def resolved_snapshot_of_def)
qed


end
