(* ===== verification/Result_Requests.thy ===== *)
theory Result_Requests
  imports Result_Store Access
begin

text \<open>
  What the commands of the Result Center share: the transaction around an Idempotency-Key (the same
  steps in \<^verbatim>\<open>application/result_reevaluation.py\<close>, \<^verbatim>\<open>result_classification.py\<close> and
  \<^verbatim>\<open>result_gate.py\<close>) and the record they leave behind.  The result of a command is its value,
  the HTTP status and whether it was replayed.  A request's digest is an argument.
\<close>

definition REQUEST_TTL :: int where
  "REQUEST_TTL = seconds (24 * 60 * 60)"

text \<open>
  \<open>decode\<close> is \<open>model_validate\<close> on the recorded body: \<open>None\<close> is a body it rejects.
\<close>

definition idempotent ::
    "(command_response \<Rightarrow> 'v option) \<Rightarrow> ('v \<Rightarrow> command_response) \<Rightarrow> uuid \<Rightarrow> string \<Rightarrow> string \<Rightarrow> string
      \<Rightarrow> instant \<Rightarrow> (result_db \<Rightarrow> failure + ('v \<times> nat \<times> bool) \<times> result_db) \<Rightarrow> result_db
      \<Rightarrow> failure + ('v \<times> nat \<times> bool) \<times> result_db" where
  "idempotent decode encode tenant scope key h now body db =
     attempt (reserve tenant scope key h now REQUEST_TTL (rd_requests db)) (\<lambda>(reservation, rows).
     case reservation of
       Cached status b \<Rightarrow> (case decode b of None \<Rightarrow> Inl ModelInvalid
         | Some v \<Rightarrow> Inr ((v, status, True), db\<lparr>rd_requests := rows\<rparr>))
     | Acquired \<Rightarrow>
         attempt (body (db\<lparr>rd_requests := rows\<rparr>)) (\<lambda>((v, status, replayed), db1).
         attempt (complete_reservation tenant scope key h status (encode v) (rd_requests db1)) (\<lambda>rows1.
           Inr ((v, status, replayed), db1\<lparr>rd_requests := rows1\<rparr>))))"

lemma idempotent_Inr:
  assumes "idempotent decode encode tenant scope key h now body db = Inr ((v, status, replayed), db')"
  obtains (cached) b rows where "reserve tenant scope key h now REQUEST_TTL (rd_requests db) = Inr (Cached status b, rows)"
      "decode b = Some v" "replayed" "db' = db\<lparr>rd_requests := rows\<rparr>"
    | (executed) rows db1 rows1
      where "reserve tenant scope key h now REQUEST_TTL (rd_requests db) = Inr (Acquired, rows)"
        "body (db\<lparr>rd_requests := rows\<rparr>) = Inr ((v, status, replayed), db1)"
        "complete_reservation tenant scope key h status (encode v) (rd_requests db1) = Inr rows1"
        "db' = db1\<lparr>rd_requests := rows1\<rparr>"
proof -
  from assms obtain reservation rows where
    r: "reserve tenant scope key h now REQUEST_TTL (rd_requests db) = Inr (reservation, rows)"
    by (auto simp: idempotent_def attempt_Inr)
  show thesis
  proof (cases reservation)
    case Acquired
    with assms r show thesis by (auto simp: idempotent_def attempt_Inr intro: executed)
  next
    case (Cached n b)
    with assms r show thesis by (auto simp: idempotent_def intro: cached split: option.splits)
  qed
qed

text \<open>
  A command executed under a key answers the same again, without a write, until the key expires;
  another request under the key is refused.  The body leaves the records of the keys alone.
\<close>

lemma executed_replays:
  assumes first: "idempotent decode encode tenant scope key h now body db = Inr ((v, status, False), db')"
    and body: "\<And>s r s'. body s = Inr (r, s') \<Longrightarrow> rd_requests s' = rd_requests s"
    and code: "decode (encode v) = Some v" and live: "now \<le> later" "later < now + REQUEST_TTL"
    and h': "request_hash_pattern h'"
  shows "idempotent decode encode tenant scope key h' later body' db' =
    (if h' = h then Inr ((v, status, True), db') else Inl (app_failure CONFLICT 409))"
  using first
proof (cases rule: idempotent_Inr)
  case (executed rows db1 rows1)
  have "rd_requests db1 = rows" using body [OF executed(2)] by simp
  with executed(3) have c: "complete_reservation tenant scope key h status (encode v) rows = Inr rows1" by simp
  note rows1 = reserve_complete [OF executed(1) c]
  have "request_check (new_request tenant scope key h now REQUEST_TTL :: command_response idempotency_record)"
    using executed(1) by (rule reserve_Acquired(2))
  then have check: "request_check (new_request tenant scope key h' later REQUEST_TTL :: command_response idempotency_record)"
    using h' by (simp add: request_check_def new_request_def)
  have "reserve tenant scope key h' later REQUEST_TTL rows1 =
      (if h' = h then Inr (Cached status (encode v), rows1) else Inl (app_failure CONFLICT 409))"
    using reserve_completed [OF rows1 _ check] live by simp
  then show ?thesis
    using code by (simp add: idempotent_def executed(4))
qed simp

end
