(* ===== verification/Result_Reevaluation.thy ===== *)
theory Result_Reevaluation
  imports Snapshot_Properties Result_Requests
begin

text \<open>
  Re-evaluation (\<^verbatim>\<open>application/result_reevaluation.py\<close>, table and triggers of migration 0037):
  an operator asks for a fully resolved snapshot to be read again under the current policy; the
  command is recorded and a \<open>REEVALUATED\<close> snapshot appended that keeps every input and count.
\<close>

subsection \<open>Commands\<close>

definition reevaluation_command_check :: "reevaluation_command \<Rightarrow> bool" where
  "reevaluation_command_check c = (rc_policy_digest c = SNAPSHOT_REEVALUATED_POLICY_DIGEST
     \<and> digest_pattern (rc_policy_digest c) \<and> digest_pattern (rc_hash c)
     \<and> mutation_pattern (rc_client_mutation_id c))"

definition reevaluation_command_conflicts :: "reevaluation_command \<Rightarrow> reevaluation_command \<Rightarrow> bool" where
  "reevaluation_command_conflicts x y = (rc_id x = rc_id y
     \<or> (sc_run (rc_scope x) = sc_run (rc_scope y) \<and> rc_client_mutation_id x = rc_client_mutation_id y)
     \<or> (sc_tenant (rc_scope x) = sc_tenant (rc_scope y) \<and> rc_hash x = rc_hash y))"

definition reevaluation_command_references :: "result_db \<Rightarrow> reevaluation_command \<Rightarrow> bool" where
  "reevaluation_command_references db c = (list_ex (\<lambda>run. tr_scope run = rc_scope c) (rd_runs db)
     \<and> list_ex (\<lambda>s. ss_id s = rc_source_snapshot c) (rd_snapshots db))"

definition guard_reevaluation_command :: "hashing \<Rightarrow> instant \<Rightarrow> result_db \<Rightarrow> reevaluation_command \<Rightarrow> bool" where
  "guard_reevaluation_command H now db c =
     ((case first_row (\<lambda>s. ss_id s = rc_source_snapshot c \<and> ss_scope s = rc_scope c) (rd_snapshots db) of
         None \<Rightarrow> False | Some source \<Rightarrow> ss_finality source = FULLY_RESOLVED)
     \<and> rc_policy_digest c = SNAPSHOT_REEVALUATED_POLICY_DIGEST \<and> rc_requested_at c = now
     \<and> reevaluation_command_hash H c = rc_hash c)"

definition insert_reevaluation_command ::
    "hashing \<Rightarrow> instant \<Rightarrow> reevaluation_command \<Rightarrow> result_db \<Rightarrow> failure + result_db" where
  "insert_reevaluation_command H now c db =
     attempt (db_call (ensure (guard_reevaluation_command H now db c) TriggerViolation)) (\<lambda>_.
     attempt (db_call (sql_insert reevaluation_command_check reevaluation_command_conflicts c (rd_commands db))) (\<lambda>table.
     attempt (db_call (ensure (reevaluation_command_references db c) ForeignKeyViolation)) (\<lambda>_.
       Inr (db\<lparr>rd_commands := table\<rparr>))))"

subsection \<open>The service\<close>

record reevaluation_request =
  rq_source_snapshot :: uuid
  rq_client_mutation_id :: string

definition reevaluation_payload :: "uuid \<Rightarrow> reevaluation_request \<Rightarrow> json" where
  "reevaluation_payload run q = JObject [(''taskRunId'', uuid_json run),
     (''sourceSnapshotId'', uuid_json (rq_source_snapshot q)), (''targetPolicyVersion'', JString ''0.3.0''),
     (''clientMutationId'', JString (rq_client_mutation_id q))]"

definition require_reevaluable_run :: "actor_context \<Rightarrow> task_run option \<Rightarrow> failure + task_run" where
  "require_reevaluable_run actor run = (case run of
     None \<Rightarrow> Inl (app_failure NOT_FOUND 404)
   | Some r \<Rightarrow>
       if \<not> can_read_project actor (sc_project (tr_scope r)) then Inl (app_failure NOT_FOUND 404)
       else if \<not> can_operate_project actor (sc_project (tr_scope r)) then Inl (app_failure FORBIDDEN 403)
       else if tr_lifecycle r \<noteq> LIFE_CLOSED \<or> tr_materialization r \<noteq> SEALED then Inl (app_failure CONFLICT 409)
       else Inr r)"

definition require_reevaluation_source :: "task_run \<Rightarrow> task_snapshot option \<Rightarrow> failure + task_snapshot" where
  "require_reevaluation_source run source = (case source of
     None \<Rightarrow> Inl (app_failure NOT_FOUND 404)
   | Some s \<Rightarrow>
       if ss_scope s \<noteq> tr_scope run then Inl (app_failure NOT_FOUND 404)
       else if ss_finality s \<noteq> FULLY_RESOLVED \<or> ss_manifest_hash s \<noteq> tr_manifest_hash run
       then Inl (app_failure CONFLICT 409) else Inr s)"

definition reevaluation_command_of ::
    "hashing \<Rightarrow> uuid \<Rightarrow> actor_context \<Rightarrow> task_run \<Rightarrow> task_snapshot \<Rightarrow> string \<Rightarrow> instant \<Rightarrow> reevaluation_command" where
  "reevaluation_command_of H i actor run source mutation now =
     (let content = \<lparr>rc_id = i, rc_scope = tr_scope run, rc_source_snapshot = ss_id source,
        rc_policy_digest = SNAPSHOT_REEVALUATED_POLICY_DIGEST, rc_client_mutation_id = mutation,
        rc_requested_by = actor_id actor, rc_requested_at = now\<rparr> in
      reevaluation_content.extend content (reevaluation_command.fields (reevaluation_command_hash H content)))"

definition reevaluated_snapshot_of ::
    "hashing \<Rightarrow> uuid \<Rightarrow> task_snapshot \<Rightarrow> task_snapshot \<Rightarrow> uuid \<Rightarrow> instant \<Rightarrow> task_snapshot" where
  "reevaluated_snapshot_of H i source latest command now =
     (let content = \<lparr>ss_schema_version = ''atlas.task-result-snapshot/0.3'', ss_id = i, ss_scope = ss_scope source,
        ss_manifest_hash = ss_manifest_hash source, ss_revision = ss_revision latest + 1, ss_finality = REEVALUATED,
        ss_resolution_ids = ss_resolution_ids source, ss_resolution_set_hash = ss_resolution_set_hash source,
        ss_hygiene_ids = ss_hygiene_ids source, ss_hygiene_set_hash = ss_hygiene_set_hash source,
        ss_source_snapshot = Some (ss_id source), ss_command = Some command, ss_policy_version = ''0.3.0'',
        ss_policy_digest = SNAPSHOT_REEVALUATED_POLICY_DIGEST, ss_watermark = ss_watermark source,
        ss_manifest_count = ss_manifest_count source, ss_verdicts = ss_verdicts source,
        ss_distributions = ss_distributions source, ss_raw = ss_raw source, ss_trusted = ss_trusted source,
        ss_autonomous = ss_autonomous source, ss_decisive = ss_decisive source,
        ss_supersedes = Some (ss_id latest), ss_created_at = now\<rparr> in
      snapshot_content.extend content (task_snapshot.fields (task_result_snapshot_hash H content)))"

definition reevaluation_record :: "reevaluation_command \<Rightarrow> task_snapshot \<Rightarrow> (string \<times> json) list" where
  "reevaluation_record c s = [(''resultSnapshotId'', uuid_json (ss_id s)), (''revision'', JInt (ss_revision s)),
     (''finality'', JString (finality_text (ss_finality s))),
     (''reevaluationSourceSnapshotId'', uuid_json (rc_source_snapshot c)),
     (''reevaluationCommandId'', uuid_json (rc_id c)),
     (''aggregationPolicyVersion'', JString (ss_policy_version s)),
     (''aggregationPolicyDigest'', JString (ss_policy_digest s)), (''snapshotHash'', JString (ss_hash s))]"

definition record_reevaluation ::
    "actor_context \<Rightarrow> reevaluation_command \<Rightarrow> task_snapshot \<Rightarrow> instant \<Rightarrow> result_db \<Rightarrow> failure + result_db" where
  "record_reevaluation actor c s now db =
     attempt (append_audit \<lparr>ae_tenant = sc_tenant (ss_scope s), ae_project = Some (sc_project (ss_scope s)),
       ae_actor = actor_id actor, ae_type = ''task_result.reevaluated'', ae_entity_type = ''task_result_snapshot'',
       ae_entity = Some (ss_id s), ae_occurred_at = now, ae_payload = reevaluation_record c s,
       ae_request_id = request_id actor\<rparr> db) (\<lambda>db1.
     Inr (append_outbox \<lparr>ev_type = ''task.snapshot_created'', ev_aggregate = sc_run (ss_scope s),
       ev_payload = reevaluation_record c s, ev_occurred_at = now\<rparr> db1))"

text \<open>The transaction between the reservation of the key and its completion.\<close>

definition append_reevaluated ::
    "hashing \<Rightarrow> actor_context \<Rightarrow> instant \<Rightarrow> (nat \<Rightarrow> uuid) \<Rightarrow> reevaluation_request \<Rightarrow> task_run \<Rightarrow> task_snapshot
      \<Rightarrow> result_db \<Rightarrow> failure + (task_snapshot \<times> nat \<times> bool) \<times> result_db" where
  "append_reevaluated H actor now ids q run source db =
     attempt (get_latest_snapshot H db (sc_run (tr_scope run))) (\<lambda>latest.
     case latest of None \<Rightarrow> Inl (app_failure CONFLICT 409)
     | Some l \<Rightarrow>
       let c = reevaluation_command_of H (ids 0) actor run source (rq_client_mutation_id q) now;
           s = reevaluated_snapshot_of H (ids 1) source l (rc_id c) now in
       attempt (ensure (reevaluation_command_valid H c) ModelInvalid) (\<lambda>_.
       attempt (insert_reevaluation_command H now c db) (\<lambda>db1.
       attempt (ensure (ss_hygiene_ids source \<noteq> None \<and> ss_hygiene_set_hash source \<noteq> None) RuntimeFailure) (\<lambda>_.
       attempt (ensure (task_snapshot_valid H s) ModelInvalid) (\<lambda>_.
       attempt (insert_snapshot H now s db1) (\<lambda>db2.
       attempt (record_reevaluation actor c s now db2) (\<lambda>db3. Inr ((s, 201, False), db3))))))))"

definition reevaluate_run ::
    "hashing \<Rightarrow> actor_context \<Rightarrow> instant \<Rightarrow> (nat \<Rightarrow> uuid) \<Rightarrow> uuid \<Rightarrow> reevaluation_request
      \<Rightarrow> result_db \<Rightarrow> failure + (task_snapshot \<times> nat \<times> bool) \<times> result_db" where
  "reevaluate_run H actor now ids run_id q db =
     attempt (require_reevaluable_run actor (get_run db run_id)) (\<lambda>run.
     attempt (get_snapshot_by_id H db (rq_source_snapshot q)) (\<lambda>found.
     attempt (require_reevaluation_source run found) (\<lambda>source.
     attempt (get_reevaluated_snapshot H db (sc_run (tr_scope run)) (ss_id source) SNAPSHOT_REEVALUATED_POLICY_DIGEST)
       (\<lambda>existing.
     case existing of Some s \<Rightarrow> Inr ((s, 200, True), db)
     | None \<Rightarrow> append_reevaluated H actor now ids q run source db))))"

fun decode_snapshot :: "hashing \<Rightarrow> command_response \<Rightarrow> task_snapshot option" where
  "decode_snapshot H (SnapshotResponse s) = (if task_snapshot_valid H s then Some s else None)"
| "decode_snapshot H _ = None"

definition reevaluate ::
    "hashing \<Rightarrow> (json \<Rightarrow> string) \<Rightarrow> actor_context \<Rightarrow> instant \<Rightarrow> (nat \<Rightarrow> uuid) \<Rightarrow> uuid \<Rightarrow> reevaluation_request
      \<Rightarrow> string \<Rightarrow> result_db \<Rightarrow> failure + (task_snapshot \<times> nat \<times> bool) \<times> result_db" where
  "reevaluate H R actor now ids run_id q key db =
     (if key \<noteq> rq_client_mutation_id q then Inl (app_failure INVALID_REQUEST 400)
      else idempotent (decode_snapshot H) SnapshotResponse (actor_tenant_id actor)
        (''task-runs.'' @ uuid_text run_id @ ''.result.reevaluate'') key (R (reevaluation_payload run_id q)) now
        (reevaluate_run H actor now ids run_id q) db)"

subsection \<open>What a new re-evaluation guarantees\<close>

lemma store_ignores_requests:
  "snapshot_store_ok H (db\<lparr>rd_requests := r\<rparr>) = snapshot_store_ok H db"
  "snapshot_store_ok H (db\<lparr>rd_audit := a\<rparr>) = snapshot_store_ok H db"
  "snapshot_store_ok H (db\<lparr>rd_commands := c\<rparr>) = snapshot_store_ok H db"
  by (simp_all add: snapshot_store_ok_def fact_store_ok_def facts_keyed_def seals_keyed_def notices_keyed_def
      hygiene_store_ok_def bindings_keyed_def resolutions_placed_def hygienes_placed_def attempt_exists_def
      unit_exists_def)

lemma record_reevaluation_Inr:
  "record_reevaluation actor c s now db = Inr db' \<Longrightarrow>
     \<exists>a e. db' = append_outbox e (db\<lparr>rd_audit := a\<rparr>)"
  by (auto simp: record_reevaluation_def append_audit_def attempt_Inr db_call_Inr)

lemma insert_reevaluation_command_Inr:
  "insert_reevaluation_command H now c db = Inr db' \<Longrightarrow> db' = db\<lparr>rd_commands := rd_commands db @ [c]\<rparr>
     \<and> guard_reevaluation_command H now db c"
  by (auto simp: insert_reevaluation_command_def attempt_Inr db_call_Inr ensure_Inr sql_insert_Inr)

lemma insert_snapshot_keeps_store:
  assumes k: "snapshot_store_ok H db" and v: "task_snapshot_valid H s" and i: "insert_snapshot H now s db = Inr db'"
  shows "snapshot_store_ok H db'" and "db' = db\<lparr>rd_snapshots := rd_snapshots db @ [s]\<rparr>"
proof -
  note n = insert_snapshot_Inr [OF i]
  then show db': "db' = db\<lparr>rd_snapshots := rd_snapshots db @ [s]\<rparr>" by simp
  have "snapshots_keyed H (rd_snapshots db @ [s])"
    using k n v by (intro snapshots_keyed_append) (simp_all add: snapshot_store_ok_def)
  then show "snapshot_store_ok H db'"
    unfolding db' snapshot_store_ok_update(2) using k by (simp add: snapshot_store_ok_def)
qed

end
