(* ===== verification/Reevaluation_Correct.thy ===== *)
theory Reevaluation_Correct
  imports Result_Reevaluation
begin

text \<open>
  Re-evaluation in full: on a run whose source snapshot is the one asked for, the service's snapshot
  passes its own model and every rule of the tables; whatever it appends keeps the source's result;
  and the answer under a key is the same for as long as the key lives.
\<close>

subsection \<open>The computed snapshot and command\<close>

lemma reevaluated_fields [simp]:
  "ss_schema_version (reevaluated_snapshot_of H i source l c now) = ''atlas.task-result-snapshot/0.3''"
  "ss_id (reevaluated_snapshot_of H i source l c now) = i"
  "ss_scope (reevaluated_snapshot_of H i source l c now) = ss_scope source"
  "ss_manifest_hash (reevaluated_snapshot_of H i source l c now) = ss_manifest_hash source"
  "ss_revision (reevaluated_snapshot_of H i source l c now) = ss_revision l + 1"
  "ss_finality (reevaluated_snapshot_of H i source l c now) = REEVALUATED"
  "ss_resolution_ids (reevaluated_snapshot_of H i source l c now) = ss_resolution_ids source"
  "ss_resolution_set_hash (reevaluated_snapshot_of H i source l c now) = ss_resolution_set_hash source"
  "ss_hygiene_ids (reevaluated_snapshot_of H i source l c now) = ss_hygiene_ids source"
  "ss_hygiene_set_hash (reevaluated_snapshot_of H i source l c now) = ss_hygiene_set_hash source"
  "ss_source_snapshot (reevaluated_snapshot_of H i source l c now) = Some (ss_id source)"
  "ss_command (reevaluated_snapshot_of H i source l c now) = Some c"
  "ss_policy_version (reevaluated_snapshot_of H i source l c now) = ''0.3.0''"
  "ss_policy_digest (reevaluated_snapshot_of H i source l c now) = SNAPSHOT_REEVALUATED_POLICY_DIGEST"
  "ss_watermark (reevaluated_snapshot_of H i source l c now) = ss_watermark source"
  "ss_manifest_count (reevaluated_snapshot_of H i source l c now) = ss_manifest_count source"
  "ss_verdicts (reevaluated_snapshot_of H i source l c now) = ss_verdicts source"
  "ss_distributions (reevaluated_snapshot_of H i source l c now) = ss_distributions source"
  "ss_raw (reevaluated_snapshot_of H i source l c now) = ss_raw source"
  "ss_trusted (reevaluated_snapshot_of H i source l c now) = ss_trusted source"
  "ss_autonomous (reevaluated_snapshot_of H i source l c now) = ss_autonomous source"
  "ss_decisive (reevaluated_snapshot_of H i source l c now) = ss_decisive source"
  "ss_supersedes (reevaluated_snapshot_of H i source l c now) = Some (ss_id l)"
  "ss_created_at (reevaluated_snapshot_of H i source l c now) = now"
  "ss_hash (reevaluated_snapshot_of H i source l c now)
     = task_result_snapshot_hash H (reevaluated_snapshot_of H i source l c now)"
  by (simp_all add: reevaluated_snapshot_of_def Let_def snapshot_content.defs task_snapshot.defs
      task_result_snapshot_hash_def)

lemma command_fields [simp]:
  "rc_id (reevaluation_command_of H i actor run source m now) = i"
  "rc_scope (reevaluation_command_of H i actor run source m now) = tr_scope run"
  "rc_source_snapshot (reevaluation_command_of H i actor run source m now) = ss_id source"
  "rc_policy_digest (reevaluation_command_of H i actor run source m now) = SNAPSHOT_REEVALUATED_POLICY_DIGEST"
  "rc_client_mutation_id (reevaluation_command_of H i actor run source m now) = m"
  "rc_requested_by (reevaluation_command_of H i actor run source m now) = actor_id actor"
  "rc_requested_at (reevaluation_command_of H i actor run source m now) = now"
  "rc_hash (reevaluation_command_of H i actor run source m now)
     = reevaluation_command_hash H (reevaluation_command_of H i actor run source m now)"
  by (simp_all add: reevaluation_command_of_def Let_def reevaluation_content.defs reevaluation_command.defs
      reevaluation_command_hash_def)

lemma reevaluated_same_result [simp]: "same_result (reevaluated_snapshot_of H i source l c now) source"
  by (simp add: same_result_def)

lemma reevaluated_valid:
  assumes v: "task_snapshot_valid H source" and f: "ss_finality source = FULLY_RESOLVED" and d: "digests H"
    and l: "1 \<le> ss_revision l" and t: "ss_created_at source \<le> now"
  shows "task_snapshot_valid H (reevaluated_snapshot_of H i source l c now)"
    and "snapshot_check (reevaluated_snapshot_of H i source l c now)"
proof -
  have c: "snapshot_content_valid source" and w: "ss_watermark source \<le> now"
    using v t by (auto simp: task_snapshot_valid_def snapshot_content_valid_def)
  have h: "digest_pattern (H x)" for x using d by (simp add: digests_def)
  have rates: "list_all pass_rate_valid [ss_raw source, ss_trusted source, ss_autonomous source, ss_decisive source]"
    using c unfolding snapshot_content_valid_def by blast
  obtain hs where "ss_hygiene_ids source = Some hs" "length hs = ss_manifest_count source" "distinct hs"
    using c f by (auto simp: snapshot_content_valid_def split: option.splits)
  with c rates w f l h show "task_snapshot_valid H (reevaluated_snapshot_of H i source l c now)"
    by (simp add: task_snapshot_valid_def snapshot_content_valid_def finality_shape_def policy_digest_of_def
        lineage_ok_def task_result_snapshot_hash_def pass_rate_valid_def)
  from c w f l h show "snapshot_check (reevaluated_snapshot_of H i source l c now)"
    by (auto simp: snapshot_check_def snapshot_content_valid_def finality_shape_def task_result_snapshot_hash_def
        split: option.splits)
qed

subsection \<open>Acceptance\<close>

text \<open>A run that may be re-evaluated from a snapshot, by an actor who may.\<close>

definition reevaluable ::
    "hashing \<Rightarrow> actor_context \<Rightarrow> instant \<Rightarrow> result_db \<Rightarrow> task_run \<Rightarrow> task_snapshot \<Rightarrow> bool" where
  "reevaluable H actor now db run source = (snapshot_store_ok H db \<and> digests H
     \<and> get_run db (sc_run (tr_scope run)) = Some run \<and> can_operate_project actor (sc_project (tr_scope run))
     \<and> not_blank (request_id actor) \<and> tr_lifecycle run = LIFE_CLOSED \<and> tr_closed_at run \<noteq> None
     \<and> tr_materialization run = SEALED \<and> opt_all (\<lambda>n. n = int (ss_manifest_count source)) (tr_unit_count run)
     \<and> first_row (\<lambda>s. ss_id s = ss_id source) (rd_snapshots db) = Some source
     \<and> ss_scope source = tr_scope run \<and> ss_finality source = FULLY_RESOLVED
     \<and> ss_manifest_hash source = tr_manifest_hash run \<and> ss_created_at source \<le> now)"

text \<open>The identifiers and digests drawn for it are new, and the snapshot has not been re-evaluated.\<close>

definition reevaluation_new ::
    "hashing \<Rightarrow> actor_context \<Rightarrow> instant \<Rightarrow> (nat \<Rightarrow> uuid) \<Rightarrow> string \<Rightarrow> result_db \<Rightarrow> task_run \<Rightarrow> task_snapshot
      \<Rightarrow> task_snapshot \<Rightarrow> bool" where
  "reevaluation_new H actor now ids mutation db run source latest =
     (list_all (\<lambda>c. \<not> reevaluation_command_conflicts c (reevaluation_command_of H (ids 0) actor run source mutation now))
        (rd_commands db)
     \<and> list_all (\<lambda>s. \<not> snapshot_conflicts s (reevaluated_snapshot_of H (ids 1) source latest (ids 0) now))
        (rd_snapshots db))"

lemma latest_exists:
  assumes k: "snapshots_keyed H (rd_snapshots db)" and s: "s \<in> set (rd_snapshots db)"
  obtains (latest) l where "latest_snapshot db (sc_run (ss_scope s)) = Some l" "1 \<le> ss_revision l"
    "l \<in> set (rd_snapshots db)" "sc_run (ss_scope l) = sc_run (ss_scope s)"
proof -
  obtain l where l: "latest_by ss_revision (\<lambda>y. sc_run (ss_scope y) = sc_run (ss_scope s)) (rd_snapshots db) = Some l"
    using latest_snapshot_is_highest [OF k s] by blast
  from latest_snapshot_row(2) [OF k l]
  have "l \<in> set (rd_snapshots db)" "sc_run (ss_scope l) = sc_run (ss_scope s)" "1 \<le> ss_revision l"
    by (simp_all add: task_snapshot_valid_def snapshot_content_valid_def lineage_ok_def)
  with l show thesis by (auto simp: latest_snapshot_def intro: latest [of l])
qed

lemma command_inserted:
  assumes r: "reevaluable H actor now db run source"
    and n: "reevaluation_new H actor now ids m db run source l" and m: "mutation_pattern m"
  shows "insert_reevaluation_command H now (reevaluation_command_of H (ids 0) actor run source m now) db
    = Inr (db\<lparr>rd_commands := rd_commands db @ [reevaluation_command_of H (ids 0) actor run source m now]\<rparr>)"
proof -
  let ?c = "reevaluation_command_of H (ids 0) actor run source m now"
  from r have src: "first_row (\<lambda>s. ss_id s = ss_id source) (rd_snapshots db) = Some source"
    and scope: "ss_scope source = tr_scope run" and f: "ss_finality source = FULLY_RESOLVED"
    and run: "run \<in> set (rd_runs db)" and d: "digests H"
    by (auto simp: reevaluable_def get_run_def dest: first_row_Some)
  note row = first_row_Some [OF src]
  have "first_row (\<lambda>s. ss_id s = ss_id source \<and> ss_scope s = tr_scope run) (rd_snapshots db) = Some source"
    using src scope by (rule first_row_refine)
  then have g: "guard_reevaluation_command H now db ?c" using f by (simp add: guard_reevaluation_command_def)
  have ck: "reevaluation_command_check ?c" using m d by (simp add: reevaluation_command_check_def reevaluation_command_hash_def digests_def)
  have ref: "reevaluation_command_references db ?c" using run row by (auto simp: reevaluation_command_references_def list_ex_iff)
  show ?thesis
    using g ck ref n by (simp add: insert_reevaluation_command_def sql_insert_def ensure_def reevaluation_new_def
        list_ex_iff list_all_iff)
qed

lemma reevaluated_inserted:
  assumes r: "reevaluable H actor now db run source"
    and l: "latest_snapshot db (sc_run (tr_scope run)) = Some l" "1 \<le> ss_revision l"
    and n: "reevaluation_new H actor now ids m db run source l"
    and db1: "db1 = db\<lparr>rd_commands := rd_commands db @ [reevaluation_command_of H (ids 0) actor run source m now]\<rparr>"
  shows "insert_snapshot H now (reevaluated_snapshot_of H (ids 1) source l (ids 0) now) db1
      = Inr (db1\<lparr>rd_snapshots := rd_snapshots db @ [reevaluated_snapshot_of H (ids 1) source l (ids 0) now]\<rparr>)"
    and "task_snapshot_valid H (reevaluated_snapshot_of H (ids 1) source l (ids 0) now)"
proof -
  let ?s = "reevaluated_snapshot_of H (ids 1) source l (ids 0) now"
  let ?c = "reevaluation_command_of H (ids 0) actor run source m now"
  from r have src: "first_row (\<lambda>s. ss_id s = ss_id source) (rd_snapshots db) = Some source"
    and scope: "ss_scope source = tr_scope run" and f: "ss_finality source = FULLY_RESOLVED"
    and run: "run \<in> set (rd_runs db)" and d: "digests H" and k: "snapshots_keyed H (rd_snapshots db)"
    and t: "ss_created_at source \<le> now"
    by (auto simp: reevaluable_def get_run_def snapshot_store_ok_def dest: first_row_Some)
  have v: "task_snapshot_valid H source"
    using first_row_Some [OF src] k by (simp add: snapshots_keyed_def list_all_iff)
  note valid = reevaluated_valid [OF v f d l(2) t]
  show "task_snapshot_valid H ?s" by (rule valid(1))
  have phase: "guard_snapshot_phase (rd_snapshots db) ?s"
    using l(1) by (simp add: guard_snapshot_phase_def latest_snapshot_def scope opt_all_def phase_follows_def)
  have "first_row (\<lambda>x. ss_id x = ss_id source \<and> ss_scope x = tr_scope run) (rd_snapshots db) = Some source"
    using src scope by (rule first_row_refine)
  moreover have "first_row (\<lambda>x. rc_id x = ids 0 \<and> rc_scope x = tr_scope run) (rd_commands db @ [?c]) = Some ?c"
  proof -
    have "filter (\<lambda>x. rc_id x = ids 0 \<and> rc_scope x = tr_scope run) (rd_commands db) = []"
      using n by (auto simp: reevaluation_new_def list_all_iff filter_empty_conv reevaluation_command_conflicts_def)
    then show ?thesis by (simp add: first_row_def)
  qed
  ultimately have guard: "guard_snapshot_reevaluated H now db1 ?s"
    using r run f by (auto simp: guard_snapshot_reevaluated_def guard_snapshot_run_def reevaluable_def list_ex_iff db1)
  have refs: "snapshot_references db1 ?s"
    using run scope first_row_Some [OF src] latest_snapshot_row(2) [OF k l(1) [unfolded latest_snapshot_def]]
    by (auto simp: snapshot_references_def list_ex_iff opt_all_def db1)
  show "insert_snapshot H now ?s db1 = Inr (db1\<lparr>rd_snapshots := rd_snapshots db @ [?s]\<rparr>)"
    using phase guard refs valid(2) n
    by (simp add: insert_snapshot_def sql_insert_def ensure_def reevaluation_new_def list_ex_iff list_all_iff db1)
qed

subsection \<open>The endpoint\<close>

lemma latest_of_reevaluable:
  assumes "reevaluable H actor now db run source"
  obtains (latest) l where "latest_snapshot db (sc_run (tr_scope run)) = Some l" "1 \<le> ss_revision l"
proof -
  from assms have k: "snapshots_keyed H (rd_snapshots db)" and s: "source \<in> set (rd_snapshots db)"
    and scope: "ss_scope source = tr_scope run"
    by (auto simp: reevaluable_def snapshot_store_ok_def dest: first_row_Some)
  from latest_exists [OF k s] show thesis by (auto simp: scope intro: latest)
qed

lemma not_reevaluated:
  assumes k: "snapshots_keyed H (rd_snapshots db)"
    and n: "list_all (\<lambda>s. \<not> snapshot_conflicts s (reevaluated_snapshot_of H i source l c now)) (rd_snapshots db)"
    and run: "sc_run (ss_scope source) = run"
  shows "get_reevaluated_snapshot H db run (ss_id source) SNAPSHOT_REEVALUATED_POLICY_DIGEST = Inr None"
proof -
  have "latest_by ss_revision (\<lambda>s. sc_run (ss_scope s) = run \<and> ss_finality s = REEVALUATED
      \<and> ss_source_snapshot s = Some (ss_id source)
      \<and> ss_policy_digest s = SNAPSHOT_REEVALUATED_POLICY_DIGEST) (rd_snapshots db) = None"
    using n run by (auto simp: latest_by_None list_all_iff snapshot_conflicts_def)
  then show ?thesis by (simp add: get_reevaluated_snapshot_def model_row.simps)
qed

lemma record_reevaluation_ok:
  "not_blank (request_id actor) \<Longrightarrow> \<exists>a e. record_reevaluation actor c s now db
      = Inr (append_outbox e (db\<lparr>rd_audit := rd_audit db @ [a]\<rparr>))"
  by (simp add: record_reevaluation_def append_audit_def ensure_def audit_check_def not_blank_def) blast

text \<open>What the endpoint answers on a run that may be re-evaluated.\<close>

lemma reevaluate_run_accepts:
  assumes r: "reevaluable H actor now db run source" and m: "mutation_pattern (rq_client_mutation_id q)"
    and q: "rq_source_snapshot q = ss_id source"
    and l: "latest_snapshot db (sc_run (tr_scope run)) = Some l"
    and n: "reevaluation_new H actor now ids (rq_client_mutation_id q) db run source l"
  shows "\<exists>db'. reevaluate_run H actor now ids (sc_run (tr_scope run)) q db
      = Inr ((reevaluated_snapshot_of H (ids 1) source l (ids 0) now, 201, False), db')
    \<and> rd_snapshots db' = rd_snapshots db @ [reevaluated_snapshot_of H (ids 1) source l (ids 0) now]
    \<and> snapshot_store_ok H db'"
proof -
  let ?m = "rq_client_mutation_id q" and ?s = "reevaluated_snapshot_of H (ids 1) source l (ids 0) now"
  let ?c = "reevaluation_command_of H (ids 0) actor run source ?m now"
  let ?db = "db\<lparr>rd_commands := rd_commands db @ [?c]\<rparr>"
  from r have src: "first_row (\<lambda>s. ss_id s = ss_id source) (rd_snapshots db) = Some source"
    and scope: "ss_scope source = tr_scope run" and f: "ss_finality source = FULLY_RESOLVED"
    and d: "digests H" and k: "snapshots_keyed H (rd_snapshots db)" and ok: "snapshot_store_ok H db"
    by (auto simp: reevaluable_def snapshot_store_ok_def)
  have rev: "1 \<le> ss_revision l" using latest_of_reevaluable [OF r] l by auto
  note cmd = command_inserted [OF r n m] and snap = reevaluated_inserted [OF r l rev n refl]
  have v: "task_snapshot_valid H source" "task_snapshot_valid H l"
    using first_row_Some [OF src] latest_snapshot_row(2) [OF k l [unfolded latest_snapshot_def]] k
    by (auto simp: snapshots_keyed_def list_all_iff)
  have hy: "ss_hygiene_ids source \<noteq> None" "ss_hygiene_set_hash source \<noteq> None"
    using v(1) f by (auto simp: task_snapshot_valid_def snapshot_content_valid_def finality_shape_def)
  have run: "require_reevaluable_run actor (get_run db (sc_run (tr_scope run))) = Inr run"
    using r operate_read by (simp add: require_reevaluable_run_def reevaluable_def)
  have source: "get_snapshot_by_id H db (rq_source_snapshot q) = Inr (Some source)"
      "require_reevaluation_source run (Some source) = Inr source"
    using r src v(1) by (simp_all add: get_snapshot_by_id_def q require_reevaluation_source_def reevaluable_def)
  have none: "get_reevaluated_snapshot H db (sc_run (tr_scope run)) (ss_id source)
      SNAPSHOT_REEVALUATED_POLICY_DIGEST = Inr None"
    using n scope by (intro not_reevaluated [OF k]) (auto simp: reevaluation_new_def)
  have latest: "get_latest_snapshot H db (sc_run (tr_scope run)) = Inr (Some l)"
    using l v(2) by (simp add: get_latest_snapshot_def latest_snapshot_def)
  have cv: "reevaluation_command_valid H ?c"
    using m d by (simp add: reevaluation_command_valid_def reevaluation_content_valid_def digests_def
        reevaluation_command_hash_def)
  from r obtain a e where rec: "record_reevaluation actor ?c ?s now (?db\<lparr>rd_snapshots := rd_snapshots db @ [?s]\<rparr>)
      = Inr (append_outbox e (?db\<lparr>rd_snapshots := rd_snapshots db @ [?s], rd_audit := rd_audit db @ [a]\<rparr>))"
    using record_reevaluation_ok [of actor ?c ?s now "?db\<lparr>rd_snapshots := rd_snapshots db @ [?s]\<rparr>"]
    by (auto simp: reevaluable_def)
  let ?db' = "append_outbox e (?db\<lparr>rd_snapshots := rd_snapshots db @ [?s], rd_audit := rd_audit db @ [a]\<rparr>)"
  have "snapshot_store_ok H (?db\<lparr>rd_snapshots := rd_snapshots db @ [?s]\<rparr>)"
    by (rule insert_snapshot_keeps_store(1) [OF _ snap(2,1)]) (simp add: store_ignores_requests ok)
  then have store: "snapshot_store_ok H ?db'"
    by (simp only: snapshot_store_ok_update(1) store_ignores_requests)
  have "reevaluate_run H actor now ids (sc_run (tr_scope run)) q db = Inr ((?s, 201, False), ?db')"
    unfolding reevaluate_run_def run append_reevaluated_def
    using source none latest cv cmd snap hy rec by (simp add: Let_def ensure_def)
  with store show ?thesis by (intro exI [of _ ?db']) (simp add: append_outbox_def)
qed

subsection \<open>Under a key\<close>

lemma append_reevaluated_Inr:
  assumes a: "append_reevaluated H actor now ids q run source db = Inr ((s, status, replayed), db')"
  obtains (appended) l db1 db2 where "get_latest_snapshot H db (sc_run (tr_scope run)) = Inr (Some l)"
    "s = reevaluated_snapshot_of H (ids 1) source l (ids 0) now" "status = 201" "\<not> replayed"
    "insert_reevaluation_command H now
      (reevaluation_command_of H (ids 0) actor run source (rq_client_mutation_id q) now) db = Inr db1"
    "task_snapshot_valid H s" "insert_snapshot H now s db1 = Inr db2"
    "record_reevaluation actor (reevaluation_command_of H (ids 0) actor run source (rq_client_mutation_id q) now)
      s now db2 = Inr db'"
  using assms by (auto simp: append_reevaluated_def Let_def attempt_Inr split: option.splits if_splits)

lemma reevaluate_run_keeps_requests:
  assumes "reevaluate_run H actor now ids run_id q db = Inr (r, db')"
  shows "rd_requests db' = rd_requests db"
proof -
  obtain s status replayed where r: "r = (s, status, replayed)" by (cases r)
  from assms consider "db' = db" | run source where "append_reevaluated H actor now ids q run source db = Inr (r, db')"
    by (auto simp: reevaluate_run_def attempt_Inr split: option.splits)
  then show ?thesis
  proof cases
    case 2
    then show ?thesis unfolding r
    proof (cases rule: append_reevaluated_Inr)
      case (appended l db1 db2)
      then show ?thesis
        using insert_reevaluation_command_Inr [OF appended(5)] insert_snapshot_Inr [OF appended(7)]
          record_reevaluation_Inr [OF appended(8)] by (auto simp: append_outbox_def)
    qed
  qed simp
qed

lemma reevaluable_ignores_requests:
  "reevaluable H actor now (db\<lparr>rd_requests := rows\<rparr>) run source = reevaluable H actor now db run source"
  "reevaluation_new H actor now ids m (db\<lparr>rd_requests := rows\<rparr>) run source l
    = reevaluation_new H actor now ids m db run source l"
  "latest_snapshot (db\<lparr>rd_requests := rows\<rparr>) i = latest_snapshot db i"
  by (simp_all add: reevaluable_def reevaluation_new_def store_ignores_requests get_run_def latest_snapshot_def)

definition reevaluation_scope :: "uuid \<Rightarrow> string" where
  "reevaluation_scope run = ''task-runs.'' @ uuid_text run @ ''.result.reevaluate''"

lemma reevaluate_eq:
  "key = rq_client_mutation_id q \<Longrightarrow> reevaluate H R actor now ids run q key db =
    idempotent (decode_snapshot H) SnapshotResponse (actor_tenant_id actor) (reevaluation_scope run) key
      (R (reevaluation_payload run q)) now (reevaluate_run H actor now ids run q) db"
  by (simp add: reevaluate_def reevaluation_scope_def)

lemma reevaluate_new:
  assumes e: "reevaluate H R actor now ids run_id q key db = Inr ((s, status, False), db')"
  obtains (new) rows db1 rows1 run source l db2 db3 where "key = rq_client_mutation_id q"
    "reserve (actor_tenant_id actor) (reevaluation_scope run_id) key (R (reevaluation_payload run_id q)) now
      REQUEST_TTL (rd_requests db) = Inr (Acquired, rows)"
    "reevaluate_run H actor now ids run_id q (db\<lparr>rd_requests := rows\<rparr>) = Inr ((s, status, False), db1)"
    "complete_reservation (actor_tenant_id actor) (reevaluation_scope run_id) key (R (reevaluation_payload run_id q))
      status (SnapshotResponse s) (rd_requests db1) = Inr rows1"
    "db' = db1\<lparr>rd_requests := rows1\<rparr>"
    "require_reevaluable_run actor (get_run (db\<lparr>rd_requests := rows\<rparr>) run_id) = Inr run"
    "get_snapshot_by_id H (db\<lparr>rd_requests := rows\<rparr>) (rq_source_snapshot q) = Inr (Some source)"
    "require_reevaluation_source run (Some source) = Inr source"
    "s = reevaluated_snapshot_of H (ids 1) source l (ids 0) now" "status = 201"
    "insert_reevaluation_command H now (reevaluation_command_of H (ids 0) actor run source (rq_client_mutation_id q) now)
      (db\<lparr>rd_requests := rows\<rparr>) = Inr db2"
    "task_snapshot_valid H s" "insert_snapshot H now s db2 = Inr db3"
    "record_reevaluation actor (reevaluation_command_of H (ids 0) actor run source (rq_client_mutation_id q) now)
      s now db3 = Inr db1"
proof -
  have key: "key = rq_client_mutation_id q" using e by (simp add: reevaluate_def split: if_splits)
  from e [unfolded reevaluate_eq [OF key]] show thesis
  proof (cases rule: idempotent_Inr)
    case (executed rows db1 rows1)
    from executed(2) obtain run source where
      run: "require_reevaluable_run actor (get_run (db\<lparr>rd_requests := rows\<rparr>) run_id) = Inr run"
      and found: "get_snapshot_by_id H (db\<lparr>rd_requests := rows\<rparr>) (rq_source_snapshot q) = Inr (Some source)"
      and src: "require_reevaluation_source run (Some source) = Inr source"
      and a: "append_reevaluated H actor now ids q run source (db\<lparr>rd_requests := rows\<rparr>)
        = Inr ((s, status, False), db1)"
      by (auto simp: reevaluate_run_def attempt_Inr require_reevaluation_source_def split: option.splits if_splits)
    from a show thesis
    proof (cases rule: append_reevaluated_Inr)
      case (appended l db2 db3)
      show thesis by (rule new [OF key executed run found src appended(2,3,5,6,7,8)])
    qed
  qed simp
qed

lemma reevaluate_accepts:
  assumes "reevaluable H actor now db run source" and "mutation_pattern (rq_client_mutation_id q)"
    and "rq_source_snapshot q = ss_id source" and "latest_snapshot db (sc_run (tr_scope run)) = Some l"
    and "reevaluation_new H actor now ids (rq_client_mutation_id q) db run source l"
    and "reserve (actor_tenant_id actor) (reevaluation_scope (sc_run (tr_scope run))) (rq_client_mutation_id q)
      (R (reevaluation_payload (sc_run (tr_scope run)) q)) now REQUEST_TTL (rd_requests db) = Inr (Acquired, rows)"
  shows "\<exists>db'. reevaluate H R actor now ids (sc_run (tr_scope run)) q (rq_client_mutation_id q) db
      = Inr ((reevaluated_snapshot_of H (ids 1) source l (ids 0) now, 201, False), db')
    \<and> latest_snapshot db' (sc_run (tr_scope run)) = Some (reevaluated_snapshot_of H (ids 1) source l (ids 0) now)
    \<and> snapshot_store_ok H db'"
proof -
  let ?run = "sc_run (tr_scope run)" and ?s = "reevaluated_snapshot_of H (ids 1) source l (ids 0) now"
  let ?db = "db\<lparr>rd_requests := rows\<rparr>"
  obtain db' where e: "reevaluate_run H actor now ids ?run q ?db = Inr ((?s, 201, False), db')"
    and rows: "rd_snapshots db' = rd_snapshots db @ [?s]" and ok: "snapshot_store_ok H db'"
    using reevaluate_run_accepts [of H actor now ?db run source q l ids] assms(1-5)
    by (auto simp: reevaluable_ignores_requests)
  have "rd_requests db' = rows" using reevaluate_run_keeps_requests [OF e] by simp
  moreover obtain rows' where "complete_reservation (actor_tenant_id actor) (reevaluation_scope ?run)
      (rq_client_mutation_id q) (R (reevaluation_payload ?run q)) 201 (SnapshotResponse ?s) rows = Inr rows'"
    using complete_acquired [OF assms(6), of 201] by auto
  ultimately have r: "reevaluate H R actor now ids ?run q (rq_client_mutation_id q) db
      = Inr ((?s, 201, False), db'\<lparr>rd_requests := rows'\<rparr>)"
    using assms(6) e by (simp add: reevaluate_eq idempotent_def)
  have scope: "sc_run (ss_scope ?s) = ?run" using assms(1) by (simp add: reevaluable_def)
  have "latest_snapshot db' ?run = Some ?s"
    using latest_snapshot_appended [OF ok rows] scope by simp
  with r ok show ?thesis
    by (auto simp: reevaluable_ignores_requests store_ignores_requests)
qed

text \<open>
  C15: an operator's re-evaluation of a closed run from a fully resolved snapshot is accepted: the
  service's snapshot passes the model it is constructed through and every trigger, check, key and
  reference of the tables; it becomes the run's latest, with the result of its source unchanged.
\<close>

theorem reevaluation_accepted:
  assumes "reevaluable H actor now db run source" and "mutation_pattern (rq_client_mutation_id q)"
    and "rq_source_snapshot q = ss_id source" and "latest_snapshot db (sc_run (tr_scope run)) = Some l"
    and "reevaluation_new H actor now ids (rq_client_mutation_id q) db run source l"
    and "reserve (actor_tenant_id actor) (reevaluation_scope (sc_run (tr_scope run))) (rq_client_mutation_id q)
      (R (reevaluation_payload (sc_run (tr_scope run)) q)) now REQUEST_TTL (rd_requests db) = Inr (Acquired, rows)"
  shows "\<exists>s db'. reevaluate H R actor now ids (sc_run (tr_scope run)) q (rq_client_mutation_id q) db
      = Inr ((s, 201, False), db') \<and> same_result s source \<and> ss_finality s = REEVALUATED
    \<and> ss_revision s = ss_revision l + 1 \<and> latest_snapshot db' (sc_run (tr_scope run)) = Some s
    \<and> snapshot_store_ok H db'"
  using reevaluate_accepts [where R = R, OF assms] by auto

text \<open>
  C16: a re-evaluation answered as new was appended by an actor who may operate the project, from a
  fully resolved snapshot stored for the same run and manifest, and keeps every input, count and
  rate of it; the tables stay consistent.
\<close>

theorem reevaluated_preserves_source:
  assumes ok: "snapshot_store_ok H db"
    and e: "reevaluate H R actor now ids run_id q key db = Inr ((s, status, False), db')"
  shows "\<exists>source \<in> set (rd_snapshots db). ss_id source = rq_source_snapshot q \<and> ss_finality source = FULLY_RESOLVED
    \<and> same_result s source \<and> ss_source_snapshot s = Some (ss_id source) \<and> ss_scope s = ss_scope source
    \<and> can_operate_project actor (sc_project (ss_scope s)) \<and> ss_finality s = REEVALUATED \<and> status = 201
    \<and> rd_snapshots db' = rd_snapshots db @ [s] \<and> snapshot_store_ok H db'"
  using e
proof (cases rule: reevaluate_new)
  case (new rows db1 rows1 run source l db2 db3)
  let ?db = "db\<lparr>rd_requests := rows\<rparr>"
  have op: "can_operate_project actor (sc_project (tr_scope run))"
    using new(6) by (auto simp: require_reevaluable_run_def split: option.splits if_splits)
  have mem: "source \<in> set (rd_snapshots db)" "ss_id source = rq_source_snapshot q"
    using first_row_Some [of "\<lambda>s. ss_id s = rq_source_snapshot q" "rd_snapshots db" source] new(7)
    by (auto simp: get_snapshot_by_id_def model_row_Inr)
  note c = insert_reevaluation_command_Inr [OF new(11)]
  then have ok2: "snapshot_store_ok H db2" by (simp add: store_ignores_requests ok)
  note s = insert_snapshot_keeps_store [OF ok2 new(12,13)]
  obtain ev au where r: "db1 = append_outbox ev (db3\<lparr>rd_audit := au\<rparr>)"
    using record_reevaluation_Inr [OF new(14)] by blast
  have "snapshot_store_ok H db'"
    unfolding new(5) r by (simp only: store_ignores_requests snapshot_store_ok_update(1) s(1))
  moreover have "rd_snapshots db' = rd_snapshots db @ [s]"
    using c by (simp add: new(5) r append_outbox_def s(2))
  moreover have "ss_finality source = FULLY_RESOLVED" "ss_scope source = tr_scope run"
    using new(8) by (auto simp: require_reevaluation_source_def split: if_splits)
  ultimately show ?thesis
    using mem op new(9,10) by (intro bexI [of _ source]) simp_all
qed

text \<open>
  C17: a re-evaluation answered as new is answered the same, from the record and without a write,
  whenever its key is sent again within a day; another request under the key is refused.
\<close>

theorem reevaluation_replays:
  assumes e: "reevaluate H R actor now ids run_id q key db = Inr ((s, status, False), db')"
    and time: "now \<le> later" "later < now + REQUEST_TTL"
    and q': "rq_client_mutation_id q' = key" and h: "request_hash_pattern (R (reevaluation_payload run_id q'))"
  shows "reevaluate H R actor later ids' run_id q' key db' =
    (if R (reevaluation_payload run_id q') = R (reevaluation_payload run_id q) then Inr ((s, status, True), db')
     else Inl (app_failure CONFLICT 409))"
  using e
proof (cases rule: reevaluate_new)
  case (new rows db1 rows1 run source l db2 db3)
  show ?thesis
    unfolding reevaluate_eq [OF q' [symmetric]]
  proof (rule executed_replays)
    show "idempotent (decode_snapshot H) SnapshotResponse (actor_tenant_id actor) (reevaluation_scope run_id) key
        (R (reevaluation_payload run_id q)) now (reevaluate_run H actor now ids run_id q) db
        = Inr ((s, status, False), db')"
      using e by (simp only: reevaluate_eq [OF new(1)])
    show "decode_snapshot H (SnapshotResponse s) = Some s" using new(12) by simp
  qed (use reevaluate_run_keeps_requests time h in blast)+
qed

end
