(* ===== verification/Reevaluation_Demo.thy ===== *)
theory Reevaluation_Demo
  imports Snapshot_Demo Reevaluation_Correct
begin

text \<open>
  The fully resolved run of the example re-evaluated by its operator, and the witnesses of the
  properties of re-evaluations.
\<close>

definition demo_operator :: actor_context where
  "demo_operator = \<lparr>actor_tenant_id = 1, actor_id = Some 50, request_id = ''r'', session_id = None,
     current_project_id = None, grants = [\<lparr>grant_role = RUN_OPERATOR, grant_project = Some 2\<rparr>],
     development_override = False\<rparr>"

definition demo_resolved :: result_db where
  "demo_resolved = demo_recorded\<lparr>rd_snapshots := [demo_quality, demo_full]\<rparr>"

definition demo_reevaluation :: reevaluation_request where
  "demo_reevaluation = \<lparr>rq_source_snapshot = 101, rq_client_mutation_id = ''reevaluate-once''\<rparr>"

definition demo_request_hash :: "json \<Rightarrow> string" where
  "demo_request_hash j = replicate 64 CHR ''a''"

lemma demo_resolved_rows:
  "rd_snapshots demo_resolved = [demo_quality, demo_full]" "rd_runs demo_resolved = [demo_run]"
  "rd_commands demo_resolved = []" "rd_requests demo_resolved = []" "snapshot_store_ok demo_hash demo_resolved"
proof -
  show "snapshot_store_ok demo_hash demo_resolved"
    unfolding demo_resolved_def
    by (rule insert_snapshot_keeps_store(1) [OF demo_recorded_rows(3) demo_full_inserted(2,1)])
qed (simp_all add: demo_resolved_def demo_recorded_rows demo_recorded_def demo_final_def demo_clean_def demo_db_def
    append_outbox_def)

lemma demo_full_fields:
  "ss_id demo_full = 101" "ss_scope demo_full = demo_scope" "ss_finality demo_full = FULLY_RESOLVED"
  "ss_manifest_hash demo_full = tr_manifest_hash demo_run" "ss_manifest_count demo_full = 1"
  "ss_created_at demo_full = 20"
  by (simp_all add: demo_full_def resolved_snapshot_of_def)

lemma demo_latest_full: "latest_snapshot demo_resolved 3 = Some demo_full"
  using latest_snapshot_appended [OF demo_resolved_rows(5), of "[demo_quality]" demo_full]
  by (simp add: demo_resolved_rows demo_full_fields)

lemma demo_reevaluable: "reevaluable demo_hash demo_operator 30 demo_resolved demo_run demo_full"
proof -
  have "first_row (\<lambda>s. ss_id s = 101) [demo_quality, demo_full] = Some demo_full"
    by (simp add: first_row_def demo_quality_fields demo_full_fields)
  then show ?thesis
    by (simp add: reevaluable_def demo_resolved_rows digests_demo get_run_def demo_full_fields)
      (simp add: first_row_def demo_run_def demo_scope_def demo_operator_def can_operate_project_def holds_role_def
        not_blank_def opt_all_def)
qed

lemma demo_reevaluation_new:
  "reevaluation_new demo_hash demo_operator 30 (\<lambda>n. 200 + n) ''reevaluate-once'' demo_resolved demo_run demo_full
     demo_full"
proof -
  have h: "ss_hash demo_quality \<noteq> ss_hash s \<and> ss_hash demo_full \<noteq> ss_hash s"
    if "s = reevaluated_snapshot_of demo_hash 201 demo_full demo_full 200 30" for s
    unfolding that
    by (simp add: demo_quality_def demo_full_def quality_snapshot_of_def resolved_snapshot_of_def)
      (simp add: task_result_snapshot_hash_def demo_hash_def demo_digest_def snapshot_content.defs
        task_snapshot_of_def reevaluated_snapshot_of_def Let_def)
  show ?thesis
    using h [OF refl]
    by (simp add: reevaluation_new_def demo_resolved_rows snapshot_conflicts_def demo_quality_fields demo_full_fields)
      (simp add: demo_full_def demo_quality_def resolved_snapshot_of_def quality_snapshot_of_def)
qed

lemma demo_reserved:
  "reserve 1 (reevaluation_scope 3) ''reevaluate-once'' (demo_request_hash j) 30 REQUEST_TTL
      (rd_requests demo_resolved)
    = Inr (Acquired, [new_request 1 (reevaluation_scope 3) ''reevaluate-once'' (demo_request_hash j) 30 REQUEST_TTL])"
proof -
  have "request_check (new_request 1 (reevaluation_scope 3) ''reevaluate-once'' (demo_request_hash j) 30 REQUEST_TTL
      :: command_response idempotency_record)"
    by (simp add: request_check_def new_request_def not_blank_def request_hash_pattern_def demo_request_hash_def
        reevaluation_scope_def REQUEST_TTL_def seconds_def list_all_iff is_hex_def is_digit_def)
  then show ?thesis
    by (simp add: reserve_def demo_resolved_rows sql_insert_or_skip_def)
qed

lemma demo_mutation: "mutation_pattern ''reevaluate-once''" by code_simp

lemma demo_request_fields [simp]:
  "rq_client_mutation_id demo_reevaluation = ''reevaluate-once''" "rq_source_snapshot demo_reevaluation = 101"
  "actor_tenant_id demo_operator = 1" "demo_request_hash j = replicate 64 CHR ''a''"
  by (simp_all add: demo_reevaluation_def demo_operator_def demo_request_hash_def)

definition demo_reread :: task_snapshot where
  "demo_reread = reevaluated_snapshot_of demo_hash 201 demo_full demo_full 200 30"

lemma demo_reevaluated:
  obtains (answer) db' where "reevaluate demo_hash demo_request_hash demo_operator 30 (\<lambda>n. 200 + n) 3 demo_reevaluation
      ''reevaluate-once'' demo_resolved = Inr ((demo_reread, 201, False), db')"
  using reevaluate_accepts [of demo_hash demo_operator 30 demo_resolved demo_run demo_full demo_reevaluation
      demo_full "\<lambda>n. 200 + n" demo_request_hash] demo_reserved
  by (auto simp: demo_reevaluable demo_full_fields demo_latest_full demo_reevaluation_new demo_mutation
      demo_reread_def)

subsection \<open>Witnesses\<close>

lemma reevaluation_accepted_witness:
  "\<exists>s db'. reevaluate demo_hash demo_request_hash demo_operator 30 (\<lambda>n. 200 + n) 3 demo_reevaluation
      ''reevaluate-once'' demo_resolved = Inr ((s, 201, False), db')
    \<and> same_result s demo_full \<and> ss_finality s = REEVALUATED \<and> ss_revision s = ss_revision demo_full + 1
    \<and> latest_snapshot db' 3 = Some s \<and> snapshot_store_ok demo_hash db'"
  using reevaluation_accepted [of demo_hash demo_operator 30 demo_resolved demo_run demo_full demo_reevaluation
      demo_full "\<lambda>n. 200 + n" demo_request_hash] demo_reserved
  by (simp add: demo_reevaluable demo_full_fields demo_latest_full demo_reevaluation_new demo_mutation)

lemma reevaluated_preserves_source_witness:
  "\<exists>source db'. source \<in> set (rd_snapshots demo_resolved) \<and> ss_finality source = FULLY_RESOLVED
    \<and> same_result demo_reread source \<and> rd_snapshots db' = rd_snapshots demo_resolved @ [demo_reread]
    \<and> snapshot_store_ok demo_hash db'"
proof -
  obtain db' where "reevaluate demo_hash demo_request_hash demo_operator 30 (\<lambda>n. 200 + n) 3 demo_reevaluation
      ''reevaluate-once'' demo_resolved = Inr ((demo_reread, 201, False), db')"
    by (rule demo_reevaluated)
  from reevaluated_preserves_source [OF demo_resolved_rows(5) this] show ?thesis by blast
qed

text \<open>The same request an hour later.\<close>

lemma reevaluation_replays_witness:
  "\<exists>db'. reevaluate demo_hash demo_request_hash demo_operator 3630 (\<lambda>n. 300 + n) 3 demo_reevaluation
    ''reevaluate-once'' db' = Inr ((demo_reread, 201, True), db')"
proof -
  obtain db' where "reevaluate demo_hash demo_request_hash demo_operator 30 (\<lambda>n. 200 + n) 3 demo_reevaluation
      ''reevaluate-once'' demo_resolved = Inr ((demo_reread, 201, False), db')"
    by (rule demo_reevaluated)
  from reevaluation_replays [OF this, of 3630 demo_reevaluation "\<lambda>n. 300 + n"] show ?thesis
    by (auto simp: REQUEST_TTL_def seconds_def request_hash_pattern_def is_hex_def list_all_iff)
qed

end
