(* ===== verification/Failure_Clusters.thy ===== *)
theory Failure_Clusters
  imports Snapshot_Properties Result_Requests
begin

text \<open>
  What fails in a snapshot and how it is grouped (\<^verbatim>\<open>domain/result/classification.py\<close>,
  \<^verbatim>\<open>application/result_classification.py\<close>): the signal of a unit, the clusters of equal signals,
  and their table with its trigger (migration 0038), which derives the signals again in SQL.
\<close>

subsection \<open>Signals\<close>

type_synonym cluster_input = "unit_resolution \<times> hygiene_resolution option"

definition effective_hygiene :: "unit_resolution \<Rightarrow> hygiene_resolution option \<Rightarrow> data_hygiene" where
  "effective_hygiene r h = (case h of Some x \<Rightarrow> hr_data_hygiene x | None \<Rightarrow> ax_data_hygiene (ur_axes r))"

definition is_diagnostic_failure :: "unit_resolution \<Rightarrow> hygiene_resolution option \<Rightarrow> bool" where
  "is_diagnostic_failure r h = (ax_verdict (ur_axes r) \<noteq> VERDICT_PASSED \<or> ur_stability r \<noteq> STABLE
     \<or> effective_hygiene r h \<in> {HYGIENE_CLEANUP_FAILED, HYGIENE_LEAKED}
     \<or> ax_integrity (ur_axes r) \<noteq> VERIFIED
     \<or> ax_completeness (ur_axes r) \<in> {EVIDENCE_MISSING, EVIDENCE_PARTIAL})"

definition signal_cause :: "unit_resolution \<Rightarrow> hygiene_resolution option \<Rightarrow> failure_domain \<times> string" where
  "signal_cause r h = (let a = ur_axes r; dh = effective_hygiene r h in
     if dh = HYGIENE_LEAKED then (DOMAIN_CLEANUP, ''CLEANUP_LEAKED'')
     else if dh = HYGIENE_CLEANUP_FAILED then (DOMAIN_CLEANUP, ''CLEANUP_FAILED'')
     else if ax_integrity a = INVALID then (DOMAIN_EVIDENCE, ''EVIDENCE_INTEGRITY_INVALID'')
     else if ax_completeness a = EVIDENCE_MISSING then (DOMAIN_EVIDENCE, ''EVIDENCE_REQUIRED_MISSING'')
     else if ax_completeness a = EVIDENCE_PARTIAL then (DOMAIN_EVIDENCE, ''EVIDENCE_REQUIRED_PARTIAL'')
     else if ax_integrity a = UNVERIFIED then (DOMAIN_EVIDENCE, ''EVIDENCE_INTEGRITY_UNVERIFIED'')
     else if ax_outcome_class a = OUTCOME_POLICY then (DOMAIN_POLICY_SECURITY, ''POLICY_REJECTED'')
     else if ax_outcome_class a = OUTCOME_DEPENDENCY then (DOMAIN_EXTERNAL_DEPENDENCY, ''DEPENDENCY_FAILURE'')
     else if ax_outcome_class a = OUTCOME_PLATFORM \<or> ur_stability r = INFRA_RECOVERED
       then (DOMAIN_INFRASTRUCTURE, ''INFRASTRUCTURE_FAILURE'')
     else if ur_stability r \<in> {FLAKY_SUSPECT, FLAKY_CONFIRMED} then (DOMAIN_UNKNOWN, ''FLAKY_SIGNAL'')
     else if ax_outcome_class a = OUTCOME_AUTOMATION then (DOMAIN_UNKNOWN, ''AUTOMATION_CAUSE_UNRESOLVED'')
     else if ax_outcome_class a = OUTCOME_BUSINESS then (DOMAIN_UNKNOWN, ''PRODUCT_OR_SPEC_UNRESOLVED'')
     else if ax_outcome_class a = OUTCOME_USER then (DOMAIN_UNKNOWN, ''USER_OUTCOME_UNRESOLVED'')
     else (DOMAIN_UNKNOWN, ''CAUSE_UNKNOWN''))"

definition failure_signal_for :: "unit_resolution \<Rightarrow> hygiene_resolution option \<Rightarrow> failure_signal" where
  "failure_signal_for r h = \<lparr>fs_domain = fst (signal_cause r h), fs_signal_code = snd (signal_cause r h),
     fs_verdict = ax_verdict (ur_axes r), fs_outcome_class = ax_outcome_class (ur_axes r),
     fs_closure_reason = ax_closure_reason (ur_axes r), fs_data_hygiene = effective_hygiene r h,
     fs_completeness = ax_completeness (ur_axes r), fs_integrity = ax_integrity (ur_axes r),
     fs_stability = ur_stability r\<rparr>"

subsection \<open>The inputs of a snapshot\<close>

definition list_resolutions_by_ids :: "result_db \<Rightarrow> uuid list \<Rightarrow> failure + unit_resolution list" where
  "list_resolutions_by_ids db ids = model_rows unit_resolution_valid
     (concat (map (\<lambda>i. rows_matching (\<lambda>r. ur_id r = i) (rd_resolutions db)) ids))"

definition list_hygiene_resolutions_by_ids ::
    "hashing \<Rightarrow> result_db \<Rightarrow> uuid list \<Rightarrow> failure + hygiene_resolution list" where
  "list_hygiene_resolutions_by_ids H db ids = model_rows (hygiene_resolution_valid H)
     (concat (map (\<lambda>i. rows_matching (\<lambda>r. hr_id r = i) (rd_hygiene db)) ids))"

definition input_in_scope :: "task_snapshot \<Rightarrow> cluster_input \<Rightarrow> bool" where
  "input_in_scope s = (\<lambda>(r, h). ur_scope r = ss_scope s \<and> ur_manifest_hash r = ss_manifest_hash s
     \<and> opt_all (\<lambda>x. hr_scope x = ss_scope s \<and> hr_manifest_hash x = ss_manifest_hash s) h)"

text \<open>The later of two rows of a unit wins in the dictionary.\<close>

definition hygiene_by_unit :: "hygiene_resolution list \<Rightarrow> uuid \<Rightarrow> hygiene_resolution option" where
  "hygiene_by_unit hs = map_of (rev (map (\<lambda>h. (hr_unit h, h)) hs))"

definition load_snapshot_inputs :: "hashing \<Rightarrow> result_db \<Rightarrow> task_snapshot \<Rightarrow> failure + cluster_input list" where
  "load_snapshot_inputs H db s =
     attempt (list_resolutions_by_ids db (ss_resolution_ids s)) (\<lambda>rs.
     attempt (ensure (length rs = ss_manifest_count s \<and> map ur_id rs = ss_resolution_ids s)
       (app_failure CONFLICT 409)) (\<lambda>_.
     attempt (case ss_hygiene_ids s of None \<Rightarrow> Inr []
       | Some ids \<Rightarrow> attempt (list_hygiene_resolutions_by_ids H db ids) (\<lambda>hs.
           attempt (ensure (length hs = ss_manifest_count s \<and> map hr_id hs = ids)
             (app_failure CONFLICT 409)) (\<lambda>_. Inr hs))) (\<lambda>hs.
     let inputs = map (\<lambda>r. (r, hygiene_by_unit hs (ur_unit r))) rs in
     attempt (ensure (list_all (input_in_scope s) inputs) (app_failure CONFLICT 409)) (\<lambda>_. Inr inputs))))"

text \<open>The groups, in the order in which their fingerprints first appear.\<close>

type_synonym failure_group = "string \<times> failure_signal \<times> cluster_input list"

fun add_to_group :: "string \<Rightarrow> failure_signal \<Rightarrow> cluster_input \<Rightarrow> failure_group list \<Rightarrow> failure_group list" where
  "add_to_group f s x [] = [(f, s, [x])]"
| "add_to_group f s x ((f', s', xs) # gs) =
     (if f' = f then (f', s', xs @ [x]) # gs else (f', s', xs) # add_to_group f s x gs)"

fun group_failures ::
    "triage_hashing \<Rightarrow> cluster_input list \<Rightarrow> failure_group list \<Rightarrow> failure + failure_group list" where
  "group_failures C [] gs = Inr gs"
| "group_failures C ((r, h) # xs) gs = (if \<not> is_diagnostic_failure r h then group_failures C xs gs else
     attempt (ensure (failure_signal_valid (failure_signal_for r h)) ModelInvalid) (\<lambda>_.
       group_failures C xs (add_to_group (failure_cluster_fingerprint C (failure_signal_for r h))
         (failure_signal_for r h) (r, h) gs)))"

subsection \<open>Clusters\<close>

definition cluster_of ::
    "triage_hashing \<Rightarrow> uuid \<Rightarrow> uuid \<Rightarrow> task_snapshot \<Rightarrow> failure_signal \<Rightarrow> string \<Rightarrow> cluster_input list
      \<Rightarrow> instant \<Rightarrow> failure_cluster" where
  "cluster_of C i k s sig f xs now =
     (let affected = map (\<lambda>(r, _). ur_id r) xs;
          content = \<lparr>fc_id = i, fc_cluster_id = k, fc_scope = ss_scope s, fc_snapshot = ss_id s, fc_revision = 1,
            fc_policy_digest = CLUSTER_POLICY_DIGEST, fc_fingerprint = f, fc_signal = sig, fc_affected = affected,
            fc_affected_count = int (length affected), fc_representative = hd affected, fc_supersedes = None,
            fc_watermark = ss_watermark s, fc_created_at = now\<rparr> in
      cluster_content.extend content (failure_cluster.fields (failure_cluster_revision_hash C content)))"

definition get_failure_cluster ::
    "triage_hashing \<Rightarrow> result_db \<Rightarrow> uuid \<Rightarrow> string \<Rightarrow> failure + failure_cluster option" where
  "get_failure_cluster C db snapshot f = model_row (failure_cluster_valid C)
     (latest_by fc_revision (\<lambda>c. fc_snapshot c = snapshot \<and> fc_fingerprint c = f
        \<and> fc_policy_digest c = CLUSTER_POLICY_DIGEST) (rd_clusters db))"

definition get_failure_cluster_by_revision_id ::
    "triage_hashing \<Rightarrow> result_db \<Rightarrow> uuid \<Rightarrow> failure + failure_cluster option" where
  "get_failure_cluster_by_revision_id C db i =
     model_row (failure_cluster_valid C) (first_row (\<lambda>c. fc_id c = i) (rd_clusters db))"

subsection \<open>The table\<close>

text \<open>
  The trigger walks the resolutions of the snapshot; a missing one, or a missing cleanup at its
  position, is an exception, here \<open>None\<close>.
\<close>

definition array_position :: "'a list \<Rightarrow> 'a \<Rightarrow> nat" where
  "array_position xs x = length (takeWhile (\<lambda>y. y \<noteq> x) xs)"

definition cluster_source :: "result_db \<Rightarrow> task_snapshot \<Rightarrow> uuid \<Rightarrow> (unit_resolution \<times> data_hygiene) option" where
  "cluster_source db s i =
     (case first_row (\<lambda>r. ur_id r = i \<and> ur_scope r = ss_scope s \<and> ur_manifest_hash r = ss_manifest_hash s)
        (rd_resolutions db) of
        None \<Rightarrow> None
      | Some r \<Rightarrow> (case ss_hygiene_ids s of
          None \<Rightarrow> Some (r, ax_data_hygiene (ur_axes r))
        | Some ids \<Rightarrow>
            let n = array_position (ss_resolution_ids s) i in
            map_option (\<lambda>h. (r, hr_data_hygiene h)) (first_row (\<lambda>h. n < length ids \<and> hr_id h = ids ! n
              \<and> hr_unit h = ur_unit r \<and> hr_scope h = ss_scope s) (rd_hygiene db))))"

definition source_is_diagnostic :: "unit_resolution \<Rightarrow> data_hygiene \<Rightarrow> bool" where
  "source_is_diagnostic r dh = (ax_verdict (ur_axes r) \<noteq> VERDICT_PASSED \<or> ur_stability r \<noteq> STABLE
     \<or> dh \<in> {HYGIENE_CLEANUP_FAILED, HYGIENE_LEAKED} \<or> ax_integrity (ur_axes r) \<noteq> VERIFIED
     \<or> ax_completeness (ur_axes r) \<in> {EVIDENCE_MISSING, EVIDENCE_PARTIAL})"

definition expected_cause :: "unit_resolution \<Rightarrow> data_hygiene \<Rightarrow> failure_domain \<times> string" where
  "expected_cause r dh = (let a = ur_axes r in
     if dh = HYGIENE_LEAKED then (DOMAIN_CLEANUP, ''CLEANUP_LEAKED'')
     else if dh = HYGIENE_CLEANUP_FAILED then (DOMAIN_CLEANUP, ''CLEANUP_FAILED'')
     else if ax_integrity a = INVALID then (DOMAIN_EVIDENCE, ''EVIDENCE_INTEGRITY_INVALID'')
     else if ax_completeness a = EVIDENCE_MISSING then (DOMAIN_EVIDENCE, ''EVIDENCE_REQUIRED_MISSING'')
     else if ax_completeness a = EVIDENCE_PARTIAL then (DOMAIN_EVIDENCE, ''EVIDENCE_REQUIRED_PARTIAL'')
     else if ax_integrity a = UNVERIFIED then (DOMAIN_EVIDENCE, ''EVIDENCE_INTEGRITY_UNVERIFIED'')
     else if ax_outcome_class a = OUTCOME_POLICY then (DOMAIN_POLICY_SECURITY, ''POLICY_REJECTED'')
     else if ax_outcome_class a = OUTCOME_DEPENDENCY then (DOMAIN_EXTERNAL_DEPENDENCY, ''DEPENDENCY_FAILURE'')
     else if ax_outcome_class a = OUTCOME_PLATFORM \<or> ur_stability r = INFRA_RECOVERED
       then (DOMAIN_INFRASTRUCTURE, ''INFRASTRUCTURE_FAILURE'')
     else if ur_stability r \<in> {FLAKY_SUSPECT, FLAKY_CONFIRMED} then (DOMAIN_UNKNOWN, ''FLAKY_SIGNAL'')
     else if ax_outcome_class a = OUTCOME_AUTOMATION then (DOMAIN_UNKNOWN, ''AUTOMATION_CAUSE_UNRESOLVED'')
     else if ax_outcome_class a = OUTCOME_BUSINESS then (DOMAIN_UNKNOWN, ''PRODUCT_OR_SPEC_UNRESOLVED'')
     else if ax_outcome_class a = OUTCOME_USER then (DOMAIN_UNKNOWN, ''USER_OUTCOME_UNRESOLVED'')
     else (DOMAIN_UNKNOWN, ''CAUSE_UNKNOWN''))"

definition expected_signal :: "unit_resolution \<Rightarrow> data_hygiene \<Rightarrow> failure_signal" where
  "expected_signal r dh = \<lparr>fs_domain = fst (expected_cause r dh), fs_signal_code = snd (expected_cause r dh),
     fs_verdict = ax_verdict (ur_axes r), fs_outcome_class = ax_outcome_class (ur_axes r),
     fs_closure_reason = ax_closure_reason (ur_axes r), fs_data_hygiene = dh,
     fs_completeness = ax_completeness (ur_axes r), fs_integrity = ax_integrity (ur_axes r),
     fs_stability = ur_stability r\<rparr>"

definition cluster_chain_ok :: "failure_cluster list \<Rightarrow> failure_cluster \<Rightarrow> bool" where
  "cluster_chain_ok rows c = (if fc_revision c = 1 then fc_supersedes c = None
     else (case latest_by fc_revision (\<lambda>x. fc_cluster_id x = fc_cluster_id c) rows of
         None \<Rightarrow> False
       | Some p \<Rightarrow> fc_revision c = fc_revision p + 1 \<and> opt_all (\<lambda>i. i = fc_id p) (fc_supersedes c)
           \<and> fc_snapshot c = fc_snapshot p \<and> fc_scope c = fc_scope p))"

definition guard_failure_cluster :: "triage_hashing \<Rightarrow> instant \<Rightarrow> result_db \<Rightarrow> failure_cluster \<Rightarrow> bool" where
  "guard_failure_cluster C now db c =
     ((case first_row (\<lambda>s. ss_id s = fc_snapshot c \<and> ss_scope s = fc_scope c) (rd_snapshots db) of
         None \<Rightarrow> False
       | Some s \<Rightarrow> fc_watermark c = ss_watermark s \<and> fc_created_at c = now
           \<and> fc_affected_count c = int (length (fc_affected c)) \<and> fc_representative c \<in> set (fc_affected c)
           \<and> distinct (fc_affected c)
           \<and> (case those (map (cluster_source db s) (ss_resolution_ids s)) of
                None \<Rightarrow> False
              | Some sources \<Rightarrow>
                  let expected = map (\<lambda>(r, _). ur_id r) (filter (\<lambda>(r, dh). source_is_diagnostic r dh
                    \<and> expected_signal r dh = fc_signal c) sources) in
                  fc_affected c = expected \<and> expected \<noteq> [] \<and> fc_representative c = hd expected))
     \<and> fc_policy_digest c = CLUSTER_POLICY_DIGEST \<and> fc_fingerprint c = C (SignalBody (fc_signal c))
     \<and> cluster_chain_ok (rd_clusters db) c \<and> failure_cluster_revision_hash C c = fc_hash c)"

definition cluster_check :: "failure_cluster \<Rightarrow> bool" where
  "cluster_check c = (0 < fc_revision c \<and> 1 \<le> fc_affected_count c \<and> fc_affected_count c \<le> 10000
     \<and> int (length (fc_affected c)) = fc_affected_count c \<and> fc_policy_digest c = CLUSTER_POLICY_DIGEST
     \<and> list_all digest_pattern [fc_policy_digest c, fc_fingerprint c, fc_hash c])"

definition cluster_conflicts :: "failure_cluster \<Rightarrow> failure_cluster \<Rightarrow> bool" where
  "cluster_conflicts x y = (fc_id x = fc_id y
     \<or> (fc_cluster_id x = fc_cluster_id y \<and> fc_revision x = fc_revision y)
     \<or> (sc_tenant (fc_scope x) = sc_tenant (fc_scope y) \<and> fc_hash x = fc_hash y)
     \<or> (fc_revision x = 1 \<and> fc_revision y = 1 \<and> fc_snapshot x = fc_snapshot y
        \<and> fc_fingerprint x = fc_fingerprint y \<and> fc_policy_digest x = fc_policy_digest y))"

definition cluster_references :: "result_db \<Rightarrow> failure_cluster \<Rightarrow> bool" where
  "cluster_references db c = (list_ex (\<lambda>run. tr_scope run = fc_scope c) (rd_runs db)
     \<and> list_ex (\<lambda>s. ss_id s = fc_snapshot c) (rd_snapshots db)
     \<and> list_ex (\<lambda>r. ur_id r = fc_representative c) (rd_resolutions db)
     \<and> opt_all (\<lambda>i. list_ex (\<lambda>x. fc_id x = i) (rd_clusters db)) (fc_supersedes c))"

definition insert_failure_cluster ::
    "triage_hashing \<Rightarrow> instant \<Rightarrow> failure_cluster \<Rightarrow> result_db \<Rightarrow> failure + result_db" where
  "insert_failure_cluster C now c db =
     attempt (db_call (ensure (guard_failure_cluster C now db c) TriggerViolation)) (\<lambda>_.
     attempt (db_call (sql_insert cluster_check cluster_conflicts c (rd_clusters db))) (\<lambda>table.
     attempt (db_call (ensure (cluster_references db c) ForeignKeyViolation)) (\<lambda>_.
       Inr (db\<lparr>rd_clusters := table\<rparr>))))"

definition get_or_create_cluster ::
    "triage_hashing \<Rightarrow> uuid \<Rightarrow> uuid \<Rightarrow> instant \<Rightarrow> task_snapshot \<Rightarrow> failure_group \<Rightarrow> result_db
      \<Rightarrow> failure + failure_cluster \<times> result_db" where
  "get_or_create_cluster C i k now s = (\<lambda>(f, sig, xs) db.
     attempt (get_failure_cluster C db (ss_id s) f) (\<lambda>existing.
     case existing of Some c \<Rightarrow> Inr (c, db)
     | None \<Rightarrow>
         let c = cluster_of C i k s sig f xs now in
         attempt (ensure (failure_cluster_valid C c) ModelInvalid) (\<lambda>_.
         attempt (insert_failure_cluster C now c db) (\<lambda>db'. Inr (c, db')))))"

end
