(* ===== verification/Failure_Classification.thy ===== *)
theory Failure_Classification
  imports Failure_Clusters
begin

text \<open>
  The judgments over clusters (\<^verbatim>\<open>application/result_classification.py\<close>): the rule judgment every
  cluster starts with, the revisions people append, and their table with its trigger (migration
  0038).  Control characters in a hypothesis are the ASCII ones, text is ordered by code points: the
  \<open>C\<close> locale.
\<close>

subsection \<open>The rule judgment\<close>

fun rule_hypothesis :: "string \<Rightarrow> (string \<times> int \<times> string list) option" where
  "rule_hypothesis code = map_of
    [(''CLEANUP_LEAKED'', ''Cleanup truth contains an explicitly leaked resource.'', 10000, []),
     (''CLEANUP_FAILED'', ''Cleanup truth did not reach a terminal successful state.'', 10000, []),
     (''EVIDENCE_INTEGRITY_INVALID'', ''Trusted result evidence failed integrity verification.'', 10000, []),
     (''EVIDENCE_REQUIRED_MISSING'', ''Required evidence is missing from the trusted result.'', 10000, []),
     (''EVIDENCE_REQUIRED_PARTIAL'', ''Required result evidence is only partially complete.'', 10000, []),
     (''EVIDENCE_INTEGRITY_UNVERIFIED'', ''Result evidence has not completed integrity verification.'', 10000, []),
     (''POLICY_REJECTED'', ''A frozen runtime or security policy rejected the execution.'', 9500, []),
     (''DEPENDENCY_FAILURE'', ''The trusted result attributes the outcome to an external dependency.'', 9000,
       [''DEPENDENCY_DETAIL_MISSING'']),
     (''INFRASTRUCTURE_FAILURE'', ''The trusted result indicates an infrastructure failure or recovery.'', 9000,
       [''INFRASTRUCTURE_COMPONENT_MISSING'']),
     (''FLAKY_SIGNAL'', ''Comparable attempts produced an unstable result sequence.'', 7500,
       [''ROOT_CAUSE_EVIDENCE_MISSING'']),
     (''AUTOMATION_CAUSE_UNRESOLVED'',
       ''Automation-related execution failed without enough evidence for a narrower cause.'', 2500,
       [''AUTOMATION_DETAIL_MISSING'']),
     (''PRODUCT_OR_SPEC_UNRESOLVED'',
       ''The business assertion failed, but product and test-spec causes remain unresolved.'', 2500,
       [''PRODUCT_VS_TEST_SPEC_UNRESOLVED'']),
     (''USER_OUTCOME_UNRESOLVED'',
       ''A user-originated outcome prevented a conclusive failure attribution.'', 2500,
       [''USER_OUTCOME_DETAIL_MISSING'']),
     (''CAUSE_UNKNOWN'', ''Available trusted facts are insufficient for a narrower failure attribution.'', 0,
       [''ROOT_CAUSE_EVIDENCE_MISSING''])] code"

text \<open>The fallback of the trigger's \<open>case\<close> is any other code.\<close>

definition expected_rule :: "string \<Rightarrow> string \<times> int \<times> string list" where
  "expected_rule code = (case rule_hypothesis code of Some e \<Rightarrow> e
     | None \<Rightarrow> (''Available trusted facts are insufficient for a narrower failure attribution.'', 0,
         [''ROOT_CAUSE_EVIDENCE_MISSING'']))"

definition rule_evidence :: "failure_cluster \<Rightarrow> cluster_input \<Rightarrow> evidence_ref list" where
  "rule_evidence c = (\<lambda>(r, h). sort_key evidence_sort_key
     (\<lparr>er_kind = UNIT_RESOLUTION, er_ref_id = ur_id r, er_content_digest = ur_input_set_hash r\<rparr>
      # (case h of Some x \<Rightarrow> if fs_domain (fc_signal c) = DOMAIN_CLEANUP
            then [\<lparr>er_kind = UNIT_HYGIENE_RESOLUTION, er_ref_id = hr_id x, er_content_digest = hr_hash x\<rparr>] else []
          | None \<Rightarrow> [])))"

definition rule_judgment :: "failure_cluster \<Rightarrow> cluster_input \<Rightarrow> (string \<times> int \<times> string list) \<Rightarrow> failure_judgment" where
  "rule_judgment c x = (\<lambda>(hypothesis, confidence, gaps).
     \<lparr>ju_domain = fs_domain (fc_signal c), ju_hypothesis_code = fs_signal_code (fc_signal c),
      ju_hypothesis = hypothesis, ju_confidence = confidence, ju_supporting = rule_evidence c x,
      ju_contradicting = [], ju_gaps = sort gaps, ju_state = RULE_PROPOSED\<rparr>)"

definition rule_classification_of ::
    "triage_hashing \<Rightarrow> uuid \<Rightarrow> uuid \<Rightarrow> task_snapshot \<Rightarrow> failure_cluster \<Rightarrow> failure_judgment \<Rightarrow> instant
      \<Rightarrow> failure_classification" where
  "rule_classification_of C i k s c j now =
     (let content = \<lparr>cf_id = i, cf_classification_id = k, cf_scope = ss_scope s, cf_snapshot = ss_id s,
        cf_cluster_revision = fc_id c, cf_revision = 1, cf_judgment = j, cf_author_kind = SYSTEM_RULE,
        cf_authored_by = None, cf_model_version = None, cf_policy_digest = CLASSIFICATION_POLICY_DIGEST,
        cf_client_mutation_id = ''rule:'' @ uuid_text (fc_id c), cf_supersedes = None, cf_created_at = now\<rparr> in
      classification_content.extend content
        (failure_classification.fields (failure_classification_revision_hash C content)))"

subsection \<open>The table\<close>

text \<open>Whether a reference names a fact behind the cluster, with the digest the fact has.\<close>

definition evidence_ref_bound :: "result_db \<Rightarrow> uuid \<Rightarrow> evidence_ref \<Rightarrow> bool" where
  "evidence_ref_bound db i e = (digest_pattern (er_content_digest e)
     \<and> (case first_row (\<lambda>c. fc_id c = i) (rd_clusters db) of
          None \<Rightarrow> False
        | Some c \<Rightarrow> let affected = filter (\<lambda>r. ur_id r \<in> set (fc_affected c)) (rd_resolutions db) in
           (case er_kind e of
              UNIT_RESOLUTION \<Rightarrow>
                list_ex (\<lambda>r. ur_id r = er_ref_id e \<and> ur_input_set_hash r = er_content_digest e) affected
            | UNIT_HYGIENE_RESOLUTION \<Rightarrow>
                list_ex (\<lambda>s. ss_id s = fc_snapshot c \<and> list_ex (\<lambda>h. hr_id h = er_ref_id e
                  \<and> hr_hash h = er_content_digest e \<and> list_ex (\<lambda>r. ur_unit r = hr_unit h) affected
                  \<and> (case ss_hygiene_ids s of None \<Rightarrow> False | Some ids \<Rightarrow> hr_id h \<in> set ids)) (rd_hygiene db))
                  (rd_snapshots db)
            | ATTEMPT_SEAL \<Rightarrow>
                list_ex (\<lambda>r. list_ex (\<lambda>f. se_id f = er_ref_id e \<and> se_id f \<in> set (ur_seal_ids r)
                  \<and> se_content_hash f = er_content_digest e) (rd_seals db)) affected
            | ATTEMPT_CLOSURE_NOTICE \<Rightarrow>
                list_ex (\<lambda>r. list_ex (\<lambda>n. cn_id n = er_ref_id e \<and> cn_id n \<in> set (ur_closure_ids r)
                  \<and> cn_hash n = er_content_digest e) (rd_notices db)) affected)))"

definition evidence_canonical :: "failure_judgment \<Rightarrow> bool" where
  "evidence_canonical j = (distinct (ju_supporting j) \<and> distinct (ju_contradicting j)
     \<and> set (ju_supporting j) \<inter> set (ju_contradicting j) = {}
     \<and> sorted (map evidence_sort_key (ju_supporting j)) \<and> sorted (map evidence_sort_key (ju_contradicting j)))"

definition gap_code_stored :: "string \<Rightarrow> bool" where
  "gap_code_stored s = (2 \<le> length s \<and> length s \<le> 96
     \<and> list_all (\<lambda>c. is_upper c \<or> is_digit c \<or> c = CHR ''_'') s \<and> list_ex (\<lambda>c. is_upper c \<or> is_digit c) s)"

definition first_judgment_ok :: "failure_cluster \<Rightarrow> failure_classification \<Rightarrow> bool" where
  "first_judgment_ok c f = (let j = cf_judgment f in
     cf_supersedes f = None \<and> cf_author_kind f = SYSTEM_RULE \<and> ju_state j = RULE_PROPOSED
     \<and> cf_authored_by f = None \<and> cf_model_version f = None
     \<and> ju_domain j = fs_domain (fc_signal c) \<and> ju_hypothesis_code j = fs_signal_code (fc_signal c)
     \<and> list_ex (\<lambda>e. er_kind e = UNIT_RESOLUTION \<and> er_ref_id e = fc_representative c) (ju_supporting j)
     \<and> (ju_hypothesis j, ju_confidence j, ju_gaps j) = expected_rule (ju_hypothesis_code j))"

definition human_judgment_ok :: "failure_classification list \<Rightarrow> failure_classification \<Rightarrow> bool" where
  "human_judgment_ok rows f = (let j = cf_judgment f in
     (case latest_by cf_revision (\<lambda>x. cf_classification_id x = cf_classification_id f) rows of
        None \<Rightarrow> False
      | Some p \<Rightarrow> cf_revision f = cf_revision p + 1 \<and> opt_all (\<lambda>i. i = cf_id p) (cf_supersedes f)
          \<and> cf_cluster_revision f = cf_cluster_revision p \<and> cf_snapshot f = cf_snapshot p
          \<and> cf_scope f = cf_scope p \<and> cf_author_kind f = HUMAN_AUTHOR
          \<and> ju_state j \<in> {HUMAN_CONFIRMED, HUMAN_REJECTED, HUMAN_REVISED}
          \<and> cf_authored_by f \<noteq> None \<and> cf_model_version f = None
          \<and> \<not> (ju_state j = HUMAN_CONFIRMED \<and> (ju_domain j \<noteq> ju_domain (cf_judgment p)
                \<or> ju_hypothesis_code j \<noteq> ju_hypothesis_code (cf_judgment p)
                \<or> ju_hypothesis j \<noteq> ju_hypothesis (cf_judgment p)))
          \<and> \<not> (ju_state j = HUMAN_REJECTED \<and> (ju_domain j \<noteq> DOMAIN_UNKNOWN \<or> ju_confidence j \<noteq> 0
                \<or> ju_contradicting j = []))))"

definition guard_failure_classification ::
    "triage_hashing \<Rightarrow> instant \<Rightarrow> result_db \<Rightarrow> failure_classification \<Rightarrow> bool" where
  "guard_failure_classification C now db f = (let j = cf_judgment f in
     (case first_row (\<lambda>c. fc_id c = cf_cluster_revision f \<and> fc_snapshot c = cf_snapshot f
         \<and> fc_scope c = cf_scope f) (rd_clusters db) of
        None \<Rightarrow> False
      | Some c \<Rightarrow> cf_created_at f = now \<and> cf_policy_digest f = CLASSIFICATION_POLICY_DIGEST
          \<and> evidence_canonical j \<and> distinct (ju_gaps j) \<and> sorted (ju_gaps j)
          \<and> list_all gap_code_stored (ju_gaps j)
          \<and> list_all (evidence_ref_bound db (fc_id c)) (ju_supporting j @ ju_contradicting j)
          \<and> (if cf_revision f = 1 then first_judgment_ok c f
             else human_judgment_ok (rd_classifications db) f))
     \<and> failure_classification_revision_hash C f = cf_hash f)"

definition classification_check :: "failure_classification \<Rightarrow> bool" where
  "classification_check f = (let j = cf_judgment f in
     0 < cf_revision f \<and> 0 \<le> ju_confidence j \<and> ju_confidence j \<le> 10000
     \<and> cf_policy_digest f = CLASSIFICATION_POLICY_DIGEST \<and> safe_reason (ju_hypothesis_code j)
     \<and> safe_hypothesis (ju_hypothesis j) \<and> mutation_pattern (cf_client_mutation_id f)
     \<and> opt_all model_version_pattern (cf_model_version f)
     \<and> list_all digest_pattern [cf_policy_digest f, cf_hash f]
     \<and> 1 \<le> length (ju_supporting j) \<and> length (ju_supporting j) \<le> 256
     \<and> length (ju_contradicting j) \<le> 256 \<and> length (ju_gaps j) \<le> 32)"

definition classification_conflicts :: "failure_classification \<Rightarrow> failure_classification \<Rightarrow> bool" where
  "classification_conflicts x y = (cf_id x = cf_id y
     \<or> (cf_classification_id x = cf_classification_id y
        \<and> (cf_revision x = cf_revision y \<or> cf_client_mutation_id x = cf_client_mutation_id y))
     \<or> (sc_tenant (cf_scope x) = sc_tenant (cf_scope y) \<and> cf_hash x = cf_hash y)
     \<or> (cf_revision x = 1 \<and> cf_revision y = 1 \<and> cf_cluster_revision x = cf_cluster_revision y))"

definition classification_references :: "result_db \<Rightarrow> failure_classification \<Rightarrow> bool" where
  "classification_references db f = (list_ex (\<lambda>run. tr_scope run = cf_scope f) (rd_runs db)
     \<and> list_ex (\<lambda>s. ss_id s = cf_snapshot f) (rd_snapshots db)
     \<and> list_ex (\<lambda>c. fc_id c = cf_cluster_revision f) (rd_clusters db)
     \<and> opt_all (\<lambda>i. list_ex (\<lambda>x. cf_id x = i) (rd_classifications db)) (cf_supersedes f))"

definition insert_failure_classification ::
    "triage_hashing \<Rightarrow> instant \<Rightarrow> failure_classification \<Rightarrow> result_db \<Rightarrow> failure + result_db" where
  "insert_failure_classification C now f db =
     attempt (db_call (ensure (guard_failure_classification C now db f) TriggerViolation)) (\<lambda>_.
     attempt (db_call (sql_insert classification_check classification_conflicts f (rd_classifications db))) (\<lambda>table.
     attempt (db_call (ensure (classification_references db f) ForeignKeyViolation)) (\<lambda>_.
       Inr (db\<lparr>rd_classifications := table\<rparr>))))"

definition get_latest_failure_classification_for_cluster ::
    "triage_hashing \<Rightarrow> result_db \<Rightarrow> uuid \<Rightarrow> failure + failure_classification option" where
  "get_latest_failure_classification_for_cluster C db i = model_row (failure_classification_valid C)
     (latest_by cf_revision (\<lambda>f. cf_cluster_revision f = i) (rd_classifications db))"

definition get_latest_failure_classification ::
    "triage_hashing \<Rightarrow> result_db \<Rightarrow> uuid \<Rightarrow> failure + failure_classification option" where
  "get_latest_failure_classification C db k = model_row (failure_classification_valid C)
     (latest_by cf_revision (\<lambda>f. cf_classification_id f = k) (rd_classifications db))"

subsection \<open>The service\<close>

fun domain_text :: "failure_domain \<Rightarrow> string" where
  "domain_text DOMAIN_PRODUCT = ''PRODUCT''"
| "domain_text DOMAIN_TEST_SPEC = ''TEST_SPEC''"
| "domain_text DOMAIN_TEST_DATA = ''TEST_DATA''"
| "domain_text DOMAIN_IDENTITY = ''IDENTITY''"
| "domain_text DOMAIN_ENVIRONMENT = ''ENVIRONMENT''"
| "domain_text DOMAIN_INFRASTRUCTURE = ''INFRASTRUCTURE''"
| "domain_text DOMAIN_EXTERNAL_DEPENDENCY = ''EXTERNAL_DEPENDENCY''"
| "domain_text DOMAIN_AGENT_AUTOMATION = ''AGENT_AUTOMATION''"
| "domain_text DOMAIN_POLICY_SECURITY = ''POLICY_SECURITY''"
| "domain_text DOMAIN_EVIDENCE = ''EVIDENCE''"
| "domain_text DOMAIN_CLEANUP = ''CLEANUP''"
| "domain_text DOMAIN_UNKNOWN = ''UNKNOWN''"

fun judgment_text :: "judgment_state \<Rightarrow> string" where
  "judgment_text RULE_PROPOSED = ''RULE_PROPOSED''"
| "judgment_text AI_PROPOSED = ''AI_PROPOSED''"
| "judgment_text HUMAN_CONFIRMED = ''HUMAN_CONFIRMED''"
| "judgment_text HUMAN_REJECTED = ''HUMAN_REJECTED''"
| "judgment_text HUMAN_REVISED = ''HUMAN_REVISED''"

definition classification_record :: "failure_cluster \<Rightarrow> failure_classification \<Rightarrow> (string \<times> json) list" where
  "classification_record c f = [(''resultSnapshotId'', uuid_json (cf_snapshot f)),
     (''failureClusterRevisionId'', uuid_json (fc_id c)), (''failureClusterId'', uuid_json (fc_cluster_id c)),
     (''failureClassificationId'', uuid_json (cf_classification_id f)),
     (''failureClassificationRevisionId'', uuid_json (cf_id f)), (''revision'', JInt (cf_revision f)),
     (''failureDomain'', JString (domain_text (ju_domain (cf_judgment f)))),
     (''judgmentState'', JString (judgment_text (ju_state (cf_judgment f)))),
     (''classificationHash'', JString (cf_hash f))]"

definition record_classification ::
    "actor_context \<Rightarrow> failure_cluster \<Rightarrow> failure_classification \<Rightarrow> instant \<Rightarrow> result_db \<Rightarrow> failure + result_db" where
  "record_classification actor c f now db =
     attempt (append_audit \<lparr>ae_tenant = sc_tenant (cf_scope f), ae_project = Some (sc_project (cf_scope f)),
       ae_actor = actor_id actor, ae_type = ''failure_classification.revised'',
       ae_entity_type = ''failure_classification'', ae_entity = Some (cf_classification_id f),
       ae_occurred_at = now, ae_payload = classification_record c f, ae_request_id = request_id actor\<rparr> db) (\<lambda>db1.
     Inr (append_outbox \<lparr>ev_type = ''failure_classification.revised'', ev_aggregate = cf_classification_id f,
       ev_payload = classification_record c f, ev_occurred_at = now\<rparr> db1))"

definition get_or_create_rule_classification ::
    "triage_hashing \<Rightarrow> actor_context \<Rightarrow> uuid \<Rightarrow> uuid \<Rightarrow> instant \<Rightarrow> task_snapshot \<Rightarrow> failure_cluster
      \<Rightarrow> cluster_input list \<Rightarrow> result_db \<Rightarrow> failure + failure_classification \<times> result_db" where
  "get_or_create_rule_classification C actor i k now s c xs db =
     attempt (get_latest_failure_classification_for_cluster C db (fc_id c)) (\<lambda>existing.
     case existing of Some f \<Rightarrow> Inr (f, db)
     | None \<Rightarrow>
       (case rule_hypothesis (fs_signal_code (fc_signal c)) of None \<Rightarrow> Inl RuntimeFailure
        | Some rule \<Rightarrow>
          (case first_row (\<lambda>(r, _). ur_id r = fc_representative c) xs of None \<Rightarrow> Inl RuntimeFailure
           | Some x \<Rightarrow>
             let f = rule_classification_of C i k s c (rule_judgment c x rule) now in
             attempt (ensure (failure_classification_valid C f) ModelInvalid) (\<lambda>_.
             attempt (insert_failure_classification C now f db) (\<lambda>db1.
             attempt (record_classification actor c f now db1) (\<lambda>db2. Inr (f, db2)))))))"

definition require_operable_run :: "actor_context \<Rightarrow> task_run option \<Rightarrow> task_snapshot \<Rightarrow> failure + task_run" where
  "require_operable_run actor run s = (let p = sc_project (ss_scope s) in case run of
     None \<Rightarrow> Inl (app_failure NOT_FOUND 404)
   | Some r \<Rightarrow>
       if tr_scope r \<noteq> ss_scope s \<or> \<not> can_read_project actor p then Inl (app_failure NOT_FOUND 404)
       else if \<not> (can_operate_project actor p \<or> can_review_results actor p) then Inl (app_failure FORBIDDEN 403)
       else if tr_lifecycle r \<noteq> LIFE_CLOSED \<or> tr_materialization r \<noteq> SEALED
         \<or> tr_manifest_hash r \<noteq> ss_manifest_hash s then Inl (app_failure CONFLICT 409)
       else Inr r)"

text \<open>The loop over the groups; the n-th one draws the identifiers \<open>ids n\<close>.\<close>

fun classify_groups ::
    "triage_hashing \<Rightarrow> actor_context \<Rightarrow> (nat \<Rightarrow> nat \<Rightarrow> uuid) \<Rightarrow> instant \<Rightarrow> task_snapshot \<Rightarrow> nat
      \<Rightarrow> failure_group list \<Rightarrow> result_db \<Rightarrow> failure + (failure_cluster \<times> failure_classification) list \<times> result_db" where
  "classify_groups C actor ids now s n [] db = Inr ([], db)"
| "classify_groups C actor ids now s n (g # gs) db =
     attempt (get_or_create_cluster C (ids n 0) (ids n 1) now s g db) (\<lambda>(c, db1).
     attempt (get_or_create_rule_classification C actor (ids n 3) (ids n 2) now s c (snd (snd g)) db1) (\<lambda>(f, db2).
     attempt (classify_groups C actor ids now s (Suc n) gs db2) (\<lambda>(pairs, db3). Inr ((c, f) # pairs, db3))))"

definition classify_snapshot ::
    "hashing \<Rightarrow> triage_hashing \<Rightarrow> actor_context \<Rightarrow> (nat \<Rightarrow> nat \<Rightarrow> uuid) \<Rightarrow> instant \<Rightarrow> uuid \<Rightarrow> result_db
      \<Rightarrow> failure + (failure_cluster \<times> failure_classification) list \<times> result_db" where
  "classify_snapshot H C actor ids now i db =
     attempt (get_snapshot_by_id H db i) (\<lambda>found.
     case found of None \<Rightarrow> Inl (app_failure NOT_FOUND 404)
     | Some s \<Rightarrow>
       attempt (require_operable_run actor (get_run db (sc_run (ss_scope s))) s) (\<lambda>_.
       attempt (load_snapshot_inputs H db s) (\<lambda>inputs.
       attempt (group_failures C inputs []) (\<lambda>groups.
       classify_groups C actor ids now s 0 groups db))))"

subsection \<open>Reviews\<close>

record review_request =
  vq_expected_revision :: int
  vq_judgment :: failure_judgment
  vq_client_mutation_id :: string

definition review_request_valid :: "review_request \<Rightarrow> bool" where
  "review_request_valid q = (1 \<le> vq_expected_revision q \<and> judgment_valid (vq_judgment q)
     \<and> ju_state (vq_judgment q) \<in> {HUMAN_CONFIRMED, HUMAN_REJECTED, HUMAN_REVISED}
     \<and> mutation_pattern (vq_client_mutation_id q))"

definition evidence_json :: "evidence_ref \<Rightarrow> json" where
  "evidence_json e = JObject [(''kind'', JString (evidence_kind_text (er_kind e))),
     (''refId'', uuid_json (er_ref_id e)), (''contentDigest'', JString (er_content_digest e))]"

definition review_payload :: "uuid \<Rightarrow> review_request \<Rightarrow> json" where
  "review_payload k q = (let j = vq_judgment q in JObject [(''failureClassificationId'', uuid_json k),
     (''expectedRevision'', JInt (vq_expected_revision q)),
     (''failureDomain'', JString (domain_text (ju_domain j))),
     (''hypothesisCode'', JString (ju_hypothesis_code j)), (''hypothesis'', JString (ju_hypothesis j)),
     (''confidence'', JObject [(''numerator'', JInt (ju_confidence j)), (''denominator'', JInt 10000)]),
     (''supportingEvidenceRefs'', JArray (map evidence_json (ju_supporting j))),
     (''contradictingEvidenceRefs'', JArray (map evidence_json (ju_contradicting j))),
     (''evidenceGapCodes'', JArray (map JString (ju_gaps j))),
     (''judgmentState'', JString (judgment_text (ju_state j))),
     (''clientMutationId'', JString (vq_client_mutation_id q))])"

definition require_reviewable_run ::
    "actor_context \<Rightarrow> task_run option \<Rightarrow> failure_classification \<Rightarrow> failure + task_run" where
  "require_reviewable_run actor run f = (let p = sc_project (cf_scope f) in case run of
     None \<Rightarrow> Inl (app_failure NOT_FOUND 404)
   | Some r \<Rightarrow>
       if tr_scope r \<noteq> cf_scope f \<or> \<not> can_read_project actor p then Inl (app_failure NOT_FOUND 404)
       else if \<not> can_review_results actor p then Inl (app_failure FORBIDDEN 403)
       else if tr_lifecycle r \<noteq> LIFE_CLOSED \<or> tr_materialization r \<noteq> SEALED then Inl (app_failure CONFLICT 409)
       else Inr r)"

definition changes_confirmed :: "failure_judgment \<Rightarrow> failure_judgment \<Rightarrow> bool" where
  "changes_confirmed j latest = (ju_state j = HUMAN_CONFIRMED \<and> (ju_domain j \<noteq> ju_domain latest
     \<or> ju_hypothesis_code j \<noteq> ju_hypothesis_code latest \<or> ju_hypothesis j \<noteq> ju_hypothesis latest))"

definition revised_classification_of ::
    "triage_hashing \<Rightarrow> uuid \<Rightarrow> uuid \<Rightarrow> review_request \<Rightarrow> failure_classification \<Rightarrow> instant
      \<Rightarrow> failure_classification" where
  "revised_classification_of C i author q latest now =
     (let content = \<lparr>cf_id = i, cf_classification_id = cf_classification_id latest, cf_scope = cf_scope latest,
        cf_snapshot = cf_snapshot latest, cf_cluster_revision = cf_cluster_revision latest,
        cf_revision = cf_revision latest + 1, cf_judgment = vq_judgment q, cf_author_kind = HUMAN_AUTHOR,
        cf_authored_by = Some author, cf_model_version = None, cf_policy_digest = CLASSIFICATION_POLICY_DIGEST,
        cf_client_mutation_id = vq_client_mutation_id q, cf_supersedes = Some (cf_id latest),
        cf_created_at = now\<rparr> in
      classification_content.extend content
        (failure_classification.fields (failure_classification_revision_hash C content)))"

definition review_body ::
    "triage_hashing \<Rightarrow> actor_context \<Rightarrow> uuid \<Rightarrow> instant \<Rightarrow> uuid \<Rightarrow> uuid \<Rightarrow> review_request \<Rightarrow> result_db
      \<Rightarrow> failure + (failure_classification \<times> nat \<times> bool) \<times> result_db" where
  "review_body C actor author now i k q db =
     attempt (get_latest_failure_classification C db k) (\<lambda>found.
     case found of None \<Rightarrow> Inl (app_failure NOT_FOUND 404)
     | Some latest \<Rightarrow>
       attempt (get_failure_cluster_by_revision_id C db (cf_cluster_revision latest)) (\<lambda>cluster.
       case cluster of None \<Rightarrow> Inl (app_failure CONFLICT 409)
       | Some c \<Rightarrow>
         attempt (require_reviewable_run actor (get_run db (sc_run (cf_scope latest))) latest) (\<lambda>_.
         attempt (ensure (vq_expected_revision q = cf_revision latest) (app_failure CONFLICT 409)) (\<lambda>_.
         attempt (ensure (\<not> changes_confirmed (vq_judgment q) (cf_judgment latest))
           (app_failure INVALID_REQUEST 400)) (\<lambda>_.
         let f = revised_classification_of C i author q latest now in
         attempt (ensure (failure_classification_valid C f) ModelInvalid) (\<lambda>_.
         attempt (insert_failure_classification C now f db) (\<lambda>db1.
         attempt (record_classification actor c f now db1) (\<lambda>db2. Inr ((f, 201, False), db2)))))))))"

fun decode_classification :: "triage_hashing \<Rightarrow> command_response \<Rightarrow> failure_classification option" where
  "decode_classification C (ClassificationResponse f) = (if failure_classification_valid C f then Some f else None)"
| "decode_classification C _ = None"

definition revise_classification ::
    "triage_hashing \<Rightarrow> (json \<Rightarrow> string) \<Rightarrow> actor_context \<Rightarrow> instant \<Rightarrow> uuid \<Rightarrow> uuid \<Rightarrow> review_request \<Rightarrow> string
      \<Rightarrow> result_db \<Rightarrow> failure + (failure_classification \<times> nat \<times> bool) \<times> result_db" where
  "revise_classification C R actor now i k q key db =
     (if key \<noteq> vq_client_mutation_id q then Inl (app_failure INVALID_REQUEST 400)
      else case actor_id actor of None \<Rightarrow> Inl (app_failure FORBIDDEN 403)
      | Some author \<Rightarrow> idempotent (decode_classification C) ClassificationResponse (actor_tenant_id actor)
          (''failure-classifications.'' @ uuid_text k @ ''.revisions'') key (R (review_payload k q)) now
          (review_body C actor author now i k q) db)"

end
