(* ===== verification/Task_Gate.thy ===== *)
theory Task_Gate
  imports Failure_Classification
begin

text \<open>
  The release gate of a run (\<^verbatim>\<open>domain/result/gate.py\<close>, \<^verbatim>\<open>application/result_gate.py\<close>):
  a three-valued verdict over one snapshot and the current judgment of every failure in it, its
  table with the trigger that decides again in SQL (migration 0039), and the callback staged with it
  (migration 0044).
\<close>

subsection \<open>The policy\<close>

definition task_gate_classification_is_ready :: "failure_classification \<Rightarrow> bool" where
  "task_gate_classification_is_ready f = (let j = cf_judgment f in
     if ju_domain j = DOMAIN_UNKNOWN then False
     else if ju_gaps j \<noteq> [] then False
     else if cf_author_kind f = SYSTEM_RULE \<and> ju_state j = RULE_PROPOSED
     then ju_domain j \<in> {DOMAIN_CLEANUP, DOMAIN_EVIDENCE, DOMAIN_POLICY_SECURITY} \<and> 9500 \<le> ju_confidence j
     else cf_author_kind f = HUMAN_AUTHOR \<and> ju_state j \<in> {HUMAN_CONFIRMED, HUMAN_REVISED}
       \<and> 7000 \<le> ju_confidence j)"

definition add_reason :: "gate_reason_code \<Rightarrow> nat \<Rightarrow> (gate_reason_code \<times> nat) list \<Rightarrow> (gate_reason_code \<times> nat) list" where
  "add_reason code n reasons = (if 0 < n then reasons @ [(code, n)] else reasons)"

definition gate_reasons ::
    "task_snapshot \<Rightarrow> failure_classification list \<Rightarrow> (gate_reason_code \<times> nat) list" where
  "gate_reasons s fs = (let v = ss_verdicts s; d = ss_distributions s; h = ad_data_hygiene d;
       e = ad_completeness d; i = ad_integrity d; x = ad_influence d; t = ad_stability d;
       r0 = (if ss_finality s = QUALITY_FINAL then add_reason SNAPSHOT_NOT_FULLY_RESOLVED 1 [] else []);
       r1 = add_reason INCONCLUSIVE_UNITS (vc_inconclusive v) r0;
       r2 = add_reason NOT_EVALUATED_UNITS (vc_not_evaluated v) r1;
       r3 = add_reason DATA_HYGIENE_UNRESOLVED (hc_pending h + hc_cleanup_failed h) r2;
       r4 = add_reason EVIDENCE_INCOMPLETE (cc_pending e + cc_partial e + cc_missing e) r3;
       r5 = add_reason EVIDENCE_INVALID_OR_UNVERIFIED (ic_unverified i + ic_invalid i) r4;
       r6 = add_reason MANUAL_INFLUENCE (fc_manual_assisted x + fc_manual_only x) r5;
       r7 = add_reason UNSTABLE_EXECUTION
         (sc_unknown t + sc_infra_recovered t + sc_flaky_suspect t + sc_flaky_confirmed t) r6;
       r8 = add_reason CLASSIFICATION_NOT_GATE_READY
         (length (filter (\<lambda>f. \<not> task_gate_classification_is_ready f) fs)) r7;
       r9 = add_reason FAILED_UNITS (vc_failed v) r8 in
     add_reason DATA_LEAK (hc_leaked h) r9)"

definition inconclusive_codes :: "gate_reason_code set" where
  "inconclusive_codes = {CLASSIFICATION_NOT_GATE_READY, DATA_HYGIENE_UNRESOLVED, EVIDENCE_INCOMPLETE,
     EVIDENCE_INVALID_OR_UNVERIFIED, INCONCLUSIVE_UNITS, MANUAL_INFLUENCE, NOT_EVALUATED_UNITS,
     SNAPSHOT_NOT_FULLY_RESOLVED, UNSTABLE_EXECUTION}"

definition gate_verdict_of :: "gate_reason_code set \<Rightarrow> gate_verdict" where
  "gate_verdict_of codes = (if inconclusive_codes \<inter> codes \<noteq> {} then GATE_INCONCLUSIVE
     else if {FAILED_UNITS, DATA_LEAK} \<inter> codes \<noteq> {} then REJECTED else ACCEPTED)"

text \<open>A \<open>ValueError\<close> of a direct call is an internal failure.\<close>

definition evaluate_task_gate ::
    "task_snapshot \<Rightarrow> failure_classification list \<Rightarrow> failure + gate_verdict \<times> gate_reason list" where
  "evaluate_task_gate s fs =
     (if \<not> distinct (map cf_id fs) then Inl RuntimeFailure
      else if list_ex (\<lambda>f. cf_snapshot f \<noteq> ss_id s) fs then Inl RuntimeFailure
      else let reasons = gate_reasons s fs in
        Inr (gate_verdict_of (fst ` set reasons),
          map (\<lambda>(code, n). \<lparr>gr_code = code, gr_count = int n\<rparr>) (sort_key (\<lambda>(code, _). reason_text code) reasons)))"

subsection \<open>Current clusters and judgments\<close>

text \<open>
  \<open>distinct on (failure_cluster_id) \<dots> order by failure_cluster_id, revision desc\<close> and the lateral join,
  which the repository and the trigger share.
\<close>

definition latest_clusters :: "result_db \<Rightarrow> uuid \<Rightarrow> failure_cluster list" where
  "latest_clusters db i = List.map_filter
     (\<lambda>k. latest_by fc_revision (\<lambda>c. fc_snapshot c = i \<and> fc_cluster_id c = k) (rd_clusters db))
     (sort (remdups (map fc_cluster_id (rows_matching (\<lambda>c. fc_snapshot c = i) (rd_clusters db)))))"

definition current_pairs :: "result_db \<Rightarrow> uuid \<Rightarrow> (failure_cluster \<times> failure_classification option) list" where
  "current_pairs db i = map (\<lambda>c. (c, latest_by cf_revision (\<lambda>f. cf_cluster_revision f = fc_id c)
      (rd_classifications db)))
     (sort_key (\<lambda>c. (fc_fingerprint c, fc_cluster_id c, fc_id c)) (latest_clusters db i))"

definition list_current_gate_classifications ::
    "triage_hashing \<Rightarrow> result_db \<Rightarrow> uuid \<Rightarrow> failure + (failure_cluster \<times> failure_classification option) list" where
  "list_current_gate_classifications C db i = model_rows
     (\<lambda>(c, f). failure_cluster_valid C c \<and> opt_all (failure_classification_valid C) f) (current_pairs db i)"

definition task_gate_classification_inputs ::
    "(failure_cluster \<times> failure_classification) list \<Rightarrow> classification_input list" where
  "task_gate_classification_inputs pairs = map (\<lambda>(c, f). \<lparr>gi_cluster_revision = fc_id c, gi_cluster_hash = fc_hash c,
     gi_classification_revision = cf_id f, gi_revision = cf_revision f, gi_classification_hash = cf_hash f\<rparr>) pairs"

subsection \<open>The table\<close>

text \<open>The resolutions of the snapshot that need a judgment, in the order of their ids.\<close>

definition expected_diagnostic_ids :: "result_db \<Rightarrow> task_snapshot \<Rightarrow> uuid list" where
  "expected_diagnostic_ids db s = sort (concat (map (\<lambda>(n, i). List.map_filter (\<lambda>r.
       let joined = left_join (\<lambda>h. (case ss_hygiene_ids s of None \<Rightarrow> False
              | Some ids \<Rightarrow> n < length ids \<and> hr_id h = ids ! n) \<and> hr_unit h = ur_unit r) (rd_hygiene db) in
       if list_ex (\<lambda>h. ax_verdict (ur_axes r) \<noteq> VERDICT_PASSED \<or> ur_stability r \<noteq> STABLE
            \<or> (case h of Some x \<Rightarrow> hr_data_hygiene x | None \<Rightarrow> ax_data_hygiene (ur_axes r))
                \<in> {HYGIENE_CLEANUP_FAILED, HYGIENE_LEAKED}
            \<or> ax_integrity (ur_axes r) \<noteq> VERIFIED
            \<or> ax_completeness (ur_axes r) \<in> {EVIDENCE_MISSING, EVIDENCE_PARTIAL}) joined
       then Some (ur_id r) else None)
       (rows_matching (\<lambda>r. ur_id r = i \<and> ur_scope r = ss_scope s) (rd_resolutions db)))
     (enumerate 0 (ss_resolution_ids s))))"

definition clusters_cover :: "result_db \<Rightarrow> task_snapshot \<Rightarrow> bool" where
  "clusters_cover db s = (let affected = concat (map fc_affected (latest_clusters db (ss_id s))) in
     sort (remdups affected) = expected_diagnostic_ids db s
     \<and> length affected = length (remdups affected))"

definition not_gate_ready :: "failure_classification \<Rightarrow> bool" where
  "not_gate_ready f = (let j = cf_judgment f in
     \<not> ((cf_author_kind f = SYSTEM_RULE \<and> ju_state j = RULE_PROPOSED
          \<and> ju_domain j \<in> {DOMAIN_CLEANUP, DOMAIN_EVIDENCE, DOMAIN_POLICY_SECURITY}
          \<and> 9500 \<le> ju_confidence j \<and> ju_gaps j = [])
        \<or> (cf_author_kind f = HUMAN_AUTHOR \<and> ju_state j \<in> {HUMAN_CONFIRMED, HUMAN_REVISED}
          \<and> ju_domain j \<noteq> DOMAIN_UNKNOWN \<and> 7000 \<le> ju_confidence j \<and> ju_gaps j = [])))"

definition stored_reason :: "gate_reason_code \<Rightarrow> nat \<Rightarrow> gate_reason list" where
  "stored_reason code n = (if 0 < n then [\<lparr>gr_code = code, gr_count = int n\<rparr>] else [])"

definition expected_reasons :: "task_snapshot \<Rightarrow> nat \<Rightarrow> gate_reason list" where
  "expected_reasons s unready = (let v = ss_verdicts s; d = ss_distributions s; h = ad_data_hygiene d;
       e = ad_completeness d; i = ad_integrity d; x = ad_influence d; t = ad_stability d in
     sort_key (\<lambda>r. reason_text (gr_code r))
       ((if ss_finality s = QUALITY_FINAL then [\<lparr>gr_code = SNAPSHOT_NOT_FULLY_RESOLVED, gr_count = 1\<rparr>] else [])
       @ stored_reason INCONCLUSIVE_UNITS (vc_inconclusive v)
       @ stored_reason NOT_EVALUATED_UNITS (vc_not_evaluated v)
       @ stored_reason DATA_HYGIENE_UNRESOLVED (hc_pending h + hc_cleanup_failed h)
       @ stored_reason EVIDENCE_INCOMPLETE (cc_pending e + cc_partial e + cc_missing e)
       @ stored_reason EVIDENCE_INVALID_OR_UNVERIFIED (ic_unverified i + ic_invalid i)
       @ stored_reason MANUAL_INFLUENCE (fc_manual_assisted x + fc_manual_only x)
       @ stored_reason UNSTABLE_EXECUTION
           (sc_unknown t + sc_infra_recovered t + sc_flaky_suspect t + sc_flaky_confirmed t)
       @ stored_reason CLASSIFICATION_NOT_GATE_READY unready
       @ stored_reason FAILED_UNITS (vc_failed v)
       @ stored_reason DATA_LEAK (hc_leaked h)))"

definition expected_decision :: "gate_reason list \<Rightarrow> gate_verdict" where
  "expected_decision reasons =
     (if list_ex (\<lambda>r. gr_code r \<in> inconclusive_codes) reasons then GATE_INCONCLUSIVE
      else if list_ex (\<lambda>r. gr_code r \<in> {FAILED_UNITS, DATA_LEAK}) reasons then REJECTED else ACCEPTED)"

definition decision_chain_ok :: "gate_decision list \<Rightarrow> gate_decision \<Rightarrow> bool" where
  "decision_chain_ok rows d = (if gd_revision d = 1 then gd_supersedes d = None
     else (case latest_by gd_revision (\<lambda>x. sc_run (gd_scope x) = sc_run (gd_scope d)) rows of
         None \<Rightarrow> False
       | Some p \<Rightarrow> gd_revision d = gd_revision p + 1 \<and> gd_gate_id d = gd_gate_id p
           \<and> opt_all (\<lambda>i. i = gd_id p) (gd_supersedes d) \<and> gd_scope d = gd_scope p))"

text \<open>\<open>G\<close> stands for the digest of gate documents in Python and in SQL.\<close>

definition guard_gate_decision :: "triage_hashing \<Rightarrow> instant \<Rightarrow> result_db \<Rightarrow> gate_decision \<Rightarrow> bool" where
  "guard_gate_decision G now db d =
     ((case (first_row (\<lambda>r. tr_scope r = gd_scope d) (rd_runs db),
             first_row (\<lambda>s. ss_id s = gd_snapshot d \<and> ss_scope s = gd_scope d) (rd_snapshots db)) of
         (Some run, Some s) \<Rightarrow>
           tr_lifecycle run = LIFE_CLOSED \<and> tr_materialization run = SEALED
           \<and> tr_manifest_hash run = ss_manifest_hash s \<and> gd_snapshot_hash d = ss_hash s
           \<and> gd_evaluated_at d = now \<and> gd_policy_digest d = TASK_GATE_POLICY_DIGEST
           \<and> clusters_cover db s
           \<and> (let pairs = current_pairs db (ss_id s);
                  judged = List.map_filter (\<lambda>(c, f). map_option (Pair c) f) pairs;
                  reasons = expected_reasons s (length (filter (\<lambda>(_, f). not_gate_ready f) judged)) in
              length pairs = length judged
              \<and> gd_classification_ids d = map (\<lambda>(_, f). cf_id f) judged
              \<and> gd_classification_set_hash d
                  = G (ClassificationSet (ss_id s) (enumerate 1 (task_gate_classification_inputs judged)))
              \<and> gd_decision d = expected_decision reasons \<and> gd_reasons d = reasons)
       | _ \<Rightarrow> False)
     \<and> decision_chain_ok (rd_decisions db) d \<and> task_gate_decision_hash G d = gd_hash d)"

definition decision_check :: "gate_decision \<Rightarrow> bool" where
  "decision_check d = (0 < gd_revision d
     \<and> ((gd_revision d = 1 \<and> gd_supersedes d = None) \<or> (1 < gd_revision d \<and> gd_supersedes d \<noteq> None))
     \<and> length (gd_classification_ids d) \<le> 10000 \<and> gd_policy_digest d = TASK_GATE_POLICY_DIGEST
     \<and> mutation_pattern (gd_client_mutation_id d)
     \<and> list_all digest_pattern [gd_snapshot_hash d, gd_classification_set_hash d, gd_policy_digest d, gd_hash d]
     \<and> length (gd_reasons d) \<le> 11)"

definition decision_conflicts :: "gate_decision \<Rightarrow> gate_decision \<Rightarrow> bool" where
  "decision_conflicts x y = (gd_id x = gd_id y
     \<or> (gd_gate_id x = gd_gate_id y \<and> gd_revision x = gd_revision y)
     \<or> (sc_run (gd_scope x) = sc_run (gd_scope y) \<and> gd_client_mutation_id x = gd_client_mutation_id y)
     \<or> (sc_tenant (gd_scope x) = sc_tenant (gd_scope y) \<and> gd_hash x = gd_hash y))"

definition decision_references :: "result_db \<Rightarrow> gate_decision \<Rightarrow> bool" where
  "decision_references db d = (list_ex (\<lambda>run. tr_scope run = gd_scope d) (rd_runs db)
     \<and> list_ex (\<lambda>s. ss_id s = gd_snapshot d) (rd_snapshots db)
     \<and> opt_all (\<lambda>i. list_ex (\<lambda>x. gd_id x = i) (rd_decisions db)) (gd_supersedes d))"

definition insert_task_gate_decision ::
    "triage_hashing \<Rightarrow> instant \<Rightarrow> gate_decision \<Rightarrow> result_db \<Rightarrow> failure + result_db" where
  "insert_task_gate_decision G now d db =
     attempt (db_call (ensure (guard_gate_decision G now db d) TriggerViolation)) (\<lambda>_.
     attempt (db_call (sql_insert decision_check decision_conflicts d (rd_decisions db))) (\<lambda>table.
     attempt (db_call (ensure (decision_references db d) ForeignKeyViolation)) (\<lambda>_.
       Inr (db\<lparr>rd_decisions := table\<rparr>))))"

subsection \<open>The callback\<close>

definition unclaimed :: "callback_intent \<Rightarrow> bool" where
  "unclaimed c = (ci_claim_token c = None \<and> ci_claimed_by c = None \<and> ci_claimed_at c = None
     \<and> ci_claim_expires_at c = None)"

definition undispatched :: "callback_intent \<Rightarrow> bool" where
  "undispatched c = (ci_attempts c = 0 \<and> ci_revision c = 0 \<and> ci_error_code c = None \<and> ci_error_at c = None
     \<and> ci_response c = None \<and> ci_delivered_at c = None \<and> ci_failed_at c = None)"

definition guard_gate_callback :: "result_db \<Rightarrow> callback_intent \<Rightarrow> bool" where
  "guard_gate_callback db c =
     (case (first_row (\<lambda>d. gd_id d = ci_decision_id c \<and> gd_gate_id d = ci_gate c \<and> gd_scope d = ci_scope c)
              (rd_decisions db),
            first_row (\<lambda>r. tr_scope r = ci_scope c) (rd_runs db)) of
        (Some d, Some run) \<Rightarrow> ci_manifest_hash c = tr_manifest_hash run \<and> ci_decision c = gd_decision d
          \<and> ci_created_at c = gd_evaluated_at d \<and> ci_available_at c = ci_created_at c
          \<and> ci_status c = CALLBACK_PENDING \<and> unclaimed c \<and> undispatched c
      | _ \<Rightarrow> False)"

definition dispatcher_id_pattern :: "string \<Rightarrow> bool" where
  "dispatcher_id_pattern = matches_ident is_alnum (alnum_or ''._:/-'') 0 127"

definition callback_error_pattern :: "string \<Rightarrow> bool" where
  "callback_error_pattern = matches_ident is_upper (\<lambda>c. is_upper c \<or> is_digit c \<or> c = CHR ''_'') 0 63"

text \<open>A comparison with a missing value is unknown, which a check constraint accepts.\<close>

definition callback_check :: "callback_intent \<Rightarrow> bool" where
  "callback_check c = (digest_pattern (ci_manifest_hash c) \<and> 0 \<le> ci_attempts c \<and> 0 \<le> ci_revision c
     \<and> opt_all (\<lambda>n. 100 \<le> n \<and> n \<le> 599) (ci_response c)
     \<and> (case ci_status c of
          CALLBACK_PENDING \<Rightarrow> ci_available_at c = ci_created_at c \<and> unclaimed c \<and> undispatched c
        | CALLBACK_CLAIMED \<Rightarrow> ci_claim_token c \<noteq> None \<and> opt_all dispatcher_id_pattern (ci_claimed_by c)
            \<and> (case ci_claimed_at c of None \<Rightarrow> False | Some t \<Rightarrow> opt_all (\<lambda>u. t < u) (ci_claim_expires_at c))
            \<and> 0 < ci_attempts c \<and> 0 < ci_revision c \<and> ci_error_code c = None \<and> ci_error_at c = None
            \<and> ci_response c = None \<and> ci_delivered_at c = None \<and> ci_failed_at c = None
        | CALLBACK_RETRY_WAIT \<Rightarrow> unclaimed c \<and> 0 < ci_attempts c \<and> 0 < ci_revision c
            \<and> opt_all callback_error_pattern (ci_error_code c)
            \<and> (case ci_error_at c of None \<Rightarrow> False | Some t \<Rightarrow> t < ci_available_at c)
            \<and> ci_delivered_at c = None \<and> ci_failed_at c = None
        | CALLBACK_DELIVERED \<Rightarrow> unclaimed c \<and> 0 < ci_attempts c \<and> 0 < ci_revision c
            \<and> ci_error_code c = None \<and> ci_error_at c = None
            \<and> opt_all (\<lambda>n. 200 \<le> n \<and> n \<le> 299) (ci_response c)
            \<and> ci_delivered_at c \<noteq> None \<and> ci_failed_at c = None
        | CALLBACK_FAILED \<Rightarrow> unclaimed c \<and> 0 < ci_attempts c \<and> 0 < ci_revision c
            \<and> opt_all callback_error_pattern (ci_error_code c)
            \<and> (case ci_error_at c of None \<Rightarrow> False | Some t \<Rightarrow> opt_all (\<lambda>u. u = t) (ci_failed_at c))
            \<and> ci_delivered_at c = None))"

definition callback_conflicts :: "callback_intent \<Rightarrow> callback_intent \<Rightarrow> bool" where
  "callback_conflicts x y = (ci_event x = ci_event y \<or> ci_decision_id x = ci_decision_id y)"

definition insert_task_gate_callback_intent ::
    "uuid \<Rightarrow> gate_decision \<Rightarrow> string \<Rightarrow> instant \<Rightarrow> result_db \<Rightarrow> failure + result_db" where
  "insert_task_gate_callback_intent event d manifest_hash now db =
     (let c = \<lparr>ci_event = event, ci_decision_id = gd_id d, ci_gate = gd_gate_id d, ci_scope = gd_scope d,
        ci_manifest_hash = manifest_hash, ci_decision = gd_decision d, ci_status = CALLBACK_PENDING,
        ci_available_at = now, ci_claim_token = None, ci_claimed_by = None, ci_claimed_at = None,
        ci_claim_expires_at = None, ci_attempts = 0, ci_revision = 0, ci_error_code = None, ci_error_at = None,
        ci_response = None, ci_delivered_at = None, ci_failed_at = None, ci_created_at = now\<rparr> in
      attempt (db_call (ensure (guard_gate_callback db c) TriggerViolation)) (\<lambda>_.
      attempt (db_call (sql_insert callback_check callback_conflicts c (rd_callbacks db))) (\<lambda>table.
        Inr (db\<lparr>rd_callbacks := table\<rparr>))))"

subsection \<open>The service\<close>

record gate_request =
  gq_snapshot :: uuid
  gq_client_mutation_id :: string

definition gate_payload :: "gate_request \<Rightarrow> json" where
  "gate_payload q = JObject [(''resultSnapshotId'', uuid_json (gq_snapshot q)),
     (''gatePolicyVersion'', JString ''0.1.0''), (''clientMutationId'', JString (gq_client_mutation_id q))]"

definition require_complete_pairs ::
    "(failure_cluster \<times> failure_classification option) list \<Rightarrow> failure + (failure_cluster \<times> failure_classification) list" where
  "require_complete_pairs pairs = (if list_ex (\<lambda>(_, f). f = None) pairs then Inl (app_failure CONFLICT 409)
     else Inr (map (\<lambda>(c, f). (c, the f)) pairs))"

definition require_evaluable_run :: "actor_context \<Rightarrow> task_run option \<Rightarrow> task_snapshot \<Rightarrow> failure + task_run" where
  "require_evaluable_run actor run s = (let p = sc_project (ss_scope s) in case run of
     None \<Rightarrow> Inl (app_failure NOT_FOUND 404)
   | Some r \<Rightarrow>
       if tr_scope r \<noteq> ss_scope s \<or> \<not> can_read_project actor p then Inl (app_failure NOT_FOUND 404)
       else if \<not> can_review_results actor p then Inl (app_failure FORBIDDEN 403)
       else if tr_lifecycle r \<noteq> LIFE_CLOSED \<or> tr_materialization r \<noteq> SEALED
         \<or> tr_manifest_hash r \<noteq> ss_manifest_hash s then Inl (app_failure CONFLICT 409)
       else Inr r)"

definition get_latest_task_gate :: "triage_hashing \<Rightarrow> result_db \<Rightarrow> uuid \<Rightarrow> failure + gate_decision option" where
  "get_latest_task_gate G db run = model_row (gate_decision_valid G)
     (latest_by gd_revision (\<lambda>d. sc_run (gd_scope d) = run) (rd_decisions db))"

definition gate_decision_of ::
    "triage_hashing \<Rightarrow> uuid \<Rightarrow> uuid \<Rightarrow> uuid \<Rightarrow> string \<Rightarrow> task_snapshot \<Rightarrow> gate_decision option
      \<Rightarrow> classification_input list \<Rightarrow> gate_verdict \<Rightarrow> gate_reason list \<Rightarrow> instant \<Rightarrow> gate_decision" where
  "gate_decision_of G i k actor mutation s previous inputs verdict reasons now =
     (let content = \<lparr>gd_id = i, gd_gate_id = (case previous of Some p \<Rightarrow> gd_gate_id p | None \<Rightarrow> k),
        gd_scope = ss_scope s, gd_snapshot = ss_id s, gd_snapshot_hash = ss_hash s,
        gd_revision = (case previous of Some p \<Rightarrow> gd_revision p + 1 | None \<Rightarrow> 1),
        gd_classification_ids = map gi_classification_revision inputs,
        gd_classification_set_hash = task_gate_classification_set_hash G (ss_id s) inputs,
        gd_policy_digest = TASK_GATE_POLICY_DIGEST, gd_decision = verdict, gd_reasons = reasons,
        gd_evaluated_by = actor, gd_client_mutation_id = mutation,
        gd_supersedes = map_option gd_id previous, gd_evaluated_at = now\<rparr> in
      decision_content.extend content (gate_decision.fields (task_gate_decision_hash G content)))"

fun gate_verdict_text :: "gate_verdict \<Rightarrow> string" where
  "gate_verdict_text ACCEPTED = ''ACCEPTED''"
| "gate_verdict_text REJECTED = ''REJECTED''"
| "gate_verdict_text GATE_INCONCLUSIVE = ''INCONCLUSIVE''"

definition gate_record :: "gate_decision \<Rightarrow> (string \<times> json) list" where
  "gate_record d = [(''taskGateId'', uuid_json (gd_gate_id d)), (''taskGateDecisionId'', uuid_json (gd_id d)),
     (''taskRunId'', uuid_json (sc_run (gd_scope d))), (''resultSnapshotId'', uuid_json (gd_snapshot d)),
     (''revision'', JInt (gd_revision d)), (''decision'', JString (gate_verdict_text (gd_decision d))),
     (''classificationSetHash'', JString (gd_classification_set_hash d)),
     (''gatePolicyDigest'', JString (gd_policy_digest d)), (''decisionHash'', JString (gd_hash d))]"

definition record_gate_evaluation ::
    "actor_context \<Rightarrow> gate_decision \<Rightarrow> instant \<Rightarrow> result_db \<Rightarrow> failure + result_db" where
  "record_gate_evaluation actor d now db =
     attempt (append_audit \<lparr>ae_tenant = sc_tenant (gd_scope d), ae_project = Some (sc_project (gd_scope d)),
       ae_actor = actor_id actor, ae_type = ''task_gate.evaluated'', ae_entity_type = ''task_gate'',
       ae_entity = Some (gd_gate_id d), ae_occurred_at = now, ae_payload = gate_record d,
       ae_request_id = request_id actor\<rparr> db) (\<lambda>db1.
     Inr (append_outbox \<lparr>ev_type = ''task_gate.evaluated'', ev_aggregate = gd_gate_id d,
       ev_payload = gate_record d, ev_occurred_at = now\<rparr> db1))"

text \<open>
  The transaction between the reservation of the key and its completion; the pairs are read again
  once their chains are locked, with the same result in one transaction of this model.
\<close>

definition append_decision ::
    "triage_hashing \<Rightarrow> actor_context \<Rightarrow> uuid \<Rightarrow> instant \<Rightarrow> (nat \<Rightarrow> uuid) \<Rightarrow> gate_request \<Rightarrow> task_snapshot
      \<Rightarrow> gate_decision option \<Rightarrow> (failure_cluster \<times> failure_classification) list \<Rightarrow> result_db
      \<Rightarrow> failure + (gate_decision \<times> nat \<times> bool) \<times> result_db" where
  "append_decision G actor actor_uuid now ids q s previous pairs db =
     (let inputs = task_gate_classification_inputs pairs in
      attempt (evaluate_task_gate s (map snd pairs)) (\<lambda>(verdict, reasons).
      let d = gate_decision_of G (ids 0) (ids 1) actor_uuid (gq_client_mutation_id q) s previous inputs
        verdict reasons now in
      attempt (ensure (list_all (\<lambda>i. digest_pattern (gi_cluster_hash i) \<and> digest_pattern (gi_classification_hash i)
        \<and> 1 \<le> gi_revision i) inputs) ModelInvalid) (\<lambda>_.
      attempt (ensure (gate_decision_valid G d) ModelInvalid) (\<lambda>_.
      attempt (insert_task_gate_decision G now d db) (\<lambda>db1.
      attempt (insert_task_gate_callback_intent (ids 2) d (ss_manifest_hash s) now db1) (\<lambda>db2.
      attempt (record_gate_evaluation actor d now db2) (\<lambda>db3. Inr ((d, 201, False), db3))))))))"

definition evaluate_snapshot ::
    "hashing \<Rightarrow> triage_hashing \<Rightarrow> triage_hashing \<Rightarrow> actor_context \<Rightarrow> uuid \<Rightarrow> instant \<Rightarrow> (nat \<Rightarrow> uuid) \<Rightarrow> gate_request
      \<Rightarrow> result_db \<Rightarrow> failure + (gate_decision \<times> nat \<times> bool) \<times> result_db" where
  "evaluate_snapshot H C G actor actor_uuid now ids q db =
     attempt (get_snapshot_by_id H db (gq_snapshot q)) (\<lambda>found.
     case found of None \<Rightarrow> Inl (app_failure NOT_FOUND 404)
     | Some s \<Rightarrow>
       attempt (require_evaluable_run actor (get_run db (sc_run (ss_scope s))) s) (\<lambda>_.
       attempt (get_latest_task_gate G db (sc_run (ss_scope s))) (\<lambda>previous.
       attempt (list_current_gate_classifications C db (ss_id s)) (\<lambda>pairs.
       attempt (require_complete_pairs pairs) (\<lambda>complete.
       append_decision G actor actor_uuid now ids q s previous complete db)))))"

fun decode_decision :: "triage_hashing \<Rightarrow> command_response \<Rightarrow> gate_decision option" where
  "decode_decision G (DecisionResponse d) = (if gate_decision_valid G d then Some d else None)"
| "decode_decision G _ = None"

text \<open>
  \<open>evaluate\<close>: the snapshot is classified in a transaction of its own, which stays committed when the
  evaluation fails.
\<close>

definition evaluate_gate ::
    "hashing \<Rightarrow> triage_hashing \<Rightarrow> triage_hashing \<Rightarrow> (json \<Rightarrow> string) \<Rightarrow> actor_context \<Rightarrow> instant
      \<Rightarrow> (nat \<Rightarrow> nat \<Rightarrow> uuid) \<Rightarrow> instant \<Rightarrow> (nat \<Rightarrow> uuid) \<Rightarrow> gate_request \<Rightarrow> string \<Rightarrow> result_db
      \<Rightarrow> (failure + gate_decision \<times> nat \<times> bool) \<times> result_db" where
  "evaluate_gate H C G R actor classified cids now ids q key db =
     (if key \<noteq> gq_client_mutation_id q then (Inl (app_failure INVALID_REQUEST 400), db)
      else case actor_id actor of None \<Rightarrow> (Inl (app_failure FORBIDDEN 403), db)
      | Some a \<Rightarrow>
        (case commit db (classify_snapshot H C actor cids classified (gq_snapshot q) db) of
           (Inl e, db1) \<Rightarrow> (Inl e, db1)
         | (Inr _, db1) \<Rightarrow> commit db1 (idempotent (decode_decision G) DecisionResponse (actor_tenant_id actor)
             ''task-gates.evaluations'' key (R (gate_payload q)) now
             (evaluate_snapshot H C G actor a now ids q) db1)))"

end
