(* ===== verification/Triage_Inputs.thy ===== *)
theory Triage_Inputs
  imports Task_Gate
begin

text \<open>
  The failures of a snapshot as the service reads them, as the clusters' trigger reads them and as
  the gate's trigger counts them: the three agree, whatever the snapshot holds.
\<close>

subsection \<open>Reading rows by their identifiers\<close>

definition rows_by_ids :: "('r \<Rightarrow> uuid) \<Rightarrow> 'r list \<Rightarrow> uuid list \<Rightarrow> 'r list" where
  "rows_by_ids key rows ids = concat (map (\<lambda>i. rows_matching (\<lambda>r. key r = i) rows) ids)"

lemma rows_by_ids_keys: "r \<in> set (rows_by_ids key rows ids) \<Longrightarrow> key r \<in> set ids \<and> r \<in> set rows"
  by (auto simp: rows_by_ids_def rows_matching_def)

text \<open>When every identifier is found in its turn, each names one row.\<close>

lemma rows_by_ids_single:
  assumes "map key (rows_by_ids key rows ids) = ids" and "distinct ids" and "i \<in> set ids"
  obtains (single) r where "rows_matching (\<lambda>x. key x = i) rows = [r]"
proof -
  let ?n = "\<lambda>xs. length (filter (\<lambda>r. key r = i) xs)"
  have c: "?n (rows_matching (\<lambda>r. key r = j) rows)
      = (if j = i then length (rows_matching (\<lambda>r. key r = i) rows) else 0)" for j
    by (induction rows) (auto simp: rows_matching_def)
  have "?n (rows_by_ids key rows js) = length (filter (\<lambda>j. j = i) js) * length (rows_matching (\<lambda>r. key r = i) rows)" for js
    by (induction js) (simp_all add: rows_by_ids_def c)
  moreover have "?n (rows_by_ids key rows ids) = length (filter (\<lambda>j. j = i) (map key (rows_by_ids key rows ids)))"
    by (simp add: filter_map comp_def)
  moreover have "length (filter (\<lambda>j. j = i) ids) = 1"
    using assms(2,3) by (induction ids) (auto simp: filter_empty_conv)
  ultimately have "length (rows_matching (\<lambda>r. key r = i) rows) = 1" using assms(1) by simp
  then show thesis by (cases "rows_matching (\<lambda>r. key r = i) rows") (auto intro: single)
qed

lemma rows_by_ids_row:
  assumes "map key (rows_by_ids key rows ids) = ids" and "distinct ids" and "r \<in> set (rows_by_ids key rows ids)"
  shows "rows_matching (\<lambda>x. key x = key r) rows = [r]"
proof -
  note r = rows_by_ids_keys [OF assms(3)]
  from assms(1,2) r [THEN conjunct1] obtain x where x: "rows_matching (\<lambda>x. key x = key r) rows = [x]"
    by (rule rows_by_ids_single)
  have "r \<in> set (rows_matching (\<lambda>x. key x = key r) rows)" using r by (simp add: rows_matching_def)
  with x show ?thesis by simp
qed

lemma first_row_single:
  assumes "rows_matching (\<lambda>x. key x = k) rows = [r]"
  shows "first_row (\<lambda>x. key x = k \<and> p x) rows = (if p r then Some r else None)"
proof -
  have "filter (\<lambda>x. key x = k \<and> p x) rows = filter p (rows_matching (\<lambda>x. key x = k) rows)"
    by (simp add: rows_matching_def conj_commute)
  with assms show ?thesis by (simp add: first_row_def)
qed

subsection \<open>The inputs of the service\<close>

text \<open>
  Every resolution of the snapshot is stored with the cleanup recorded at its position, and the
  snapshot has one resolution per unit.
\<close>

definition snapshot_placed :: "result_db \<Rightarrow> task_snapshot \<Rightarrow> bool" where
  "snapshot_placed db s = (list_all (\<lambda>i. cluster_source db s i \<noteq> None) (ss_resolution_ids s)
     \<and> distinct (map ur_unit (rows_by_ids ur_id (rd_resolutions db) (ss_resolution_ids s))))"

definition snapshot_resolutions :: "result_db \<Rightarrow> task_snapshot \<Rightarrow> unit_resolution list" where
  "snapshot_resolutions db s = rows_by_ids ur_id (rd_resolutions db) (ss_resolution_ids s)"

definition snapshot_cleanups :: "result_db \<Rightarrow> task_snapshot \<Rightarrow> hygiene_resolution list" where
  "snapshot_cleanups db s = (case ss_hygiene_ids s of None \<Rightarrow> [] | Some ids \<Rightarrow> rows_by_ids hr_id (rd_hygiene db) ids)"

lemma load_snapshot_inputs_Inr:
  assumes "load_snapshot_inputs H db s = Inr xs"
  shows "xs = map (\<lambda>r. (r, hygiene_by_unit (snapshot_cleanups db s) (ur_unit r))) (snapshot_resolutions db s)"
    and "map ur_id (snapshot_resolutions db s) = ss_resolution_ids s"
    and "length (snapshot_resolutions db s) = ss_manifest_count s"
    and "ss_hygiene_ids s = Some ids \<Longrightarrow> map hr_id (snapshot_cleanups db s) = ids
      \<and> length (snapshot_cleanups db s) = ss_manifest_count s"
    and "list_all (input_in_scope s) xs"
  using assms
  by (auto simp: load_snapshot_inputs_def list_resolutions_by_ids_def list_hygiene_resolutions_by_ids_def
      attempt_Inr ensure_Inr model_rows_Inr snapshot_resolutions_def snapshot_cleanups_def rows_by_ids_def
      Let_def split: option.splits if_splits)

lemma array_position_nth: "distinct xs \<Longrightarrow> n < length xs \<Longrightarrow> array_position xs (xs ! n) = n"
proof -
  assume d: "distinct xs" and n: "n < length xs"
  have "takeWhile (\<lambda>y. y \<noteq> xs ! n) xs = take n xs"
    using d n by (intro takeWhile_eq_take_P_nth) (auto simp: nth_eq_iff_index_eq)
  with n show ?thesis by (simp add: array_position_def)
qed

text \<open>What the trigger of the clusters joins to a resolution is what the service looked up.\<close>

lemma cluster_source_Some:
  assumes "cluster_source db s i = Some (r, dh)"
  shows "first_row (\<lambda>r. ur_id r = i \<and> ur_scope r = ss_scope s \<and> ur_manifest_hash r = ss_manifest_hash s)
      (rd_resolutions db) = Some r"
    and "ss_hygiene_ids s = None \<Longrightarrow> dh = ax_data_hygiene (ur_axes r)"
    and "ss_hygiene_ids s = Some ids \<Longrightarrow> \<exists>h. h \<in> set (rd_hygiene db) \<and> dh = hr_data_hygiene h
      \<and> array_position (ss_resolution_ids s) i < length ids
      \<and> hr_id h = ids ! array_position (ss_resolution_ids s) i \<and> hr_unit h = ur_unit r"
  using assms by (auto simp: cluster_source_def Let_def split: option.splits dest!: first_row_Some)

lemma cleanups_aligned:
  assumes v: "task_snapshot_valid H s" and p: "snapshot_placed db s" and l: "load_snapshot_inputs H db s = Inr xs"
    and h: "ss_hygiene_ids s = Some ids"
  shows "map hr_unit (snapshot_cleanups db s) = map ur_unit (snapshot_resolutions db s)"
proof (rule nth_equalityI)
  note q = load_snapshot_inputs_Inr [OF l]
  let ?rs = "snapshot_resolutions db s" and ?hs = "snapshot_cleanups db s"
  have hs: "?hs = rows_by_ids hr_id (rd_hygiene db) ids" using h by (simp add: snapshot_cleanups_def)
  have d: "distinct (ss_resolution_ids s)" "distinct ids"
    using v h by (auto simp: task_snapshot_valid_def snapshot_content_valid_def finality_shape_def)
  show len: "length (map hr_unit ?hs) = length (map ur_unit ?rs)" using q(3) q(4) [OF h] by simp
  fix n assume "n < length (map hr_unit ?hs)"
  then have n: "n < length ?hs" "n < length ?rs" using len by simp_all
  have ids: "ss_resolution_ids s ! n = ur_id (?rs ! n)" "ids ! n = hr_id (?hs ! n)"
    using q(2) q(4) [OF h] n by (metis nth_map)+
  have rl: "length (ss_resolution_ids s) = length ?rs" using q(2) by (metis length_map)
  obtain r dh where src: "cluster_source db s (ur_id (?rs ! n)) = Some (r, dh)"
    using p n rl by (auto simp: snapshot_placed_def list_all_length ids(1) [symmetric])
  have pos: "array_position (ss_resolution_ids s) (ur_id (?rs ! n)) = n"
    using array_position_nth [OF d(1)] n rl by (simp add: ids(1) [symmetric])
  have rr: "rows_matching (\<lambda>x. ur_id x = ur_id (?rs ! n)) (rd_resolutions db) = [?rs ! n]"
    using q(2) d(1) nth_mem [OF n(2)] unfolding snapshot_resolutions_def by (rule rows_by_ids_row)
  have r: "r = ?rs ! n"
    using cluster_source_Some(1) [OF src] by (simp add: first_row_single [OF rr] split: if_splits)
  obtain x where x: "x \<in> set (rd_hygiene db)" "hr_id x = hr_id (?hs ! n)" "hr_unit x = ur_unit (?rs ! n)"
    using cluster_source_Some(3) [OF src h] by (auto simp: pos r ids(2))
  have "rows_matching (\<lambda>y. hr_id y = hr_id (?hs ! n)) (rd_hygiene db) = [?hs ! n]"
    using conjunct1 [OF q(4) [OF h]] d(2) nth_mem [OF n(1)] unfolding hs by (rule rows_by_ids_row)
  with x(1,2) have "x = ?hs ! n" by (auto simp: rows_matching_def dest!: arg_cong [where f = set])
  with x(3) n show "map hr_unit ?hs ! n = map ur_unit ?rs ! n" by simp
qed

text \<open>The inputs, by position.\<close>

lemma inputs_at:
  assumes v: "task_snapshot_valid H s" and p: "snapshot_placed db s" and l: "load_snapshot_inputs H db s = Inr xs"
    and n: "n < length xs"
  obtains (input_at) r h where "xs ! n = (r, h)" "r = snapshot_resolutions db s ! n" "ss_resolution_ids s ! n = ur_id r"
    "rows_matching (\<lambda>x. ur_id x = ur_id r) (rd_resolutions db) = [r]" "input_in_scope s (r, h)"
    "ss_hygiene_ids s = None \<Longrightarrow> h = None"
    "\<And>ids. ss_hygiene_ids s = Some ids \<Longrightarrow> \<exists>x. h = Some x \<and> n < length ids \<and> ids ! n = hr_id x
      \<and> hr_unit x = ur_unit r \<and> rows_matching (\<lambda>y. hr_id y = hr_id x) (rd_hygiene db) = [x]"
proof -
  note q = load_snapshot_inputs_Inr [OF l]
  let ?rs = "snapshot_resolutions db s" and ?hs = "snapshot_cleanups db s"
  let ?r = "?rs ! n" and ?h = "hygiene_by_unit ?hs (ur_unit (?rs ! n))"
  have d: "distinct (ss_resolution_ids s)" and dh: "ss_hygiene_ids s = Some ids \<Longrightarrow> distinct ids" for ids
    using v by (auto simp: task_snapshot_valid_def snapshot_content_valid_def finality_shape_def)
  have len: "n < length ?rs" using n q(1) by simp
  show thesis
  proof (rule input_at)
    show x: "xs ! n = (?r, ?h)" using len by (simp add: q(1))
    show "input_in_scope s (?r, ?h)" using q(5) n x by (metis list_all_length)
    show "ss_resolution_ids s ! n = ur_id ?r" using q(2) len by (metis nth_map)
    show "rows_matching (\<lambda>x. ur_id x = ur_id ?r) (rd_resolutions db) = [?r]"
      using q(2) d nth_mem [OF len] unfolding snapshot_resolutions_def by (rule rows_by_ids_row)
    show "?h = None" if "ss_hygiene_ids s = None"
      using that by (simp add: snapshot_cleanups_def hygiene_by_unit_def)
    fix ids assume i: "ss_hygiene_ids s = Some ids"
    note units = cleanups_aligned [OF v p l i]
    have lh: "n < length ?hs" using q(3) q(4) [OF i] len by simp
    have u: "hr_unit (?hs ! n) = ur_unit ?r" using units lh len by (metis nth_map)
    have "distinct (map hr_unit ?hs)" using p unfolding units by (simp add: snapshot_placed_def snapshot_resolutions_def)
    then have "?h = Some (?hs ! n)"
      using lh u by (simp add: hygiene_by_unit_def map_of_key_iff)
    moreover have "ids ! n = hr_id (?hs ! n)" "n < length ids" using q(4) [OF i] lh by (metis nth_map, metis length_map)
    moreover have "rows_matching (\<lambda>y. hr_id y = hr_id (?hs ! n)) (rd_hygiene db) = [?hs ! n]"
      using conjunct1 [OF q(4) [OF i]] dh [OF i] nth_mem [OF lh] unfolding snapshot_cleanups_def i option.case
      by (rule rows_by_ids_row)
    ultimately show "\<exists>x. ?h = Some x \<and> n < length ids \<and> ids ! n = hr_id x \<and> hr_unit x = ur_unit ?r
        \<and> rows_matching (\<lambda>y. hr_id y = hr_id x) (rd_hygiene db) = [x]" using u by blast
  qed simp
qed

lemma diagnostic_sides: "source_is_diagnostic r (effective_hygiene r h) = is_diagnostic_failure r h"
  by (simp add: source_is_diagnostic_def is_diagnostic_failure_def)

lemma left_join_single:
  assumes "rows_matching (\<lambda>x. key x = k) rows = [r]" and "p r"
  shows "left_join (\<lambda>x. key x = k \<and> p x) rows = [Some r]"
proof -
  have "rows_matching (\<lambda>x. key x = k \<and> p x) rows = filter p (rows_matching (\<lambda>x. key x = k) rows)"
    by (simp add: rows_matching_def conj_commute)
  with assms show ?thesis by (simp add: left_join_def)
qed

text \<open>The failures the gate's trigger expects are those the service groups.\<close>

lemma expected_diagnostic_ids_eq:
  assumes v: "task_snapshot_valid H s" and p: "snapshot_placed db s" and l: "load_snapshot_inputs H db s = Inr xs"
  shows "expected_diagnostic_ids db s = sort (map (\<lambda>(r, _). ur_id r) (filter (\<lambda>(r, h). is_diagnostic_failure r h) xs))"
proof -
  note q = load_snapshot_inputs_Inr [OF l]
  have len: "length xs = length (ss_resolution_ids s)" using q(1,2) by (metis length_map)
  define row where "row = (\<lambda>(n, i). List.map_filter (\<lambda>r.
       let joined = left_join (\<lambda>h. (case ss_hygiene_ids s of None \<Rightarrow> False
              | Some ids \<Rightarrow> n < length ids \<and> hr_id h = ids ! n) \<and> hr_unit h = ur_unit r) (rd_hygiene db) in
       if list_ex (\<lambda>h. ax_verdict (ur_axes r) \<noteq> VERDICT_PASSED \<or> ur_stability r \<noteq> STABLE
            \<or> (case h of Some x \<Rightarrow> hr_data_hygiene x | None \<Rightarrow> ax_data_hygiene (ur_axes r))
                \<in> {HYGIENE_CLEANUP_FAILED, HYGIENE_LEAKED}
            \<or> ax_integrity (ur_axes r) \<noteq> VERIFIED
            \<or> ax_completeness (ur_axes r) \<in> {EVIDENCE_MISSING, EVIDENCE_PARTIAL}) joined
       then Some (ur_id r) else None)
       (rows_matching (\<lambda>r. ur_id r = i \<and> ur_scope r = ss_scope s) (rd_resolutions db)))"
  define want where "want = (\<lambda>(r, h). if is_diagnostic_failure r h then [ur_id r] else [])"
  have row: "row (n, ss_resolution_ids s ! n) = want (xs ! n)" if "n < length xs" for n
    using v p l that
  proof (cases rule: inputs_at)
    case (input_at r h)
    have scope: "ur_scope r = ss_scope s" using input_at(5) by (simp add: input_in_scope_def)
    have "rows_matching (\<lambda>x. ur_id x = ur_id r \<and> ur_scope x = ss_scope s) (rd_resolutions db)
        = filter (\<lambda>x. ur_scope x = ss_scope s) (rows_matching (\<lambda>x. ur_id x = ur_id r) (rd_resolutions db))"
      by (simp add: rows_matching_def conj_commute)
    then have rr: "rows_matching (\<lambda>x. ur_id x = ur_id r \<and> ur_scope x = ss_scope s) (rd_resolutions db) = [r]"
      by (simp add: input_at(4) scope)
    have "left_join (\<lambda>x. (case ss_hygiene_ids s of None \<Rightarrow> False
        | Some ids \<Rightarrow> n < length ids \<and> hr_id x = ids ! n) \<and> hr_unit x = ur_unit r) (rd_hygiene db) = [h]"
    proof (cases "ss_hygiene_ids s")
      case None
      then show ?thesis using input_at(6) by (simp add: left_join_def rows_matching_def)
    next
      case (Some ids)
      with input_at(7) obtain x where x: "h = Some x" "n < length ids" "ids ! n = hr_id x" "hr_unit x = ur_unit r"
        "rows_matching (\<lambda>y. hr_id y = hr_id x) (rd_hygiene db) = [x]" by blast
      with left_join_single [of hr_id "hr_id x" "rd_hygiene db" x "\<lambda>y. hr_unit y = ur_unit r"] Some
      show ?thesis by simp
    qed
    then show ?thesis
      unfolding row_def input_at(1,3) want_def prod.case rr
      by (simp add: List.map_filter_simps Let_def is_diagnostic_failure_def effective_hygiene_def)
  qed
  have "map row (enumerate 0 (ss_resolution_ids s)) = map want xs"
    by (rule nth_equalityI) (simp_all add: len nth_enumerate_eq row)
  moreover have "concat (map want xs) = map (\<lambda>(r, _). ur_id r) (filter (\<lambda>(r, h). is_diagnostic_failure r h) xs)"
    by (induction xs) (auto simp: want_def)
  ultimately show ?thesis
    unfolding expected_diagnostic_ids_def row_def [symmetric] by simp
qed

end
