(* ===== verification/Gate_Policy.thy ===== *)
theory Gate_Policy
  imports Task_Gate
begin

text \<open>The policy of the gate: what its verdicts mean, and that SQL decides as Python does.\<close>

lemma ready_iff: "not_gate_ready f \<longleftrightarrow> \<not> task_gate_classification_is_ready f"
  by (auto simp: not_gate_ready_def task_gate_classification_is_ready_def Let_def)

definition reason_row :: "gate_reason_code \<times> nat \<Rightarrow> gate_reason" where
  "reason_row = (\<lambda>(code, n). \<lparr>gr_code = code, gr_count = int n\<rparr>)"

lemma map_add_reason: "map reason_row (add_reason code n reasons) = map reason_row reasons @ stored_reason code n"
  by (simp add: add_reason_def stored_reason_def reason_row_def)

lemma stored_once: "stored_reason code 1 = [\<lparr>gr_code = code, gr_count = 1\<rparr>]"
  by (simp add: stored_reason_def)

text \<open>Both sides list the same reasons.\<close>

lemma map_gate_reasons:
  "map reason_row (gate_reasons s fs) = (let v = ss_verdicts s; d = ss_distributions s; h = ad_data_hygiene d;
       e = ad_completeness d; i = ad_integrity d; x = ad_influence d; t = ad_stability d in
     (if ss_finality s = QUALITY_FINAL then [\<lparr>gr_code = SNAPSHOT_NOT_FULLY_RESOLVED, gr_count = 1\<rparr>] else [])
       @ stored_reason INCONCLUSIVE_UNITS (vc_inconclusive v)
       @ stored_reason NOT_EVALUATED_UNITS (vc_not_evaluated v)
       @ stored_reason DATA_HYGIENE_UNRESOLVED (hc_pending h + hc_cleanup_failed h)
       @ stored_reason EVIDENCE_INCOMPLETE (cc_pending e + cc_partial e + cc_missing e)
       @ stored_reason EVIDENCE_INVALID_OR_UNVERIFIED (ic_unverified i + ic_invalid i)
       @ stored_reason MANUAL_INFLUENCE (fc_manual_assisted x + fc_manual_only x)
       @ stored_reason UNSTABLE_EXECUTION
           (sc_unknown t + sc_infra_recovered t + sc_flaky_suspect t + sc_flaky_confirmed t)
       @ stored_reason CLASSIFICATION_NOT_GATE_READY (length (filter not_gate_ready fs))
       @ stored_reason FAILED_UNITS (vc_failed v)
       @ stored_reason DATA_LEAK (hc_leaked h))"
  unfolding gate_reasons_def Let_def map_add_reason ready_iff append_assoc [symmetric]
  by (simp only: if_distrib [of "map reason_row"] map_add_reason list.map(1) append_Nil stored_once)

lemma reasons_agree:
  "map reason_row (sort_key (\<lambda>(code, _). reason_text code) (gate_reasons s fs))
    = expected_reasons s (length (filter not_gate_ready fs))"
proof -
  have k: "(\<lambda>(code, _). reason_text code) = (\<lambda>r. reason_text (gr_code r)) \<circ> reason_row"
    by (auto simp: reason_row_def)
  have "map reason_row (sort_key (\<lambda>(code, _). reason_text code) (gate_reasons s fs))
      = sort_key (\<lambda>r. reason_text (gr_code r)) (map reason_row (gate_reasons s fs))"
    unfolding k by (simp add: sort_key_map o_def)
  then show ?thesis
    by (simp only: expected_reasons_def map_gate_reasons Let_def)
qed

lemma codes_of_rows: "fst ` set reasons = gr_code ` set (map reason_row reasons)"
  by (force simp: reason_row_def)

lemma some_code: "list_ex (\<lambda>r. gr_code r \<in> X) rs \<longleftrightarrow> X \<inter> gr_code ` set rs \<noteq> {}"
  by (auto simp: list_ex_iff)

lemma verdicts_agree: "gate_verdict_of (fst ` set reasons) = expected_decision (map reason_row reasons)"
  by (simp only: gate_verdict_of_def expected_decision_def some_code codes_of_rows)

lemma expected_decision_sort: "expected_decision (sort_key f rs) = expected_decision rs"
  by (simp add: expected_decision_def list_ex_iff)

lemma evaluate_task_gate_eq:
  assumes "distinct (map cf_id fs)" and "list_all (\<lambda>f. cf_snapshot f = ss_id s) fs"
  shows "evaluate_task_gate s fs = Inr (expected_decision (expected_reasons s (length (filter not_gate_ready fs))),
    expected_reasons s (length (filter not_gate_ready fs)))"
proof -
  have r: "map (\<lambda>(code, n). \<lparr>gr_code = code, gr_count = int n\<rparr>)
        (sort_key (\<lambda>(code, _). reason_text code) (gate_reasons s fs))
      = expected_reasons s (length (filter not_gate_ready fs))"
    using reasons_agree [of s fs] by (simp add: reason_row_def)
  have "fst ` set (gate_reasons s fs) = fst ` set (sort_key (\<lambda>(code, _). reason_text code) (gate_reasons s fs))"
    by simp
  then have "gate_verdict_of (fst ` set (gate_reasons s fs))
      = expected_decision (expected_reasons s (length (filter not_gate_ready fs)))"
    using verdicts_agree [of "sort_key (\<lambda>(code, _). reason_text code) (gate_reasons s fs)"] reasons_agree [of s fs]
    by simp
  with r assms show ?thesis
    by (auto simp: evaluate_task_gate_def Let_def list_all_iff list_ex_iff)
qed

text \<open>What is decided, in terms of the counts.\<close>

definition gate_certain :: "task_snapshot \<Rightarrow> nat \<Rightarrow> bool" where
  "gate_certain s unready = (let n = ss_manifest_count s; d = ss_distributions s in
     ss_finality s \<noteq> QUALITY_FINAL \<and> vc_passed (ss_verdicts s) + vc_failed (ss_verdicts s) = n
     \<and> hc_cleaned (ad_data_hygiene d) + hc_leaked (ad_data_hygiene d) + hc_not_applicable (ad_data_hygiene d) = n
     \<and> cc_complete (ad_completeness d) + cc_not_applicable (ad_completeness d) = n
     \<and> ic_verified (ad_integrity d) = n \<and> fc_autonomous (ad_influence d) = n \<and> sc_stable (ad_stability d) = n
     \<and> unready = 0)"

lemma stored_reason_codes: "gr_code ` set (stored_reason c n) = (if 0 < n then {c} else {})"
  by (simp add: stored_reason_def)

lemma reason_codes:
  "gr_code ` set (expected_reasons s unready) = (let v = ss_verdicts s; d = ss_distributions s;
       h = ad_data_hygiene d; e = ad_completeness d; i = ad_integrity d; x = ad_influence d; t = ad_stability d in
     (if ss_finality s = QUALITY_FINAL then {SNAPSHOT_NOT_FULLY_RESOLVED} else {})
     \<union> (if 0 < vc_inconclusive v then {INCONCLUSIVE_UNITS} else {})
     \<union> (if 0 < vc_not_evaluated v then {NOT_EVALUATED_UNITS} else {})
     \<union> (if 0 < hc_pending h + hc_cleanup_failed h then {DATA_HYGIENE_UNRESOLVED} else {})
     \<union> (if 0 < cc_pending e + cc_partial e + cc_missing e then {EVIDENCE_INCOMPLETE} else {})
     \<union> (if 0 < ic_unverified i + ic_invalid i then {EVIDENCE_INVALID_OR_UNVERIFIED} else {})
     \<union> (if 0 < fc_manual_assisted x + fc_manual_only x then {MANUAL_INFLUENCE} else {})
     \<union> (if 0 < sc_unknown t + sc_infra_recovered t + sc_flaky_suspect t + sc_flaky_confirmed t
         then {UNSTABLE_EXECUTION} else {})
     \<union> (if 0 < unready then {CLASSIFICATION_NOT_GATE_READY} else {})
     \<union> (if 0 < vc_failed v then {FAILED_UNITS} else {})
     \<union> (if 0 < hc_leaked h then {DATA_LEAK} else {}))"
  by (simp add: expected_reasons_def Let_def image_Un stored_reason_codes Un_assoc)

text \<open>With the totals of a valid snapshot, nothing else is counted exactly when all the rest is.\<close>

lemma sum_rest: "a + b = (n::nat) \<Longrightarrow> 0 < a \<longleftrightarrow> b \<noteq> n"
  by linarith

lemma certain_codes:
  assumes "task_snapshot_valid H s"
  shows "inconclusive_codes \<inter> gr_code ` set (expected_reasons s unready) = {} \<longleftrightarrow> gate_certain s unready"
proof -
  define v h e i x t where "v = ss_verdicts s" and "h = ad_data_hygiene (ss_distributions s)"
    and "e = ad_completeness (ss_distributions s)" and "i = ad_integrity (ss_distributions s)"
    and "x = ad_influence (ss_distributions s)" and "t = ad_stability (ss_distributions s)"
  note defs = this
  have "verdict_total v = ss_manifest_count s"
    and "list_all (\<lambda>total. total = ss_manifest_count s) (axis_totals (ss_distributions s))"
    using assms by (auto simp: task_snapshot_valid_def snapshot_content_valid_def defs)
  then have totals: "vc_passed v + vc_failed v + (vc_inconclusive v + vc_not_evaluated v) = ss_manifest_count s"
    "hc_cleaned h + hc_leaked h + hc_not_applicable h + (hc_pending h + hc_cleanup_failed h) = ss_manifest_count s"
    "cc_complete e + cc_not_applicable e + (cc_pending e + cc_partial e + cc_missing e) = ss_manifest_count s"
    "ic_verified i + (ic_unverified i + ic_invalid i) = ss_manifest_count s"
    "fc_autonomous x + (fc_manual_assisted x + fc_manual_only x) = ss_manifest_count s"
    "sc_stable t + (sc_unknown t + sc_infra_recovered t + sc_flaky_suspect t + sc_flaky_confirmed t)
      = ss_manifest_count s"
    by (simp_all add: verdict_total_def axis_totals_def Let_def defs add.assoc add.left_commute add.commute)
  have codes: "inconclusive_codes \<inter> gr_code ` set (expected_reasons s unready) = {} \<longleftrightarrow>
      ss_finality s \<noteq> QUALITY_FINAL \<and> vc_inconclusive v = 0 \<and> vc_not_evaluated v = 0
      \<and> hc_pending h + hc_cleanup_failed h = 0 \<and> cc_pending e + cc_partial e + cc_missing e = 0
      \<and> ic_unverified i + ic_invalid i = 0 \<and> fc_manual_assisted x + fc_manual_only x = 0
      \<and> sc_unknown t + sc_infra_recovered t + sc_flaky_suspect t + sc_flaky_confirmed t = 0 \<and> unready = 0"
    unfolding reason_codes Let_def defs [symmetric] Int_Un_distrib Un_empty inconclusive_codes_def
    by (simp only: if_distrib [of "\<lambda>c. _ \<inter> c"] Int_empty_right) simp
  show ?thesis
    unfolding codes gate_certain_def Let_def defs [symmetric] using totals by auto
qed

lemma failing_codes:
  "{FAILED_UNITS, DATA_LEAK} \<inter> gr_code ` set (expected_reasons s unready) = {} \<longleftrightarrow>
    vc_failed (ss_verdicts s) = 0 \<and> hc_leaked (ad_data_hygiene (ss_distributions s)) = 0"
  unfolding reason_codes Let_def Int_Un_distrib Un_empty by simp

lemma decision_of_counts:
  assumes "task_snapshot_valid H s"
  shows "expected_decision (expected_reasons s unready) =
    (if \<not> gate_certain s unready then GATE_INCONCLUSIVE
     else if 0 < vc_failed (ss_verdicts s) \<or> 0 < hc_leaked (ad_data_hygiene (ss_distributions s)) then REJECTED
     else ACCEPTED)"
  unfolding expected_decision_def some_code certain_codes [OF assms] failing_codes by simp

end
