(* ===== verification/Triage_Correct.thy ===== *)
theory Triage_Correct
  imports Triage_Inputs Gate_Policy "HOL-Library.Multiset"
begin

text \<open>
  What the classification of a snapshot leaves in the tables: a cluster per fingerprint that holds
  exactly the failures of its group, and a judgment for every cluster, so that the gate can decide.
\<close>

subsection \<open>The groups\<close>

abbreviation failing :: "cluster_input list \<Rightarrow> cluster_input list" where
  "failing \<equiv> filter (\<lambda>(r, h). is_diagnostic_failure r h)"

definition fingerprint_of :: "triage_hashing \<Rightarrow> cluster_input \<Rightarrow> string" where
  "fingerprint_of C = (\<lambda>(r, h). failure_cluster_fingerprint C (failure_signal_for r h))"

abbreviation members :: "failure_group list \<Rightarrow> cluster_input list" where
  "members gs \<equiv> concat (map (\<lambda>g. snd (snd g)) gs)"

definition groups_ok :: "triage_hashing \<Rightarrow> failure_group list \<Rightarrow> bool" where
  "groups_ok C gs = (distinct (map fst gs)
     \<and> list_all (\<lambda>(f, s, xs). xs \<noteq> [] \<and> list_all (\<lambda>x. fingerprint_of C x = f) xs) gs)"

lemma add_to_group_keys: "fst ` set (add_to_group f s x gs) = insert f (fst ` set gs)"
  by (induction f s x gs rule: add_to_group.induct) auto

lemma add_to_group_ok:
  "groups_ok C gs \<Longrightarrow> fingerprint_of C x = f \<Longrightarrow> groups_ok C (add_to_group f s x gs)"
  by (induction f s x gs rule: add_to_group.induct)
    (auto simp: groups_ok_def add_to_group_keys simp flip: image_set)

lemma add_to_group_members: "mset (members (add_to_group f s x gs)) = add_mset x (mset (members gs))"
  by (induction f s x gs rule: add_to_group.induct) auto

lemma group_failures_Inr:
  "group_failures C xs gs = Inr gs' \<Longrightarrow> groups_ok C gs \<Longrightarrow>
     groups_ok C gs' \<and> mset (members gs') = mset (members gs) + mset (failing xs)"
proof (induction C xs gs rule: group_failures.induct)
  case (2 C r h xs gs)
  have "groups_ok C (add_to_group (failure_cluster_fingerprint C (failure_signal_for r h)) (failure_signal_for r h) (r, h) gs)"
    using 2(4) by (rule add_to_group_ok) (simp add: fingerprint_of_def)
  with 2 show ?case by (auto simp: add_to_group_members attempt_Inr ensure_Inr split: if_splits)
qed simp

lemma groups_of_inputs:
  assumes "group_failures C xs [] = Inr gs"
  shows "groups_ok C gs" and "mset (members gs) = mset (failing xs)"
  using group_failures_Inr [OF assms] by (simp_all add: groups_ok_def)

text \<open>A group holds every failure with its fingerprint.\<close>

lemma group_is_fingerprint:
  assumes "groups_ok C gs" and "(f, s, ys) \<in> set gs"
  shows "filter (\<lambda>x. fingerprint_of C x = f) (members gs) = ys"
  using assms
proof (induction gs)
  case (Cons g gs)
  obtain f' s' zs where g: "g = (f', s', zs)" by (cases g)
  have z: "\<forall>x \<in> set zs. fingerprint_of C x = f'" and ok: "groups_ok C gs" and n: "f' \<notin> fst ` set gs"
    using Cons.prems(1) by (auto simp: groups_ok_def g list_all_iff)
  have rest: "filter (\<lambda>x. fingerprint_of C x = k) (members gs) = []" if "k \<notin> fst ` set gs" for k
    using ok that by (force simp: groups_ok_def list_all_iff filter_empty_conv)
  show ?case
  proof (cases "f = f'")
    case True
    have "(f, s, ys) \<notin> set gs" using n True by force
    with Cons.prems(2) have "zs = ys" by (simp add: g)
    with z rest [OF n] True show ?thesis by (simp add: g)
  next
    case False
    with Cons.prems(2) have "(f, s, ys) \<in> set gs" by (simp add: g)
    moreover have "filter (\<lambda>x. fingerprint_of C x = f) zs = []" using z False by (auto simp: filter_empty_conv)
    ultimately show ?thesis using Cons.IH [OF ok] by (simp add: g)
  qed
qed simp

subsection \<open>One cluster\<close>

lemma cluster_of_fields [simp]:
  "fc_id (cluster_of C i k s sig f xs now) = i" "fc_cluster_id (cluster_of C i k s sig f xs now) = k"
  "fc_scope (cluster_of C i k s sig f xs now) = ss_scope s" "fc_snapshot (cluster_of C i k s sig f xs now) = ss_id s"
  "fc_revision (cluster_of C i k s sig f xs now) = 1" "fc_fingerprint (cluster_of C i k s sig f xs now) = f"
  "fc_signal (cluster_of C i k s sig f xs now) = sig"
  "fc_affected (cluster_of C i k s sig f xs now) = map (\<lambda>(r, _). ur_id r) xs"
  "fc_representative (cluster_of C i k s sig f xs now) = hd (map (\<lambda>(r, _). ur_id r) xs)"
  "fc_affected_count (cluster_of C i k s sig f xs now) = int (length xs)"
  by (simp_all add: cluster_of_def Let_def cluster_content.defs failure_cluster.defs)

lemma insert_failure_cluster_Inr:
  "insert_failure_cluster C now c db = Inr db' \<Longrightarrow> db' = db\<lparr>rd_clusters := rd_clusters db @ [c]\<rparr>
     \<and> guard_failure_cluster C now db c \<and> cluster_check c \<and> (\<forall>x \<in> set (rd_clusters db). \<not> cluster_conflicts x c)"
  by (auto simp: insert_failure_cluster_def attempt_Inr db_call_Inr ensure_Inr sql_insert_Inr)

lemma insert_failure_classification_Inr:
  "insert_failure_classification C now f db = Inr db' \<Longrightarrow>
     db' = db\<lparr>rd_classifications := rd_classifications db @ [f]\<rparr> \<and> guard_failure_classification C now db f
     \<and> classification_check f \<and> (\<forall>x \<in> set (rd_classifications db). \<not> classification_conflicts x f)"
  by (auto simp: insert_failure_classification_def attempt_Inr db_call_Inr ensure_Inr sql_insert_Inr)

lemma new_cluster:
  assumes g: "get_or_create_cluster C i k now s (f, sig, xs) db = Inr (c, db')"
    and new: "\<And>x. x \<in> set (rd_clusters db) \<Longrightarrow> fc_snapshot x = ss_id s \<Longrightarrow> fc_fingerprint x \<noteq> f"
  shows "c = cluster_of C i k s sig f xs now" and "failure_cluster_valid C c"
    and "db' = db\<lparr>rd_clusters := rd_clusters db @ [c]\<rparr>"
    and "\<forall>x \<in> set (rd_clusters db). \<not> cluster_conflicts x c"
proof -
  have "latest_by fc_revision (\<lambda>c. fc_snapshot c = ss_id s \<and> fc_fingerprint c = f
      \<and> fc_policy_digest c = CLUSTER_POLICY_DIGEST) (rd_clusters db) = None"
    using new by (auto simp: latest_by_None)
  then have "get_failure_cluster C db (ss_id s) f = Inr None" by (simp add: get_failure_cluster_def)
  with g show "c = cluster_of C i k s sig f xs now" "failure_cluster_valid C c"
    "db' = db\<lparr>rd_clusters := rd_clusters db @ [c]\<rparr>" "\<forall>x \<in> set (rd_clusters db). \<not> cluster_conflicts x c"
    by (auto simp: get_or_create_cluster_def Let_def attempt_Inr ensure_Inr dest: insert_failure_cluster_Inr split: if_splits)
qed

lemma latest_by_first: "latest_by f p rows = None \<Longrightarrow> p r \<Longrightarrow> latest_by f p (rows @ [r]) = Some r"
  by (simp add: latest_by_None) (simp add: latest_by_def rows_matching_def first_row_def)

lemma latest_by_other: "list_all (\<lambda>x. \<not> p x) rows2 \<Longrightarrow> latest_by f p (rows @ rows2) = latest_by f p rows"
  by (simp add: latest_by_def rows_matching_def list_all_iff)

lemma record_classification_Inr:
  "record_classification actor c f now db = Inr db' \<Longrightarrow> \<exists>e a. db' = append_outbox e (db\<lparr>rd_audit := a\<rparr>)"
  by (auto simp: record_classification_def append_audit_def attempt_Inr db_call_Inr)

lemma rule_classification_fields [simp]:
  "cf_cluster_revision (rule_classification_of C i k s c j now) = fc_id c"
  "cf_id (rule_classification_of C i k s c j now) = i" "cf_snapshot (rule_classification_of C i k s c j now) = ss_id s"
  by (simp_all add: rule_classification_of_def Let_def classification_content.defs failure_classification.defs)

text \<open>What the judgments of a classification change: their table, the audit and the outbox.\<close>

definition judged :: "(failure_classification \<Rightarrow> bool) \<Rightarrow> result_db \<Rightarrow> result_db \<Rightarrow> bool" where
  "judged p db db' = (\<exists>fs a out. list_all p fs \<and> db' = db\<lparr>rd_classifications := rd_classifications db @ fs,
     rd_audit := a, rd_outbox := out\<rparr>)"

lemma judged_refl [simp]: "judged p db db"
  unfolding judged_def by (rule exI [of _ "[]"], rule exI [of _ "rd_audit db"], rule exI [of _ "rd_outbox db"]) simp

lemma judged_one:
  "p f \<Longrightarrow> judged p db (append_outbox e (db\<lparr>rd_classifications := rd_classifications db @ [f], rd_audit := a\<rparr>))"
  unfolding judged_def
  by (rule exI [of _ "[f]"], rule exI [of _ a], rule exI [of _ "rd_outbox db @ [e]"]) (simp add: append_outbox_def)

lemma judged_trans:
  assumes "judged p db d" and "d' = d\<lparr>rd_clusters := cs\<rparr>" and "judged p d' db'"
  shows "judged p (db\<lparr>rd_clusters := cs\<rparr>) db'"
proof -
  from assms(1) obtain fs a out where d: "list_all p fs"
    "d = db\<lparr>rd_classifications := rd_classifications db @ fs, rd_audit := a, rd_outbox := out\<rparr>"
    unfolding judged_def by blast
  from assms(3) obtain fs' a' out' where d': "list_all p fs'"
    "db' = d'\<lparr>rd_classifications := rd_classifications d' @ fs', rd_audit := a', rd_outbox := out'\<rparr>"
    unfolding judged_def by blast
  show ?thesis unfolding judged_def
    by (rule exI [of _ "fs @ fs'"], rule exI [of _ a'], rule exI [of _ out']) (simp add: d(1) d' assms(2) d(2))
qed

lemma judged_frame:
  assumes "judged p db db'"
  shows "rd_clusters db' = rd_clusters db" "rd_snapshots db' = rd_snapshots db"
    "rd_resolutions db' = rd_resolutions db" "rd_hygiene db' = rd_hygiene db" "rd_runs db' = rd_runs db"
    "rd_decisions db' = rd_decisions db" "rd_callbacks db' = rd_callbacks db" "rd_requests db' = rd_requests db"
  using assms by (auto simp: judged_def)

lemma judged_mono: "judged p db db' \<Longrightarrow> (\<And>f. p f \<Longrightarrow> q f) \<Longrightarrow> judged q db db'"
  unfolding judged_def by (metis (no_types, lifting) list_all_iff)

lemma judged_latest:
  assumes "judged p db db'" and "\<And>f. p f \<Longrightarrow> \<not> q f"
  shows "latest_by cf_revision q (rd_classifications db') = latest_by cf_revision q (rd_classifications db)"
  using assms by (auto simp: judged_def list_all_iff intro!: latest_by_other)

lemma judged_cluster:
  assumes g: "get_or_create_rule_classification C actor i k now s c xs db = Inr (f, db')"
    and new: "\<And>x. x \<in> set (rd_classifications db) \<Longrightarrow> cf_cluster_revision x \<noteq> fc_id c"
  obtains (added) e a where "failure_classification_valid C f" "cf_cluster_revision f = fc_id c" "cf_snapshot f = ss_id s"
    "\<forall>x \<in> set (rd_classifications db). \<not> classification_conflicts x f"
    "db' = append_outbox e (db\<lparr>rd_classifications := rd_classifications db @ [f], rd_audit := a\<rparr>)"
proof -
  have "latest_by cf_revision (\<lambda>x. cf_cluster_revision x = fc_id c) (rd_classifications db) = None"
    using new by (auto simp: latest_by_None)
  then have none: "get_latest_failure_classification_for_cluster C db (fc_id c) = Inr None"
    by (simp add: get_latest_failure_classification_for_cluster_def)
  from g obtain db1 j where f: "f = rule_classification_of C i k s c j now" "failure_classification_valid C f"
    "insert_failure_classification C now f db = Inr db1" "record_classification actor c f now db1 = Inr db'"
    by (auto simp: get_or_create_rule_classification_def none Let_def attempt_Inr ensure_Inr
        split: option.splits if_splits)
  note i = insert_failure_classification_Inr [OF f(3)]
  obtain e a where "db' = append_outbox e (db1\<lparr>rd_audit := a\<rparr>)"
    using record_classification_Inr [OF f(4)] by blast
  with f(1,2) i show thesis by (intro added [of e a]) simp_all
qed

subsection \<open>All clusters\<close>

text \<open>What the loop over the groups leaves: one valid cluster and judgment per group.\<close>

definition judgments_keyed :: "result_db \<Rightarrow> bool" where
  "judgments_keyed db = (distinct (map cf_id (rd_classifications db))
     \<and> list_all (\<lambda>f. cf_cluster_revision f \<in> fc_id ` set (rd_clusters db)) (rd_classifications db)
     \<and> sorted_wrt (\<lambda>x c. \<not> cluster_conflicts x c) (rd_clusters db))"

definition classified ::
    "triage_hashing \<Rightarrow> task_snapshot \<Rightarrow> failure_group list \<Rightarrow> (failure_cluster \<times> failure_classification) list
      \<Rightarrow> result_db \<Rightarrow> result_db \<Rightarrow> bool" where
  "classified C s gs pairs db db' = (judged (\<lambda>f. cf_cluster_revision f \<in> fc_id ` fst ` set pairs)
       (db\<lparr>rd_clusters := rd_clusters db @ map fst pairs\<rparr>) db'
     \<and> map (\<lambda>p. fc_affected (fst p)) pairs = map (\<lambda>g. map (\<lambda>(r, _). ur_id r) (snd (snd g))) gs
     \<and> map (\<lambda>p. fc_fingerprint (fst p)) pairs = map fst gs
     \<and> list_all (\<lambda>(c, f). fc_snapshot c = ss_id s \<and> fc_revision c = 1 \<and> failure_cluster_valid C c
         \<and> failure_classification_valid C f \<and> cf_snapshot f = ss_id s \<and> cf_cluster_revision f = fc_id c
         \<and> latest_by cf_revision (\<lambda>x. cf_cluster_revision x = fc_id c) (rd_classifications db') = Some f) pairs
     \<and> judgments_keyed db')"

lemma classified_frame:
  assumes "classified C s gs pairs db db'"
  shows "rd_clusters db' = rd_clusters db @ map fst pairs" "rd_snapshots db' = rd_snapshots db"
    "rd_resolutions db' = rd_resolutions db" "rd_hygiene db' = rd_hygiene db" "rd_runs db' = rd_runs db"
    "rd_decisions db' = rd_decisions db" "rd_callbacks db' = rd_callbacks db" "rd_requests db' = rd_requests db"
  using judged_frame [OF conjunct1 [OF assms [unfolded classified_def]]] by simp_all

lemma classified_pair:
  assumes "classified C s gs pairs db db'" and "(c, f) \<in> set pairs"
  shows "fc_snapshot c = ss_id s" "fc_revision c = 1" "failure_cluster_valid C c" "failure_classification_valid C f"
    "cf_snapshot f = ss_id s" "cf_cluster_revision f = fc_id c"
    "latest_by cf_revision (\<lambda>x. cf_cluster_revision x = fc_id c) (rd_classifications db') = Some f"
  using assms unfolding classified_def list_all_iff by blast+

lemma classify_groups_Inr:
  assumes "classify_groups C actor ids now s n gs db = Inr (pairs, db')" and "groups_ok C gs"
    and "\<And>x. x \<in> set (rd_clusters db) \<Longrightarrow> fc_snapshot x = ss_id s \<Longrightarrow> fc_fingerprint x \<notin> fst ` set gs"
    and "judgments_keyed db"
  shows "classified C s gs pairs db db'"
  using assms
proof (induction C actor ids now s n gs db arbitrary: pairs db' rule: classify_groups.induct)
  case (1 C actor ids now s n db)
  then have "pairs = []" "db' = db" by simp_all
  then show ?case using 1 by (simp add: classified_def)
next
  case (2 C actor ids now s n g gs db)
  obtain f sig xs where g: "g = (f, sig, xs)" by (cases g)
  from "2.prems"(1) obtain c db1 j db2 rest where steps:
    "get_or_create_cluster C (ids n 0) (ids n 1) now s (f, sig, xs) db = Inr (c, db1)"
    "get_or_create_rule_classification C actor (ids n 3) (ids n 2) now s c xs db1 = Inr (j, db2)"
    "classify_groups C actor ids now s (Suc n) gs db2 = Inr (rest, db')" "pairs = (c, j) # rest"
    by (auto simp: attempt_Inr g)
  have new: "fc_fingerprint x \<noteq> f" if "x \<in> set (rd_clusters db)" "fc_snapshot x = ss_id s" for x
    using "2.prems"(3) [OF that] by (auto simp: g)
  have c: "c = cluster_of C (ids n 0) (ids n 1) s sig f xs now" "failure_cluster_valid C c"
    "db1 = db\<lparr>rd_clusters := rd_clusters db @ [c]\<rparr>" "\<forall>x \<in> set (rd_clusters db). \<not> cluster_conflicts x c"
    using new_cluster [OF steps(1)] new by blast+
  have unjudged: "cf_cluster_revision x \<noteq> fc_id c" if "x \<in> set (rd_classifications db1)" for x
    using that c(3,4) "2.prems"(4) by (auto simp: judgments_keyed_def list_all_iff cluster_conflicts_def)
  obtain e a where j: "failure_classification_valid C j" "cf_cluster_revision j = fc_id c" "cf_snapshot j = ss_id s"
    "\<forall>x \<in> set (rd_classifications db1). \<not> classification_conflicts x j"
    "db2 = append_outbox e (db1\<lparr>rd_classifications := rd_classifications db1 @ [j], rd_audit := a\<rparr>)"
    using judged_cluster [OF steps(2)] unjudged by blast
  have cl: "rd_clusters db2 = rd_clusters db @ [c]" and jl: "rd_classifications db2 = rd_classifications db @ [j]"
    by (simp_all add: j(5) append_outbox_def c(3))
  have ok: "groups_ok C gs" and nf: "f \<notin> fst ` set gs" using "2.prems"(2) by (auto simp: groups_ok_def g)
  have free: "fc_fingerprint x \<notin> fst ` set gs" if "x \<in> set (rd_clusters db2)" "fc_snapshot x = ss_id s" for x
  proof (cases "x = c")
    case True
    with nf c(1) show ?thesis by simp
  next
    case False
    with that "2.prems"(3) [of x] show ?thesis by (simp add: cl)
  qed
  have keyed: "judgments_keyed db2"
    using "2.prems"(4) c(3,4) j(2,4)
    by (auto simp: judgments_keyed_def cl jl sorted_wrt_append list_all_iff classification_conflicts_def)
  have r: "classified C s gs rest db2 db'"
    using "2.IH" steps(1,2,3) ok free keyed by (simp add: g)
  have fin: "judgments_keyed db'" using r unfolding classified_def by blast
  note rd = classified_frame(1) [OF r]
  have apart: "fc_id c \<notin> fc_id ` fst ` set rest"
    using fin by (auto simp: judgments_keyed_def rd cl sorted_wrt_append cluster_conflicts_def)
  let ?p = "\<lambda>f. cf_cluster_revision f \<in> fc_id ` fst ` set pairs"
  have r2: "judged (\<lambda>f. cf_cluster_revision f \<in> fc_id ` fst ` set rest)
      (db2\<lparr>rd_clusters := rd_clusters db2 @ map fst rest\<rparr>) db'" using r by (simp add: classified_def)
  have late: "latest_by cf_revision (\<lambda>x. cf_cluster_revision x = fc_id c) (rd_classifications db') = Some j"
  proof -
    have "latest_by cf_revision (\<lambda>x. cf_cluster_revision x = fc_id c) (rd_classifications db')
        = latest_by cf_revision (\<lambda>x. cf_cluster_revision x = fc_id c)
            (rd_classifications (db2\<lparr>rd_clusters := rd_clusters db2 @ map fst rest\<rparr>))"
      using r2 by (rule judged_latest) (use apart in metis)
    moreover have "latest_by cf_revision (\<lambda>x. cf_cluster_revision x = fc_id c) (rd_classifications db2) = Some j"
      unfolding jl using unjudged j(2) by (intro latest_by_first) (auto simp: latest_by_None c(3))
    ultimately show ?thesis by simp
  qed
  have added: "judged ?p (db1\<lparr>rd_clusters := rd_clusters db2 @ map fst rest\<rparr>) db'"
  proof (rule judged_trans)
    show "judged ?p db1 db2" unfolding j(5) by (rule judged_one) (simp add: steps(4) j(2))
    show "judged ?p (db2\<lparr>rd_clusters := rd_clusters db2 @ map fst rest\<rparr>) db'"
      using r2 by (rule judged_mono) (simp add: steps(4))
  qed simp
  have cs: "rd_clusters db2 @ map fst rest = rd_clusters db @ map fst pairs" by (simp add: cl steps(4))
  show ?case
    unfolding classified_def
  proof (intro conjI)
    show "judged ?p (db\<lparr>rd_clusters := rd_clusters db @ map fst pairs\<rparr>) db'" using added by (simp add: cs c(3))
    show "judgments_keyed db'" by (fact fin)
  qed (use r c(1,2) j(1-3) late in \<open>simp_all add: classified_def steps(4) g\<close>)
qed

subsection \<open>A classified snapshot is covered\<close>

lemma latest_clusters_new:
  assumes cs: "rows_matching (\<lambda>c. fc_snapshot c = i) (rd_clusters db) = cs" and d: "distinct (map fc_cluster_id cs)"
  shows "mset (latest_clusters db i) = mset cs"
proof -
  let ?f = "\<lambda>k. latest_by fc_revision (\<lambda>c. fc_snapshot c = i \<and> fc_cluster_id c = k) (rd_clusters db)"
  have one: "?f (fc_cluster_id c) = Some c" if "c \<in> set cs" for c
  proof -
    have "rows_matching (\<lambda>x. fc_snapshot x = i \<and> fc_cluster_id x = fc_cluster_id c) (rd_clusters db)
        = filter (\<lambda>x. fc_cluster_id x = fc_cluster_id c) cs"
      by (simp add: cs [symmetric] rows_matching_def conj_commute)
    then show ?thesis using filter_key_unique [OF d that] by (simp add: latest_by_def first_row_def)
  qed
  have "latest_clusters db i = List.map_filter ?f (sort (map fc_cluster_id cs))"
    using d by (simp add: latest_clusters_def cs distinct_remdups_id)
  also have "\<dots> = map (\<lambda>k. the (?f k)) (sort (map fc_cluster_id cs))"
    using one by (auto simp: List.map_filter_def filter_id_conv intro: arg_cong [where f = "map _"])
  finally have "mset (latest_clusters db i) = mset (map (\<lambda>c. the (?f (fc_cluster_id c))) cs)"
    by (simp add: multiset.map_comp comp_def)
  also have "map (\<lambda>c. the (?f (fc_cluster_id c))) cs = cs" using one by (simp add: map_idI)
  finally show ?thesis .
qed

lemma sort_mset_eq: "mset xs = mset ys \<Longrightarrow> sort xs = sort (ys :: uuid list)"
  by (rule properties_for_sort) simp_all

lemma classified_clusters:
  assumes c: "classified C s gs pairs db db'"
    and none: "rows_matching (\<lambda>c. fc_snapshot c = ss_id s) (rd_clusters db) = []"
  shows "mset (latest_clusters db' (ss_id s)) = mset (map fst pairs)"
proof (rule latest_clusters_new)
  note rows = classified_frame(1) [OF c]
  have "list_all (\<lambda>p. fc_snapshot (fst p) = ss_id s) pairs"
    using classified_pair(1) [OF c] by (auto simp: list_all_iff)
  then show "rows_matching (\<lambda>c. fc_snapshot c = ss_id s) (rd_clusters db') = map fst pairs"
    using none by (simp add: rows rows_matching_def filter_map comp_def list_all_iff filter_id_conv)
  have "list_all (\<lambda>p. fc_revision (fst p) = 1) pairs"
    using classified_pair(2) [OF c] by (auto simp: list_all_iff)
  moreover have "sorted_wrt (\<lambda>x c. \<not> cluster_conflicts x c) (map fst pairs)"
    using c rows by (simp add: classified_def judgments_keyed_def sorted_wrt_append)
  ultimately show "distinct (map fc_cluster_id (map fst pairs))"
    by (induction pairs) (auto simp: cluster_conflicts_def list_all_iff)
qed

lemma classified_covers:
  assumes v: "task_snapshot_valid H s" and p: "snapshot_placed db s" and l: "load_snapshot_inputs H db s = Inr xs"
    and g: "group_failures C xs [] = Inr gs" and c: "classified C s gs pairs db db'"
    and none: "rows_matching (\<lambda>c. fc_snapshot c = ss_id s) (rd_clusters db) = []"
  shows "clusters_cover db' s"
proof -
  let ?ids = "map (\<lambda>(r, _). ur_id r) (failing xs)"
  let ?affected = "concat (map fc_affected (latest_clusters db' (ss_id s)))"
  note q = load_snapshot_inputs_Inr [OF l]
  have "mset ?affected = sum_list (map mset (map fc_affected (map fst pairs)))"
    using arg_cong [OF classified_clusters [OF c none], of "\<lambda>m. \<Sum>\<^sub># (image_mset (\<lambda>x. mset (fc_affected x)) m)"]
    by (simp add: mset_concat sum_mset_sum_list multiset.map_comp comp_def flip: mset_map)
  also have "map fc_affected (map fst pairs) = map (\<lambda>g. map (\<lambda>(r, _). ur_id r) (snd (snd g))) gs"
    using c by (simp add: classified_def comp_def)
  also have "sum_list (map mset \<dots>) = mset (map (\<lambda>(r, _). ur_id r) (members gs))"
    by (induction gs) simp_all
  also have "\<dots> = mset ?ids" using groups_of_inputs(2) [OF g] by (metis mset_map)
  finally have m: "mset ?affected = mset ?ids" .
  have "distinct (map (\<lambda>(r, _). ur_id r) xs)"
    using q(2) v by (simp add: q(1) comp_def task_snapshot_valid_def snapshot_content_valid_def)
  then have "distinct ?ids" by (rule distinct_map_filter)
  then have d: "distinct ?affected" using m by (metis mset_eq_imp_distinct_iff)
  have same: "expected_diagnostic_ids db' s = expected_diagnostic_ids db s"
    by (simp add: expected_diagnostic_ids_def classified_frame [OF c])
  show ?thesis
    using d sort_mset_eq [OF m] by (simp add: clusters_cover_def Let_def distinct_remdups_id same
        expected_diagnostic_ids_eq [OF v p l])
qed

text \<open>Every cluster of the snapshot has a judgment.\<close>

lemma classified_pairs:
  assumes c: "classified C s gs pairs db db'"
    and none: "rows_matching (\<lambda>c. fc_snapshot c = ss_id s) (rd_clusters db) = []"
  obtains (judgments) complete where "list_current_gate_classifications C db' (ss_id s) = Inr (map (\<lambda>(c, f). (c, Some f)) complete)"
    "mset complete = mset pairs"
proof -
  let ?f = "\<lambda>c. latest_by cf_revision (\<lambda>f. cf_cluster_revision f = fc_id c) (rd_classifications db')"
  have m: "mset (latest_clusters db' (ss_id s)) = mset (map fst pairs)" by (rule classified_clusters [OF c none])
  let ?cs = "sort_key (\<lambda>c. (fc_fingerprint c, fc_cluster_id c, fc_id c)) (latest_clusters db' (ss_id s))"
  let ?complete = "map (\<lambda>c. (c, the (?f c))) ?cs"
  have mc: "mset ?cs = mset (map fst pairs)" using m by simp
  have s: "set ?cs = fst ` set pairs" using mset_eq_setD [OF mc] by simp
  have p: "?f (fst x) = Some (snd x)" "failure_cluster_valid C (fst x)" "failure_classification_valid C (snd x)"
    if "x \<in> set pairs" for x
    using classified_pair [OF c, of "fst x" "snd x"] that by simp_all
  have "current_pairs db' (ss_id s) = map (\<lambda>(c, f). (c, Some f)) ?complete"
    using s p(1) by (auto simp: current_pairs_def)
  moreover have "list_all (\<lambda>(c, f). failure_cluster_valid C c \<and> opt_all (failure_classification_valid C) f)
      (map (\<lambda>(c, f). (c, Some f)) ?complete)"
    using s p by (auto simp: list_all_iff opt_all_def)
  ultimately have "list_current_gate_classifications C db' (ss_id s) = Inr (map (\<lambda>(c, f). (c, Some f)) ?complete)"
    by (simp add: list_current_gate_classifications_def model_rows_def)
  moreover have "mset ?complete = image_mset (\<lambda>c. (c, the (?f c))) (mset (map fst pairs))"
    using mc by simp
  moreover have "\<dots> = mset (map (\<lambda>x. (fst x, the (?f (fst x)))) pairs)" by (simp add: multiset.map_comp comp_def)
  moreover have "map (\<lambda>x. (fst x, the (?f (fst x)))) pairs = pairs" using p(1) by (simp add: map_idI)
  ultimately show thesis by (intro judgments [of ?complete]) simp_all
qed

subsection \<open>The command\<close>

lemma classify_snapshot_Inr:
  assumes "classify_snapshot H C actor ids now i db = Inr (pairs, db')"
  obtains (steps) s run xs gs where "first_row (\<lambda>s. ss_id s = i) (rd_snapshots db) = Some s" "task_snapshot_valid H s"
    "ss_id s = i" "require_operable_run actor (get_run db (sc_run (ss_scope s))) s = Inr run"
    "load_snapshot_inputs H db s = Inr xs" "group_failures C xs [] = Inr gs"
    "classify_groups C actor ids now s 0 gs db = Inr (pairs, db')"
  using assms
  by (auto simp: classify_snapshot_def attempt_Inr get_snapshot_by_id_def model_row_Inr
      intro: steps dest: first_row_Some split: option.splits)

text \<open>A snapshot classified for the first time.\<close>

definition unclassified :: "result_db \<Rightarrow> task_snapshot \<Rightarrow> bool" where
  "unclassified db s = (judgments_keyed db
     \<and> rows_matching (\<lambda>c. fc_snapshot c = ss_id s) (rd_clusters db) = [])"

lemma first_classification:
  assumes "classify_snapshot H C actor ids now i db = Inr (pairs, db')"
    and "first_row (\<lambda>s. ss_id s = i) (rd_snapshots db) = Some s" and "unclassified db s"
  obtains (first) xs gs where "load_snapshot_inputs H db s = Inr xs" "group_failures C xs [] = Inr gs"
    "classified C s gs pairs db db'" "task_snapshot_valid H s" "ss_id s = i"
proof -
  from assms(1) show thesis
  proof (cases rule: classify_snapshot_Inr)
    case (steps s' run xs gs)
    have "classified C s gs pairs db db'"
    proof (rule classify_groups_Inr)
      show "classify_groups C actor ids now s 0 gs db = Inr (pairs, db')" using steps(1,7) assms(2) by simp
      show "groups_ok C gs" by (rule groups_of_inputs(1) [OF steps(6)])
      show "judgments_keyed db" using assms(3) by (simp add: unclassified_def)
      show "fc_fingerprint x \<notin> fst ` set gs" if "x \<in> set (rd_clusters db)" "fc_snapshot x = ss_id s" for x
        using that assms(3) by (auto simp: unclassified_def rows_matching_def filter_empty_conv)
    qed
    with steps assms(2) show thesis by (intro first [of xs gs]) simp_all
  qed
qed

text \<open>
  C21: The first classification of a snapshot covers it: every failure the gate's trigger expects lies
  in exactly one current cluster, and every current cluster has a current judgment, so that the
  gate's rules of completeness hold.
\<close>

theorem classified_snapshot_is_covered:
  assumes "classify_snapshot H C actor ids now i db = Inr (pairs, db')"
    and "first_row (\<lambda>s. ss_id s = i) (rd_snapshots db) = Some s"
    and "unclassified db s" and "snapshot_placed db s"
  shows "clusters_cover db' s
    \<and> (\<exists>complete. mset complete = mset pairs
      \<and> list_current_gate_classifications C db' i = Inr (map (\<lambda>(c, f). (c, Some f)) complete)
      \<and> require_complete_pairs (map (\<lambda>(c, f). (c, Some f)) complete) = Inr complete)"
proof -
  from assms(1-3) show ?thesis
  proof (cases rule: first_classification)
    case (first xs gs)
    have none: "rows_matching (\<lambda>c. fc_snapshot c = ss_id s) (rd_clusters db) = []"
      using assms(3) by (simp add: unclassified_def)
    obtain complete where "list_current_gate_classifications C db' (ss_id s) = Inr (map (\<lambda>(c, f). (c, Some f)) complete)"
      "mset complete = mset pairs"
      by (rule classified_pairs [OF first(3) none])
    moreover have "require_complete_pairs (map (\<lambda>(c, f). (c, Some f)) complete) = Inr complete"
      by (auto simp: require_complete_pairs_def list_ex_iff comp_def case_prod_beta)
    ultimately show ?thesis
      using classified_covers [OF first(4) assms(4) first(1-3) none] first(5) by blast
  qed
qed

text \<open>
  C22: No more than ten thousand failures of a snapshot may share a fingerprint: a larger group fails
  the model of its cluster, and with it the classification, although a snapshot has up to a hundred
  thousand units.
\<close>

theorem classified_groups_are_bounded:
  assumes "classify_snapshot H C actor ids now i db = Inr (pairs, db')"
    and "first_row (\<lambda>s. ss_id s = i) (rd_snapshots db) = Some s"
    and "unclassified db s" and "load_snapshot_inputs H db s = Inr xs"
  shows "length (filter (\<lambda>x. fingerprint_of C x = f) (failing xs)) \<le> 10000"
proof -
  from assms(1-3) show ?thesis
  proof (cases rule: first_classification)
    case (first xs' gs)
    note g = groups_of_inputs [OF first(2)]
    have xs: "xs' = xs" using first(1) assms(4) by simp
    have m: "mset (filter (\<lambda>x. fingerprint_of C x = f) (members gs)) = mset (filter (\<lambda>x. fingerprint_of C x = f) (failing xs))"
      using arg_cong [OF g(2), of "filter_mset (\<lambda>x. fingerprint_of C x = f)"] by (simp only: mset_filter xs)
    have len: "length (filter (\<lambda>x. fingerprint_of C x = f) (failing xs))
        = length (filter (\<lambda>x. fingerprint_of C x = f) (members gs))"
      by (rule mset_eq_length [OF m, symmetric])
    show ?thesis
    proof (cases "f \<in> fst ` set gs")
      case True
      then obtain sig ys where y: "(f, sig, ys) \<in> set gs" by force
      have "map (\<lambda>(r, _). ur_id r) ys \<in> set (map (\<lambda>g. map (\<lambda>(r, _). ur_id r) (snd (snd g))) gs)"
        using y by force
      also have "map (\<lambda>g. map (\<lambda>(r, _). ur_id r) (snd (snd g))) gs = map (\<lambda>p. fc_affected (fst p)) pairs"
        using first(3) by (simp add: classified_def)
      finally obtain c j where c: "(c, j) \<in> set pairs" "fc_affected c = map (\<lambda>(r, _). ur_id r) ys" by auto
      have "length (fc_affected c) \<le> 10000"
        using classified_pair(3) [OF first(3) c(1)] by (simp add: failure_cluster_valid_def cluster_content_valid_def)
      with c(2) group_is_fingerprint [OF g(1) y] len show ?thesis by simp
    next
      case False
      have "fingerprint_of C x \<in> fst ` set gs" if "x \<in> set (members gs)" for x
        using g(1) that by (force simp: groups_ok_def list_all_iff)
      with False have "filter (\<lambda>x. fingerprint_of C x = f) (members gs) = []" by (auto simp: filter_empty_conv)
      with len show ?thesis by simp
    qed
  qed
qed

end
