(* ===== verification/Gate_Correct.thy ===== *)
theory Gate_Correct
  imports Triage_Correct
begin

text \<open>
  The evaluation of the gate in full: on a covered snapshot the decision the service computes passes
  its own model and every rule of the tables, and an accepted decision is one about a clean run.
\<close>

subsection \<open>The computed decision\<close>

lemma gate_decision_fields [simp]:
  "gd_id (gate_decision_of G i k a m s p xs v rs now) = i"
  "gd_gate_id (gate_decision_of G i k a m s p xs v rs now) = (case p of Some d \<Rightarrow> gd_gate_id d | None \<Rightarrow> k)"
  "gd_scope (gate_decision_of G i k a m s p xs v rs now) = ss_scope s"
  "gd_snapshot (gate_decision_of G i k a m s p xs v rs now) = ss_id s"
  "gd_snapshot_hash (gate_decision_of G i k a m s p xs v rs now) = ss_hash s"
  "gd_revision (gate_decision_of G i k a m s p xs v rs now) = (case p of Some d \<Rightarrow> gd_revision d + 1 | None \<Rightarrow> 1)"
  "gd_classification_ids (gate_decision_of G i k a m s p xs v rs now) = map gi_classification_revision xs"
  "gd_classification_set_hash (gate_decision_of G i k a m s p xs v rs now)
     = task_gate_classification_set_hash G (ss_id s) xs"
  "gd_policy_digest (gate_decision_of G i k a m s p xs v rs now) = TASK_GATE_POLICY_DIGEST"
  "gd_decision (gate_decision_of G i k a m s p xs v rs now) = v"
  "gd_reasons (gate_decision_of G i k a m s p xs v rs now) = rs"
  "gd_evaluated_by (gate_decision_of G i k a m s p xs v rs now) = a"
  "gd_client_mutation_id (gate_decision_of G i k a m s p xs v rs now) = m"
  "gd_supersedes (gate_decision_of G i k a m s p xs v rs now) = map_option gd_id p"
  "gd_evaluated_at (gate_decision_of G i k a m s p xs v rs now) = now"
  "gd_hash (gate_decision_of G i k a m s p xs v rs now)
     = task_gate_decision_hash G (gate_decision_of G i k a m s p xs v rs now)"
  by (simp_all add: gate_decision_of_def Let_def decision_content.defs gate_decision.defs task_gate_decision_hash_def)

lemma gate_inputs_ids [simp]:
  "map gi_classification_revision (task_gate_classification_inputs pairs) = map (\<lambda>p. cf_id (snd p)) pairs"
  by (simp add: task_gate_classification_inputs_def comp_def case_prod_beta)

lemma gate_inputs_length [simp]: "length (task_gate_classification_inputs pairs) = length pairs"
  by (simp add: task_gate_classification_inputs_def)

text \<open>The reasons are canonical and empty exactly for an accepted decision.\<close>

lemma stored_if: "(if b then [\<lparr>gr_code = c, gr_count = 1\<rparr>] else []) = stored_reason c (if b then 1 else 0)"
  by (simp add: stored_reason_def)

lemma length_stored: "length (stored_reason c n) \<le> 1"
  by (simp add: stored_reason_def)

lemma stored_distinct: "distinct (map gr_code (stored_reason c n))"
  by (simp add: stored_reason_def)

lemma append_bound: "length xs \<le> a \<Longrightarrow> length ys \<le> b \<Longrightarrow> length (xs @ ys) \<le> a + b"
  by simp

lemma stored_apart:
  "c \<noteq> c' \<Longrightarrow> c \<notin> gr_code ` set (stored_reason c' n)"
  "c \<noteq> c' \<Longrightarrow> c \<notin> gr_code ` set rs \<Longrightarrow> c \<notin> gr_code ` set (stored_reason c' n @ rs)"
  by (auto simp: stored_reason_def)

lemma stored_then:
  "c \<notin> gr_code ` set rs \<Longrightarrow> distinct (map gr_code rs) \<Longrightarrow> distinct (map gr_code (stored_reason c n @ rs))"
  by (simp add: stored_reason_def)

lemma expected_reasons_bound: "length (expected_reasons s unready) \<le> 11"
proof -
  have "length (expected_reasons s unready) \<le> 1 + (1 + (1 + (1 + (1 + (1 + (1 + (1 + (1 + (1 + 1)))))))))"
    unfolding expected_reasons_def Let_def length_sort stored_if by (intro append_bound length_stored)
  then show ?thesis by simp
qed

lemma expected_reasons_counts: "list_all (\<lambda>r. 1 \<le> gr_count r) (expected_reasons s unready)"
proof -
  have sorted: "list_all p (sort_key f rs) = list_all p rs" for p and f :: "gate_reason \<Rightarrow> string" and rs
    by (simp add: list_all_iff)
  have stored: "list_all (\<lambda>r. 1 \<le> gr_count r) (stored_reason c n)" for c n by (simp add: stored_reason_def)
  show ?thesis unfolding expected_reasons_def Let_def sorted by (simp add: stored)
qed

lemma expected_reasons_sorted: "sorted (map (\<lambda>r. reason_text (gr_code r)) (expected_reasons s unready))"
  by (simp add: expected_reasons_def Let_def)

lemma expected_reasons_distinct: "distinct (map gr_code (expected_reasons s unready))"
proof -
  have d: "distinct (map f (sort_key g xs)) = distinct (map f xs)" for f :: "gate_reason \<Rightarrow> gate_reason_code"
      and g :: "gate_reason \<Rightarrow> string" and xs
    by (metis mset_map mset_sort mset_eq_imp_distinct_iff)
  show ?thesis
    unfolding expected_reasons_def Let_def d stored_if by (intro stored_then stored_distinct stored_apart) simp_all
qed

lemma accepted_reasons: "expected_decision (expected_reasons s n) = ACCEPTED \<longleftrightarrow> expected_reasons s n = []"
proof
  assume "expected_decision (expected_reasons s n) = ACCEPTED"
  then have "\<forall>r \<in> set (expected_reasons s n). gr_code r \<notin> inconclusive_codes \<union> {FAILED_UNITS, DATA_LEAK}"
    by (auto simp: expected_decision_def list_ex_iff split: if_splits)
  moreover have "c \<in> inconclusive_codes \<union> {FAILED_UNITS, DATA_LEAK}" for c
    by (cases c) (simp_all add: inconclusive_codes_def)
  ultimately show "expected_reasons s n = []" by (cases "expected_reasons s n") auto
qed (simp add: expected_decision_def)

subsection \<open>Acceptance by the tables\<close>

definition triage_digests :: "triage_hashing \<Rightarrow> bool" where
  "triage_digests G \<longleftrightarrow> (\<forall>d. digest_pattern (G d))"

text \<open>A snapshot of a closed run that the actor may judge.\<close>

definition gate_evaluable ::
    "hashing \<Rightarrow> triage_hashing \<Rightarrow> actor_context \<Rightarrow> result_db \<Rightarrow> task_run \<Rightarrow> task_snapshot \<Rightarrow> bool" where
  "gate_evaluable H G actor db run s = (first_row (\<lambda>x. ss_id x = ss_id s) (rd_snapshots db) = Some s
     \<and> task_snapshot_valid H s \<and> triage_digests G
     \<and> get_run db (sc_run (ss_scope s)) = Some run \<and> tr_scope run = ss_scope s
     \<and> tr_lifecycle run = LIFE_CLOSED \<and> tr_materialization run = SEALED \<and> tr_manifest_hash run = ss_manifest_hash s
     \<and> can_review_results actor (sc_project (ss_scope s)) \<and> not_blank (request_id actor)
     \<and> opt_all (\<lambda>p. gate_decision_valid G p \<and> gd_scope p = ss_scope s)
         (latest_by gd_revision (\<lambda>d. sc_run (gd_scope d) = sc_run (ss_scope s)) (rd_decisions db)))"

definition latest_gate :: "result_db \<Rightarrow> task_snapshot \<Rightarrow> gate_decision option" where
  "latest_gate db s = latest_by gd_revision (\<lambda>d. sc_run (gd_scope d) = sc_run (ss_scope s)) (rd_decisions db)"

definition not_ready_count :: "(failure_cluster \<times> failure_classification) list \<Rightarrow> nat" where
  "not_ready_count pairs = length (filter (\<lambda>p. not_gate_ready (snd p)) pairs)"

definition gate_answer ::
    "triage_hashing \<Rightarrow> (nat \<Rightarrow> uuid) \<Rightarrow> uuid \<Rightarrow> string \<Rightarrow> task_snapshot \<Rightarrow> gate_decision option
      \<Rightarrow> (failure_cluster \<times> failure_classification) list \<Rightarrow> instant \<Rightarrow> gate_decision" where
  "gate_answer G ids a m s previous pairs now =
     gate_decision_of G (ids 0) (ids 1) a m s previous (task_gate_classification_inputs pairs)
       (expected_decision (expected_reasons s (not_ready_count pairs))) (expected_reasons s (not_ready_count pairs)) now"

lemma gate_answer_fields [simp]:
  "gd_id (gate_answer G ids a m s p pairs now) = ids 0"
  "gd_gate_id (gate_answer G ids a m s p pairs now) = (case p of Some d \<Rightarrow> gd_gate_id d | None \<Rightarrow> ids 1)"
  "gd_scope (gate_answer G ids a m s p pairs now) = ss_scope s"
  "gd_snapshot (gate_answer G ids a m s p pairs now) = ss_id s"
  "gd_decision (gate_answer G ids a m s p pairs now) = expected_decision (expected_reasons s (not_ready_count pairs))"
  "gd_reasons (gate_answer G ids a m s p pairs now) = expected_reasons s (not_ready_count pairs)"
  "gd_evaluated_at (gate_answer G ids a m s p pairs now) = now"
  "gd_supersedes (gate_answer G ids a m s p pairs now) = map_option gd_id p"
  "gd_revision (gate_answer G ids a m s p pairs now) = (case p of Some d \<Rightarrow> gd_revision d + 1 | None \<Rightarrow> 1)"
  "gd_client_mutation_id (gate_answer G ids a m s p pairs now) = m"
  by (simp_all add: gate_answer_def del: One_nat_def)

lemma gate_answer_valid:
  assumes r: "gate_evaluable H G actor db run s" and m: "mutation_pattern m"
    and n: "length pairs \<le> 10000" and d: "distinct (map (\<lambda>p. cf_id (snd p)) pairs)"
  shows "gate_decision_valid G (gate_answer G ids a m s (latest_gate db s) pairs now)"
    and "decision_check (gate_answer G ids a m s (latest_gate db s) pairs now)"
proof -
  have g: "digest_pattern (G x)" for x using r by (simp add: gate_evaluable_def triage_digests_def)
  have h: "digest_pattern (ss_hash s)" using r unfolding gate_evaluable_def task_snapshot_valid_def by blast
  have p: "digest_pattern TASK_GATE_POLICY_DIGEST" by code_simp
  have rev: "1 \<le> gd_revision x" if "latest_gate db s = Some x" for x
    using r that by (simp add: gate_evaluable_def latest_gate_def gate_decision_valid_def decision_content_valid_def
        opt_all_def lineage_ok_def)
  show "gate_decision_valid G (gate_answer G ids a m s (latest_gate db s) pairs now)"
    using g h m n d rev
    by (auto simp: gate_decision_valid_def decision_content_valid_def gate_answer_def expected_reasons_bound
        expected_reasons_counts expected_reasons_sorted expected_reasons_distinct accepted_reasons
        task_gate_classification_set_hash_def task_gate_decision_hash_def lineage_ok_def
        split: option.splits)
  show "decision_check (gate_answer G ids a m s (latest_gate db s) pairs now)"
    using g h m n rev p
    by (auto simp: decision_check_def gate_answer_def expected_reasons_bound task_gate_classification_set_hash_def
        task_gate_decision_hash_def split: option.splits)
qed

text \<open>The trigger decides as the service did.\<close>

lemma judged_pairs: "List.map_filter (\<lambda>(c, f). map_option (Pair c) f) (map (\<lambda>(c, f). (c, Some f)) pairs) = pairs"
  by (induction pairs) (auto simp: List.map_filter_simps)

definition gate_covered ::
    "triage_hashing \<Rightarrow> result_db \<Rightarrow> task_snapshot \<Rightarrow> (failure_cluster \<times> failure_classification) list \<Rightarrow> bool" where
  "gate_covered C db s pairs = (clusters_cover db s
     \<and> list_current_gate_classifications C db (ss_id s) = Inr (map (\<lambda>(c, f). (c, Some f)) pairs)
     \<and> length pairs \<le> 10000 \<and> distinct (map (\<lambda>p. cf_id (snd p)) pairs)
     \<and> list_all (\<lambda>p. cf_snapshot (snd p) = ss_id s) pairs)"

text \<open>The identifiers, the digest and the mutation of the decision are new.\<close>

definition gate_new :: "result_db \<Rightarrow> uuid \<Rightarrow> gate_decision \<Rightarrow> bool" where
  "gate_new db event d = (list_all (\<lambda>x. \<not> decision_conflicts x d) (rd_decisions db)
     \<and> list_all (\<lambda>x. ci_event x \<noteq> event \<and> ci_decision_id x \<noteq> gd_id d) (rd_callbacks db))"

lemma run_by_scope:
  assumes "gate_evaluable H G actor db run s"
  shows "first_row (\<lambda>r. tr_scope r = ss_scope s) (rd_runs db) = Some run"
proof -
  have "first_row (\<lambda>r. sc_run (tr_scope r) = sc_run (ss_scope s) \<and> tr_scope r = ss_scope s) (rd_runs db) = Some run"
    using assms by (intro first_row_refine) (simp_all add: gate_evaluable_def get_run_def)
  moreover have "(\<lambda>r :: task_run. sc_run (tr_scope r) = sc_run (ss_scope s) \<and> tr_scope r = ss_scope s)
      = (\<lambda>r. tr_scope r = ss_scope s)" by auto
  ultimately show ?thesis by simp
qed

lemma gate_answer_guarded:
  assumes r: "gate_evaluable H G actor db run s" and c: "gate_covered C db s pairs" and m: "mutation_pattern m"
  shows "guard_gate_decision G now db (gate_answer G ids a m s (latest_gate db s) pairs now)"
proof -
  let ?d = "gate_answer G ids a m s (latest_gate db s) pairs now"
  note run = run_by_scope [OF r]
  have snap: "first_row (\<lambda>x. ss_id x = ss_id s \<and> ss_scope x = ss_scope s) (rd_snapshots db) = Some s"
    using r by (intro first_row_refine) (simp_all add: gate_evaluable_def)
  have pairs: "current_pairs db (ss_id s) = map (\<lambda>(c, f). (c, Some f)) pairs"
    using c by (simp add: gate_covered_def list_current_gate_classifications_def model_rows_Inr)
  have chain: "decision_chain_ok (rd_decisions db) ?d"
    using r by (cases "latest_gate db s")
      (auto simp: decision_chain_ok_def latest_gate_def gate_evaluable_def opt_all_def gate_decision_valid_def
        decision_content_valid_def lineage_ok_def)
  have hash: "task_gate_decision_hash G ?d = gd_hash ?d" by (simp add: gate_answer_def)
  show ?thesis
    using r c chain hash
    by (simp add: guard_gate_decision_def run snap pairs judged_pairs Let_def gate_evaluable_def gate_covered_def)
      (simp add: gate_answer_def not_ready_count_def task_gate_classification_set_hash_def case_prod_beta')
qed

lemma evaluated_pairs:
  assumes "gate_covered C db s pairs"
  shows "evaluate_task_gate s (map snd pairs)
    = Inr (expected_decision (expected_reasons s (not_ready_count pairs)), expected_reasons s (not_ready_count pairs))"
proof -
  have "distinct (map cf_id (map snd pairs))" "list_all (\<lambda>f. cf_snapshot f = ss_id s) (map snd pairs)"
    using assms by (simp_all add: gate_covered_def comp_def list_all_iff)
  moreover have "length (filter not_gate_ready (map snd pairs)) = not_ready_count pairs"
    by (simp add: not_ready_count_def filter_map comp_def case_prod_beta)
  ultimately show ?thesis by (simp add: evaluate_task_gate_eq)
qed

lemma inputs_digests:
  assumes "gate_covered C db s pairs"
  shows "list_all (\<lambda>i. digest_pattern (gi_cluster_hash i) \<and> digest_pattern (gi_classification_hash i)
    \<and> 1 \<le> gi_revision i) (task_gate_classification_inputs pairs)"
proof -
  have "list_all (\<lambda>(c, f). failure_cluster_valid C c \<and> opt_all (failure_classification_valid C) f)
      (map (\<lambda>(c, f). (c, Some f)) pairs)"
    using assms by (auto simp: gate_covered_def list_current_gate_classifications_def model_rows_def split: if_splits)
  then have "failure_cluster_valid C (fst p) \<and> failure_classification_valid C (snd p)" if "p \<in> set pairs" for p
    using that by (cases p) (auto simp: list_all_iff opt_all_def)
  then show ?thesis
    by (force simp: list_all_iff task_gate_classification_inputs_def failure_cluster_valid_def
        failure_classification_valid_def classification_content_valid_def lineage_ok_def)
qed

lemma record_gate_ok:
  "not_blank (request_id actor) \<Longrightarrow> \<exists>e a. record_gate_evaluation actor d now db
      = Inr (append_outbox e (db\<lparr>rd_audit := rd_audit db @ [a]\<rparr>))"
  by (simp add: record_gate_evaluation_def append_audit_def ensure_def audit_check_def not_blank_def) blast

definition intent_of :: "uuid \<Rightarrow> gate_decision \<Rightarrow> string \<Rightarrow> instant \<Rightarrow> callback_intent" where
  "intent_of event d manifest_hash now = \<lparr>ci_event = event, ci_decision_id = gd_id d, ci_gate = gd_gate_id d,
     ci_scope = gd_scope d, ci_manifest_hash = manifest_hash, ci_decision = gd_decision d,
     ci_status = CALLBACK_PENDING, ci_available_at = now, ci_claim_token = None, ci_claimed_by = None, ci_claimed_at = None,
     ci_claim_expires_at = None, ci_attempts = 0, ci_revision = 0, ci_error_code = None, ci_error_at = None,
     ci_response = None, ci_delivered_at = None, ci_failed_at = None, ci_created_at = now\<rparr>"

lemma intent_of_check: "callback_check (intent_of event d manifest_hash now) = digest_pattern manifest_hash"
  by (simp add: callback_check_def intent_of_def unclaimed_def undispatched_def opt_all_def)

lemma gate_appended:
  assumes r: "gate_evaluable H G actor db run s" and c: "gate_covered C db s pairs"
    and m: "mutation_pattern (gq_client_mutation_id q)" and q: "gq_snapshot q = ss_id s"
    and d: "d = gate_answer G ids a (gq_client_mutation_id q) s (latest_gate db s) pairs now"
    and n: "gate_new db (ids 2) d"
  obtains (accepted) db' where "evaluate_snapshot H C G actor a now ids q db = Inr ((d, 201, False), db')"
    "rd_decisions db' = rd_decisions db @ [d]"
    "rd_callbacks db' = rd_callbacks db @ [intent_of (ids 2) d (ss_manifest_hash s) now]"
    "rd_requests db' = rd_requests db"
proof -
  have s: "get_snapshot_by_id H db (gq_snapshot q) = Inr (Some s)"
    using r by (simp add: get_snapshot_by_id_def q gate_evaluable_def)
  have "can_read_project actor (sc_project (ss_scope s))"
    using r holds_role_read by (auto simp: gate_evaluable_def can_review_results_def can_read_project_def)
  then have run: "require_evaluable_run actor (get_run db (sc_run (ss_scope s))) s = Inr run"
    using r by (simp add: require_evaluable_run_def gate_evaluable_def)
  have prev: "get_latest_task_gate G db (sc_run (ss_scope s)) = Inr (latest_gate db s)"
    using r by (auto simp: get_latest_task_gate_def latest_gate_def gate_evaluable_def opt_all_def model_row_Inr
        split: option.splits)
  have l: "list_current_gate_classifications C db (ss_id s) = Inr (map (\<lambda>(c, f). (c, Some f)) pairs)"
    and len: "length pairs \<le> 10000" and ids: "distinct (map (\<lambda>p. cf_id (snd p)) pairs)"
    using c by (simp_all add: gate_covered_def)
  have complete: "require_complete_pairs (map (\<lambda>(c, f). (c, Some f)) pairs) = Inr pairs"
    by (auto simp: require_complete_pairs_def list_ex_iff comp_def case_prod_beta)
  note valid = gate_answer_valid [OF r m len ids, where ids = ids and a = a and now = now, folded d]
  have refs: "decision_references db d"
    using r by (auto simp: decision_references_def d list_ex_iff gate_evaluable_def get_run_def latest_gate_def opt_all_def
        latest_by_def rows_matching_def dest!: first_row_Some split: option.splits)
  let ?db1 = "db\<lparr>rd_decisions := rd_decisions db @ [d]\<rparr>"
  have i: "insert_task_gate_decision G now d db = Inr ?db1"
    using gate_answer_guarded [OF r c m, where ids = ids and a = a and now = now, folded d] valid(2) refs n
    by (simp add: insert_task_gate_decision_def ensure_def sql_insert_def gate_new_def list_ex_iff list_all_iff)
  have own: "first_row (\<lambda>x. gd_id x = gd_id d \<and> gd_gate_id x = gd_gate_id d \<and> gd_scope x = gd_scope d)
      (rd_decisions db @ [d]) = Some d"
  proof -
    have "filter (\<lambda>x. gd_id x = gd_id d \<and> gd_gate_id x = gd_gate_id d \<and> gd_scope x = gd_scope d) (rd_decisions db) = []"
      using n by (auto simp: gate_new_def list_all_iff filter_empty_conv decision_conflicts_def)
    then show ?thesis by (simp add: first_row_def)
  qed
  have gr: "first_row (\<lambda>r. tr_scope r = gd_scope d) (rd_runs db) = Some run" "tr_manifest_hash run = ss_manifest_hash s"
    using run_by_scope [OF r] r by (simp_all add: d gate_evaluable_def)
  let ?i = "intent_of (ids 2) d (ss_manifest_hash s) now"
  let ?db2 = "?db1\<lparr>rd_callbacks := rd_callbacks db @ [?i]\<rparr>"
  have "guard_gate_callback ?db1 ?i"
    using own gr by (simp add: guard_gate_callback_def intent_of_def unclaimed_def undispatched_def) (simp add: d)
  moreover have "callback_check ?i"
    using r by (auto simp: intent_of_check gate_evaluable_def task_snapshot_valid_def snapshot_content_valid_def)
  ultimately have cb: "insert_task_gate_callback_intent (ids 2) d (ss_manifest_hash s) now ?db1 = Inr ?db2"
    using n by (simp add: insert_task_gate_callback_intent_def Let_def intent_of_def ensure_def sql_insert_def gate_new_def
        list_ex_iff list_all_iff callback_conflicts_def)
  obtain e au where rec: "record_gate_evaluation actor d now ?db2 = Inr (append_outbox e (?db2\<lparr>rd_audit := rd_audit ?db2 @ [au]\<rparr>))"
    using record_gate_ok [of actor d now ?db2] r by (auto simp: gate_evaluable_def)
  have "append_decision G actor a now ids q s (latest_gate db s) pairs db
      = Inr ((d, 201, False), append_outbox e (?db2\<lparr>rd_audit := rd_audit ?db2 @ [au]\<rparr>))"
    using evaluated_pairs [OF c] inputs_digests [OF c] valid(1) i cb rec
    by (simp add: append_decision_def Let_def ensure_def d gate_answer_def)
  then have "evaluate_snapshot H C G actor a now ids q db
      = Inr ((d, 201, False), append_outbox e (?db2\<lparr>rd_audit := rd_audit ?db2 @ [au]\<rparr>))"
    by (simp add: evaluate_snapshot_def s run prev l complete)
  then show thesis by (rule accepted) (simp_all add: append_outbox_def)
qed

subsection \<open>From the classification to the decision\<close>

text \<open>The pairs the gate reads: every current cluster with the judgment that decides.\<close>

definition gate_pairs :: "result_db \<Rightarrow> task_snapshot \<Rightarrow> (failure_cluster \<times> failure_classification) list" where
  "gate_pairs db s = map (\<lambda>(c, f). (c, the f)) (current_pairs db (ss_id s))"

lemma gate_covered_requests:
  "gate_covered C (db\<lparr>rd_requests := rows\<rparr>) s pairs = gate_covered C db s pairs"
  "gate_evaluable H G actor (db\<lparr>rd_requests := rows\<rparr>) run s = gate_evaluable H G actor db run s"
  "gate_new (db\<lparr>rd_requests := rows\<rparr>) e d = gate_new db e d" "latest_gate (db\<lparr>rd_requests := rows\<rparr>) s = latest_gate db s"
  by (simp_all add: gate_covered_def clusters_cover_def latest_clusters_def expected_diagnostic_ids_def
      list_current_gate_classifications_def current_pairs_def gate_evaluable_def get_run_def gate_new_def latest_gate_def)

lemma gate_evaluable_frame:
  assumes "rd_snapshots db' = rd_snapshots db" "rd_runs db' = rd_runs db" "rd_decisions db' = rd_decisions db"
    "rd_callbacks db' = rd_callbacks db"
  shows "gate_evaluable H G actor db' run s = gate_evaluable H G actor db run s"
    and "gate_new db' e d = gate_new db e d" and "latest_gate db' s = latest_gate db s"
  using assms by (simp_all add: gate_evaluable_def get_run_def gate_new_def latest_gate_def)

lemma classified_gate_covered:
  assumes c: "classify_snapshot H C actor ids now (ss_id s) db = Inr (pairs, db')" and n: "length pairs \<le> 10000"
    and s: "first_row (\<lambda>x. ss_id x = ss_id s) (rd_snapshots db) = Some s"
    and u: "unclassified db s" and p: "snapshot_placed db s"
  shows "gate_covered C db' s (gate_pairs db' s)" and "mset (gate_pairs db' s) = mset pairs"
    and "rd_snapshots db' = rd_snapshots db" "rd_runs db' = rd_runs db" "rd_decisions db' = rd_decisions db"
    "rd_callbacks db' = rd_callbacks db" "rd_requests db' = rd_requests db"
proof -
  obtain xs gs where k: "load_snapshot_inputs H db s = Inr xs" "group_failures C xs [] = Inr gs"
    "classified C s gs pairs db db'" "task_snapshot_valid H s"
    using first_classification [OF c s u] by blast
  note frame = classified_frame [OF k(3)]
  show "rd_snapshots db' = rd_snapshots db" "rd_runs db' = rd_runs db" "rd_decisions db' = rd_decisions db"
    "rd_callbacks db' = rd_callbacks db" "rd_requests db' = rd_requests db" by (fact frame)+
  have none: "rows_matching (\<lambda>c. fc_snapshot c = ss_id s) (rd_clusters db) = []"
    using u by (simp add: unclassified_def)
  obtain complete where l: "list_current_gate_classifications C db' (ss_id s) = Inr (map (\<lambda>(c, f). (c, Some f)) complete)"
    and m: "mset complete = mset pairs" by (rule classified_pairs [OF k(3) none])
  have "current_pairs db' (ss_id s) = map (\<lambda>(c, f). (c, Some f)) complete"
    using l by (simp add: list_current_gate_classifications_def model_rows_Inr)
  then have g: "gate_pairs db' s = complete" by (simp add: gate_pairs_def comp_def case_prod_beta')
  then show "mset (gate_pairs db' s) = mset pairs" using m by simp
  have ids: "distinct (map (\<lambda>p. cf_id (snd p)) pairs)"
  proof -
    have keyed: "judgments_keyed db'" using k(3) by (simp add: classified_def)
    then have "sorted_wrt (\<lambda>x c. \<not> cluster_conflicts x c) (map fst pairs)"
      by (simp add: judgments_keyed_def frame(1) sorted_wrt_append)
    then have d: "distinct (map (\<lambda>p. fc_id (fst p)) pairs)"
      by (induction pairs) (auto simp: cluster_conflicts_def)
    have row: "snd p \<in> set (rd_classifications db') \<and> cf_cluster_revision (snd p) = fc_id (fst p)" if "p \<in> set pairs" for p
      using classified_pair(6,7) [OF k(3), of "fst p" "snd p"] that
      by (auto simp: latest_by_def rows_matching_def dest!: first_row_Some)
    have inj: "inj_on cf_id (set (rd_classifications db'))"
      using keyed by (simp add: judgments_keyed_def distinct_map)
    show ?thesis
      unfolding distinct_map
    proof
      show "distinct pairs" using d by (simp add: distinct_map)
      show "inj_on (\<lambda>p. cf_id (snd p)) (set pairs)"
      proof (rule inj_onI)
        fix x y assume x: "x \<in> set pairs" and y: "y \<in> set pairs" and eq: "cf_id (snd x) = cf_id (snd y)"
        have "snd x = snd y" using inj row [OF x] row [OF y] eq by (simp add: inj_on_def)
        with row [OF x] row [OF y] have "fc_id (fst x) = fc_id (fst y)" by simp
        with d x y show "x = y" by (simp add: distinct_map inj_on_def)
      qed
    qed
  qed
  have "mset (map (\<lambda>p. cf_id (snd p)) complete) = mset (map (\<lambda>p. cf_id (snd p)) pairs)" using m by simp
  then have "distinct (map (\<lambda>p. cf_id (snd p)) complete)" using ids mset_eq_imp_distinct_iff by blast
  moreover have "list_all (\<lambda>p. cf_snapshot (snd p) = ss_id s) complete"
    using classified_pair(5) [OF k(3)] mset_eq_setD [OF m] by (auto simp: list_all_iff)
  moreover have "length complete \<le> 10000" using n mset_eq_length [OF m] by simp
  ultimately show "gate_covered C db' s (gate_pairs db' s)"
    using classified_covers [OF k(4) p k(1-3) none] l by (simp add: gate_covered_def g)
qed

lemma not_ready_mset:
  assumes "mset xs = mset ys"
  shows "not_ready_count xs = not_ready_count ys"
  unfolding not_ready_count_def by (rule mset_eq_length) (simp add: assms)

lemma gate_decides_aux:
  assumes e: "gate_evaluable H G actor db run s" and a: "actor_id actor = Some a"
    and q: "gq_snapshot q = ss_id s" and m: "mutation_pattern (gq_client_mutation_id q)"
    and u: "unclassified db s" and p: "snapshot_placed db s"
    and c: "classify_snapshot H C actor cids before (ss_id s) db = Inr (pairs, db1)" and n: "length pairs \<le> 10000"
    and r: "reserve (actor_tenant_id actor) ''task-gates.evaluations'' (gq_client_mutation_id q) (R (gate_payload q)) now
      REQUEST_TTL (rd_requests db) = Inr (Acquired, rows)"
    and new: "gate_new db (ids 2) (gate_answer G ids a (gq_client_mutation_id q) s (latest_gate db s) (gate_pairs db1 s) now)"
  shows "\<exists>d db'. evaluate_gate H C G R actor before cids now ids q (gq_client_mutation_id q) db
      = (Inr (d, 201, False), db')
    \<and> gd_decision d = (if \<not> gate_certain s (not_ready_count pairs) then GATE_INCONCLUSIVE
        else if 0 < vc_failed (ss_verdicts s) \<or> 0 < hc_leaked (ad_data_hygiene (ss_distributions s)) then REJECTED
        else ACCEPTED)
    \<and> rd_decisions db' = rd_decisions db @ [d]
    \<and> rd_callbacks db' = rd_callbacks db @ [intent_of (ids 2) d (ss_manifest_hash s) now]"
proof -
  let ?key = "gq_client_mutation_id q" and ?db = "db1\<lparr>rd_requests := rows\<rparr>"
  have s: "first_row (\<lambda>x. ss_id x = ss_id s) (rd_snapshots db) = Some s" "task_snapshot_valid H s"
    using e by (simp_all add: gate_evaluable_def)
  note cov = classified_gate_covered [OF c n s(1) u p]
  note frame = gate_evaluable_frame [OF cov(3-6)]
  define d where "d = gate_answer G ids a ?key s (latest_gate ?db s) (gate_pairs db1 s) now"
  have ev: "gate_evaluable H G actor ?db run s" using e by (simp add: gate_covered_requests frame)
  have cv: "gate_covered C ?db s (gate_pairs db1 s)" using cov(1) by (simp add: gate_covered_requests)
  have nw: "gate_new ?db (ids 2) d" using new by (simp add: d_def gate_covered_requests frame)
  obtain db2 where steps: "evaluate_snapshot H C G actor a now ids q ?db = Inr ((d, 201, False), db2)"
    "rd_decisions db2 = rd_decisions ?db @ [d]"
    "rd_callbacks db2 = rd_callbacks ?db @ [intent_of (ids 2) d (ss_manifest_hash s) now]"
    "rd_requests db2 = rd_requests ?db"
    by (rule gate_appended [OF ev cv m q d_def nw])
  obtain rows2 where fin: "complete_reservation (actor_tenant_id actor) ''task-gates.evaluations'' ?key
      (R (gate_payload q)) 201 (DecisionResponse d) rows = Inr rows2"
    using complete_acquired [OF r, of 201] by auto
  have "idempotent (decode_decision G) DecisionResponse (actor_tenant_id actor) ''task-gates.evaluations'' ?key
      (R (gate_payload q)) now (evaluate_snapshot H C G actor a now ids q) db1
      = Inr ((d, 201, False), db2\<lparr>rd_requests := rows2\<rparr>)"
    using r steps(1,4) fin by (simp add: idempotent_def cov(7))
  then have "evaluate_gate H C G R actor before cids now ids q ?key db
      = (Inr (d, 201, False), db2\<lparr>rd_requests := rows2\<rparr>)"
    by (simp add: evaluate_gate_def a q c)
  moreover have "gd_decision d = (if \<not> gate_certain s (not_ready_count pairs) then GATE_INCONCLUSIVE
        else if 0 < vc_failed (ss_verdicts s) \<or> 0 < hc_leaked (ad_data_hygiene (ss_distributions s)) then REJECTED
        else ACCEPTED)"
    using decision_of_counts [OF s(2)] not_ready_mset [OF cov(2)] by (simp add: d_def)
  ultimately show ?thesis using steps(2,3) cov(5,6) by auto
qed


subsection \<open>What an accepted decision says\<close>

lemma insert_task_gate_decision_Inr:
  "insert_task_gate_decision G now d db = Inr db' \<Longrightarrow> db' = db\<lparr>rd_decisions := rd_decisions db @ [d]\<rparr>
     \<and> guard_gate_decision G now db d \<and> (\<forall>x \<in> set (rd_decisions db). \<not> decision_conflicts x d)"
  by (auto simp: insert_task_gate_decision_def attempt_Inr db_call_Inr ensure_Inr sql_insert_Inr)

lemma insert_callback_Inr:
  "insert_task_gate_callback_intent e d mh now db = Inr db' \<Longrightarrow>
     db' = db\<lparr>rd_callbacks := rd_callbacks db @ [intent_of e d mh now]\<rparr>"
  by (auto simp: insert_task_gate_callback_intent_def Let_def attempt_Inr db_call_Inr ensure_Inr sql_insert_Inr
      intent_of_def)

lemma record_gate_Inr:
  "record_gate_evaluation actor d now db = Inr db' \<Longrightarrow> \<exists>e au. db' = append_outbox e (db\<lparr>rd_audit := au\<rparr>)"
  by (auto simp: record_gate_evaluation_def append_audit_def attempt_Inr db_call_Inr)

lemma complete_pairs_Inr:
  "require_complete_pairs found = Inr pairs \<Longrightarrow> found = map (\<lambda>(c, f). (c, Some f)) pairs"
  by (induction found arbitrary: pairs) (auto simp: require_complete_pairs_def split: if_splits)

lemma evaluate_snapshot_Inr:
  assumes "evaluate_snapshot H C G actor a now ids q db = Inr ((d, status, replayed), db')"
  obtains (decided) s run pairs where "get_snapshot_by_id H db (gq_snapshot q) = Inr (Some s)"
    "require_evaluable_run actor (get_run db (sc_run (ss_scope s))) s = Inr run"
    "list_current_gate_classifications C db (ss_id s) = Inr (map (\<lambda>(c, f). (c, Some f)) pairs)"
    "evaluate_task_gate s (map snd pairs) = Inr (gd_decision d, gd_reasons d)"
    "gd_snapshot d = ss_id s" "gd_scope d = ss_scope s" "gd_client_mutation_id d = gq_client_mutation_id q"
    "\<not> replayed" "guard_gate_decision G now db d" "\<forall>x \<in> set (rd_decisions db). \<not> decision_conflicts x d"
    "rd_decisions db' = rd_decisions db @ [d]" "rd_snapshots db' = rd_snapshots db"
    "rd_callbacks db' = rd_callbacks db @ [intent_of (ids 2) d (ss_manifest_hash s) now]"
    "current_pairs db' (ss_id s) = current_pairs db (ss_id s)" "clusters_cover db' s = clusters_cover db s"
proof -
  from assms obtain s run previous found pairs where h: "get_snapshot_by_id H db (gq_snapshot q) = Inr (Some s)"
    "require_evaluable_run actor (get_run db (sc_run (ss_scope s))) s = Inr run"
    "list_current_gate_classifications C db (ss_id s) = Inr found" "require_complete_pairs found = Inr pairs"
    "append_decision G actor a now ids q s previous pairs db = Inr ((d, status, replayed), db')"
    by (auto simp: evaluate_snapshot_def attempt_Inr split: option.splits)
  note found = complete_pairs_Inr [OF h(4)]
  from h(5) obtain verdict reasons db1 db2 where ap: "evaluate_task_gate s (map snd pairs) = Inr (verdict, reasons)"
    "d = gate_decision_of G (ids 0) (ids 1) a (gq_client_mutation_id q) s previous
       (task_gate_classification_inputs pairs) verdict reasons now"
    "insert_task_gate_decision G now d db = Inr db1"
    "insert_task_gate_callback_intent (ids 2) d (ss_manifest_hash s) now db1 = Inr db2"
    "record_gate_evaluation actor d now db2 = Inr db'" "\<not> replayed"
    by (auto simp: append_decision_def Let_def attempt_Inr ensure_Inr split: if_splits)
  note i = insert_task_gate_decision_Inr [OF ap(3)] and cb = insert_callback_Inr [OF ap(4)]
  obtain e au where db': "db' = append_outbox e (db2\<lparr>rd_audit := au\<rparr>)" using record_gate_Inr [OF ap(5)] by blast
  show thesis
  proof (rule decided [OF h(1,2)])
    show "list_current_gate_classifications C db (ss_id s) = Inr (map (\<lambda>(c, f). (c, Some f)) pairs)"
      using h(3) found by simp
    show "evaluate_task_gate s (map snd pairs) = Inr (gd_decision d, gd_reasons d)" using ap(1,2) by simp
    show "current_pairs db' (ss_id s) = current_pairs db (ss_id s)"
      by (simp add: db' append_outbox_def cb i current_pairs_def latest_clusters_def)
    show "clusters_cover db' s = clusters_cover db s"
      by (simp add: db' append_outbox_def cb i clusters_cover_def expected_diagnostic_ids_def latest_clusters_def)
  qed (use i cb ap(2,6) in \<open>simp_all add: db' append_outbox_def\<close>)
qed

lemma evaluate_gate_new:
  assumes "evaluate_gate H C G R actor before cids now ids q key db = (Inr (d, status, False), db')"
  obtains (new) a db1 rows db2 rows2 where "actor_id actor = Some a"
    "evaluate_snapshot H C G actor a now ids q (db1\<lparr>rd_requests := rows\<rparr>) = Inr ((d, status, False), db2)"
    "db' = db2\<lparr>rd_requests := rows2\<rparr>"
proof -
  from assms obtain a db1 where "actor_id actor = Some a"
    and i: "idempotent (decode_decision G) DecisionResponse (actor_tenant_id actor) ''task-gates.evaluations'' key
      (R (gate_payload q)) now (evaluate_snapshot H C G actor a now ids q) db1 = Inr ((d, status, False), db')"
    by (auto simp: evaluate_gate_def commit_Inr split: if_splits option.splits prod.splits sum.splits)
  from i show thesis
  proof (cases rule: idempotent_Inr)
    case (executed rows db2 rows1)
    then show thesis using \<open>actor_id actor = Some a\<close> by (intro new)
  qed simp
qed

text \<open>
  C18: An accepted decision is about a clean run: its snapshot is fully resolved, every unit passed,
  was cleaned or needed no cleanup, has complete and verified evidence, no manual influence and a
  stable result; the failures of the snapshot are covered by clusters whose current judgments are all
  ready; and the actor may review the project.
\<close>

theorem accepted_gate_is_clean:
  assumes e: "evaluate_gate H C G R actor before cids now ids q key db = (Inr (d, status, False), db')"
    and acc: "gd_decision d = ACCEPTED"
  shows "\<exists>s \<in> set (rd_snapshots db'). ss_id s = gd_snapshot d \<and> ss_finality s \<in> {FULLY_RESOLVED, REEVALUATED}
    \<and> (let n = ss_manifest_count s; x = ss_distributions s in vc_passed (ss_verdicts s) = n
      \<and> hc_cleaned (ad_data_hygiene x) + hc_not_applicable (ad_data_hygiene x) = n
      \<and> cc_complete (ad_completeness x) + cc_not_applicable (ad_completeness x) = n
      \<and> ic_verified (ad_integrity x) = n \<and> fc_autonomous (ad_influence x) = n \<and> sc_stable (ad_stability x) = n)
    \<and> clusters_cover db' s
    \<and> list_all (\<lambda>(c, f). f \<noteq> None \<and> opt_all task_gate_classification_is_ready f) (current_pairs db' (ss_id s))
    \<and> can_review_results actor (sc_project (gd_scope d)) \<and> d \<in> set (rd_decisions db')"
  using e
proof (cases rule: evaluate_gate_new)
  case (new a db1 rows db2 rows2)
  from new(2) show ?thesis
  proof (cases rule: evaluate_snapshot_Inr)
    case (decided s run pairs)
    let ?db = "db1\<lparr>rd_requests := rows\<rparr>" and ?n = "length (filter not_gate_ready (map snd pairs))"
    have s: "first_row (\<lambda>x. ss_id x = gq_snapshot q) (rd_snapshots ?db) = Some s" and v: "task_snapshot_valid H s"
      using decided(1) by (auto simp: get_snapshot_by_id_def model_row_Inr split: option.splits)
    note row = first_row_Some [OF s]
    have "distinct (map cf_id (map snd pairs))" "list_all (\<lambda>f. cf_snapshot f = ss_id s) (map snd pairs)"
      using decided(4) by (auto simp: evaluate_task_gate_def list_all_iff list_ex_iff split: if_splits)
    from evaluate_task_gate_eq [OF this] decided(4) acc have "expected_decision (expected_reasons s ?n) = ACCEPTED"
      by simp
    with decision_of_counts [OF v] have cert: "gate_certain s ?n" and ok: "vc_failed (ss_verdicts s) = 0"
        "hc_leaked (ad_data_hygiene (ss_distributions s)) = 0"
      by (auto split: if_splits)
    have final: "ss_finality s \<in> {FULLY_RESOLVED, REEVALUATED}"
      using v cert by (cases "ss_finality s") (simp_all add: task_snapshot_valid_def snapshot_content_valid_def
          finality_shape_def gate_certain_def Let_def)
    have ready: "list_all (\<lambda>(c, f). f \<noteq> None \<and> opt_all task_gate_classification_is_ready f) (current_pairs ?db (ss_id s))"
    proof -
      have "current_pairs ?db (ss_id s) = map (\<lambda>(c, f). (c, Some f)) pairs"
        using decided(3) by (simp add: list_current_gate_classifications_def model_rows_Inr)
      moreover have "list_all (\<lambda>p. task_gate_classification_is_ready (snd p)) pairs"
        using cert by (auto simp: gate_certain_def Let_def list_all_iff filter_empty_conv ready_iff)
      ultimately show ?thesis by (auto simp: list_all_iff opt_all_def)
    qed
    have "first_row (\<lambda>x. ss_id x = ss_id s \<and> ss_scope x = ss_scope s) (rd_snapshots ?db) = Some s"
      using s row by (intro first_row_refine) simp_all
    with decided(5,6,9) have cover: "clusters_cover ?db s" by (auto simp: guard_gate_decision_def split: option.splits)
    have same: "clusters_cover db' s = clusters_cover db2 s" "current_pairs db' i = current_pairs db2 i" for i
      by (simp_all add: new(3) clusters_cover_def expected_diagnostic_ids_def latest_clusters_def current_pairs_def)
    have may: "can_review_results actor (sc_project (ss_scope s))"
      using decided(2) by (auto simp: require_evaluable_run_def Let_def split: option.splits if_splits)
    show ?thesis
    proof (intro bexI [of _ s] conjI)
      show "s \<in> set (rd_snapshots db')" using row decided(12) by (simp add: new(3))
      show "clusters_cover db' s" using cover decided(15) by (simp add: same)
      show "list_all (\<lambda>(c, f). f \<noteq> None \<and> opt_all task_gate_classification_is_ready f) (current_pairs db' (ss_id s))"
        using ready decided(14) by (simp add: same)
      show "d \<in> set (rd_decisions db')" using decided(11) by (simp add: new(3))
    qed (use cert ok final decided(5,6) may in \<open>simp_all add: gate_certain_def Let_def\<close>)
  qed
qed

end
