(* ===== verification/Review_Correct.thy ===== *)
theory Review_Correct
  imports Triage_Correct
begin

text \<open>
  Reviews: what the service appends continues the chain it read, and where the request model and the
  trigger disagree on what a gap code is.
\<close>

lemma revised_fields [simp]:
  "cf_id (revised_classification_of C i a q l now) = i"
  "cf_classification_id (revised_classification_of C i a q l now) = cf_classification_id l"
  "cf_scope (revised_classification_of C i a q l now) = cf_scope l"
  "cf_snapshot (revised_classification_of C i a q l now) = cf_snapshot l"
  "cf_cluster_revision (revised_classification_of C i a q l now) = cf_cluster_revision l"
  "cf_revision (revised_classification_of C i a q l now) = cf_revision l + 1"
  "cf_judgment (revised_classification_of C i a q l now) = vq_judgment q"
  "cf_author_kind (revised_classification_of C i a q l now) = HUMAN_AUTHOR"
  "cf_authored_by (revised_classification_of C i a q l now) = Some a"
  "cf_model_version (revised_classification_of C i a q l now) = None"
  "cf_policy_digest (revised_classification_of C i a q l now) = CLASSIFICATION_POLICY_DIGEST"
  "cf_client_mutation_id (revised_classification_of C i a q l now) = vq_client_mutation_id q"
  "cf_supersedes (revised_classification_of C i a q l now) = Some (cf_id l)"
  "cf_hash (revised_classification_of C i a q l now)
     = failure_classification_revision_hash C (revised_classification_of C i a q l now)"
  by (simp_all add: revised_classification_of_def Let_def classification_content.defs failure_classification.defs
      failure_classification_revision_hash_def)

lemma latest_row: "latest_by f p rows = Some r \<Longrightarrow> r \<in> set rows \<and> p r"
  by (auto simp: latest_by_def rows_matching_def dest!: first_row_Some)

lemma review_body_Inr:
  assumes "review_body C actor a now i k q db = Inr ((f, status, replayed), db')"
  obtains (reviewed) latest c run db1 where "get_latest_failure_classification C db k = Inr (Some latest)"
    "get_failure_cluster_by_revision_id C db (cf_cluster_revision latest) = Inr (Some c)"
    "require_reviewable_run actor (get_run db (sc_run (cf_scope latest))) latest = Inr run"
    "vq_expected_revision q = cf_revision latest" "f = revised_classification_of C i a q latest now" "\<not> replayed"
    "insert_failure_classification C now f db = Inr db1" "record_classification actor c f now db1 = Inr db'"
  using assms by (auto simp: review_body_def attempt_Inr ensure_Inr Let_def split: option.splits if_splits)

lemma evidence_ignores_requests: "evidence_ref_bound (db\<lparr>rd_requests := rows\<rparr>) = evidence_ref_bound db"
  by (intro ext) (simp add: evidence_ref_bound_def Let_def split: option.split evidence_kind.split)

text \<open>
  C20: An accepted review extends the chain of judgments it names: it follows exactly the revision its
  author read, keeps the cluster, carries the judgment of the request, and every piece of its evidence
  is a fact behind the cluster with the digest the fact has.
\<close>

theorem accepted_review_extends_chain:
  assumes "revise_classification C R actor now i k q key db = Inr ((f, status, False), db')"
  shows "\<exists>latest \<in> set (rd_classifications db). cf_classification_id latest = k
    \<and> cf_revision latest = vq_expected_revision q \<and> cf_revision f = cf_revision latest + 1
    \<and> cf_supersedes f = Some (cf_id latest) \<and> cf_cluster_revision f = cf_cluster_revision latest
    \<and> cf_judgment f = vq_judgment q \<and> can_review_results actor (sc_project (cf_scope f))
    \<and> list_all (evidence_ref_bound db (cf_cluster_revision f))
        (ju_supporting (vq_judgment q) @ ju_contradicting (vq_judgment q))
    \<and> rd_classifications db' = rd_classifications db @ [f]"
proof -
  from assms obtain a where i: "idempotent (decode_classification C) ClassificationResponse (actor_tenant_id actor)
      (''failure-classifications.'' @ uuid_text k @ ''.revisions'') key (R (review_payload k q)) now
      (review_body C actor a now i k q) db = Inr ((f, status, False), db')"
    by (auto simp: revise_classification_def split: if_splits option.splits)
  from i show ?thesis
  proof (cases rule: idempotent_Inr)
    case (executed rows db1 rows1)
    from executed(2) show ?thesis
    proof (cases rule: review_body_Inr)
      case (reviewed latest c run db2)
      have l: "latest \<in> set (rd_classifications db)" "cf_classification_id latest = k"
        using reviewed(1)
        by (auto simp: get_latest_failure_classification_def model_row_Inr dest!: latest_row [OF sym])
      have c: "fc_id c = cf_cluster_revision latest"
        using reviewed(2) by (auto simp: get_failure_cluster_by_revision_id_def model_row_Inr dest!: first_row_Some [OF sym])
      have may: "can_review_results actor (sc_project (cf_scope latest))"
        using reviewed(3) by (auto simp: require_reviewable_run_def Let_def split: option.splits if_splits)
      note ins = insert_failure_classification_Inr [OF reviewed(7)]
      obtain e au where r: "db1 = append_outbox e (db2\<lparr>rd_audit := au\<rparr>)"
        using record_classification_Inr [OF reviewed(8)] by blast
      from ins have "list_all (evidence_ref_bound (db\<lparr>rd_requests := rows\<rparr>) (cf_cluster_revision f))
          (ju_supporting (vq_judgment q) @ ju_contradicting (vq_judgment q))"
        by (auto simp: guard_failure_classification_def Let_def reviewed(5) split: option.splits dest!: first_row_Some)
      then show ?thesis
        using l may ins reviewed(4,5) executed(4)
        by (intro bexI [of _ latest]) (simp_all add: evidence_ignores_requests r append_outbox_def)
    qed
  qed simp
qed

text \<open>A request the service admits up to the insertion.\<close>

definition review_admitted ::
    "triage_hashing \<Rightarrow> actor_context \<Rightarrow> result_db \<Rightarrow> uuid \<Rightarrow> review_request \<Rightarrow> failure_classification
      \<Rightarrow> failure_cluster \<Rightarrow> task_run \<Rightarrow> bool" where
  "review_admitted C actor db k q latest c run = (review_request_valid q
     \<and> get_latest_failure_classification C db k = Inr (Some latest)
     \<and> get_failure_cluster_by_revision_id C db (cf_cluster_revision latest) = Inr (Some c)
     \<and> require_reviewable_run actor (get_run db (sc_run (cf_scope latest))) latest = Inr run
     \<and> vq_expected_revision q = cf_revision latest \<and> \<not> changes_confirmed (vq_judgment q) (cf_judgment latest))"

lemma review_admitted_requests:
  "review_admitted C actor (db\<lparr>rd_requests := rows\<rparr>) k q latest c run = review_admitted C actor db k q latest c run"
  by (simp add: review_admitted_def get_latest_failure_classification_def get_failure_cluster_by_revision_id_def get_run_def)

lemma revised_valid:
  assumes "review_admitted C actor db k q latest c run" and "\<And>d. digest_pattern (C d)"
  shows "failure_classification_valid C (revised_classification_of C i a q latest now)"
  using assms
  by (auto simp: review_admitted_def review_request_valid_def failure_classification_valid_def
      classification_content_valid_def lineage_ok_def author_ok_def failure_classification_revision_hash_def opt_all_def)

text \<open>
  C23: A gap code in upper case that is not ASCII, such as one with an accented letter, passes the
  request model and the model of the revision but not the trigger: the review fails internally.
\<close>

theorem unstorable_gap_fails_internally:
  assumes adm: "review_admitted C actor db k q latest c run" and a: "actor_id actor = Some a"
    and dig: "\<And>d. digest_pattern (C d)"
    and res: "reserve (actor_tenant_id actor) (''failure-classifications.'' @ uuid_text k @ ''.revisions'')
      (vq_client_mutation_id q) (R (review_payload k q)) now REQUEST_TTL (rd_requests db) = Inr (Acquired, rows)"
    and gap: "\<not> list_all gap_code_stored (ju_gaps (vq_judgment q))"
  shows "revise_classification C R actor now i k q (vq_client_mutation_id q) db = Inl (DatabaseFailure TriggerViolation)"
proof -
  let ?db = "db\<lparr>rd_requests := rows\<rparr>" and ?f = "revised_classification_of C i a q latest now"
  have adm': "review_admitted C actor ?db k q latest c run" using adm by (simp only: review_admitted_requests)
  have "\<not> guard_failure_classification C now ?db ?f"
    using gap by (auto simp: guard_failure_classification_def Let_def split: option.splits)
  then have "insert_failure_classification C now ?f ?db = Inl (DatabaseFailure TriggerViolation)"
    by (simp add: insert_failure_classification_def ensure_def)
  then have "review_body C actor a now i k q ?db = Inl (DatabaseFailure TriggerViolation)"
    using adm' revised_valid [OF adm dig] by (simp add: review_body_def review_admitted_def ensure_def Let_def)
  with a res show ?thesis by (simp add: revise_classification_def idempotent_def)
qed

end
