(* ===== verification/Triage_Demo.thy ===== *)
theory Triage_Demo
  imports Reevaluation_Demo Gate_Correct Review_Correct
begin

text \<open>
  The unit that passed after an attempt was lost, classified from a quality snapshot, and the
  reviewer who judges the run; the clean run of the example accepted by the gate.
\<close>

definition demo_triage :: triage_hashing where
  "demo_triage d = demo_digest (case d of SignalBody _ \<Rightarrow> CHR ''a'' | ClusterBody _ \<Rightarrow> CHR ''b''
     | ClassificationBody f \<Rightarrow> (if cf_author_kind f = SYSTEM_RULE then CHR ''c'' else CHR ''f'')
     | ClassificationSet _ _ \<Rightarrow> CHR ''d'' | DecisionBody _ \<Rightarrow> CHR ''e'')"

definition demo_reviewer :: actor_context where
  "demo_reviewer = \<lparr>actor_tenant_id = 1, actor_id = Some 60, request_id = ''r'', session_id = None,
     current_project_id = None, grants = [\<lparr>grant_role = CASE_REVIEWER, grant_project = Some 2\<rparr>],
     development_override = False\<rparr>"

definition demo_unstable :: task_snapshot where
  "demo_unstable = task_snapshot_of demo_hash 100 demo_run 1 (demo_digest CHR ''a'') [demo_row] None
     (verdict_counts_of [demo_row]) None 20"

definition demo_failing :: result_db where
  "demo_failing = demo_store\<lparr>rd_runs := [demo_run], rd_resolutions := [demo_row], rd_snapshots := [demo_unstable]\<rparr>"

definition demo_cluster :: failure_cluster where
  "demo_cluster = cluster_of demo_triage 300 301 demo_unstable (failure_signal_for demo_row None) (demo_digest CHR ''a'')
     [(demo_row, None)] 30"

definition demo_judgment :: failure_judgment where
  "demo_judgment = rule_judgment demo_cluster (demo_row, None) (expected_rule ''INFRASTRUCTURE_FAILURE'')"

definition demo_classification :: failure_classification where
  "demo_classification = rule_classification_of demo_triage 303 302 demo_unstable demo_cluster demo_judgment 30"

lemma triage_digests_demo: "triage_digests demo_triage"
proof -
  have "digest_pattern (demo_digest c)" if "c \<in> {CHR ''a'', CHR ''b'', CHR ''c'', CHR ''d'', CHR ''e'', CHR ''f''}" for c
    using that by (elim insertE emptyE; hypsubst; code_simp)
  then show ?thesis by (auto simp: triage_digests_def demo_triage_def split: triage_document.split)
qed

lemma demo_row_fields:
  "ur_id demo_row = 100" "ur_unit demo_row = 4" "ur_scope demo_row = demo_scope"
  "ur_manifest_hash demo_row = demo_digest CHR ''a''" "ur_stability demo_row = INFRA_RECOVERED"
  "ur_created_at demo_row = 10" "ax_verdict (ur_axes demo_row) = VERDICT_PASSED"
  "ax_data_hygiene (ur_axes demo_row) = HYGIENE_NOT_APPLICABLE" "ax_integrity (ur_axes demo_row) = VERIFIED"
  "ax_completeness (ur_axes demo_row) = EVIDENCE_COMPLETE" "ax_influence (ur_axes demo_row) = AUTONOMOUS"
  "ax_outcome_class (ur_axes demo_row) = OUTCOME_BUSINESS" "ax_closure_reason (ur_axes demo_row) = ''COMPLETED''"
  by code_simp+

lemma demo_row_valid: "unit_resolution_valid demo_row"
  by code_simp

lemma demo_counts:
  "verdict_counts_of [demo_row] = \<lparr>vc_passed = 1, vc_failed = 0, vc_inconclusive = 0, vc_not_evaluated = 0\<rparr>"
  "axis_distributions_of [HYGIENE_NOT_APPLICABLE] [demo_row] =
     \<lparr>ad_data_hygiene = \<lparr>hc_pending = 0, hc_cleaned = 0, hc_cleanup_failed = 0, hc_leaked = 0, hc_not_applicable = 1\<rparr>,
      ad_completeness = \<lparr>cc_pending = 0, cc_complete = 1, cc_partial = 0, cc_missing = 0, cc_not_applicable = 0\<rparr>,
      ad_integrity = \<lparr>ic_unverified = 0, ic_verified = 1, ic_invalid = 0\<rparr>,
      ad_influence = \<lparr>fc_autonomous = 1, fc_manual_assisted = 0, fc_manual_only = 0\<rparr>,
      ad_stability = \<lparr>sc_unknown = 0, sc_stable = 0, sc_infra_recovered = 1, sc_flaky_suspect = 0,
        sc_flaky_confirmed = 0\<rparr>,
      ad_outcome_class = \<lparr>oc_business = 1, oc_dependency = 0, oc_platform = 0, oc_user = 0, oc_automation = 0,
        oc_policy = 0, oc_unknown = 0\<rparr>\<rparr>"
  by (simp_all add: verdict_counts_of_def axis_distributions_of_def tally_def demo_row_fields)

lemma demo_unstable_fields [simp]:
  "ss_id demo_unstable = 100" "ss_scope demo_unstable = demo_scope" "ss_finality demo_unstable = QUALITY_FINAL"
  "ss_resolution_ids demo_unstable = [100]" "ss_hygiene_ids demo_unstable = None" "ss_manifest_count demo_unstable = 1"
  "ss_manifest_hash demo_unstable = demo_digest CHR ''a''" "ss_watermark demo_unstable = 10"
  by (simp_all add: demo_unstable_def demo_row_fields snapshot_watermark_def) (simp add: demo_run_def)

lemma demo_unstable_valid: "task_snapshot_valid demo_hash demo_unstable"
proof -
  have d: "digest_pattern (demo_digest CHR ''a'')" by code_simp
  have h: "digest_pattern (task_result_snapshot_hash demo_hash s)" for s :: task_snapshot
    using digests_demo by (simp add: digests_def task_result_snapshot_hash_def)
  have "tr_manifest_hash demo_run = demo_digest CHR ''a''" by (simp add: demo_run_def)
  then show ?thesis
    using d h by (simp add: task_snapshot_valid_def snapshot_content_valid_def finality_shape_def policy_digest_of_def
        lineage_ok_def opt_all_def pass_rate_valid_def demo_unstable_def demo_counts demo_row_fields
        snapshot_hygienes_def verdict_total_def axis_totals_def snapshot_watermark_def
        trusted_passes_def autonomous_passes_def)
qed

lemma demo_failing_rows [simp]:
  "rd_snapshots demo_failing = [demo_unstable]" "rd_runs demo_failing = [demo_run]"
  "rd_resolutions demo_failing = [demo_row]" "rd_clusters demo_failing = []" "rd_classifications demo_failing = []"
  "rd_decisions demo_failing = []" "rd_callbacks demo_failing = []" "rd_requests demo_failing = []"
  by (simp_all add: demo_failing_def demo_store_def demo_db_def)

lemma demo_inputs: "load_snapshot_inputs demo_hash demo_failing demo_unstable = Inr [(demo_row, None)]"
  by (simp add: load_snapshot_inputs_def list_resolutions_by_ids_def rows_matching_def model_rows_def demo_row_fields
      demo_row_valid ensure_def hygiene_by_unit_def input_in_scope_def opt_all_def)

lemma demo_signal: "failure_signal_for demo_row None = \<lparr>fs_domain = DOMAIN_INFRASTRUCTURE,
    fs_signal_code = ''INFRASTRUCTURE_FAILURE'', fs_verdict = VERDICT_PASSED, fs_outcome_class = OUTCOME_BUSINESS,
    fs_closure_reason = ''COMPLETED'', fs_data_hygiene = HYGIENE_NOT_APPLICABLE, fs_completeness = EVIDENCE_COMPLETE,
    fs_integrity = VERIFIED, fs_stability = INFRA_RECOVERED\<rparr>"
  "expected_signal demo_row HYGIENE_NOT_APPLICABLE = failure_signal_for demo_row None"
  by (simp_all add: failure_signal_for_def expected_signal_def signal_cause_def expected_cause_def effective_hygiene_def
      demo_row_fields)

lemma demo_grouped: "group_failures demo_triage [(demo_row, None)] []
    = Inr [(demo_digest CHR ''a'', failure_signal_for demo_row None, [(demo_row, None)])]"
proof -
  have "failure_signal_valid (failure_signal_for demo_row None)" unfolding demo_signal by code_simp
  moreover have "is_diagnostic_failure demo_row None" by (simp add: is_diagnostic_failure_def demo_row_fields)
  ultimately show ?thesis by (simp add: ensure_def failure_cluster_fingerprint_def demo_triage_def)
qed

lemma demo_cluster_fields [simp]:
  "fc_policy_digest demo_cluster = CLUSTER_POLICY_DIGEST" "fc_supersedes demo_cluster = None"
  "fc_watermark demo_cluster = 10" "fc_created_at demo_cluster = 30"
  "fc_hash demo_cluster = failure_cluster_revision_hash demo_triage demo_cluster"
  "fc_affected demo_cluster = [100]" "fc_representative demo_cluster = 100" "fc_affected_count demo_cluster = 1"
  "fc_revision demo_cluster = 1" "fc_signal demo_cluster = failure_signal_for demo_row None"
  "fc_fingerprint demo_cluster = demo_digest CHR ''a''" "fc_id demo_cluster = 300" "fc_cluster_id demo_cluster = 301"
  "fc_scope demo_cluster = demo_scope" "fc_snapshot demo_cluster = 100"
  by (simp_all add: demo_cluster_def demo_row_fields)
    (simp_all add: cluster_of_def Let_def cluster_content.defs failure_cluster.defs failure_cluster_revision_hash_def)

lemma demo_cluster_valid: "failure_cluster_valid demo_triage demo_cluster" "cluster_check demo_cluster"
proof -
  have h: "digest_pattern (demo_triage x)" for x using triage_digests_demo by (simp add: triage_digests_def)
  have f: "demo_triage (SignalBody s) = demo_digest CHR ''a''" for s by (simp add: demo_triage_def)
  have dd: "digest_pattern (demo_digest CHR ''a'')" by code_simp
  have p: "digest_pattern CLUSTER_POLICY_DIGEST" by code_simp
  have s: "failure_signal_valid (failure_signal_for demo_row None)" unfolding demo_signal by code_simp
  show "failure_cluster_valid demo_triage demo_cluster"
    using s h dd by (simp add: failure_cluster_valid_def cluster_content_valid_def lineage_ok_def
        failure_cluster_fingerprint_def failure_cluster_revision_hash_def f)
  show "cluster_check demo_cluster"
    using h p dd by (simp add: cluster_check_def failure_cluster_revision_hash_def f)
qed

lemma demo_cluster_inserted:
  "insert_failure_cluster demo_triage 30 demo_cluster demo_failing = Inr (demo_failing\<lparr>rd_clusters := [demo_cluster]\<rparr>)"
proof -
  have src: "cluster_source demo_failing demo_unstable 100 = Some (demo_row, HYGIENE_NOT_APPLICABLE)"
    by (simp add: cluster_source_def first_row_def demo_row_fields)
  have diag: "source_is_diagnostic demo_row HYGIENE_NOT_APPLICABLE"
    by (simp add: source_is_diagnostic_def demo_row_fields)
  have "guard_failure_cluster demo_triage 30 demo_failing demo_cluster"
    by (simp add: guard_failure_cluster_def src diag demo_signal(2) demo_row_fields cluster_chain_ok_def)
      (simp add: first_row_def demo_triage_def src diag demo_signal(2) demo_row_fields)
  moreover have "cluster_references demo_failing demo_cluster"
    by (simp add: cluster_references_def demo_row_fields opt_all_def)
  ultimately show ?thesis
    using demo_cluster_valid(2) by (simp add: insert_failure_cluster_def ensure_def sql_insert_def)
qed

lemma demo_judgment_fields [simp]:
  "ju_domain demo_judgment = DOMAIN_INFRASTRUCTURE" "ju_hypothesis_code demo_judgment = ''INFRASTRUCTURE_FAILURE''"
  "ju_hypothesis demo_judgment = ''The trusted result indicates an infrastructure failure or recovery.''"
  "ju_confidence demo_judgment = 9000" "ju_gaps demo_judgment = [''INFRASTRUCTURE_COMPONENT_MISSING'']"
  "ju_state demo_judgment = RULE_PROPOSED" "ju_contradicting demo_judgment = []"
  "ju_supporting demo_judgment = [\<lparr>er_kind = UNIT_RESOLUTION, er_ref_id = 100,
     er_content_digest = ur_input_set_hash demo_row\<rparr>]"
  by (simp_all add: demo_judgment_def rule_judgment_def expected_rule_def rule_evidence_def demo_signal demo_row_fields)

lemma demo_classification_fields [simp]:
  "cf_id demo_classification = 303" "cf_classification_id demo_classification = 302"
  "cf_scope demo_classification = demo_scope" "cf_snapshot demo_classification = 100"
  "cf_cluster_revision demo_classification = 300" "cf_revision demo_classification = 1"
  "cf_judgment demo_classification = demo_judgment" "cf_author_kind demo_classification = SYSTEM_RULE"
  "cf_authored_by demo_classification = None" "cf_model_version demo_classification = None"
  "cf_policy_digest demo_classification = CLASSIFICATION_POLICY_DIGEST"
  "cf_client_mutation_id demo_classification = ''rule:'' @ uuid_text 300" "cf_supersedes demo_classification = None"
  "cf_created_at demo_classification = 30"
  "cf_hash demo_classification = failure_classification_revision_hash demo_triage demo_classification"
  by (simp_all add: demo_classification_def)
    (simp_all add: rule_classification_of_def Let_def classification_content.defs failure_classification.defs
      failure_classification_revision_hash_def)

lemma demo_words:
  "safe_reason ''INFRASTRUCTURE_FAILURE''" "gap_codes_ok [''INFRASTRUCTURE_COMPONENT_MISSING'']"
  "safe_hypothesis ''The trusted result indicates an infrastructure failure or recovery.''"
  "mutation_pattern (''rule:'' @ uuid_text 300)" "gap_code_stored ''INFRASTRUCTURE_COMPONENT_MISSING''"
  "digest_pattern CLASSIFICATION_POLICY_DIGEST" "digest_pattern (ur_input_set_hash demo_row)"
  by code_simp+

lemma demo_classification_valid:
  "failure_classification_valid demo_triage demo_classification" "classification_check demo_classification"
proof -
  have h: "digest_pattern (demo_triage x)" for x using triage_digests_demo by (simp add: triage_digests_def)
  have j: "judgment_valid demo_judgment"
    using demo_words by (simp add: judgment_valid_def canonical_evidence_def)
  show "failure_classification_valid demo_triage demo_classification"
    using h j demo_words by (simp add: failure_classification_valid_def classification_content_valid_def author_ok_def
        lineage_ok_def opt_all_def failure_classification_revision_hash_def)
  show "classification_check demo_classification"
    using h demo_words by (simp add: classification_check_def opt_all_def failure_classification_revision_hash_def)
qed

lemma demo_evidence: "evidence_ref_bound (demo_failing\<lparr>rd_clusters := [demo_cluster]\<rparr>) 300
    \<lparr>er_kind = UNIT_RESOLUTION, er_ref_id = 100, er_content_digest = ur_input_set_hash demo_row\<rparr>"
  using demo_words by (simp add: evidence_ref_bound_def first_row_def demo_row_fields)

lemma demo_classification_inserted:
  "insert_failure_classification demo_triage 30 demo_classification (demo_failing\<lparr>rd_clusters := [demo_cluster]\<rparr>)
    = Inr (demo_failing\<lparr>rd_clusters := [demo_cluster], rd_classifications := [demo_classification]\<rparr>)"
proof -
  have "first_judgment_ok demo_cluster demo_classification"
    by (simp add: first_judgment_ok_def demo_signal expected_rule_def)
  then have "guard_failure_classification demo_triage 30 (demo_failing\<lparr>rd_clusters := [demo_cluster]\<rparr>) demo_classification"
    using demo_words demo_evidence by (simp add: guard_failure_classification_def first_row_def evidence_canonical_def)
  then show ?thesis
    using demo_classification_valid(2)
    by (simp add: insert_failure_classification_def ensure_def sql_insert_def classification_references_def opt_all_def)
qed

definition demo_cids :: "nat \<Rightarrow> nat \<Rightarrow> uuid" where
  "demo_cids n k = 300 + k"

lemma demo_run_operable: "require_operable_run demo_reviewer (get_run demo_failing 3) demo_unstable = Inr demo_run"
  by (simp add: require_operable_run_def get_run_def first_row_def)
    (simp add: demo_run_def demo_scope_def demo_reviewer_def can_read_project_def can_review_results_def
      holds_role_def is_organization_admin_def)

lemma demo_classified:
  "\<exists>db'. classify_snapshot demo_hash demo_triage demo_reviewer demo_cids 30 100 demo_failing
    = Inr ([(demo_cluster, demo_classification)], db')"
proof -
  let ?db = "demo_failing\<lparr>rd_clusters := [demo_cluster], rd_classifications := [demo_classification]\<rparr>"
  have g: "get_snapshot_by_id demo_hash demo_failing 100 = Inr (Some demo_unstable)"
    by (simp add: get_snapshot_by_id_def first_row_def demo_unstable_valid)
  have c: "get_or_create_cluster demo_triage 300 301 30 demo_unstable
      (demo_digest CHR ''a'', failure_signal_for demo_row None, [(demo_row, None)]) demo_failing
      = Inr (demo_cluster, demo_failing\<lparr>rd_clusters := [demo_cluster]\<rparr>)"
    using demo_cluster_valid(1) demo_cluster_inserted
    by (simp add: get_or_create_cluster_def get_failure_cluster_def latest_by_def rows_matching_def first_row_def
        ensure_def flip: demo_cluster_def)
  have rule: "rule_hypothesis ''INFRASTRUCTURE_FAILURE'' = Some (expected_rule ''INFRASTRUCTURE_FAILURE'')"
    by (simp add: expected_rule_def)
  obtain e a where r: "record_classification demo_reviewer demo_cluster demo_classification 30 ?db
      = Inr (append_outbox e (?db\<lparr>rd_audit := a\<rparr>))"
    by (simp add: record_classification_def append_audit_def ensure_def audit_check_def not_blank_def demo_reviewer_def)
  have j: "get_or_create_rule_classification demo_triage demo_reviewer 303 302 30 demo_unstable demo_cluster
      [(demo_row, None)] (demo_failing\<lparr>rd_clusters := [demo_cluster]\<rparr>)
      = Inr (demo_classification, append_outbox e (?db\<lparr>rd_audit := a\<rparr>))"
    using demo_classification_valid(1) demo_classification_inserted r
    by (simp add: get_or_create_rule_classification_def get_latest_failure_classification_for_cluster_def latest_by_def
        rows_matching_def first_row_def demo_signal demo_row_fields ensure_def rule demo_judgment_def [symmetric]
        demo_classification_def [symmetric] del: rule_hypothesis.simps)
  show ?thesis
    using c j by (simp add: classify_snapshot_def g demo_run_operable demo_inputs demo_grouped demo_cids_def del: group_failures.simps)
qed

lemma demo_first: "first_row (\<lambda>s. ss_id s = 100) (rd_snapshots demo_failing) = Some demo_unstable"
  by (simp add: first_row_def)

lemma demo_unclassified: "unclassified demo_failing demo_unstable"
  by (simp add: unclassified_def judgments_keyed_def rows_matching_def)

lemma demo_placed: "snapshot_placed demo_failing demo_unstable"
  by (simp add: snapshot_placed_def cluster_source_def first_row_def rows_by_ids_def rows_matching_def demo_row_fields)

subsection \<open>Witnesses of the classification\<close>

lemma classified_snapshot_is_covered_witness:
  "\<exists>db' complete. clusters_cover db' demo_unstable \<and> mset complete = {#(demo_cluster, demo_classification)#}
    \<and> require_complete_pairs (map (\<lambda>(c, f). (c, Some f)) complete) = Inr complete"
proof -
  obtain db' where "classify_snapshot demo_hash demo_triage demo_reviewer demo_cids 30 100 demo_failing
      = Inr ([(demo_cluster, demo_classification)], db')" using demo_classified by blast
  from classified_snapshot_is_covered [OF this demo_first demo_unclassified demo_placed] show ?thesis
    by auto
qed

lemma classified_groups_are_bounded_witness:
  "length (filter (\<lambda>x. fingerprint_of demo_triage x = demo_digest CHR ''a'') (failing [(demo_row, None)])) \<le> 10000"
proof -
  obtain db' where "classify_snapshot demo_hash demo_triage demo_reviewer demo_cids 30 100 demo_failing
      = Inr ([(demo_cluster, demo_classification)], db')" using demo_classified by blast
  from classified_groups_are_bounded [OF this demo_first demo_unclassified demo_inputs] show ?thesis .
qed

subsection \<open>A review\<close>

text \<open>A reviewer rejects nothing but names an open question with an accented letter.\<close>

definition demo_judged :: result_db where
  "demo_judged = demo_failing\<lparr>rd_clusters := [demo_cluster], rd_classifications := [demo_classification]\<rparr>"

definition demo_review :: "string list \<Rightarrow> review_request" where
  "demo_review gaps = \<lparr>vq_expected_revision = 1,
     vq_judgment = demo_judgment\<lparr>ju_state := HUMAN_CONFIRMED, ju_gaps := gaps\<rparr>,
     vq_client_mutation_id = ''review-once''\<rparr>"

definition accented_gap :: string where
  "accented_gap = [CHR ''R'', char_of (201 :: nat), CHR ''A'', CHR ''P'']"

lemma demo_review_gaps: "gap_codes_ok [accented_gap]" "\<not> gap_code_stored accented_gap"
  "gap_codes_ok [''HOST_LOST'']" "gap_code_stored ''HOST_LOST''" "mutation_pattern ''review-once''"
  by code_simp+

lemma demo_review_admitted:
  assumes "gap_codes_ok gaps"
  shows "review_admitted demo_triage demo_reviewer demo_judged 302 (demo_review gaps) demo_classification demo_cluster
    demo_run"
proof -
  have "require_reviewable_run demo_reviewer (get_run demo_judged 3) demo_classification = Inr demo_run"
    by (simp add: require_reviewable_run_def get_run_def first_row_def demo_judged_def)
      (simp add: demo_run_def demo_scope_def demo_reviewer_def can_read_project_def can_review_results_def
        holds_role_def is_organization_admin_def)
  moreover have "get_latest_failure_classification demo_triage demo_judged 302 = Inr (Some demo_classification)"
    "get_failure_cluster_by_revision_id demo_triage demo_judged 300 = Inr (Some demo_cluster)"
    using demo_classification_valid(1) demo_cluster_valid(1)
    by (simp_all add: get_latest_failure_classification_def get_failure_cluster_by_revision_id_def latest_by_def
        rows_matching_def first_row_def demo_judged_def)
  moreover have "review_request_valid (demo_review gaps)"
    using assms demo_words demo_review_gaps(5)
    by (simp add: review_request_valid_def demo_review_def judgment_valid_def canonical_evidence_def)
  ultimately show ?thesis
    by (simp add: review_admitted_def demo_review_def changes_confirmed_def)
qed

lemma demo_review_reserved:
  "\<exists>rows. reserve 1 (''failure-classifications.'' @ uuid_text 302 @ ''.revisions'') ''review-once'' (demo_request_hash j) 40
    REQUEST_TTL (rd_requests demo_judged) = Inr (Acquired, rows)"
proof -
  have "request_check (new_request 1 (''failure-classifications.'' @ uuid_text 302 @ ''.revisions'') ''review-once''
      (demo_request_hash j) 40 REQUEST_TTL :: command_response idempotency_record)"
    by (simp add: request_check_def new_request_def not_blank_def request_hash_pattern_def REQUEST_TTL_def seconds_def
        list_all_iff is_hex_def is_digit_def)
  then show ?thesis by (simp add: reserve_def demo_judged_def sql_insert_or_skip_def)
qed

lemma unstorable_gap_fails_internally_witness:
  "review_request_valid (demo_review [accented_gap])
    \<and> revise_classification demo_triage demo_request_hash demo_reviewer 40 400 302 (demo_review [accented_gap])
        ''review-once'' demo_judged = Inl (DatabaseFailure TriggerViolation)"
proof -
  have m: "vq_client_mutation_id (demo_review gaps) = ''review-once''" for gaps by (simp add: demo_review_def)
  have t: "actor_tenant_id demo_reviewer = 1" "actor_id demo_reviewer = Some 60" by (simp_all add: demo_reviewer_def)
  obtain rows where r: "reserve 1 (''failure-classifications.'' @ uuid_text 302 @ ''.revisions'') ''review-once''
      (demo_request_hash (review_payload 302 (demo_review [accented_gap]))) 40 REQUEST_TTL (rd_requests demo_judged)
      = Inr (Acquired, rows)" using demo_review_reserved by blast
  note adm = demo_review_admitted [OF demo_review_gaps(1)]
  have "revise_classification demo_triage demo_request_hash demo_reviewer 40 400 302 (demo_review [accented_gap])
      (vq_client_mutation_id (demo_review [accented_gap])) demo_judged = Inl (DatabaseFailure TriggerViolation)"
    using triage_digests_demo r demo_review_gaps(2)
    by (intro unstorable_gap_fails_internally [OF adm t(2)])
      (simp_all add: triage_digests_def m t, simp add: demo_review_def)
  then show ?thesis using adm by (simp add: m review_admitted_def)
qed

lemma accepted_review_extends_chain_witness:
  "\<exists>f db'. revise_classification demo_triage demo_request_hash demo_reviewer 40 400 302 (demo_review [''HOST_LOST''])
      ''review-once'' demo_judged = Inr ((f, 201, False), db')
    \<and> rd_classifications db' = [demo_classification, f] \<and> cf_revision f = 2 \<and> cf_supersedes f = Some 303
    \<and> cf_judgment f = vq_judgment (demo_review [''HOST_LOST''])"
proof -
  let ?q = "demo_review [''HOST_LOST'']"
  let ?f = "revised_classification_of demo_triage 400 60 ?q demo_classification 40"
  have m: "vq_client_mutation_id ?q = ''review-once''" "vq_expected_revision ?q = 1" by (simp_all add: demo_review_def)
  have t: "actor_tenant_id demo_reviewer = 1" "actor_id demo_reviewer = Some 60" by (simp_all add: demo_reviewer_def)
  have h: "digest_pattern (demo_triage x)" for x using triage_digests_demo by (simp add: triage_digests_def)
  obtain rows where r: "reserve 1 (''failure-classifications.'' @ uuid_text 302 @ ''.revisions'') ''review-once''
      (demo_request_hash (review_payload 302 ?q)) 40 REQUEST_TTL (rd_requests demo_judged) = Inr (Acquired, rows)"
    using demo_review_reserved by blast
  let ?db = "demo_judged\<lparr>rd_requests := rows\<rparr>"
  have adm: "review_admitted demo_triage demo_reviewer ?db 302 ?q demo_classification demo_cluster demo_run"
    unfolding review_admitted_requests by (rule demo_review_admitted [OF demo_review_gaps(3)])
  have tables: "rd_classifications ?db = [demo_classification]" "rd_clusters ?db = [demo_cluster]"
    "rd_runs ?db = [demo_run]" "rd_snapshots ?db = [demo_unstable]" by (simp_all add: demo_judged_def)
  have j: "vq_judgment ?q = demo_judgment\<lparr>ju_state := HUMAN_CONFIRMED, ju_gaps := [''HOST_LOST'']\<rparr>"
    by (simp add: demo_review_def)
  have "evidence_ref_bound ?db 300 \<lparr>er_kind = UNIT_RESOLUTION, er_ref_id = 100, er_content_digest = ur_input_set_hash demo_row\<rparr>"
    using demo_words by (simp add: evidence_ref_bound_def first_row_def demo_row_fields demo_judged_def)
  moreover have "human_judgment_ok (rd_classifications ?db) ?f"
    by (simp add: human_judgment_ok_def tables latest_by_def rows_matching_def first_row_def opt_all_def j)
  moreover have "cf_created_at ?f = 40"
    by (simp add: revised_classification_of_def Let_def classification_content.defs failure_classification.defs)
  ultimately have g: "guard_failure_classification demo_triage 40 ?db ?f"
    using demo_review_gaps(4)
    by (simp add: guard_failure_classification_def tables first_row_def evidence_canonical_def j)
  have "classification_check ?f"
    using h demo_words demo_review_gaps(5)
    by (simp add: classification_check_def opt_all_def failure_classification_revision_hash_def m j)
  moreover have trunc: "cf_author_kind (classification_content.truncate x) = cf_author_kind x"
      for x :: failure_classification by (simp add: classification_content.defs)
  moreover have "\<not> classification_conflicts demo_classification ?f"
    by (simp add: classification_conflicts_def m uuid_text_def)
      (simp add: failure_classification_revision_hash_def demo_triage_def demo_digest_def trunc)
  ultimately have i: "insert_failure_classification demo_triage 40 ?f ?db
      = Inr (?db\<lparr>rd_classifications := [demo_classification, ?f]\<rparr>)"
    using g by (simp add: insert_failure_classification_def ensure_def sql_insert_def tables classification_references_def
        opt_all_def)
  let ?db1 = "?db\<lparr>rd_classifications := [demo_classification, ?f]\<rparr>"
  obtain e a where rec: "record_classification demo_reviewer demo_cluster ?f 40 ?db1 = Inr (append_outbox e (?db1\<lparr>rd_audit := a\<rparr>))"
    by (simp add: record_classification_def append_audit_def ensure_def audit_check_def not_blank_def demo_reviewer_def)
  have "review_body demo_triage demo_reviewer 60 40 400 302 ?q ?db
      = Inr ((?f, 201, False), append_outbox e (?db1\<lparr>rd_audit := a\<rparr>))"
    using adm revised_valid [OF adm h] i rec by (simp add: review_body_def review_admitted_def ensure_def Let_def)
  moreover obtain rows2 where "complete_reservation 1 (''failure-classifications.'' @ uuid_text 302 @ ''.revisions'')
      ''review-once'' (demo_request_hash (review_payload 302 ?q)) 201 (ClassificationResponse ?f) rows = Inr rows2"
    using complete_acquired [OF r, of 201] by auto
  ultimately have "\<exists>db'. revise_classification demo_triage demo_request_hash demo_reviewer 40 400 302 ?q ''review-once''
      demo_judged = Inr ((?f, 201, False), db')"
    using r by (simp add: revise_classification_def idempotent_def t m append_outbox_def)
  then obtain db' where e: "revise_classification demo_triage demo_request_hash demo_reviewer 40 400 302 ?q ''review-once''
      demo_judged = Inr ((?f, 201, False), db')" by blast
  from accepted_review_extends_chain [OF e] have "rd_classifications db' = [demo_classification, ?f]"
    by (auto simp: demo_judged_def)
  with e show ?thesis by (intro exI [of _ ?f] exI [of _ db']) simp
qed

subsection \<open>The gate\<close>

definition demo_gate_request :: "uuid \<Rightarrow> gate_request" where
  "demo_gate_request i = \<lparr>gq_snapshot = i, gq_client_mutation_id = ''gate-once''\<rparr>"

lemma demo_gate_fields [simp]:
  "gq_snapshot (demo_gate_request i) = i" "gq_client_mutation_id (demo_gate_request i) = ''gate-once''"
  "actor_tenant_id demo_reviewer = 1" "actor_id demo_reviewer = Some 60"
  by (simp_all add: demo_gate_request_def demo_reviewer_def)

lemma demo_gate_mutation: "mutation_pattern ''gate-once''" by code_simp

lemma demo_gate_reserved:
  "rd_requests db = [] \<Longrightarrow> reserve 1 ''task-gates.evaluations'' ''gate-once'' (demo_request_hash j) 40 REQUEST_TTL (rd_requests db)
    = Inr (Acquired, [new_request 1 ''task-gates.evaluations'' ''gate-once'' (demo_request_hash j) 40 REQUEST_TTL])"
proof -
  assume "rd_requests db = []"
  moreover have "request_check (new_request 1 ''task-gates.evaluations'' ''gate-once'' (demo_request_hash j) 40 REQUEST_TTL
      :: command_response idempotency_record)"
    by (simp add: request_check_def new_request_def not_blank_def request_hash_pattern_def REQUEST_TTL_def seconds_def
        list_all_iff is_hex_def is_digit_def)
  ultimately show ?thesis by (simp add: reserve_def sql_insert_or_skip_def)
qed

lemma demo_gate_evaluable:
  assumes "rd_snapshots db = xs" "first_row (\<lambda>x. ss_id x = ss_id s) xs = Some s" "task_snapshot_valid demo_hash s"
    "rd_runs db = [demo_run]" "rd_decisions db = []" "ss_scope s = demo_scope" "ss_manifest_hash s = demo_digest CHR ''a''"
  shows "gate_evaluable demo_hash demo_triage demo_reviewer db demo_run s"
  using assms triage_digests_demo
  by (simp add: gate_evaluable_def get_run_def first_row_def latest_by_def rows_matching_def opt_all_def)
    (simp add: demo_run_def demo_reviewer_def demo_scope_def can_review_results_def holds_role_def not_blank_def)


lemma demo_clean_fields:
  "ur_id demo_clean_row = 100" "ur_manifest_hash demo_clean_row = demo_digest CHR ''a''" "ur_stability demo_clean_row = STABLE"
  "ax_verdict (ur_axes demo_clean_row) = VERDICT_PASSED" "ax_integrity (ur_axes demo_clean_row) = VERIFIED"
  "ax_completeness (ur_axes demo_clean_row) = EVIDENCE_COMPLETE" "ax_influence (ur_axes demo_clean_row) = AUTONOMOUS"
  "hr_id demo_quiet = 100" "hr_manifest_hash demo_quiet = demo_digest CHR ''a''"
  by code_simp+

lemma demo_clean_loaded:
  "load_snapshot_inputs demo_hash demo_resolved demo_full = Inr [(demo_clean_row, Some demo_quiet)]"
  "rd_resolutions demo_resolved = [demo_clean_row]" "rd_hygiene demo_resolved = [demo_quiet]"
  "rd_clusters demo_resolved = []" "rd_classifications demo_resolved = []" "rd_decisions demo_resolved = []"
  "rd_callbacks demo_resolved = []" "ss_resolution_ids demo_full = [100]" "ss_hygiene_ids demo_full = Some [100]"
proof -
  show r: "rd_resolutions demo_resolved = [demo_clean_row]" "rd_hygiene demo_resolved = [demo_quiet]"
    "rd_clusters demo_resolved = []" "rd_classifications demo_resolved = []" "rd_decisions demo_resolved = []"
    "rd_callbacks demo_resolved = []"
    by (simp_all add: demo_resolved_def demo_recorded_def append_outbox_def demo_final_def demo_clean_def demo_db_def)
  show i: "ss_resolution_ids demo_full = [100]" "ss_hygiene_ids demo_full = Some [100]"
    by (simp_all add: demo_full_def resolved_snapshot_of_def demo_clean_fields)
  have "ss_manifest_hash demo_full = demo_digest CHR ''a''" by (simp add: demo_full_fields demo_run_def)
  then show "load_snapshot_inputs demo_hash demo_resolved demo_full = Inr [(demo_clean_row, Some demo_quiet)]"
    by (simp add: load_snapshot_inputs_def list_resolutions_by_ids_def list_hygiene_resolutions_by_ids_def i r
        rows_matching_def model_rows_def demo_clean_fields demo_valid_rows ensure_def hygiene_by_unit_def
        input_in_scope_def opt_all_def demo_final_keys demo_full_fields)
qed

lemma demo_accepted:
  "\<exists>d db'. evaluate_gate demo_hash demo_triage demo_triage demo_request_hash demo_reviewer 30 demo_cids 40 (\<lambda>n. 500 + n)
      (demo_gate_request 101) ''gate-once'' demo_resolved = (Inr (d, 201, False), db') \<and> gd_decision d = ACCEPTED"
proof -
  have full: "first_row (\<lambda>s. ss_id s = 101) (rd_snapshots demo_resolved) = Some demo_full"
    by (simp add: demo_resolved_rows first_row_def demo_quality_fields demo_full_fields)
  have run: "require_operable_run demo_reviewer (get_run demo_resolved 3) demo_full = Inr demo_run"
    by (simp add: require_operable_run_def get_run_def first_row_def demo_resolved_rows demo_full_fields)
      (simp add: demo_run_def demo_scope_def demo_reviewer_def can_read_project_def can_review_results_def
        holds_role_def is_organization_admin_def)
  have c: "classify_snapshot demo_hash demo_triage demo_reviewer demo_cids 30 (ss_id demo_full) demo_resolved
      = Inr ([], demo_resolved)"
    using run full demo_full_inserted(2)
    by (simp add: classify_snapshot_def get_snapshot_by_id_def demo_full_fields demo_clean_loaded
        is_diagnostic_failure_def effective_hygiene_def demo_clean_fields demo_quiet_fields)
  have e: "gate_evaluable demo_hash demo_triage demo_reviewer demo_resolved demo_run demo_full"
    using full demo_full_inserted(2) demo_full_fields
    by (intro demo_gate_evaluable [of _ "[demo_quality, demo_full]"])
      (simp_all add: demo_resolved_rows demo_clean_loaded demo_run_def)
  have u: "unclassified demo_resolved demo_full"
    by (simp add: unclassified_def judgments_keyed_def rows_matching_def demo_clean_loaded)
  have p: "snapshot_placed demo_resolved demo_full"
    by (simp add: snapshot_placed_def cluster_source_def first_row_def rows_by_ids_def rows_matching_def demo_clean_loaded
        demo_clean_fields demo_final_keys demo_full_fields array_position_def)
      (simp add: demo_run_def)
  have cert: "gate_certain demo_full 0" "vc_failed (ss_verdicts demo_full) = 0"
    "hc_leaked (ad_data_hygiene (ss_distributions demo_full)) = 0"
    by (simp_all add: gate_certain_def demo_full_def resolved_snapshot_of_def verdict_counts_of_def
        axis_distributions_of_def tally_def demo_clean_fields snapshot_hygienes_def demo_quiet_fields)
  from gate_decides_aux [OF e _ _ _ u p c, of 60 "demo_gate_request 101" demo_request_hash 40
      "[new_request 1 ''task-gates.evaluations'' ''gate-once'' (demo_request_hash (gate_payload (demo_gate_request 101)))
        40 REQUEST_TTL]" "\<lambda>n. 500 + n"]
  show ?thesis
    using demo_gate_reserved [of demo_resolved] cert
    by (auto simp: demo_gate_mutation gate_new_def not_ready_count_def demo_clean_loaded demo_full_fields demo_resolved_rows)
qed

lemma accepted_gate_is_clean_witness:
  "\<exists>d db'. evaluate_gate demo_hash demo_triage demo_triage demo_request_hash demo_reviewer 30 demo_cids 40 (\<lambda>n. 500 + n)
      (demo_gate_request 101) ''gate-once'' demo_resolved = (Inr (d, 201, False), db') \<and> gd_decision d = ACCEPTED
    \<and> (\<exists>s \<in> set (rd_snapshots db'). ss_id s = gd_snapshot d
      \<and> vc_passed (ss_verdicts s) = ss_manifest_count s \<and> clusters_cover db' s)"
proof -
  obtain d db' where e: "evaluate_gate demo_hash demo_triage demo_triage demo_request_hash demo_reviewer 30 demo_cids 40
      (\<lambda>n. 500 + n) (demo_gate_request 101) ''gate-once'' demo_resolved = (Inr (d, 201, False), db')"
    "gd_decision d = ACCEPTED" using demo_accepted by blast
  from accepted_gate_is_clean [OF e] have "\<exists>s \<in> set (rd_snapshots db'). ss_id s = gd_snapshot d
      \<and> vc_passed (ss_verdicts s) = ss_manifest_count s \<and> clusters_cover db' s"
    unfolding Let_def by blast
  with e show ?thesis by blast
qed

end
