(* ===== verification/Gate_Callbacks.thy ===== *)
theory Gate_Callbacks
  imports Task_Gate
begin

text \<open>
  The delivery of gate callbacks: the functions of migration 0044, through which the dispatcher
  claims callbacks and settles them (\<^verbatim>\<open>infrastructure/result_callback_intents.py\<close>), the retry
  policy (\<^verbatim>\<open>application/task_intents.py\<close>) and the consumer
  (\<^verbatim>\<open>application/result_callback_delivery.py\<close>).  The dispatcher sees this table alone, which is
  the state here.  A function that raises is a trigger violation, a \<open>ValueError\<close> a runtime failure;
  durations are microseconds and the arithmetic on them is exact; the multiplier of the policy is 2,
  as the worker leaves it.
\<close>

subsection \<open>The table\<close>

definition guard_callback_transition :: "callback_intent \<Rightarrow> callback_intent \<Rightarrow> bool" where
  "guard_callback_transition old new = (ci_event new = ci_event old \<and> ci_decision_id new = ci_decision_id old
     \<and> ci_gate new = ci_gate old \<and> ci_scope new = ci_scope old \<and> ci_manifest_hash new = ci_manifest_hash old
     \<and> ci_decision new = ci_decision old \<and> ci_created_at new = ci_created_at old
     \<and> ((ci_status new = CALLBACK_CLAIMED
          \<and> ci_status old \<in> {CALLBACK_PENDING, CALLBACK_RETRY_WAIT, CALLBACK_CLAIMED}
          \<and> ci_attempts new = ci_attempts old + 1 \<and> ci_revision new = ci_revision old + 1)
        \<or> (ci_status old = CALLBACK_CLAIMED
          \<and> ci_status new \<in> {CALLBACK_RETRY_WAIT, CALLBACK_DELIVERED, CALLBACK_FAILED}
          \<and> ci_attempts new = ci_attempts old \<and> ci_revision new = ci_revision old + 1)))"

text \<open>What a claim returns, and the columns it is ordered by.\<close>

record claimed_intent =
  ct_event :: uuid
  ct_scope :: task_scope
  ct_manifest_hash :: string
  ct_decision :: gate_verdict
  ct_token :: uuid
  ct_revision :: int
  ct_attempts :: int
  ct_expires_at :: instant
  ct_created_at :: instant

definition claim_order :: "callback_intent \<Rightarrow> instant \<times> instant \<times> uuid" where
  "claim_order c = (ci_available_at c, ci_created_at c, ci_event c)"

definition callback_due :: "instant \<Rightarrow> callback_intent \<Rightarrow> bool" where
  "callback_due now c = ((ci_status c \<in> {CALLBACK_PENDING, CALLBACK_RETRY_WAIT} \<and> ci_available_at c \<le> now)
     \<or> (ci_status c = CALLBACK_CLAIMED \<and> (case ci_claim_expires_at c of None \<Rightarrow> False | Some t \<Rightarrow> t \<le> now)))"

definition claimed_row :: "(uuid \<Rightarrow> uuid) \<Rightarrow> instant \<Rightarrow> string \<Rightarrow> int \<Rightarrow> callback_intent \<Rightarrow> callback_intent" where
  "claimed_row tokens now who lease c = c\<lparr>ci_status := CALLBACK_CLAIMED,
     ci_available_at := max (ci_available_at c) now, ci_claim_token := Some (tokens (ci_event c)),
     ci_claimed_by := Some who, ci_claimed_at := Some now, ci_claim_expires_at := Some (now + seconds lease),
     ci_attempts := ci_attempts c + 1, ci_revision := ci_revision c + 1,
     ci_error_code := None, ci_error_at := None, ci_response := None\<rparr>"

definition claimed_of :: "callback_intent \<Rightarrow> claimed_intent" where
  "claimed_of c = \<lparr>ct_event = ci_event c, ct_scope = ci_scope c, ct_manifest_hash = ci_manifest_hash c,
     ct_decision = ci_decision c, ct_token = the (ci_claim_token c), ct_revision = ci_revision c,
     ct_attempts = ci_attempts c, ct_expires_at = the (ci_claim_expires_at c), ct_created_at = ci_created_at c\<rparr>"

definition claim_candidates :: "instant \<Rightarrow> int \<Rightarrow> callback_intent list \<Rightarrow> uuid list" where
  "claim_candidates now limit rows =
     map ci_event (take (nat limit) (sort_key claim_order (rows_matching (callback_due now) rows)))"

definition claim_task_gate_callback_intents ::
    "(uuid \<Rightarrow> uuid) \<Rightarrow> instant \<Rightarrow> string \<Rightarrow> int \<Rightarrow> int \<Rightarrow> callback_intent list
      \<Rightarrow> failure + claimed_intent list \<times> callback_intent list" where
  "claim_task_gate_callback_intents tokens now who limit lease rows =
     attempt (ensure (dispatcher_id_pattern who \<and> 1 \<le> limit \<and> limit \<le> 100 \<and> 5 \<le> lease \<and> lease \<le> 300)
       (DatabaseFailure TriggerViolation)) (\<lambda>_.
     let chosen = claim_candidates now limit rows in
     attempt (db_call (sql_update guard_callback_transition callback_check (\<lambda>c. List.member chosen (ci_event c))
       (claimed_row tokens now who lease) rows)) (\<lambda>(claimed, rows').
     Inr (map claimed_of (sort_key claim_order claimed), rows')))"

text \<open>Whether a claim still holds a row: the comparison with a missing instant finds nothing.\<close>

definition claim_held :: "instant \<Rightarrow> uuid \<Rightarrow> uuid \<Rightarrow> int \<Rightarrow> callback_intent \<Rightarrow> bool" where
  "claim_held now event token revision c = (ci_event c = event \<and> ci_status c = CALLBACK_CLAIMED
     \<and> ci_claim_token c = Some token \<and> ci_revision c = revision
     \<and> (case ci_claim_expires_at c of None \<Rightarrow> False | Some t \<Rightarrow> now < t))"

definition released :: "callback_intent \<Rightarrow> callback_intent" where
  "released c = c\<lparr>ci_claim_token := None, ci_claimed_by := None, ci_claimed_at := None,
     ci_claim_expires_at := None, ci_revision := ci_revision c + 1\<rparr>"

definition delivered_row :: "instant \<Rightarrow> int \<Rightarrow> callback_intent \<Rightarrow> callback_intent" where
  "delivered_row now response c = (released c)\<lparr>ci_status := CALLBACK_DELIVERED, ci_error_code := None,
     ci_error_at := None, ci_response := Some response, ci_delivered_at := Some now\<rparr>"

definition retried_row :: "instant \<Rightarrow> string \<Rightarrow> int option \<Rightarrow> int \<Rightarrow> callback_intent \<Rightarrow> callback_intent" where
  "retried_row now error response delay_ms c = (released c)\<lparr>ci_status := CALLBACK_RETRY_WAIT,
     ci_available_at := now + delay_ms * 1000, ci_error_code := Some error, ci_error_at := Some now,
     ci_response := response\<rparr>"

definition failed_row :: "instant \<Rightarrow> string \<Rightarrow> int option \<Rightarrow> callback_intent \<Rightarrow> callback_intent" where
  "failed_row now error response c = (released c)\<lparr>ci_status := CALLBACK_FAILED, ci_error_code := Some error,
     ci_error_at := Some now, ci_response := response, ci_failed_at := Some now\<rparr>"

definition settle_claim ::
    "instant \<Rightarrow> claimed_intent \<Rightarrow> (callback_intent \<Rightarrow> callback_intent) \<Rightarrow> callback_intent list
      \<Rightarrow> failure + bool \<times> callback_intent list" where
  "settle_claim now i f rows =
     attempt (db_call (sql_update guard_callback_transition callback_check
       (claim_held now (ct_event i) (ct_token i) (ct_revision i)) f rows)) (\<lambda>(found, rows').
     Inr (found \<noteq> [], rows'))"

definition mark_task_gate_callback_delivered ::
    "instant \<Rightarrow> claimed_intent \<Rightarrow> int \<Rightarrow> callback_intent list \<Rightarrow> failure + bool \<times> callback_intent list" where
  "mark_task_gate_callback_delivered now i response rows =
     attempt (ensure (200 \<le> response \<and> response \<le> 299) (DatabaseFailure TriggerViolation)) (\<lambda>_.
     settle_claim now i (delivered_row now response) rows)"

definition failure_reported :: "string \<Rightarrow> int option \<Rightarrow> bool" where
  "failure_reported error response =
     (callback_error_pattern error \<and> opt_all (\<lambda>n. 100 \<le> n \<and> n \<le> 599) response)"

definition retry_task_gate_callback_intent ::
    "instant \<Rightarrow> claimed_intent \<Rightarrow> string \<Rightarrow> int option \<Rightarrow> int \<Rightarrow> callback_intent list
      \<Rightarrow> failure + bool \<times> callback_intent list" where
  "retry_task_gate_callback_intent now i error response delay_ms rows =
     attempt (ensure (failure_reported error response \<and> 100 \<le> delay_ms \<and> delay_ms \<le> 3600000)
       (DatabaseFailure TriggerViolation)) (\<lambda>_.
     settle_claim now i (retried_row now error response delay_ms) rows)"

definition fail_task_gate_callback_intent ::
    "instant \<Rightarrow> claimed_intent \<Rightarrow> string \<Rightarrow> int option \<Rightarrow> callback_intent list
      \<Rightarrow> failure + bool \<times> callback_intent list" where
  "fail_task_gate_callback_intent now i error response rows =
     attempt (ensure (failure_reported error response) (DatabaseFailure TriggerViolation)) (\<lambda>_.
     settle_claim now i (failed_row now error response) rows)"

subsection \<open>The retry policy\<close>

record retry_policy =
  rp_max_attempts :: int
  rp_initial :: int
  rp_maximum :: int

definition retry_policy_valid :: "retry_policy \<Rightarrow> bool" where
  "retry_policy_valid p = (1 \<le> rp_max_attempts p \<and> rp_max_attempts p \<le> 64 \<and> 100000 \<le> rp_initial p
     \<and> rp_initial p \<le> rp_maximum p \<and> rp_maximum p \<le> seconds 3600)"

fun backoff :: "nat \<Rightarrow> int \<Rightarrow> int \<Rightarrow> int" where
  "backoff 0 maximum delay = delay"
| "backoff (Suc n) maximum delay = (let next_delay = min maximum (delay * 2) in
     if maximum \<le> next_delay then next_delay else backoff n maximum next_delay)"

definition delay_after :: "retry_policy \<Rightarrow> int \<Rightarrow> failure + int" where
  "delay_after p attempts = (if attempts < 1 then Inl RuntimeFailure
     else Inr (backoff (nat (attempts - 1)) (rp_maximum p) (rp_initial p)))"

definition retry_milliseconds :: "int \<Rightarrow> failure + int" where
  "retry_milliseconds delay = (let ms = - (- delay div 1000) in
     if 100 \<le> ms \<and> ms \<le> 3600000 then Inr ms else Inl RuntimeFailure)"

subsection \<open>The consumer\<close>

datatype send_status = SEND_DELIVERED | SEND_RETRYABLE | SEND_PERMANENT_FAILURE

record send_result =
  sr_status :: send_status
  sr_error :: "string option"
  sr_response :: "int option"

definition send_result_valid :: "send_result \<Rightarrow> bool" where
  "send_result_valid r = (opt_all (\<lambda>n. 100 \<le> n \<and> n \<le> 599) (sr_response r)
     \<and> (if sr_status r = SEND_DELIVERED
        then sr_error r = None \<and> (case sr_response r of None \<Rightarrow> False | Some n \<Rightarrow> 200 \<le> n \<and> n \<le> 299)
        else (case sr_error r of None \<Rightarrow> False | Some e \<Rightarrow> callback_error_pattern e)))"

record consumer =
  co_dispatcher :: string
  co_batch_size :: int
  co_lease :: int
  co_policy :: retry_policy

definition consumer_valid :: "consumer \<Rightarrow> bool" where
  "consumer_valid k = (dispatcher_id_pattern (co_dispatcher k) \<and> 1 \<le> co_batch_size k \<and> co_batch_size k \<le> 100
     \<and> seconds 5 \<le> co_lease k \<and> co_lease k \<le> seconds 300 \<and> co_lease k mod 1000000 = 0
     \<and> retry_policy_valid (co_policy k))"

datatype delivery_outcome = OUTCOME_DELIVERED | OUTCOME_RETRIED | OUTCOME_FAILED | OUTCOME_LEASE_LOST

definition applied_or_lost :: "delivery_outcome \<Rightarrow> bool \<times> callback_intent list \<Rightarrow> delivery_outcome \<times> callback_intent list" where
  "applied_or_lost o' = (\<lambda>(applied, rows). (if applied then o' else OUTCOME_LEASE_LOST, rows))"

definition retry_delivery ::
    "retry_policy \<Rightarrow> instant \<Rightarrow> claimed_intent \<Rightarrow> string \<Rightarrow> int option \<Rightarrow> callback_intent list
      \<Rightarrow> failure + delivery_outcome \<times> callback_intent list" where
  "retry_delivery p now i error response rows =
     attempt (delay_after p (ct_attempts i)) (\<lambda>delay.
     attempt (retry_milliseconds delay) (\<lambda>ms.
     attempt (retry_task_gate_callback_intent now i error response ms rows) (\<lambda>r.
     Inr (applied_or_lost OUTCOME_RETRIED r))))"

definition fail_delivery ::
    "instant \<Rightarrow> claimed_intent \<Rightarrow> string \<Rightarrow> int option \<Rightarrow> callback_intent list
      \<Rightarrow> failure + delivery_outcome \<times> callback_intent list" where
  "fail_delivery now i error response rows =
     attempt (fail_task_gate_callback_intent now i error response rows) (\<lambda>r.
     Inr (applied_or_lost OUTCOME_FAILED r))"

text \<open>
  One delivery after its request: \<open>sent\<close> is what the sender returned, \<open>None\<close> when it raised, and
  \<open>now\<close> the instant of the transaction that settles the claim.
\<close>

definition settle_delivery ::
    "retry_policy \<Rightarrow> claimed_intent \<Rightarrow> send_result option \<Rightarrow> instant \<Rightarrow> callback_intent list
      \<Rightarrow> failure + delivery_outcome \<times> callback_intent list" where
  "settle_delivery p i sent now rows = (let exhausted = rp_max_attempts p \<le> ct_attempts i in
     case sent of
       None \<Rightarrow> if exhausted then fail_delivery now i ''TASK_GATE_CALLBACK_RETRY_EXHAUSTED'' None rows
         else retry_delivery p now i ''TASK_GATE_CALLBACK_UNEXPECTED'' None rows
     | Some r \<Rightarrow>
         if sr_status r = SEND_DELIVERED
         then (case sr_response r of
             None \<Rightarrow> fail_delivery now i ''TASK_GATE_CALLBACK_RESULT_INVALID'' None rows
           | Some n \<Rightarrow> attempt (mark_task_gate_callback_delivered now i n rows) (\<lambda>x.
               Inr (applied_or_lost OUTCOME_DELIVERED x)))
         else
           let error = (case sr_error r of Some e \<Rightarrow> if e = [] then ''TASK_GATE_CALLBACK_RESULT_INVALID'' else e
             | None \<Rightarrow> ''TASK_GATE_CALLBACK_RESULT_INVALID'') in
           if sr_status r = SEND_PERMANENT_FAILURE \<or> exhausted
           then fail_delivery now i
             (if sr_status r = SEND_RETRYABLE \<and> exhausted then ''TASK_GATE_CALLBACK_RETRY_EXHAUSTED'' else error)
             (sr_response r) rows
           else retry_delivery p now i error (sr_response r) rows)"

definition whole_seconds :: "int \<Rightarrow> failure + int" where
  "whole_seconds d = (if d < seconds 1 \<or> d mod 1000000 \<noteq> 0 then Inl RuntimeFailure else Inr (d div 1000000))"

definition claim_batch ::
    "consumer \<Rightarrow> (uuid \<Rightarrow> uuid) \<Rightarrow> instant \<Rightarrow> callback_intent list
      \<Rightarrow> failure + claimed_intent list \<times> callback_intent list" where
  "claim_batch k tokens now rows = attempt (whole_seconds (co_lease k)) (\<lambda>lease.
     claim_task_gate_callback_intents tokens now (co_dispatcher k) (co_batch_size k) lease rows)"

text \<open>
  The claimed deliveries run side by side, each with a transaction of its own; they settle different
  rows, and a failed one leaves the others alone.
\<close>

fun settle_batch ::
    "retry_policy \<Rightarrow> (claimed_intent \<Rightarrow> send_result option \<times> instant) \<Rightarrow> claimed_intent list
      \<Rightarrow> callback_intent list \<Rightarrow> (failure + delivery_outcome list) \<times> callback_intent list" where
  "settle_batch p sends [] rows = (Inr [], rows)"
| "settle_batch p sends (i # is) rows =
     (case commit rows (settle_delivery p i (fst (sends i)) (snd (sends i)) rows) of
        (r, rows1) \<Rightarrow> (case settle_batch p sends is rows1 of
          (rs, rows2) \<Rightarrow> (attempt r (\<lambda>x. attempt rs (\<lambda>xs. Inr (x # xs))), rows2)))"

record delivery_batch =
  db_claimed :: nat
  db_delivered :: nat
  db_retried :: nat
  db_failed :: nat
  db_lease_lost :: nat

definition batch_of :: "delivery_outcome list \<Rightarrow> delivery_batch" where
  "batch_of outcomes = \<lparr>db_claimed = length outcomes, db_delivered = count_list outcomes OUTCOME_DELIVERED,
     db_retried = count_list outcomes OUTCOME_RETRIED, db_failed = count_list outcomes OUTCOME_FAILED,
     db_lease_lost = count_list outcomes OUTCOME_LEASE_LOST\<rparr>"

definition run_once ::
    "consumer \<Rightarrow> (uuid \<Rightarrow> uuid) \<Rightarrow> instant \<Rightarrow> (claimed_intent \<Rightarrow> send_result option \<times> instant)
      \<Rightarrow> callback_intent list \<Rightarrow> (failure + delivery_batch) \<times> callback_intent list" where
  "run_once k tokens now sends rows =
     (case commit rows (claim_batch k tokens now rows) of
        (Inl e, rows1) \<Rightarrow> (Inl e, rows1)
      | (Inr claimed, rows1) \<Rightarrow> (case settle_batch (co_policy k) sends claimed rows1 of
          (r, rows2) \<Rightarrow> (attempt r (\<lambda>xs. Inr (batch_of xs)), rows2)))"

end
