(* ===== verification/Callback_Protocol.thy ===== *)
theory Callback_Protocol
  imports Gate_Callbacks Protocol
begin

text \<open>
  The callback table as a transition system: callbacks are staged, consumers claim them, and claims are
  settled, in any order and by any number of consumers.  Every reachable table is well formed, no
  transaction fails, and a row only moves forward.
\<close>

subsection \<open>Rows\<close>

definition callback_good :: "callback_intent \<Rightarrow> bool" where
  "callback_good c = (callback_check c
     \<and> (ci_status c = CALLBACK_CLAIMED \<longrightarrow> ci_claimed_by c \<noteq> None \<and> ci_claim_expires_at c \<noteq> None))"

definition callbacks_inv :: "callback_intent list \<Rightarrow> bool" where
  "callbacks_inv rows = (distinct (map ci_event rows) \<and> distinct (map ci_decision_id rows) \<and> list_all callback_good rows)"

definition callback_settled :: "callback_intent \<Rightarrow> bool" where
  "callback_settled c = (ci_status c \<in> {CALLBACK_DELIVERED, CALLBACK_FAILED})"

definition callback_le :: "callback_intent \<Rightarrow> callback_intent \<Rightarrow> bool" where
  "callback_le c d = (ci_event d = ci_event c \<and> ci_decision_id d = ci_decision_id c \<and> ci_gate d = ci_gate c
     \<and> ci_scope d = ci_scope c \<and> ci_manifest_hash d = ci_manifest_hash c \<and> ci_decision d = ci_decision c
     \<and> ci_created_at d = ci_created_at c \<and> ci_revision c \<le> ci_revision d \<and> ci_attempts c \<le> ci_attempts d
     \<and> (callback_settled c \<or> ci_revision d = ci_revision c \<longrightarrow> d = c))"

definition callbacks_le :: "callback_intent list \<Rightarrow> callback_intent list \<Rightarrow> bool" where
  "callbacks_le rows rows' = (\<exists>old new. rows' = old @ new \<and> list_all2 callback_le rows old)"

lemma callback_le_refl [simp]: "callback_le c c"
  by (simp add: callback_le_def)

lemma callback_le_trans: "callback_le c d \<Longrightarrow> callback_le d e \<Longrightarrow> callback_le c e"
  by (auto simp: callback_le_def)

lemma callbacks_le_append: "callbacks_le rows (rows @ new)"
proof -
  have "rows @ new = rows @ new \<and> list_all2 callback_le rows rows" by (simp add: list_all2_refl)
  then show ?thesis unfolding callbacks_le_def by blast
qed

lemma callbacks_le_refl: "callbacks_le rows rows"
  using callbacks_le_append [of rows "[]"] by simp

lemma callbacks_le_trans:
  assumes "callbacks_le rows rows1" and "callbacks_le rows1 rows2"
  shows "callbacks_le rows rows2"
proof -
  from assms obtain old new old' new' where e: "rows1 = old @ new" "rows2 = old' @ new'"
      and l: "list_all2 callback_le rows old" "list_all2 callback_le (old @ new) old'"
    by (auto simp: callbacks_le_def)
  from l(2) obtain xs ys where o: "old' = xs @ ys" "list_all2 callback_le old xs" by (auto simp: list_all2_append1)
  have "list_all2 callback_le rows xs"
    by (rule list_all2_trans [OF _ l(1) o(2)]) (rule callback_le_trans)
  then show ?thesis using e(2) o(1) by (auto simp: callbacks_le_def)
qed

lemma callbacks_le_row:
  assumes "callbacks_le rows rows'" and "c \<in> set rows"
  obtains d where "d \<in> set rows'" and "callback_le c d"
proof -
  from assms(1) obtain old new where l: "rows' = old @ new" "list_all2 callback_le rows old"
    unfolding callbacks_le_def by blast
  from assms(2) obtain n where n: "n < length rows" "rows ! n = c" by (auto simp: in_set_conv_nth)
  with l(2) have "callback_le c (old ! n)" "n < length old" by (auto simp: list_all2_conv_all_nth)
  with l(1) show thesis by (intro that [of "old ! n"]) auto
qed

text \<open>Whatever an update under the transition trigger does, the rows move forward.\<close>

lemma guarded_update_forward:
  assumes "sql_update guard_callback_transition check p f rows = Inr (upd, rows')"
  shows "callbacks_le rows rows'"
proof -
  have r: "rows' = map (\<lambda>c. if p c then f c else c) rows"
      and g: "\<And>c. c \<in> set rows \<Longrightarrow> p c \<Longrightarrow> guard_callback_transition c (f c)"
    using assms by (auto simp: sql_update_Inr put_where_map)
  have "callback_le c (if p c then f c else c)" if "c \<in> set rows" for c
    using g [OF that] by (auto simp: guard_callback_transition_def callback_le_def callback_settled_def)
  then have "list_all2 callback_le rows rows'"
    unfolding r by (auto simp: list_all2_conv_all_nth)
  then show ?thesis unfolding callbacks_le_def by (metis append_Nil2)
qed

subsection \<open>Statements\<close>

text \<open>An update whose rows pass the trigger and the check keeps the table well formed.\<close>

lemma guarded_update_ok:
  assumes inv: "callbacks_inv rows"
    and ok: "\<And>c. c \<in> set rows \<Longrightarrow> p c \<Longrightarrow> guard_callback_transition c (f c) \<and> callback_good (f c)"
  shows "sql_update guard_callback_transition callback_check p f rows = Inr (map f (filter p rows), put_where p f rows)"
    and "callbacks_inv (put_where p f rows)"
proof -
  show "sql_update guard_callback_transition callback_check p f rows = Inr (map f (filter p rows), put_where p f rows)"
    using ok by (intro sql_update_ok) (auto simp: callback_good_def)
  have "map ci_event (put_where p f rows) = map ci_event rows"
      "map ci_decision_id (put_where p f rows) = map ci_decision_id rows"
    using ok by (auto simp: put_where_map guard_callback_transition_def)
  then show "callbacks_inv (put_where p f rows)"
    using inv ok by (auto simp: callbacks_inv_def list_all_iff set_put_where)
qed

lemma due_status:
  "callback_due now c \<Longrightarrow> ci_status c \<in> {CALLBACK_PENDING, CALLBACK_RETRY_WAIT, CALLBACK_CLAIMED}"
  by (auto simp: callback_due_def)

lemma claimed_row_ok:
  assumes "callback_good c" and "ci_status c \<in> {CALLBACK_PENDING, CALLBACK_RETRY_WAIT, CALLBACK_CLAIMED}"
    and "dispatcher_id_pattern who" and "0 < lease"
  shows "guard_callback_transition c (claimed_row tokens now who lease c) \<and> callback_good (claimed_row tokens now who lease c)"
  using assms by (auto simp: callback_good_def callback_check_def guard_callback_transition_def claimed_row_def
      undispatched_def opt_all_def)

lemma candidate_due:
  assumes "callbacks_inv rows" and "c \<in> set rows" and "ci_event c \<in> set (claim_candidates now limit rows)"
  shows "callback_due now c"
proof -
  from assms(3) obtain d where "d \<in> set rows" "callback_due now d" "ci_event d = ci_event c"
    by (auto simp: claim_candidates_def rows_matching_def dest!: in_set_takeD)
  then show ?thesis using assms(1,2) distinct_key_eq [of ci_event rows c d] by (simp add: callbacks_inv_def)
qed

definition consumer_claim :: "consumer \<Rightarrow> (uuid \<Rightarrow> uuid) \<Rightarrow> instant \<Rightarrow> callback_intent \<Rightarrow> callback_intent" where
  "consumer_claim k tokens now = claimed_row tokens now (co_dispatcher k) (co_lease k div 1000000)"

definition chosen_row :: "consumer \<Rightarrow> instant \<Rightarrow> callback_intent list \<Rightarrow> callback_intent \<Rightarrow> bool" where
  "chosen_row k now rows c = (ci_event c \<in> set (claim_candidates now (co_batch_size k) rows))"

lemma claim_batch_ok:
  assumes k: "consumer_valid k" and inv: "callbacks_inv rows"
  shows "claim_batch k tokens now rows = Inr (map claimed_of (sort_key claim_order
        (map (consumer_claim k tokens now) (filter (chosen_row k now rows) rows))),
      put_where (chosen_row k now rows) (consumer_claim k tokens now) rows)"
    and "callbacks_inv (put_where (chosen_row k now rows) (consumer_claim k tokens now) rows)"
proof -
  have lease: "whole_seconds (co_lease k) = Inr (co_lease k div 1000000)" "5 \<le> co_lease k div 1000000"
      "co_lease k div 1000000 \<le> 300"
    using k by (auto simp: consumer_valid_def whole_seconds_def seconds_def)
  have who: "dispatcher_id_pattern (co_dispatcher k)" "1 \<le> co_batch_size k" "co_batch_size k \<le> 100"
    using k by (simp_all add: consumer_valid_def)
  have "guard_callback_transition c (consumer_claim k tokens now c) \<and> callback_good (consumer_claim k tokens now c)"
    if "c \<in> set rows" "chosen_row k now rows c" for c
    unfolding consumer_claim_def using that inv lease(2) who(1)
    by (intro claimed_row_ok due_status candidate_due) (auto simp: callbacks_inv_def list_all_iff chosen_row_def)
  note upd = guarded_update_ok [OF inv, of "chosen_row k now rows" "consumer_claim k tokens now", OF this]
  show "callbacks_inv (put_where (chosen_row k now rows) (consumer_claim k tokens now) rows)" by (rule upd(2))
  have p: "(\<lambda>c. ci_event c \<in> set (claim_candidates now (co_batch_size k) rows)) = chosen_row k now rows"
    by (simp add: fun_eq_iff chosen_row_def)
  show "claim_batch k tokens now rows = Inr (map claimed_of (sort_key claim_order
        (map (consumer_claim k tokens now) (filter (chosen_row k now rows) rows))),
      put_where (chosen_row k now rows) (consumer_claim k tokens now) rows)"
    using upd(1) lease who
    by (simp add: claim_batch_def claim_task_gate_callback_intents_def Let_def p flip: consumer_claim_def)
qed

text \<open>A settlement that is accepted: what it makes of the row it holds.\<close>

definition settles :: "(callback_intent \<Rightarrow> callback_intent) \<Rightarrow> bool" where
  "settles f = (\<forall>c. callback_good c \<and> ci_status c = CALLBACK_CLAIMED
     \<longrightarrow> guard_callback_transition c (f c) \<and> callback_good (f c))"

lemma settles_rows:
  "200 \<le> n \<Longrightarrow> n \<le> 299 \<Longrightarrow> settles (delivered_row now n)"
  "failure_reported e r \<Longrightarrow> 100 \<le> ms \<Longrightarrow> settles (retried_row now e r ms)"
  "failure_reported e r \<Longrightarrow> settles (failed_row now e r)"
  by (auto simp: settles_def callback_good_def callback_check_def guard_callback_transition_def released_def
      delivered_row_def retried_row_def failed_row_def unclaimed_def failure_reported_def opt_all_def)

abbreviation held :: "instant \<Rightarrow> claimed_intent \<Rightarrow> callback_intent \<Rightarrow> bool" where
  "held now i \<equiv> claim_held now (ct_event i) (ct_token i) (ct_revision i)"

lemma settle_claim_ok:
  assumes "settles f" and inv: "callbacks_inv rows"
  shows "settle_claim now i f rows = Inr (filter (held now i) rows \<noteq> [], put_where (held now i) f rows)"
    and "callbacks_inv (put_where (held now i) f rows)"
proof -
  have "guard_callback_transition c (f c) \<and> callback_good (f c)" if "c \<in> set rows" "held now i c" for c
    using that assms by (auto simp: settles_def callbacks_inv_def list_all_iff claim_held_def)
  note upd = guarded_update_ok [OF inv, of "held now i" f, OF this]
  show "callbacks_inv (put_where (held now i) f rows)" by (rule upd(2))
  show "settle_claim now i f rows = Inr (filter (held now i) rows \<noteq> [], put_where (held now i) f rows)"
    by (simp add: settle_claim_def upd(1))
qed

lemma settle_claim_forward: "settle_claim now i f rows = Inr (found, rows') \<Longrightarrow> callbacks_le rows rows'"
  by (auto simp: settle_claim_def result_simps intro: guarded_update_forward)

lemma claim_batch_forward: "claim_batch k tokens now rows = Inr (claimed, rows') \<Longrightarrow> callbacks_le rows rows'"
  by (auto simp: claim_batch_def claim_task_gate_callback_intents_def Let_def result_simps split: if_splits intro: guarded_update_forward)

subsection \<open>The delay before a retry\<close>

lemma backoff_bounds:
  assumes "0 \<le> initial" "initial \<le> delay" "delay \<le> maximum"
  shows "initial \<le> backoff n maximum delay \<and> backoff n maximum delay \<le> maximum"
  using assms(2,3)
proof (induction n arbitrary: delay)
  case (Suc n)
  have d: "initial \<le> delay * 2" "initial \<le> maximum" using Suc.prems assms(1) by simp_all
  show ?case
  proof (cases "maximum \<le> delay * 2")
    case True
    then show ?thesis using d(2) by (simp add: Let_def)
  next
    case False
    then have m: "min maximum (delay * 2) = delay * 2" by simp
    show ?thesis using Suc.IH [of "delay * 2"] d(1) False by (simp add: Let_def m)
  qed
qed simp

lemma retry_delay:
  assumes "retry_policy_valid p" and "1 \<le> attempts"
  obtains ms where "attempt (delay_after p attempts) retry_milliseconds = Inr ms" "100 \<le> ms" "ms \<le> 3600000"
proof -
  define d where "d = backoff (nat (attempts - 1)) (rp_maximum p) (rp_initial p)"
  have "100000 \<le> d" "d \<le> 3600000000"
    using backoff_bounds [of "rp_initial p" "rp_initial p" "rp_maximum p" "nat (attempts - 1)"] assms(1)
    by (auto simp: retry_policy_valid_def seconds_def d_def)
  moreover have "- d = (- d div 1000) * 1000 + - d mod 1000" "0 \<le> - d mod 1000" "- d mod 1000 < 1000" by simp_all
  ultimately have "100 \<le> - (- d div 1000)" "- (- d div 1000) \<le> 3600000" by linarith+
  moreover from this have "retry_milliseconds d = Inr (- (- d div 1000))"
    unfolding retry_milliseconds_def Let_def by (rule if_P [OF conjI])
  moreover have "delay_after p attempts = Inr d" using assms(2) by (simp add: delay_after_def d_def)
  ultimately show thesis by (intro that [of "- (- d div 1000)"]) simp_all
qed

subsection \<open>Settlements\<close>

text \<open>
  Every delivery is one update of the row its claim holds: the update, and the outcome it counts as.
\<close>

definition settlement ::
    "retry_policy \<Rightarrow> claimed_intent \<Rightarrow> (callback_intent \<Rightarrow> callback_intent) \<Rightarrow> delivery_outcome \<Rightarrow> bool" where
  "settlement p i f result = (settles f \<and> (\<forall>c. ci_attempts (f c) = ci_attempts c)
     \<and> ((\<forall>c. ci_status (f c) = CALLBACK_DELIVERED) \<and> result = OUTCOME_DELIVERED
        \<or> (\<forall>c. ci_status (f c) = CALLBACK_FAILED) \<and> result = OUTCOME_FAILED
        \<or> (\<forall>c. ci_status (f c) = CALLBACK_RETRY_WAIT) \<and> result = OUTCOME_RETRIED
          \<and> ct_attempts i < rp_max_attempts p))"

definition settled_with ::
    "instant \<Rightarrow> claimed_intent \<Rightarrow> (callback_intent \<Rightarrow> callback_intent) \<Rightarrow> delivery_outcome \<Rightarrow> callback_intent list
      \<Rightarrow> failure + delivery_outcome \<times> callback_intent list" where
  "settled_with now i f result rows = attempt (settle_claim now i f rows) (\<lambda>r. Inr (applied_or_lost result r))"

lemma fail_delivery_settles:
  assumes "failure_reported e r"
  shows "fail_delivery now i e r = settled_with now i (failed_row now e r) OUTCOME_FAILED"
    and "settlement p i (failed_row now e r) OUTCOME_FAILED"
  using assms settles_rows(3) [OF assms]
  by (auto simp: fun_eq_iff fail_delivery_def fail_task_gate_callback_intent_def settled_with_def settlement_def
      failed_row_def released_def)

lemma retry_delivery_settles:
  assumes "failure_reported e r" and "retry_policy_valid p" and "1 \<le> ct_attempts i"
    and "ct_attempts i < rp_max_attempts p"
  shows "\<exists>f. retry_delivery p now i e r = settled_with now i f OUTCOME_RETRIED \<and> settlement p i f OUTCOME_RETRIED"
proof -
  obtain ms where "attempt (delay_after p (ct_attempts i)) retry_milliseconds = Inr ms" "100 \<le> ms" "ms \<le> 3600000"
    by (rule retry_delay [OF assms(2,3)])
  then have "retry_delivery p now i e r = settled_with now i (retried_row now e r ms) OUTCOME_RETRIED"
    using assms(1) by (auto simp: fun_eq_iff retry_delivery_def retry_task_gate_callback_intent_def settled_with_def attempt_Inr)
  moreover have "settlement p i (retried_row now e r ms) OUTCOME_RETRIED"
    using settles_rows(2) [OF assms(1) \<open>100 \<le> ms\<close>] assms(4)
    by (auto simp: settlement_def retried_row_def released_def)
  ultimately show ?thesis by blast
qed

lemma settle_delivery_ok:
  assumes p: "retry_policy_valid p" and sent: "opt_all send_result_valid sent" and a: "1 \<le> ct_attempts i"
  obtains f result where "settlement p i f result" and "settle_delivery p i sent now = settled_with now i f result"
proof -
  have errors: "callback_error_pattern ''TASK_GATE_CALLBACK_RETRY_EXHAUSTED''"
      "callback_error_pattern ''TASK_GATE_CALLBACK_UNEXPECTED''" by code_simp+
  have failed: "\<exists>f result. settlement p i f result \<and> settle_delivery p i sent now = settled_with now i f result"
    if "settle_delivery p i sent now = fail_delivery now i e r" "failure_reported e r" for e r
    using that fail_delivery_settles by metis
  have retried: "\<exists>f result. settlement p i f result \<and> settle_delivery p i sent now = settled_with now i f result"
    if "settle_delivery p i sent now = retry_delivery p now i e r" "failure_reported e r" "ct_attempts i < rp_max_attempts p" for e r
    using that retry_delivery_settles [OF that(2) p a that(3)] by metis
  have "\<exists>f result. settlement p i f result \<and> settle_delivery p i sent now = settled_with now i f result"
  proof (cases sent)
    case None
    show ?thesis
    proof (cases "rp_max_attempts p \<le> ct_attempts i")
      case True
      then show ?thesis using None
        by (intro failed [of "''TASK_GATE_CALLBACK_RETRY_EXHAUSTED''" None])
          (simp_all add: fun_eq_iff settle_delivery_def failure_reported_def opt_all_def errors)
    next
      case False
      then show ?thesis using None
        by (intro retried [of "''TASK_GATE_CALLBACK_UNEXPECTED''" None])
          (simp_all add: fun_eq_iff settle_delivery_def failure_reported_def opt_all_def errors)
    qed
  next
    case (Some r)
    with sent have v: "send_result_valid r" by (simp add: opt_all_def)
    show ?thesis
    proof (cases "sr_status r = SEND_DELIVERED")
      case True
      then obtain n where n: "sr_response r = Some n" "200 \<le> n" "n \<le> 299"
        using v by (auto simp: send_result_valid_def split: option.splits)
      have "settle_delivery p i sent now = settled_with now i (delivered_row now n) OUTCOME_DELIVERED"
        using Some True n by (auto simp: fun_eq_iff settle_delivery_def settled_with_def mark_task_gate_callback_delivered_def)
      moreover have "settlement p i (delivered_row now n) OUTCOME_DELIVERED"
        using settles_rows(1) [OF n(2,3)] by (auto simp: settlement_def delivered_row_def released_def)
      ultimately show ?thesis by blast
    next
      case False
      then obtain e where e: "sr_error r = Some e" "callback_error_pattern e" "opt_all (\<lambda>n. 100 \<le> n \<and> n \<le> 599) (sr_response r)"
        using v by (auto simp: send_result_valid_def split: option.splits if_splits)
      then have ne: "e \<noteq> []" by (auto simp: callback_error_pattern_def matches_ident_def)
      show ?thesis
      proof (cases "sr_status r = SEND_PERMANENT_FAILURE \<or> rp_max_attempts p \<le> ct_attempts i")
        case True
        then show ?thesis using Some False e ne
          by (intro failed [of "if sr_status r = SEND_RETRYABLE \<and> rp_max_attempts p \<le> ct_attempts i
              then ''TASK_GATE_CALLBACK_RETRY_EXHAUSTED'' else e" "sr_response r"])
            (auto simp: fun_eq_iff settle_delivery_def Let_def failure_reported_def errors)
      next
        case no: False
        then show ?thesis using Some False e ne
          by (intro retried [of e "sr_response r"]) (auto simp: fun_eq_iff settle_delivery_def Let_def failure_reported_def)
      qed
    qed
  qed
  then show thesis using that by blast
qed

end
