(* ===== verification/Callback_Delivery.thy ===== *)
theory Callback_Delivery
  imports Callback_Protocol
begin

text \<open>
  What the delivery of callbacks guarantees, whatever the consumers do: the transition system, the
  well-formedness of its tables, and that a claim is settled once and by its holder.
\<close>

subsection \<open>Executions\<close>

datatype callback_op =
    StageCallback callback_intent
  | ClaimCallbacks consumer
  | SettleCallback consumer claimed_intent "send_result option"

datatype callback_response = Staged | Claimed "claimed_intent list" | Settled delivery_outcome

fun run_callbacks ::
    "(uuid \<Rightarrow> uuid) \<Rightarrow> instant \<Rightarrow> callback_op \<Rightarrow> callback_intent list
      \<Rightarrow> failure + callback_response \<times> callback_intent list" where
  "run_callbacks tokens now (StageCallback c) rows =
     attempt (db_call (sql_insert callback_check callback_conflicts c rows)) (\<lambda>rows'. Inr (Staged, rows'))"
| "run_callbacks tokens now (ClaimCallbacks k) rows =
     attempt (claim_batch k tokens now rows) (\<lambda>(claimed, rows'). Inr (Claimed claimed, rows'))"
| "run_callbacks tokens now (SettleCallback k i sent) rows =
     attempt (settle_delivery (co_policy k) i sent now rows) (\<lambda>(result, rows'). Inr (Settled result, rows'))"

text \<open>A staged callback is new; consumers have passed their construction, and so have the results.\<close>

fun callback_admissible :: "(uuid \<Rightarrow> uuid) \<Rightarrow> callback_op \<Rightarrow> callback_intent list \<Rightarrow> bool" where
  "callback_admissible tokens (StageCallback c) rows = (callback_check c \<and> ci_status c = CALLBACK_PENDING
     \<and> list_all (\<lambda>x. \<not> callback_conflicts x c) rows)"
| "callback_admissible tokens (ClaimCallbacks k) rows = consumer_valid k"
| "callback_admissible tokens (SettleCallback k i sent) rows =
     (consumer_valid k \<and> opt_all send_result_valid sent \<and> 1 \<le> ct_attempts i)"

definition callback_reaches :: "instant \<Rightarrow> callback_intent list \<Rightarrow> instant \<Rightarrow> callback_intent list \<Rightarrow> bool" where
  "callback_reaches = reaches run_callbacks callback_admissible"

lemma consumer_policy: "consumer_valid k \<Longrightarrow> retry_policy_valid (co_policy k)"
  by (simp add: consumer_valid_def)

lemma settled_with_ok:
  assumes "settlement p i f result" and "callbacks_inv rows"
  shows "settled_with now i f result rows
      = Inr (if filter (held now i) rows \<noteq> [] then result else OUTCOME_LEASE_LOST, put_where (held now i) f rows)"
    and "callbacks_inv (put_where (held now i) f rows)"
proof -
  have f: "settles f" using assms(1) by (simp add: settlement_def)
  show "callbacks_inv (put_where (held now i) f rows)" by (rule settle_claim_ok(2) [OF f assms(2)])
  show "settled_with now i f result rows
      = Inr (if filter (held now i) rows \<noteq> [] then result else OUTCOME_LEASE_LOST, put_where (held now i) f rows)"
    by (simp add: settled_with_def settle_claim_ok(1) [OF f assms(2)] applied_or_lost_def)
qed

lemma run_callbacks_total:
  assumes inv: "callbacks_inv rows" and adm: "callback_admissible tokens op rows"
  shows "\<exists>r rows'. run_callbacks tokens now op rows = Inr (r, rows') \<and> callbacks_inv rows'"
proof (cases op)
  case (StageCallback c)
  have n: "callback_check c" "ci_status c = CALLBACK_PENDING" "\<And>x. x \<in> set rows \<Longrightarrow> \<not> callback_conflicts x c"
    using adm by (simp_all add: StageCallback list_all_iff)
  have "callback_good c" using n(1,2) by (simp add: callback_good_def)
  moreover have "ci_event c \<notin> ci_event ` set rows" "ci_decision_id c \<notin> ci_decision_id ` set rows"
    using n(3) by (force simp: callback_conflicts_def)+
  ultimately have "callbacks_inv (rows @ [c])" using inv by (auto simp: callbacks_inv_def)
  then show ?thesis using n by (simp add: StageCallback sql_insert_def list_ex_iff)
next
  case (ClaimCallbacks k)
  then have k: "consumer_valid k" using adm by simp
  show ?thesis using claim_batch_ok [OF k inv, where tokens = tokens and now = now] by (simp add: ClaimCallbacks)
next
  case (SettleCallback k i sent)
  then have adm': "consumer_valid k" "opt_all send_result_valid sent" "1 \<le> ct_attempts i" using adm by simp_all
  obtain f result where f: "settlement (co_policy k) i f result" "settle_delivery (co_policy k) i sent now = settled_with now i f result"
    by (rule settle_delivery_ok [OF consumer_policy [OF adm'(1)] adm'(2,3)])
  show ?thesis using settled_with_ok [OF f(1) inv, of now] by (simp add: SettleCallback f(2))
qed

lemma settle_delivery_forward:
  assumes "settle_delivery p i sent now rows = Inr (result, rows')"
  shows "callbacks_le rows rows'"
  using assms
  by (auto simp: settle_delivery_def Let_def fail_delivery_def retry_delivery_def mark_task_gate_callback_delivered_def
      fail_task_gate_callback_intent_def retry_task_gate_callback_intent_def result_simps applied_or_lost_def
      split: option.splits if_splits prod.splits intro: settle_claim_forward)

lemma run_callbacks_forward:
  "run_callbacks tokens now op rows = Inr (r, rows') \<Longrightarrow> callbacks_le rows rows'"
proof (cases op)
  case (StageCallback c)
  assume "run_callbacks tokens now op rows = Inr (r, rows')"
  then have "rows' = rows @ [c]" by (auto simp: StageCallback result_simps sql_insert_Inr)
  then show ?thesis by (simp add: callbacks_le_append)
qed (auto simp: result_simps intro: claim_batch_forward settle_delivery_forward)

interpretation gc: transactional_service run_callbacks callback_admissible "\<lambda>_. callbacks_inv" callbacks_le
proof
  fix now :: instant and rows env op
  assume "callbacks_inv rows" "callback_admissible env op rows"
  then show "outcome (\<lambda>(r, rows'). callbacks_inv rows') (run_callbacks env now op rows)"
    using run_callbacks_total [of rows env op now] by auto
qed (auto intro: callbacks_le_refl callbacks_le_trans run_callbacks_forward)

lemma empty_callbacks: "callbacks_inv []"
  by (simp add: callbacks_inv_def)

lemma reachable_callbacks: "callback_reaches t [] u rows \<Longrightarrow> callbacks_inv rows"
  using gc.reaches_inv empty_callbacks by (simp add: callback_reaches_def)

lemma callback_reaches_le: "callback_reaches t rows u rows' \<Longrightarrow> callbacks_le rows rows'"
  by (auto simp: callback_reaches_def intro: gc.reaches_before)

lemma callback_reaches_keeps_inv: "callback_reaches t rows u rows' \<Longrightarrow> callbacks_inv rows \<Longrightarrow> callbacks_inv rows'"
  using gc.reaches_inv by (simp add: callback_reaches_def)

subsection \<open>Guarantees\<close>

text \<open>
  C26: In every reachable table the callbacks have distinct events and decisions and satisfy the check of
  the table, and whatever the next operation is, with tokens and instants as they may be, its
  transaction succeeds and leaves such a table.
\<close>

theorem callback_tables_are_well_formed:
  assumes "callback_reaches t [] u rows" and "callback_admissible tokens op rows"
  shows "distinct (map ci_event rows) \<and> distinct (map ci_decision_id rows) \<and> list_all callback_check rows
    \<and> (\<exists>r rows'. run_callbacks tokens now op rows = Inr (r, rows') \<and> list_all callback_check rows'
        \<and> distinct (map ci_event rows'))"
proof -
  note inv = reachable_callbacks [OF assms(1)]
  have "list_all callback_check rs" if "callbacks_inv rs" for rs
    using that by (auto simp: callbacks_inv_def callback_good_def list_all_iff)
  then show ?thesis using inv run_callbacks_total [OF inv assms(2), of now] by (auto simp: callbacks_inv_def)
qed

text \<open>A claim whose row has moved on holds nothing.\<close>

lemma stale_claim:
  assumes inv: "callbacks_inv rows" and c: "c \<in> set rows" "ci_event c = ct_event i" "ct_revision i < ci_revision c"
  shows "\<not> list_ex (held now i) rows"
proof
  assume "list_ex (held now i) rows"
  then obtain d where d: "d \<in> set rows" "ci_event d = ct_event i" "ci_revision d = ct_revision i"
    by (auto simp: list_ex_iff claim_held_def)
  then have "d = c" using inv c(1,2) distinct_key_eq [of ci_event rows d c] by (simp add: callbacks_inv_def)
  with d(3) c(3) show False by simp
qed

lemma unheld_settlement:
  assumes "retry_policy_valid p" and "opt_all send_result_valid sent" and "1 \<le> ct_attempts i"
    and "callbacks_inv rows" and un: "\<not> list_ex (held now i) rows"
  shows "settle_delivery p i sent now rows = Inr (OUTCOME_LEASE_LOST, rows)"
proof -
  obtain f result where f: "settlement p i f result" "settle_delivery p i sent now = settled_with now i f result"
    by (rule settle_delivery_ok [OF assms(1-3)])
  have "put_where (held now i) f rows = rows" "filter (held now i) rows = []"
    using un by (auto simp: list_ex_iff filter_empty_conv intro: put_where_none)
  then show ?thesis using settled_with_ok(1) [OF f(1) assms(4)] f(2) by simp
qed

text \<open>A settlement that applies is by the holder of the row, and moves the row past its claim.\<close>

lemma applied_settlement:
  assumes "retry_policy_valid p" and "opt_all send_result_valid sent" and "1 \<le> ct_attempts i"
    and inv: "callbacks_inv rows" and "settle_delivery p i sent now rows = Inr (result, rows')"
    and "result \<noteq> OUTCOME_LEASE_LOST"
  obtains c d where "c \<in> set rows" "held now i c" "d \<in> set rows'" "ci_event d = ct_event i"
    "ci_revision d = ct_revision i + 1" "callback_settled d \<longleftrightarrow> result \<in> {OUTCOME_DELIVERED, OUTCOME_FAILED}"
    "callbacks_inv rows'"
proof -
  obtain f result' where f: "settlement p i f result'" "settle_delivery p i sent now = settled_with now i f result'"
    by (rule settle_delivery_ok [OF assms(1-3)])
  have s: "settle_delivery p i sent now rows
      = Inr (if filter (held now i) rows \<noteq> [] then result' else OUTCOME_LEASE_LOST, put_where (held now i) f rows)"
      and inv': "callbacks_inv (put_where (held now i) f rows)"
    using settled_with_ok [OF f(1) inv, of now] f(2) by simp_all
  then have r: "result = result'" "rows' = put_where (held now i) f rows" "filter (held now i) rows \<noteq> []"
    using assms(5,6) by (auto split: if_splits)
  then obtain c where c: "c \<in> set rows" "held now i c" by (auto simp: filter_empty_conv)
  have g: "guard_callback_transition c (f c)"
    using f(1) c inv by (auto simp: settlement_def settles_def callbacks_inv_def list_all_iff claim_held_def)
  have "f c \<in> set rows'" using c r(2) by (auto simp: set_put_where)
  moreover have "ci_event (f c) = ct_event i" "ci_revision (f c) = ct_revision i + 1"
    using g c(2) by (auto simp: guard_callback_transition_def claim_held_def)
  moreover have "callback_settled (f c) \<longleftrightarrow> result \<in> {OUTCOME_DELIVERED, OUTCOME_FAILED}"
    using f(1) r(1) by (auto simp: settlement_def callback_settled_def)
  ultimately show thesis using that c inv' r(2) by blast
qed

text \<open>
  C24: A claim is settled at most once and only by its holder.  When a settlement applies, its claim was
  current and its lease not over; whatever happens after, every later settlement of that claim is told
  that the lease is lost and changes nothing, and a callback it delivered or gave up stays as it was.
\<close>

theorem claims_settle_once:
  assumes reach: "callback_reaches t [] u rows" and k: "consumer_valid k" "opt_all send_result_valid sent" "1 \<le> ct_attempts i"
    and s: "settle_delivery (co_policy k) i sent now rows = Inr (result, rows1)" "result \<noteq> OUTCOME_LEASE_LOST"
    and later: "callback_reaches now rows1 v rows2"
    and k': "consumer_valid k'" "opt_all send_result_valid sent'"
  shows "list_ex (held now i) rows
    \<and> settle_delivery (co_policy k') i sent' now' rows2 = Inr (OUTCOME_LEASE_LOST, rows2)
    \<and> (result \<in> {OUTCOME_DELIVERED, OUTCOME_FAILED} \<longrightarrow>
        (\<exists>d \<in> set rows1. ci_event d = ct_event i \<and> callback_settled d \<and> d \<in> set rows2))"
proof -
  note p = consumer_policy [OF k(1)] and p' = consumer_policy [OF k'(1)]
  obtain c d where cd: "c \<in> set rows" "held now i c" "d \<in> set rows1" "ci_event d = ct_event i"
      "ci_revision d = ct_revision i + 1" "callback_settled d \<longleftrightarrow> result \<in> {OUTCOME_DELIVERED, OUTCOME_FAILED}"
      "callbacks_inv rows1"
    by (rule applied_settlement [OF p k(2,3) reachable_callbacks [OF reach] s])
  note inv2 = callback_reaches_keeps_inv [OF later cd(7)]
  obtain e where e: "e \<in> set rows2" "callback_le d e"
    by (rule callbacks_le_row [OF callback_reaches_le [OF later] cd(3)])
  have "ct_revision i < ci_revision e" "ci_event e = ct_event i" using e(2) cd(4,5) by (auto simp: callback_le_def)
  then have "\<not> list_ex (held now' i) rows2" using stale_claim [OF inv2 e(1)] by simp
  then have "settle_delivery (co_policy k') i sent' now' rows2 = Inr (OUTCOME_LEASE_LOST, rows2)"
    by (rule unheld_settlement [OF p' k'(2) k(3) inv2])
  moreover have "callback_settled d \<Longrightarrow> e = d" using e(2) by (simp add: callback_le_def)
  ultimately show ?thesis using cd e(1) by (auto simp: list_ex_iff)
qed

end
