(* ===== verification/Callback_Termination.thy ===== *)
theory Callback_Termination
  imports Callback_Delivery
begin

text \<open>
  Why delivery ends: a poll whose requests are settled within the lease spends one attempt of every
  callback it claims, and the retry policy leaves a callback only so many.
\<close>

subsection \<open>One poll\<close>

text \<open>What settling the callbacks of some events makes of a row.\<close>

definition settled_row :: "retry_policy \<Rightarrow> uuid set \<Rightarrow> callback_intent \<Rightarrow> callback_intent \<Rightarrow> bool" where
  "settled_row p events c d = (ci_event d = ci_event c \<and> ci_attempts d = ci_attempts c
     \<and> (if ci_event c \<in> events
        then callback_settled d \<or> (ci_status d = CALLBACK_RETRY_WAIT \<and> ci_attempts d < rp_max_attempts p)
        else d = c))"

lemma settled_row_step:
  assumes "list_all2 (settled_row p {e}) rows rows1" and "list_all2 (settled_row p events) rows1 rows2" and "e \<notin> events"
  shows "list_all2 (settled_row p (insert e events)) rows rows2"
proof (rule list_all2_trans [OF _ assms(1,2)])
  fix a b c
  assume "settled_row p {e} a b" "settled_row p events b c"
  then show "settled_row p (insert e events) a c" using assms(3) by (auto simp: settled_row_def split: if_splits)
qed

text \<open>A claim as it was handed out, and still held at the instant it is settled.\<close>

definition handed_out :: "instant \<Rightarrow> callback_intent list \<Rightarrow> callback_intent \<Rightarrow> bool" where
  "handed_out now rows c = (c \<in> set rows \<and> held now (claimed_of c) c)"

lemma settle_one:
  assumes p: "retry_policy_valid p" and sent: "opt_all send_result_valid sent" and inv: "callbacks_inv rows"
    and c: "handed_out now rows c"
  obtains result rows1 where "settle_delivery p (claimed_of c) sent now rows = Inr (result, rows1)"
    and "result \<noteq> OUTCOME_LEASE_LOST" and "callbacks_inv rows1"
    and "list_all2 (settled_row p {ci_event c}) rows rows1"
proof -
  have in_rows: "c \<in> set rows" and h: "held now (claimed_of c) c" using c by (simp_all add: handed_out_def)
  then have "callback_check c" "ci_status c = CALLBACK_CLAIMED"
    using inv by (auto simp: callbacks_inv_def list_all_iff callback_good_def claim_held_def)
  then have a: "1 \<le> ct_attempts (claimed_of c)" by (simp add: callback_check_def claimed_of_def)
  obtain f result where f: "settlement p (claimed_of c) f result"
      "settle_delivery p (claimed_of c) sent now = settled_with now (claimed_of c) f result"
    by (rule settle_delivery_ok [OF p sent a])
  let ?h = "held now (claimed_of c)"
  have "filter ?h rows \<noteq> []" using in_rows h by (auto simp: filter_empty_conv)
  then have s: "settle_delivery p (claimed_of c) sent now rows = Inr (result, put_where ?h f rows)"
      and inv': "callbacks_inv (put_where ?h f rows)"
    using settled_with_ok [OF f(1) inv, of now] f(2) by simp_all
  have "settled_row p {ci_event c} x (if ?h x then f x else x)" if "x \<in> set rows" for x
  proof (cases "?h x")
    case True
    then have "x = c" using inv that in_rows distinct_key_eq [of ci_event rows x c]
      by (simp add: callbacks_inv_def claim_held_def claimed_of_def)
    moreover have "guard_callback_transition c (f c)"
      using f(1) in_rows h inv by (auto simp: settlement_def settles_def callbacks_inv_def list_all_iff claim_held_def)
    ultimately show ?thesis using f(1) True
      by (auto simp: settled_row_def settlement_def callback_settled_def guard_callback_transition_def claimed_of_def)
  next
    case False
    then have "ci_event x \<noteq> ci_event c"
      using h inv that in_rows distinct_key_eq [of ci_event rows x c] by (auto simp: callbacks_inv_def)
    then show ?thesis using False by (simp add: settled_row_def)
  qed
  then have "list_all2 (settled_row p {ci_event c}) rows (put_where ?h f rows)"
    by (auto simp: put_where_map list_all2_conv_all_nth)
  moreover have "result \<noteq> OUTCOME_LEASE_LOST" using f(1) by (auto simp: settlement_def)
  ultimately show thesis using that s inv' by blast
qed

lemma settle_batch_ok:
  assumes p: "retry_policy_valid p" and sends: "\<And>i. opt_all send_result_valid (fst (sends i))"
    and "callbacks_inv rows" and "distinct (map ci_event cs)"
    and "\<And>c. c \<in> set cs \<Longrightarrow> handed_out (snd (sends (claimed_of c))) rows c"
  shows "\<exists>outcomes rows'. settle_batch p sends (map claimed_of cs) rows = (Inr outcomes, rows')
    \<and> OUTCOME_LEASE_LOST \<notin> set outcomes \<and> callbacks_inv rows'
    \<and> list_all2 (settled_row p (ci_event ` set cs)) rows rows'"
  using assms(3-5)
proof (induction cs arbitrary: rows)
  case Nil
  then show ?case by (simp add: settled_row_def list_all2_refl)
next
  case (Cons c cs)
  obtain result rows1 where s: "settle_delivery p (claimed_of c) (fst (sends (claimed_of c))) (snd (sends (claimed_of c))) rows
        = Inr (result, rows1)" "result \<noteq> OUTCOME_LEASE_LOST" "callbacks_inv rows1"
      "list_all2 (settled_row p {ci_event c}) rows rows1"
    by (rule settle_one [OF p sends Cons.prems(1) Cons.prems(3) [OF list.set_intros(1)]])
  have "handed_out (snd (sends (claimed_of d))) rows1 d" if d: "d \<in> set cs" for d
  proof -
    have h: "handed_out (snd (sends (claimed_of d))) rows d" using Cons.prems(3) d by simp
    then obtain n where n: "n < length rows" "rows ! n = d" by (auto simp: handed_out_def in_set_conv_nth)
    have "ci_event d \<noteq> ci_event c" using Cons.prems(2) d by (force dest: sym)
    with n s(4) have "rows1 ! n = d" "n < length rows1" by (auto simp: list_all2_conv_all_nth settled_row_def)
    with h show ?thesis by (auto simp: handed_out_def)
  qed
  then obtain outcomes rows2 where r: "settle_batch p sends (map claimed_of cs) rows1 = (Inr outcomes, rows2)"
      "OUTCOME_LEASE_LOST \<notin> set outcomes" "callbacks_inv rows2" "list_all2 (settled_row p (ci_event ` set cs)) rows1 rows2"
    using Cons.IH [OF s(3)] Cons.prems(2) by auto
  have "ci_event c \<notin> ci_event ` set cs" using Cons.prems(2) by simp
  then have "list_all2 (settled_row p (ci_event ` set (c # cs))) rows rows2"
    using settled_row_step [OF s(4) r(4)] by simp
  moreover have "settle_batch p sends (map claimed_of (c # cs)) rows = (Inr (result # outcomes), rows2)"
    by (simp add: s(1) r(1))
  moreover have "OUTCOME_LEASE_LOST \<notin> set (result # outcomes)" using s(2) r(2) by simp
  ultimately show ?case using r(3) by blast
qed

lemma distinct_map_sort_key: "distinct (map g xs) \<Longrightarrow> distinct (map g (sort_key h xs))"
  by (simp add: distinct_map)

text \<open>Requests answered, and settled, while the lease of their poll lasts.\<close>

definition timely_sends :: "consumer \<Rightarrow> instant \<Rightarrow> (claimed_intent \<Rightarrow> send_result option \<times> instant) \<Rightarrow> bool" where
  "timely_sends k now sends = (\<forall>i. opt_all send_result_valid (fst (sends i)) \<and> snd (sends i) < now + co_lease k)"

text \<open>What such a poll makes of a row: it is left alone or loses an attempt.\<close>

definition polled_row :: "consumer \<Rightarrow> (callback_intent \<Rightarrow> bool) \<Rightarrow> callback_intent \<Rightarrow> callback_intent \<Rightarrow> bool" where
  "polled_row k chosen c d = (if chosen c
     then ci_attempts d = ci_attempts c + 1 \<and> (callback_settled d \<or> (ci_status d = CALLBACK_RETRY_WAIT
       \<and> ci_attempts d < rp_max_attempts (co_policy k)))
     else d = c)"

lemma run_once_ok:
  assumes k: "consumer_valid k" and inv: "callbacks_inv rows" and sends: "timely_sends k now sends"
  shows "\<exists>b rows'. run_once k tokens now sends rows = (Inr b, rows') \<and> db_lease_lost b = 0 \<and> callbacks_inv rows'
    \<and> list_all2 (polled_row k (chosen_row k now rows)) rows rows'"
proof -
  let ?q = "chosen_row k now rows" and ?f = "consumer_claim k tokens now"
  let ?rows1 = "put_where ?q ?f rows" and ?cs = "sort_key claim_order (map ?f (filter ?q rows))"
  note claim = claim_batch_ok [OF k inv, where tokens = tokens and now = now]
  have ev: "ci_event (?f c) = ci_event c" "ci_attempts (?f c) = ci_attempts c + 1" for c
    by (simp_all add: consumer_claim_def claimed_row_def)
  have lease: "seconds (co_lease k div 1000000) = co_lease k"
    using k by (auto simp: consumer_valid_def seconds_def)
  have "map ci_event (map ?f (filter ?q rows)) = map ci_event (filter ?q rows)" by (simp add: ev)
  moreover have "distinct (map ci_event (filter ?q rows))" using inv by (simp add: callbacks_inv_def distinct_map_filter)
  ultimately have "distinct (map ci_event (map ?f (filter ?q rows)))" by (simp only:)
  then have d: "distinct (map ci_event ?cs)" by (rule distinct_map_sort_key)
  have "handed_out (snd (sends (claimed_of c))) ?rows1 c" if "c \<in> set ?cs" for c
  proof -
    from that obtain c0 where c0: "c0 \<in> set rows" "?q c0" "c = ?f c0" by auto
    then have "c \<in> set ?rows1" by (auto simp: set_put_where)
    then show ?thesis using sends c0(3)
      by (simp add: handed_out_def claim_held_def claimed_of_def consumer_claim_def claimed_row_def lease timely_sends_def)
  qed
  from settle_batch_ok [where sends = sends, OF consumer_policy [OF k] _ claim(2) d this] sends
  obtain outcomes rows2 where b: "settle_batch (co_policy k) sends (map claimed_of ?cs) ?rows1 = (Inr outcomes, rows2)"
      "OUTCOME_LEASE_LOST \<notin> set outcomes" "callbacks_inv rows2"
      "list_all2 (settled_row (co_policy k) (ci_event ` set ?cs)) ?rows1 rows2"
    by (auto simp: timely_sends_def)
  have "run_once k tokens now sends rows = (Inr (batch_of outcomes), rows2)"
    by (simp add: run_once_def claim(1) b(1))
  moreover have "db_lease_lost (batch_of outcomes) = 0" using b(2) by (simp add: batch_of_def count_list_0_iff)
  moreover have "list_all2 (polled_row k ?q) rows rows2"
  proof -
    have len: "length rows2 = length rows" using b(4) by (auto dest: list_all2_lengthD)
    have "polled_row k ?q (rows ! n) (rows2 ! n)" if n: "n < length rows" for n
    proof -
      have s: "settled_row (co_policy k) (ci_event ` set ?cs) (?rows1 ! n) (rows2 ! n)"
        using b(4) n by (simp add: list_all2_conv_all_nth)
      have r: "?rows1 ! n = (if ?q (rows ! n) then ?f (rows ! n) else rows ! n)" using n by (simp add: put_where_map)
      have "ci_event (rows ! n) \<in> ci_event ` set ?cs \<longleftrightarrow> ?q (rows ! n)"
        using n by (auto simp: ev image_image chosen_row_def intro!: image_eqI [of _ _ "rows ! n"])
      then show ?thesis using s r by (auto simp: settled_row_def polled_row_def ev split: if_splits)
    qed
    then show ?thesis using len by (simp add: list_all2_conv_all_nth)
  qed
  ultimately show ?thesis using b(3) by blast
qed

subsection \<open>The attempts that are left\<close>

definition callback_work :: "int \<Rightarrow> callback_intent \<Rightarrow> nat" where
  "callback_work m c = (if callback_settled c then 0 else nat (max 1 (m - ci_attempts c)))"

definition total_work :: "int \<Rightarrow> callback_intent list \<Rightarrow> nat" where
  "total_work m rows = sum_list (map (callback_work m) rows)"

lemma callback_work_0: "callback_work m c = 0 \<longleftrightarrow> callback_settled c"
  by (simp add: callback_work_def)

lemma total_work_0: "total_work m rows = 0 \<longleftrightarrow> list_all callback_settled rows"
  by (auto simp: total_work_def callback_work_0 list_all_iff)

lemma total_work_bound:
  assumes "callbacks_inv rows" and "1 \<le> m"
  shows "total_work m rows \<le> nat m * length rows"
proof -
  have "callback_work m c \<le> nat m" if "c \<in> set rows" for c
    using that assms by (auto simp: callback_work_def callbacks_inv_def list_all_iff callback_good_def callback_check_def)
  then have "total_work m rows \<le> sum_list (map (\<lambda>_. nat m) rows)" unfolding total_work_def by (rule sum_list_mono)
  then show ?thesis by (simp add: sum_list_triv mult.commute)
qed

lemma polled_row_work:
  assumes "polled_row k q c d" and "q c \<longrightarrow> \<not> callback_settled c"
  shows "callback_work (rp_max_attempts (co_policy k)) d
    + (if q c then 1 else 0) \<le> callback_work (rp_max_attempts (co_policy k)) c"
  using assms by (auto simp: polled_row_def callback_work_def callback_settled_def max_def)

lemma sum_list_decreases:
  assumes "list_all2 (\<lambda>c d. g d + (if q c then 1 else 0) \<le> (h c :: nat)) xs ys"
  shows "sum_list (map g ys) + length (filter q xs) \<le> sum_list (map h xs)"
  using assms by (induction xs ys rule: list_all2_induct) auto

lemma chosen_when_due:
  assumes "consumer_valid k" and "c \<in> set rows" and "callback_due now c"
  shows "filter (chosen_row k now rows) rows \<noteq> []"
proof -
  let ?s = "sort_key claim_order (rows_matching (callback_due now) rows)"
  have "?s \<noteq> []" using assms(2,3) by (auto simp: rows_matching_def filter_empty_conv simp flip: set_empty)
  moreover have "0 < nat (co_batch_size k)" using assms(1) by (simp add: consumer_valid_def)
  ultimately have "hd ?s \<in> set (take (nat (co_batch_size k)) ?s)" by (cases ?s; cases "nat (co_batch_size k)") auto
  moreover have "hd ?s \<in> set rows" using hd_in_set [OF \<open>?s \<noteq> []\<close>] by (auto simp: rows_matching_def)
  ultimately have "hd ?s \<in> set rows \<and> chosen_row k now rows (hd ?s)"
    by (auto simp: chosen_row_def claim_candidates_def)
  then show ?thesis by (auto simp: filter_empty_conv)
qed

lemma chosen_open:
  "callbacks_inv rows \<Longrightarrow> c \<in> set rows \<Longrightarrow> chosen_row k now rows c \<longrightarrow> \<not> callback_settled c"
  using candidate_due [of rows c now "co_batch_size k"] due_status [of now c]
  by (auto simp: chosen_row_def callback_settled_def)

text \<open>A poll while anything is due uses up work.\<close>

lemma poll_uses_work:
  assumes inv: "callbacks_inv rows" and l: "list_all2 (polled_row k (chosen_row k now rows)) rows rows'"
  shows "total_work (rp_max_attempts (co_policy k)) rows' + length (filter (chosen_row k now rows) rows)
    \<le> total_work (rp_max_attempts (co_policy k)) rows"
proof -
  let ?w = "callback_work (rp_max_attempts (co_policy k))"
  have "list_all2 (\<lambda>c d. ?w d + (if chosen_row k now rows c then 1 else 0) \<le> ?w c) rows rows'"
    by (rule list.rel_mono_strong [OF l]) (rule polled_row_work [OF _ chosen_open [OF inv]])
  from sum_list_decreases [OF this] show ?thesis by (simp add: total_work_def)
qed

subsection \<open>Polling\<close>

type_synonym poll = "(uuid \<Rightarrow> uuid) \<times> instant \<times> (claimed_intent \<Rightarrow> send_result option \<times> instant)"

fun run_polls :: "consumer \<Rightarrow> poll list \<Rightarrow> callback_intent list \<Rightarrow> (failure + delivery_batch) list \<times> callback_intent list" where
  "run_polls k [] rows = ([], rows)"
| "run_polls k ((tokens, now, sends) # polls) rows = (case run_once k tokens now sends rows of
     (b, rows1) \<Rightarrow> (case run_polls k polls rows1 of (bs, rows2) \<Rightarrow> (b # bs, rows2)))"

text \<open>Every poll waits until each open callback is due, and settles in time.\<close>

fun timely_polls :: "consumer \<Rightarrow> poll list \<Rightarrow> callback_intent list \<Rightarrow> bool" where
  "timely_polls k [] rows = True"
| "timely_polls k ((tokens, now, sends) # polls) rows =
     (list_all (\<lambda>c. callback_settled c \<or> callback_due now c) rows \<and> timely_sends k now sends
      \<and> timely_polls k polls (snd (run_once k tokens now sends rows)))"

text \<open>A settled row stays, and no row is attempted more often than the policy allows.\<close>

definition attempts_kept :: "int \<Rightarrow> callback_intent \<Rightarrow> callback_intent \<Rightarrow> bool" where
  "attempts_kept m c d = ((callback_settled c \<longrightarrow> d = c) \<and> (ci_attempts c < m \<longrightarrow> ci_attempts d \<le> m))"

lemma polled_row_attempts:
  assumes "polled_row k q c d" and "q c \<longrightarrow> \<not> callback_settled c" and "attempts_kept (rp_max_attempts (co_policy k)) d e"
  shows "attempts_kept (rp_max_attempts (co_policy k)) c e"
  using assms by (auto simp: polled_row_def attempts_kept_def split: if_splits)

lemma polls_settle:
  assumes "consumer_valid k" and "callbacks_inv rows" and "timely_polls k polls rows"
    and "total_work (rp_max_attempts (co_policy k)) rows \<le> length polls"
  shows "\<exists>bs rows'. run_polls k polls rows = (bs, rows') \<and> list_all callback_settled rows'
    \<and> list_all (\<lambda>r. \<exists>b. r = Inr b \<and> db_lease_lost b = 0) bs
    \<and> list_all2 (attempts_kept (rp_max_attempts (co_policy k))) rows rows'"
  using assms(2-4)
proof (induction polls arbitrary: rows)
  case Nil
  then show ?case by (simp add: total_work_0 list_all2_refl attempts_kept_def)
next
  case (Cons x polls)
  let ?m = "rp_max_attempts (co_policy k)"
  obtain tokens now sends where x: "x = (tokens, now, sends)" by (cases x) auto
  have due: "list_all (\<lambda>c. callback_settled c \<or> callback_due now c) rows" and sends: "timely_sends k now sends"
      and rest: "timely_polls k polls (snd (run_once k tokens now sends rows))"
    using Cons.prems(2) by (simp_all add: x)
  obtain b rows1 where r: "run_once k tokens now sends rows = (Inr b, rows1)" "db_lease_lost b = 0" "callbacks_inv rows1"
      and l: "list_all2 (polled_row k (chosen_row k now rows)) rows rows1"
    using run_once_ok [OF assms(1) Cons.prems(1) sends] by blast
  have "total_work ?m rows1 \<le> length polls"
  proof (cases "list_all callback_settled rows")
    case True
    then have "total_work ?m rows = 0" by (simp only: total_work_0)
    then show ?thesis using poll_uses_work [OF Cons.prems(1) l] by simp
  next
    case False
    then obtain c where "c \<in> set rows" "callback_due now c" using due by (auto simp: list_all_iff)
    from chosen_when_due [OF assms(1) this] poll_uses_work [OF Cons.prems(1) l] Cons.prems(3)
    show ?thesis by (cases "filter (chosen_row k now rows) rows") simp_all
  qed
  from Cons.IH [OF r(3) _ this] rest r(1) obtain bs rows2 where
      ih: "run_polls k polls rows1 = (bs, rows2)" "list_all callback_settled rows2"
        "list_all (\<lambda>r. \<exists>b. r = Inr b \<and> db_lease_lost b = 0) bs"
        "list_all2 (attempts_kept ?m) rows1 rows2"
    by auto
  let ?q = "chosen_row k now rows"
  have "list_all2 (\<lambda>c d. polled_row k ?q c d \<and> (?q c \<longrightarrow> \<not> callback_settled c)) rows rows1"
    using chosen_open [OF Cons.prems(1)] by (intro list.rel_mono_strong [OF l] conjI)
  then have "list_all2 (attempts_kept ?m) rows rows2"
    by (rule list_all2_trans [rotated, OF _ ih(4)]) (blast intro: polled_row_attempts)
  then show ?case using ih r(1,2) by (simp add: x)
qed


end
