(* ===== verification/Callback_Signing.thy ===== *)
theory Callback_Signing
  imports Gate_Callbacks Wire_Time
begin

text \<open>
  The signed event a gate callback carries (\<^verbatim>\<open>domain/result/callbacks.py\<close>), its signature and
  the request that delivers it (\<^verbatim>\<open>infrastructure/result_callbacks.py\<close>).  \<open>M\<close> stands for
  HMAC-SHA256 under the process's key, bytes are characters; the HTTP client is an argument.
\<close>

subsection \<open>Base64\<close>

text \<open>\<open>urlsafe_b64encode\<close> and \<open>urlsafe_b64decode\<close>; a character outside the alphabet, which the
  pattern of a signature excludes, is an error here.\<close>

definition b64_char :: "nat \<Rightarrow> char" where
  "b64_char n = (if n < 26 then char_of (65 + n) else if n < 52 then char_of (71 + n)
     else if n < 62 then char_of (n - 4) else if n = 62 then CHR ''-'' else CHR ''_'')"

definition b64_value :: "char \<Rightarrow> nat option" where
  "b64_value c = (let n = (of_char c :: nat) in
     if is_upper c then Some (n - 65) else if is_lower c then Some (n - 71)
     else if is_digit c then Some (n + 4) else if c = CHR ''-'' then Some 62
     else if c = CHR ''_'' then Some 63 else None)"

fun b64_encode :: "string \<Rightarrow> string" where
  "b64_encode (a # b # c # r) = (let x = of_char a; y = of_char b; z = of_char c in
     b64_char (x div 4) # b64_char (x mod 4 * 16 + y div 16) # b64_char (y mod 16 * 4 + z div 64)
     # b64_char (z mod 64) # b64_encode r)"
| "b64_encode [a, b] = (let x = of_char a; y = of_char b in
     [b64_char (x div 4), b64_char (x mod 4 * 16 + y div 16), b64_char (y mod 16 * 4), CHR ''=''])"
| "b64_encode [a] = (let x = of_char a in [b64_char (x div 4), b64_char (x mod 4 * 16), CHR ''='', CHR ''=''])"
| "b64_encode [] = []"

fun b64_decode :: "string \<Rightarrow> string option" where
  "b64_decode [] = Some []"
| "b64_decode (p # q # r # s # rest) =
     (case (b64_value p, b64_value q) of
        (Some v, Some w) \<Rightarrow>
          let first = char_of (v * 4 + w div 16) in
          if r = CHR ''='' then (if s = CHR ''='' \<and> rest = [] then Some [first] else None)
          else (case b64_value r of None \<Rightarrow> None
            | Some x \<Rightarrow> let second = char_of (w mod 16 * 16 + x div 4) in
                if s = CHR ''='' then (if rest = [] then Some [first, second] else None)
                else (case (b64_value s, b64_decode rest) of
                    (Some y, Some bytes) \<Rightarrow> Some (first # second # char_of (x mod 4 * 64 + y) # bytes)
                  | _ \<Rightarrow> None))
      | _ \<Rightarrow> None)"
| "b64_decode _ = None"

definition b64url :: "string \<Rightarrow> string" where
  "b64url bytes = rev (dropWhile (\<lambda>c. c = CHR ''='') (rev (b64_encode bytes)))"

definition b64url_decode :: "string \<Rightarrow> string option" where
  "b64url_decode s = (if length s \<noteq> 43 then None else b64_decode (s @ ''=''))"

subsection \<open>Events\<close>

record event_content =
  ce_event :: uuid
  ce_run :: uuid
  ce_manifest_hash :: string
  ce_decision :: gate_verdict
  ce_timestamp :: instant

record callback_event = event_content +
  ce_signature :: string

text \<open>The instants a \<open>datetime\<close> can hold, from the year 1 to 9999.\<close>

definition datetime_range :: "instant \<Rightarrow> bool" where
  "datetime_range t = (- seconds 62135596800 \<le> t \<and> t < seconds 253402300800)"

definition event_content_valid :: "'a event_content_scheme \<Rightarrow> bool" where
  "event_content_valid c = (ce_event c < 2 ^ 128 \<and> ce_run c < 2 ^ 128 \<and> digest_pattern (ce_manifest_hash c)
     \<and> datetime_range (ce_timestamp c) \<and> ce_timestamp c mod 1000000 = 0)"

definition signature_pattern :: "string \<Rightarrow> bool" where
  "signature_pattern s = (take 12 s = ''hmac-sha256:'' \<and> length s = 55 \<and> list_all (alnum_or ''_-'') (drop 12 s))"

definition callback_event_valid :: "callback_event \<Rightarrow> bool" where
  "callback_event_valid e = (event_content_valid e \<and> signature_pattern (ce_signature e))"

text \<open>\<open>str.replace\<close> of the offset.\<close>

function replace_offset :: "string \<Rightarrow> string" where
  "replace_offset s = (if take 6 s = ''+00:00'' then CHR ''Z'' # replace_offset (drop 6 s)
     else case s of [] \<Rightarrow> [] | c # cs \<Rightarrow> c # replace_offset cs)"
  by auto
termination
proof (relation "measure length")
  fix s :: string
  assume "take 6 s = ''+00:00''"
  then have "s \<noteq> []" by auto
  then show "(drop 6 s, s) \<in> measure length" by simp
qed auto

declare replace_offset.simps [simp del]

definition join_lines :: "string list \<Rightarrow> string" where
  "join_lines ls = (case ls of [] \<Rightarrow> [] | l # rest \<Rightarrow> l @ concat (map (\<lambda>x. CHR 0x0A # x) rest))"

definition task_gate_callback_signing_bytes :: "'a event_content_scheme \<Rightarrow> string" where
  "task_gate_callback_signing_bytes c = join_lines [''ATLAS-TASK-GATE-CALLBACK-V1'', uuid_text (ce_event c),
     uuid_text (ce_run c), ce_manifest_hash c, gate_verdict_text (ce_decision c),
     replace_offset (isoformat (ce_timestamp c))]"

text \<open>The request body, its keys in order.\<close>

definition callback_document :: "callback_event \<Rightarrow> json" where
  "callback_document e = JObject [(''eventId'', uuid_json (ce_event e)),
     (''gateDecision'', JString (gate_verdict_text (ce_decision e))),
     (''manifestHash'', JString (ce_manifest_hash e)), (''signature'', JString (ce_signature e)),
     (''taskRunId'', uuid_json (ce_run e)), (''timestamp'', JString (pydantic_time (ce_timestamp e)))]"

subsection \<open>Signatures\<close>

type_synonym mac = "string \<Rightarrow> string"

definition sign_event :: "mac \<Rightarrow> event_content \<Rightarrow> callback_event" where
  "sign_event M c = event_content.extend c
     (callback_event.fields (''hmac-sha256:'' @ b64url (M (task_gate_callback_signing_bytes c))))"

text \<open>\<open>None\<close> is the authentication error.\<close>

definition verify_event :: "mac \<Rightarrow> int \<Rightarrow> callback_event \<Rightarrow> instant \<Rightarrow> callback_event option" where
  "verify_event M replay_window e now =
     (if \<not> callback_event_valid e then None
      else case b64url_decode (drop 12 (ce_signature e)) of
        None \<Rightarrow> None
      | Some supplied \<Rightarrow>
          if replay_window < \<bar>now - ce_timestamp e\<bar> then None
          else if supplied \<noteq> M (task_gate_callback_signing_bytes e) then None
          else Some e)"

subsection \<open>The request\<close>

datatype transport_result = Responded int | TransportError | UnexpectedError

definition response_result :: "int \<Rightarrow> send_result" where
  "response_result n =
     (if 200 \<le> n \<and> n \<le> 299
      then \<lparr>sr_status = SEND_DELIVERED, sr_error = None, sr_response = Some n\<rparr>
      else if n \<in> {408, 425, 429} \<or> (500 \<le> n \<and> n \<le> 599)
      then \<lparr>sr_status = SEND_RETRYABLE, sr_error = Some ''TASK_GATE_CALLBACK_HTTP_RETRYABLE'', sr_response = Some n\<rparr>
      else \<lparr>sr_status = SEND_PERMANENT_FAILURE, sr_error = Some ''TASK_GATE_CALLBACK_HTTP_REJECTED'',
            sr_response = Some n\<rparr>)"

definition event_of_claim :: "claimed_intent \<Rightarrow> instant \<Rightarrow> event_content" where
  "event_of_claim i clock = \<lparr>ce_event = ct_event i, ce_run = sc_run (ct_scope i),
     ce_manifest_hash = ct_manifest_hash i, ce_decision = ct_decision i,
     ce_timestamp = clock - clock mod 1000000\<rparr>"

text \<open>\<open>None\<close> when it raises; a result that is not well formed is a \<open>ValueError\<close>.\<close>

definition send_callback ::
    "mac \<Rightarrow> (json \<Rightarrow> transport_result) \<Rightarrow> claimed_intent \<Rightarrow> instant \<Rightarrow> send_result option" where
  "send_callback M post i clock = (let c = event_of_claim i clock in
     if \<not> (event_content_valid c \<and> callback_event_valid (sign_event M c))
     then Some \<lparr>sr_status = SEND_PERMANENT_FAILURE, sr_error = Some ''TASK_GATE_CALLBACK_EVENT_INVALID'',
       sr_response = None\<rparr>
     else case post (callback_document (sign_event M c)) of
       UnexpectedError \<Rightarrow> None
     | TransportError \<Rightarrow> Some \<lparr>sr_status = SEND_RETRYABLE,
         sr_error = Some ''TASK_GATE_CALLBACK_TRANSPORT_ERROR'', sr_response = None\<rparr>
     | Responded n \<Rightarrow> if send_result_valid (response_result n) then Some (response_result n) else None)"

end
