(* ===== verification/Wire_Dates.thy ===== *)
theory Wire_Dates
  imports Wire_Time
begin

text \<open>
  A date's text determines it: the calendar of \<open>civil_date\<close> is one to one, and so are the texts
  \<open>whole_seconds_text\<close> writes for instants from the year zero on.
\<close>

subsection \<open>The calendar\<close>

text \<open>The year of an era and the day of a year stay in their ranges.\<close>

lemma era_ranges:
  fixes doe :: int
  assumes "0 \<le> doe" and "doe < 146097"
  defines "y \<equiv> (doe - doe div 1460 + doe div 36524 - doe div 146096) div 365"
  defines "doy \<equiv> doe - (365 * y + y div 4 - y div 100)"
  shows "0 \<le> y \<and> y < 400 \<and> 0 \<le> doy \<and> doy < 366"
proof (cases "doe = 146096")
  case True
  then show ?thesis by (simp add: y_def doy_def)
next
  case False
  define a b where "a = doe div 1460" and "b = doe div 36524"
  have c: "doe div 146096 = 0" using assms(1,2) False by (intro div_pos_pos_trivial) simp_all
  have a: "1460 * a \<le> doe" "doe < 1460 * a + 1460" unfolding a_def
    using div_mult_mod_eq [of doe 1460] pos_mod_bound [of 1460 doe] pos_mod_sign [of 1460 doe] by linarith+
  have b: "36524 * b \<le> doe" "doe < 36524 * b + 36524" unfolding b_def
    using div_mult_mod_eq [of doe 36524] pos_mod_bound [of 36524 doe] pos_mod_sign [of 36524 doe] by linarith+
  define n where "n = doe - a + b"
  have y: "y = n div 365" by (simp add: y_def n_def a_def b_def c)
  define q4 q100 where "q4 = y div 4" and "q100 = y div 100"
  have n: "365 * y \<le> n" "n < 365 * y + 365" unfolding y
    using div_mult_mod_eq [of n 365] pos_mod_bound [of 365 n] pos_mod_sign [of 365 n] by linarith+
  have q4: "4 * q4 \<le> y" "y < 4 * q4 + 4" unfolding q4_def
    using div_mult_mod_eq [of y 4] pos_mod_bound [of 4 y] pos_mod_sign [of 4 y] by linarith+
  have q100: "100 * q100 \<le> y" "y < 100 * q100 + 100" unfolding q100_def
    using div_mult_mod_eq [of y 100] pos_mod_bound [of 100 y] pos_mod_sign [of 100 y] by linarith+
  have doy: "doy = doe - (365 * y + q4 - q100)" by (simp add: doy_def q4_def q100_def)
  have b3: "0 \<le> b" "b \<le> 3" using b assms False by linarith+
  have ba: "b \<le> a" using a b assms(1) by linarith
  have top: "n < 146000" using a b3 assms False unfolding n_def by linarith
  have y0: "0 \<le> y" "y < 400" using n top b3 assms(1) a unfolding n_def by linarith+
  have aq: "q4 \<le> a" using n q4 ba a unfolding n_def by linarith
  have q25: "25 * q100 \<le> q4" using q4 q100 by linarith
  have bq: "q100 \<le> b" using n q100 b aq q25 unfolding n_def by linarith
  have qb: "b \<le> q100"
  proof -
    have "b = 0 \<or> b = 1 \<or> b = 2 \<or> b = 3" using b3 by linarith
    then show ?thesis using a b n q100 y0 unfolding n_def by (elim disjE) linarith+
  qed
  have a1: "a \<le> q4 + 1" using n q4 y0 a b3 unfolding n_def by linarith
  have "0 \<le> doy" using doy n aq qb bq unfolding n_def by linarith
  moreover have "doy < 366" using doy n a1 bq unfolding n_def by linarith
  ultimately show ?thesis using y0 by simp
qed

definition march_day :: "int \<Rightarrow> int" where
  "march_day mp = (153 * mp + 2) div 5"

lemma civil_date_decode:
  assumes "civil_date days = (year, month, day)"
  obtains era y doy mp where "0 \<le> y" "y < 400" "0 \<le> doy" "mp = (5 * doy + 2) div 153" "0 \<le> mp" "mp < 12"
    "days + 719468 = era * 146097 + (365 * y + y div 4 - y div 100) + doy" "day = doy - march_day mp + 1"
    "month = (if mp < 10 then mp + 3 else mp - 9)" "year = y + era * 400 + (if month \<le> 2 then 1 else 0)"
    "era = (days + 719468) div 146097"
proof -
  define z where "z = days + 719468"
  define era doe where "era = z div 146097" and "doe = z mod 146097"
  define y where "y = (doe - doe div 1460 + doe div 36524 - doe div 146096) div 365"
  define doy where "doy = doe - (365 * y + y div 4 - y div 100)"
  define mp where "mp = (5 * doy + 2) div 153"
  define m where "m = (if mp < 10 then mp + 3 else mp - 9)"
  have doe: "0 \<le> doe" "doe < 146097" by (simp_all add: doe_def)
  have r: "0 \<le> y \<and> y < 400 \<and> 0 \<le> doy \<and> doy < 366"
    unfolding doy_def y_def by (rule era_ranges [OF doe])
  have "153 * mp + (5 * doy + 2) mod 153 = 5 * doy + 2" "0 \<le> (5 * doy + 2) mod 153" "(5 * doy + 2) mod 153 < 153"
    unfolding mp_def by simp_all
  then have mp: "0 \<le> mp" "mp < 12" using r by linarith+
  have "civil_date days = (y + era * 400 + (if m \<le> 2 then 1 else 0), m, doy - march_day mp + 1)"
    by (simp only: civil_date_def Let_def z_def era_def doe_def y_def doy_def mp_def march_day_def m_def)
  then have e: "year = y + era * 400 + (if m \<le> 2 then 1 else 0)" "month = m" "day = doy - march_day mp + 1"
    using assms by simp_all
  have "z = era * 146097 + doe" by (simp add: era_def doe_def)
  then have z: "days + 719468 = era * 146097 + (365 * y + y div 4 - y div 100) + doy" by (simp add: z_def doy_def)
  have y: "0 \<le> y" "y < 400" "0 \<le> doy" using r by simp_all
  show thesis
    by (rule that [OF y mp_def mp z e(3) e(2) [unfolded m_def] e(1) [folded e(2)] era_def [unfolded z_def]])
qed

lemma civil_date_inject:
  assumes "civil_date d = civil_date e"
  shows "d = e"
proof -
  obtain year month day where c: "civil_date d = (year, month, day)" by (cases "civil_date d")
  obtain era y doy mp where p: "0 \<le> y" "y < 400" "0 \<le> mp" "mp < 12"
      "d + 719468 = era * 146097 + (365 * y + y div 4 - y div 100) + doy" "day = doy - march_day mp + 1"
      "month = (if mp < 10 then mp + 3 else mp - 9)" "year = y + era * 400 + (if month \<le> 2 then 1 else 0)"
    by (rule civil_date_decode [OF c])
  obtain era' y' doy' mp' where q: "0 \<le> y'" "y' < 400" "0 \<le> mp'" "mp' < 12"
      "e + 719468 = era' * 146097 + (365 * y' + y' div 4 - y' div 100) + doy'" "day = doy' - march_day mp' + 1"
      "month = (if mp' < 10 then mp' + 3 else mp' - 9)" "year = y' + era' * 400 + (if month \<le> 2 then 1 else 0)"
    by (rule civil_date_decode [OF c [unfolded assms]])
  have mp: "mp = mp'" using p(3,4,7) q(3,4,7) by (auto split: if_splits)
  then have doy: "doy = doy'" using p(6) q(6) by simp
  have "y + era * 400 = y' + era' * 400" using p(8) q(8) by simp
  then have "era = era'" using p(1,2) q(1,2) by linarith
  moreover from this \<open>y + era * 400 = _\<close> have "y = y'" by simp
  moreover note doy
  ultimately show ?thesis using p(5) q(5) by simp
qed

text \<open>The year is not negative from the year zero on.\<close>

lemma civil_date_positive:
  assumes c: "civil_date days = (year, month, day)" and "- 719468 \<le> days"
  shows "0 \<le> year \<and> 0 < month \<and> 0 < day"
proof -
  obtain era y doy mp where p: "0 \<le> y" "y < 400" "0 \<le> doy" "mp = (5 * doy + 2) div 153" "0 \<le> mp" "mp < 12"
      "day = doy - march_day mp + 1" "month = (if mp < 10 then mp + 3 else mp - 9)"
      "year = y + era * 400 + (if month \<le> 2 then 1 else 0)" "era = (days + 719468) div 146097"
    by (rule civil_date_decode [OF c])
  have "153 * mp \<le> 5 * doy + 2" unfolding p(4)
    using div_mult_mod_eq [of "5 * doy + 2" 153] pos_mod_sign [of 153 "5 * doy + 2"] by linarith
  moreover have "5 * march_day mp \<le> 153 * mp + 2" unfolding march_day_def
    using div_mult_mod_eq [of "153 * mp + 2" 5] pos_mod_sign [of 5 "153 * mp + 2"] by linarith
  ultimately have "0 < day" using p(7) by linarith
  moreover have "0 \<le> era" unfolding p(10) using assms(2) by (intro div_int_pos_iff [THEN iffD2]) simp
  then have "0 \<le> year" using p(1,9) by simp
  moreover have "0 < month" using p(5,8) by simp
  ultimately show ?thesis by simp
qed

subsection \<open>Its text\<close>

lemma digits_before:
  assumes "xs @ c # r = ys @ d # t" and "list_all is_digit xs" and "list_all is_digit ys" and "\<not> is_digit c" and "\<not> is_digit d"
  shows "xs = ys \<and> c = d \<and> r = t"
  using assms
proof (induction xs arbitrary: ys)
  case Nil
  then show ?case by (cases ys) auto
next
  case (Cons x xs)
  then show ?case by (cases ys) auto
qed

lemma padded_digits: "0 \<le> n \<Longrightarrow> list_all is_digit (padded w n)"
  using dec_text_digits [of "nat n"] by (auto simp: padded_def int_text_def Let_def list_all_iff is_digit_def)

lemma dec_value_zeros: "dec_value (replicate k (CHR ''0'') @ s) = dec_value s"
proof (induction s rule: rev_induct)
  case Nil
  have "dec_value (replicate k (CHR ''0'')) = 0"
    by (induction k) (simp_all add: dec_value_def digit_value_def)
  then show ?case by simp
next
  case (snoc c s)
  then show ?case by (simp flip: append_assoc)
qed

lemma padded_inject: "padded w m = padded v n \<Longrightarrow> 0 \<le> m \<Longrightarrow> 0 \<le> n \<Longrightarrow> m = n"
proof -
  have v: "dec_value (padded w n) = nat n" if "0 \<le> n" for w n
    using that by (simp add: padded_def int_text_def Let_def dec_value_zeros)
  show "padded w m = padded v n \<Longrightarrow> 0 \<le> m \<Longrightarrow> 0 \<le> n \<Longrightarrow> m = n" using v by (metis int_nat_eq)
qed

lemma clock_parts:
  fixes r :: int
  assumes "0 \<le> r" and "r < 86400"
  shows "0 \<le> r div 3600" and "0 \<le> r div 60 mod 60" and "0 \<le> r mod 60"
    and "r = 3600 * (r div 3600) + 60 * (r div 60 mod 60) + r mod 60"
proof -
  show "0 \<le> r div 3600" "0 \<le> r div 60 mod 60" "0 \<le> r mod 60" using assms by (simp_all add: pos_imp_zdiv_nonneg_iff)
  have "r div 3600 = r div 60 div 60" by (simp add: zdiv_zmult2_eq)
  moreover have "r div 60 = 60 * (r div 60 div 60) + r div 60 mod 60" "r = 60 * (r div 60) + r mod 60" by simp_all
  ultimately show "r = 3600 * (r div 3600) + 60 * (r div 60 mod 60) + r mod 60" by linarith
qed

text \<open>The date and the time of day of an instant.\<close>

definition day_of :: "instant \<Rightarrow> int" where
  "day_of t = t div 1000000 div 86400"

definition clock_of :: "instant \<Rightarrow> int" where
  "clock_of t = t div 1000000 mod 86400"

lemma clock_range: "0 \<le> clock_of t" "clock_of t < 86400"
  by (simp_all add: clock_of_def)

lemma whole_seconds_shape:
  assumes "civil_date (day_of t) = (y, m, d)"
  shows "whole_seconds_text t = padded 4 y @ CHR ''-'' # padded 2 m @ CHR ''-'' # padded 2 d @ CHR ''T''
    # padded 2 (clock_of t div 3600) @ CHR '':'' # padded 2 (clock_of t div 60 mod 60) @ CHR '':'' # padded 2 (clock_of t mod 60)"
  using assms by (simp add: whole_seconds_text_def Let_def day_of_def clock_of_def)

lemma separators: "\<not> is_digit (CHR ''-'')" "\<not> is_digit (CHR ''T'')" "\<not> is_digit (CHR '':'')"
  by (simp_all add: is_digit_def)

lemma whole_seconds_inject:
  assumes "- 719468 \<le> day_of t" and "- 719468 \<le> day_of u" and "whole_seconds_text t = whole_seconds_text u"
  shows "t div 1000000 = u div 1000000"
proof -
  obtain y m d where t: "civil_date (day_of t) = (y, m, d)" by (cases "civil_date (day_of t)")
  obtain y' m' d' where u: "civil_date (day_of u) = (y', m', d')" by (cases "civil_date (day_of u)")
  have p: "0 \<le> y" "0 \<le> m" "0 \<le> d" "0 \<le> y'" "0 \<le> m'" "0 \<le> d'"
    using civil_date_positive [OF t assms(1)] civil_date_positive [OF u assms(2)] by simp_all
  note ct = clock_parts [OF clock_range [of t]] and cu = clock_parts [OF clock_range [of u]]
  note digits = p(1-6) [THEN padded_digits] ct(1-3) [THEN padded_digits] cu(1-3) [THEN padded_digits]
  have "padded 4 y @ CHR ''-'' # padded 2 m @ CHR ''-'' # padded 2 d @ CHR ''T''
      # padded 2 (clock_of t div 3600) @ CHR '':'' # padded 2 (clock_of t div 60 mod 60) @ CHR '':'' # padded 2 (clock_of t mod 60)
    = padded 4 y' @ CHR ''-'' # padded 2 m' @ CHR ''-'' # padded 2 d' @ CHR ''T''
      # padded 2 (clock_of u div 3600) @ CHR '':'' # padded 2 (clock_of u div 60 mod 60) @ CHR '':'' # padded 2 (clock_of u mod 60)"
    using assms(3) unfolding whole_seconds_shape [OF t] whole_seconds_shape [OF u] .
  from digits_before [OF this digits(1,4) separators(1,1)] obtain e1: "padded 4 y = padded 4 y'" and
    "padded 2 m @ CHR ''-'' # padded 2 d @ CHR ''T''
      # padded 2 (clock_of t div 3600) @ CHR '':'' # padded 2 (clock_of t div 60 mod 60) @ CHR '':'' # padded 2 (clock_of t mod 60)
    = padded 2 m' @ CHR ''-'' # padded 2 d' @ CHR ''T''
      # padded 2 (clock_of u div 3600) @ CHR '':'' # padded 2 (clock_of u div 60 mod 60) @ CHR '':'' # padded 2 (clock_of u mod 60)"
    by blast
  from digits_before [OF this(2) digits(2,5) separators(1,1)] obtain e2: "padded 2 m = padded 2 m'" and
    "padded 2 d @ CHR ''T''
      # padded 2 (clock_of t div 3600) @ CHR '':'' # padded 2 (clock_of t div 60 mod 60) @ CHR '':'' # padded 2 (clock_of t mod 60)
    = padded 2 d' @ CHR ''T''
      # padded 2 (clock_of u div 3600) @ CHR '':'' # padded 2 (clock_of u div 60 mod 60) @ CHR '':'' # padded 2 (clock_of u mod 60)"
    by blast
  from digits_before [OF this(2) digits(3,6) separators(2,2)] obtain e3: "padded 2 d = padded 2 d'" and
    "padded 2 (clock_of t div 3600) @ CHR '':'' # padded 2 (clock_of t div 60 mod 60) @ CHR '':'' # padded 2 (clock_of t mod 60)
    = padded 2 (clock_of u div 3600) @ CHR '':'' # padded 2 (clock_of u div 60 mod 60) @ CHR '':'' # padded 2 (clock_of u mod 60)"
    by blast
  from digits_before [OF this(2) digits(7,10) separators(3,3)] obtain e4: "padded 2 (clock_of t div 3600) = padded 2 (clock_of u div 3600)"
    and "padded 2 (clock_of t div 60 mod 60) @ CHR '':'' # padded 2 (clock_of t mod 60)
    = padded 2 (clock_of u div 60 mod 60) @ CHR '':'' # padded 2 (clock_of u mod 60)"
    by blast
  from digits_before [OF this(2) digits(8,11) separators(3,3)] obtain
    e5: "padded 2 (clock_of t div 60 mod 60) = padded 2 (clock_of u div 60 mod 60)" and
    e6: "padded 2 (clock_of t mod 60) = padded 2 (clock_of u mod 60)" by blast
  have "y = y'" "m = m'" "d = d'" using padded_inject e1 e2 e3 p by blast+
  then have day: "day_of t = day_of u" using t u by (intro civil_date_inject) simp
  have "clock_of t div 3600 = clock_of u div 3600" "clock_of t div 60 mod 60 = clock_of u div 60 mod 60"
      "clock_of t mod 60 = clock_of u mod 60"
    using padded_inject [OF e4 ct(1) cu(1)] padded_inject [OF e5 ct(2) cu(2)] padded_inject [OF e6 ct(3) cu(3)] by simp_all
  then have "clock_of t = clock_of u" using ct(4) cu(4) by linarith
  with day show ?thesis unfolding day_of_def clock_of_def by (metis div_mult_mod_eq)
qed

text \<open>The characters of such a text.\<close>

lemma whole_seconds_chars:
  assumes "- 719468 \<le> day_of t" and "c \<in> set (whole_seconds_text t)"
  shows "is_digit c \<or> c \<in> {CHR ''-'', CHR ''T'', CHR '':''}"
proof -
  obtain y m d where t: "civil_date (day_of t) = (y, m, d)" by (cases "civil_date (day_of t)")
  have p: "0 \<le> y" "0 \<le> m" "0 \<le> d" using civil_date_positive [OF t assms(1)] by simp_all
  note digits = p [THEN padded_digits] clock_parts(1-3) [OF clock_range [of t], THEN padded_digits]
  show ?thesis using assms(2) digits unfolding whole_seconds_shape [OF t] list_all_iff by auto
qed

end
