(* ===== verification/Callback_Signature.thy ===== *)
theory Callback_Signature
  imports Callback_Signing Wire_Dates
begin

text \<open>
  What a signature of a callback is worth: signing and verifying are inverse while the replay window
  lasts, and the bytes that are signed determine every field of the event.
\<close>

subsection \<open>Base64\<close>

lemma b64_char_code:
  "n < 26 \<Longrightarrow> (of_char (b64_char n) :: nat) = 65 + n"
  "26 \<le> n \<Longrightarrow> n < 52 \<Longrightarrow> (of_char (b64_char n) :: nat) = 71 + n"
  "52 \<le> n \<Longrightarrow> n < 62 \<Longrightarrow> (of_char (b64_char n) :: nat) = n - 4"
  by (simp_all add: b64_char_def)

lemma b64_char_props:
  assumes "n < 64"
  shows "b64_value (b64_char n) = Some n" and "alnum_or ''_-'' (b64_char n)" and "b64_char n \<noteq> CHR ''=''"
proof -
  consider "n < 26" | "26 \<le> n" "n < 52" | "52 \<le> n" "n < 62" | "n = 62" | "n = 63" using assms by linarith
  then have "b64_value (b64_char n) = Some n \<and> alnum_or ''_-'' (b64_char n) \<and> b64_char n \<noteq> CHR ''=''"
  proof cases
    case 1
    with b64_char_code(1) [OF 1] show ?thesis
      by (auto simp: b64_value_def alnum_or_def is_alnum_def is_upper_def is_lower_def is_digit_def Let_def)
  next
    case 2
    with b64_char_code(2) [OF 2] show ?thesis
      by (auto simp: b64_value_def alnum_or_def is_alnum_def is_upper_def is_lower_def is_digit_def Let_def)
  next
    case 3
    with b64_char_code(3) [OF 3] show ?thesis
      by (auto simp: b64_value_def alnum_or_def is_alnum_def is_upper_def is_lower_def is_digit_def Let_def)
  next
    case 4
    show ?thesis unfolding 4 by code_simp
  next
    case 5
    show ?thesis unfolding 5 by code_simp
  qed
  then show "b64_value (b64_char n) = Some n" and "alnum_or ''_-'' (b64_char n)" and "b64_char n \<noteq> CHR ''=''"
    by simp_all
qed

lemma byte_less: "(of_char c :: nat) < 256"
  by (rule nat_of_char_less_256)

lemma byte_parts: "(of_char c :: nat) div 4 < 64" "(of_char c :: nat) mod 4 * 16 + (of_char d :: nat) div 16 < 64"
  "(of_char c :: nat) mod 16 * 4 + (of_char d :: nat) div 64 < 64" "(of_char c :: nat) mod 4 * 16 < 64"
  "(of_char c :: nat) mod 16 * 4 < 64"
  using byte_less [of c] byte_less [of d] by linarith+

lemma byte_tops: "(of_char c :: nat) div 16 < 16" "(of_char c :: nat) div 64 < 4"
  using byte_less [of c] by linarith+

lemma b64_decode_encode: "b64_decode (b64_encode bytes) = Some bytes"
proof (induction bytes rule: b64_encode.induct)
  case (1 a b c r)
  note ih = 1 [OF refl refl refl]
  show ?case using byte_tops(1) [of b] byte_tops(2) [of c]
    by (simp add: Let_def b64_char_props byte_parts ih)
next
  case (2 a b)
  show ?case using byte_tops(1) [of b] by (simp add: Let_def b64_char_props byte_parts)
next
  case (3 a)
  show ?case by (simp add: Let_def b64_char_props byte_parts)
qed simp

text \<open>Two bytes over a multiple of three leave one padding character.\<close>

lemma b64_encode_two_over:
  "length bytes mod 3 = 2 \<Longrightarrow> \<exists>body. b64_encode bytes = body @ ''='' \<and> list_all (alnum_or ''_-'') body \<and> body \<noteq> []
     \<and> last body \<noteq> CHR ''='' \<and> length body = 4 * (length bytes div 3) + 3"
proof (induction bytes rule: b64_encode.induct)
  case (1 a b c r)
  have "length r mod 3 = 2" using "1.prems" by simp
  from "1.IH" [OF refl refl refl this] obtain body where "b64_encode r = body @ ''=''"
      "list_all (alnum_or ''_-'') body" "body \<noteq> []" "last body \<noteq> CHR ''=''" "length body = 4 * (length r div 3) + 3"
    by blast
  moreover have "(3 + length r) div 3 = 1 + length r div 3" using div_add_self1 [of 3 "length r"] by simp
  ultimately show ?case by (simp add: Let_def b64_char_props byte_parts)
next
  case (2 a b)
  show ?case by (simp add: Let_def b64_char_props byte_parts)
qed simp_all

lemma b64url_hmac:
  assumes "length bytes = 32"
  shows "b64url_decode (b64url bytes) = Some bytes" and "length (b64url bytes) = 43"
    and "list_all (alnum_or ''_-'') (b64url bytes)"
proof -
  have "length bytes mod 3 = 2" using assms by simp
  then obtain body where b: "b64_encode bytes = body @ ''=''" "list_all (alnum_or ''_-'') body" "body \<noteq> []"
      "last body \<noteq> CHR ''=''" "length body = 4 * (length bytes div 3) + 3"
    using b64_encode_two_over by blast
  have "dropWhile (\<lambda>c. c = CHR ''='') (rev body) = rev body" using b(3,4) by (cases body rule: rev_cases) auto
  then have u: "b64url bytes = body" by (simp add: b64url_def b(1))
  show "length (b64url bytes) = 43" using b(5) assms by (simp add: u)
  then show "b64url_decode (b64url bytes) = Some bytes"
    using b64_decode_encode [of bytes] by (simp add: b64url_decode_def u flip: b(1))
  show "list_all (alnum_or ''_-'') (b64url bytes)" by (simp add: u b(2))
qed

subsection \<open>Signing and verifying\<close>

lemma sign_event_simps [simp]:
  "ce_event (sign_event M c) = ce_event c" "ce_run (sign_event M c) = ce_run c"
  "ce_manifest_hash (sign_event M c) = ce_manifest_hash c" "ce_decision (sign_event M c) = ce_decision c"
  "ce_timestamp (sign_event M c) = ce_timestamp c"
  "ce_signature (sign_event M c) = ''hmac-sha256:'' @ b64url (M (task_gate_callback_signing_bytes c))"
  by (simp_all add: sign_event_def event_content.extend_def callback_event.fields_def)

lemma signing_bytes_sign [simp]:
  "task_gate_callback_signing_bytes (sign_event M c) = task_gate_callback_signing_bytes c"
  by (simp add: task_gate_callback_signing_bytes_def)

lemma signed_event_valid:
  assumes "event_content_valid c" and "length (M (task_gate_callback_signing_bytes c)) = 32"
  shows "callback_event_valid (sign_event M c)"
  using assms(1) b64url_hmac(2,3) [OF assms(2)]
  by (simp add: callback_event_valid_def event_content_valid_def signature_pattern_def)

text \<open>
  C27: Signing and verifying are inverse.  A valid event that was signed passes verification under the
  same key exactly while the clock is within the replay window of its timestamp, on either side, and
  comes out as it was sent.
\<close>

theorem signed_callback_verifies:
  assumes "event_content_valid c" and "length (M (task_gate_callback_signing_bytes c)) = 32"
  shows "verify_event M replay_window (sign_event M c) now
    = (if \<bar>now - ce_timestamp c\<bar> \<le> replay_window then Some (sign_event M c) else None)"
  using signed_event_valid [of c M, OF assms] b64url_hmac(1) [OF assms(2)] by (simp add: verify_event_def)

subsection \<open>The signed bytes\<close>

lemma concat_lines_inject:
  assumes "length ls = length ls'" and "list_all (\<lambda>l. CHR 0x0A \<notin> set l) ls" and "list_all (\<lambda>l. CHR 0x0A \<notin> set l) ls'"
    and "concat (map (\<lambda>x. CHR 0x0A # x) ls) = concat (map (\<lambda>x. CHR 0x0A # x) ls')"
  shows "ls = ls'"
  using assms
proof (induction ls ls' rule: list_induct2)
  case (Cons x xs y ys)
  have split: "takeWhile (\<lambda>c. c \<noteq> CHR 0x0A) (z @ concat (map (\<lambda>x. CHR 0x0A # x) zs)) = z"
    if "CHR 0x0A \<notin> set z" for z zs
    using that by (cases zs) (auto simp: takeWhile_append2 takeWhile_tail takeWhile_eq_all_conv)
  have e: "x @ concat (map (\<lambda>x. CHR 0x0A # x) xs) = y @ concat (map (\<lambda>x. CHR 0x0A # x) ys)" using Cons.prems(3) by simp
  then have "x = y" using split [of x xs] split [of y ys] Cons.prems(1,2) by simp
  with e Cons show ?case by simp
qed simp

lemma join_lines_inject:
  assumes "length ls = length ls'" and "list_all (\<lambda>l. CHR 0x0A \<notin> set l) ls" and "list_all (\<lambda>l. CHR 0x0A \<notin> set l) ls'"
    and "join_lines ls = join_lines ls'"
  shows "ls = ls'"
proof -
  have c: "CHR 0x0A # join_lines ks = concat (map (\<lambda>x. CHR 0x0A # x) ks)" if "ks \<noteq> []" for ks
    using that by (cases ks) (simp_all add: join_lines_def)
  show ?thesis
  proof (cases "ls = []")
    case False
    then have "ls' \<noteq> []" using assms(1) by auto
    with c [OF False] c [of ls'] assms concat_lines_inject [OF assms(1-3)] show ?thesis by simp
  qed (use assms(1) in simp)
qed

text \<open>The fields have no line breaks, and their texts determine them.\<close>

lemma hex_char_range: "d < 16 \<Longrightarrow> (of_char (hex_char d) :: nat) = (if d < 10 then 48 + d else 87 + d)"
  by (simp add: hex_char_def)

lemma hex_char_inject: "d < 16 \<Longrightarrow> e < 16 \<Longrightarrow> hex_char d = hex_char e \<Longrightarrow> d = e"
proof -
  assume d: "d < 16" "e < 16" and "hex_char d = hex_char e"
  then have "(if d < 10 then 48 + d else 87 + d) = (if e < 10 then 48 + e else 87 + e)"
    by (simp only: flip: hex_char_range)
  then show ?thesis using d by (cases "d < 10"; cases "e < 10") simp_all
qed

lemma hex_digits_inject: "m < 16 ^ k \<Longrightarrow> n < 16 ^ k \<Longrightarrow> hex_digits k m = hex_digits k n \<Longrightarrow> m = n"
proof (induction k arbitrary: m n)
  case (Suc k)
  have "hex_char (m mod 16) = hex_char (n mod 16)" "hex_digits k (m div 16) = hex_digits k (n div 16)"
    using Suc.prems(3) by simp_all
  moreover from this(1) have "m mod 16 = n mod 16"
    by (intro hex_char_inject) simp_all
  moreover have "m div 16 < 16 ^ k" "n div 16 < 16 ^ k"
    using Suc.prems(1,2) by (simp_all add: less_mult_imp_div_less mult.commute)
  ultimately show ?case using Suc.IH [of "m div 16" "n div 16"] by (metis div_mult_mod_eq)
qed simp

lemma length_hex_text [simp]: "length (hex_digits k n) = k"
  by (induction k arbitrary: n) simp_all

lemma uuid_text_inject:
  assumes "u < 2 ^ 128" and "v < 2 ^ 128" and "uuid_text u = uuid_text v"
  shows "u = v"
proof -
  define groups :: "string \<Rightarrow> string" where "groups t = take 8 t @ take 4 (drop 9 t) @ take 4 (drop 14 t)
     @ take 4 (drop 19 t) @ drop 24 t" for t
  have g: "groups (uuid_text w) = hex_digits 32 w" for w
  proof -
    define h where "h = hex_digits 32 w"
    have "length h = 32" by (simp add: h_def)
    then have "take 8 h @ take 4 (drop 8 h) @ take 4 (drop 12 h) @ take 4 (drop 16 h) @ drop 20 h = h"
      using append_take_drop_id [of 8 h] append_take_drop_id [of 4 "drop 8 h"] append_take_drop_id [of 4 "drop 12 h"]
        append_take_drop_id [of 4 "drop 16 h"] by (simp add: drop_drop)
    then show ?thesis using \<open>length h = 32\<close> by (simp add: groups_def uuid_text_def Let_def flip: h_def)
  qed
  have "(2 :: nat) ^ 128 = 16 ^ 32" by simp
  with assms g [of u] g [of v] show ?thesis by (metis hex_digits_inject)
qed

lemma uuid_text_line: "CHR 0x0A \<notin> set (uuid_text u)"
proof -
  have "CHR 0x0A \<notin> set (hex_digits k n)" for k n
  proof (induction k arbitrary: n)
    case (Suc k)
    have "hex_char (n mod 16) \<noteq> CHR 0x0A" using hex_char_range [of "n mod 16"] by (auto split: if_splits)
    with Suc show ?case by auto
  qed simp
  then show ?thesis unfolding uuid_text_def Let_def by (auto dest: in_set_takeD in_set_dropD)
qed

lemma digest_line: "digest_pattern d \<Longrightarrow> CHR 0x0A \<notin> set d"
proof -
  assume d: "digest_pattern d"
  have "\<not> is_hex (CHR 0x0A)" by code_simp
  then have "CHR 0x0A \<notin> set (drop 7 d)" using d by (auto simp: digest_pattern_def list_all_iff)
  moreover have "CHR 0x0A \<notin> set (take 7 d)" using d by (simp add: digest_pattern_def)
  ultimately show ?thesis by (metis Un_iff append_take_drop_id set_append)
qed

lemma verdict_lines: "CHR 0x0A \<notin> set (gate_verdict_text v)" "gate_verdict_text v = gate_verdict_text w \<longleftrightarrow> v = w"
  by (cases v; simp) (cases v; cases w; simp)

lemma replace_offset_end: "CHR ''+'' \<notin> set w \<Longrightarrow> replace_offset (w @ ''+00:00'') = w @ ''Z''"
proof (induction w)
  case Nil
  have "replace_offset [] = []" by (subst replace_offset.simps) simp
  then show ?case by (subst replace_offset.simps) simp
next
  case (Cons c w)
  then show ?case by (subst replace_offset.simps) auto
qed

lemma signed_time:
  assumes "event_content_valid c"
  shows "replace_offset (isoformat (ce_timestamp c)) = whole_seconds_text (ce_timestamp c) @ ''Z''"
    and "CHR 0x0A \<notin> set (whole_seconds_text (ce_timestamp c) @ ''Z'')"
    and "- 719468 \<le> day_of (ce_timestamp c)"
proof -
  have v: "- seconds 62135596800 \<le> ce_timestamp c" "ce_timestamp c mod 1000000 = 0"
    using assms by (simp_all add: event_content_valid_def datetime_range_def)
  from v(1) show day: "- 719468 \<le> day_of (ce_timestamp c)" unfolding day_of_def seconds_def by linarith
  have "\<not> is_digit (CHR ''+'')" "\<not> is_digit (CHR 0x0A)" by (simp_all add: is_digit_def)
  then have n: "CHR ''+'' \<notin> set (whole_seconds_text (ce_timestamp c))" "CHR 0x0A \<notin> set (whole_seconds_text (ce_timestamp c))"
    using whole_seconds_chars [OF day] by fastforce+
  then show "CHR 0x0A \<notin> set (whole_seconds_text (ce_timestamp c) @ ''Z'')" by simp
  show "replace_offset (isoformat (ce_timestamp c)) = whole_seconds_text (ce_timestamp c) @ ''Z''"
    using replace_offset_end [OF n(1)] v(2) by (simp add: isoformat_def python_fraction_def microseconds_def)
qed

definition event_lines :: "'a event_content_scheme \<Rightarrow> string list" where
  "event_lines c = [''ATLAS-TASK-GATE-CALLBACK-V1'', uuid_text (ce_event c), uuid_text (ce_run c),
     ce_manifest_hash c, gate_verdict_text (ce_decision c), whole_seconds_text (ce_timestamp c) @ ''Z'']"

lemma event_lines_bytes: "event_content_valid c \<Longrightarrow> task_gate_callback_signing_bytes c = join_lines (event_lines c)"
  by (simp add: task_gate_callback_signing_bytes_def event_lines_def signed_time(1))

lemma event_lines_clean: "event_content_valid c \<Longrightarrow> list_all (\<lambda>l. CHR 0x0A \<notin> set l) (event_lines c)"
  using signed_time(2) [of c]
  by (simp add: event_lines_def uuid_text_line verdict_lines(1) digest_line event_content_valid_def)

lemma signing_bytes_inject:
  assumes c: "event_content_valid c" and d: "event_content_valid d"
    and e: "task_gate_callback_signing_bytes c = task_gate_callback_signing_bytes d"
  shows "ce_event c = ce_event d \<and> ce_run c = ce_run d \<and> ce_manifest_hash c = ce_manifest_hash d
    \<and> ce_decision c = ce_decision d \<and> ce_timestamp c = ce_timestamp d"
proof -
  have "join_lines (event_lines c) = join_lines (event_lines d)"
    using e event_lines_bytes [OF c] event_lines_bytes [OF d] by simp
  moreover have "length (event_lines c) = length (event_lines d)" by (simp add: event_lines_def)
  ultimately have l: "event_lines c = event_lines d"
    using join_lines_inject event_lines_clean [OF c] event_lines_clean [OF d] by blast
  have ids: "ce_event c < 2 ^ 128" "ce_event d < 2 ^ 128" "ce_run c < 2 ^ 128" "ce_run d < 2 ^ 128"
      and whole: "ce_timestamp c mod 1000000 = 0" "ce_timestamp d mod 1000000 = 0"
    using c d by (simp_all add: event_content_valid_def)
  have "whole_seconds_text (ce_timestamp c) = whole_seconds_text (ce_timestamp d)" using l by (simp add: event_lines_def)
  then have "ce_timestamp c div 1000000 = ce_timestamp d div 1000000"
    by (rule whole_seconds_inject [OF signed_time(3) [OF c] signed_time(3) [OF d]])
  then have "ce_timestamp c = ce_timestamp d" using whole by (metis div_mult_mod_eq)
  moreover have "ce_event c = ce_event d" using l by (intro uuid_text_inject ids) (simp add: event_lines_def)
  moreover have "ce_run c = ce_run d" using l by (intro uuid_text_inject ids) (simp add: event_lines_def)
  ultimately show ?thesis using l by (simp add: event_lines_def verdict_lines(2))
qed

text \<open>
  C28: A signature cannot be moved to another event.  When the code does not collide on the two texts, an
  event that carries the signature of a signed event and passes verification is that event, in all five
  fields, and the clock is within the replay window of the time it was signed with.
\<close>

theorem moved_signature_is_refused:
  assumes c: "event_content_valid c" and len: "length (M (task_gate_callback_signing_bytes c)) = 32"
    and keyed: "M (task_gate_callback_signing_bytes e) = M (task_gate_callback_signing_bytes c)
      \<Longrightarrow> task_gate_callback_signing_bytes e = task_gate_callback_signing_bytes c"
    and sig: "ce_signature e = ce_signature (sign_event M c)" and ok: "verify_event M replay_window e now = Some x"
  shows "x = sign_event M c \<and> \<bar>now - ce_timestamp c\<bar> \<le> replay_window"
proof -
  have v: "callback_event_valid e" "\<bar>now - ce_timestamp e\<bar> \<le> replay_window" "x = e"
      and m: "b64url_decode (drop 12 (ce_signature e)) = Some (M (task_gate_callback_signing_bytes e))"
    using ok by (auto simp: verify_event_def split: if_splits option.splits)
  have "M (task_gate_callback_signing_bytes e) = M (task_gate_callback_signing_bytes c)"
    using m b64url_hmac(1) [OF len] by (simp add: sig)
  from keyed [OF this] have "ce_event e = ce_event c \<and> ce_run e = ce_run c \<and> ce_manifest_hash e = ce_manifest_hash c
      \<and> ce_decision e = ce_decision c \<and> ce_timestamp e = ce_timestamp c"
    using v(1) c by (intro signing_bytes_inject) (simp_all add: callback_event_valid_def)
  moreover from this sig have "e = sign_event M c" by (intro callback_event.equality) simp_all
  ultimately show ?thesis using v by simp
qed

text \<open>What the sender hands back is a result the consumer takes.\<close>

lemma sent_results_valid: "opt_all send_result_valid (send_callback M post i clock)"
proof -
  have "callback_error_pattern ''TASK_GATE_CALLBACK_EVENT_INVALID''" "callback_error_pattern ''TASK_GATE_CALLBACK_TRANSPORT_ERROR''"
    by code_simp+
  then show ?thesis
    by (auto simp: send_callback_def Let_def opt_all_def send_result_valid_def split: transport_result.splits)
qed

end
