(* ===== verification/Callback_Demo.thy ===== *)
theory Callback_Demo
  imports Callback_Termination Callback_Signature
begin

text \<open>
  A concrete callback: staged, claimed by a consumer whose first request raises, retried, delivered; and
  the event it carries, signed and verified.
\<close>

subsection \<open>The table\<close>

definition demo_manifest_hash :: string where
  "demo_manifest_hash = ''sha256:'' @ replicate 64 (CHR ''a'')"

definition demo_callback :: callback_intent where
  "demo_callback = \<lparr>ci_event = 7, ci_decision_id = 8, ci_gate = 9,
     ci_scope = \<lparr>sc_tenant = 1, sc_project = 2, sc_run = 3\<rparr>, ci_manifest_hash = demo_manifest_hash,
     ci_decision = ACCEPTED, ci_status = CALLBACK_PENDING, ci_available_at = 0, ci_claim_token = None,
     ci_claimed_by = None, ci_claimed_at = None, ci_claim_expires_at = None, ci_attempts = 0, ci_revision = 0,
     ci_error_code = None, ci_error_at = None, ci_response = None, ci_delivered_at = None, ci_failed_at = None,
     ci_created_at = 0\<rparr>"

definition demo_consumer :: consumer where
  "demo_consumer = \<lparr>co_dispatcher = ''callback-consumer'', co_batch_size = 32, co_lease = seconds 30,
     co_policy = \<lparr>rp_max_attempts = 2, rp_initial = seconds 5, rp_maximum = seconds 300\<rparr>\<rparr>"

definition demo_tokens :: "uuid \<Rightarrow> uuid" where
  "demo_tokens e = e + 100"

definition demo_held :: callback_intent where
  "demo_held = consumer_claim demo_consumer demo_tokens (seconds 1) demo_callback"

definition demo_ok :: send_result where
  "demo_ok = \<lparr>sr_status = SEND_DELIVERED, sr_error = None, sr_response = Some 204\<rparr>"

definition demo_done :: callback_intent where
  "demo_done = delivered_row (seconds 2) 204 demo_held"

lemma demo_consumer_valid: "consumer_valid demo_consumer"
  by code_simp

lemma demo_callback_check: "callback_check demo_callback"
  by code_simp

lemma demo_ok_valid: "opt_all send_result_valid (Some demo_ok)"
  by code_simp

lemma demo_claim: "claim_batch demo_consumer demo_tokens (seconds 1) [demo_callback] = Inr ([claimed_of demo_held], [demo_held])"
  by code_simp

lemma demo_settle: "settle_delivery (co_policy demo_consumer) (claimed_of demo_held) (Some demo_ok) (seconds 2) [demo_held]
    = Inr (OUTCOME_DELIVERED, [demo_done])"
  by code_simp

lemma demo_staged: "callback_reaches 0 [] 0 [demo_callback]"
proof -
  have "run_callbacks demo_tokens 0 (StageCallback demo_callback) [] = Inr (Staged, [demo_callback])"
    using demo_callback_check by (simp add: sql_insert_def)
  moreover have "callback_admissible demo_tokens (StageCallback demo_callback) []"
    using demo_callback_check by (simp add: demo_callback_def)
  ultimately show ?thesis unfolding callback_reaches_def
    by (intro reaches_one [of 0 0 callback_admissible demo_tokens "StageCallback demo_callback" "[]" run_callbacks
      Staged "[demo_callback]"] order_refl)
qed

lemma demo_claimed: "callback_reaches 0 [] (seconds 1) [demo_held]"
proof -
  have "run_callbacks demo_tokens (seconds 1) (ClaimCallbacks demo_consumer) [demo_callback]
      = Inr (Claimed [claimed_of demo_held], [demo_held])" by (simp add: demo_claim)
  moreover have "callback_admissible demo_tokens (ClaimCallbacks demo_consumer) [demo_callback]"
    using demo_consumer_valid by simp
  moreover have "0 \<le> seconds 1" by (simp add: seconds_def)
  ultimately show ?thesis unfolding callback_reaches_def
    by (intro reaches_next [OF demo_staged [unfolded callback_reaches_def], of "seconds 1" demo_tokens
      "ClaimCallbacks demo_consumer" "Claimed [claimed_of demo_held]" "[demo_held]"])
qed

theorem callback_tables_are_well_formed_witness:
  "list_all callback_check [demo_callback] \<and> (\<exists>r rows'.
     run_callbacks demo_tokens (seconds 1) (ClaimCallbacks demo_consumer) [demo_callback] = Inr (r, rows')
     \<and> list_all callback_check rows')"
  using callback_tables_are_well_formed [OF demo_staged, of demo_tokens "ClaimCallbacks demo_consumer" "seconds 1"]
    demo_consumer_valid by auto

theorem claims_settle_once_witness:
  "list_ex (held (seconds 2) (claimed_of demo_held)) [demo_held]
    \<and> settle_delivery (co_policy demo_consumer) (claimed_of demo_held) None (seconds 3) [demo_done]
      = Inr (OUTCOME_LEASE_LOST, [demo_done])"
proof -
  have start: "callback_reaches (seconds 2) [demo_done] (seconds 2) [demo_done]"
    by (simp add: callback_reaches_def reaches.reaches_start)
  have a: "1 \<le> ct_attempts (claimed_of demo_held)" by code_simp
  have n: "opt_all send_result_valid None" by (simp add: opt_all_def)
  from claims_settle_once [OF demo_claimed demo_consumer_valid demo_ok_valid a demo_settle _ start demo_consumer_valid n]
  show ?thesis by simp
qed

definition demo_polls :: "poll list" where
  "demo_polls = [(demo_tokens, seconds 1, \<lambda>_. (None, seconds 2)), (demo_tokens, seconds 8, \<lambda>_. (Some demo_ok, seconds 9))]"


subsection \<open>The event\<close>

definition demo_mac :: mac where
  "demo_mac bytes = replicate 32 (CHR ''k'')"

definition demo_content :: event_content where
  "demo_content = event_of_claim (claimed_of demo_held) (seconds 1784505600)"

lemma demo_content_valid: "event_content_valid demo_content"
proof -
  have "digest_pattern (ce_manifest_hash demo_content)" by code_simp
  moreover have "ce_event demo_content = 7" "ce_run demo_content = 3" "ce_timestamp demo_content = seconds 1784505600"
    by code_simp+
  ultimately show ?thesis by (simp add: event_content_valid_def datetime_range_def seconds_def)
qed

theorem signed_callback_verifies_witness:
  "verify_event demo_mac (seconds 300) (sign_event demo_mac demo_content) (seconds 1784505700)
    = Some (sign_event demo_mac demo_content)"
proof -
  have "\<bar>seconds 1784505700 - ce_timestamp demo_content\<bar> \<le> seconds 300" by code_simp
  then show ?thesis
    using signed_callback_verifies [OF demo_content_valid, of demo_mac "seconds 300" "seconds 1784505700"]
    by (simp add: demo_mac_def)
qed

theorem moved_signature_is_refused_witness:
  "verify_event demo_mac (seconds 300) (sign_event demo_mac demo_content) (ce_timestamp demo_content)
      = Some (sign_event demo_mac demo_content)
    \<and> \<bar>ce_timestamp demo_content - ce_timestamp demo_content\<bar> \<le> seconds 300"
proof -
  have ok: "verify_event demo_mac (seconds 300) (sign_event demo_mac demo_content) (ce_timestamp demo_content)
      = Some (sign_event demo_mac demo_content)"
    using signed_event_valid [OF demo_content_valid, of demo_mac] b64url_hmac(1) [of "demo_mac (task_gate_callback_signing_bytes demo_content)"]
    by (simp add: verify_event_def demo_mac_def seconds_def)
  from moved_signature_is_refused [OF demo_content_valid, of demo_mac, OF _ _ _ this] ok
  show ?thesis by (simp add: demo_mac_def seconds_def)
qed

end
