(* ===== verification/Spec2Isabelle.thy ===== *)
theory Spec2Isabelle
  imports Live_Properties Workflow_Correct Triage_Demo Callback_Demo
begin

text \<open>
  Atlas TestOps runs browser tests: a plan becomes a run, a run a matrix of units, a unit a series
  of attempts by browser workers; people may take the browser over; sealed attempts are judged in a
  Result Center.  The backend is a set of FastAPI services over PostgreSQL, and the rules that
  matter are written twice, in a Python service and in the constraints and triggers of the tables.
  The development models both sides and proves that they agree, and what they guarantee together.
  All paths below are relative to \<^verbatim>\<open>src/backend/src/atlas_testops/\<close>; migrations are under
  \<^verbatim>\<open>src/backend/migrations/versions/\<close>.

  \<^bold>\<open>Foundations.\<close>  \<open>Prelude\<close>: instants, identifiers, JSON, operations that may fail as
  \<open>failure + 'a\<close>, tables as lists of rows with the SQL statements the repositories send (insertion
  under check constraints and unique keys, updates under triggers).  \<open>Core\<close>: error codes and strong
  ETags (\<^verbatim>\<open>core/errors.py\<close>, \<^verbatim>\<open>core/concurrency.py\<close>).  \<open>Access\<close>: roles and permissions
  (\<^verbatim>\<open>application/access.py\<close>).  \<open>Protocol\<close>: a locale for services that run one transaction per
  request against shared tables; \<open>Revision_Chain\<close>: a locale for append-only tables of numbered
  revisions, interpreted for unit resolutions, unit hygiene resolutions and task snapshots.

  \<^bold>\<open>Workflow graphs.\<close>  \<open>Workflow\<close> translates \<^verbatim>\<open>domain/workflow/models.py\<close> and
  \<^verbatim>\<open>domain/workflow/validator.py\<close>; \<open>Topology\<close> is the interface of a layering algorithm,
  \<open>Workflow_Levels\<close> proves the validator's two loops against it (they are partial functions whose
  result is shown to exist), and \<open>Workflow_Correct\<close> that validation always returns and decides
  well-formedness, and that the levels schedule every edge.

  \<^bold>\<open>Live browser control.\<close>  \<open>Live_Model\<close> (\<^verbatim>\<open>domain/runtime/control.py\<close>),
  \<open>Live_Repository\<close> (\<^verbatim>\<open>infrastructure/repositories/live_control.py\<close> and migration 0041) and
  \<open>Live_Service\<close> (\<^verbatim>\<open>application/live_control.py\<close>) hold the sessions, leases, commands,
  grants and events, the statements on them and the handlers.  \<open>Live_Invariant\<close> states the
  invariant of the tables; \<open>Live_Statements\<close>, \<open>Live_Transitions\<close>, \<open>Live_Commands\<close>,
  \<open>Live_Grants\<close> and \<open>Live_Handlers\<close> show that every statement, operation and handler keeps it;
  \<open>Live_History\<close> what no transaction can undo; \<open>Live_Protocol\<close> the service as a transition system
  with the states reachable from empty tables; \<open>Live_Refinement\<close> the abstract machine of one session
  the tables refine; \<open>Live_Facts\<close> and \<open>Live_Properties\<close> the guarantees, \<open>Live_Demo\<close> a concrete run.

  \<^bold>\<open>Result Center.\<close>  \<open>Task_Model\<close> (\<^verbatim>\<open>domain/task/models.py\<close>), \<open>Fixture_Run\<close>
  (\<^verbatim>\<open>domain/fixture/runtime.py\<close>), \<open>Result_Model\<close> (\<^verbatim>\<open>domain/result/models.py\<close>,
  \<^verbatim>\<open>projections.py\<close>, \<^verbatim>\<open>hygiene.py\<close>) and \<open>Triage_Model\<close> (\<^verbatim>\<open>classification.py\<close>,
  \<^verbatim>\<open>gate.py\<close>) hold the rows; \<open>Wire_Time\<close> the texts of an instant digests are taken over.
  \<open>Result_Store\<close> has the tables with the constraints and triggers of migration 0033 and the reads of
  \<^verbatim>\<open>infrastructure/repositories/results.py\<close>; \<open>Unit_Resolution\<close> the service that closes attempts
  and resolves units (\<^verbatim>\<open>application/result_projection.py\<close>).  \<open>Result_Sources\<close> and
  \<open>Resolution_Rows\<close> relate what the service gathers to what the trigger joins;
  \<open>Resolution_Correct\<close> and \<open>Closure_Correct\<close> conclude that the database accepts what the service
  computes, that resolving is idempotent and keeps the chains, and what a passed resolution means.
  \<open>Result_Hygiene\<close>, \<open>Hygiene_Projection\<close> and \<open>Hygiene_Correct\<close> do the same for the cleanup state of
  a unit (\<^verbatim>\<open>application/result_hygiene.py\<close>, migration 0035), where the two sides do not agree:
  they render the instants under a digest differently.  \<open>Task_Snapshot\<close> has the snapshots of a
  run, their services and the triggers of the migrations 0034 to 0037; \<open>Snapshot_Rows\<close> shows that the
  joins of the triggers give the rows the service loads, \<open>Snapshot_Correct\<close> that they accept what it
  computes, and \<open>Snapshot_Properties\<close> what the snapshots guarantee.  \<open>Result_Demo\<close> and
  \<open>Snapshot_Demo\<close> are concrete stores.

  \<^bold>\<open>Requests and re-evaluation.\<close>  \<open>Idempotency\<close> has the records of idempotency keys
  (\<^verbatim>\<open>infrastructure/idempotency.py\<close>, migration 0001), \<open>Result_Requests\<close> the transaction every
  keyed request of the Result Center runs in: it reserves the key, runs the body, and records its
  answer.  \<open>Result_Reevaluation\<close> translates \<^verbatim>\<open>application/result_reevaluation.py\<close> with the command
  table of migration 0037; \<open>Reevaluation_Correct\<close> shows that a re-evaluation of a fully resolved
  snapshot is accepted, keeps the result of its source, and answers a repeated request without a
  write; \<open>Reevaluation_Demo\<close> is a concrete request.

  \<^bold>\<open>Triage and release gate.\<close>  \<open>Failure_Clusters\<close> groups the failures of a snapshot by their
  signal and \<open>Failure_Classification\<close> judges the groups, by rule and then by people
  (\<^verbatim>\<open>application/result_classification.py\<close>); both have the tables and triggers of migration 0038.
  \<open>Task_Gate\<close> has the policy, the evaluation and the callback staged with a decision
  (\<^verbatim>\<open>application/result_gate.py\<close>, migrations 0039 and 0044).  \<open>Triage_Inputs\<close> shows that the
  service, the cluster trigger and the gate trigger read the same failures, \<open>Triage_Correct\<close> that
  classifying leaves every failure in one cluster with a judgment, and how large a group may be;
  \<open>Gate_Policy\<close> that the policy in Python is the one in SQL, \<open>Gate_Correct\<close> that the tables accept
  the decision it computes and what an accepted decision means; \<open>Review_Correct\<close> what an accepted
  review is, and which reviews pass validation and fail in the database.  \<open>Triage_Demo\<close> classifies,
  reviews and judges a concrete snapshot.

  \<^bold>\<open>Gate callbacks.\<close>  \<open>Gate_Callbacks\<close> has the functions of migration 0044 that claim a
  callback under a lease and settle it, the retry policy (\<^verbatim>\<open>application/task_intents.py\<close>) and
  one poll of the consumer (\<^verbatim>\<open>application/result_callback_delivery.py\<close>,
  \<^verbatim>\<open>infrastructure/result_callback_intents.py\<close>).  \<open>Callback_Protocol\<close> shows what each function
  does to a row; \<open>Callback_Delivery\<close> interprets the locale of \<open>Protocol\<close> on them and concludes that the
  table stays well formed and that a claim is settled at most once; \<open>Callback_Termination\<close> counts the
  attempts left and concludes that polling ends.  \<open>Callback_Signing\<close> has the event, its signature and
  the request (\<^verbatim>\<open>domain/result/callbacks.py\<close>, \<^verbatim>\<open>infrastructure/result_callbacks.py\<close>), with
  HMAC-SHA256 and the HTTP client as arguments; \<open>Wire_Dates\<close> shows that the text of an instant
  determines it, \<open>Callback_Signature\<close> that signing and verifying are inverse and that the signed text
  determines the event.  \<open>Callback_Demo\<close> is a concrete delivery.

  \<^bold>\<open>Conventions and bounds.\<close>  Digests are a parameter \<open>H\<close> of the model, a function of the
  document that is hashed; where a theorem needs more than its being a function it says so
  (\<open>digests\<close>: the values are well-formed digests; \<open>keeps_apart\<close>: the documents of one store do not
  collide).  New identifiers are an argument \<open>ids\<close>, the transaction's timestamp an argument \<open>now\<close>.
  Integers of Python and \<open>bigint\<close> counters are \<open>int\<close> or \<open>nat\<close>; counters are far from their bounds.
  A text is a list of code points below 256.

  \<^bold>\<open>Not modelled.\<close>  Row level security and the tenant and actor a connection is bound to: a
  store holds the rows one tenant sees.  Row and advisory locks: transactions run one after the other.
  The JSON copy of a row beside its columns, which the triggers compare field by field, and the size
  limit of an event's payload.  Fields with a single literal value.  Titles and texts of errors, outbox
  event ids, observability.  Texts are compared by code points, the \<open>C\<close> collation, and control
  characters are the ASCII ones.  Judgments of a model, which nothing in the code produces.  Sign-in,
  secrets, connectors, fixture execution, browsers, evidence storage, the HTTP
  client and the Temporal workflows, which rest on external processes; the tables they write are
  read here as they are.
\<close>

end
